(* ===== verification/DevPrelude.thy ===== *)
theory DevPrelude
  imports Complex_Main "HOL-Library.Char_ord" "HOL-Library.List_Lexorder" "HOL-Library.Sublist"
    "HOL-Library.Monad_Syntax"
begin

text \<open>
  Shared vocabulary of the development: the theorem collections the components use, strings as
  UTF-8 byte strings with the JavaScript string operations the sources call, JSON values, decimal
  printing, and a relational table as a list of rows with the single-row conditional UPDATE that
  every store method issues.  The locales \<open>guarded_update\<close>, \<open>row_invariant\<close> and \<open>cas_update\<close> state
  what such an UPDATE promises; each store method interprets the one it satisfies.
\<close>

named_theorems row_simps "what a conditional UPDATE does to the rows of a table"
named_theorems parse_simps "unfolding rules of the text parsers"
named_theorems status_simps "the status and phase classifications as case distinctions"

section \<open>Strings\<close>

text \<open>
  A JavaScript string is modelled by its UTF-8 bytes.  Every delimiter the sources look for is an
  ASCII character, and no byte of a multi-byte UTF-8 sequence is an ASCII byte, so splitting and
  prefix tests agree with the code; lengths are byte lengths.
\<close>

abbreviation newline :: string where "newline \<equiv> [CHR 0x0A]"

definition squote :: "string \<Rightarrow> string" where
  "squote s = CHR 0x27 # s @ [CHR 0x27]"

fun str_includes :: "string \<Rightarrow> string \<Rightarrow> bool" where
  "str_includes [] p = (p = [])"
| "str_includes (c # cs) p = (prefix p (c # cs) \<or> str_includes cs p)"

fun index_of :: "string \<Rightarrow> string \<Rightarrow> nat option" where
  "index_of [] p = (if p = [] then Some 0 else None)"
| "index_of (c # cs) p =
     (if prefix p (c # cs) then Some 0 else map_option Suc (index_of cs p))"

fun split_char :: "char \<Rightarrow> string \<Rightarrow> string list" where
  "split_char d [] = [[]]"
| "split_char d (c # cs) =
     (if c = d then [] # split_char d cs
      else (case split_char d cs of [] \<Rightarrow> [[c]] | w # ws \<Rightarrow> (c # w) # ws))"

fun join_with :: "string \<Rightarrow> string list \<Rightarrow> string" where
  "join_with sep [] = []"
| "join_with sep [w] = w"
| "join_with sep (w # v # ws) = w @ sep @ join_with sep (v # ws)"

definition is_digit :: "char \<Rightarrow> bool" where
  "is_digit c \<longleftrightarrow> CHR ''0'' \<le> c \<and> c \<le> CHR ''9''"

definition is_upper :: "char \<Rightarrow> bool" where
  "is_upper c \<longleftrightarrow> CHR ''A'' \<le> c \<and> c \<le> CHR ''Z''"

definition is_lower :: "char \<Rightarrow> bool" where
  "is_lower c \<longleftrightarrow> CHR ''a'' \<le> c \<and> c \<le> CHR ''z''"

definition is_alnum :: "char \<Rightarrow> bool" where
  "is_alnum c \<longleftrightarrow> is_digit c \<or> is_upper c \<or> is_lower c"

definition is_space :: "char \<Rightarrow> bool" where
  "is_space c \<longleftrightarrow> c \<in> {CHR '' '', CHR 0x09, CHR 0x0A, CHR 0x0B, CHR 0x0C, CHR 0x0D}"

definition lower_char :: "char \<Rightarrow> char" where
  "lower_char c = (if is_upper c then char_of (of_char c + 32 :: nat) else c)"

definition toLowerCase :: "string \<Rightarrow> string" where
  "toLowerCase s = map lower_char s"

definition trim :: "string \<Rightarrow> string" where
  "trim s = rev (dropWhile is_space (rev (dropWhile is_space s)))"

definition digit_val :: "char \<Rightarrow> nat" where
  "digit_val c = of_char c - 48"

definition digit_char :: "nat \<Rightarrow> char" where
  "digit_char n = char_of (48 + n mod 10)"

definition nat_of_digits :: "string \<Rightarrow> nat" where
  "nat_of_digits s = foldl (\<lambda>n c. 10 * n + digit_val c) 0 s"

fun show_nat :: "nat \<Rightarrow> string" where
  "show_nat n = (if n < 10 then [digit_char n] else show_nat (n div 10) @ [digit_char n])"

declare show_nat.simps [simp del]

definition show_int :: "int \<Rightarrow> string" where
  "show_int i = (if i < 0 then ''-'' @ show_nat (nat (- i)) else show_nat (nat i))"

lemma includes_iff: "str_includes s p \<longleftrightarrow> (\<exists>a b. s = a @ p @ b)"
proof (induction s)
  case (Cons c s)
  have "(\<exists>a b. c # s = a @ p @ b) \<longleftrightarrow> prefix p (c # s) \<or> (\<exists>a b. s = a @ p @ b)"
  proof
    assume "\<exists>a b. c # s = a @ p @ b"
    then obtain a b where ab: "c # s = a @ p @ b" by blast
    then show "prefix p (c # s) \<or> (\<exists>a b. s = a @ p @ b)"
      by (cases a) (auto simp: prefix_def)
  next
    assume "prefix p (c # s) \<or> (\<exists>a b. s = a @ p @ b)"
    then show "\<exists>a b. c # s = a @ p @ b"
    proof
      assume "prefix p (c # s)"
      then show ?thesis by (metis append_Nil prefixE)
    next
      assume "\<exists>a b. s = a @ p @ b"
      then show ?thesis by (metis append_Cons)
    qed
  qed
  then show ?case using Cons by simp
qed auto

lemma includes_append [simp]: "str_includes (a @ p @ b) p"
  by (auto simp: includes_iff)

lemma includes_mono: "str_includes s p \<Longrightarrow> str_includes (a @ s @ b) p"
  unfolding includes_iff by (metis append_assoc)

lemma includes_Nil [simp]: "str_includes s []"
  by (auto simp: includes_iff)

lemma split_char_ne [simp]: "split_char d s \<noteq> []"
  by (induction s) (auto split: list.splits)

lemma split_char_append:
  "d \<notin> set w \<Longrightarrow> split_char d (w @ d # s) = w # split_char d s"
  by (induction w) auto

lemma split_char_single: "d \<notin> set w \<Longrightarrow> split_char d w = [w]"
  by (induction w) auto

lemma split_char_no_sep: "w \<in> set (split_char d s) \<Longrightarrow> d \<notin> set w"
  by (induction s arbitrary: w) (auto split: list.splits if_splits)

lemma split_char_part: "w \<in> set (split_char d s) \<Longrightarrow> \<exists>a b. s = a @ w @ b"
proof (induction s arbitrary: w)
  case (Cons c s)
  obtain v vs where v: "split_char d s = v # vs" by (cases "split_char d s") auto
  then have first: "\<exists>b. s = v @ b"
    by (induction s arbitrary: v vs) (auto split: list.splits if_splits)
  from Cons.prems v consider "w = []" | "w = c # v" "c \<noteq> d" | "w \<in> set (split_char d s)"
    by (auto split: if_splits)
  then show ?case
  proof cases
    case 2
    with first show ?thesis by (metis append_Cons append_Nil)
  next
    case 3
    with Cons.IH show ?thesis by (metis append_Cons)
  qed auto
qed simp

lemma join_split_char: "join_with [d] (split_char d s) = s"
proof (induction s)
  case (Cons c s)
  obtain w ws where "split_char d s = w # ws" by (cases "split_char d s") auto
  then show ?case using Cons by (cases ws) auto
qed simp

lemma split_join_char:
  "\<lbrakk>ws \<noteq> []; \<forall>w\<in>set ws. d \<notin> set w\<rbrakk> \<Longrightarrow> split_char d (join_with [d] ws) = ws"
proof (induction ws)
  case (Cons w ws)
  then show ?case
    by (cases ws) (simp_all add: split_char_single split_char_append)
qed simp

lemma join_with_Cons: "ws \<noteq> [] \<Longrightarrow> join_with sep (w # ws) = w @ sep @ join_with sep ws"
  by (cases ws) auto

lemma digit_char_val [simp]: "digit_val (digit_char n) = n mod 10"
proof -
  have "n mod 10 < 10" by simp
  then have "(48 + n mod 10) mod 256 = 48 + n mod 10" by (intro mod_less) linarith
  then show ?thesis by (simp add: digit_val_def digit_char_def)
qed

lemma show_nat_ne [simp]: "show_nat n \<noteq> []"
  by (induction n rule: show_nat.induct) (subst show_nat.simps, auto)

lemma nat_of_digits_snoc [simp]: "nat_of_digits (s @ [c]) = 10 * nat_of_digits s + digit_val c"
  by (simp add: nat_of_digits_def)

lemma nat_of_digits_show [simp]: "nat_of_digits (show_nat n) = n"
proof (induction n rule: show_nat.induct)
  case (1 n)
  show ?case
  proof (cases "n < 10")
    case True
    then show ?thesis by (subst show_nat.simps) (simp add: nat_of_digits_def)
  next
    case False
    then show ?thesis using 1 by (subst show_nat.simps) simp
  qed
qed

lemma show_nat_inject [simp]: "show_nat m = show_nat n \<longleftrightarrow> m = n"
  by (metis nat_of_digits_show)

section \<open>JSON values\<close>

datatype json = JNull | JBool bool | JNum rat | JStr string | JArr "json list"
  | JObj "(string \<times> json) list"

fun json_field :: "string \<Rightarrow> json \<Rightarrow> json option" where
  "json_field k (JObj kvs) = map_of (rev kvs) k"
| "json_field k _ = None"

section \<open>Tables\<close>

text \<open>
  A table is the list of its rows.  \<open>UPDATE t SET f WHERE key = k AND guard RETURNING *\<close> rewrites the
  matching rows in one step (each statement runs under the row lock it takes) and returns them.
\<close>

definition sql_update :: "('r \<Rightarrow> bool) \<Rightarrow> ('r \<Rightarrow> 'r) \<Rightarrow> 'r list \<Rightarrow> 'r list \<times> 'r list" where
  "sql_update p f rs = (map (\<lambda>r. if p r then f r else r) rs, map f (filter p rs))"

definition find_row :: "('r \<Rightarrow> 'k) \<Rightarrow> 'k \<Rightarrow> 'r list \<Rightarrow> 'r option" where
  "find_row key k rs = List.find (\<lambda>r. key r = k) rs"

definition coalesce :: "'a option \<Rightarrow> 'a option \<Rightarrow> 'a option" where
  "coalesce a b = (case a of None \<Rightarrow> b | Some x \<Rightarrow> Some x)"

lemma find_row_Nil [simp]: "find_row key k [] = None"
  by (simp add: find_row_def)

lemma find_row_Cons [simp]:
  "find_row key k (r # rs) = (if key r = k then Some r else find_row key k rs)"
  by (simp add: find_row_def)

lemma find_row_SomeD: "find_row key k rs = Some r \<Longrightarrow> r \<in> set rs \<and> key r = k"
  by (induction rs) (auto split: if_splits)

lemma find_row_None_iff: "find_row key k rs = None \<longleftrightarrow> k \<notin> key ` set rs"
  by (induction rs) auto

lemma find_row_in_set: "\<lbrakk>distinct (map key rs); r \<in> set rs\<rbrakk> \<Longrightarrow> find_row key (key r) rs = Some r"
  by (induction rs) (auto simp: image_iff)

lemma find_row_Some_iff:
  "distinct (map key rs) \<Longrightarrow> find_row key k rs = Some r \<longleftrightarrow> r \<in> set rs \<and> key r = k"
  using find_row_SomeD find_row_in_set by metis

lemma find_row_append:
  "find_row key k (xs @ ys) = (case find_row key k xs of None \<Rightarrow> find_row key k ys | Some r \<Rightarrow> Some r)"
  by (induction xs) (simp_all split: option.splits)

lemma coalesce_simps [simp]: "coalesce None b = b" "coalesce (Some x) b = Some x"
  by (simp_all add: coalesce_def)

locale guarded_update =
  fixes key :: "'r \<Rightarrow> 'k" and guard :: "'r \<Rightarrow> bool" and upd :: "'r \<Rightarrow> 'r"
  assumes upd_key: "key (upd r) = key r"
begin

definition run :: "'k \<Rightarrow> 'r list \<Rightarrow> 'r list \<times> 'r list" where
  "run k rs = sql_update (\<lambda>r. key r = k \<and> guard r) upd rs"

lemma keys_kept: "map key (fst (run k rs)) = map key rs"
  by (auto simp: run_def sql_update_def upd_key)

lemma row_origin:
  "r' \<in> set (fst (run k rs)) \<Longrightarrow>
     r' \<in> set rs \<or> (\<exists>r\<in>set rs. key r = k \<and> guard r \<and> r' = upd r)"
  by (auto simp: run_def sql_update_def split: if_splits)

lemma find_other: "k' \<noteq> k \<Longrightarrow> find_row key k' (fst (run k rs)) = find_row key k' rs"
  by (induction rs) (auto simp: run_def sql_update_def upd_key)

lemma find_same:
  "find_row key k (fst (run k rs)) =
     map_option (\<lambda>r. if guard r then upd r else r) (find_row key k rs)"
  by (induction rs) (auto simp: run_def sql_update_def upd_key)

lemma miss_unchanged: "snd (run k rs) = [] \<Longrightarrow> fst (run k rs) = rs"
  by (auto simp: run_def sql_update_def filter_empty_conv intro!: map_idI)

lemma hit_iff: "snd (run k rs) \<noteq> [] \<longleftrightarrow> (\<exists>r\<in>set rs. key r = k \<and> guard r)"
  by (auto simp: run_def sql_update_def filter_empty_conv)

lemma hit_find:
  "distinct (map key rs) \<Longrightarrow>
     snd (run k rs) = (case find_row key k rs of
       None \<Rightarrow> [] | Some r \<Rightarrow> if guard r then [upd r] else [])"
proof (induction rs)
  case (Cons a rs)
  show ?case
  proof (cases "key a = k")
    case True
    then have "\<forall>r\<in>set rs. key r \<noteq> k" using Cons.prems by (auto simp: image_iff)
    then have "filter (\<lambda>r. key r = k \<and> guard r) rs = []" by (auto simp: filter_empty_conv)
    then show ?thesis using True by (simp add: run_def sql_update_def)
  next
    case False
    then show ?thesis using Cons by (simp add: run_def sql_update_def)
  qed
qed (simp add: run_def sql_update_def)

end

locale row_invariant = guarded_update +
  fixes inv :: "'a \<Rightarrow> bool"
  assumes upd_inv: "\<lbrakk>inv r; guard r\<rbrakk> \<Longrightarrow> inv (upd r)"
begin

lemma rows_inv: "\<forall>r\<in>set rs. inv r \<Longrightarrow> \<forall>r\<in>set (fst (run k rs)). inv r"
  using row_origin upd_inv by blast

end

locale cas_update = guarded_update +
  assumes upd_falsifies: "guard r \<Longrightarrow> \<not> guard (upd r)"
begin

lemma second_misses: "snd (run k (fst (run k rs))) = []"
proof -
  have "\<not> (key r = k \<and> guard r)" if "r \<in> set (fst (run k rs))" for r
    using that upd_falsifies by (auto simp: run_def sql_update_def split: if_splits)
  then show ?thesis using hit_iff by blast
qed

lemma second_idempotent: "fst (run k (fst (run k rs))) = fst (run k rs)"
  using second_misses miss_unchanged by blast

end

end
