(* ===== verification/JobTypes.thy ===== *)
theory JobTypes
  imports DevPrelude
begin

text \<open>
  The shared types of \<open>types.ts\<close>: each \<open>as const\<close> array becomes a datatype with its wire names and
  its runtime validator (the validators replace the CHECK constraints that migration 0022 dropped),
  each interface a record, and the tables of the plugin one record \<open>dev_db\<close>.  Timestamps are
  milliseconds since the epoch (\<open>int\<close>), costs are rationals, jsonb columns are JSON values or the
  structured type the mappers of \<open>pgMappers.ts\<close> return.
\<close>

section \<open>Enumerations and their validators\<close>

datatype dev_job_status =
    St_queued | St_provisioning | St_running | St_waiting | St_applying
  | St_done | St_failed | St_cancelled | St_stalled | St_budget_exceeded

fun dev_job_status_name :: "dev_job_status \<Rightarrow> string" where
  "dev_job_status_name St_queued = ''queued''"
| "dev_job_status_name St_provisioning = ''provisioning''"
| "dev_job_status_name St_running = ''running''"
| "dev_job_status_name St_waiting = ''waiting''"
| "dev_job_status_name St_applying = ''applying''"
| "dev_job_status_name St_done = ''done''"
| "dev_job_status_name St_failed = ''failed''"
| "dev_job_status_name St_cancelled = ''cancelled''"
| "dev_job_status_name St_stalled = ''stalled''"
| "dev_job_status_name St_budget_exceeded = ''budget_exceeded''"

definition DEV_JOB_STATUSES :: "dev_job_status list" where
  "DEV_JOB_STATUSES = [St_queued, St_provisioning, St_running, St_waiting, St_applying, St_done, St_failed, St_cancelled, St_stalled, St_budget_exceeded]"

definition isDevJobStatus :: "string \<Rightarrow> bool" where
  "isDevJobStatus x \<longleftrightarrow> x \<in> set (map dev_job_status_name DEV_JOB_STATUSES)"

definition dev_job_status_of :: "string \<Rightarrow> dev_job_status option" where
  "dev_job_status_of x = List.find (\<lambda>v. dev_job_status_name v = x) DEV_JOB_STATUSES"

lemma dev_job_status_exhaustive: "v \<in> set DEV_JOB_STATUSES"
  by (cases v) (simp_all add: DEV_JOB_STATUSES_def)

lemma dev_job_status_of_name [simp]: "dev_job_status_of (dev_job_status_name v) = Some v"
  by (cases v) (simp_all add: dev_job_status_of_def DEV_JOB_STATUSES_def)

lemma dev_job_status_name_inject [simp]: "dev_job_status_name v = dev_job_status_name w \<longleftrightarrow> v = w"
  by (metis dev_job_status_of_name option.inject)

lemma isDevJobStatus_iff: "isDevJobStatus x \<longleftrightarrow> (\<exists>v. dev_job_status_of x = Some v)"
proof -
  have "isDevJobStatus x \<longleftrightarrow> dev_job_status_of x \<noteq> None"
    by (auto simp: isDevJobStatus_def dev_job_status_of_def find_None_iff)
  then show ?thesis by auto
qed

datatype dev_job_phase =
    Ph_analyze | Ph_bootstrap | Ph_plan | Ph_clarify | Ph_await_human
  | Ph_implement | Ph_review | Ph_pr

fun dev_job_phase_name :: "dev_job_phase \<Rightarrow> string" where
  "dev_job_phase_name Ph_analyze = ''analyze''"
| "dev_job_phase_name Ph_bootstrap = ''bootstrap''"
| "dev_job_phase_name Ph_plan = ''plan''"
| "dev_job_phase_name Ph_clarify = ''clarify''"
| "dev_job_phase_name Ph_await_human = ''await_human''"
| "dev_job_phase_name Ph_implement = ''implement''"
| "dev_job_phase_name Ph_review = ''review''"
| "dev_job_phase_name Ph_pr = ''pr''"

definition DEV_JOB_PHASES :: "dev_job_phase list" where
  "DEV_JOB_PHASES = [Ph_analyze, Ph_bootstrap, Ph_plan, Ph_clarify, Ph_await_human, Ph_implement, Ph_review, Ph_pr]"

definition isDevJobPhase :: "string \<Rightarrow> bool" where
  "isDevJobPhase x \<longleftrightarrow> x \<in> set (map dev_job_phase_name DEV_JOB_PHASES)"

definition dev_job_phase_of :: "string \<Rightarrow> dev_job_phase option" where
  "dev_job_phase_of x = List.find (\<lambda>v. dev_job_phase_name v = x) DEV_JOB_PHASES"

lemma dev_job_phase_exhaustive: "v \<in> set DEV_JOB_PHASES"
  by (cases v) (simp_all add: DEV_JOB_PHASES_def)

lemma dev_job_phase_of_name [simp]: "dev_job_phase_of (dev_job_phase_name v) = Some v"
  by (cases v) (simp_all add: dev_job_phase_of_def DEV_JOB_PHASES_def)

lemma dev_job_phase_name_inject [simp]: "dev_job_phase_name v = dev_job_phase_name w \<longleftrightarrow> v = w"
  by (metis dev_job_phase_of_name option.inject)

lemma isDevJobPhase_iff: "isDevJobPhase x \<longleftrightarrow> (\<exists>v. dev_job_phase_of x = Some v)"
proof -
  have "isDevJobPhase x \<longleftrightarrow> dev_job_phase_of x \<noteq> None"
    by (auto simp: isDevJobPhase_def dev_job_phase_of_def find_None_iff)
  then show ?thesis by auto
qed

datatype dev_job_kind =
    Kind_analyze | Kind_fix_issue | Kind_implement

fun dev_job_kind_name :: "dev_job_kind \<Rightarrow> string" where
  "dev_job_kind_name Kind_analyze = ''analyze''"
| "dev_job_kind_name Kind_fix_issue = ''fix_issue''"
| "dev_job_kind_name Kind_implement = ''implement''"

definition DEV_JOB_KINDS :: "dev_job_kind list" where
  "DEV_JOB_KINDS = [Kind_analyze, Kind_fix_issue, Kind_implement]"

definition isDevJobKind :: "string \<Rightarrow> bool" where
  "isDevJobKind x \<longleftrightarrow> x \<in> set (map dev_job_kind_name DEV_JOB_KINDS)"

definition dev_job_kind_of :: "string \<Rightarrow> dev_job_kind option" where
  "dev_job_kind_of x = List.find (\<lambda>v. dev_job_kind_name v = x) DEV_JOB_KINDS"

lemma dev_job_kind_exhaustive: "v \<in> set DEV_JOB_KINDS"
  by (cases v) (simp_all add: DEV_JOB_KINDS_def)

lemma dev_job_kind_of_name [simp]: "dev_job_kind_of (dev_job_kind_name v) = Some v"
  by (cases v) (simp_all add: dev_job_kind_of_def DEV_JOB_KINDS_def)

lemma dev_job_kind_name_inject [simp]: "dev_job_kind_name v = dev_job_kind_name w \<longleftrightarrow> v = w"
  by (metis dev_job_kind_of_name option.inject)

lemma isDevJobKind_iff: "isDevJobKind x \<longleftrightarrow> (\<exists>v. dev_job_kind_of x = Some v)"
proof -
  have "isDevJobKind x \<longleftrightarrow> dev_job_kind_of x \<noteq> None"
    by (auto simp: isDevJobKind_def dev_job_kind_of_def find_None_iff)
  then show ?thesis by auto
qed

datatype dev_job_source =
    Src_chat | Src_admin | Src_conductor | Src_webhook | Src_schedule
  | Src_tracker | Src_plugin

fun dev_job_source_name :: "dev_job_source \<Rightarrow> string" where
  "dev_job_source_name Src_chat = ''chat''"
| "dev_job_source_name Src_admin = ''admin''"
| "dev_job_source_name Src_conductor = ''conductor''"
| "dev_job_source_name Src_webhook = ''webhook''"
| "dev_job_source_name Src_schedule = ''schedule''"
| "dev_job_source_name Src_tracker = ''tracker''"
| "dev_job_source_name Src_plugin = ''plugin''"

definition DEV_JOB_SOURCES :: "dev_job_source list" where
  "DEV_JOB_SOURCES = [Src_chat, Src_admin, Src_conductor, Src_webhook, Src_schedule, Src_tracker, Src_plugin]"

definition isDevJobSource :: "string \<Rightarrow> bool" where
  "isDevJobSource x \<longleftrightarrow> x \<in> set (map dev_job_source_name DEV_JOB_SOURCES)"

definition dev_job_source_of :: "string \<Rightarrow> dev_job_source option" where
  "dev_job_source_of x = List.find (\<lambda>v. dev_job_source_name v = x) DEV_JOB_SOURCES"

lemma dev_job_source_exhaustive: "v \<in> set DEV_JOB_SOURCES"
  by (cases v) (simp_all add: DEV_JOB_SOURCES_def)

lemma dev_job_source_of_name [simp]: "dev_job_source_of (dev_job_source_name v) = Some v"
  by (cases v) (simp_all add: dev_job_source_of_def DEV_JOB_SOURCES_def)

lemma dev_job_source_name_inject [simp]: "dev_job_source_name v = dev_job_source_name w \<longleftrightarrow> v = w"
  by (metis dev_job_source_of_name option.inject)

lemma isDevJobSource_iff: "isDevJobSource x \<longleftrightarrow> (\<exists>v. dev_job_source_of x = Some v)"
proof -
  have "isDevJobSource x \<longleftrightarrow> dev_job_source_of x \<noteq> None"
    by (auto simp: isDevJobSource_def dev_job_source_of_def find_None_iff)
  then show ?thesis by auto
qed

datatype dev_job_event_type =
    Ev_log | Ev_tool | Ev_status | Ev_heartbeat | Ev_egress
  | Ev_token | Ev_gate | Ev_phase | Ev_approval | Ev_budget_warning

fun dev_job_event_type_name :: "dev_job_event_type \<Rightarrow> string" where
  "dev_job_event_type_name Ev_log = ''log''"
| "dev_job_event_type_name Ev_tool = ''tool''"
| "dev_job_event_type_name Ev_status = ''status''"
| "dev_job_event_type_name Ev_heartbeat = ''heartbeat''"
| "dev_job_event_type_name Ev_egress = ''egress''"
| "dev_job_event_type_name Ev_token = ''token''"
| "dev_job_event_type_name Ev_gate = ''gate''"
| "dev_job_event_type_name Ev_phase = ''phase''"
| "dev_job_event_type_name Ev_approval = ''approval''"
| "dev_job_event_type_name Ev_budget_warning = ''budget_warning''"

definition DEV_JOB_EVENT_TYPES :: "dev_job_event_type list" where
  "DEV_JOB_EVENT_TYPES = [Ev_log, Ev_tool, Ev_status, Ev_heartbeat, Ev_egress, Ev_token, Ev_gate, Ev_phase, Ev_approval, Ev_budget_warning]"

definition isDevJobEventType :: "string \<Rightarrow> bool" where
  "isDevJobEventType x \<longleftrightarrow> x \<in> set (map dev_job_event_type_name DEV_JOB_EVENT_TYPES)"

definition dev_job_event_type_of :: "string \<Rightarrow> dev_job_event_type option" where
  "dev_job_event_type_of x = List.find (\<lambda>v. dev_job_event_type_name v = x) DEV_JOB_EVENT_TYPES"

lemma dev_job_event_type_exhaustive: "v \<in> set DEV_JOB_EVENT_TYPES"
  by (cases v) (simp_all add: DEV_JOB_EVENT_TYPES_def)

lemma dev_job_event_type_of_name [simp]: "dev_job_event_type_of (dev_job_event_type_name v) = Some v"
  by (cases v) (simp_all add: dev_job_event_type_of_def DEV_JOB_EVENT_TYPES_def)

lemma dev_job_event_type_name_inject [simp]: "dev_job_event_type_name v = dev_job_event_type_name w \<longleftrightarrow> v = w"
  by (metis dev_job_event_type_of_name option.inject)

lemma isDevJobEventType_iff: "isDevJobEventType x \<longleftrightarrow> (\<exists>v. dev_job_event_type_of x = Some v)"
proof -
  have "isDevJobEventType x \<longleftrightarrow> dev_job_event_type_of x \<noteq> None"
    by (auto simp: isDevJobEventType_def dev_job_event_type_of_def find_None_iff)
  then show ?thesis by auto
qed

datatype dev_job_auth_mode =
    Auth_api_key | Auth_subscription

fun dev_job_auth_mode_name :: "dev_job_auth_mode \<Rightarrow> string" where
  "dev_job_auth_mode_name Auth_api_key = ''api_key''"
| "dev_job_auth_mode_name Auth_subscription = ''subscription''"

definition DEV_JOB_AUTH_MODES :: "dev_job_auth_mode list" where
  "DEV_JOB_AUTH_MODES = [Auth_api_key, Auth_subscription]"

definition isDevJobAuthMode :: "string \<Rightarrow> bool" where
  "isDevJobAuthMode x \<longleftrightarrow> x \<in> set (map dev_job_auth_mode_name DEV_JOB_AUTH_MODES)"

definition dev_job_auth_mode_of :: "string \<Rightarrow> dev_job_auth_mode option" where
  "dev_job_auth_mode_of x = List.find (\<lambda>v. dev_job_auth_mode_name v = x) DEV_JOB_AUTH_MODES"

lemma dev_job_auth_mode_exhaustive: "v \<in> set DEV_JOB_AUTH_MODES"
  by (cases v) (simp_all add: DEV_JOB_AUTH_MODES_def)

lemma dev_job_auth_mode_of_name [simp]: "dev_job_auth_mode_of (dev_job_auth_mode_name v) = Some v"
  by (cases v) (simp_all add: dev_job_auth_mode_of_def DEV_JOB_AUTH_MODES_def)

lemma dev_job_auth_mode_name_inject [simp]: "dev_job_auth_mode_name v = dev_job_auth_mode_name w \<longleftrightarrow> v = w"
  by (metis dev_job_auth_mode_of_name option.inject)

lemma isDevJobAuthMode_iff: "isDevJobAuthMode x \<longleftrightarrow> (\<exists>v. dev_job_auth_mode_of x = Some v)"
proof -
  have "isDevJobAuthMode x \<longleftrightarrow> dev_job_auth_mode_of x \<noteq> None"
    by (auto simp: isDevJobAuthMode_def dev_job_auth_mode_of_def find_None_iff)
  then show ?thesis by auto
qed

datatype dev_job_artifact_kind =
    Art_diff | Art_test_report | Art_analysis | Art_plan | Art_summary
  | Art_bootstrap_report | Art_questions | Art_answers | Art_review_verdict

fun dev_job_artifact_kind_name :: "dev_job_artifact_kind \<Rightarrow> string" where
  "dev_job_artifact_kind_name Art_diff = ''diff''"
| "dev_job_artifact_kind_name Art_test_report = ''test_report''"
| "dev_job_artifact_kind_name Art_analysis = ''analysis''"
| "dev_job_artifact_kind_name Art_plan = ''plan''"
| "dev_job_artifact_kind_name Art_summary = ''summary''"
| "dev_job_artifact_kind_name Art_bootstrap_report = ''bootstrap_report''"
| "dev_job_artifact_kind_name Art_questions = ''questions''"
| "dev_job_artifact_kind_name Art_answers = ''answers''"
| "dev_job_artifact_kind_name Art_review_verdict = ''review_verdict''"

definition DEV_JOB_ARTIFACT_KINDS :: "dev_job_artifact_kind list" where
  "DEV_JOB_ARTIFACT_KINDS = [Art_diff, Art_test_report, Art_analysis, Art_plan, Art_summary, Art_bootstrap_report, Art_questions, Art_answers, Art_review_verdict]"

definition isDevJobArtifactKind :: "string \<Rightarrow> bool" where
  "isDevJobArtifactKind x \<longleftrightarrow> x \<in> set (map dev_job_artifact_kind_name DEV_JOB_ARTIFACT_KINDS)"

definition dev_job_artifact_kind_of :: "string \<Rightarrow> dev_job_artifact_kind option" where
  "dev_job_artifact_kind_of x = List.find (\<lambda>v. dev_job_artifact_kind_name v = x) DEV_JOB_ARTIFACT_KINDS"

lemma dev_job_artifact_kind_exhaustive: "v \<in> set DEV_JOB_ARTIFACT_KINDS"
  by (cases v) (simp_all add: DEV_JOB_ARTIFACT_KINDS_def)

lemma dev_job_artifact_kind_of_name [simp]: "dev_job_artifact_kind_of (dev_job_artifact_kind_name v) = Some v"
  by (cases v) (simp_all add: dev_job_artifact_kind_of_def DEV_JOB_ARTIFACT_KINDS_def)

lemma dev_job_artifact_kind_name_inject [simp]: "dev_job_artifact_kind_name v = dev_job_artifact_kind_name w \<longleftrightarrow> v = w"
  by (metis dev_job_artifact_kind_of_name option.inject)

lemma isDevJobArtifactKind_iff: "isDevJobArtifactKind x \<longleftrightarrow> (\<exists>v. dev_job_artifact_kind_of x = Some v)"
proof -
  have "isDevJobArtifactKind x \<longleftrightarrow> dev_job_artifact_kind_of x \<noteq> None"
    by (auto simp: isDevJobArtifactKind_def dev_job_artifact_kind_of_def find_None_iff)
  then show ?thesis by auto
qed

datatype runner_backend_kind =
    Be_local | Be_docker | Be_fly

fun runner_backend_kind_name :: "runner_backend_kind \<Rightarrow> string" where
  "runner_backend_kind_name Be_local = ''local''"
| "runner_backend_kind_name Be_docker = ''docker''"
| "runner_backend_kind_name Be_fly = ''fly''"

definition RUNNER_BACKEND_KINDS :: "runner_backend_kind list" where
  "RUNNER_BACKEND_KINDS = [Be_local, Be_docker, Be_fly]"

definition isRunnerBackendKind :: "string \<Rightarrow> bool" where
  "isRunnerBackendKind x \<longleftrightarrow> x \<in> set (map runner_backend_kind_name RUNNER_BACKEND_KINDS)"

definition runner_backend_kind_of :: "string \<Rightarrow> runner_backend_kind option" where
  "runner_backend_kind_of x = List.find (\<lambda>v. runner_backend_kind_name v = x) RUNNER_BACKEND_KINDS"

lemma runner_backend_kind_exhaustive: "v \<in> set RUNNER_BACKEND_KINDS"
  by (cases v) (simp_all add: RUNNER_BACKEND_KINDS_def)

lemma runner_backend_kind_of_name [simp]: "runner_backend_kind_of (runner_backend_kind_name v) = Some v"
  by (cases v) (simp_all add: runner_backend_kind_of_def RUNNER_BACKEND_KINDS_def)

lemma runner_backend_kind_name_inject [simp]: "runner_backend_kind_name v = runner_backend_kind_name w \<longleftrightarrow> v = w"
  by (metis runner_backend_kind_of_name option.inject)

lemma isRunnerBackendKind_iff: "isRunnerBackendKind x \<longleftrightarrow> (\<exists>v. runner_backend_kind_of x = Some v)"
proof -
  have "isRunnerBackendKind x \<longleftrightarrow> runner_backend_kind_of x \<noteq> None"
    by (auto simp: isRunnerBackendKind_def runner_backend_kind_of_def find_None_iff)
  then show ?thesis by auto
qed

datatype dev_repo_credential_kind =
    Cred_github_app | Cred_device_flow | Cred_pat | Cred_deploy_key

fun dev_repo_credential_kind_name :: "dev_repo_credential_kind \<Rightarrow> string" where
  "dev_repo_credential_kind_name Cred_github_app = ''github_app''"
| "dev_repo_credential_kind_name Cred_device_flow = ''device_flow''"
| "dev_repo_credential_kind_name Cred_pat = ''pat''"
| "dev_repo_credential_kind_name Cred_deploy_key = ''deploy_key''"

definition DEV_REPO_CREDENTIAL_KINDS :: "dev_repo_credential_kind list" where
  "DEV_REPO_CREDENTIAL_KINDS = [Cred_github_app, Cred_device_flow, Cred_pat, Cred_deploy_key]"

definition isDevRepoCredentialKind :: "string \<Rightarrow> bool" where
  "isDevRepoCredentialKind x \<longleftrightarrow> x \<in> set (map dev_repo_credential_kind_name DEV_REPO_CREDENTIAL_KINDS)"

definition dev_repo_credential_kind_of :: "string \<Rightarrow> dev_repo_credential_kind option" where
  "dev_repo_credential_kind_of x = List.find (\<lambda>v. dev_repo_credential_kind_name v = x) DEV_REPO_CREDENTIAL_KINDS"

lemma dev_repo_credential_kind_exhaustive: "v \<in> set DEV_REPO_CREDENTIAL_KINDS"
  by (cases v) (simp_all add: DEV_REPO_CREDENTIAL_KINDS_def)

lemma dev_repo_credential_kind_of_name [simp]: "dev_repo_credential_kind_of (dev_repo_credential_kind_name v) = Some v"
  by (cases v) (simp_all add: dev_repo_credential_kind_of_def DEV_REPO_CREDENTIAL_KINDS_def)

lemma dev_repo_credential_kind_name_inject [simp]: "dev_repo_credential_kind_name v = dev_repo_credential_kind_name w \<longleftrightarrow> v = w"
  by (metis dev_repo_credential_kind_of_name option.inject)

lemma isDevRepoCredentialKind_iff: "isDevRepoCredentialKind x \<longleftrightarrow> (\<exists>v. dev_repo_credential_kind_of x = Some v)"
proof -
  have "isDevRepoCredentialKind x \<longleftrightarrow> dev_repo_credential_kind_of x \<noteq> None"
    by (auto simp: isDevRepoCredentialKind_def dev_repo_credential_kind_of_def find_None_iff)
  then show ?thesis by auto
qed
section \<open>Status classes\<close>

definition isTerminalDevJobStatus :: "dev_job_status \<Rightarrow> bool" where
  "isTerminalDevJobStatus s \<longleftrightarrow> s \<in> {St_done, St_failed, St_cancelled, St_stalled, St_budget_exceeded}"

definition active_status :: "dev_job_status \<Rightarrow> bool" where
  "active_status s \<longleftrightarrow> s \<in> {St_provisioning, St_running, St_applying}"

lemma isTerminal_simps [simp, status_simps]:
  "isTerminalDevJobStatus St_done" "isTerminalDevJobStatus St_failed"
  "isTerminalDevJobStatus St_cancelled" "isTerminalDevJobStatus St_stalled"
  "isTerminalDevJobStatus St_budget_exceeded"
  "\<not> isTerminalDevJobStatus St_queued" "\<not> isTerminalDevJobStatus St_provisioning"
  "\<not> isTerminalDevJobStatus St_running" "\<not> isTerminalDevJobStatus St_waiting"
  "\<not> isTerminalDevJobStatus St_applying"
  by (simp_all add: isTerminalDevJobStatus_def)

lemma active_status_simps [simp, status_simps]:
  "active_status St_provisioning" "active_status St_running" "active_status St_applying"
  "\<not> active_status St_queued" "\<not> active_status St_waiting" "\<not> active_status St_done"
  "\<not> active_status St_failed" "\<not> active_status St_cancelled" "\<not> active_status St_stalled"
  "\<not> active_status St_budget_exceeded"
  by (simp_all add: active_status_def)

lemma active_not_terminal: "active_status s \<Longrightarrow> \<not> isTerminalDevJobStatus s"
  by (cases s) simp_all

section \<open>Rows\<close>

datatype pipeline_mode = Gated | Collapsed

record runner_handle =
  h_backend :: runner_backend_kind
  h_id :: string
  h_pid :: "int option"
  h_startedAt :: int

datatype dev_job_outcome = Out_diff_ready | Out_no_changes | Out_failed

record dev_job_usage =
  u_tokensIn :: "int option"
  u_tokensOut :: "int option"
  u_costUsd :: "rat option"
  u_estimated :: "bool option"

record dev_job_result =
  r_outcome :: dev_job_outcome
  r_diffArtifactId :: "string option"
  r_summary :: "string option"
  r_error :: "string option"
  r_usage :: "dev_job_usage option"

record diff_policy_overrides =
  ov_maxFiles :: "nat option"
  ov_maxAddedLines :: "nat option"
  ov_extraProtectedGlobs :: "string list option"
  ov_unprotectedGlobs :: "string list option"

record dev_repo =
  rp_id :: string
  rp_forgeKind :: string
  rp_owner :: string
  rp_name :: string
  rp_cloneUrl :: string
  rp_defaultBranch :: string
  rp_credentialKind :: dev_repo_credential_kind
  rp_credentialRef :: string
  rp_trackerKind :: "string option"
  rp_trackerConfig :: json
  rp_allowedTriggers :: "string list"
  rp_allowedLaunchers :: "string list"
  rp_egressAllowlist :: "string list"
  rp_runsTests :: bool
  rp_branchProtectionOk :: "bool option"
  rp_branchProtectionCheckedAt :: "int option"
  rp_approverRoleKey :: "string option"
  rp_gateDeadlineIso :: string
  rp_bootstrapCommand :: "string option"
  rp_testCommand :: "string option"
  rp_policyOverrides :: diff_policy_overrides
  rp_triggerLabel :: string
  rp_webhookEnabled :: bool
  rp_webhookSenders :: "string list"
  rp_budgetCostUsd :: "rat option"
  rp_budgetTokens :: "int option"
  rp_dockerInJob :: bool
  rp_createdBy :: string
  rp_createdAt :: int
  rp_updatedAt :: int

record dev_job =
  j_id :: string
  j_repoId :: string
  j_kind :: dev_job_kind
  j_brief :: string
  j_source :: dev_job_source
  j_sourceRef :: "string option"
  j_baseSha :: "string option"
  j_backend :: runner_backend_kind
  j_agentKind :: string
  j_authMode :: dev_job_auth_mode
  j_provision :: nat
  j_phase :: dev_job_phase
  j_pipelineMode :: pipeline_mode
  j_reviewAttempt :: nat
  j_reviewFingerprint :: "string option"
  j_retryOf :: "string option"
  j_status :: dev_job_status
  j_claimedBy :: "string option"
  j_claimedAt :: "int option"
  j_lastHeartbeatAt :: "int option"
  j_runnerHandle :: "runner_handle option"
  j_runnerTokenHash :: "string option"
  j_branch :: "string option"
  j_prUrl :: "string option"
  j_result :: "dev_job_result option"
  j_error :: "string option"
  j_tokensIn :: int
  j_tokensOut :: int
  j_costUsd :: rat
  j_budgetCostUsd :: "rat option"
  j_budgetTokens :: "int option"
  j_usageEstimated :: bool
  j_createdBy :: string
  j_createdAt :: int
  j_startedAt :: "int option"
  j_endedAt :: "int option"
  j_updatedAt :: int

record dev_job_event =
  e_id :: nat
  e_jobId :: string
  e_provision :: nat
  e_seq :: nat
  e_type :: dev_job_event_type
  e_ts :: int
  e_payload :: json

record dev_job_artifact =
  a_id :: string
  a_jobId :: string
  a_kind :: dev_job_artifact_kind
  a_content :: string
  a_meta :: json
  a_createdAt :: int

record new_dev_job =
  n_repoId :: string
  n_kind :: dev_job_kind
  n_brief :: string
  n_source :: dev_job_source
  n_sourceRef :: "string option"
  n_baseSha :: "string option"
  n_backend :: runner_backend_kind
  n_agentKind :: "string option"
  n_authMode :: "dev_job_auth_mode option"
  n_provision :: "nat option"
  n_phase :: "dev_job_phase option"
  n_status :: "dev_job_status option"
  n_branch :: "string option"
  n_createdBy :: string

section \<open>Gates\<close>

datatype gate_status = Gate_waiting | Gate_resolved | Gate_rejected | Gate_expired | Gate_cancelled

datatype gate_kind = Review_gate | Diff_policy_gate

datatype gate_principal_kind = Principal_user | Principal_role

record gate_question =
  q_id :: string
  q_text :: string

record gate_answer =
  ans_questionId :: string
  ans_text :: string

record dev_job_gate =
  g_id :: string
  g_jobId :: string
  g_gateKind :: gate_kind
  g_planArtifactId :: "string option"
  g_planSha256 :: "string option"
  g_baseSha :: "string option"
  g_questions :: "gate_question list"
  g_principalKind :: gate_principal_kind
  g_principalRef :: string
  g_status :: gate_status
  g_answers :: "gate_answer list option"
  g_resolvedBy :: "string option"
  g_resolvedAt :: "int option"
  g_deadlineAt :: "int option"
  g_createdAt :: int

section \<open>The database\<close>

text \<open>
  The tables of the plugin, each a list of rows in insertion order.  \<open>db_nextEventId\<close> is the
  IDENTITY counter of \<open>dev_job_events\<close>.
\<close>

record dev_db =
  db_repos :: "dev_repo list"
  db_jobs :: "dev_job list"
  db_events :: "dev_job_event list"
  db_artifacts :: "dev_job_artifact list"
  db_gates :: "dev_job_gate list"
  db_nextEventId :: nat

definition empty_db :: dev_db where
  "empty_db = \<lparr>db_repos = [], db_jobs = [], db_events = [], db_artifacts = [], db_gates = [],
     db_nextEventId = 1\<rparr>"

text \<open>The host event namespace (provision 0) and the pinned wire protocol version.\<close>

definition HOST_EVENT_PROVISION :: nat where "HOST_EVENT_PROVISION = 0"

definition RUNNER_PROTOCOL_VERSION :: nat where "RUNNER_PROTOCOL_VERSION = 1"

end
