(* ===== verification/Transitions.thy ===== *)
theory Transitions
  imports JobTypes
begin

text \<open>
  The phase table (\<open>pipeline/transitions.ts\<close>): a pure function from the phase result and the job's
  mode and kind to the next step.  \<open>phase_edge\<close> is the abstract phase graph the table implements; the
  reachability lemmas show which phases a runner can reach without a human.
\<close>

datatype review_verdict_kind = Approve | Request_changes

record phase_result =
  pr_phase :: dev_job_phase
  pr_ok :: bool
  pr_hasQuestions :: "bool option"
  pr_reviewVerdict :: "review_verdict_kind option"
  pr_reviewLoopExhausted :: "bool option"

record transition_context =
  tc_mode :: pipeline_mode
  tc_kind :: dev_job_kind

datatype transition =
    T_advance dev_job_phase bool
  | T_park
  | T_requeue dev_job_phase
  | T_retry_implement
  | T_done
  | T_fail string

definition GATED_ORDER :: "dev_job_phase list" where
  "GATED_ORDER = [Ph_analyze, Ph_bootstrap, Ph_plan, Ph_clarify, Ph_await_human, Ph_implement,
     Ph_review, Ph_pr]"

definition COLLAPSED_ORDER :: "dev_job_phase list" where
  "COLLAPSED_ORDER = [Ph_analyze, Ph_implement, Ph_review, Ph_pr]"

text \<open>The \<open>default\<close> branch of the switch is unreachable for a value of the phase type.\<close>

definition computeTransition :: "phase_result \<Rightarrow> transition_context \<Rightarrow> transition" where
  "computeTransition result ctx =
     (if \<not> pr_ok result
      then T_fail (''phase '' @ dev_job_phase_name (pr_phase result) @ '' reported failure'')
      else if tc_kind ctx = Kind_analyze
      then (if pr_phase result = Ph_analyze then T_done
            else T_fail ''analyze job ran a non-analyze phase'')
      else case pr_phase result of
        Ph_analyze \<Rightarrow> T_advance (if tc_mode ctx = Gated then Ph_bootstrap else Ph_implement) True
      | Ph_bootstrap \<Rightarrow> T_advance Ph_plan True
      | Ph_plan \<Rightarrow> T_advance Ph_clarify True
      | Ph_clarify \<Rightarrow> T_park
      | Ph_await_human \<Rightarrow> T_requeue Ph_implement
      | Ph_implement \<Rightarrow> T_advance Ph_review True
      | Ph_review \<Rightarrow>
          (case pr_reviewVerdict result of
             Some Approve \<Rightarrow> T_advance Ph_pr True
           | Some Request_changes \<Rightarrow>
               (if pr_reviewLoopExhausted result = Some True then T_advance Ph_pr True
                else T_retry_implement)
           | None \<Rightarrow> T_fail ''review produced no verdict'')
      | Ph_pr \<Rightarrow> T_done)"

definition phaseOrder :: "pipeline_mode \<Rightarrow> dev_job_phase list" where
  "phaseOrder m = (if m = Gated then GATED_ORDER else COLLAPSED_ORDER)"

fun list_index :: "'a \<Rightarrow> 'a list \<Rightarrow> int" where
  "list_index x [] = -1"
| "list_index x (y # ys) =
     (if x = y then 0 else (let i = list_index x ys in if i < 0 then -1 else i + 1))"

definition isForward :: "dev_job_phase \<Rightarrow> dev_job_phase \<Rightarrow> pipeline_mode \<Rightarrow> bool" where
  "isForward from_phase to_phase m \<longleftrightarrow>
     list_index from_phase (phaseOrder m) < list_index to_phase (phaseOrder m)"

section \<open>The abstract phase graph\<close>

text \<open>Where the phase pointer moves on a transition; \<open>None\<close> means it does not move.\<close>

definition next_phase :: "transition \<Rightarrow> dev_job_phase option" where
  "next_phase t = (case t of T_advance p _ \<Rightarrow> Some p | T_park \<Rightarrow> Some Ph_await_human
     | T_requeue p \<Rightarrow> Some p | T_retry_implement \<Rightarrow> Some Ph_implement | _ \<Rightarrow> None)"

definition runner_edge :: "transition_context \<Rightarrow> dev_job_phase \<Rightarrow> dev_job_phase \<Rightarrow> bool" where
  "runner_edge ctx a b \<longleftrightarrow>
     (\<exists>r. pr_phase r = a \<and> a \<noteq> Ph_await_human \<and> next_phase (computeTransition r ctx) = Some b)"

definition phase_edges :: "transition_context \<Rightarrow> (dev_job_phase \<times> dev_job_phase) list" where
  "phase_edges ctx =
     (if tc_kind ctx = Kind_analyze then []
      else (if tc_mode ctx = Gated then [(Ph_analyze, Ph_bootstrap)] else [(Ph_analyze, Ph_implement)]) @
        [(Ph_bootstrap, Ph_plan), (Ph_plan, Ph_clarify), (Ph_clarify, Ph_await_human),
         (Ph_implement, Ph_review), (Ph_review, Ph_pr), (Ph_review, Ph_implement)])"

lemma runner_edge_graph: "runner_edge ctx a b \<longleftrightarrow> (a, b) \<in> set (phase_edges ctx)"
proof
  assume "runner_edge ctx a b"
  then show "(a, b) \<in> set (phase_edges ctx)"
    by (auto simp: runner_edge_def computeTransition_def next_phase_def phase_edges_def
        split: if_splits dev_job_phase.splits option.splits review_verdict_kind.splits)
next
  assume e: "(a, b) \<in> set (phase_edges ctx)"
  define r where "r v = \<lparr>pr_phase = a, pr_ok = True, pr_hasQuestions = None,
    pr_reviewVerdict = Some v, pr_reviewLoopExhausted = None\<rparr>" for v
  have "next_phase (computeTransition (r Approve) ctx) = Some b \<or>
        next_phase (computeTransition (r Request_changes) ctx) = Some b" "a \<noteq> Ph_await_human"
    using e by (auto simp: r_def computeTransition_def next_phase_def phase_edges_def split: if_splits)
  moreover have "pr_phase (r v) = a" for v by (simp add: r_def)
  ultimately show "runner_edge ctx a b" unfolding runner_edge_def by blast
qed

text \<open>The phase table implements exactly the documented graph: the phases a runner's result can move
  a job to are the graph's successors, in both modes and for every job kind.\<close>

theorem runner_edge_iff: "runner_edge ctx a b \<longleftrightarrow> (a, b) \<in> set (phase_edges ctx)"
  by (rule runner_edge_graph)

definition behind_gate :: "dev_job_phase \<Rightarrow> bool" where
  "behind_gate p \<longleftrightarrow> p \<in> {Ph_implement, Ph_review, Ph_pr}"

lemma gated_edge_front:
  "\<lbrakk>runner_edge ctx a b; tc_mode ctx = Gated; \<not> behind_gate a\<rbrakk> \<Longrightarrow> \<not> behind_gate b"
  by (auto simp: runner_edge_graph phase_edges_def behind_gate_def split: if_splits)

text \<open>C3: in gated mode no sequence of runner results, however adversarial, moves a job that has not
  passed the human gate into implement, review or pr.\<close>

theorem gate_not_bypassable:
  assumes "(runner_edge ctx)\<^sup>*\<^sup>* a b" "tc_mode ctx = Gated" "\<not> behind_gate a"
  shows "\<not> behind_gate b"
  using assms(1)
proof induction
  case base
  then show ?case using assms(3) .
next
  case (step b c)
  then show ?case using gated_edge_front assms(2) by blast
qed

theorem gate_not_bypassable_witness:
  "(runner_edge \<lparr>tc_mode = Gated, tc_kind = Kind_implement\<rparr>)\<^sup>*\<^sup>* Ph_analyze Ph_await_human \<and>
   \<not> behind_gate Ph_await_human"
proof -
  let ?c = "\<lparr>tc_mode = Gated, tc_kind = Kind_implement\<rparr>"
  have e: "runner_edge ?c Ph_analyze Ph_bootstrap" "runner_edge ?c Ph_bootstrap Ph_plan"
    "runner_edge ?c Ph_plan Ph_clarify" "runner_edge ?c Ph_clarify Ph_await_human"
    by (simp_all add: runner_edge_graph phase_edges_def)
  then have "(runner_edge ?c)\<^sup>*\<^sup>* Ph_analyze Ph_await_human"
    by (meson rtranclp.rtrancl_into_rtrancl rtranclp.rtrancl_refl)
  moreover from this have "\<not> behind_gate Ph_await_human"
    by (rule gate_not_bypassable) (simp_all add: behind_gate_def)
  ultimately show ?thesis by blast
qed

text \<open>Every edge of the gated table goes forward in the phase order, except the review loop's return
  to implement.\<close>

theorem edges_forward_iff:
  "runner_edge \<lparr>tc_mode = m, tc_kind = k\<rparr> a b \<and> a \<in> set (phaseOrder m) \<and> \<not> isForward a b m \<longleftrightarrow>
   k \<noteq> Kind_analyze \<and> a = Ph_review \<and> b = Ph_implement"
  by (cases m; cases k; cases a)
     (auto simp: runner_edge_graph phase_edges_def isForward_def phaseOrder_def GATED_ORDER_def
        COLLAPSED_ORDER_def)

end
