(* ===== verification/ReviewLoop.thy ===== *)
theory ReviewLoop
  imports Transitions "HOL-Library.Multiset"
begin

text \<open>
  The bounded review loop (\<open>pipeline/reviewLoop.ts\<close>): strict parsing of a runner-supplied verdict,
  the coercion of minor-only complaints, the fingerprint of the blocking findings and the decision
  to retry, give up or approve.  The hash is a parameter.
\<close>

definition MAX_REVIEW_ATTEMPTS :: nat where "MAX_REVIEW_ATTEMPTS = 2"

datatype severity = Sev_blocker | Sev_major | Sev_minor

fun severity_name :: "severity \<Rightarrow> string" where
  "severity_name Sev_blocker = ''blocker''"
| "severity_name Sev_major = ''major''"
| "severity_name Sev_minor = ''minor''"

record review_finding =
  rf_severity :: severity
  rf_file :: string
  rf_line :: "rat option"
  rf_issue :: string
  rf_suggestion :: "string option"

record review_verdict =
  rv_verdict :: review_verdict_kind
  rv_summary :: string
  rv_findings :: "review_finding list"

definition severity_of :: "json option \<Rightarrow> severity option" where
  "severity_of j = (case j of
     Some (JStr s) \<Rightarrow> List.find (\<lambda>v. severity_name v = s) [Sev_blocker, Sev_major, Sev_minor]
   | _ \<Rightarrow> None)"

definition js_string :: "json option \<Rightarrow> string option" where
  "js_string j = (case j of Some (JStr s) \<Rightarrow> Some s | _ \<Rightarrow> None)"

definition js_number :: "json option \<Rightarrow> rat option" where
  "js_number j = (case j of Some (JNum n) \<Rightarrow> Some n | _ \<Rightarrow> None)"

text \<open>An array is an object in JavaScript, but has none of the named fields.\<close>

definition parse_finding :: "json \<Rightarrow> review_finding option" where
  "parse_finding f =
     do {
       sev \<leftarrow> severity_of (json_field ''severity'' f);
       fl \<leftarrow> js_string (json_field ''file'' f);
       iss \<leftarrow> js_string (json_field ''issue'' f);
       Some \<lparr>rf_severity = sev, rf_file = fl, rf_line = js_number (json_field ''line'' f),
             rf_issue = iss, rf_suggestion = js_string (json_field ''suggestion'' f)\<rparr>
     }"

fun parse_findings :: "json list \<Rightarrow> review_finding list option" where
  "parse_findings [] = Some []"
| "parse_findings (f # fs) =
     do { x \<leftarrow> parse_finding f; xs \<leftarrow> parse_findings fs; Some (x # xs) }"

definition parse_verdict_kind :: "json option \<Rightarrow> review_verdict_kind option" where
  "parse_verdict_kind j = (case j of
     Some (JStr s) \<Rightarrow> (if s = ''approve'' then Some Approve
                      else if s = ''request_changes'' then Some Request_changes else None)
   | _ \<Rightarrow> None)"

definition parseReviewVerdict :: "json option \<Rightarrow> review_verdict option" where
  "parseReviewVerdict raw =
     do {
       r \<leftarrow> raw;
       v \<leftarrow> parse_verdict_kind (json_field ''verdict'' r);
       smry \<leftarrow> js_string (json_field ''summary'' r);
       fs \<leftarrow> (case json_field ''findings'' r of Some (JArr xs) \<Rightarrow> parse_findings xs | _ \<Rightarrow> None);
       Some \<lparr>rv_verdict = v, rv_summary = smry, rv_findings = fs\<rparr>
     }"

definition blocking :: "review_finding \<Rightarrow> bool" where
  "blocking f \<longleftrightarrow> rf_severity f = Sev_blocker \<or> rf_severity f = Sev_major"

definition normalizeVerdict :: "review_verdict \<Rightarrow> review_verdict" where
  "normalizeVerdict v =
     (if rv_verdict v \<noteq> Request_changes then v
      else if list_ex blocking (rv_findings v) then v
      else v\<lparr>rv_verdict := Approve\<rparr>)"

definition finding_key :: "review_finding \<Rightarrow> string" where
  "finding_key f = severity_name (rf_severity f) @ '':'' @ rf_file f @ '':'' @ rf_issue f"

definition fingerprintFindings :: "(string \<Rightarrow> string) \<Rightarrow> review_finding list \<Rightarrow> string" where
  "fingerprintFindings sha256_hex fs =
     take 16 (sha256_hex (join_with newline (sort (List.map finding_key (filter blocking fs)))))"

record review_decision_input =
  rd_verdict :: review_verdict
  rd_attempt :: nat
  rd_previousFingerprint :: "string option"

datatype give_up_reason = Attempts_exhausted | Not_converging

datatype review_decision =
    Rd_approve
  | Rd_retry nat string
  | Rd_give_up give_up_reason string

definition decideReview :: "(string \<Rightarrow> string) \<Rightarrow> review_decision_input \<Rightarrow> review_decision" where
  "decideReview sha256_hex input =
     (let v = normalizeVerdict (rd_verdict input) in
      if rv_verdict v = Approve then Rd_approve
      else
        (let fp = fingerprintFindings sha256_hex (rv_findings v) in
         if rd_previousFingerprint input = Some fp then Rd_give_up Not_converging fp
         else if MAX_REVIEW_ATTEMPTS \<le> rd_attempt input then Rd_give_up Attempts_exhausted fp
         else Rd_retry (rd_attempt input + 1) fp))"

section \<open>Lemmas\<close>

lemma fingerprint_stable:
  assumes "mset (List.map finding_key (filter blocking fs)) =
           mset (List.map finding_key (filter blocking gs))"
  shows "fingerprintFindings h fs = fingerprintFindings h gs"
proof -
  have "sort (List.map finding_key (filter blocking fs)) =
      sort (List.map finding_key (filter blocking gs))"
    using assms properties_for_sort by (metis mset_sort sorted_sort)
  then show ?thesis by (simp add: fingerprintFindings_def)
qed

text \<open>The JSON a well-behaved reviewer emits for a verdict.\<close>

definition render_finding :: "review_finding \<Rightarrow> json" where
  "render_finding f = JObj ([(''severity'', JStr (severity_name (rf_severity f))),
     (''file'', JStr (rf_file f)), (''issue'', JStr (rf_issue f))] @
     (case rf_line f of None \<Rightarrow> [] | Some n \<Rightarrow> [(''line'', JNum n)]) @
     (case rf_suggestion f of None \<Rightarrow> [] | Some t \<Rightarrow> [(''suggestion'', JStr t)]))"

definition render_verdict :: "review_verdict \<Rightarrow> json" where
  "render_verdict v = JObj [(''verdict'', JStr (if rv_verdict v = Approve then ''approve''
       else ''request_changes'')), (''summary'', JStr (rv_summary v)),
     (''findings'', JArr (List.map render_finding (rv_findings v)))]"

lemma parse_render_finding: "parse_finding (render_finding f) = Some f"
  by (cases f; cases "rf_severity f"; cases "rf_line f"; cases "rf_suggestion f")
     (simp_all add: parse_finding_def render_finding_def severity_of_def js_string_def js_number_def)

lemma parse_render_findings: "parse_findings (List.map render_finding fs) = Some fs"
  by (induction fs) (simp_all add: parse_render_finding)

lemma parse_findings_all:
  "parse_findings xs = Some fs \<Longrightarrow> list_all2 (\<lambda>x f. parse_finding x = Some f) xs fs"
  by (induction xs arbitrary: fs) (auto split: bind_splits)

text \<open>The loop: each round reviews with the attempt and fingerprint the previous round stored.\<close>

fun review_rounds :: "(string \<Rightarrow> string) \<Rightarrow> review_verdict list \<Rightarrow> nat \<Rightarrow> string option \<Rightarrow> nat" where
  "review_rounds h [] n fp = 0"
| "review_rounds h (v # vs) n fp =
     (case decideReview h \<lparr>rd_verdict = v, rd_attempt = n, rd_previousFingerprint = fp\<rparr> of
        Rd_retry m f \<Rightarrow> Suc (review_rounds h vs m (Some f))
      | _ \<Rightarrow> 0)"

text \<open>The review loop is bounded: whatever sequence of verdicts the reviewer emits and whatever
  fingerprint was stored, at most \<open>MAX_REVIEW_ATTEMPTS\<close> minus the rounds already spent retries
  happen, so implement runs at most three times.\<close>

theorem review_rounds_bounded: "review_rounds h vs n fp \<le> MAX_REVIEW_ATTEMPTS - n"
proof (induction vs arbitrary: n fp)
  case (Cons v vs)
  show ?case
  proof (cases "decideReview h \<lparr>rd_verdict = v, rd_attempt = n, rd_previousFingerprint = fp\<rparr>")
    case (Rd_retry m f)
    then have "m = n + 1" "n < MAX_REVIEW_ATTEMPTS"
      by (auto simp: decideReview_def Let_def split: if_splits)
    then show ?thesis using Cons.IH[of m "Some f"] Rd_retry by simp
  qed simp_all
qed simp

lemma decideReview_spec:
  "decideReview h \<lparr>rd_verdict = v, rd_attempt = n, rd_previousFingerprint = fp\<rparr> =
     (let k = fingerprintFindings h (rv_findings v) in
      if rv_verdict v = Approve \<or> (\<forall>f. f \<notin> set (rv_findings v) \<or> \<not> blocking f) then Rd_approve
      else if fp = Some k then Rd_give_up Not_converging k
      else if n < MAX_REVIEW_ATTEMPTS then Rd_retry (Suc n) k
      else Rd_give_up Attempts_exhausted k)"
  by (cases "rv_verdict v") (auto simp: decideReview_def normalizeVerdict_def Let_def list_ex_iff)


text \<open>Convergence detection ignores everything that wobbles between rounds: two verdicts whose
  blocking findings have the same severities, files and issues, in any order and with any lines,
  suggestions, summaries and minor findings, get the same decision.\<close>

theorem decision_stable:
  assumes "image_mset finding_key (filter_mset blocking (mset (rv_findings v))) =
           image_mset finding_key (filter_mset blocking (mset (rv_findings w)))"
    and "rv_verdict v = rv_verdict w"
  shows "decideReview h \<lparr>rd_verdict = v, rd_attempt = n, rd_previousFingerprint = fp\<rparr> =
         decideReview h \<lparr>rd_verdict = w, rd_attempt = n, rd_previousFingerprint = fp\<rparr>"
proof -
  have m: "mset (List.map finding_key (filter blocking (rv_findings v))) =
        mset (List.map finding_key (filter blocking (rv_findings w)))"
    using assms(1) by simp
  then have "fingerprintFindings h (rv_findings v) = fingerprintFindings h (rv_findings w)"
    by (rule fingerprint_stable)
  moreover have "filter blocking (rv_findings v) = [] \<longleftrightarrow> filter blocking (rv_findings w) = []"
    using m by (metis list.map_disc_iff mset_zero_iff)
  then have "(\<forall>f. f \<notin> set (rv_findings v) \<or> \<not> blocking f) \<longleftrightarrow>
      (\<forall>f. f \<notin> set (rv_findings w) \<or> \<not> blocking f)"
    by (auto simp: filter_empty_conv)
  ultimately show ?thesis using assms(2) by (simp add: decideReview_spec Let_def)
qed

theorem decision_stable_witness:
  "let f = \<lparr>rf_severity = Sev_major, rf_file = ''a'', rf_line = Some 1, rf_issue = ''x'', rf_suggestion = None\<rparr>;
       g = \<lparr>rf_severity = Sev_blocker, rf_file = ''b'', rf_line = None, rf_issue = ''y'', rf_suggestion = None\<rparr>
   in decideReview id \<lparr>rd_verdict = \<lparr>rv_verdict = Request_changes, rv_summary = ''s'', rv_findings = [f, g]\<rparr>,
        rd_attempt = 0, rd_previousFingerprint = None\<rparr> =
      decideReview id \<lparr>rd_verdict = \<lparr>rv_verdict = Request_changes, rv_summary = ''t'',
          rv_findings = [g, f\<lparr>rf_line := Some 9\<rparr>]\<rparr>,
        rd_attempt = 0, rd_previousFingerprint = None\<rparr>"
  unfolding Let_def
  by (rule decision_stable) (simp_all add: finding_key_def blocking_def)

end
