(* ===== verification/JobStore.thy ===== *)
theory JobStore
  imports JobTypes
begin

text \<open>
  \<open>DevJobStore\<close> (\<open>devJobStore.ts\<close>, with \<open>devJobWorkerSeams.ts\<close>): every SQL statement on \<open>dev_jobs\<close> as
  a function on the database.  A statement is atomic and takes \<open>now()\<close> once, so each method takes
  the clock value it writes.  A method that throws returns \<open>Inl\<close> of its error.  The lifecycle
  theorems are stated over \<open>db_step\<close>, one method call by any actor, and its reachable databases.
\<close>

datatype store_error =
    TypeError string
  | DevJobLeaseLostError string
  | Brand_refused
  | Unique_violation string
  | Foreign_key_violation string

section \<open>Identifiers\<close>

definition is_hex :: "char \<Rightarrow> bool" where
  "is_hex c \<longleftrightarrow> is_digit c \<or> c \<in> set ''abcdefABCDEF''"

definition UUID_RE :: "string \<Rightarrow> bool" where
  "UUID_RE s \<longleftrightarrow>
     (let ws = split_char CHR ''-'' s in
      List.map length ws = [8, 4, 4, 4, 12] \<and> list_all (list_all is_hex) ws)"

section \<open>The single-row UPDATE\<close>

definition update_job :: "string \<Rightarrow> (dev_job \<Rightarrow> bool) \<Rightarrow> (dev_job \<Rightarrow> dev_job) \<Rightarrow> dev_db
    \<Rightarrow> dev_db \<times> dev_job list" where
  "update_job jobId guard upd db =
     (let (rows, hits) = sql_update (\<lambda>j. j_id j = jobId \<and> guard j) upd (db_jobs db)
      in (db\<lparr>db_jobs := rows\<rparr>, hits))"

definition row_count :: "dev_db \<times> dev_job list \<Rightarrow> dev_db \<times> bool" where
  "row_count r = (fst r, snd r \<noteq> [])"

definition getJob :: "string \<Rightarrow> dev_db \<Rightarrow> dev_job option" where
  "getJob i db = find_row j_id i (db_jobs db)"

definition getRepo :: "string \<Rightarrow> dev_db \<Rightarrow> dev_repo option" where
  "getRepo i db = find_row rp_id i (db_repos db)"

definition non_terminal :: "dev_job \<Rightarrow> bool" where
  "non_terminal j \<longleftrightarrow> \<not> isTerminalDevJobStatus (j_status j)"

section \<open>Creation, deletion, listing\<close>

text \<open>The partial unique index of migration 0028: one non-terminal webhook job per repository and
  source reference (a NULL reference never conflicts).\<close>

definition webhook_slot_of :: "dev_job \<Rightarrow> (string \<times> string) option" where
  "webhook_slot_of j =
     (if j_source j = Src_webhook \<and> non_terminal j
      then map_option (Pair (j_repoId j)) (j_sourceRef j) else None)"

definition webhook_slot_free :: "dev_job \<Rightarrow> dev_db \<Rightarrow> bool" where
  "webhook_slot_free j db \<longleftrightarrow>
     (case webhook_slot_of j of None \<Rightarrow> True
      | Some slot \<Rightarrow> \<not> list_ex (\<lambda>k. j_id k \<noteq> j_id j \<and> webhook_slot_of k = Some slot) (db_jobs db))"

definition new_job_row :: "int \<Rightarrow> string \<Rightarrow> string \<Rightarrow> new_dev_job \<Rightarrow> dev_job" where
  "new_job_row now newId tokenHash input =
     \<lparr>j_id = newId, j_repoId = n_repoId input, j_kind = n_kind input, j_brief = n_brief input,
      j_source = n_source input, j_sourceRef = n_sourceRef input, j_baseSha = n_baseSha input,
      j_backend = n_backend input,
      j_agentKind = (case n_agentKind input of None \<Rightarrow> ''claude-cli'' | Some a \<Rightarrow> a),
      j_authMode = (case n_authMode input of None \<Rightarrow> Auth_api_key | Some a \<Rightarrow> a),
      j_provision = (case n_provision input of None \<Rightarrow> 1 | Some p \<Rightarrow> p),
      j_phase = (case n_phase input of None \<Rightarrow> Ph_analyze | Some p \<Rightarrow> p),
      j_pipelineMode = Gated, j_reviewAttempt = 0, j_reviewFingerprint = None, j_retryOf = None,
      j_status = (case n_status input of None \<Rightarrow> St_queued | Some s \<Rightarrow> s),
      j_claimedBy = None, j_claimedAt = None, j_lastHeartbeatAt = None, j_runnerHandle = None,
      j_runnerTokenHash = Some tokenHash, j_branch = n_branch input, j_prUrl = None,
      j_result = None, j_error = None, j_tokensIn = 0, j_tokensOut = 0, j_costUsd = 0,
      j_budgetCostUsd = None, j_budgetTokens = None, j_usageEstimated = False,
      j_createdBy = n_createdBy input, j_createdAt = now, j_startedAt = None, j_endedAt = None,
      j_updatedAt = now\<rparr>"

definition createJob :: "int \<Rightarrow> string \<Rightarrow> string \<Rightarrow> new_dev_job \<Rightarrow> dev_db
    \<Rightarrow> dev_db \<times> (store_error + dev_job)" where
  "createJob now newId tokenHash input db =
     (let j = new_job_row now newId tokenHash input in
      if getJob newId db \<noteq> None then (db, Inl (Unique_violation ''dev_jobs_pkey''))
      else if getRepo (n_repoId input) db = None
      then (db, Inl (Foreign_key_violation ''dev_jobs_repo_id_fkey''))
      else if \<not> webhook_slot_free j db
      then (db, Inl (Unique_violation ''dev_jobs_webhook_one_active''))
      else (db\<lparr>db_jobs := db_jobs db @ [j]\<rparr>, Inr j))"

datatype delete_outcome = Deleted | Not_terminal | Not_found

definition cascade_delete :: "(dev_job \<Rightarrow> bool) \<Rightarrow> dev_db \<Rightarrow> dev_db" where
  "cascade_delete p db =
     (let gone = j_id ` set (filter p (db_jobs db)) in
      db\<lparr>db_jobs := filter (\<lambda>j. \<not> p j) (db_jobs db),
         db_events := filter (\<lambda>e. e_jobId e \<notin> gone) (db_events db),
         db_artifacts := filter (\<lambda>a. a_jobId a \<notin> gone) (db_artifacts db),
         db_gates := filter (\<lambda>g. g_jobId g \<notin> gone) (db_gates db)\<rparr>)"

definition deleteJob :: "string \<Rightarrow> dev_db \<Rightarrow> dev_db \<times> delete_outcome" where
  "deleteJob i db =
     (let p = (\<lambda>j. j_id j = i \<and> isTerminalDevJobStatus (j_status j)) in
      if list_ex p (db_jobs db) then (cascade_delete p db, Deleted)
      else (db, if getJob i db \<noteq> None then Not_terminal else Not_found))"

record list_jobs_filter =
  f_repoId :: "string option"
  f_repoIds :: "string list option"
  f_status :: "dev_job_status option"
  f_limit :: "int option"

definition list_limit :: "int option \<Rightarrow> nat" where
  "list_limit l = nat (min (max 1 (case l of None \<Rightarrow> 100 | Some n \<Rightarrow> n)) 500)"

definition listJobs :: "list_jobs_filter \<Rightarrow> dev_db \<Rightarrow> dev_job list" where
  "listJobs f db =
     (if f_repoIds f = Some [] then []
      else take (list_limit (f_limit f))
        (sort_key (\<lambda>j. - j_createdAt j)
          (filter (\<lambda>j.
              (case f_repoId f of None \<Rightarrow> True | Some r \<Rightarrow> r = [] \<or> j_repoId j = r) \<and>
              (case f_repoIds f of None \<Rightarrow> True | Some rs \<Rightarrow> j_repoId j \<in> set rs) \<and>
              (case f_status f of None \<Rightarrow> True | Some s \<Rightarrow> j_status j = s))
            (db_jobs db))))"

section \<open>Claim and lease\<close>

text \<open>\<open>ORDER BY created_at LIMIT 1\<close> over the queued rows.  Rows another transaction has locked are
  skipped; \<open>locked\<close> is the set of ids locked at that moment (empty when no claim is in flight).\<close>

definition oldest_queued :: "string set \<Rightarrow> dev_db \<Rightarrow> dev_job option" where
  "oldest_queued locked db =
     (case sort_key j_createdAt
        (filter (\<lambda>j. j_status j = St_queued \<and> j_id j \<notin> locked) (db_jobs db)) of
        [] \<Rightarrow> None | j # _ \<Rightarrow> Some j)"

definition claim_set :: "int \<Rightarrow> string \<Rightarrow> dev_job \<Rightarrow> dev_job" where
  "claim_set now lease j =
     j\<lparr>j_status := St_provisioning, j_claimedBy := Some lease, j_claimedAt := Some now,
       j_startedAt := Some now, j_updatedAt := now\<rparr>"

definition claimNextQueued :: "int \<Rightarrow> string set \<Rightarrow> string \<Rightarrow> dev_db
    \<Rightarrow> dev_db \<times> (store_error + dev_job option)" where
  "claimNextQueued now locked lease db =
     (if \<not> UUID_RE lease then (db, Inl (TypeError (''claimNextQueued: claimedBy must be a UUID (got '' @ squote lease @ '')'')))
      else case oldest_queued locked db of
        None \<Rightarrow> (db, Inr None)
      | Some q \<Rightarrow>
          (let (db', hits) = update_job (j_id q) (\<lambda>j. True) (claim_set now lease) db
           in (db', Inr (case hits of [] \<Rightarrow> None | j # _ \<Rightarrow> Some j))))"

definition release_guard :: "string \<Rightarrow> dev_job \<Rightarrow> bool" where
  "release_guard lease j \<longleftrightarrow>
     j_claimedBy j = Some lease \<and> j_status j = St_provisioning \<and> j_runnerHandle j = None"

definition release_set :: "int \<Rightarrow> dev_job \<Rightarrow> dev_job" where
  "release_set now j =
     j\<lparr>j_status := St_queued, j_claimedBy := None, j_claimedAt := None, j_startedAt := None,
       j_updatedAt := now\<rparr>"

definition releaseClaim :: "int \<Rightarrow> string \<Rightarrow> string \<Rightarrow> dev_db \<Rightarrow> dev_db \<times> (store_error + bool)" where
  "releaseClaim now jobId lease db =
     (if \<not> UUID_RE lease then (db, Inl (TypeError (''releaseClaim: claimedBy must be a UUID (got '' @ squote lease @ '')'')))
      else (let (db', hit) = row_count (update_job jobId (release_guard lease) (release_set now) db)
            in (db', Inr hit)))"

section \<open>Runner-driven and engine-driven writes\<close>

definition touch_guard :: "dev_job \<Rightarrow> bool" where
  "touch_guard j \<longleftrightarrow> active_status (j_status j)"

definition beat_set :: "int \<Rightarrow> dev_job \<Rightarrow> dev_job" where
  "beat_set now j = j\<lparr>j_lastHeartbeatAt := Some now, j_updatedAt := now\<rparr>"

definition touchHeartbeat :: "int \<Rightarrow> string \<Rightarrow> dev_db \<Rightarrow> dev_db \<times> bool" where
  "touchHeartbeat now jobId db = row_count (update_job jobId touch_guard (beat_set now) db)"

definition running_guard :: "dev_job \<Rightarrow> bool" where
  "running_guard j \<longleftrightarrow> j_status j = St_provisioning"

definition running_set :: "int \<Rightarrow> dev_job \<Rightarrow> dev_job" where
  "running_set now j = j\<lparr>j_status := St_running, j_updatedAt := now\<rparr>"

definition markRunning :: "int \<Rightarrow> string \<Rightarrow> dev_db \<Rightarrow> dev_db \<times> bool" where
  "markRunning now jobId db = row_count (update_job jobId running_guard (running_set now) db)"

definition phase_guard :: "dev_job_phase \<Rightarrow> dev_job \<Rightarrow> bool" where
  "phase_guard from_phase j \<longleftrightarrow> j_phase j = from_phase \<and> non_terminal j"

definition phase_set :: "int \<Rightarrow> dev_job_phase \<Rightarrow> dev_job \<Rightarrow> dev_job" where
  "phase_set now to_phase j = j\<lparr>j_phase := to_phase, j_updatedAt := now\<rparr>"

definition advancePhase :: "int \<Rightarrow> string \<Rightarrow> dev_job_phase \<Rightarrow> dev_job_phase \<Rightarrow> dev_db \<Rightarrow> dev_db \<times> bool" where
  "advancePhase now jobId from_phase to_phase db =
     row_count (update_job jobId (phase_guard from_phase) (phase_set now to_phase) db)"

definition requeue_set :: "int \<Rightarrow> dev_job_phase \<Rightarrow> dev_job \<Rightarrow> dev_job" where
  "requeue_set now ph j =
     j\<lparr>j_phase := ph, j_status := St_queued, j_claimedBy := None, j_claimedAt := None,
       j_runnerHandle := None, j_provision := j_provision j + 1, j_updatedAt := now\<rparr>"

definition requeueAtPhase :: "int \<Rightarrow> string \<Rightarrow> dev_job_phase \<Rightarrow> dev_db \<Rightarrow> dev_db \<times> bool" where
  "requeueAtPhase now jobId ph db =
     row_count (update_job jobId (phase_guard Ph_await_human) (requeue_set now ph) db)"

definition park_set :: "int \<Rightarrow> dev_job \<Rightarrow> dev_job" where
  "park_set now j =
     j\<lparr>j_status := St_waiting, j_claimedBy := None, j_claimedAt := None,
       j_runnerHandle := None, j_updatedAt := now\<rparr>"

definition parkForGate :: "int \<Rightarrow> string \<Rightarrow> dev_db \<Rightarrow> dev_db \<times> bool" where
  "parkForGate now jobId db =
     row_count (update_job jobId (phase_guard Ph_await_human) (park_set now) db)"

definition apply_gate_guard :: "dev_job \<Rightarrow> bool" where
  "apply_gate_guard j \<longleftrightarrow> j_status j \<in> {St_applying, St_failed}"

text \<open>Leaving \<open>failed\<close> re-enters the partial index of migration 0028, so this statement can raise a
  unique violation when the issue has another active webhook job by then.\<close>

definition parkForApplyGate :: "int \<Rightarrow> string \<Rightarrow> dev_db \<Rightarrow> dev_db \<times> (store_error + bool)" where
  "parkForApplyGate now jobId db =
     (let (db', hits) = update_job jobId apply_gate_guard (park_set now) db in
      if list_all (\<lambda>j. webhook_slot_free j db) hits then (db', Inr (hits \<noteq> []))
      else (db, Inl (Unique_violation ''dev_jobs_webhook_one_active'')))"

definition resume_guard :: "dev_job \<Rightarrow> bool" where
  "resume_guard j \<longleftrightarrow> j_status j = St_waiting \<and> j_phase j \<noteq> Ph_await_human"

definition resume_set :: "int \<Rightarrow> dev_job \<Rightarrow> dev_job" where
  "resume_set now j = j\<lparr>j_status := St_applying, j_updatedAt := now\<rparr>"

definition resumeApplyAfterGate :: "int \<Rightarrow> string \<Rightarrow> dev_db \<Rightarrow> dev_db \<times> bool" where
  "resumeApplyAfterGate now jobId db =
     row_count (update_job jobId resume_guard (resume_set now) db)"

definition brief_guard :: "string \<Rightarrow> dev_job \<Rightarrow> bool" where
  "brief_guard marker j \<longleftrightarrow> \<not> str_includes (j_brief j) marker \<and> non_terminal j"

definition brief_set :: "int \<Rightarrow> string \<Rightarrow> dev_job \<Rightarrow> dev_job" where
  "brief_set now part j = j\<lparr>j_brief := j_brief j @ part, j_updatedAt := now\<rparr>"

definition appendToBrief :: "int \<Rightarrow> string \<Rightarrow> string \<Rightarrow> string \<Rightarrow> dev_db \<Rightarrow> dev_db \<times> bool" where
  "appendToBrief now jobId marker part db =
     row_count (update_job jobId (brief_guard marker) (brief_set now part) db)"

definition setReviewState :: "int \<Rightarrow> string \<Rightarrow> nat \<Rightarrow> string option \<Rightarrow> dev_db \<Rightarrow> dev_db" where
  "setReviewState now jobId attempt fp db =
     fst (update_job jobId non_terminal
       (\<lambda>j. j\<lparr>j_reviewAttempt := attempt, j_reviewFingerprint := fp, j_updatedAt := now\<rparr>) db)"

definition lease_guard :: "string \<Rightarrow> dev_job \<Rightarrow> bool" where
  "lease_guard lease j \<longleftrightarrow> j_claimedBy j = Some lease \<and> non_terminal j"

definition handle_set :: "int \<Rightarrow> runner_handle \<Rightarrow> dev_job \<Rightarrow> dev_job" where
  "handle_set now h j =
     j\<lparr>j_runnerHandle := Some h, j_lastHeartbeatAt := Some now, j_updatedAt := now\<rparr>"

definition setRunnerHandle :: "int \<Rightarrow> string \<Rightarrow> string \<Rightarrow> runner_handle \<Rightarrow> dev_db
    \<Rightarrow> dev_db \<times> (store_error + unit)" where
  "setRunnerHandle now jobId lease h db =
     (let (db', hit) = row_count (update_job jobId (lease_guard lease) (handle_set now h) db) in
      (db', if hit then Inr () else Inl (DevJobLeaseLostError jobId)))"

text \<open>\<open>cost_usd\<close> is NUMERIC(12,4): a write rounds to four decimals, half away from zero.\<close>

definition numeric4 :: "rat \<Rightarrow> rat" where
  "numeric4 x = (if 0 \<le> x then of_int \<lfloor>x * 10000 + 1 / 2\<rfloor> / 10000
                 else - of_int \<lfloor>- x * 10000 + 1 / 2\<rfloor> / 10000)"

definition result_set :: "int \<Rightarrow> dev_job_result \<Rightarrow> dev_job \<Rightarrow> dev_job" where
  "result_set now res j =
     (let u = r_usage res in
      j\<lparr>j_result := Some res,
        j_status := (if r_outcome res = Out_diff_ready then St_applying else j_status j),
        j_tokensIn := (case Option.bind u u_tokensIn of None \<Rightarrow> 0 | Some n \<Rightarrow> n),
        j_tokensOut := (case Option.bind u u_tokensOut of None \<Rightarrow> 0 | Some n \<Rightarrow> n),
        j_costUsd := numeric4 (case Option.bind u u_costUsd of None \<Rightarrow> 0 | Some c \<Rightarrow> c),
        j_error := coalesce (r_error res) (j_error j), j_updatedAt := now\<rparr>)"

definition recordResult :: "int \<Rightarrow> string \<Rightarrow> dev_job_result \<Rightarrow> dev_db \<Rightarrow> dev_db" where
  "recordResult now jobId res db = fst (update_job jobId non_terminal (result_set now res) db)"

section \<open>Provisioning\<close>

definition take_digits :: "string \<Rightarrow> string" where
  "take_digits s = takeWhile is_digit (dropWhile (\<lambda>c. \<not> is_digit c) s)"

text \<open>The slug is \<open>issue-\<close> followed by the first run of digits of the source reference; both slug
  sanitizers leave such a string unchanged, and \<open>slice(0, 40)\<close> cuts it.\<close>

definition jobBranchName :: "dev_job \<Rightarrow> string" where
  "jobBranchName j =
     (let stem = take 8 (filter is_alnum (j_id j));
          id8 = (if stem = [] then ''job'' else stem);
          digits = (case j_sourceRef j of None \<Rightarrow> [] | Some r \<Rightarrow> take_digits r);
          slug = (if digits = [] then [] else take 40 (''issue-'' @ digits))
      in if slug = [] then ''omadia/job-'' @ id8 else ''omadia/job-'' @ id8 @ ''-'' @ slug)"

definition provision_set :: "int \<Rightarrow> string \<Rightarrow> string \<Rightarrow> string option \<Rightarrow> dev_job \<Rightarrow> dev_job" where
  "provision_set now tokenHash br sha j =
     j\<lparr>j_runnerTokenHash := Some tokenHash, j_branch := coalesce (j_branch j) (Some br),
       j_baseSha := coalesce (j_baseSha j) sha, j_updatedAt := now\<rparr>"

definition prepareProvision :: "int \<Rightarrow> string \<Rightarrow> dev_job \<Rightarrow> string \<Rightarrow> string option \<Rightarrow> dev_db
    \<Rightarrow> dev_db \<times> (store_error + dev_job)" where
  "prepareProvision now tokenHash job lease sha db =
     (if \<not> UUID_RE lease then (db, Inl (TypeError (''prepareProvision: lease must be a UUID (got '' @ squote lease @ '')'')))
      else
        (let br = (case j_branch job of None \<Rightarrow> jobBranchName job | Some b \<Rightarrow> b);
             (db', hits) = update_job (j_id job) (lease_guard lease)
                             (provision_set now tokenHash br sha) db
         in case hits of [] \<Rightarrow> (db', Inl (DevJobLeaseLostError (j_id job)))
            | j # _ \<Rightarrow> (db', Inr j)))"

definition countActiveJobs :: "dev_db \<Rightarrow> nat" where
  "countActiveJobs db = length (filter (\<lambda>j. active_status (j_status j)) (db_jobs db))"

text \<open>\<open>ORDER BY started_at DESC NULLS LAST LIMIT 1\<close>.\<close>

definition better_start :: "dev_job \<Rightarrow> dev_job \<Rightarrow> bool" where
  "better_start a b =
     (case (j_startedAt a, j_startedAt b) of
        (_, None) \<Rightarrow> True | (None, Some _) \<Rightarrow> False | (Some x, Some y) \<Rightarrow> y \<le> x)"

fun best_start :: "dev_job list \<Rightarrow> dev_job option" where
  "best_start [] = None"
| "best_start (j # js) =
     (case best_start js of None \<Rightarrow> Some j | Some k \<Rightarrow> Some (if better_start j k then j else k))"

definition findActiveByHandleId :: "string \<Rightarrow> dev_db \<Rightarrow> dev_job option" where
  "findActiveByHandleId hid db =
     best_start (filter (\<lambda>j. map_option h_id (j_runnerHandle j) = Some hid \<and>
                              j_status j \<in> {St_provisioning, St_running}) (db_jobs db))"

section \<open>Enforcement reads\<close>

definition last_sign_of_life :: "dev_job \<Rightarrow> int option" where
  "last_sign_of_life j = coalesce (j_lastHeartbeatAt j) (coalesce (j_startedAt j) (j_claimedAt j))"

definition findStalled :: "int \<Rightarrow> string list option \<Rightarrow> dev_db \<Rightarrow> dev_job list" where
  "findStalled cutoff scope db =
     (if scope = Some [] then []
      else filter (\<lambda>j. active_status (j_status j) \<and>
             (case last_sign_of_life j of None \<Rightarrow> False | Some t \<Rightarrow> t < cutoff) \<and>
             (case scope of None \<Rightarrow> True | Some rs \<Rightarrow> j_repoId j \<in> set rs)) (db_jobs db))"

definition findOverWallClock :: "int \<Rightarrow> dev_db \<Rightarrow> dev_job list" where
  "findOverWallClock startedBefore db =
     filter (\<lambda>j. active_status (j_status j) \<and>
       (case j_startedAt j of None \<Rightarrow> False | Some t \<Rightarrow> t < startedBefore)) (db_jobs db)"

section \<open>Usage\<close>

definition addJobUsage :: "int \<Rightarrow> string \<Rightarrow> int \<Rightarrow> int \<Rightarrow> dev_db \<Rightarrow> dev_db" where
  "addJobUsage now jobId tin tout db =
     fst (update_job jobId (\<lambda>j. True)
       (\<lambda>j. j\<lparr>j_tokensIn := j_tokensIn j + max 0 tin, j_tokensOut := j_tokensOut j + max 0 tout,
               j_updatedAt := now\<rparr>) db)"

record budget_position =
  bp_costUsd :: rat
  bp_tokensTotal :: int
  bp_budgetCostUsd :: "rat option"
  bp_budgetTokens :: "int option"

definition usage_set :: "int \<Rightarrow> int \<Rightarrow> int \<Rightarrow> rat \<Rightarrow> dev_job \<Rightarrow> dev_job" where
  "usage_set now tin tout cost j =
     j\<lparr>j_tokensIn := j_tokensIn j + max 0 tin, j_tokensOut := j_tokensOut j + max 0 tout,
       j_costUsd := numeric4 (j_costUsd j + max 0 cost), j_updatedAt := now\<rparr>"

definition accumulateJobUsage :: "int \<Rightarrow> string \<Rightarrow> int \<Rightarrow> int \<Rightarrow> rat \<Rightarrow> dev_db
    \<Rightarrow> dev_db \<times> budget_position option" where
  "accumulateJobUsage now jobId tin tout cost db =
     (let (db', hits) = update_job jobId (\<lambda>j. True) (usage_set now tin tout cost) db in
      (db', case hits of [] \<Rightarrow> None
        | j # _ \<Rightarrow> (let repo = getRepo (j_repoId j) db in
            Some \<lparr>bp_costUsd = j_costUsd j, bp_tokensTotal = j_tokensIn j + j_tokensOut j,
              bp_budgetCostUsd = coalesce (j_budgetCostUsd j) (Option.bind repo rp_budgetCostUsd),
              bp_budgetTokens = coalesce (j_budgetTokens j) (Option.bind repo rp_budgetTokens)\<rparr>)))"

section \<open>The terminal write\<close>

record terminal_patch =
  tp_error :: "string option"
  tp_result :: "dev_job_result option"
  tp_branch :: "string option"
  tp_prUrl :: "string option"

definition no_patch :: terminal_patch where
  "no_patch = \<lparr>tp_error = None, tp_result = None, tp_branch = None, tp_prUrl = None\<rparr>"

record terminal_write_result =
  tw_job :: "dev_job option"
  tw_transitioned :: bool

datatype finish_brand = TERMINAL_FINISH_BRAND | Other_brand

definition finish_set :: "int \<Rightarrow> dev_job_status \<Rightarrow> terminal_patch \<Rightarrow> dev_job \<Rightarrow> dev_job" where
  "finish_set now s p j =
     j\<lparr>j_status := s, j_error := coalesce (tp_error p) (j_error j),
       j_result := coalesce (tp_result p) (j_result j),
       j_branch := coalesce (tp_branch p) (j_branch j),
       j_prUrl := coalesce (tp_prUrl p) (j_prUrl j),
       j_endedAt := Some now, j_updatedAt := now\<rparr>"

definition finishTerminal :: "finish_brand \<Rightarrow> int \<Rightarrow> string \<Rightarrow> dev_job_status \<Rightarrow> terminal_patch \<Rightarrow> dev_db
    \<Rightarrow> dev_db \<times> (store_error + terminal_write_result)" where
  "finishTerminal brand now jobId s p db =
     (if brand \<noteq> TERMINAL_FINISH_BRAND then (db, Inl Brand_refused)
      else if \<not> isTerminalDevJobStatus s
      then (db, Inl (TypeError (''devplatform: '' @ squote (dev_job_status_name s) @ '' is not a terminal status'')))
      else
        (let (db', hits) = update_job jobId non_terminal (finish_set now s p) db in
         case hits of
           j # _ \<Rightarrow> (db', Inr \<lparr>tw_job = Some j, tw_transitioned = True\<rparr>)
         | [] \<Rightarrow> (db', Inr \<lparr>tw_job = getJob jobId db', tw_transitioned = False\<rparr>)))"

section \<open>Runner tokens\<close>

text \<open>\<open>sha256_hex\<close> is the hash of Node's crypto module, a parameter.  Hex decoding of a malformed
  stored hash stops at the first non-hex pair, so only a string that decodes to the same bytes
  verifies: equality up to letter case.\<close>

fun hex_pairs :: "string \<Rightarrow> nat list" where
  "hex_pairs (a # b # cs) =
     (if is_hex a \<and> is_hex b then
        (let v = (\<lambda>c. if is_digit c then digit_val c
                      else of_char (lower_char c) - 87) in (16 * v a + v b) # hex_pairs cs)
      else [])"
| "hex_pairs _ = []"

definition verifyRunnerToken_hash :: "(string \<Rightarrow> string) \<Rightarrow> string \<Rightarrow> string option \<Rightarrow> bool" where
  "verifyRunnerToken_hash sha256_hex token stored =
     (case stored of None \<Rightarrow> False
      | Some h \<Rightarrow> token \<noteq> [] \<and> h \<noteq> [] \<and> hex_pairs (sha256_hex token) = hex_pairs h)"

definition reissueRunnerToken :: "int \<Rightarrow> string \<Rightarrow> string \<Rightarrow> dev_db \<Rightarrow> dev_db" where
  "reissueRunnerToken now tokenHash jobId db =
     fst (update_job jobId (\<lambda>j. True)
       (\<lambda>j. j\<lparr>j_runnerTokenHash := Some tokenHash, j_updatedAt := now\<rparr>) db)"

definition verifyRunnerToken :: "(string \<Rightarrow> string) \<Rightarrow> string \<Rightarrow> string \<Rightarrow> dev_db \<Rightarrow> bool" where
  "verifyRunnerToken sha256_hex jobId token db =
     (case getJob jobId db of None \<Rightarrow> False
      | Some j \<Rightarrow> verifyRunnerToken_hash sha256_hex token (j_runnerTokenHash j))"

definition resolveJobByToken :: "(string \<Rightarrow> string) \<Rightarrow> string \<Rightarrow> dev_db \<Rightarrow> dev_job option" where
  "resolveJobByToken sha256_hex token db =
     (if token = [] then None
      else case List.find (\<lambda>j. j_runnerTokenHash j = Some (sha256_hex token)) (db_jobs db) of
        None \<Rightarrow> None
      | Some j \<Rightarrow>
          if \<not> verifyRunnerToken_hash sha256_hex token (j_runnerTokenHash j) then None
          else if isTerminalDevJobStatus (j_status j) \<and> j_status j \<noteq> St_budget_exceeded then None
          else Some j)"

section \<open>Laws of the single-row UPDATE\<close>

definition ids_distinct :: "dev_db \<Rightarrow> bool" where
  "ids_distinct db \<longleftrightarrow> distinct (List.map j_id (db_jobs db))"

lemma update_job_run:
  assumes "\<And>j. j_id (upd j) = j_id j"
  shows "update_job i guard upd db =
    (db\<lparr>db_jobs := fst (guarded_update.run j_id guard upd i (db_jobs db))\<rparr>,
     snd (guarded_update.run j_id guard upd i (db_jobs db)))"
proof -
  have "guarded_update j_id upd" using assms by unfold_locales
  then show ?thesis
    by (simp add: update_job_def guarded_update.run_def sql_update_def)
qed

lemma update_job_fields [simp, row_simps]:
  "db_repos (fst (update_job i guard upd db)) = db_repos db"
  "db_events (fst (update_job i guard upd db)) = db_events db"
  "db_artifacts (fst (update_job i guard upd db)) = db_artifacts db"
  "db_gates (fst (update_job i guard upd db)) = db_gates db"
  "db_nextEventId (fst (update_job i guard upd db)) = db_nextEventId db"
  by (simp_all add: update_job_def sql_update_def)

lemma row_count_simps [simp]: "fst (row_count r) = fst r" "snd (row_count r) = (snd r \<noteq> [])"
  by (simp_all add: row_count_def)

lemma getJob_update:
  assumes "\<And>j. j_id (upd j) = j_id j"
  shows "getJob k (fst (update_job i guard upd db)) =
    (if k = i then map_option (\<lambda>j. if guard j then upd j else j) (getJob k db) else getJob k db)"
proof -
  have gu: "guarded_update j_id upd" using assms by unfold_locales
  show ?thesis
    using guarded_update.find_same[OF gu] guarded_update.find_other[OF gu]
    by (simp add: update_job_run[OF assms] getJob_def)
qed

lemma ids_distinct_update:
  assumes "\<And>j. j_id (upd j) = j_id j"
  shows "ids_distinct (fst (update_job i guard upd db)) = ids_distinct db"
proof -
  have gu: "guarded_update j_id upd" using assms by unfold_locales
  show ?thesis
    by (simp add: update_job_run[OF assms] ids_distinct_def guarded_update.keys_kept[OF gu])
qed

lemma hits_update:
  assumes "\<And>j. j_id (upd j) = j_id j" "ids_distinct db"
  shows "snd (update_job i guard upd db) =
    (case getJob i db of None \<Rightarrow> [] | Some j \<Rightarrow> if guard j then [upd j] else [])"
proof -
  have gu: "guarded_update j_id upd" using assms(1) by unfold_locales
  show ?thesis
    using guarded_update.hit_find[OF gu] assms(2)
    by (simp add: update_job_run[OF assms(1)] ids_distinct_def getJob_def)
qed

lemma update_job_miss:
  assumes "\<And>j. j_id (upd j) = j_id j" "snd (update_job i guard upd db) = []"
  shows "fst (update_job i guard upd db) = db"
proof -
  have gu: "guarded_update j_id upd" using assms(1) by unfold_locales
  show ?thesis
    using guarded_update.miss_unchanged[OF gu] assms(2) by (simp add: update_job_run[OF assms(1)])
qed

lemma update_job_origin:
  assumes "\<And>j. j_id (upd j) = j_id j" "j' \<in> set (db_jobs (fst (update_job i guard upd db)))"
  shows "j' \<in> set (db_jobs db) \<or>
    (\<exists>j\<in>set (db_jobs db). j_id j = i \<and> guard j \<and> j' = upd j)"
proof -
  have gu: "guarded_update j_id upd" using assms(1) by unfold_locales
  show ?thesis
    using guarded_update.row_origin[OF gu] assms(2) by (simp add: update_job_run[OF assms(1)])
qed

lemma getJob_SomeD: "getJob i db = Some j \<Longrightarrow> j \<in> set (db_jobs db) \<and> j_id j = i"
  unfolding getJob_def by (rule find_row_SomeD)

lemma set_ids [simp]:
  "j_id (claim_set now lease j) = j_id j" "j_id (release_set now j) = j_id j"
  "j_id (beat_set now j) = j_id j" "j_id (running_set now j) = j_id j"
  "j_id (phase_set now ph j) = j_id j" "j_id (requeue_set now ph j) = j_id j"
  "j_id (park_set now j) = j_id j" "j_id (resume_set now j) = j_id j"
  "j_id (brief_set now sect j) = j_id j" "j_id (handle_set now h j) = j_id j"
  "j_id (result_set now res j) = j_id j" "j_id (provision_set now th br sha j) = j_id j"
  "j_id (usage_set now a b c j) = j_id j" "j_id (finish_set now s p j) = j_id j"
  by (simp_all add: claim_set_def release_set_def beat_set_def running_set_def phase_set_def
      requeue_set_def park_set_def resume_set_def brief_set_def handle_set_def result_set_def
      provision_set_def usage_set_def finish_set_def Let_def)

section \<open>Which writes are compare-and-swaps\<close>

text \<open>A guard its own assignment falsifies: a second identical call matches no row.\<close>

interpretation running_cas: cas_update j_id running_guard "running_set now" for now
  by unfold_locales (auto simp: running_guard_def running_set_def)

interpretation release_cas: cas_update j_id "release_guard lease" "release_set now" for now lease
  by unfold_locales (auto simp: release_guard_def release_set_def)

interpretation resume_cas: cas_update j_id resume_guard "resume_set now" for now
  by unfold_locales (auto simp: resume_guard_def resume_set_def)

interpretation apply_park_cas: cas_update j_id apply_gate_guard "park_set now" for now
  by unfold_locales (auto simp: apply_gate_guard_def park_set_def)

end
