(* ===== verification/GateStore.thy ===== *)
theory GateStore
  imports JobStore
begin

text \<open>
  The durable human gate (\<open>pipeline/gateStore.ts\<close>) and the ISO-8601 duration parser its deadline
  uses (\<open>host/isoDuration.ts\<close>).  \<open>dev_job_gates\<close> has one partial unique index: at most one waiting
  gate per job.  Every closing operation is a compare-and-swap on \<open>waiting\<close>; the locale
  \<open>cas_update\<close> of the prelude gives their one-winner property.
\<close>

section \<open>ISO-8601 durations\<close>

text \<open>\<open>(?:(\d+)U)?\<close> for a unit letter U: the number, or 0 with the input unconsumed.\<close>

definition opt_unit :: "char \<Rightarrow> string \<Rightarrow> nat \<times> string" where
  "opt_unit u s =
     (let ds = takeWhile is_digit s; r = dropWhile is_digit s in
      if ds \<noteq> [] \<and> r \<noteq> [] \<and> hd r = u then (nat_of_digits ds, tl r) else (0, s))"

definition parse_time_part :: "string \<Rightarrow> nat option" where
  "parse_time_part s =
     (let (h, s1) = opt_unit CHR ''H'' s; (m, s2) = opt_unit CHR ''M'' s1;
          (sec, s3) = opt_unit CHR ''S'' s2
      in if s3 = [] then Some (h * 3600 + m * 60 + sec) else None)"

definition parseIsoDurationMs :: "string option \<Rightarrow> nat option" where
  "parseIsoDurationMs iso_text =
     (case iso_text of None \<Rightarrow> None
      | Some s \<Rightarrow>
          (case trim s of
             [] \<Rightarrow> None
           | c # rest \<Rightarrow>
               if c \<noteq> CHR ''P'' then None
               else
                 (let (d, s1) = opt_unit CHR ''D'' rest;
                      t = (case s1 of [] \<Rightarrow> Some 0
                           | c1 # s2 \<Rightarrow> if c1 = CHR ''T'' then parse_time_part s2 else None)
                  in case t of None \<Rightarrow> None
                     | Some secs \<Rightarrow>
                         (let ms = (d * 86400 + secs) * 1000 in if 0 < ms then Some ms else None))))"

section \<open>Gate operations\<close>

record open_gate_input =
  og_jobId :: string
  og_gateKind :: "gate_kind option"
  og_planArtifactId :: "string option"
  og_planSha256 :: "string option"
  og_baseSha :: "string option"
  og_questions :: "gate_question list"
  og_principalKind :: gate_principal_kind
  og_principalRef :: string
  og_deadlineIso :: "string option"

datatype gate_error = Gate_vanished string | Gate_fk string

definition is_waiting :: "dev_job_gate \<Rightarrow> bool" where
  "is_waiting g \<longleftrightarrow> g_status g = Gate_waiting"

definition waiting_gate_of :: "string \<Rightarrow> dev_db \<Rightarrow> dev_job_gate option" where
  "waiting_gate_of jobId db = List.find (\<lambda>g. g_jobId g = jobId \<and> is_waiting g) (db_gates db)"

definition DEFAULT_DEADLINE_ISO :: string where "DEFAULT_DEADLINE_ISO = ''P7D''"

definition gate_deadline_ms :: "string option \<Rightarrow> nat" where
  "gate_deadline_ms iso_text =
     (case parseIsoDurationMs (Some (case iso_text of None \<Rightarrow> DEFAULT_DEADLINE_ISO | Some d \<Rightarrow> d)) of
        Some ms \<Rightarrow> ms
      | None \<Rightarrow> (case parseIsoDurationMs (Some DEFAULT_DEADLINE_ISO) of Some ms \<Rightarrow> ms | None \<Rightarrow> 0))"

definition new_gate_row :: "int \<Rightarrow> int \<Rightarrow> string \<Rightarrow> open_gate_input \<Rightarrow> dev_job_gate" where
  "new_gate_row now clock newId input =
     \<lparr>g_id = newId, g_jobId = og_jobId input,
      g_gateKind = (case og_gateKind input of None \<Rightarrow> Review_gate | Some k \<Rightarrow> k),
      g_planArtifactId = og_planArtifactId input, g_planSha256 = og_planSha256 input,
      g_baseSha = og_baseSha input, g_questions = og_questions input,
      g_principalKind = og_principalKind input, g_principalRef = og_principalRef input,
      g_status = Gate_waiting, g_answers = None, g_resolvedBy = None, g_resolvedAt = None,
      g_deadlineAt = Some (clock + int (gate_deadline_ms (og_deadlineIso input))),
      g_createdAt = now\<rparr>"

text \<open>\<open>INSERT \<dots> ON CONFLICT (job_id) WHERE status = 'waiting' DO NOTHING\<close>, then the re-read.
  \<open>between\<close> is what other connections commit between the two statements.\<close>

definition open_gate_racing :: "(dev_db \<Rightarrow> dev_db) \<Rightarrow> int \<Rightarrow> int \<Rightarrow> string \<Rightarrow> open_gate_input \<Rightarrow> dev_db
    \<Rightarrow> dev_db \<times> (gate_error + dev_job_gate)" where
  "open_gate_racing between now clock newId input db =
     (if waiting_gate_of (og_jobId input) db \<noteq> None then
        (let db1 = between db in
         case waiting_gate_of (og_jobId input) db1 of
           None \<Rightarrow> (db1, Inl (Gate_vanished (og_jobId input)))
         | Some g \<Rightarrow> (db1, Inr g))
      else if getJob (og_jobId input) db = None then (db, Inl (Gate_fk (og_jobId input)))
      else
        (let g = new_gate_row now clock newId input
         in (db\<lparr>db_gates := db_gates db @ [g]\<rparr>, Inr g)))"

definition open_gate :: "int \<Rightarrow> int \<Rightarrow> string \<Rightarrow> open_gate_input \<Rightarrow> dev_db
    \<Rightarrow> dev_db \<times> (gate_error + dev_job_gate)" where
  "open_gate now clock newId input db = open_gate_racing (\<lambda>d. d) now clock newId input db"

definition get_gate :: "string \<Rightarrow> dev_db \<Rightarrow> dev_job_gate option" where
  "get_gate gid db = find_row g_id gid (db_gates db)"

definition listWaiting :: "dev_db \<Rightarrow> dev_job_gate list" where
  "listWaiting db = sort_key g_createdAt (filter is_waiting (db_gates db))"

definition hasApprovedApplyGate :: "string \<Rightarrow> dev_db \<Rightarrow> bool" where
  "hasApprovedApplyGate jobId db \<longleftrightarrow>
     list_ex (\<lambda>g. g_jobId g = jobId \<and> g_gateKind g = Diff_policy_gate \<and> g_status g = Gate_resolved)
       (db_gates db)"

definition update_gates :: "(dev_job_gate \<Rightarrow> bool) \<Rightarrow> (dev_job_gate \<Rightarrow> dev_job_gate) \<Rightarrow> dev_db
    \<Rightarrow> dev_db \<times> dev_job_gate list" where
  "update_gates p f db =
     (let (rows, hits) = sql_update p f (db_gates db) in (db\<lparr>db_gates := rows\<rparr>, hits))"

definition resolve_set :: "int \<Rightarrow> bool \<Rightarrow> string \<Rightarrow> gate_answer list option \<Rightarrow> dev_job_gate \<Rightarrow> dev_job_gate" where
  "resolve_set now approved by_sub ans g =
     g\<lparr>g_status := (if approved then Gate_resolved else Gate_rejected), g_answers := ans,
       g_resolvedBy := Some by_sub, g_resolvedAt := Some now\<rparr>"

definition first_hit :: "'a list \<Rightarrow> 'a option" where
  "first_hit hits = (case hits of [] \<Rightarrow> None | g # _ \<Rightarrow> Some g)"

definition resolve_gate :: "int \<Rightarrow> string \<Rightarrow> bool \<Rightarrow> string \<Rightarrow> gate_answer list option \<Rightarrow> dev_db
    \<Rightarrow> dev_db \<times> dev_job_gate option" where
  "resolve_gate now gid approved by_sub ans db =
     (let (db', hits) = update_gates (\<lambda>g. g_id g = gid \<and> is_waiting g)
                          (resolve_set now approved by_sub ans) db
      in (db', first_hit hits))"

definition close_set :: "int \<Rightarrow> gate_status \<Rightarrow> dev_job_gate \<Rightarrow> dev_job_gate" where
  "close_set now s g = g\<lparr>g_status := s, g_resolvedAt := Some now\<rparr>"

definition cancelForJob :: "int \<Rightarrow> string \<Rightarrow> dev_db \<Rightarrow> dev_db \<times> bool" where
  "cancelForJob now jobId db =
     (let (db', hits) = update_gates (\<lambda>g. g_jobId g = jobId \<and> is_waiting g)
                          (close_set now Gate_cancelled) db
      in (db', hits \<noteq> []))"

definition listDue :: "int \<Rightarrow> dev_db \<Rightarrow> dev_job_gate list" where
  "listDue clock db =
     filter (\<lambda>g. is_waiting g \<and> (case g_deadlineAt g of None \<Rightarrow> False | Some d \<Rightarrow> d \<le> clock))
       (db_gates db)"

definition expire_gate :: "int \<Rightarrow> string \<Rightarrow> dev_db \<Rightarrow> dev_db \<times> dev_job_gate option" where
  "expire_gate now gid db =
     (let (db', hits) = update_gates (\<lambda>g. g_id g = gid \<and> is_waiting g)
                          (close_set now Gate_expired) db
      in (db', first_hit hits))"

section \<open>Durations: lemmas\<close>

lemma is_digit_digit_char [simp]: "is_digit (digit_char n)"
proof -
  have "n mod 10 < 10" by simp
  then show ?thesis by (simp add: is_digit_def digit_char_def less_eq_char_def)
qed

lemma show_nat_digits: "list_all is_digit (show_nat n)"
proof (induction n rule: show_nat.induct)
  case (1 n)
  then show ?case by (subst show_nat.simps) simp
qed

lemma opt_unit_hit:
  assumes "\<not> is_digit u"
  shows "opt_unit u (show_nat n @ u # s) = (n, s)"
proof -
  have d: "\<forall>c\<in>set (show_nat n). is_digit c"
    using show_nat_digits by (simp add: list_all_iff)
  have "takeWhile is_digit (show_nat n @ u # s) = show_nat n"
    using d assms by (simp add: takeWhile_append2)
  moreover have "dropWhile is_digit (show_nat n @ u # s) = u # s"
    using d assms by (simp add: dropWhile_append2)
  ultimately show ?thesis by (simp add: opt_unit_def)
qed

lemma opt_unit_Nil [simp]: "opt_unit u [] = (0, [])"
  by (simp add: opt_unit_def)

lemma opt_unit_letter: "\<not> is_digit c \<Longrightarrow> opt_unit u (c # s) = (0, c # s)"
  by (simp add: opt_unit_def)

lemma unit_letters [simp]:
  "\<not> is_digit CHR ''D''" "\<not> is_digit CHR ''H''" "\<not> is_digit CHR ''M''" "\<not> is_digit CHR ''S''"
  "\<not> is_digit CHR ''T''" "\<not> is_digit CHR ''P''"
  by (simp_all add: is_digit_def less_eq_char_def)

section \<open>The gate compare-and-swap\<close>

interpretation resolve_cas: cas_update g_id is_waiting "resolve_set now approved by_sub ans"
  for now approved by_sub ans
  by unfold_locales (auto simp: is_waiting_def resolve_set_def)

interpretation expire_cas: cas_update g_id is_waiting "close_set now Gate_expired" for now
  by unfold_locales (auto simp: is_waiting_def close_set_def)

interpretation cancel_cas: cas_update g_jobId is_waiting "close_set now Gate_cancelled" for now
  by unfold_locales (auto simp: is_waiting_def close_set_def)

definition one_waiting_per_job :: "dev_job_gate list \<Rightarrow> bool" where
  "one_waiting_per_job gs \<longleftrightarrow> distinct (map g_jobId (filter is_waiting gs))"

lemma waiting_gate_of_None: "waiting_gate_of i db = None \<longleftrightarrow> (\<forall>g\<in>set (db_gates db). g_jobId g = i \<longrightarrow> \<not> is_waiting g)"
  by (auto simp: waiting_gate_of_def find_None_iff)

lemma waiting_gate_of_SomeD:
  "waiting_gate_of i db = Some g \<Longrightarrow> g \<in> set (db_gates db) \<and> g_jobId g = i \<and> is_waiting g"
  unfolding waiting_gate_of_def find_Some_iff by (metis nth_mem)

lemma new_gate_row_fields [simp]:
  "g_id (new_gate_row now clock newId input) = newId"
  "g_jobId (new_gate_row now clock newId input) = og_jobId input"
  "is_waiting (new_gate_row now clock newId input)"
  by (simp_all add: new_gate_row_def is_waiting_def)

lemma update_gates_fields [simp]:
  "db_jobs (fst (update_gates p f db)) = db_jobs db"
  "db_events (fst (update_gates p f db)) = db_events db"
  "db_repos (fst (update_gates p f db)) = db_repos db"
  "db_artifacts (fst (update_gates p f db)) = db_artifacts db"
  by (simp_all add: update_gates_def sql_update_def Let_def)

lemma closing_update_one_waiting:
  assumes "\<And>g. p g \<Longrightarrow> is_waiting g \<and> \<not> is_waiting (f g)"
    and "one_waiting_per_job (db_gates db)"
  shows "one_waiting_per_job (db_gates (fst (update_gates p f db)))"
proof -
  have "filter is_waiting (map (\<lambda>g. if p g then f g else g) gs) =
        filter (\<lambda>g. is_waiting g \<and> \<not> p g) gs" for gs
    using assms(1) by (induction gs) auto
  moreover have "distinct (map g_jobId (filter (\<lambda>g. is_waiting g \<and> \<not> p g) gs))"
    if "distinct (map g_jobId (filter is_waiting gs))" for gs
    using distinct_map_filter[OF that, of "\<lambda>g. \<not> p g"] by (simp add: conj_commute)
  ultimately show ?thesis
    using assms(2) by (simp add: one_waiting_per_job_def update_gates_def sql_update_def)
qed

lemma open_gate_one_waiting:
  assumes "one_waiting_per_job (db_gates db)"
  shows "one_waiting_per_job (db_gates (fst (open_gate now clock newId input db)))"
proof (cases "waiting_gate_of (og_jobId input) db")
  case None
  then show ?thesis
    using assms waiting_gate_of_None[of "og_jobId input" db]
    by (auto simp: open_gate_def open_gate_racing_def one_waiting_per_job_def Let_def)
next
  case (Some g)
  then show ?thesis using assms by (simp add: open_gate_def open_gate_racing_def)
qed

end
