(* ===== verification/EventLog.thy ===== *)
theory EventLog
  imports JobStore
begin

text \<open>
  The append-only side of the store: events and artifacts (\<open>devJobStore.ts\<close>,
  \<open>devJobArtifactStore.ts\<close>) and their retention (\<open>retention.ts\<close>).  An INSERT consumes one IDENTITY
  value per tuple, stored or not, exactly as Postgres does; \<open>ON CONFLICT (job_id, provision, seq) DO
  NOTHING\<close> covers that constraint only, so the partial index of migration 0030 still raises.
\<close>

section \<open>Events\<close>

definition LOW_VALUE_EVENT_TYPES :: "dev_job_event_type list" where
  "LOW_VALUE_EVENT_TYPES = [Ev_heartbeat, Ev_log]"

definition isLowValueEventType :: "dev_job_event_type \<Rightarrow> bool" where
  "isLowValueEventType t \<longleftrightarrow> t \<in> set LOW_VALUE_EVENT_TYPES"

record runner_event_input =
  in_seq :: rat
  in_type :: string
  in_ts :: "int option"
  in_payload :: "json option"

definition is_truncation_marker :: "dev_job_event \<Rightarrow> bool" where
  "is_truncation_marker e \<longleftrightarrow>
     e_type e = Ev_status \<and> json_field ''state'' (e_payload e) = Some (JStr ''events_truncated'')"

definition seq_taken :: "string \<Rightarrow> nat \<Rightarrow> nat \<Rightarrow> dev_db \<Rightarrow> bool" where
  "seq_taken jobId prov sq db \<longleftrightarrow>
     list_ex (\<lambda>e. e_jobId e = jobId \<and> e_provision e = prov \<and> e_seq e = sq) (db_events db)"

definition marker_present :: "string \<Rightarrow> dev_db \<Rightarrow> bool" where
  "marker_present jobId db \<longleftrightarrow>
     list_ex (\<lambda>e. e_jobId e = jobId \<and> is_truncation_marker e) (db_events db)"

text \<open>One tuple of an INSERT with \<open>ON CONFLICT (job_id, provision, seq) DO NOTHING\<close>: \<open>Inr None\<close> is the
  skipped conflict.\<close>

definition insert_event :: "string \<Rightarrow> nat \<Rightarrow> nat \<Rightarrow> dev_job_event_type \<Rightarrow> int \<Rightarrow> json \<Rightarrow> dev_db
    \<Rightarrow> store_error + (dev_db \<times> dev_job_event option)" where
  "insert_event jobId prov sq ty ts payload db =
     (let e = \<lparr>e_id = db_nextEventId db, e_jobId = jobId, e_provision = prov, e_seq = sq,
               e_type = ty, e_ts = ts, e_payload = payload\<rparr>;
          db1 = db\<lparr>db_nextEventId := Suc (db_nextEventId db)\<rparr> in
      if seq_taken jobId prov sq db then Inr (db1, None)
      else if is_truncation_marker e \<and> marker_present jobId db
      then Inl (Unique_violation ''dev_job_events_truncated_once_idx'')
      else if getJob jobId db = None then Inl (Foreign_key_violation ''dev_job_events_job_id_fkey'')
      else Inr (db1\<lparr>db_events := db_events db @ [e]\<rparr>, Some e))"

type_synonym event_tuple = "nat \<times> dev_job_event_type \<times> int \<times> json"

fun insert_events :: "string \<Rightarrow> nat \<Rightarrow> event_tuple list \<Rightarrow> dev_db
    \<Rightarrow> store_error + (dev_db \<times> dev_job_event list)" where
  "insert_events jobId prov [] db = Inr (db, [])"
| "insert_events jobId prov ((sq, ty, ts, payload) # ts') db =
     (case insert_event jobId prov sq ty ts payload db of
        Inl err \<Rightarrow> Inl err
      | Inr (db1, r) \<Rightarrow>
          (case insert_events jobId prov ts' db1 of
             Inl err \<Rightarrow> Inl err
           | Inr (db2, rs) \<Rightarrow> Inr (db2, (case r of None \<Rightarrow> rs | Some e \<Rightarrow> e # rs))))"

text \<open>Validation of a whole batch: the first bad sequence number or type rejects it.\<close>

definition is_seq :: "rat \<Rightarrow> bool" where
  "is_seq x \<longleftrightarrow> of_int \<lfloor>x\<rfloor> = x \<and> 0 \<le> x"

fun validate_events :: "runner_event_input list \<Rightarrow> store_error + (runner_event_input \<times> dev_job_event_type) list" where
  "validate_events [] = Inr []"
| "validate_events (e # es) =
     (if \<not> is_seq (in_seq e) then Inl (TypeError ''appendEvents: seq must be a non-negative integer'')
      else case dev_job_event_type_of (in_type e) of
        None \<Rightarrow> Inl (TypeError (''appendEvents: invalid event type '' @ squote (in_type e)))
      | Some ty \<Rightarrow>
          (case validate_events es of Inl err \<Rightarrow> Inl err | Inr vs \<Rightarrow> Inr ((e, ty) # vs)))"

definition event_tuple_of :: "int \<Rightarrow> runner_event_input \<times> dev_job_event_type \<Rightarrow> event_tuple" where
  "event_tuple_of now v =
     (case v of (e, ty) \<Rightarrow>
        (nat \<lfloor>in_seq e\<rfloor>, ty, (case in_ts e of None \<Rightarrow> now | Some t \<Rightarrow> t),
         (case in_payload e of None \<Rightarrow> JObj [] | Some p \<Rightarrow> p)))"

definition countEvents :: "string \<Rightarrow> dev_db \<Rightarrow> nat" where
  "countEvents jobId db = length (filter (\<lambda>e. e_jobId e = jobId) (db_events db))"

definition next_host_seq :: "string \<Rightarrow> dev_db \<Rightarrow> nat" where
  "next_host_seq jobId db =
     foldr (\<lambda>e m. max (Suc (e_seq e)) m)
       (filter (\<lambda>e. e_jobId e = jobId \<and> e_provision e = HOST_EVENT_PROVISION) (db_events db)) 0"

text \<open>
  Host events allocate \<open>MAX(seq) + 1\<close> in a subselect and may lose the race for it: \<open>race k\<close> is what
  other connections commit between the read and the insert of attempt \<open>k\<close>.  Both loops give up after
  four attempts.
\<close>

definition no_race :: "nat \<Rightarrow> dev_db \<Rightarrow> dev_db" where "no_race k db = db"

fun host_event_attempts :: "(nat \<Rightarrow> dev_db \<Rightarrow> dev_db) \<Rightarrow> nat \<Rightarrow> nat \<Rightarrow> int \<Rightarrow> string \<Rightarrow> dev_job_event_type
    \<Rightarrow> json \<Rightarrow> dev_db \<Rightarrow> dev_db \<times> (store_error + dev_job_event option)" where
  "host_event_attempts race k 0 now jobId ty payload db = (db, Inr None)"
| "host_event_attempts race k (Suc n) now jobId ty payload db =
     (let sq = next_host_seq jobId db; db1 = race k db in
      case insert_event jobId HOST_EVENT_PROVISION sq ty now payload db1 of
        Inl err \<Rightarrow> (db1, Inl err)
      | Inr (db2, Some e) \<Rightarrow> (db2, Inr (Some e))
      | Inr (db2, None) \<Rightarrow> host_event_attempts race (Suc k) n now jobId ty payload db2)"

definition appendHostEvent_racing :: "(nat \<Rightarrow> dev_db \<Rightarrow> dev_db) \<Rightarrow> int \<Rightarrow> string \<Rightarrow> string \<Rightarrow> json \<Rightarrow> dev_db
    \<Rightarrow> dev_db \<times> (store_error + dev_job_event option)" where
  "appendHostEvent_racing race now jobId ty payload db =
     (case dev_job_event_type_of ty of
        None \<Rightarrow> (db, Inl (TypeError (''appendHostEvent: invalid event type '' @ squote ty)))
      | Some t \<Rightarrow> host_event_attempts race 0 4 now jobId t payload db)"

definition appendHostEvent :: "int \<Rightarrow> string \<Rightarrow> string \<Rightarrow> json \<Rightarrow> dev_db
    \<Rightarrow> dev_db \<times> (store_error + dev_job_event option)" where
  "appendHostEvent now jobId ty payload db = appendHostEvent_racing no_race now jobId ty payload db"

definition truncation_payload :: "nat \<Rightarrow> json" where
  "truncation_payload dropped =
     JObj [(''state'', JStr ''events_truncated''), (''dropped'', JNum (of_nat dropped))]"

text \<open>The marker insert has \<open>WHERE NOT EXISTS\<close> and an \<open>ON CONFLICT DO NOTHING\<close> without target, which
  covers both unique indexes; a miss re-reads whether the marker exists.\<close>

definition insert_marker :: "int \<Rightarrow> string \<Rightarrow> nat \<Rightarrow> nat \<Rightarrow> bool \<Rightarrow> dev_db
    \<Rightarrow> store_error + (dev_db \<times> dev_job_event option)" where
  "insert_marker now jobId dropped sq seen db =
     (if seen then Inr (db, None)
      else if marker_present jobId db \<or> seq_taken jobId HOST_EVENT_PROVISION sq db
      then Inr (db\<lparr>db_nextEventId := Suc (db_nextEventId db)\<rparr>, None)
      else insert_event jobId HOST_EVENT_PROVISION sq Ev_status now (truncation_payload dropped) db)"

fun truncation_attempts :: "(nat \<Rightarrow> dev_db \<Rightarrow> dev_db) \<Rightarrow> nat \<Rightarrow> nat \<Rightarrow> int \<Rightarrow> string \<Rightarrow> nat \<Rightarrow> dev_db
    \<Rightarrow> dev_db \<times> (store_error + dev_job_event option)" where
  "truncation_attempts race k 0 now jobId dropped db = (db, Inr None)"
| "truncation_attempts race k (Suc n) now jobId dropped db =
     (let sq = next_host_seq jobId db; seen = marker_present jobId db; db1 = race k db in
      case insert_marker now jobId dropped sq seen db1 of
        Inl err \<Rightarrow> (db1, Inl err)
      | Inr (db2, Some e) \<Rightarrow> (db2, Inr (Some e))
      | Inr (db2, None) \<Rightarrow>
          if marker_present jobId db2 then (db2, Inr None)
          else truncation_attempts race (Suc k) n now jobId dropped db2)"

definition recordTruncationOnce :: "int \<Rightarrow> string \<Rightarrow> nat \<Rightarrow> dev_db
    \<Rightarrow> dev_db \<times> (store_error + dev_job_event option)" where
  "recordTruncationOnce now jobId dropped db = truncation_attempts no_race 0 4 now jobId dropped db"

text \<open>\<open>appendEvents\<close> returns the number of stored events and the events it published to the live bus
  (the stored ones, then the marker).\<close>

definition beat :: "int \<Rightarrow> string \<Rightarrow> dev_db \<Rightarrow> dev_db" where
  "beat now jobId db = fst (update_job jobId non_terminal (beat_set now) db)"

definition capped :: "int \<Rightarrow> string \<Rightarrow> dev_db \<Rightarrow> bool" where
  "capped maxEvents jobId db \<longleftrightarrow> 0 < maxEvents \<and> maxEvents \<le> int (countEvents jobId db)"

definition finish_append :: "int \<Rightarrow> string \<Rightarrow> nat \<Rightarrow> dev_job_event list \<Rightarrow> dev_db
    \<Rightarrow> dev_db \<times> (store_error + nat \<times> dev_job_event list)" where
  "finish_append now jobId dropped stored db =
     (if dropped = 0 then (beat now jobId db, Inr (length stored, stored))
      else case recordTruncationOnce now jobId dropped db of
        (db1, Inl err) \<Rightarrow> (db1, Inl err)
      | (db1, Inr m) \<Rightarrow>
          (beat now jobId db1,
           Inr (length stored, stored @ (case m of None \<Rightarrow> [] | Some e \<Rightarrow> [e]))))"

definition appendEvents :: "int \<Rightarrow> int \<Rightarrow> string \<Rightarrow> nat \<Rightarrow> runner_event_input list \<Rightarrow> dev_db
    \<Rightarrow> dev_db \<times> (store_error + nat \<times> dev_job_event list)" where
  "appendEvents maxEvents now jobId prov events db =
     (if events = [] then (db, Inr (0, []))
      else case validate_events events of
        Inl err \<Rightarrow> (db, Inl err)
      | Inr vs \<Rightarrow>
          (let kept = (if capped maxEvents jobId db
                       then filter (\<lambda>v. \<not> isLowValueEventType (snd v)) vs else vs);
               dropped = length vs - length kept in
           case insert_events jobId prov (map (event_tuple_of now) kept) db of
             Inl err \<Rightarrow> (db, Inl err)
           | Inr (db1, stored) \<Rightarrow> finish_append now jobId dropped stored db1))"

definition listEvents :: "string \<Rightarrow> nat option \<Rightarrow> int \<Rightarrow> dev_db \<Rightarrow> dev_job_event list" where
  "listEvents jobId afterId limit db =
     take (nat (min (max 1 limit) 2000))
       (sort_key e_id
         (filter (\<lambda>e. e_jobId e = jobId \<and> (case afterId of None \<Rightarrow> True | Some a \<Rightarrow> a < e_id e))
           (db_events db)))"

section \<open>Artifacts\<close>

text \<open>The object store is an injected interface: \<open>put key content\<close> returns the durable reference.\<close>

record artifact_ceiling_options =
  ac_maxBytes :: int
  ac_objectStore :: "(string \<Rightarrow> string \<Rightarrow> string) option"

definition json_spread :: "json \<Rightarrow> (string \<times> json) list \<Rightarrow> json" where
  "json_spread m kvs = (case m of JObj old \<Rightarrow> JObj (old @ kvs) | _ \<Rightarrow> JObj kvs)"

definition applyArtifactCeiling :: "string \<Rightarrow> string \<Rightarrow> string \<Rightarrow> string \<Rightarrow> json \<Rightarrow> artifact_ceiling_options
    \<Rightarrow> string \<times> json" where
  "applyArtifactCeiling uuid jobId kind content meta opts =
     (let bytes = length content in
      if ac_maxBytes opts \<le> 0 \<or> int bytes \<le> ac_maxBytes opts then (content, meta)
      else case ac_objectStore opts of
        Some put \<Rightarrow>
          (let ref = put (''dev-jobs/'' @ jobId @ ''/'' @ kind @ ''/'' @ uuid) content in
           (''[offloaded to object storage: '' @ ref @ '' ('' @ show_nat bytes @ '' bytes)]'',
            json_spread meta [(''offloaded'', JBool True), (''objectRef'', JStr ref),
              (''originalBytes'', JNum (of_nat bytes)),
              (''ceilingBytes'', JNum (of_int (ac_maxBytes opts)))]))
      | None \<Rightarrow>
          (''[artifact omitted: '' @ show_nat bytes @ '' bytes exceeds the '' @
             show_int (ac_maxBytes opts) @ ''-byte ceiling and no object store is configured]'',
           json_spread meta [(''oversized'', JBool True),
              (''originalBytes'', JNum (of_nat bytes)),
              (''ceilingBytes'', JNum (of_int (ac_maxBytes opts)))]))"

definition addArtifact :: "artifact_ceiling_options option \<Rightarrow> int \<Rightarrow> string \<Rightarrow> string \<Rightarrow> string \<Rightarrow> string
    \<Rightarrow> string \<Rightarrow> json \<Rightarrow> dev_db \<Rightarrow> dev_db \<times> (store_error + string)" where
  "addArtifact limits now newId uuid jobId kind content meta db =
     (case dev_job_artifact_kind_of kind of
        None \<Rightarrow> (db, Inl (TypeError (''addArtifact: invalid artifact kind '' @ squote kind)))
      | Some k \<Rightarrow>
          if getJob jobId db = None
          then (db, Inl (Foreign_key_violation ''dev_job_artifacts_job_id_fkey''))
          else
            (let (c, m) = (case limits of None \<Rightarrow> (content, meta)
                           | Some opts \<Rightarrow> applyArtifactCeiling uuid jobId kind content meta opts);
                 a = \<lparr>a_id = newId, a_jobId = jobId, a_kind = k, a_content = c, a_meta = m,
                      a_createdAt = now\<rparr>
             in (db\<lparr>db_artifacts := db_artifacts db @ [a]\<rparr>, Inr newId)))"

definition artifactBelongsToJob :: "string \<Rightarrow> string \<Rightarrow> dev_db \<Rightarrow> bool" where
  "artifactBelongsToJob jobId artifactId db \<longleftrightarrow>
     UUID_RE artifactId \<and>
     list_ex (\<lambda>a. a_id a = artifactId \<and> a_jobId a = jobId) (db_artifacts db)"

definition getArtifact :: "string \<Rightarrow> dev_db \<Rightarrow> dev_job_artifact option" where
  "getArtifact i db = (if UUID_RE i then find_row a_id i (db_artifacts db) else None)"

definition listArtifacts :: "string \<Rightarrow> dev_db \<Rightarrow> dev_job_artifact list" where
  "listArtifacts jobId db = sort_key a_createdAt (filter (\<lambda>a. a_jobId a = jobId) (db_artifacts db))"

definition getLatestArtifact :: "string \<Rightarrow> dev_job_artifact_kind \<Rightarrow> dev_db \<Rightarrow> dev_job_artifact option" where
  "getLatestArtifact jobId kind db =
     (case sort_key (\<lambda>a. - a_createdAt a)
             (filter (\<lambda>a. a_jobId a = jobId \<and> a_kind a = kind) (db_artifacts db)) of
        [] \<Rightarrow> None | a # _ \<Rightarrow> Some a)"

section \<open>Retention\<close>

definition MS_PER_DAY :: int where "MS_PER_DAY = 86400000"

definition cutoff :: "int \<Rightarrow> int \<Rightarrow> int" where
  "cutoff now days = now - days * MS_PER_DAY"

record retention_config =
  rc_eventRetentionDays :: int
  rc_auditRetentionDays :: int

text \<open>The constructor throws on a window that is not a positive integer.\<close>

definition retention_config_ok :: "retention_config \<Rightarrow> bool" where
  "retention_config_ok c \<longleftrightarrow> 0 < rc_eventRetentionDays c \<and> 0 < rc_auditRetentionDays c"

definition delete_events :: "(dev_job_event \<Rightarrow> bool) \<Rightarrow> dev_db \<Rightarrow> dev_db \<times> nat" where
  "delete_events p db =
     (db\<lparr>db_events := filter (\<lambda>e. \<not> p e) (db_events db)\<rparr>, length (filter p (db_events db)))"

definition pruneLowValueEvents :: "retention_config \<Rightarrow> int \<Rightarrow> dev_db \<Rightarrow> dev_db \<times> nat" where
  "pruneLowValueEvents c now db =
     delete_events (\<lambda>e. e_type e \<in> set LOW_VALUE_EVENT_TYPES \<and>
                        e_ts e < cutoff now (rc_eventRetentionDays c)) db"

definition pruneExpiredEvents :: "retention_config \<Rightarrow> int \<Rightarrow> dev_db \<Rightarrow> dev_db \<times> nat" where
  "pruneExpiredEvents c now db =
     delete_events (\<lambda>e. e_ts e < cutoff now (rc_auditRetentionDays c)) db"

definition retention_run :: "retention_config \<Rightarrow> int \<Rightarrow> dev_db \<Rightarrow> dev_db \<times> nat \<times> nat" where
  "retention_run c now db =
     (let (db1, low) = pruneLowValueEvents c now db;
          (db2, expired) = pruneExpiredEvents c now db1
      in (db2, low, expired))"

definition purgeTerminalJobs :: "int \<Rightarrow> int \<Rightarrow> dev_db \<Rightarrow> dev_db \<times> (store_error + nat)" where
  "purgeTerminalJobs olderThanDays now db =
     (if olderThanDays \<le> 0
      then (db, Inl (TypeError ''purgeTerminalJobs: olderThanDays must be a positive integer''))
      else
        (let p = (\<lambda>j. isTerminalDevJobStatus (j_status j) \<and>
                   (case j_endedAt j of None \<Rightarrow> False
                    | Some t \<Rightarrow> t < cutoff now olderThanDays))
         in (cascade_delete p db, Inr (length (filter p (db_jobs db))))))"

end
