(* ===== verification/ExampleData.thy ===== *)
theory ExampleData
  imports JobStore
begin

text \<open>
  Concrete rows the witnesses evaluate on: a registered repository, a claimed and running job with a
  live handle, a queued one, and a database that holds them.
\<close>

definition lease_uuid :: string where
  "lease_uuid = ''11111111-2222-3333-4444-555555555555''"

definition plain_overrides :: diff_policy_overrides where
  "plain_overrides = \<lparr>ov_maxFiles = None, ov_maxAddedLines = None, ov_extraProtectedGlobs = None,
     ov_unprotectedGlobs = None\<rparr>"

definition example_repo :: dev_repo where
  "example_repo = \<lparr>rp_id = ''r1'', rp_forgeKind = ''github'', rp_owner = ''acme'', rp_name = ''app'',
     rp_cloneUrl = ''https://github.com/acme/app.git'', rp_defaultBranch = ''main'',
     rp_credentialKind = Cred_pat, rp_credentialRef = ''repo/r1'', rp_trackerKind = None,
     rp_trackerConfig = JObj [], rp_allowedTriggers = [''admin''], rp_allowedLaunchers = [],
     rp_egressAllowlist = [], rp_runsTests = False, rp_branchProtectionOk = None,
     rp_branchProtectionCheckedAt = None, rp_approverRoleKey = None, rp_gateDeadlineIso = ''P7D'',
     rp_bootstrapCommand = None, rp_testCommand = None, rp_policyOverrides = plain_overrides,
     rp_triggerLabel = ''omadia-dev'', rp_webhookEnabled = True, rp_webhookSenders = [],
     rp_budgetCostUsd = None, rp_budgetTokens = None, rp_dockerInJob = False,
     rp_createdBy = ''admin'', rp_createdAt = 0, rp_updatedAt = 0\<rparr>"

definition example_new_job :: new_dev_job where
  "example_new_job = \<lparr>n_repoId = ''r1'', n_kind = Kind_fix_issue, n_brief = ''fix it'',
     n_source = Src_admin, n_sourceRef = Some ''gh-issue:7'', n_baseSha = None, n_backend = Be_docker,
     n_agentKind = None, n_authMode = None, n_provision = None, n_phase = None, n_status = None,
     n_branch = None, n_createdBy = ''admin''\<rparr>"

definition example_queued_job :: dev_job where
  "example_queued_job = new_job_row 5 ''j2'' ''hash2'' example_new_job"

definition example_handle :: runner_handle where
  "example_handle = \<lparr>h_backend = Be_docker, h_id = ''c1'', h_pid = None, h_startedAt = 10\<rparr>"

definition example_job :: dev_job where
  "example_job = (new_job_row 1 ''j1'' ''hash1'' example_new_job)
     \<lparr>j_status := St_running, j_claimedBy := Some lease_uuid, j_claimedAt := Some 2,
      j_startedAt := Some 2, j_runnerHandle := Some example_handle\<rparr>"

definition example_db :: dev_db where
  "example_db = empty_db\<lparr>db_repos := [example_repo], db_jobs := [example_job, example_queued_job]\<rparr>"

lemmas example_defs = example_db_def example_job_def example_queued_job_def example_new_job_def
  new_job_row_def empty_db_def

lemma example_db_ids: "ids_distinct example_db"
  by (simp add: ids_distinct_def example_defs)

lemma example_get [simp]:
  "getJob ''j1'' example_db = Some example_job" "getJob ''j2'' example_db = Some example_queued_job"
  by (simp_all add: getJob_def example_defs)

lemma example_status [simp]:
  "j_status example_job = St_running" "j_status example_queued_job = St_queued"
  "j_runnerHandle example_job = Some example_handle" "j_runnerHandle example_queued_job = None"
  "j_id example_job = ''j1''" "j_id example_queued_job = ''j2''"
  by (simp_all add: example_defs)

end
