(* ===== verification/FinalizeJob.thy ===== *)
theory FinalizeJob
  imports EventLog ExampleData
begin

text \<open>
  The single terminal choke point (\<open>finalizeDevJob.ts\<close>).  Its dependencies are a record of functions
  as in the source: the store surface, the backend's \<open>terminate\<close>, the credential revokers.  What the
  call does outside the store is a log of effects.  The locale \<open>finalize_store\<close> states what the code
  relies on from \<open>finishTerminal\<close>; it is interpreted on the model of \<open>DevJobStore\<close>.  \<open>fin_step\<close>
  interleaves any number of finalizers of one job between their read and their guarded write.
\<close>

section \<open>Dependencies\<close>

record finalize_context =
  fc_error :: "string option"
  fc_result :: "dev_job_result option"
  fc_branch :: "string option"
  fc_prUrl :: "string option"
  fc_reason :: "string option"
  fc_eventPayload :: "(string \<times> json) list"

definition no_context :: finalize_context where
  "no_context = \<lparr>fc_error = None, fc_result = None, fc_branch = None, fc_prUrl = None,
     fc_reason = None, fc_eventPayload = []\<rparr>"

record finalize_result =
  fr_job :: "dev_job option"
  fr_transitioned :: bool

datatype finalize_effect =
    Eff_event string json
  | Eff_revoke nat string
  | Eff_terminate runner_handle
  | Eff_error string

text \<open>A registry holds its revokers in registration order; the returned disposer removes the first
  occurrence of its revoker.  Revokers are named by numbers; which of them throw is a dependency.\<close>

definition register_revoker :: "nat \<Rightarrow> nat list \<Rightarrow> nat list" where
  "register_revoker r reg = reg @ [r]"

definition unregister_revoker :: "nat \<Rightarrow> nat list \<Rightarrow> nat list" where
  "unregister_revoker r reg = remove1 r reg"

record 's finalize_deps =
  fd_getJob :: "string \<Rightarrow> 's \<Rightarrow> dev_job option"
  fd_finishTerminal :: "string \<Rightarrow> dev_job_status \<Rightarrow> terminal_patch \<Rightarrow> 's
      \<Rightarrow> 's \<times> (store_error + terminal_write_result)"
  fd_appendHostEvent :: "string \<Rightarrow> string \<Rightarrow> json \<Rightarrow> 's \<Rightarrow> 's \<times> (store_error + dev_job_event option)"
  fd_terminate :: "(runner_handle \<Rightarrow> bool) option"
  fd_revokers :: "nat list"
  fd_revoke_throws :: "nat \<Rightarrow> dev_job \<Rightarrow> bool"

section \<open>The transition\<close>

definition patch_of :: "finalize_context \<Rightarrow> terminal_patch" where
  "patch_of ctx = \<lparr>tp_error = fc_error ctx, tp_result = fc_result ctx, tp_branch = fc_branch ctx,
     tp_prUrl = fc_prUrl ctx\<rparr>"

definition status_payload :: "dev_job_status \<Rightarrow> dev_job_status \<Rightarrow> finalize_context \<Rightarrow> json" where
  "status_payload s previous ctx =
     JObj ([(''status'', JStr (dev_job_status_name s)),
            (''previous'', JStr (dev_job_status_name previous))] @
           (case fc_reason ctx of None \<Rightarrow> [] | Some r \<Rightarrow> [(''reason'', JStr r)]) @
           fc_eventPayload ctx)"

definition revokeAll :: "(nat \<Rightarrow> dev_job \<Rightarrow> bool) \<Rightarrow> nat list \<Rightarrow> dev_job \<Rightarrow> finalize_effect list" where
  "revokeAll throws regs job =
     concat (List.map (\<lambda>r. Eff_revoke r (j_id job) #
                           (if throws r job then [Eff_error ''revoke''] else [])) regs)"

definition terminate_effects :: "(runner_handle \<Rightarrow> bool) option \<Rightarrow> runner_handle option \<Rightarrow> finalize_effect list" where
  "terminate_effects term_fn h =
     (case (h, term_fn) of
        (Some rh, Some throws) \<Rightarrow> Eff_terminate rh # (if throws rh then [Eff_error ''terminate''] else [])
      | _ \<Rightarrow> [])"

definition side_effects :: "('s, 'z) finalize_deps_scheme \<Rightarrow> string \<Rightarrow> dev_job_status \<Rightarrow> finalize_context
    \<Rightarrow> dev_job \<Rightarrow> dev_job \<Rightarrow> 's \<Rightarrow> 's \<times> finalize_effect list" where
  "side_effects deps jobId s ctx before after db =
     (let payload = status_payload s (j_status before) ctx;
          (db1, r) = fd_appendHostEvent deps jobId ''status'' payload db;
          handle = coalesce (j_runnerHandle before) (j_runnerHandle after)
      in (db1,
          Eff_event jobId payload #
          (case r of Inl _ \<Rightarrow> [Eff_error ''event''] | Inr _ \<Rightarrow> []) @
          revokeAll (fd_revoke_throws deps) (fd_revokers deps) after @
          terminate_effects (fd_terminate deps) handle))"

text \<open>The write half: everything after the first read of the job.\<close>

definition finalize_write :: "('s, 'z) finalize_deps_scheme \<Rightarrow> string \<Rightarrow> dev_job_status \<Rightarrow> finalize_context
    \<Rightarrow> dev_job \<Rightarrow> 's \<Rightarrow> 's \<times> finalize_effect list \<times> (store_error + finalize_result)" where
  "finalize_write deps jobId s ctx before db =
     (case fd_finishTerminal deps jobId s (patch_of ctx) db of
        (db1, Inl err) \<Rightarrow> (db1, [], Inl err)
      | (db1, Inr tw) \<Rightarrow>
          (case tw_job tw of
             None \<Rightarrow> (db1, [], Inr \<lparr>fr_job = Some before, fr_transitioned = False\<rparr>)
           | Some after \<Rightarrow>
               (let (db2, effs) = (if tw_transitioned tw then side_effects deps jobId s ctx before after db1
                                   else (db1, []))
                in (db2, effs, Inr \<lparr>fr_job = Some after, fr_transitioned = tw_transitioned tw\<rparr>))))"

definition finalizeDevJobDetailed :: "('s, 'z) finalize_deps_scheme \<Rightarrow> string \<Rightarrow> dev_job_status
    \<Rightarrow> finalize_context \<Rightarrow> 's \<Rightarrow> 's \<times> finalize_effect list \<times> (store_error + finalize_result)" where
  "finalizeDevJobDetailed deps jobId s ctx db =
     (if \<not> isTerminalDevJobStatus s
      then (db, [], Inl (TypeError (''finalizeDevJob: '' @ squote (dev_job_status_name s) @
                                    '' is not a terminal status'')))
      else case fd_getJob deps jobId db of
        None \<Rightarrow> (db, [], Inr \<lparr>fr_job = None, fr_transitioned = False\<rparr>)
      | Some before \<Rightarrow>
          if isTerminalDevJobStatus (j_status before)
          then (db, [], Inr \<lparr>fr_job = Some before, fr_transitioned = False\<rparr>)
          else finalize_write deps jobId s ctx before db)"

definition finalizeDevJob :: "('s, 'z) finalize_deps_scheme \<Rightarrow> string \<Rightarrow> dev_job_status
    \<Rightarrow> finalize_context \<Rightarrow> 's \<Rightarrow> 's \<times> finalize_effect list \<times> (store_error + dev_job option)" where
  "finalizeDevJob deps jobId s ctx db =
     (case finalizeDevJobDetailed deps jobId s ctx db of
        (db', effs, Inl err) \<Rightarrow> (db', effs, Inl err)
      | (db', effs, Inr r) \<Rightarrow> (db', effs, Inr (fr_job r)))"

section \<open>Interleaved finalizers\<close>

datatype fin_pc = F_start | F_read dev_job | F_done finalize_result | F_thrown store_error

record 's fin_state =
  fin_db :: 's
  fin_log :: "finalize_effect list"
  fin_pc :: "nat \<Rightarrow> fin_pc"

text \<open>Process \<open>i\<close> finalizes the job with status \<open>st i\<close> and context \<open>cx i\<close>: first the read, later the
  guarded write with its effects.\<close>

inductive fin_step :: "('s, 'z) finalize_deps_scheme \<Rightarrow> string \<Rightarrow> (nat \<Rightarrow> dev_job_status)
    \<Rightarrow> (nat \<Rightarrow> finalize_context) \<Rightarrow> 's fin_state \<Rightarrow> 's fin_state \<Rightarrow> bool"
  for deps jobId st cx where
  read_live: "\<lbrakk>fin_pc w i = F_start; fd_getJob deps jobId (fin_db w) = Some j;
      \<not> isTerminalDevJobStatus (j_status j)\<rbrakk> \<Longrightarrow>
    fin_step deps jobId st cx w (w\<lparr>fin_pc := (fin_pc w)(i := F_read j)\<rparr>)"
| read_done: "\<lbrakk>fin_pc w i = F_start; fd_getJob deps jobId (fin_db w) = Some j;
      isTerminalDevJobStatus (j_status j)\<rbrakk> \<Longrightarrow>
    fin_step deps jobId st cx w
      (w\<lparr>fin_pc := (fin_pc w)(i := F_done \<lparr>fr_job = Some j, fr_transitioned = False\<rparr>)\<rparr>)"
| read_absent: "\<lbrakk>fin_pc w i = F_start; fd_getJob deps jobId (fin_db w) = None\<rbrakk> \<Longrightarrow>
    fin_step deps jobId st cx w
      (w\<lparr>fin_pc := (fin_pc w)(i := F_done \<lparr>fr_job = None, fr_transitioned = False\<rparr>)\<rparr>)"
| write_ok: "\<lbrakk>fin_pc w i = F_read before;
      finalize_write deps jobId (st i) (cx i) before (fin_db w) = (db', effs, Inr r)\<rbrakk> \<Longrightarrow>
    fin_step deps jobId st cx w
      (w\<lparr>fin_db := db', fin_log := fin_log w @ effs, fin_pc := (fin_pc w)(i := F_done r)\<rparr>)"
| write_err: "\<lbrakk>fin_pc w i = F_read before;
      finalize_write deps jobId (st i) (cx i) before (fin_db w) = (db', effs, Inl err)\<rbrakk> \<Longrightarrow>
    fin_step deps jobId st cx w
      (w\<lparr>fin_db := db', fin_log := fin_log w @ effs, fin_pc := (fin_pc w)(i := F_thrown err)\<rparr>)"

inductive_cases fin_stepE [consumes 1, case_names read_live read_done read_absent write_ok write_err]:
  "fin_step deps jobId st cx w w'"

inductive fin_reach :: "('s, 'z) finalize_deps_scheme \<Rightarrow> string \<Rightarrow> (nat \<Rightarrow> dev_job_status)
    \<Rightarrow> (nat \<Rightarrow> finalize_context) \<Rightarrow> 's \<Rightarrow> 's fin_state \<Rightarrow> bool"
  for deps jobId st cx db where
  start: "fin_reach deps jobId st cx db \<lparr>fin_db = db, fin_log = [], fin_pc = (\<lambda>i. F_start)\<rparr>"
| step: "\<lbrakk>fin_reach deps jobId st cx db w; fin_step deps jobId st cx w w'\<rbrakk> \<Longrightarrow>
    fin_reach deps jobId st cx db w'"

definition fin_won :: "'s fin_state \<Rightarrow> nat \<Rightarrow> bool" where
  "fin_won w i \<longleftrightarrow> (case fin_pc w i of F_done r \<Rightarrow> fr_transitioned r | _ \<Rightarrow> False)"

definition is_event :: "finalize_effect \<Rightarrow> bool" where
  "is_event e \<longleftrightarrow> (case e of Eff_event _ _ \<Rightarrow> True | _ \<Rightarrow> False)"

definition is_terminate :: "finalize_effect \<Rightarrow> bool" where
  "is_terminate e \<longleftrightarrow> (case e of Eff_terminate _ \<Rightarrow> True | _ \<Rightarrow> False)"

section \<open>What finalize relies on\<close>

locale finalize_store =
  fixes get_job :: "string \<Rightarrow> 's \<Rightarrow> dev_job option"
    and finish :: "string \<Rightarrow> dev_job_status \<Rightarrow> terminal_patch \<Rightarrow> 's
        \<Rightarrow> 's \<times> (store_error + terminal_write_result)"
    and append_event :: "string \<Rightarrow> string \<Rightarrow> json \<Rightarrow> 's \<Rightarrow> 's \<times> (store_error + dev_job_event option)"
    and good :: "'s \<Rightarrow> bool"
  assumes finish_live: "\<lbrakk>good db; get_job i db = Some j; \<not> isTerminalDevJobStatus (j_status j);
      isTerminalDevJobStatus s\<rbrakk> \<Longrightarrow>
      \<exists>db' j'. finish i s p db = (db', Inr \<lparr>tw_job = Some j', tw_transitioned = True\<rparr>) \<and>
        get_job i db' = Some j' \<and> j_status j' = s \<and> j_id j' = j_id j"
    and finish_terminal: "\<lbrakk>good db; get_job i db = Some j; isTerminalDevJobStatus (j_status j);
      isTerminalDevJobStatus s\<rbrakk> \<Longrightarrow>
      finish i s p db = (db, Inr \<lparr>tw_job = Some j, tw_transitioned = False\<rparr>)"
    and finish_absent: "\<lbrakk>good db; get_job i db = None; isTerminalDevJobStatus s\<rbrakk> \<Longrightarrow>
      finish i s p db = (db, Inr \<lparr>tw_job = None, tw_transitioned = False\<rparr>)"
    and finish_good: "good db \<Longrightarrow> good (fst (finish i s p db))"
    and append_good: "good db \<Longrightarrow> good (fst (append_event k ty pl db))"
    and append_keeps: "get_job i (fst (append_event k ty pl db)) = get_job i db"
begin

definition wired :: "('s, 'z) finalize_deps_scheme \<Rightarrow> bool" where
  "wired deps \<longleftrightarrow> fd_getJob deps = get_job \<and> fd_finishTerminal deps = finish \<and>
     fd_appendHostEvent deps = append_event"

lemma wiredD:
  assumes "wired deps"
  shows "fd_getJob deps = get_job" "fd_finishTerminal deps = finish"
    "fd_appendHostEvent deps = append_event"
  using assms by (simp_all add: wired_def)

lemma write_good:
  assumes "wired deps" "good db"
  shows "good (fst (finalize_write deps i s ctx before db))"
proof -
  have g: "good (fst (finish i s (patch_of ctx) db))" using finish_good assms(2) .
  then show ?thesis
    using append_good
    by (auto simp: finalize_write_def side_effects_def wiredD[OF assms(1)] Let_def
        split: prod.splits sum.splits option.splits) (metis fst_conv)+
qed

lemma write_live:
  assumes "wired deps" "good db" "get_job i db = Some j" "\<not> isTerminalDevJobStatus (j_status j)"
    and "isTerminalDevJobStatus s"
  obtains db' effs j' where
    "finalize_write deps i s ctx before db =
       (db', Eff_event i (status_payload s (j_status before) ctx) # effs,
        Inr \<lparr>fr_job = Some j', fr_transitioned = True\<rparr>)"
    "\<not> list_ex is_event effs" "get_job i db' = Some j'" "j_status j' = s" "j_id j' = j_id j"
    "length (filter is_terminate effs) \<le> 1"
proof -
  obtain db1 j' where w: "finish i s (patch_of ctx) db =
      (db1, Inr \<lparr>tw_job = Some j', tw_transitioned = True\<rparr>)"
    "get_job i db1 = Some j'" "j_status j' = s" "j_id j' = j_id j"
    using finish_live[OF assms(2-5)] by blast
  obtain db2 r where a: "append_event i ''status'' (status_payload s (j_status before) ctx) db1 = (db2, r)"
    by (cases "append_event i ''status'' (status_payload s (j_status before) ctx) db1")
  have keep: "get_job i db2 = Some j'"
    using append_keeps[of i i "''status''" "status_payload s (j_status before) ctx" db1] a w(2) by simp
  have ne: "\<not> list_ex is_event (revokeAll th rs k)" "filter is_terminate (revokeAll th rs k) = []"
    for th rs k
    by (induction rs) (simp_all add: revokeAll_def is_event_def is_terminate_def)
  have nt: "\<not> list_ex is_event (terminate_effects t h)"
    "length (filter is_terminate (terminate_effects t h)) \<le> 1" for t h
    by (auto simp: terminate_effects_def is_event_def is_terminate_def split: option.splits)
  show ?thesis
    by (rule that[of db2 _ j'])
       (use w a keep ne nt in \<open>auto simp: finalize_write_def side_effects_def wiredD[OF assms(1)]
          is_event_def is_terminate_def split: sum.splits\<close>)
qed

lemma write_terminal:
  assumes "wired deps" "good db" "get_job i db = Some j" "isTerminalDevJobStatus (j_status j)"
    and "isTerminalDevJobStatus s"
  shows "finalize_write deps i s ctx before db =
    (db, [], Inr \<lparr>fr_job = Some j, fr_transitioned = False\<rparr>)"
  using assms(2-) by (simp add: finalize_write_def wiredD[OF assms(1)] finish_terminal)

lemma write_absent:
  assumes "wired deps" "good db" "get_job i db = None" "isTerminalDevJobStatus s"
  shows "finalize_write deps i s ctx before db =
    (db, [], Inr \<lparr>fr_job = Some before, fr_transitioned = False\<rparr>)"
  using assms(2-) by (simp add: finalize_write_def wiredD[OF assms(1)] finish_absent)

definition race_inv :: "'s fin_state \<Rightarrow> string \<Rightarrow> bool" where
  "race_inv w i \<longleftrightarrow> good (fin_db w) \<and>
     (\<forall>a b. fin_won w a \<longrightarrow> fin_won w b \<longrightarrow> a = b) \<and>
     (if \<exists>a. fin_won w a
      then (\<exists>j. get_job i (fin_db w) = Some j \<and> isTerminalDevJobStatus (j_status j)) \<and>
           length (filter is_event (fin_log w)) = 1 \<and> length (filter is_terminate (fin_log w)) \<le> 1
      else fin_log w = [])"

lemma race_inv_cong:
  "\<lbrakk>fin_won w' = fin_won w; fin_db w' = fin_db w; fin_log w' = fin_log w\<rbrakk> \<Longrightarrow>
     race_inv w' i = race_inv w i"
  by (simp only: race_inv_def)

lemma race_inv_step:
  assumes step: "fin_step deps i st cx w w'" and inv: "race_inv w i"
    and wd: "wired deps" and st_term: "\<And>k. isTerminalDevJobStatus (st k)"
  shows "race_inv w' i"
proof -
  have gd: "good (fin_db w)" using inv by (simp add: race_inv_def)
  show ?thesis
  using step
proof (cases rule: fin_stepE)
  case (read_live k j)
  then show ?thesis using inv by (subst race_inv_cong[of _ w]) (auto simp: fin_won_def fun_eq_iff)
next
  case (read_done k j)
  then show ?thesis using inv by (subst race_inv_cong[of _ w]) (auto simp: fin_won_def fun_eq_iff)
next
  case (read_absent k)
  then show ?thesis using inv by (subst race_inv_cong[of _ w]) (auto simp: fin_won_def fun_eq_iff)
next
  case (write_ok k before db' effs r)
  have others: "fin_won w' a = (if a = k then fr_transitioned r else fin_won w a)" for a
    using write_ok by (auto simp: fin_won_def)
  have fields: "fin_db w' = db'" "fin_log w' = fin_log w @ effs" using write_ok by simp_all
  have k_open: "\<not> fin_won w k" using write_ok by (simp add: fin_won_def)
  consider (live) j where "get_job i (fin_db w) = Some j" "\<not> isTerminalDevJobStatus (j_status j)"
    | (closed) j where "get_job i (fin_db w) = Some j" "isTerminalDevJobStatus (j_status j)"
    | (gone) "get_job i (fin_db w) = None" by (cases "get_job i (fin_db w)") auto
  then show ?thesis
  proof cases
    case live
    have none: "\<not> fin_won w a" for a
      using inv live by (auto simp: race_inv_def split: if_splits)
    then have emp: "fin_log w = []" using inv by (simp add: race_inv_def)
    from write_live[OF wd gd live st_term[of k]] obtain db1 es j' where
      wl: "finalize_write deps i (st k) (cx k) before (fin_db w) =
        (db1, Eff_event i (status_payload (st k) (j_status before) (cx k)) # es,
         Inr \<lparr>fr_job = Some j', fr_transitioned = True\<rparr>)"
      "\<not> list_ex is_event es" "get_job i db1 = Some j'" "j_status j' = st k"
      "length (filter is_terminate es) \<le> 1" by metis
    then have eq: "r = \<lparr>fr_job = Some j', fr_transitioned = True\<rparr>" "db' = db1"
      "effs = Eff_event i (status_payload (st k) (j_status before) (cx k)) # es"
      using write_ok by simp_all
    have "filter is_event es = []" using wl(2) by (auto simp: filter_empty_conv list_ex_iff)
    then show ?thesis
      using none wl(3-5) st_term[of k] emp eq
      using write_good[OF wd gd, of i "st k" "cx k" before] wl(1)
      by (auto simp: race_inv_def others fields is_event_def is_terminate_def)
  next
    case closed
    then have "r = \<lparr>fr_job = Some j, fr_transitioned = False\<rparr>" "effs = []" "db' = fin_db w"
      using write_terminal[OF wd gd closed st_term[of k], of "cx k" before] write_ok by simp_all
    then have "fin_won w' = fin_won w" "fin_db w' = fin_db w" "fin_log w' = fin_log w"
      using k_open by (auto simp: fun_eq_iff others fields)
    then show ?thesis using inv by (simp only: race_inv_cong[of w' w])
  next
    case gone
    then have "r = \<lparr>fr_job = Some before, fr_transitioned = False\<rparr>" "effs = []" "db' = fin_db w"
      using write_absent[OF wd gd gone st_term[of k], of "cx k" before] write_ok by simp_all
    then have "fin_won w' = fin_won w" "fin_db w' = fin_db w" "fin_log w' = fin_log w"
      using k_open by (auto simp: fun_eq_iff others fields)
    then show ?thesis using inv by (simp only: race_inv_cong[of w' w])
  qed
next
  case (write_err k before db' effs err)
  have "\<exists>x. snd (snd (finalize_write deps i (st k) (cx k) before (fin_db w))) = Inr x"
  proof (cases "get_job i (fin_db w)")
    case None
    then show ?thesis by (simp add: write_absent[OF wd gd None st_term])
  next
    case (Some j)
    show ?thesis
    proof (cases "isTerminalDevJobStatus (j_status j)")
      case True
      then show ?thesis by (simp add: write_terminal[OF wd gd Some True st_term])
    next
      case False
      from write_live[OF wd gd Some False st_term[of k], of "cx k" before] show ?thesis
        by (metis snd_conv)
    qed
  qed
  then show ?thesis using write_err by simp
qed
qed

lemma race_inv_reach:
  assumes "fin_reach deps i st cx db w" "good db" "wired deps" "\<And>k. isTerminalDevJobStatus (st k)"
  shows "race_inv w i"
  using assms(1)
proof induction
  case start
  then show ?case using assms(2) by (simp add: race_inv_def fin_won_def)
next
  case (step w w')
  then show ?case using race_inv_step assms(3,4) by blast
qed

end

section \<open>The store keeps the contract\<close>

lemma insert_event_jobs:
  "insert_event i prov sq ty ts pl db = Inr (db', r) \<Longrightarrow> db_jobs db' = db_jobs db"
  by (auto simp: insert_event_def Let_def split: if_splits)

lemma host_event_attempts_jobs:
  assumes "\<And>k d. db_jobs (race k d) = db_jobs d"
  shows "db_jobs (fst (host_event_attempts race k n now i ty pl db)) = db_jobs db"
  using assms
  by (induction race k n now i ty pl db rule: host_event_attempts.induct)
     (auto simp: Let_def dest: insert_event_jobs split: sum.splits option.splits)

lemma appendHostEvent_jobs: "db_jobs (fst (appendHostEvent now i ty pl db)) = db_jobs db"
  by (simp add: appendHostEvent_def appendHostEvent_racing_def host_event_attempts_jobs no_race_def
      split: option.splits)

lemma appendHostEvent_getJob [simp]: "getJob k (fst (appendHostEvent now i ty pl db)) = getJob k db"
  by (simp add: getJob_def appendHostEvent_jobs)

lemma appendHostEvent_ids: "ids_distinct (fst (appendHostEvent now i ty pl db)) = ids_distinct db"
  by (simp add: ids_distinct_def appendHostEvent_jobs)

abbreviation db_finish :: "int \<Rightarrow> string \<Rightarrow> dev_job_status \<Rightarrow> terminal_patch \<Rightarrow> dev_db
    \<Rightarrow> dev_db \<times> (store_error + terminal_write_result)" where
  "db_finish now \<equiv> finishTerminal TERMINAL_FINISH_BRAND now"

lemma db_finish_live:
  assumes "ids_distinct db" "getJob i db = Some j" "\<not> isTerminalDevJobStatus (j_status j)"
    and "isTerminalDevJobStatus s"
  shows "db_finish now i s p db = (fst (update_job i non_terminal (finish_set now s p) db),
    Inr \<lparr>tw_job = Some (finish_set now s p j), tw_transitioned = True\<rparr>)"
  using hits_update[of "finish_set now s p" db i non_terminal] assms
  by (auto simp: finishTerminal_def non_terminal_def split: prod.splits)

lemma db_finish_closed:
  assumes "ids_distinct db" "isTerminalDevJobStatus s"
    and "\<And>j. getJob i db = Some j \<Longrightarrow> isTerminalDevJobStatus (j_status j)"
  shows "db_finish now i s p db = (db, Inr \<lparr>tw_job = getJob i db, tw_transitioned = False\<rparr>)"
proof -
  have h: "snd (update_job i non_terminal (finish_set now s p) db) = []"
    using hits_update[of "finish_set now s p" db i non_terminal] assms
    by (auto simp: non_terminal_def split: option.splits)
  then show ?thesis
    using update_job_miss[of "finish_set now s p" i non_terminal db] assms(2)
    by (auto simp: finishTerminal_def split: prod.splits)
qed

lemma db_finish_ids: "ids_distinct db \<Longrightarrow> ids_distinct (fst (db_finish now i s p db))"
  using ids_distinct_update[of "finish_set now s p" i non_terminal db]
  by (auto simp: finishTerminal_def split: prod.splits list.splits)

interpretation store_fin: finalize_store getJob "db_finish now" "appendHostEvent now" ids_distinct
  for now
proof unfold_locales
  fix db i j s p
  assume a: "ids_distinct db" "getJob i db = Some j" "\<not> isTerminalDevJobStatus (j_status j)"
    "isTerminalDevJobStatus s"
  show "\<exists>db' j'. db_finish now i s p db = (db', Inr \<lparr>tw_job = Some j', tw_transitioned = True\<rparr>) \<and>
      getJob i db' = Some j' \<and> j_status j' = s \<and> j_id j' = j_id j"
    using a
    by (simp add: db_finish_live getJob_update non_terminal_def finish_set_def)
next
  fix db i j s p
  assume "ids_distinct db" "getJob i db = Some j" "isTerminalDevJobStatus (j_status j)"
    "isTerminalDevJobStatus s"
  then show "db_finish now i s p db = (db, Inr \<lparr>tw_job = Some j, tw_transitioned = False\<rparr>)"
    using db_finish_closed[of db s i now p] by simp
next
  fix db i s p
  assume "ids_distinct db" "getJob i db = None" "isTerminalDevJobStatus s"
  then show "db_finish now i s p db = (db, Inr \<lparr>tw_job = None, tw_transitioned = False\<rparr>)"
    using db_finish_closed[of db s i now p] by simp
qed (simp_all add: db_finish_ids appendHostEvent_ids)

definition store_deps :: "int \<Rightarrow> (runner_handle \<Rightarrow> bool) option \<Rightarrow> nat list \<Rightarrow> (nat \<Rightarrow> dev_job \<Rightarrow> bool)
    \<Rightarrow> dev_db finalize_deps" where
  "store_deps now term_fn regs throws =
     \<lparr>fd_getJob = getJob, fd_finishTerminal = db_finish now, fd_appendHostEvent = appendHostEvent now,
      fd_terminate = term_fn, fd_revokers = regs, fd_revoke_throws = throws\<rparr>"

lemma store_deps_wired [simp]: "store_fin.wired now (store_deps now term_fn regs throws)"
  by (simp add: store_fin.wired_def store_deps_def)

section \<open>Properties\<close>

text \<open>C1: however many finalizers of one job run, whatever status each wants and however their reads
  and writes interleave, at most one of them performs the flip; if one does, exactly one status event
  and at most one terminate were issued and the job is terminal, otherwise nothing was done outside
  the store.\<close>

theorem finalize_exactly_once:
  assumes "fin_reach (store_deps now term_fn regs throws) i st cx db w" "ids_distinct db"
    and "\<And>k. isTerminalDevJobStatus (st k)"
  shows "(\<forall>a b. fin_won w a \<and> fin_won w b \<longrightarrow> a = b) \<and>
    (if \<exists>a. fin_won w a
     then (\<exists>j. getJob i (fin_db w) = Some j \<and> isTerminalDevJobStatus (j_status j)) \<and>
          length (filter is_event (fin_log w)) = 1 \<and> length (filter is_terminate (fin_log w)) \<le> 1
     else fin_log w = [])"
  using store_fin.race_inv_reach[OF assms(1,2) store_deps_wired assms(3)]
  unfolding store_fin.race_inv_def by blast

theorem finalize_exactly_once_witness:
  "\<exists>w. fin_reach (store_deps 9 None [0] (\<lambda>r j. True)) ''j1'' (\<lambda>k. St_stalled) (\<lambda>k. no_context)
        example_db w \<and> fin_won w 1 \<and> \<not> fin_won w 0 \<and> length (filter is_event (fin_log w)) = 1"
proof -
  let ?d = "store_deps 9 None [0] (\<lambda>r j. True)"
  let ?run = "finalize_write ?d ''j1'' St_stalled no_context example_job"
  let ?w2 = "\<lparr>fin_db = example_db, fin_log = [],
      fin_pc = (\<lambda>i. F_start)(0 := F_read example_job, 1 := F_read example_job)\<rparr>"
  have "fin_reach ?d ''j1'' (\<lambda>k. St_stalled) (\<lambda>k. no_context) example_db
      \<lparr>fin_db = example_db, fin_log = [], fin_pc = (\<lambda>i. F_start)(0 := F_read example_job)\<rparr>"
    by (rule fin_reach.step[OF fin_reach.start])
       (use fin_step.read_live[of "\<lparr>fin_db = example_db, fin_log = [], fin_pc = (\<lambda>i. F_start)\<rparr>"
          0 ?d "''j1''" example_job "\<lambda>k. St_stalled" "\<lambda>k. no_context"] in \<open>simp add: store_deps_def\<close>)
  then have r2: "fin_reach ?d ''j1'' (\<lambda>k. St_stalled) (\<lambda>k. no_context) example_db ?w2"
    by (rule fin_reach.step)
       (use fin_step.read_live[of "\<lparr>fin_db = example_db, fin_log = [],
          fin_pc = (\<lambda>i. F_start)(0 := F_read example_job)\<rparr>" 1 ?d "''j1''" example_job
          "\<lambda>k. St_stalled" "\<lambda>k. no_context"] in \<open>simp add: store_deps_def\<close>)
  obtain db' effs j' where w: "?run example_db = (db', effs, Inr \<lparr>fr_job = Some j', fr_transitioned = True\<rparr>)"
    using store_fin.write_live[OF store_deps_wired example_db_ids example_get(1), of St_stalled]
    by (metis example_status(1) isTerminal_simps(4,8))
  let ?w3 = "\<lparr>fin_db = db', fin_log = effs,
      fin_pc = (fin_pc ?w2)(1 := F_done \<lparr>fr_job = Some j', fr_transitioned = True\<rparr>)\<rparr>"
  have r3: "fin_reach ?d ''j1'' (\<lambda>k. St_stalled) (\<lambda>k. no_context) example_db ?w3"
    by (rule fin_reach.step[OF r2])
       (use fin_step.write_ok[of ?w2 1 example_job ?d "''j1''" "\<lambda>k. St_stalled" "\<lambda>k. no_context"] w
        in \<open>simp\<close>)
  have won: "fin_won ?w3 1" "\<not> fin_won ?w3 0" by (simp_all add: fin_won_def)
  with finalize_exactly_once[OF r3 example_db_ids]
  have "length (filter is_event (fin_log ?w3)) = 1" by (auto split: if_splits)
  with r3 won show ?thesis by blast
qed

lemma next_host_seq_fresh: "\<not> seq_taken i HOST_EVENT_PROVISION (next_host_seq i db) db"
proof -
  have mx: "e \<in> set es \<Longrightarrow> e_seq e < foldr (\<lambda>e m. max (Suc (e_seq e)) m) es 0" for e es
    by (induction es) auto
  then have "e_seq e < next_host_seq i db"
    if "e \<in> set (db_events db)" "e_jobId e = i" "e_provision e = HOST_EVENT_PROVISION" for e
    unfolding next_host_seq_def using that by (intro mx) simp
  then show ?thesis unfolding seq_taken_def list_ex_iff by (metis less_irrefl)
qed

definition host_event_row :: "int \<Rightarrow> string \<Rightarrow> dev_job_event_type \<Rightarrow> json \<Rightarrow> dev_db \<Rightarrow> dev_job_event" where
  "host_event_row now i ty pl db =
     \<lparr>e_id = db_nextEventId db, e_jobId = i, e_provision = HOST_EVENT_PROVISION,
      e_seq = next_host_seq i db, e_type = ty, e_ts = now, e_payload = pl\<rparr>"

lemma appendHostEvent_stores:
  assumes "dev_job_event_type_of ty = Some t" "getJob i db \<noteq> None"
    and "\<not> is_truncation_marker (host_event_row now i t pl db)"
  shows "appendHostEvent now i ty pl db =
    (db\<lparr>db_nextEventId := Suc (db_nextEventId db),
        db_events := db_events db @ [host_event_row now i t pl db]\<rparr>,
     Inr (Some (host_event_row now i t pl db)))"
  using assms next_host_seq_fresh[of i db]
  by (auto simp: appendHostEvent_def appendHostEvent_racing_def eval_nat_numeral no_race_def
      insert_event_def host_event_row_def Let_def)

lemma status_payload_plain:
  assumes "fc_eventPayload ctx = []"
  shows "json_field ''state'' (status_payload s p ctx) = None"
  using assms by (auto simp: status_payload_def split: option.splits)

lemma revoked_all:
  "List.map_filter (\<lambda>e. case e of Eff_revoke r _ \<Rightarrow> Some r | _ \<Rightarrow> None) (revokeAll throws regs j) = regs"
  by (induction regs) (simp_all add: revokeAll_def List.map_filter_simps)

text \<open>Finalizing a live job writes exactly the status and the supplied columns to its row and to no
  other, records one host status event that names the previous status, runs every revoker whichever
  of them throw, and terminates the handle the job had; nothing a revoker or a backend does can
  change the stored outcome.\<close>

theorem finalize_live_spec:
  assumes "ids_distinct db" "getJob i db = Some j" "\<not> isTerminalDevJobStatus (j_status j)"
    and "isTerminalDevJobStatus s" "fc_eventPayload ctx = []"
    and "finalizeDevJobDetailed (store_deps now term_fn regs throws) i s ctx db = (db', effs, r)"
  shows "getJob i db' = Some (finish_set now s (patch_of ctx) j) \<and>
    (\<forall>k. k \<noteq> i \<longrightarrow> getJob k db' = getJob k db) \<and>
    db_events db' = db_events db @
      [host_event_row now i Ev_status (status_payload s (j_status j) ctx) db] \<and>
    List.map_filter (\<lambda>e. case e of Eff_revoke k _ \<Rightarrow> Some k | _ \<Rightarrow> None) effs = regs \<and>
    (j_runnerHandle j = None \<longrightarrow> filter is_terminate effs = []) \<and>
    (\<forall>h. j_runnerHandle j = Some h \<and> term_fn \<noteq> None \<longrightarrow> filter is_terminate effs = [Eff_terminate h]) \<and>
    r = Inr \<lparr>fr_job = Some (finish_set now s (patch_of ctx) j), fr_transitioned = True\<rparr>"
proof -
  let ?pl = "status_payload s (j_status j) ctx"
  let ?j = "finish_set now s (patch_of ctx) j"
  let ?db1 = "fst (update_job i non_terminal (finish_set now s (patch_of ctx)) db)"
  have get: "getJob k ?db1 = (if k = i then Some ?j else getJob k db)" for k
    using assms(2,3) by (simp add: getJob_update non_terminal_def)
  have row: "host_event_row now i Ev_status ?pl ?db1 = host_event_row now i Ev_status ?pl db"
    by (simp add: host_event_row_def next_host_seq_def)
  have ty: "dev_job_event_type_of ''status'' = Some Ev_status"
    using dev_job_event_type_of_name[of Ev_status] by simp
  have plain: "\<not> is_truncation_marker (host_event_row now i Ev_status ?pl ?db1)"
    using status_payload_plain[OF assms(5)] by (simp add: is_truncation_marker_def host_event_row_def)
  have ev: "appendHostEvent now i ''status'' ?pl ?db1 =
    (?db1\<lparr>db_nextEventId := Suc (db_nextEventId db),
        db_events := db_events db @ [host_event_row now i Ev_status ?pl db]\<rparr>,
     Inr (Some (host_event_row now i Ev_status ?pl db)))"
    using appendHostEvent_stores[OF ty _ plain] get[of i] by (simp add: row)
  have h: "coalesce (j_runnerHandle j) (j_runnerHandle ?j) = j_runnerHandle j"
    by (cases "j_runnerHandle j") (simp_all add: finish_set_def)
  have out: "finalizeDevJobDetailed (store_deps now term_fn regs throws) i s ctx db =
    (?db1\<lparr>db_nextEventId := Suc (db_nextEventId db),
        db_events := db_events db @ [host_event_row now i Ev_status ?pl db]\<rparr>,
     Eff_event i ?pl # revokeAll throws regs ?j @ terminate_effects term_fn (j_runnerHandle j),
     Inr \<lparr>fr_job = Some ?j, fr_transitioned = True\<rparr>)"
    using assms(1-4)
    by (simp add: finalizeDevJobDetailed_def finalize_write_def store_deps_def db_finish_live
        side_effects_def Let_def ev h)
  have no_term: "filter is_terminate (revokeAll throws regs ?j) = []"
    by (induction regs) (simp_all add: revokeAll_def is_terminate_def)
  have no_rev: "List.map_filter (\<lambda>e. case e of Eff_revoke k _ \<Rightarrow> Some k | _ \<Rightarrow> None)
      (terminate_effects term_fn hh) = []" for hh
    by (auto simp: terminate_effects_def List.map_filter_simps split: option.splits)
  have mf_app: "List.map_filter f (xs @ ys) = List.map_filter f xs @ List.map_filter f ys"
    for f :: "finalize_effect \<Rightarrow> nat option" and xs ys
    by (induction xs) (simp_all add: List.map_filter_simps split: option.splits)
  have term_one: "filter is_terminate (terminate_effects term_fn (Some hh)) = [Eff_terminate hh]"
    if "term_fn \<noteq> None" for hh
    using that by (auto simp: terminate_effects_def is_terminate_def)
  have term_none: "filter is_terminate (terminate_effects term_fn None) = []"
    by (simp add: terminate_effects_def)
  show ?thesis
    using assms(6) get term_one term_none
    by (auto simp: out no_term no_rev mf_app revoked_all List.map_filter_simps is_terminate_def
        getJob_def)
qed

theorem finalize_live_spec_witness:
  "let r = finalizeDevJobDetailed (store_deps 9 (Some (\<lambda>h. True)) [0, 5] (\<lambda>k j. k = 0)) ''j1''
             St_cancelled no_context example_db
   in map_option j_status (getJob ''j1'' (fst r)) = Some St_cancelled \<and>
      getJob ''j2'' (fst r) = Some example_queued_job \<and>
      filter is_terminate (fst (snd r)) = [Eff_terminate example_handle]"
proof -
  obtain db' effs r where e: "finalizeDevJobDetailed (store_deps 9 (Some (\<lambda>h. True)) [0, 5] (\<lambda>k j. k = 0))
      ''j1'' St_cancelled no_context example_db = (db', effs, r)" by (metis prod_cases3)
  have "fc_eventPayload no_context = []" by (simp add: no_context_def)
  with finalize_live_spec[OF example_db_ids example_get(1) _ _ _ e]
  have "getJob ''j1'' db' = Some (finish_set 9 St_cancelled (patch_of no_context) example_job)"
    "getJob ''j2'' db' = Some example_queued_job"
    "filter is_terminate effs = [Eff_terminate example_handle]" by simp_all
  then show ?thesis by (simp add: e finish_set_def)
qed

lemma finalize_closed:
  assumes "\<forall>j. getJob i d = Some j \<longrightarrow> isTerminalDevJobStatus (j_status j)" "isTerminalDevJobStatus s"
  shows "finalizeDevJobDetailed (store_deps now term_fn regs throws) i s ctx d =
    (d, [], Inr \<lparr>fr_job = getJob i d, fr_transitioned = False\<rparr>)"
  using assms by (auto simp: finalizeDevJobDetailed_def store_deps_def split: option.splits)

text \<open>A second finalize changes nothing: whatever terminal status it asks for, it leaves the whole
  database as the first one left it, has no side effect and reports that it did not transition.\<close>

theorem finalize_twice:
  assumes "ids_distinct db" "isTerminalDevJobStatus s" "isTerminalDevJobStatus s'"
  shows "finalizeDevJobDetailed (store_deps now' term_fn regs throws) i s' ctx'
      (fst (finalizeDevJobDetailed (store_deps now term_fn regs throws) i s ctx db)) =
    (fst (finalizeDevJobDetailed (store_deps now term_fn regs throws) i s ctx db), [],
     Inr \<lparr>fr_job = getJob i (fst (finalizeDevJobDetailed (store_deps now term_fn regs throws) i s ctx db)),
          fr_transitioned = False\<rparr>)"
proof -
  let ?d = "store_deps now term_fn regs throws"
  have wd: "store_fin.wired now ?d" by simp
  have "\<forall>j. getJob i (fst (finalizeDevJobDetailed ?d i s ctx db)) = Some j \<longrightarrow>
      isTerminalDevJobStatus (j_status j)"
  proof (cases "getJob i db")
    case None
    then show ?thesis by (simp add: finalizeDevJobDetailed_def store_deps_def assms(2))
  next
    case (Some j)
    show ?thesis
    proof (cases "isTerminalDevJobStatus (j_status j)")
      case True
      then show ?thesis using Some by (simp add: finalizeDevJobDetailed_def store_deps_def assms(2))
    next
      case False
      have "finalizeDevJobDetailed ?d i s ctx db = finalize_write ?d i s ctx j db"
        using Some False assms(2) by (simp add: finalizeDevJobDetailed_def store_deps_def)
      with store_fin.write_live[OF wd assms(1) Some False assms(2), of ctx j] assms(2)
      show ?thesis by (metis fst_conv option.inject)
    qed
  qed
  then show ?thesis using finalize_closed[OF _ assms(3)] by blast
qed

theorem finalize_twice_witness:
  "snd (finalizeDevJobDetailed (store_deps 12 None [] (\<lambda>k j. False)) ''j1'' St_done no_context
      (fst (finalizeDevJobDetailed (store_deps 9 None [] (\<lambda>k j. False)) ''j1'' St_failed no_context
        example_db))) =
   ([], Inr \<lparr>fr_job = getJob ''j1'' (fst (finalizeDevJobDetailed (store_deps 9 None [] (\<lambda>k j. False))
        ''j1'' St_failed no_context example_db)), fr_transitioned = False\<rparr>)"
  using finalize_twice[OF example_db_ids, of St_failed St_done] by simp

end
