(* ===== verification/PhaseEngine.thy ===== *)
theory PhaseEngine
  imports ReviewLoop GateStore FinalizeJob
begin

text \<open>
  The stateful orchestrator of the phased pipeline (\<open>pipeline/phaseEngine.ts\<close>) with the wiring
  \<open>wireDevPlatform.ts\<close> gives it: the finalize choke point, the gate principal and deadline read from
  the repository row.  \<open>handlePhaseResult\<close> takes the job row the route read, which may be stale by the
  time the engine writes.  The theorems show that the stored phase pointer moves along the phase
  graph of theory \<open>Transitions\<close> only, and what parking at the human gate leaves behind.
\<close>

record engine_artifact =
  ea_kind :: string
  ea_content :: string
  ea_meta :: "json option"

record phase_result_input =
  pi_phase :: dev_job_phase
  pi_ok :: bool
  pi_artifact :: "engine_artifact option"
  pi_questions :: "gate_question list option"
  pi_verdict :: "json option"
  pi_headSha :: "string option"
  pi_error :: "string option"

datatype phase_directive =
    D_next dev_job_phase
  | D_park
  | D_done
  | D_failed string

datatype engine_error =
    StalePhaseError string dev_job_phase dev_job_phase
  | Engine_store store_error
  | Engine_gate gate_error

text \<open>What one call is given from outside: the clocks, the ids the database generates, the hash, the
  artifact ceiling and the finalize dependencies.\<close>

record engine_env =
  ee_now :: int
  ee_clock :: int
  ee_artifactId :: string
  ee_gateId :: string
  ee_uuid :: string
  ee_sha256 :: "string \<Rightarrow> string"
  ee_ceiling :: "artifact_ceiling_options option"
  ee_finalize :: "dev_db finalize_deps"

type_synonym engine_outcome = "dev_db \<times> finalize_effect list \<times> (engine_error + phase_directive)"

definition reason_context :: "string option \<Rightarrow> finalize_context" where
  "reason_context r = (case r of None \<Rightarrow> no_context
     | Some t \<Rightarrow> no_context\<lparr>fc_reason := Some t, fc_error := Some t\<rparr>)"

definition engine_finalize :: "engine_env \<Rightarrow> string \<Rightarrow> dev_job_status \<Rightarrow> string option \<Rightarrow> phase_directive
    \<Rightarrow> dev_db \<Rightarrow> engine_outcome" where
  "engine_finalize env jobId s reason d db =
     (case finalizeDevJob (ee_finalize env) jobId s (reason_context reason) db of
        (db', effs, Inl err) \<Rightarrow> (db', effs, Inl (Engine_store err))
      | (db', effs, Inr _) \<Rightarrow> (db', effs, Inr d))"

definition gatePrincipal :: "dev_job \<Rightarrow> dev_db \<Rightarrow> gate_principal_kind \<times> string" where
  "gatePrincipal job db =
     (case Option.bind (getRepo (j_repoId job) db) rp_approverRoleKey of
        Some key \<Rightarrow> if key = [] then (Principal_user, j_createdBy job) else (Principal_role, key)
      | None \<Rightarrow> (Principal_user, j_createdBy job))"

definition gateDeadlineIso :: "dev_job \<Rightarrow> dev_db \<Rightarrow> string option" where
  "gateDeadlineIso job db = map_option rp_gateDeadlineIso (getRepo (j_repoId job) db)"

definition persist_artifact :: "engine_env \<Rightarrow> dev_job \<Rightarrow> engine_artifact option \<Rightarrow> dev_db
    \<Rightarrow> dev_db \<times> store_error option" where
  "persist_artifact env job art db =
     (case art of None \<Rightarrow> (db, None)
      | Some a \<Rightarrow>
          (case addArtifact (ee_ceiling env) (ee_now env) (ee_artifactId env) (ee_uuid env) (j_id job)
                  (ea_kind a) (ea_content a) (case ea_meta a of None \<Rightarrow> JObj [] | Some m \<Rightarrow> m) db of
             (db', Inl err) \<Rightarrow> (db', Some err)
           | (db', Inr _) \<Rightarrow> (db', None)))"

text \<open>The review decision, with the state it stores: the verdict and whether the loop is exhausted.\<close>

definition engine_review :: "engine_env \<Rightarrow> dev_job \<Rightarrow> review_verdict \<Rightarrow> dev_db
    \<Rightarrow> dev_db \<times> review_verdict_kind \<times> bool" where
  "engine_review env job v db =
     (case decideReview (ee_sha256 env)
             \<lparr>rd_verdict = v, rd_attempt = j_reviewAttempt job,
              rd_previousFingerprint = j_reviewFingerprint job\<rparr> of
        Rd_retry n fp \<Rightarrow> (setReviewState (ee_now env) (j_id job) n (Some fp) db, Request_changes, False)
      | Rd_give_up _ fp \<Rightarrow>
          (setReviewState (ee_now env) (j_id job) (j_reviewAttempt job) (Some fp) db, Request_changes, True)
      | Rd_approve \<Rightarrow> (db, Approve, False))"

definition engine_advance :: "engine_env \<Rightarrow> dev_job \<Rightarrow> dev_job_phase \<Rightarrow> dev_job_phase \<Rightarrow> dev_db \<Rightarrow> engine_outcome" where
  "engine_advance env job from_phase to_phase db =
     (case advancePhase (ee_now env) (j_id job) from_phase to_phase db of
        (db', ok) \<Rightarrow>
          if ok then (db', [], Inr (D_next to_phase))
          else (db', [], Inl (StalePhaseError (j_id job) from_phase (j_phase job))))"

definition gate_input_for :: "dev_job \<Rightarrow> phase_result_input \<Rightarrow> dev_db \<Rightarrow> open_gate_input" where
  "gate_input_for job input db =
     (let plan = getLatestArtifact (j_id job) Art_plan db; (pk, pr) = gatePrincipal job db in
      \<lparr>og_jobId = j_id job, og_gateKind = None,
       og_planArtifactId = map_option a_id plan,
       og_planSha256 = Option.bind plan (\<lambda>a. js_string (json_field ''planSha256'' (a_meta a))),
       og_baseSha = j_baseSha job,
       og_questions = (case pi_questions input of None \<Rightarrow> [] | Some qs \<Rightarrow> qs),
       og_principalKind = pk, og_principalRef = pr, og_deadlineIso = gateDeadlineIso job db\<rparr>)"

definition engine_park :: "engine_env \<Rightarrow> dev_job \<Rightarrow> phase_result_input \<Rightarrow> dev_db \<Rightarrow> engine_outcome" where
  "engine_park env job input db =
     (case advancePhase (ee_now env) (j_id job) Ph_clarify Ph_await_human db of
        (db1, False) \<Rightarrow> (db1, [], Inl (StalePhaseError (j_id job) (pi_phase input) (j_phase job)))
      | (db1, True) \<Rightarrow>
          (case open_gate (ee_now env) (ee_clock env) (ee_gateId env) (gate_input_for job input db1) db1 of
             (db2, Inl err) \<Rightarrow> (db2, [], Inl (Engine_gate err))
           | (db2, Inr _) \<Rightarrow>
               (fst (parkForGate (ee_now env) (j_id job) db2), [Eff_revoke 0 (j_id job)], Inr D_park)))"

definition apply_transition :: "engine_env \<Rightarrow> dev_job \<Rightarrow> phase_result_input \<Rightarrow> transition \<Rightarrow> dev_db
    \<Rightarrow> engine_outcome" where
  "apply_transition env job input t db =
     (case t of
        T_fail reason \<Rightarrow>
          (let why = (case pi_error input of None \<Rightarrow> reason | Some e \<Rightarrow> e)
           in engine_finalize env (j_id job) St_failed (Some why) (D_failed why) db)
      | T_done \<Rightarrow> engine_finalize env (j_id job) St_done None D_done db
      | T_retry_implement \<Rightarrow> engine_advance env job Ph_review Ph_implement db
      | T_advance to_phase _ \<Rightarrow> engine_advance env job (pi_phase input) to_phase db
      | T_park \<Rightarrow> engine_park env job input db
      | T_requeue _ \<Rightarrow>
          engine_finalize env (j_id job) St_failed (Some ''unexpected requeue from a runner result'')
            (D_failed ''unexpected requeue'') db)"

definition raw_result :: "phase_result_input \<Rightarrow> review_verdict_kind option \<Rightarrow> bool \<Rightarrow> phase_result" where
  "raw_result input v exhausted =
     \<lparr>pr_phase = pi_phase input, pr_ok = pi_ok input,
      pr_hasQuestions = map_option (\<lambda>qs. qs \<noteq> []) (pi_questions input),
      pr_reviewVerdict = v, pr_reviewLoopExhausted = Some exhausted\<rparr>"

definition job_context :: "dev_job \<Rightarrow> transition_context" where
  "job_context job = \<lparr>tc_mode = j_pipelineMode job, tc_kind = j_kind job\<rparr>"

definition engine_transition :: "engine_env \<Rightarrow> dev_job \<Rightarrow> phase_result_input \<Rightarrow> review_verdict_kind option
    \<Rightarrow> bool \<Rightarrow> dev_db \<Rightarrow> engine_outcome" where
  "engine_transition env job input v exhausted db =
     apply_transition env job input (computeTransition (raw_result input v exhausted) (job_context job)) db"

definition handlePhaseResult :: "engine_env \<Rightarrow> dev_job \<Rightarrow> phase_result_input \<Rightarrow> dev_db \<Rightarrow> engine_outcome" where
  "handlePhaseResult env job input db =
     (if pi_phase input \<noteq> j_phase job
      then (db, [], Inl (StalePhaseError (j_id job) (pi_phase input) (j_phase job)))
      else case persist_artifact env job (pi_artifact input) db of
        (db1, Some err) \<Rightarrow> (db1, [], Inl (Engine_store err))
      | (db1, None) \<Rightarrow>
          if pi_phase input = Ph_review \<and> pi_ok input then
            (case parseReviewVerdict (pi_verdict input) of
               None \<Rightarrow> engine_finalize env (j_id job) St_failed
                         (Some ''review produced a malformed verdict'')
                         (D_failed ''malformed review verdict'') db1
             | Some v \<Rightarrow>
                 (case engine_review env job v db1 of
                    (db2, k, exhausted) \<Rightarrow> engine_transition env job input (Some k) exhausted db2))
          else engine_transition env job input None False db1)"

section \<open>Frame and phase lemmas\<close>

definition wired_env :: "engine_env \<Rightarrow> bool" where
  "wired_env env \<longleftrightarrow>
     (\<exists>term_fn regs throws. ee_finalize env = store_deps (ee_now env) term_fn regs throws)"

lemma persist_artifact_jobs: "db_jobs (fst (persist_artifact env job art db)) = db_jobs db"
  by (auto simp: persist_artifact_def addArtifact_def Let_def split: option.splits sum.splits prod.splits)

text \<open>A step on the row of one job: other rows stay, and the phase moves at most along the edge \<open>R\<close>.\<close>

definition phase_step :: "string \<Rightarrow> (dev_job_phase \<Rightarrow> bool) \<Rightarrow> dev_db \<Rightarrow> dev_db \<Rightarrow> bool" where
  "phase_step i R db db' \<longleftrightarrow>
     ids_distinct db' \<and> (\<forall>k. k \<noteq> i \<longrightarrow> getJob k db' = getJob k db) \<and>
     (\<forall>j. getJob i db = Some j \<longrightarrow>
        (\<exists>j'. getJob i db' = Some j' \<and> (j_phase j' = j_phase j \<or> R (j_phase j'))))"

lemma phase_step_update:
  assumes "ids_distinct db" "\<And>j. j_id (upd j) = j_id j"
    and "\<And>j. \<lbrakk>getJob i db = Some j; guard j\<rbrakk> \<Longrightarrow> j_phase (upd j) = j_phase j \<or> R (j_phase (upd j))"
  shows "phase_step i R db (fst (update_job i guard upd db))"
  using assms by (auto simp: phase_step_def ids_distinct_update getJob_update)

lemma phase_step_same_jobs:
  "\<lbrakk>ids_distinct db; db_jobs db' = db_jobs db\<rbrakk> \<Longrightarrow> phase_step i R db db'"
  by (simp add: phase_step_def ids_distinct_def getJob_def)

lemma phase_step_trans_same:
  assumes "phase_step i (\<lambda>p. False) db db1" "phase_step i R db1 db2"
  shows "phase_step i R db db2"
  using assms unfolding phase_step_def by (metis option.inject)

lemma phase_step_then_same:
  assumes "phase_step i R db db1" "phase_step i (\<lambda>p. False) db1 db2"
  shows "phase_step i R db db2"
  using assms unfolding phase_step_def by (metis option.inject)

lemma finalize_db_cases:
  assumes "ids_distinct db" "isTerminalDevJobStatus s"
    and "finalizeDevJob (store_deps now term_fn regs throws) i s ctx db = (db', effs, r)"
  shows "\<exists>db1. (db1 = db \<or> db1 = fst (update_job i non_terminal (finish_set now s (patch_of ctx)) db)) \<and>
    db_jobs db' = db_jobs db1"
proof (cases "\<forall>j. getJob i db = Some j \<longrightarrow> isTerminalDevJobStatus (j_status j)")
  case True
  then show ?thesis
    using assms finalize_closed[OF True assms(2)] by (auto simp: finalizeDevJob_def)
next
  case False
  then obtain j where "getJob i db = Some j" "\<not> isTerminalDevJobStatus (j_status j)" by blast
  then show ?thesis
    using assms
    by (auto simp: finalizeDevJob_def finalizeDevJobDetailed_def finalize_write_def store_deps_def
        db_finish_live side_effects_def Let_def appendHostEvent_jobs split: prod.splits
        dest!: arg_cong[where f = fst] intro!: exI[of _ "fst (update_job i non_terminal (finish_set now s (patch_of ctx)) db)"])
qed

lemma phase_step_finalize:
  assumes "ids_distinct db" "isTerminalDevJobStatus s" "wired_env env"
    and "engine_finalize env i s reason d db = (db', effs, r)"
  shows "phase_step i R db db'"
proof -
  obtain t rg th where w: "ee_finalize env = store_deps (ee_now env) t rg th"
    using assms(3) by (auto simp: wired_env_def)
  obtain x where fin: "finalizeDevJob (store_deps (ee_now env) t rg th) i s (reason_context reason) db =
      (db', effs, x)"
    using assms(4) w
    by (cases "finalizeDevJob (store_deps (ee_now env) t rg th) i s (reason_context reason) db")
       (auto simp: engine_finalize_def split: sum.splits)
  from finalize_db_cases[OF assms(1,2) fin] obtain db1 where
    d: "db1 = db \<or> db1 = fst (update_job i non_terminal
          (finish_set (ee_now env) s (patch_of (reason_context reason))) db)"
      "db_jobs db' = db_jobs db1" by blast
  have s1: "phase_step i R db db1"
    using d(1)
  proof
    assume "db1 = db"
    then show ?thesis using assms(1) by (simp add: phase_step_same_jobs)
  next
    assume u: "db1 = fst (update_job i non_terminal
        (finish_set (ee_now env) s (patch_of (reason_context reason))) db)"
    show ?thesis unfolding u
      by (rule phase_step_update) (use assms(1) in \<open>simp_all add: finish_set_def\<close>)
  qed
  moreover have "phase_step i (\<lambda>p. False) db1 db'"
    using s1 d(2) by (intro phase_step_same_jobs) (simp_all add: phase_step_def)
  ultimately show ?thesis by (rule phase_step_then_same)
qed

lemma phase_step_ids: "phase_step i R db db' \<Longrightarrow> ids_distinct db'"
  by (simp add: phase_step_def)

lemma advance_edge:
  assumes "computeTransition (raw_result input v ex) (job_context job) = t"
    and "next_phase t = Some q" "pi_phase input \<noteq> Ph_await_human"
  shows "runner_edge (job_context job) (pi_phase input) q"
  unfolding runner_edge_def
  using assms by (intro exI[of _ "raw_result input v ex"]) (simp add: raw_result_def)

lemma transition_from:
  "computeTransition r ctx = T_requeue q \<longleftrightarrow>
     pr_ok r \<and> tc_kind ctx \<noteq> Kind_analyze \<and> pr_phase r = Ph_await_human \<and> q = Ph_implement"
  "computeTransition r ctx = T_park \<Longrightarrow> pr_phase r = Ph_clarify"
  "computeTransition r ctx = T_retry_implement \<Longrightarrow> pr_phase r = Ph_review"
  "computeTransition r ctx = T_advance q b \<Longrightarrow> pr_phase r \<noteq> Ph_await_human"
  by (auto simp: computeTransition_def
      split: if_splits dev_job_phase.splits option.splits review_verdict_kind.splits)

definition edge_from :: "dev_job \<Rightarrow> dev_job_phase \<Rightarrow> dev_job_phase \<Rightarrow> bool" where
  "edge_from job p q \<longleftrightarrow> runner_edge (job_context job) p q"

text \<open>The step relation for a row whose phase moves along an edge leaving the phase it has.\<close>

definition edge_step :: "dev_job \<Rightarrow> dev_db \<Rightarrow> dev_db \<Rightarrow> bool" where
  "edge_step job db db' \<longleftrightarrow>
     ids_distinct db' \<and> (\<forall>k. k \<noteq> j_id job \<longrightarrow> getJob k db' = getJob k db) \<and>
     (\<forall>j. getJob (j_id job) db = Some j \<longrightarrow>
        (\<exists>j'. getJob (j_id job) db' = Some j' \<and>
           (j_phase j' = j_phase j \<or> runner_edge (job_context job) (j_phase j) (j_phase j'))))"

lemma edge_step_same: "phase_step (j_id job) (\<lambda>p. False) db db' \<Longrightarrow> edge_step job db db'"
  unfolding phase_step_def edge_step_def by blast

lemma edge_step_after_same:
  "\<lbrakk>phase_step (j_id job) (\<lambda>p. False) db db1; edge_step job db1 db2\<rbrakk> \<Longrightarrow> edge_step job db db2"
  unfolding phase_step_def edge_step_def by (metis option.inject)

lemma edge_step_then_same:
  "\<lbrakk>edge_step job db db1; phase_step (j_id job) (\<lambda>p. False) db1 db2\<rbrakk> \<Longrightarrow> edge_step job db db2"
  unfolding phase_step_def edge_step_def by (metis option.inject)

lemma edge_step_finalize:
  assumes "ids_distinct db" "wired_env env" "isTerminalDevJobStatus s"
    and "engine_finalize env (j_id job) s reason d db = (db', effs, r)"
  shows "edge_step job db db'"
  using phase_step_finalize[OF assms(1,3,2,4)] by (rule edge_step_same)

lemma edge_step_advancePhase:
  assumes "ids_distinct db" "runner_edge (job_context job) p q"
  shows "edge_step job db (fst (advancePhase now (j_id job) p q db))"
  using assms
  by (auto simp: edge_step_def advancePhase_def ids_distinct_update getJob_update phase_guard_def phase_set_def)

lemma edge_step_advance:
  assumes "ids_distinct db" "runner_edge (job_context job) p q"
    and "engine_advance env job p q db = (db', effs, r)"
  shows "edge_step job db db'"
proof -
  have "db' = fst (advancePhase (ee_now env) (j_id job) p q db)"
    using assms(3) by (auto simp: engine_advance_def split: prod.splits if_splits)
  then show ?thesis using edge_step_advancePhase[OF assms(1,2)] by simp
qed

lemma open_gate_jobs: "db_jobs (fst (open_gate now clock gid input db)) = db_jobs db"
  by (auto simp: open_gate_def open_gate_racing_def Let_def split: option.splits)

lemma edge_step_park:
  assumes "ids_distinct db" "runner_edge (job_context job) Ph_clarify Ph_await_human"
    and "engine_park env job input db = (db', effs, r)"
  shows "edge_step job db db'"
proof -
  obtain db1 ok where a: "advancePhase (ee_now env) (j_id job) Ph_clarify Ph_await_human db = (db1, ok)"
    by (cases "advancePhase (ee_now env) (j_id job) Ph_clarify Ph_await_human db")
  have e1: "edge_step job db db1"
    using edge_step_advancePhase[OF assms(1,2), of "ee_now env"] a by simp
  obtain db2 g where o: "open_gate (ee_now env) (ee_clock env) (ee_gateId env)
      (gate_input_for job input db1) db1 = (db2, g)" by (metis surj_pair)
  have i1: "ids_distinct db1" using e1 by (simp add: edge_step_def)
  have p2: "phase_step (j_id job) (\<lambda>p. False) db1 db2"
    using open_gate_jobs[of "ee_now env" "ee_clock env" "ee_gateId env" "gate_input_for job input db1" db1] o
    by (intro phase_step_same_jobs[OF i1]) simp
  have e2: "edge_step job db db2" using e1 p2 by (rule edge_step_then_same)
  have "phase_step (j_id job) (\<lambda>p. False) db2 (fst (parkForGate (ee_now env) (j_id job) db2))"
    unfolding parkForGate_def row_count_simps
    by (rule phase_step_update) (use p2 in \<open>simp_all add: phase_step_ids park_set_def\<close>)
  with e2 have "edge_step job db (fst (parkForGate (ee_now env) (j_id job) db2))"
    by (rule edge_step_then_same)
  then show ?thesis
    using assms(3) e1 e2 a o by (auto simp: engine_park_def split: bool.splits sum.splits)
qed

lemma edge_step_transition:
  assumes "ids_distinct db" "wired_env env"
    and "engine_transition env job input v ex db = (db', effs, r)"
  shows "edge_step job db db'"
proof (cases "computeTransition (raw_result input v ex) (job_context job)")
  case (T_advance q b)
  then have "runner_edge (job_context job) (pi_phase input) q"
    using advance_edge[OF T_advance] transition_from(4)[OF T_advance]
    by (simp add: next_phase_def raw_result_def)
  then show ?thesis
    using edge_step_advance[OF assms(1)] assms(3) T_advance
    by (simp add: engine_transition_def apply_transition_def)
next
  case T_park
  then have "pi_phase input = Ph_clarify" using transition_from(2)[OF T_park] by (simp add: raw_result_def)
  then have "runner_edge (job_context job) Ph_clarify Ph_await_human"
    using advance_edge[OF T_park] by (simp add: next_phase_def)
  then show ?thesis
    using edge_step_park[OF assms(1)] assms(3) T_park
    by (simp add: engine_transition_def apply_transition_def)
next
  case T_retry_implement
  then have "pi_phase input = Ph_review"
    using transition_from(3)[OF T_retry_implement] by (simp add: raw_result_def)
  then have "runner_edge (job_context job) Ph_review Ph_implement"
    using advance_edge[OF T_retry_implement] by (simp add: next_phase_def)
  then show ?thesis
    using edge_step_advance[OF assms(1)] assms(3) T_retry_implement
    by (simp add: engine_transition_def apply_transition_def)
next
  case (T_requeue q)
  then have f: "engine_finalize env (j_id job) St_failed
      (Some ''unexpected requeue from a runner result'') (D_failed ''unexpected requeue'') db =
      (db', effs, r)"
    using assms(3) by (simp add: engine_transition_def apply_transition_def)
  show ?thesis using edge_step_finalize[OF assms(1,2) _ f] by simp
next
  case T_done
  then have f: "engine_finalize env (j_id job) St_done None D_done db = (db', effs, r)"
    using assms(3) by (simp add: engine_transition_def apply_transition_def)
  show ?thesis using edge_step_finalize[OF assms(1,2) _ f] by simp
next
  case (T_fail why)
  let ?w = "case pi_error input of None \<Rightarrow> why | Some e \<Rightarrow> e"
  have f: "engine_finalize env (j_id job) St_failed (Some ?w) (D_failed ?w) db = (db', effs, r)"
    using assms(3) T_fail by (simp add: engine_transition_def apply_transition_def Let_def)
  show ?thesis using edge_step_finalize[OF assms(1,2) _ f] by simp
qed

lemma engine_review_step:
  assumes "ids_distinct db" "engine_review env job v db = (db', k, ex)"
  shows "phase_step (j_id job) (\<lambda>p. False) db db'"
proof -
  have "phase_step (j_id job) (\<lambda>p. False) db (setReviewState now (j_id job) n fp db)" for now n fp
    unfolding setReviewState_def by (rule phase_step_update) (use assms(1) in simp_all)
  then show ?thesis
    using assms by (auto simp: engine_review_def phase_step_same_jobs split: review_decision.splits)
qed

lemma handlePhaseResult_step:
  assumes "ids_distinct db" "wired_env env"
    and "handlePhaseResult env job input db = (db', effs, r)"
  shows "edge_step job db db'"
proof -
  obtain db1 e1 where p: "persist_artifact env job (pi_artifact input) db = (db1, e1)"
    by (cases "persist_artifact env job (pi_artifact input) db")
  have s1: "phase_step (j_id job) (\<lambda>p. False) db db1"
    using persist_artifact_jobs[of env job "pi_artifact input" db] p
    by (intro phase_step_same_jobs[OF assms(1)]) simp
  note i1 = phase_step_ids[OF s1]
  have s0: "edge_step job db db"
    by (intro edge_step_same phase_step_same_jobs[OF assms(1)]) simp
  have "edge_step job db1 db'"
    if "pi_phase input = j_phase job" "e1 = None"
  proof (cases "pi_phase input = Ph_review \<and> pi_ok input")
    case True
    show ?thesis
    proof (cases "parseReviewVerdict (pi_verdict input)")
      case None
      then have f: "engine_finalize env (j_id job) St_failed
          (Some ''review produced a malformed verdict'') (D_failed ''malformed review verdict'') db1 =
          (db', effs, r)"
        using assms(3) True that p by (simp add: handlePhaseResult_def)
      show ?thesis using edge_step_finalize[OF i1 assms(2) _ f] by simp
    next
      case (Some v)
      obtain db2 k ex where rv: "engine_review env job v db1 = (db2, k, ex)" by (metis prod_cases3)
      note s2 = engine_review_step[OF i1 rv]
      have "edge_step job db2 db'"
        by (rule edge_step_transition[OF phase_step_ids[OF s2] assms(2)])
           (use assms(3) True that p Some rv in \<open>simp add: handlePhaseResult_def\<close>)
      then show ?thesis by (rule edge_step_after_same[OF s2])
    qed
  next
    case False
    show ?thesis
      by (rule edge_step_transition[OF i1 assms(2)])
         (use assms(3) False that p in \<open>auto simp: handlePhaseResult_def split: if_splits\<close>)
  qed
  then show ?thesis
    using edge_step_after_same[OF s1] edge_step_same[OF s1] s0 assms(3) p
    by (cases "pi_phase input = j_phase job"; cases e1) (auto simp: handlePhaseResult_def)
qed

section \<open>Properties\<close>

text \<open>C39: the stored phase pointer implements the phase graph: one phase result, taken from a possibly
  outdated copy of the job, leaves the row's phase alone or moves it along one edge of the graph that
  starts at the phase the row has at that moment, and it touches no other job.\<close>

theorem engine_refines_graph:
  assumes "ids_distinct db" "wired_env env" "getJob (j_id job) db = Some j"
    and "handlePhaseResult env job input db = (db', effs, r)"
  shows "(\<exists>j'. getJob (j_id job) db' = Some j' \<and>
      (j_phase j' = j_phase j \<or> runner_edge (job_context job) (j_phase j) (j_phase j'))) \<and>
    (\<forall>k. k \<noteq> j_id job \<longrightarrow> getJob k db' = getJob k db)"
  using handlePhaseResult_step[OF assms(1,2,4)] assms(3) by (auto simp: edge_step_def)

definition example_env :: engine_env where
  "example_env = \<lparr>ee_now = 50, ee_clock = 50, ee_artifactId = ''a9'', ee_gateId = ''g1'', ee_uuid = ''u'',
     ee_sha256 = id, ee_ceiling = None, ee_finalize = store_deps 50 None [0] (\<lambda>r j. False)\<rparr>"

definition clarify_job :: dev_job where
  "clarify_job = example_job\<lparr>j_phase := Ph_clarify\<rparr>"

definition clarify_db :: dev_db where
  "clarify_db = example_db\<lparr>db_jobs := [clarify_job, example_queued_job]\<rparr>"

definition clarify_input :: phase_result_input where
  "clarify_input = \<lparr>pi_phase = Ph_clarify, pi_ok = True, pi_artifact = None, pi_questions = Some [],
     pi_verdict = None, pi_headSha = None, pi_error = None\<rparr>"

lemma example_env_wired: "wired_env example_env"
  by (auto simp: wired_env_def example_env_def)

lemma clarify_simps:
  "ids_distinct clarify_db" "getJob ''j1'' clarify_db = Some clarify_job"
  "j_id clarify_job = ''j1''" "j_phase clarify_job = Ph_clarify" "non_terminal clarify_job"
  "j_kind clarify_job = Kind_fix_issue" "waiting_gate_of ''j1'' clarify_db = None"
  "db_gates clarify_db = []"
  by (simp_all add: ids_distinct_def clarify_db_def clarify_job_def getJob_def example_defs
      non_terminal_def waiting_gate_of_def)

theorem engine_refines_graph_witness:
  "\<exists>j'. getJob ''j1'' (fst (handlePhaseResult example_env clarify_job clarify_input clarify_db)) = Some j' \<and>
     (j_phase j' = Ph_clarify \<or> runner_edge (job_context clarify_job) Ph_clarify (j_phase j'))"
proof -
  obtain db' effs r where h: "handlePhaseResult example_env clarify_job clarify_input clarify_db = (db', effs, r)"
    by (metis prod_cases3)
  show ?thesis
    using engine_refines_graph[OF clarify_simps(1) example_env_wired _ h, of clarify_job] h
    by (simp add: clarify_simps)
qed

text \<open>A successful clarify parks: the runner is told to exit and its tokens are revoked, the row waits
  at the gate without lease or handle (so no claim can pick it up), and the one gate opened pins the
  latest persisted plan, the job's base commit and the principal of the repository.\<close>

theorem park_spec:
  assumes "ids_distinct db" "getJob (j_id job) db = Some job" "non_terminal job"
    and "j_phase job = Ph_clarify" "j_kind job \<noteq> Kind_analyze"
    and "pi_phase input = Ph_clarify" "pi_ok input" "pi_artifact input = None"
    and "waiting_gate_of (j_id job) db = None"
    and "handlePhaseResult env job input db = (db', effs, r)"
  shows "r = Inr D_park \<and> effs = [Eff_revoke 0 (j_id job)] \<and>
    db_gates db' = db_gates db @
      [new_gate_row (ee_now env) (ee_clock env) (ee_gateId env) (gate_input_for job input db)] \<and>
    (\<exists>j'. getJob (j_id job) db' = Some j' \<and> j_status j' = St_waiting \<and> j_phase j' = Ph_await_human \<and>
       j_claimedBy j' = None \<and> j_runnerHandle j' = None \<and> j_baseSha j' = j_baseSha job)"
proof -
  define db1 where "db1 = fst (update_job (j_id job) (phase_guard Ph_clarify) (phase_set (ee_now env) Ph_await_human) db)"
  have adv: "advancePhase (ee_now env) (j_id job) Ph_clarify Ph_await_human db = (db1, True)"
    using assms(1-4)
    by (simp add: advancePhase_def row_count_def db1_def hits_update phase_guard_def)
  have g1: "getJob (j_id job) db1 = Some (phase_set (ee_now env) Ph_await_human job)"
    using assms(2-4) by (simp add: db1_def getJob_update phase_guard_def)
  have same: "db_gates db1 = db_gates db" "db_artifacts db1 = db_artifacts db" "db_repos db1 = db_repos db"
    by (simp_all add: db1_def)
  then have gi: "gate_input_for job input db1 = gate_input_for job input db"
    and wg: "waiting_gate_of (j_id job) db1 = None"
    using assms(9)
    by (simp_all add: gate_input_for_def getLatestArtifact_def gatePrincipal_def gateDeadlineIso_def
        getRepo_def waiting_gate_of_def)
  have oid: "og_jobId (gate_input_for job input db) = j_id job"
    by (simp add: gate_input_for_def Let_def split: prod.splits)
  let ?g = "new_gate_row (ee_now env) (ee_clock env) (ee_gateId env) (gate_input_for job input db)"
  have op: "open_gate (ee_now env) (ee_clock env) (ee_gateId env) (gate_input_for job input db1) db1 =
      (db1\<lparr>db_gates := db_gates db @ [?g]\<rparr>, Inr ?g)"
    by (simp add: open_gate_def open_gate_racing_def gi oid wg g1 same Let_def)
  have "computeTransition (raw_result input None False) (job_context job) = T_park"
    using assms(5-7) by (simp add: computeTransition_def raw_result_def job_context_def)
  then have out: "handlePhaseResult env job input db =
      (fst (parkForGate (ee_now env) (j_id job) (db1\<lparr>db_gates := db_gates db @ [?g]\<rparr>)),
       [Eff_revoke 0 (j_id job)], Inr D_park)"
    using assms(4,6,8) adv op
    by (simp add: handlePhaseResult_def persist_artifact_def engine_transition_def apply_transition_def
        engine_park_def)
  have "getJob (j_id job) (db1\<lparr>db_gates := db_gates db @ [?g]\<rparr>) = Some (phase_set (ee_now env) Ph_await_human job)"
    using g1 by (simp add: getJob_def)
  then have "getJob (j_id job) (fst (parkForGate (ee_now env) (j_id job) (db1\<lparr>db_gates := db_gates db @ [?g]\<rparr>))) =
      Some (park_set (ee_now env) (phase_set (ee_now env) Ph_await_human job))"
    using assms(3) by (simp add: parkForGate_def getJob_update phase_guard_def phase_set_def non_terminal_def)
  then show ?thesis
    using assms(10) out by (auto simp: parkForGate_def park_set_def phase_set_def)
qed

theorem park_spec_witness:
  "let r = handlePhaseResult example_env clarify_job clarify_input clarify_db in
   snd (snd r) = Inr D_park \<and> length (db_gates (fst r)) = 1 \<and>
   map_option j_status (getJob ''j1'' (fst r)) = Some St_waiting"
proof -
  obtain db' effs r where h: "handlePhaseResult example_env clarify_job clarify_input clarify_db = (db', effs, r)"
    by (metis prod_cases3)
  have "pi_phase clarify_input = Ph_clarify" "pi_ok clarify_input" "pi_artifact clarify_input = None"
    by (simp_all add: clarify_input_def)
  with park_spec[OF clarify_simps(1) _ clarify_simps(5,4) _ _ _ _ _ h]
  show ?thesis by (auto simp: clarify_simps h)
qed

end
