(* ===== verification/LlmBudget.thy ===== *)
theory LlmBudget
  imports PhaseEngine
begin

text \<open>
  The per-job LLM budget: the price table (\<open>host/usageTelemetry.ts\<close>) and the accounting hook of the proxy
  (\<open>llmProxyAccounting.ts\<close>), wired to the job store, the finalize choke point and the event log
  (\<open>wireDevPlatform.ts\<close>).  Token counts and prices are rationals; the code computes them in binary
  floating point.  Whether the accumulating UPDATE fails is an argument.
\<close>

section \<open>Prices\<close>

record model_price =
  mp_inputPerMTok :: rat
  mp_outputPerMTok :: rat
  mp_cachedInputPerMTok :: "rat option"
  mp_cacheIncludedInInput :: bool

definition plain_price :: "rat \<Rightarrow> rat \<Rightarrow> model_price" where
  "plain_price i out = \<lparr>mp_inputPerMTok = i, mp_outputPerMTok = out, mp_cachedInputPerMTok = None,
     mp_cacheIncludedInInput = False\<rparr>"

definition cached_price :: "rat \<Rightarrow> rat \<Rightarrow> rat \<Rightarrow> model_price" where
  "cached_price i out c = \<lparr>mp_inputPerMTok = i, mp_outputPerMTok = out, mp_cachedInputPerMTok = Some c,
     mp_cacheIncludedInInput = True\<rparr>"

definition CACHE_READ_MULTIPLIER :: rat where "CACHE_READ_MULTIPLIER = 1 / 10"
definition CACHE_WRITE_MULTIPLIER :: rat where "CACHE_WRITE_MULTIPLIER = 5 / 4"

definition EXACT_PRICES :: "(string \<times> model_price) list" where
  "EXACT_PRICES =
     [(''claude-opus-5'', plain_price 5 25), (''claude-opus-4-8'', plain_price 5 25),
      (''claude-opus-4-7'', plain_price 5 25), (''claude-opus-4-6'', plain_price 5 25),
      (''claude-opus-4-5'', plain_price 5 25), (''claude-sonnet-5'', plain_price 2 10),
      (''claude-sonnet-4-6'', plain_price 3 15), (''claude-sonnet-4-5'', plain_price 3 15),
      (''claude-haiku-4-5'', plain_price 1 5),
      (''gpt-5.5'', cached_price 5 30 (1 / 2)), (''gpt-5.4'', cached_price (5 / 2) 15 (1 / 4)),
      (''gpt-5.4-mini'', cached_price (3 / 4) (9 / 2) (3 / 40)),
      (''gpt-5.4-nano'', cached_price (1 / 5) (5 / 4) (1 / 50)),
      (''mistral-large-latest'', plain_price (1 / 2) (3 / 2)),
      (''mistral-medium-latest'', plain_price (3 / 2) (15 / 2)),
      (''mistral-small-latest'', plain_price (1 / 5) (3 / 5))]"

definition FAMILY_PRICES :: "(string \<times> model_price) list" where
  "FAMILY_PRICES =
     [(''opus'', plain_price 5 25), (''sonnet'', plain_price 3 15), (''haiku'', plain_price 1 5),
      (''gpt-5.4-nano'', cached_price (1 / 5) (5 / 4) (1 / 50)),
      (''gpt-5.4-mini'', cached_price (3 / 4) (9 / 2) (3 / 40)),
      (''gpt-5.4'', cached_price (5 / 2) 15 (1 / 4)), (''gpt-5.5'', cached_price 5 30 (1 / 2)),
      (''mistral-large'', plain_price (1 / 2) (3 / 2)), (''mistral-medium'', plain_price (3 / 2) (15 / 2)),
      (''mistral-small'', plain_price (1 / 5) (3 / 5))]"

definition UNKNOWN_PRICE :: model_price where "UNKNOWN_PRICE = plain_price 0 0"

definition priceForModel :: "string \<Rightarrow> model_price" where
  "priceForModel model =
     (let i = toLowerCase (trim model) in
      case map_of EXACT_PRICES i of Some p \<Rightarrow> p
      | None \<Rightarrow> (case List.find (\<lambda>e. str_includes i (fst e)) FAMILY_PRICES of
                   Some e \<Rightarrow> snd e | None \<Rightarrow> UNKNOWN_PRICE))"

record usage_tokens =
  ut_input :: rat
  ut_output :: rat
  ut_cacheRead :: rat
  ut_cacheCreation :: rat

text \<open>\<open>Math.round(cost * 1e8) / 1e8\<close>\<close>

definition round8 :: "rat \<Rightarrow> rat" where
  "round8 x = of_int \<lfloor>x * 100000000 + 1 / 2\<rfloor> / 100000000"

definition computeCostUsd :: "string \<Rightarrow> usage_tokens \<Rightarrow> rat" where
  "computeCostUsd model u =
     (let price = priceForModel model;
          inRate = mp_inputPerMTok price / 1000000;
          outRate = mp_outputPerMTok price / 1000000;
          cacheReadRate = (case mp_cachedInputPerMTok price of Some c \<Rightarrow> c / 1000000
                           | None \<Rightarrow> inRate * CACHE_READ_MULTIPLIER);
          fullRateInput = (if mp_cacheIncludedInInput price then max 0 (ut_input u - ut_cacheRead u)
                           else ut_input u)
      in round8 (fullRateInput * inRate + ut_output u * outRate + ut_cacheRead u * cacheReadRate +
                 ut_cacheCreation u * inRate * CACHE_WRITE_MULTIPLIER))"

section \<open>The accounting hook\<close>

definition js_trunc :: "rat \<Rightarrow> int" where
  "js_trunc q = (if 0 \<le> q then \<lfloor>q\<rfloor> else \<lceil>q\<rceil>)"

definition splitTokens :: "usage_tokens \<Rightarrow> rat \<times> rat" where
  "splitTokens u = (ut_input u + ut_cacheRead u + ut_cacheCreation u, ut_output u)"

definition crossedEdge :: "rat \<Rightarrow> rat \<Rightarrow> rat \<Rightarrow> bool" where
  "crossedEdge prev now threshold \<longleftrightarrow> 0 < threshold \<and> prev < threshold \<and> threshold \<le> now"

record accounting =
  ac_defaultBudgetCostUsd :: rat
  ac_warnThreshold :: rat
  ac_maxOutputTokens :: "rat option"
  ac_now :: int
  ac_finalize :: "dev_db finalize_deps"

definition DEFAULT_WARN_THRESHOLD :: rat where "DEFAULT_WARN_THRESHOLD = 4 / 5"

record ledger_row =
  lg_source :: string
  lg_model :: string
  lg_usage :: usage_tokens
  lg_sessionId :: string

record meter_state =
  ms_db :: dev_db
  ms_effects :: "finalize_effect list"
  ms_ledger :: "ledger_row list"

text \<open>The spread of a \<open>BudgetWarningInfo\<close> into the event payload.\<close>

definition warning_payload :: "accounting \<Rightarrow> rat \<Rightarrow> budget_position \<Rightarrow> json" where
  "warning_payload ac costBudget p =
     JObj [(''costUsd'', JNum (bp_costUsd p)), (''budgetCostUsd'', JNum costBudget),
           (''tokensTotal'', JNum (of_int (bp_tokensTotal p))),
           (''budgetTokens'', case bp_budgetTokens p of None \<Rightarrow> JNull | Some t \<Rightarrow> JNum (of_int t)),
           (''fraction'', JNum (if 0 < costBudget then bp_costUsd p / costBudget else 0)),
           (''threshold'', JNum (ac_warnThreshold ac))]"

definition markBudgetExceeded :: "accounting \<Rightarrow> string \<Rightarrow> meter_state \<Rightarrow> meter_state" where
  "markBudgetExceeded ac jobId st =
     (case finalizeDevJob (ac_finalize ac) jobId St_budget_exceeded
             (reason_context (Some ''llm_budget_exceeded'')) (ms_db st) of
        (db', effs, _) \<Rightarrow> st\<lparr>ms_db := db', ms_effects := ms_effects st @ effs\<rparr>)"

definition emitBudgetWarning :: "accounting \<Rightarrow> string \<Rightarrow> json \<Rightarrow> meter_state \<Rightarrow> meter_state" where
  "emitBudgetWarning ac jobId payload st =
     st\<lparr>ms_db := fst (appendHostEvent (ac_now ac) jobId ''budget_warning'' payload (ms_db st))\<rparr>"

definition cost_budget :: "accounting \<Rightarrow> budget_position \<Rightarrow> rat" where
  "cost_budget ac p = (case bp_budgetCostUsd p of Some b \<Rightarrow> b | None \<Rightarrow> ac_defaultBudgetCostUsd ac)"

definition over_budget :: "accounting \<Rightarrow> budget_position \<Rightarrow> bool" where
  "over_budget ac p \<longleftrightarrow>
     (0 < cost_budget ac p \<and> cost_budget ac p \<le> bp_costUsd p) \<or>
     (case bp_budgetTokens p of None \<Rightarrow> False | Some t \<Rightarrow> t \<le> bp_tokensTotal p)"

definition warns :: "accounting \<Rightarrow> rat \<Rightarrow> rat \<Rightarrow> budget_position \<Rightarrow> bool" where
  "warns ac deltaCost deltaTokens p \<longleftrightarrow>
     crossedEdge (bp_costUsd p - deltaCost) (bp_costUsd p) (cost_budget ac p * ac_warnThreshold ac) \<or>
     (case bp_budgetTokens p of None \<Rightarrow> False
      | Some t \<Rightarrow> crossedEdge (of_int (bp_tokensTotal p) - deltaTokens) (of_int (bp_tokensTotal p))
                    (of_int t * ac_warnThreshold ac))"

definition meter :: "accounting \<Rightarrow> bool \<Rightarrow> string \<Rightarrow> string \<Rightarrow> usage_tokens \<Rightarrow> meter_state \<Rightarrow> meter_state \<times> bool" where
  "meter ac accumulate_fails jobId model u st =
     (let (tokensIn, tokensOut) = splitTokens u;
          deltaTokens = tokensIn + tokensOut;
          deltaCost = computeCostUsd model u
      in if deltaTokens = 0 \<and> deltaCost = 0 then (st, False)
         else if accumulate_fails then (st, False)
         else case accumulateJobUsage (ac_now ac) jobId (js_trunc tokensIn) (js_trunc tokensOut) deltaCost (ms_db st) of
           (db', None) \<Rightarrow> (st\<lparr>ms_db := db'\<rparr>, False)
         | (db', Some p) \<Rightarrow>
             (let st1 = st\<lparr>ms_db := db',
                    ms_ledger := ms_ledger st @ [\<lparr>lg_source = ''dev-job'', lg_model = model, lg_usage = u,
                                                  lg_sessionId = ''devjob:'' @ jobId\<rparr>]\<rparr>
              in if over_budget ac p then (markBudgetExceeded ac jobId st1, True)
                 else if warns ac deltaCost deltaTokens p
                 then (emitBudgetWarning ac jobId (warning_payload ac (cost_budget ac p) p) st1, False)
                 else (st1, False)))"

end
