(* ===== verification/EgressPolicy.thy ===== *)
theory EgressPolicy
  imports ExampleData
begin

text \<open>
  \<open>deriveJobPolicy.ts\<close> with the two predicates of \<open>host/ssrfGuard.ts\<close>: the image, environment and
  egress allowlist of one job, derived from its repository row.  Node's URL parser is the parameter
  \<open>parse_url\<close>; the theorems hold for every parser.  Lower-casing is that of ASCII.  The log lines of a
  dropped entry are not modelled.
\<close>

section \<open>Internal hosts\<close>

definition INTERNAL_HOST_SUFFIXES :: "string list" where
  "INTERNAL_HOST_SUFFIXES = [''.internal'', ''.local'', ''.localdomain'']"

definition INTERNAL_HOST_EXACT :: "string list" where
  "INTERNAL_HOST_EXACT = [''localhost'', ''metadata.google.internal'']"

text \<open>The regular expression of a dotted quad, with its four numbers.\<close>

definition octet :: "string \<Rightarrow> bool" where
  "octet w \<longleftrightarrow> w \<noteq> [] \<and> length w \<le> 3 \<and> list_all is_digit w"

definition dotted_quad :: "string \<Rightarrow> nat list option" where
  "dotted_quad s =
     (let ws = split_char CHR ''.'' s in
      if length ws = 4 \<and> list_all octet ws then Some (map nat_of_digits ws) else None)"

definition internal_quad :: "nat list \<Rightarrow> bool" where
  "internal_quad ns =
     (let a = ns ! 0; b = ns ! 1 in
      a = 0 \<or> a = 10 \<or> a = 127 \<or> (a = 169 \<and> b = 254) \<or> (a = 172 \<and> 16 \<le> b \<and> b \<le> 31) \<or>
      (a = 192 \<and> b = 168) \<or> (a = 100 \<and> 64 \<le> b \<and> b \<le> 127))"

definition strip_brackets :: "string \<Rightarrow> string" where
  "strip_brackets s =
     (if s \<noteq> [] \<and> List.hd s = CHR ''['' \<and> last s = CHR '']'' then butlast (tl s) else s)"

definition strip_zone :: "string \<Rightarrow> string" where
  "strip_zone s = takeWhile (\<lambda>c. c \<noteq> CHR ''%'') s"

definition unmap_v4 :: "string \<Rightarrow> string" where
  "unmap_v4 s =
     (if prefix ''::ffff:'' s \<and> dotted_quad (drop 7 s) \<noteq> None then drop 7 s else s)"

definition isInternalIp :: "string \<Rightarrow> bool" where
  "isInternalIp ip =
     (let s = unmap_v4 (strip_zone (strip_brackets (toLowerCase (trim ip)))) in
      case dotted_quad s of
        Some ns \<Rightarrow> internal_quad ns
      | None \<Rightarrow>
          CHR '':'' \<in> set s \<and>
          (s = ''::'' \<or> s = ''::1'' \<or>
           list_ex (\<lambda>p. prefix p s) [''fe8'', ''fe9'', ''fea'', ''feb'', ''fc'', ''fd'']))"

definition strip_dot :: "string \<Rightarrow> string" where
  "strip_dot s = (if s \<noteq> [] \<and> last s = CHR ''.'' then butlast s else s)"

definition isInternalHost :: "string \<Rightarrow> bool" where
  "isInternalHost host =
     (let h = strip_dot (toLowerCase (trim host)) in
      h = [] \<or> h \<in> set INTERNAL_HOST_EXACT \<or>
      list_ex (\<lambda>x. suffix x h) INTERNAL_HOST_SUFFIXES \<or> isInternalIp h)"

section \<open>The forge hosts of the clone URL\<close>

record url =
  url_protocol :: string
  url_username :: string
  url_password :: string
  url_hostname :: string

definition normalizeHostname :: "string \<Rightarrow> string" where
  "normalizeHostname raw =
     (let s = toLowerCase raw;
          s1 = (if s \<noteq> [] \<and> List.hd s = CHR ''['' then tl s else s);
          s2 = (if s1 \<noteq> [] \<and> last s1 = CHR '']'' then butlast s1 else s1)
      in strip_dot s2)"

definition malformed_host :: "string \<Rightarrow> bool" where
  "malformed_host h \<longleftrightarrow>
     h = [] \<or> last h = CHR ''.'' \<or> str_includes h ''..'' \<or> CHR 0x00 \<in> set h"

definition forgeHostsFromCloneUrl :: "(string \<Rightarrow> url option) \<Rightarrow> string \<Rightarrow> string + string list" where
  "forgeHostsFromCloneUrl parse_url cloneUrl =
     (case parse_url cloneUrl of
        None \<Rightarrow> Inl ''clone_url is not a parseable URL''
      | Some u \<Rightarrow>
          if url_protocol u \<noteq> ''https:'' then Inl ''clone_url must use https''
          else if url_username u \<noteq> [] \<or> url_password u \<noteq> [] then Inl ''clone_url must not carry userinfo''
          else if url_hostname u = [] then Inl ''clone_url has no host''
          else
            (let lower = normalizeHostname (url_hostname u) in
             if malformed_host lower then Inl ''clone_url host is malformed''
             else if isInternalHost lower then Inl ''clone_url host resolves to an internal address''
             else if lower = ''github.com'' then Inr [''github.com'', ''codeload.github.com'']
             else Inr [lower]))"

section \<open>Entries of the operator's allowlists\<close>

definition lower_alnum :: "char \<Rightarrow> bool" where
  "lower_alnum c \<longleftrightarrow> is_lower c \<or> is_digit c"

definition HOSTNAME_LABEL :: "string \<Rightarrow> bool" where
  "HOSTNAME_LABEL l \<longleftrightarrow>
     l \<noteq> [] \<and> length l \<le> 63 \<and> lower_alnum (List.hd l) \<and> lower_alnum (last l) \<and>
     list_all (\<lambda>c. lower_alnum c \<or> c = CHR ''-'') l"

definition control_or_space :: "char \<Rightarrow> bool" where
  "control_or_space c \<longleftrightarrow> c \<le> CHR '' '' \<or> c = CHR 0x7F"

definition scheme_char :: "char \<Rightarrow> bool" where
  "scheme_char c \<longleftrightarrow> is_alnum c \<or> c \<in> {CHR ''+'', CHR ''.'', CHR ''-''}"

definition scheme_like :: "string \<Rightarrow> bool" where
  "scheme_like s =
     (case s of [] \<Rightarrow> False
      | c # cs \<Rightarrow> (is_upper c \<or> is_lower c) \<and>
          (case dropWhile scheme_char cs of [] \<Rightarrow> False | d # _ \<Rightarrow> d = CHR '':''))"

datatype classified = Egress_host string | Egress_reject string

definition ip_literal :: "string \<Rightarrow> bool" where
  "ip_literal h \<longleftrightarrow>
     (let ws = split_char CHR ''.'' h in
      length ws = 4 \<and> list_all (\<lambda>w. w \<noteq> [] \<and> list_all is_digit w) ws) \<or>
     (h \<noteq> [] \<and> List.hd h = CHR ''['') \<or> isInternalIp h"

definition classify_canonical :: "(string \<Rightarrow> url option) \<Rightarrow> string \<Rightarrow> classified" where
  "classify_canonical parse_url lower =
     (case parse_url (''http://'' @ lower @ ''/'') of
        None \<Rightarrow> Egress_reject ''not a valid hostname''
      | Some u \<Rightarrow>
          if url_hostname u \<noteq> lower
          then Egress_reject (''not a bare hostname (URL parser rewrote it to '' @ url_hostname u @ '')'')
          else if ip_literal (url_hostname u) then Egress_reject ''IP literal''
          else if \<not> list_all HOSTNAME_LABEL (split_char CHR ''.'' lower)
          then Egress_reject ''not a valid hostname''
          else Egress_host lower)"

definition classifyEgressEntry :: "(string \<Rightarrow> url option) \<Rightarrow> string \<Rightarrow> classified" where
  "classifyEgressEntry parse_url raw =
     (let t = trim raw in
      if t = [] then Egress_reject ''empty''
      else if list_ex control_or_space t then Egress_reject ''whitespace/control char''
      else if str_includes t ''://'' \<or> scheme_like t then Egress_reject ''has a scheme''
      else if list_ex (\<lambda>c. c \<in> set ''/?#@'') t then Egress_reject ''has a path/userinfo''
      else if CHR ''*'' \<in> set t then Egress_reject ''wildcard not supported''
      else if CHR '':'' \<in> set t then Egress_reject ''has a port or is an IPv6 literal''
      else if CHR 0x00 \<in> set t then Egress_reject ''embedded NUL''
      else classify_canonical parse_url (normalizeHostname t))"

section \<open>The policy\<close>

definition SUBSCRIPTION_ENV :: "(string \<times> string) list" where
  "SUBSCRIPTION_ENV = [(''CLAUDE_CODE_DISABLE_NONESSENTIAL_TRAFFIC'', ''1''),
     (''DISABLE_AUTOUPDATER'', ''1''), (''DISABLE_TELEMETRY'', ''1'')]"

definition SUBSCRIPTION_HOSTS :: "string list" where
  "SUBSCRIPTION_HOSTS = [''api.anthropic.com'', ''claude.ai'', ''platform.claude.com'']"

record derive_job_policy_config =
  dc_middlewareHost :: string
  dc_baseAllowlist :: "string list"
  dc_image :: string
  dc_llmProxyBaseUrl :: string

record derived_job_policy =
  dj_image :: string
  dj_env :: "(string \<times> string) list"
  dj_egressAllowlist :: "string list"
  dj_dockerInJob :: bool

text \<open>The set \<open>seen\<close> of the sources holds exactly the hosts pushed so far, so the list is its own set.\<close>

fun pushHosts :: "string list \<Rightarrow> string list \<Rightarrow> string list" where
  "pushHosts out [] = out"
| "pushHosts out (raw # hosts) =
     (let host = trim raw in
      pushHosts (if host = [] \<or> host \<in> set out then out else out @ [host]) hosts)"

fun pushValidatedHosts :: "(string \<Rightarrow> url option) \<Rightarrow> string list \<Rightarrow> string list \<Rightarrow> string list" where
  "pushValidatedHosts parse_url out [] = out"
| "pushValidatedHosts parse_url out (raw # hosts) =
     (case classifyEgressEntry parse_url raw of
        Egress_reject _ \<Rightarrow> pushValidatedHosts parse_url out hosts
      | Egress_host h \<Rightarrow>
          pushValidatedHosts parse_url (if h \<in> set out then out else out @ [h]) hosts)"

definition policy_env :: "dev_job \<Rightarrow> derive_job_policy_config \<Rightarrow> (string \<times> string) list" where
  "policy_env job config =
     (if j_authMode job = Auth_subscription then SUBSCRIPTION_ENV
      else [(''ANTHROPIC_BASE_URL'', dc_llmProxyBaseUrl config)]) @
     [(''OMADIA_PIPELINE_MODE'', if j_pipelineMode job = Gated then ''gated'' else ''collapsed'')]"

definition deriveJobPolicy :: "(string \<Rightarrow> url option) \<Rightarrow> dev_repo \<Rightarrow> dev_job \<Rightarrow> derive_job_policy_config
    \<Rightarrow> string + derived_job_policy" where
  "deriveJobPolicy parse_url repo job config =
     (case forgeHostsFromCloneUrl parse_url (rp_cloneUrl repo) of
        Inl err \<Rightarrow> Inl err
      | Inr forge \<Rightarrow>
          (let l1 = pushHosts [] [dc_middlewareHost config];
               l2 = pushHosts l1 forge;
               l3 = pushValidatedHosts parse_url l2 (dc_baseAllowlist config);
               l4 = pushValidatedHosts parse_url l3 (rp_egressAllowlist repo);
               l5 = (if j_authMode job = Auth_subscription then pushHosts l4 SUBSCRIPTION_HOSTS else l4)
           in Inr \<lparr>dj_image = dc_image config, dj_env = policy_env job config,
                   dj_egressAllowlist = l5, dj_dockerInJob = rp_dockerInJob repo\<rparr>))"

section \<open>The allowlist as a set expression\<close>

text \<open>The reference: every list is trimmed or checked entry by entry, the results are concatenated, and
  only the first occurrence of a host is kept.\<close>

definition first_occurrences :: "'a list \<Rightarrow> 'a list" where
  "first_occurrences xs = rev (remdups (rev xs))"

definition named_host :: "string \<Rightarrow> string option" where
  "named_host raw = (if trim raw = [] then None else Some (trim raw))"

definition bare_hostname :: "(string \<Rightarrow> url option) \<Rightarrow> string \<Rightarrow> bool" where
  "bare_hostname parse_url h \<longleftrightarrow>
     list_all HOSTNAME_LABEL (split_char CHR ''.'' h) \<and> \<not> ip_literal h \<and>
     map_option url_hostname (parse_url (''http://'' @ h @ ''/'')) = Some h"

definition operator_host :: "(string \<Rightarrow> url option) \<Rightarrow> string \<Rightarrow> string option" where
  "operator_host parse_url raw =
     (let h = normalizeHostname (trim raw) in if bare_hostname parse_url h then Some h else None)"

lemma first_occurrences_distinct [simp]: "distinct (first_occurrences xs)"
  by (simp add: first_occurrences_def)

lemma first_occurrences_seen:
  assumes "h \<in> set out"
  shows "first_occurrences (out @ h # ts) = first_occurrences (out @ ts)"
proof -
  have "remdups (rev ts @ ([h] @ rev out)) = remdups (rev ts @ remdups ([h] @ rev out))"
    by (simp only: remdups_append2)
  also have "\<dots> = remdups (rev ts @ rev out)" using assms by (simp add: remdups_append2)
  finally show ?thesis by (simp add: first_occurrences_def)
qed

text \<open>Both push loops append what an entry names unless it is there: the contract they share.\<close>

locale host_push =
  fixes pick :: "'e \<Rightarrow> string option" and push :: "string list \<Rightarrow> 'e list \<Rightarrow> string list"
  assumes push_Nil: "push out [] = out"
    and push_Cons: "push out (x # xs) =
      push (case pick x of None \<Rightarrow> out | Some h \<Rightarrow> if h \<in> set out then out else out @ [h]) xs"
begin

lemma push_exact:
  "distinct out \<Longrightarrow> push out xs = first_occurrences (out @ List.map_filter pick xs)"
proof (induction xs arbitrary: out)
  case Nil
  then show ?case
    by (simp add: push_Nil map_filter_def first_occurrences_def distinct_remdups_id)
next
  case (Cons x xs)
  show ?case
  proof (cases "pick x")
    case None
    then show ?thesis using Cons by (simp add: push_Cons map_filter_def)
  next
    case (Some h)
    then show ?thesis
      using Cons.IH[of "if h \<in> set out then out else out @ [h]"] Cons.prems
      by (simp add: push_Cons map_filter_def first_occurrences_seen)
  qed
qed

end

interpretation trusted_push: host_push named_host pushHosts
  by unfold_locales (simp_all add: named_host_def Let_def)

definition accepted_entry :: "(string \<Rightarrow> url option) \<Rightarrow> string \<Rightarrow> string option" where
  "accepted_entry parse_url raw =
     (case classifyEgressEntry parse_url raw of Egress_host h \<Rightarrow> Some h | Egress_reject _ \<Rightarrow> None)"

interpretation checked_push: host_push "accepted_entry parse_url" "pushValidatedHosts parse_url" for parse_url
  by unfold_locales (simp_all add: accepted_entry_def split: classified.splits)

text \<open>The early rejections are subsumed by the final hostname check.\<close>

lemma in_split_char: "c \<in> set h \<Longrightarrow> c \<noteq> d \<Longrightarrow> \<exists>w \<in> set (split_char d h). c \<in> set w"
proof (induction h)
  case (Cons a h)
  obtain w ws where "split_char d h = w # ws" using split_char_ne by (cases "split_char d h") auto
  then show ?case using Cons by auto
qed simp

lemma label_chars:
  assumes "list_all HOSTNAME_LABEL (split_char CHR ''.'' h)" "c \<in> set h"
  shows "lower_alnum c \<or> c = CHR ''-'' \<or> c = CHR ''.''"
proof (cases "c = CHR ''.''")
  case False
  then obtain w where "w \<in> set (split_char CHR ''.'' h)" "c \<in> set w"
    using in_split_char[OF assms(2)] by blast
  then show ?thesis using assms(1) by (fastforce simp: list_all_iff HOSTNAME_LABEL_def)
qed simp

lemma set_strip_dot: "set s \<subseteq> insert CHR ''.'' (set (strip_dot s))"
  by (cases s rule: rev_cases) (auto simp: strip_dot_def)

lemma set_normalize:
  "lower_char ` set t \<subseteq> set (normalizeHostname t) \<union> {CHR ''['', CHR '']'', CHR ''.''}"
proof -
  define s where "s = toLowerCase t"
  define s1 where "s1 = (if s \<noteq> [] \<and> List.hd s = CHR ''['' then tl s else s)"
  define s2 where "s2 = (if s1 \<noteq> [] \<and> last s1 = CHR '']'' then butlast s1 else s1)"
  have "set s \<subseteq> insert CHR ''['' (set s1)" unfolding s1_def by (cases s) auto
  moreover have "set s1 \<subseteq> insert CHR '']'' (set s2)" unfolding s2_def by (cases s1 rule: rev_cases) auto
  ultimately have "set s \<subseteq> set (strip_dot s2) \<union> {CHR ''['', CHR '']'', CHR ''.''}"
    using set_strip_dot[of s2] by blast
  moreover have "normalizeHostname t = strip_dot s2"
    by (simp only: normalizeHostname_def Let_def s_def s1_def s2_def)
  ultimately show ?thesis by (simp add: s_def toLowerCase_def)
qed

lemma hostname_chars:
  assumes "list_all HOSTNAME_LABEL (split_char CHR ''.'' (normalizeHostname t))" "c \<in> set t"
  shows "lower_alnum (lower_char c) \<or> lower_char c \<in> set ''-.[]''"
  using label_chars[OF assms(1), of "lower_char c"] set_normalize[of t] assms(2) by auto

lemma control_not_hostname:
  assumes "control_or_space c"
  shows "\<not> (lower_alnum (lower_char c) \<or> lower_char c \<in> set ''-.[]'')"
proof -
  have "(of_char c :: nat) \<le> 32 \<or> (of_char c :: nat) = 127"
    using assms by (auto simp: control_or_space_def less_eq_char_def)
  then have "\<not> is_upper c \<and> \<not> is_lower c \<and> \<not> is_digit c \<and> c \<notin> set ''-.[]''"
    by (auto simp: is_upper_def is_lower_def is_digit_def less_eq_char_def)
  then show ?thesis by (simp add: lower_alnum_def lower_char_def)
qed

lemma dropWhile_in: "dropWhile P xs = d # ds \<Longrightarrow> d \<in> set xs"
  by (metis list.set_intros(1) set_dropWhileD)

lemma scheme_like_colon: "scheme_like s \<Longrightarrow> CHR '':'' \<in> set s"
  by (auto simp: scheme_like_def dest: dropWhile_in split: list.splits)

lemma early_checks_pass:
  assumes "list_all HOSTNAME_LABEL (split_char CHR ''.'' (normalizeHostname t))"
  shows "t \<noteq> [] \<and> \<not> list_ex control_or_space t \<and> \<not> str_includes t ''://'' \<and> \<not> scheme_like t \<and>
    \<not> list_ex (\<lambda>c. c \<in> set ''/?#@'') t \<and> CHR ''*'' \<notin> set t \<and> CHR '':'' \<notin> set t \<and> CHR 0x00 \<notin> set t"
proof -
  note ok = hostname_chars[OF assms]
  have "list_all (\<lambda>c. \<not> (lower_alnum (lower_char c) \<or> lower_char c \<in> set ''-.[]'')) '':/?#@*''"
    by code_simp
  then have bad: "c \<notin> set t" if "c \<in> set '':/?#@*''" for c
    using ok[of c] that unfolding list_all_iff by blast
  have zero: "control_or_space CHR 0x00" by code_simp
  have "t \<noteq> []"
    using assms by (auto simp: normalizeHostname_def strip_dot_def toLowerCase_def HOSTNAME_LABEL_def)
  moreover have c: "\<not> list_ex control_or_space t"
    using ok control_not_hostname by (auto simp: list_ex_iff)
  moreover have "CHR 0x00 \<notin> set t"
    using c zero by (auto simp: list_ex_iff)
  moreover have "\<not> str_includes t ''://''" using bad[of "CHR '':''"] by (auto simp: includes_iff)
  moreover have "\<not> scheme_like t" using bad[of "CHR '':''"] scheme_like_colon by auto
  moreover have "\<not> list_ex (\<lambda>c. c \<in> set ''/?#@'') t" using bad by (auto simp: list_ex_iff)
  ultimately show ?thesis using bad[of "CHR ''*''"] bad[of "CHR '':''"] by simp
qed

lemma accepted_entry_iff: "accepted_entry parse_url = operator_host parse_url"
proof
  fix raw
  let ?t = "trim raw" and ?h = "normalizeHostname (trim raw)"
  have can: "(case classify_canonical parse_url ?h of Egress_host h \<Rightarrow> Some h | Egress_reject _ \<Rightarrow> None) =
      operator_host parse_url raw"
    by (auto simp: classify_canonical_def operator_host_def bare_hostname_def Let_def split: option.splits)
  show "accepted_entry parse_url raw = operator_host parse_url raw"
  proof (cases "list_all HOSTNAME_LABEL (split_char CHR ''.'' ?h)")
    case True
    note early_checks_pass[OF True]
    then show ?thesis
      unfolding can[symmetric] accepted_entry_def classifyEgressEntry_def Let_def by simp
  next
    case False
    then have "operator_host parse_url raw = None"
      by (auto simp: operator_host_def bare_hostname_def)
    then show ?thesis
      using can by (simp add: accepted_entry_def classifyEgressEntry_def Let_def)
  qed
qed

lemma first_occurrences_again: "first_occurrences (first_occurrences xs @ ys) = first_occurrences (xs @ ys)"
  by (simp add: first_occurrences_def remdups_append2)

lemma first_occurrences_set [simp]: "set (first_occurrences xs) = set xs"
  by (simp add: first_occurrences_def)

lemma map_filter_append: "List.map_filter f (xs @ ys) = List.map_filter f xs @ List.map_filter f ys"
  by (simp add: map_filter_def)

definition plain_char :: "char \<Rightarrow> bool" where
  "plain_char c \<longleftrightarrow> c \<notin> set ''.[]%'' \<and> c \<noteq> CHR 0x00 \<and> \<not> is_space c \<and> lower_char c = c"

lemma long_colon_host_external:
  assumes "list_all plain_char h" "h \<noteq> []" "List.hd h = CHR '':''" "3 < length h"
  shows "normalizeHostname (CHR ''['' # h @ [CHR '']'']) = h \<and> \<not> malformed_host h \<and> \<not> isInternalHost h \<and>
    trim h = h"
proof -
  have out: "c \<notin> set h" if "\<not> plain_char c" for c using assms(1) that unfolding list_all_iff by blast
  have dot: "CHR ''.'' \<notin> set h" by (rule out) code_simp
  have nul: "CHR 0x00 \<notin> set h" by (rule out) code_simp
  have pct: "CHR ''%'' \<notin> set h" by (rule out) code_simp
  have l: "plain_char (last h)" using assms(1,2) by (simp add: list_all_iff)
  have low: "map lower_char h = h" using assms(1) by (simp add: list_all_iff plain_char_def map_idI)
  have br: "lower_char CHR ''['' = CHR ''[''" "lower_char CHR '']'' = CHR '']''" by code_simp+
  have sd: "strip_dot h = h" using l by (simp add: strip_dot_def plain_char_def)
  have norm: "normalizeHostname (CHR ''['' # h @ [CHR '']'']) = h"
    by (simp add: normalizeHostname_def toLowerCase_def low br sd)
  have mal: "\<not> malformed_host h"
  proof -
    have "last h \<noteq> CHR ''.''" using last_in_set[OF assms(2)] dot by metis
    then show ?thesis using assms(2) nul dot by (auto simp: malformed_host_def includes_iff)
  qed
  obtain y ys where y: "rev h = y # ys" "y = last h" using assms(2) by (cases "rev h") (auto simp: last_rev[symmetric] simp del: last_rev)
  obtain z zs where z: "h = z # zs" "z = CHR '':''" using assms(2,3) by (cases h) auto
  have "\<not> is_space z" "\<not> is_space y" using z(2) y(2) l by (simp_all add: is_space_def plain_char_def)
  then have tr: "trim h = h" using y(1) z(1) rev_rev_ident[of h] by (simp add: trim_def)
  have "CHR ''.'' \<notin> set (drop 7 h)" using dot set_drop_subset[of 7 h] by blast
  then have noquad: "dotted_quad h = None" "dotted_quad (drop 7 h) = None"
    using split_char_single[OF dot] by (simp_all add: split_char_single dotted_quad_def)
  have "\<not> suffix x h" if "x \<in> set INTERNAL_HOST_SUFFIXES" for x
    using that dot set_mono_suffix[of x h] by (auto simp: INTERNAL_HOST_SUFFIXES_def)
  moreover have "h \<notin> set INTERNAL_HOST_EXACT" using z by (simp add: INTERNAL_HOST_EXACT_def)
  moreover have "strip_brackets h = h" using assms(3) by (simp add: strip_brackets_def)
  moreover have "strip_zone h = h" using pct by (auto simp: strip_zone_def takeWhile_eq_all_conv)
  moreover have "unmap_v4 h = h" using noquad by (simp add: unmap_v4_def)
  moreover have "h \<noteq> ''::''" "h \<noteq> ''::1''" using assms(4) by auto
  ultimately have "\<not> isInternalHost h"
    using tr low sd noquad(1) z
    by (simp add: isInternalHost_def isInternalIp_def Let_def list_ex_iff toLowerCase_def)
  then show ?thesis using norm mal tr by simp
qed

text \<open>The allowlist, list by list.\<close>

lemma derived_allowlist:
  assumes "deriveJobPolicy parse_url repo job config = Inr p"
    and f: "forgeHostsFromCloneUrl parse_url (rp_cloneUrl repo) = Inr forge"
  shows "dj_egressAllowlist p = first_occurrences (
      List.map_filter named_host (dc_middlewareHost config # forge) @
      List.map_filter (operator_host parse_url) (dc_baseAllowlist config @ rp_egressAllowlist repo) @
      (if j_authMode job = Auth_subscription then SUBSCRIPTION_HOSTS else []))"
proof -
  let ?mw = "dc_middlewareHost config" and ?base = "dc_baseAllowlist config" and ?rows = "rp_egressAllowlist repo"
  have subs: "List.map_filter named_host SUBSCRIPTION_HOSTS = SUBSCRIPTION_HOSTS" by code_simp
  note exact = trusted_push.push_exact checked_push.push_exact[unfolded accepted_entry_iff]
  let ?l2 = "first_occurrences (List.map_filter named_host (?mw # forge))"
  have l2: "pushHosts (pushHosts [] [?mw]) forge = ?l2"
    using trusted_push.push_exact[of "[]" "?mw # forge"]
    by (simp add: trusted_push.push_Cons trusted_push.push_Nil named_host_def Let_def)
  let ?l4 = "first_occurrences (List.map_filter named_host (?mw # forge) @
      List.map_filter (operator_host parse_url) (?base @ ?rows))"
  have l4: "pushValidatedHosts parse_url (pushValidatedHosts parse_url ?l2 ?base) ?rows = ?l4"
    by (simp add: exact first_occurrences_again map_filter_append)
  have "dj_egressAllowlist p =
      (if j_authMode job = Auth_subscription then pushHosts ?l4 SUBSCRIPTION_HOSTS else ?l4)"
    using assms f by (simp only: deriveJobPolicy_def Let_def l2 l4 sum.case) auto
  then show ?thesis
    using f exact(1)[of ?l4 SUBSCRIPTION_HOSTS]
    by (simp add: first_occurrences_again subs del: pushHosts.simps)
qed

section \<open>Properties\<close>

text \<open>The derived allowlist is exactly the specified set, in order and without duplicates: the
  middleware, the forge hosts of the clone URL, those operator entries that are bare hostnames (valid
  labels, no IP literal, kept as they are by the URL parser) and, for a subscription job, Anthropic's
  hosts; nothing else an operator or repository row writes becomes policy.\<close>

theorem egress_allowlist_exact:
  assumes "deriveJobPolicy parse_url repo job config = Inr p"
  shows "\<exists>forge. forgeHostsFromCloneUrl parse_url (rp_cloneUrl repo) = Inr forge \<and>
    distinct (dj_egressAllowlist p) \<and>
    dj_egressAllowlist p = first_occurrences (
      List.map_filter named_host (dc_middlewareHost config # forge) @
      List.map_filter (operator_host parse_url) (dc_baseAllowlist config @ rp_egressAllowlist repo) @
      (if j_authMode job = Auth_subscription then SUBSCRIPTION_HOSTS else []))"
proof -
  from assms obtain forge where f: "forgeHostsFromCloneUrl parse_url (rp_cloneUrl repo) = Inr forge"
    by (auto simp: deriveJobPolicy_def split: sum.splits)
  show ?thesis using f by (simp add: derived_allowlist[OF assms f])
qed

text \<open>An IPv4-mapped IPv6 clone host is admitted: the URL parser prints such an address in hexadecimal
  groups, which the internal-address test does not recognise, so the address itself, whatever it maps
  to, enters the allowlist.\<close>

theorem mapped_ipv6_admitted:
  assumes "parse_url (rp_cloneUrl repo) = Some u" "url_protocol u = ''https:''"
    and "url_username u = []" "url_password u = []"
    and "url_hostname u = ''[::ffff:'' @ a @ '':'' @ b @ '']''"
    and "set a \<subseteq> set ''0123456789abcdef''" "set b \<subseteq> set ''0123456789abcdef''"
    and "a \<noteq> []" "b \<noteq> []"
  shows "\<exists>p. deriveJobPolicy parse_url repo job config = Inr p \<and>
    ''::ffff:'' @ a @ '':'' @ b \<in> set (dj_egressAllowlist p)"
proof -
  let ?h = "''::ffff:'' @ a @ '':'' @ b"
  have hex: "list_all plain_char ''0123456789abcdef''" by code_simp
  have "list_all plain_char a" "list_all plain_char b"
    using hex assms(6,7) unfolding list_all_iff by blast+
  moreover have "list_all plain_char ''::ffff:''" "plain_char CHR '':''" by code_simp+
  ultimately have chars: "list_all plain_char ?h" and okb: "plain_char (last b)"
    using assms(9) by (simp_all add: list_all_iff ball_Un)
  then have h: "normalizeHostname (url_hostname u) = ?h" "\<not> malformed_host ?h" "\<not> isInternalHost ?h"
    "trim ?h = ?h"
    using long_colon_host_external[OF chars] assms(9) by (simp_all add: assms(5))
  then have "forgeHostsFromCloneUrl parse_url (rp_cloneUrl repo) = Inr [?h]"
    using assms(1-5) by (simp add: forgeHostsFromCloneUrl_def Let_def)
  then obtain p where p: "deriveJobPolicy parse_url repo job config = Inr p" and
    f: "forgeHostsFromCloneUrl parse_url (rp_cloneUrl repo) = Inr [?h]"
    by (auto simp: deriveJobPolicy_def Let_def)
  have "named_host ?h = Some ?h" using h(4) by (simp add: named_host_def)
  then show ?thesis
    using p derived_allowlist[OF p f] by (auto simp: map_filter_def)
qed

section \<open>Witnesses\<close>

definition example_parser :: "string \<Rightarrow> url option" where
  "example_parser s =
     (if s = ''https://github.com/acme/app.git'' then
        Some \<lparr>url_protocol = ''https:'', url_username = [], url_password = [], url_hostname = ''github.com''\<rparr>
      else if s = ''https://[::ffff:169.254.169.254]/x'' then
        Some \<lparr>url_protocol = ''https:'', url_username = [], url_password = [], url_hostname = ''[::ffff:a9fe:a9fe]''\<rparr>
      else if s = ''http://registry.npmjs.org/'' then
        Some \<lparr>url_protocol = ''http:'', url_username = [], url_password = [], url_hostname = ''registry.npmjs.org''\<rparr>
      else None)"

definition example_policy_config :: derive_job_policy_config where
  "example_policy_config = \<lparr>dc_middlewareHost = ''omadia.example'',
     dc_baseAllowlist = ['' Registry.npmjs.org. '', ''10.0.0.1'', ''*.evil.example''],
     dc_image = ''runner@sha256:1'', dc_llmProxyBaseUrl = ''https://omadia.example/llm''\<rparr>"

lemma example_policy_hosts:
  "map_sum id dj_egressAllowlist (deriveJobPolicy example_parser example_repo example_job example_policy_config) =
   Inr [''omadia.example'', ''github.com'', ''codeload.github.com'', ''registry.npmjs.org'']"
  by code_simp

theorem egress_allowlist_witness:
  "\<exists>p. deriveJobPolicy example_parser example_repo example_job example_policy_config = Inr p \<and>
     distinct (dj_egressAllowlist p) \<and>
     dj_egressAllowlist p = [''omadia.example'', ''github.com'', ''codeload.github.com'', ''registry.npmjs.org'']"
proof -
  obtain p where p: "deriveJobPolicy example_parser example_repo example_job example_policy_config = Inr p"
    "dj_egressAllowlist p = [''omadia.example'', ''github.com'', ''codeload.github.com'', ''registry.npmjs.org'']"
    using example_policy_hosts
    by (cases "deriveJobPolicy example_parser example_repo example_job example_policy_config") auto
  then show ?thesis using egress_allowlist_exact[OF p(1)] by blast
qed

theorem mapped_ipv6_witness:
  "\<exists>p. deriveJobPolicy example_parser (example_repo\<lparr>rp_cloneUrl := ''https://[::ffff:169.254.169.254]/x''\<rparr>)
      example_job example_policy_config = Inr p \<and>
     ''::ffff:'' @ ''a9fe'' @ '':'' @ ''a9fe'' \<in> set (dj_egressAllowlist p)"
  by (rule mapped_ipv6_admitted[where parse_url = example_parser]) (simp add: example_parser_def, simp_all)

end
