(* ===== verification/JsonText.thy ===== *)
theory JsonText
  imports DevPrelude
begin

text \<open>
  \<open>JSON.stringify\<close> of the runtime, as the sources use it: the UTF-8 bytes of a JSON value.  How a number is
  printed is the parameter \<open>num\<close>.
\<close>

definition hex_digit :: "nat \<Rightarrow> char" where
  "hex_digit n = (if n < 10 then char_of (48 + n) else char_of (87 + n))"

definition json_escape :: "char \<Rightarrow> string" where
  "json_escape c =
     (if c = CHR 0x22 then [CHR 0x5C, CHR 0x22]
      else if c = CHR 0x5C then [CHR 0x5C, CHR 0x5C]
      else if c = CHR 0x08 then [CHR 0x5C, CHR ''b'']
      else if c = CHR 0x0C then [CHR 0x5C, CHR ''f'']
      else if c = CHR 0x0A then [CHR 0x5C, CHR ''n'']
      else if c = CHR 0x0D then [CHR 0x5C, CHR ''r'']
      else if c = CHR 0x09 then [CHR 0x5C, CHR ''t'']
      else if c < CHR '' '' then CHR 0x5C # ''u00'' @ [hex_digit (of_char c div 16), hex_digit (of_char c mod 16)]
      else [c])"

definition json_quote :: "string \<Rightarrow> string" where
  "json_quote s = CHR 0x22 # concat (map json_escape s) @ [CHR 0x22]"

fun json_stringify :: "(rat \<Rightarrow> string) \<Rightarrow> json \<Rightarrow> string" where
  "json_stringify num JNull = ''null''"
| "json_stringify num (JBool b) = (if b then ''true'' else ''false'')"
| "json_stringify num (JNum x) = num x"
| "json_stringify num (JStr s) = json_quote s"
| "json_stringify num (JArr vs) = ''['' @ join_with '','' (map (json_stringify num) vs) @ '']''"
| "json_stringify num (JObj kvs) =
     ''{'' @ join_with '','' (map (\<lambda>(k, v). json_quote k @ '':'' @ json_stringify num v) kvs) @ ''}''"

end
