(* ===== verification/RunnerApi.thy ===== *)
theory RunnerApi
  imports PhaseEngine EgressPolicy JsonText
begin

text \<open>
  The phone-home router (\<open>routes/devRunnerApi.ts\<close>) and the daemon's policy route
  (\<open>routes/devRunnerJobPolicyRoute.ts\<close>).  A request runs in two moments: \<open>authMw\<close> authenticates it
  and takes a snapshot of the job when its headers arrive, the handler runs on that snapshot once the
  body parser has read the body, on the database of that later moment.  A reply is its status code with
  the error code, or the payload; message texts are left out.  The hash, \<open>JSON.parse\<close>, the decimal text
  of a JSON number and PostgreSQL's timestamp input are parameters.  The count columns of \<open>dev_jobs\<close>
  hold integers, so a fractional count makes the UPDATE fail.
\<close>

section \<open>Requests and replies\<close>

record phase_context =
  pc_phase :: dev_job_phase
  pc_plan :: "string option"
  pc_answers :: "json list option"
  pc_priorFindings :: "json list option"
  pc_attempt :: "nat option"

record capabilities =
  cap_installDeps :: bool
  cap_runTests :: bool
  cap_dockerInJob :: "bool option"

record dev_job_spec =
  sp_protocol :: nat
  sp_jobId :: string
  sp_provision :: nat
  sp_kind :: dev_job_kind
  sp_brief :: string
  sp_cloneUrl :: string
  sp_defaultBranch :: string
  sp_baseSha :: string
  sp_branch :: string
  sp_agentModel :: "string option"
  sp_maxTurns :: "int option"
  sp_wallClockMs :: int
  sp_capabilities :: capabilities
  sp_pipelineMode :: pipeline_mode
  sp_phaseContext :: "phase_context option"
  sp_bootstrap :: "string option"

record job_policy_reply =
  jp_jobId :: string
  jp_image :: string
  jp_env :: "(string \<times> string) list"
  jp_egressAllowlist :: "string list"
  jp_dockerInJob :: bool

datatype runner_reply =
    Refused nat string
  | Spec_reply dev_job_spec
  | Scm_reply string int
  | Accepted_reply nat
  | Heartbeat_reply bool
  | Artifact_reply string
  | Ok_reply
  | Directive_reply phase_directive
  | Policy_reply job_policy_reply

text \<open>What the body parser hands over: a parsed body, or one of its two errors.\<close>

datatype 'b parsed_body = Parsed 'b | Too_large | Unparseable

datatype scm_answer = Scm_throws | Scm_none | Scm_token string

datatype runner_request =
    Get_spec
  | Get_scm_token
  | Post_events "json parsed_body"
  | Post_heartbeat "json parsed_body"
  | Post_diff "string option parsed_body"
  | Post_result "json parsed_body"
  | Post_phase_result "json parsed_body"

record runner_env = engine_env +
  rn_num_text :: "rat \<Rightarrow> string"
  rn_parse_json :: "string \<Rightarrow> json option"
  rn_parse_ts :: "string \<Rightarrow> int option"
  rn_resolve :: "string \<Rightarrow> string \<Rightarrow> dev_db \<Rightarrow> scm_answer"
  rn_maxEvents :: int
  rn_wallClockMs :: "int option"
  rn_scmTokenTtlMs :: "int option"
  rn_maxDiffBytes :: "int option"
  rn_maxEventsPerBatch :: "nat option"
  rn_maxEventPayloadBytes :: "int option"
  rn_agentModel :: "string option"
  rn_maxTurns :: "int option"
  rn_daemonToken :: "string option"
  rn_jobPolicyConfig :: "derive_job_policy_config option"
  rn_parse_url :: "string \<Rightarrow> url option"
  rn_minted :: string

record runner_state =
  rs_db :: dev_db
  rs_issued :: "(string \<times> nat) list"
  rs_effects :: "finalize_effect list"

section \<open>Defaults and small helpers\<close>

definition DEFAULT_WALL_CLOCK_MS :: int where "DEFAULT_WALL_CLOCK_MS = 1800000"
definition DEFAULT_SCM_TOKEN_TTL_MS :: int where "DEFAULT_SCM_TOKEN_TTL_MS = 15 * 60 * 1000"
definition DEFAULT_MAX_DIFF_BYTES :: int where "DEFAULT_MAX_DIFF_BYTES = 5 * 1024 * 1024"
definition DEFAULT_MAX_EVENTS :: nat where "DEFAULT_MAX_EVENTS = 1000"
definition DEFAULT_MAX_EVENT_PAYLOAD_BYTES :: int where "DEFAULT_MAX_EVENT_PAYLOAD_BYTES = 64 * 1024"
definition MAX_SEQ :: rat where "MAX_SEQ = 2147483647"

definition defaulted :: "'a option \<Rightarrow> 'a \<Rightarrow> 'a" where
  "defaulted x d = (case x of None \<Rightarrow> d | Some v \<Rightarrow> v)"

text \<open>\<open>/^Bearer[ ]+(.+)$/i\<close> on the trimmed header: the dot takes no line terminator.\<close>

definition bearerToken :: "string option \<Rightarrow> string option" where
  "bearerToken header =
     (case header of None \<Rightarrow> None
      | Some h \<Rightarrow>
          (let s = trim h; rest = dropWhile (\<lambda>c. c = CHR '' '') (drop 6 s) in
           if toLowerCase (take 6 s) = ''bearer'' \<and> prefix '' '' (drop 6 s) \<and> rest \<noteq> [] \<and>
              CHR 0x0A \<notin> set rest \<and> CHR 0x0D \<notin> set rest \<and> trim rest \<noteq> []
           then Some (trim rest) else None))"

definition json_str :: "string \<Rightarrow> json \<Rightarrow> string option" where
  "json_str k v = (case json_field k v of Some (JStr s) \<Rightarrow> Some s | _ \<Rightarrow> None)"

definition json_num :: "string \<Rightarrow> json \<Rightarrow> rat option" where
  "json_num k v = (case json_field k v of Some (JNum x) \<Rightarrow> Some x | _ \<Rightarrow> None)"

definition is_integer :: "rat \<Rightarrow> bool" where
  "is_integer x \<longleftrightarrow> of_int \<lfloor>x\<rfloor> = x"

section \<open>Authentication and the status gate\<close>

text \<open>An absent row answers as a wrong token does.  The two reads of the row are taken at one moment.\<close>

definition authMw :: "runner_env \<Rightarrow> string option \<Rightarrow> string \<Rightarrow> dev_db \<Rightarrow> runner_reply + dev_job" where
  "authMw env header jobId db =
     (case bearerToken header of
        None \<Rightarrow> Inl (Refused 401 ''devplatform.unauthorized'')
      | Some token \<Rightarrow>
          if \<not> verifyRunnerToken (ee_sha256 env) jobId token db then Inl (Refused 401 ''devplatform.unauthorized'')
          else case getJob jobId db of
            None \<Rightarrow> Inl (Refused 401 ''devplatform.unauthorized'')
          | Some job \<Rightarrow> Inr job)"

definition statusGate :: "dev_job \<Rightarrow> dev_job_status list \<Rightarrow> runner_reply option" where
  "statusGate job allowed =
     (if isTerminalDevJobStatus (j_status job) then Some (Refused 410 ''devplatform.job_terminal'')
      else if j_status job \<notin> set allowed then Some (Refused 409 ''devplatform.invalid_state'')
      else None)"

text \<open>The error boundary of the router: an unexpected throw, and the two errors of a body parser.\<close>

definition internal_error :: runner_reply where "internal_error = Refused 500 ''devplatform.internal''"

definition with_body :: "'b parsed_body \<Rightarrow> ('b \<Rightarrow> runner_state \<times> runner_reply) \<Rightarrow> runner_state
    \<Rightarrow> runner_state \<times> runner_reply" where
  "with_body b handler st =
     (case b of Parsed v \<Rightarrow> handler v
      | Too_large \<Rightarrow> (st, Refused 413 ''devplatform.payload_too_large'')
      | Unparseable \<Rightarrow> (st, Refused 400 ''devplatform.invalid_body''))"

definition gated_by :: "dev_job \<Rightarrow> dev_job_status list \<Rightarrow> runner_state
    \<Rightarrow> (runner_state \<times> runner_reply) \<Rightarrow> runner_state \<times> runner_reply" where
  "gated_by job allowed st r = (case statusGate job allowed of Some refused \<Rightarrow> (st, refused) | None \<Rightarrow> r)"

section \<open>GET /spec\<close>

definition deriveCapabilities :: "runner_backend_kind \<Rightarrow> bool \<Rightarrow> bool \<Rightarrow> capabilities" where
  "deriveCapabilities backend runsTests dockerInJob =
     (if backend = Be_local
      then \<lparr>cap_installDeps = False, cap_runTests = False, cap_dockerInJob = None\<rparr>
      else \<lparr>cap_installDeps = True, cap_runTests = runsTests, cap_dockerInJob = Some dockerInJob\<rparr>)"

definition safeJsonArray :: "runner_env \<Rightarrow> string \<Rightarrow> json list option" where
  "safeJsonArray env s = (case rn_parse_json env s of Some (JArr vs) \<Rightarrow> Some vs | _ \<Rightarrow> None)"

definition safeJsonObject :: "runner_env \<Rightarrow> string \<Rightarrow> json option" where
  "safeJsonObject env s = (case rn_parse_json env s of Some (JObj kvs) \<Rightarrow> Some (JObj kvs) | _ \<Rightarrow> None)"

definition answers_of :: "runner_env \<Rightarrow> dev_job \<Rightarrow> dev_db \<Rightarrow> json list option" where
  "answers_of env job db =
     (case getLatestArtifact (j_id job) Art_answers db of None \<Rightarrow> None
      | Some a \<Rightarrow>
          map_option (filter (\<lambda>v. json_str ''questionId'' v \<noteq> None \<and> json_str ''text'' v \<noteq> None))
            (safeJsonArray env (a_content a)))"

definition prior_findings :: "runner_env \<Rightarrow> dev_job \<Rightarrow> dev_db \<Rightarrow> json list option" where
  "prior_findings env job db =
     (case getLatestArtifact (j_id job) Art_review_verdict db of None \<Rightarrow> None
      | Some a \<Rightarrow>
          (case Option.bind (safeJsonObject env (a_content a)) (json_field ''findings'') of
             Some (JArr vs) \<Rightarrow> Some (filter (\<lambda>v. json_str ''file'' v \<noteq> None \<and> json_str ''issue'' v \<noteq> None) vs)
           | _ \<Rightarrow> None))"

definition buildPhaseContext :: "runner_env \<Rightarrow> dev_job \<Rightarrow> dev_db \<Rightarrow> phase_context" where
  "buildPhaseContext env job db =
     (let ctx = \<lparr>pc_phase = j_phase job, pc_plan = None, pc_answers = None, pc_priorFindings = None,
                 pc_attempt = None\<rparr> in
      if j_phase job \<noteq> Ph_implement \<and> j_phase job \<noteq> Ph_review then ctx
      else
        (let ctx1 = ctx\<lparr>pc_plan := map_option a_content (getLatestArtifact (j_id job) Art_plan db),
                        pc_answers := answers_of env job db\<rparr> in
         if 0 < j_reviewAttempt job
         then ctx1\<lparr>pc_attempt := Some (j_reviewAttempt job), pc_priorFindings := prior_findings env job db\<rparr>
         else ctx1))"

definition spec_of :: "runner_env \<Rightarrow> dev_job \<Rightarrow> dev_repo \<Rightarrow> dev_db \<Rightarrow> dev_job_spec" where
  "spec_of env job repo db =
     \<lparr>sp_protocol = RUNNER_PROTOCOL_VERSION, sp_jobId = j_id job, sp_provision = j_provision job,
      sp_kind = j_kind job, sp_brief = j_brief job, sp_cloneUrl = rp_cloneUrl repo,
      sp_defaultBranch = rp_defaultBranch repo, sp_baseSha = defaulted (j_baseSha job) [],
      sp_branch = defaulted (j_branch job) [], sp_agentModel = rn_agentModel env,
      sp_maxTurns = rn_maxTurns env, sp_wallClockMs = defaulted (rn_wallClockMs env) DEFAULT_WALL_CLOCK_MS,
      sp_capabilities = deriveCapabilities (j_backend job) (rp_runsTests repo) (rp_dockerInJob repo),
      sp_pipelineMode = j_pipelineMode job,
      sp_phaseContext = (if j_pipelineMode job = Gated then Some (buildPhaseContext env job db) else None),
      sp_bootstrap = (if j_pipelineMode job = Gated
                      then (case rp_bootstrapCommand repo of Some c \<Rightarrow> if c = [] then None else Some c
                            | None \<Rightarrow> None)
                      else None)\<rparr>"

definition getSpec :: "runner_env \<Rightarrow> dev_job \<Rightarrow> runner_state \<Rightarrow> runner_state \<times> runner_reply" where
  "getSpec env job st = gated_by job [St_provisioning, St_running] st
     (let db = (if j_status job = St_provisioning then fst (markRunning (ee_now env) (j_id job) (rs_db st))
                else rs_db st);
          st1 = st\<lparr>rs_db := db\<rparr>
      in case getRepo (j_repoId job) db of
           None \<Rightarrow> (st1, Refused 500 ''devplatform.repo_unavailable'')
         | Some repo \<Rightarrow> (st1, Spec_reply (spec_of env job repo db)))"

section \<open>GET /scm-token\<close>

text \<open>One request without another in between; the interleaved requests are below.\<close>

definition getScmToken :: "runner_env \<Rightarrow> dev_job \<Rightarrow> runner_state \<Rightarrow> runner_state \<times> runner_reply" where
  "getScmToken env job st = gated_by job [St_provisioning, St_running] st
     (let key = (j_id job, j_provision job) in
      if key \<in> set (rs_issued st) then (st, Refused 409 ''devplatform.scm_token_already_issued'')
      else case rn_resolve env (j_id job) (j_repoId job) (rs_db st) of
        Scm_throws \<Rightarrow> (st, internal_error)
      | Scm_none \<Rightarrow> (st, Refused 500 ''devplatform.scm_token_unavailable'')
      | Scm_token t \<Rightarrow>
          if t = [] then (st, Refused 500 ''devplatform.scm_token_unavailable'')
          else (st\<lparr>rs_issued := key # rs_issued st\<rparr>,
                Scm_reply t (ee_clock env + defaulted (rn_scmTokenTtlMs env) DEFAULT_SCM_TOKEN_TTL_MS)))"

section \<open>Clone credentials under interleaving\<close>

text \<open>
  The handler of \<open>scm-token\<close> reserves its key, awaits the credential store and then answers or rolls the
  reservation back; other requests run during the await.  \<open>key r\<close> is the job and provision of request
  \<open>r\<close>.  A request is rolled back when the store throws, has no credential, or the reply cannot be sent.
\<close>

datatype scm_pc = Scm_start | Scm_awaiting | Scm_sent | Scm_over

record scm_run =
  sr_issued :: "(string \<times> nat) set"
  sr_pc :: "nat \<Rightarrow> scm_pc"

inductive scm_step :: "(nat \<Rightarrow> string \<times> nat) \<Rightarrow> scm_run \<Rightarrow> scm_run \<Rightarrow> bool" for key where
  reserve: "\<lbrakk>sr_pc w r = Scm_start; key r \<notin> sr_issued w\<rbrakk> \<Longrightarrow>
    scm_step key w (w\<lparr>sr_issued := insert (key r) (sr_issued w), sr_pc := (sr_pc w)(r := Scm_awaiting)\<rparr>)"
| refuse: "\<lbrakk>sr_pc w r = Scm_start; key r \<in> sr_issued w\<rbrakk> \<Longrightarrow>
    scm_step key w (w\<lparr>sr_pc := (sr_pc w)(r := Scm_over)\<rparr>)"
| send: "sr_pc w r = Scm_awaiting \<Longrightarrow>
    scm_step key w (w\<lparr>sr_pc := (sr_pc w)(r := Scm_sent)\<rparr>)"
| rollback: "sr_pc w r = Scm_awaiting \<Longrightarrow>
    scm_step key w (w\<lparr>sr_issued := sr_issued w - {key r}, sr_pc := (sr_pc w)(r := Scm_over)\<rparr>)"

inductive scm_reach :: "(nat \<Rightarrow> string \<times> nat) \<Rightarrow> scm_run \<Rightarrow> bool" for key where
  start: "scm_reach key \<lparr>sr_issued = {}, sr_pc = (\<lambda>_. Scm_start)\<rparr>"
| step: "\<lbrakk>scm_reach key w; scm_step key w w'\<rbrakk> \<Longrightarrow> scm_reach key w'"

section \<open>POST /events\<close>

text \<open>One event of the batch, as the store takes it: its sequence number, type, the text of its timestamp
  and its payload.\<close>

definition event_payload :: "json \<Rightarrow> json" where
  "event_payload e =
     (case json_field ''payload'' e of Some (JObj kvs) \<Rightarrow> JObj kvs | Some (JArr vs) \<Rightarrow> JArr vs | _ \<Rightarrow> JObj [])"

definition vet_event :: "runner_env \<Rightarrow> json \<Rightarrow> runner_reply + (rat \<times> string \<times> string option \<times> json)" where
  "vet_event env e =
     (case json_num ''seq'' e of
        None \<Rightarrow> Inl (Refused 400 ''devplatform.invalid_events'')
      | Some sq \<Rightarrow>
          if \<not> is_integer sq \<or> sq < 0 \<or> MAX_SEQ < sq then Inl (Refused 400 ''devplatform.invalid_events'')
          else case json_str ''type'' e of
            None \<Rightarrow> Inl (Refused 400 ''devplatform.invalid_events'')
          | Some ty \<Rightarrow>
              if \<not> isDevJobEventType ty then Inl (Refused 400 ''devplatform.invalid_events'')
              else if defaulted (rn_maxEventPayloadBytes env) DEFAULT_MAX_EVENT_PAYLOAD_BYTES
                      < int (length (json_stringify (rn_num_text env) (event_payload e)))
              then Inl (Refused 413 ''devplatform.event_payload_too_large'')
              else Inr (sq, ty, json_str ''ts'' e, event_payload e))"

fun vet_events :: "runner_env \<Rightarrow> json list \<Rightarrow> runner_reply + (rat \<times> string \<times> string option \<times> json) list" where
  "vet_events env [] = Inr []"
| "vet_events env (e # es) =
     (case vet_event env e of Inl r \<Rightarrow> Inl r
      | Inr v \<Rightarrow> (case vet_events env es of Inl r \<Rightarrow> Inl r | Inr vs \<Rightarrow> Inr (v # vs)))"

definition event_input :: "runner_env \<Rightarrow> rat \<times> string \<times> string option \<times> json \<Rightarrow> runner_event_input" where
  "event_input env v =
     (case v of (sq, ty, ts, payload) \<Rightarrow>
        \<lparr>in_seq = sq, in_type = ty, in_ts = Option.bind ts (rn_parse_ts env), in_payload = Some payload\<rparr>)"

text \<open>The database refuses the whole insert when the timestamp of an event it would store has no reading;
  an event the cap drops never reaches it.\<close>

definition unreadable_ts :: "runner_env \<Rightarrow> string \<Rightarrow> dev_db \<Rightarrow> rat \<times> string \<times> string option \<times> json \<Rightarrow> bool" where
  "unreadable_ts env jobId db v =
     (case v of (_, ty, ts, _) \<Rightarrow>
        (case ts of None \<Rightarrow> False | Some t \<Rightarrow> rn_parse_ts env t = None) \<and>
        \<not> (capped (rn_maxEvents env) jobId db \<and>
           (case dev_job_event_type_of ty of None \<Rightarrow> False | Some k \<Rightarrow> isLowValueEventType k)))"

definition store_events :: "runner_env \<Rightarrow> dev_job \<Rightarrow> (rat \<times> string \<times> string option \<times> json) list
    \<Rightarrow> runner_state \<Rightarrow> runner_state \<times> runner_reply" where
  "store_events env job vs st =
     (if list_ex (unreadable_ts env (j_id job) (rs_db st)) vs then (st, internal_error)
      else case appendEvents (rn_maxEvents env) (ee_now env) (j_id job) (j_provision job)
                  (map (event_input env) vs) (rs_db st) of
        (db, Inl _) \<Rightarrow> (st\<lparr>rs_db := db\<rparr>, internal_error)
      | (db, Inr (accepted, _)) \<Rightarrow> (st\<lparr>rs_db := db\<rparr>, Accepted_reply accepted))"

definition postEvents :: "runner_env \<Rightarrow> dev_job \<Rightarrow> json \<Rightarrow> runner_state \<Rightarrow> runner_state \<times> runner_reply" where
  "postEvents env job body st = gated_by job [St_provisioning, St_running, St_applying] st
     (case json_num ''provision'' body of
        None \<Rightarrow> (st, Refused 400 ''devplatform.invalid_events'')
      | Some prov \<Rightarrow>
          if \<not> is_integer prov then (st, Refused 400 ''devplatform.invalid_events'')
          else if prov \<noteq> of_nat (j_provision job) then (st, Refused 409 ''devplatform.provision_mismatch'')
          else case json_field ''events'' body of
            Some (JArr es) \<Rightarrow>
              if defaulted (rn_maxEventsPerBatch env) DEFAULT_MAX_EVENTS < length es
              then (st, Refused 413 ''devplatform.events_batch_too_large'')
              else (case vet_events env es of Inl r \<Rightarrow> (st, r) | Inr vs \<Rightarrow> store_events env job vs st)
          | _ \<Rightarrow> (st, Refused 400 ''devplatform.invalid_events''))"

section \<open>POST /heartbeat and /diff\<close>

definition postHeartbeat :: "runner_env \<Rightarrow> dev_job \<Rightarrow> runner_state \<Rightarrow> runner_state \<times> runner_reply" where
  "postHeartbeat env job st =
     (if j_status job = St_cancelled then (st, Heartbeat_reply True)
      else if isTerminalDevJobStatus (j_status job) then (st, Refused 410 ''devplatform.job_terminal'')
      else (st\<lparr>rs_db := fst (touchHeartbeat (ee_now env) (j_id job) (rs_db st))\<rparr>, Heartbeat_reply False))"

text \<open>The text parser leaves no string when the request has no body.\<close>

definition postDiff :: "runner_env \<Rightarrow> dev_job \<Rightarrow> string option \<Rightarrow> runner_state \<Rightarrow> runner_state \<times> runner_reply" where
  "postDiff env job body st = gated_by job [St_provisioning, St_running] st
     (case body of
        None \<Rightarrow> (st, Refused 400 ''devplatform.empty_diff'')
      | Some d \<Rightarrow>
          if d = [] then (st, Refused 400 ''devplatform.empty_diff'')
          else if defaulted (rn_maxDiffBytes env) DEFAULT_MAX_DIFF_BYTES < int (length d)
          then (st, Refused 413 ''devplatform.diff_too_large'')
          else case addArtifact (ee_ceiling env) (ee_now env) (ee_artifactId env) (ee_uuid env) (j_id job)
                      ''diff'' d (JObj [(''bytes'', JNum (of_nat (length d))),
                                       (''provision'', JNum (of_nat (j_provision job)))]) (rs_db st) of
            (db, Inl _) \<Rightarrow> (st\<lparr>rs_db := db\<rparr>, internal_error)
          | (db, Inr aid) \<Rightarrow> (st\<lparr>rs_db := db\<rparr>, Artifact_reply aid))"

section \<open>POST /result\<close>

definition outcome_of :: "string \<Rightarrow> dev_job_outcome option" where
  "outcome_of s =
     (if s = ''diff_ready'' then Some Out_diff_ready
      else if s = ''no_changes'' then Some Out_no_changes
      else if s = ''failed'' then Some Out_failed else None)"

definition outcome_name :: "dev_job_outcome \<Rightarrow> string" where
  "outcome_name x = (case x of Out_diff_ready \<Rightarrow> ''diff_ready'' | Out_no_changes \<Rightarrow> ''no_changes''
     | Out_failed \<Rightarrow> ''failed'')"

text \<open>The usage as reported: any numbers.  None for an absent or empty record.\<close>

record reported_usage =
  ru_tokensIn :: "rat option"
  ru_tokensOut :: "rat option"
  ru_costUsd :: "rat option"
  ru_estimated :: "bool option"

definition sanitizeUsage :: "json option \<Rightarrow> reported_usage option" where
  "sanitizeUsage raw =
     (case raw of None \<Rightarrow> None
      | Some v \<Rightarrow>
          (let u = \<lparr>ru_tokensIn = json_num ''tokensIn'' v, ru_tokensOut = json_num ''tokensOut'' v,
                    ru_costUsd = json_num ''costUsd'' v,
                    ru_estimated = (case json_field ''estimated'' v of Some (JBool b) \<Rightarrow> Some b | _ \<Rightarrow> None)\<rparr>
           in if ru_tokensIn u = None \<and> ru_tokensOut u = None \<and> ru_costUsd u = None \<and> ru_estimated u = None
              then None else Some u))"

definition fits_integer :: "rat option \<Rightarrow> bool" where
  "fits_integer x = (case x of None \<Rightarrow> True | Some r \<Rightarrow> is_integer r)"

definition storable_usage :: "reported_usage option \<Rightarrow> bool" where
  "storable_usage u =
     (case u of None \<Rightarrow> True | Some r \<Rightarrow> fits_integer (ru_tokensIn r) \<and> fits_integer (ru_tokensOut r))"

definition stored_usage :: "reported_usage \<Rightarrow> dev_job_usage" where
  "stored_usage r = \<lparr>u_tokensIn = map_option floor (ru_tokensIn r), u_tokensOut = map_option floor (ru_tokensOut r),
     u_costUsd = ru_costUsd r, u_estimated = ru_estimated r\<rparr>"

text \<open>The validated result, or the refusal.\<close>

definition vet_result :: "dev_job \<Rightarrow> json \<Rightarrow> dev_db \<Rightarrow> runner_reply + (dev_job_result \<times> bool)" where
  "vet_result job body db =
     (case Option.bind (json_str ''outcome'' body) outcome_of of
        None \<Rightarrow> Inl (Refused 400 ''devplatform.invalid_result'')
      | Some x \<Rightarrow>
          (let aid = json_str ''diffArtifactId'' body; u = sanitizeUsage (json_field ''usage'' body) in
           if (case aid of None \<Rightarrow> False | Some a \<Rightarrow> \<not> artifactBelongsToJob (j_id job) a db)
           then Inl (Refused 400 ''devplatform.unknown_artifact'')
           else if x = Out_diff_ready \<and> (aid = None \<or> aid = Some [])
           then Inl (Refused 400 ''devplatform.invalid_result'')
           else Inr (\<lparr>r_outcome = x, r_diffArtifactId = aid, r_summary = json_str ''summary'' body,
                      r_error = json_str ''error'' body, r_usage = map_option stored_usage u\<rparr>,
                     storable_usage u)))"

definition finish_result :: "runner_env \<Rightarrow> dev_job \<Rightarrow> dev_job_result \<Rightarrow> runner_state \<Rightarrow> runner_state \<times> runner_reply" where
  "finish_result env job res st =
     (if r_outcome res = Out_diff_ready then (st, Ok_reply)
      else case finalizeDevJob (ee_finalize env) (j_id job)
                  (if r_outcome res = Out_failed then St_failed else St_done)
                  (no_context\<lparr>fc_reason := Some (outcome_name (r_outcome res)), fc_result := Some res,
                             fc_error := r_error res\<rparr>) (rs_db st) of
        (db, effs, Inl _) \<Rightarrow> (st\<lparr>rs_db := db, rs_effects := rs_effects st @ effs\<rparr>, internal_error)
      | (db, effs, Inr _) \<Rightarrow> (st\<lparr>rs_db := db, rs_effects := rs_effects st @ effs\<rparr>, Ok_reply))"

definition postResult :: "runner_env \<Rightarrow> dev_job \<Rightarrow> json \<Rightarrow> runner_state \<Rightarrow> runner_state \<times> runner_reply" where
  "postResult env job body st = gated_by job [St_provisioning, St_running] st
     (case vet_result job body (rs_db st) of
        Inl r \<Rightarrow> (st, r)
      | Inr (res, storable) \<Rightarrow>
          if \<not> storable then (st, internal_error)
          else finish_result env job res
                 (st\<lparr>rs_db := recordResult (ee_now env) (j_id job) res (rs_db st)\<rparr>))"

section \<open>POST /phase-result\<close>

definition artifact_of :: "json \<Rightarrow> engine_artifact option" where
  "artifact_of body =
     (case json_field ''artifact'' body of None \<Rightarrow> None
      | Some a \<Rightarrow>
          (case (json_str ''kind'' a, json_str ''content'' a) of
             (Some k, Some c) \<Rightarrow>
               Some \<lparr>ea_kind = k, ea_content = c,
                     ea_meta = (case json_field ''meta'' a of Some (JObj kvs) \<Rightarrow> Some (JObj kvs)
                                | Some (JArr vs) \<Rightarrow> Some (JArr vs) | _ \<Rightarrow> None)\<rparr>
           | _ \<Rightarrow> None))"

definition question_of :: "json \<Rightarrow> gate_question option" where
  "question_of q =
     (case (json_str ''id'' q, json_str ''text'' q) of
        (Some i, Some t) \<Rightarrow> Some \<lparr>q_id = i, q_text = t\<rparr> | _ \<Rightarrow> None)"

definition phase_input_of :: "dev_job_phase \<Rightarrow> bool \<Rightarrow> json \<Rightarrow> phase_result_input" where
  "phase_input_of ph ok body =
     \<lparr>pi_phase = ph, pi_ok = ok, pi_artifact = artifact_of body,
      pi_questions = (case json_field ''questions'' body of
          Some (JArr qs) \<Rightarrow> Some (List.map_filter question_of qs) | _ \<Rightarrow> None),
      pi_verdict = json_field ''verdict'' body, pi_headSha = json_str ''headSha'' body,
      pi_error = json_str ''error'' body\<rparr>"

definition postPhaseResult :: "runner_env \<Rightarrow> dev_job \<Rightarrow> json \<Rightarrow> runner_state \<Rightarrow> runner_state \<times> runner_reply" where
  "postPhaseResult env job body st = gated_by job [St_provisioning, St_running] st
     (case Option.bind (json_str ''phase'' body) dev_job_phase_of of
        None \<Rightarrow> (st, Refused 400 ''devplatform.invalid_phase'')
      | Some ph \<Rightarrow>
          (case json_field ''ok'' body of
             Some (JBool ok) \<Rightarrow>
               (case handlePhaseResult (engine_env.truncate env) job (phase_input_of ph ok body) (rs_db st) of
                  (db, effs, r) \<Rightarrow>
                    (st\<lparr>rs_db := db, rs_effects := rs_effects st @ effs\<rparr>,
                     case r of Inr d \<Rightarrow> Directive_reply d
                     | Inl (StalePhaseError _ _ _) \<Rightarrow> Refused 409 ''devplatform.stale_phase''
                     | Inl _ \<Rightarrow> internal_error))
           | _ \<Rightarrow> (st, Refused 400 ''devplatform.invalid_result'')))"

section \<open>The router\<close>

definition handle :: "runner_env \<Rightarrow> dev_job \<Rightarrow> runner_request \<Rightarrow> runner_state \<Rightarrow> runner_state \<times> runner_reply" where
  "handle env job req st =
     (case req of
        Get_spec \<Rightarrow> getSpec env job st
      | Get_scm_token \<Rightarrow> getScmToken env job st
      | Post_events b \<Rightarrow> with_body b (\<lambda>v. postEvents env job v st) st
      | Post_heartbeat b \<Rightarrow> with_body b (\<lambda>_. postHeartbeat env job st) st
      | Post_diff b \<Rightarrow> with_body b (\<lambda>v. postDiff env job v st) st
      | Post_result b \<Rightarrow> with_body b (\<lambda>v. postResult env job v st) st
      | Post_phase_result b \<Rightarrow> with_body b (\<lambda>v. postPhaseResult env job v st) st)"

text \<open>A request served with nothing in between its two moments.\<close>

definition serve :: "runner_env \<Rightarrow> string option \<Rightarrow> string \<Rightarrow> runner_request \<Rightarrow> runner_state
    \<Rightarrow> runner_state \<times> runner_reply" where
  "serve env header jobId req st =
     (case authMw env header jobId (rs_db st) of
        Inl r \<Rightarrow> (st, r) | Inr job \<Rightarrow> handle env job req st)"

section \<open>GET /internal/job-policy\<close>

definition timingSafeStrEqual :: "runner_env \<Rightarrow> string \<Rightarrow> string \<Rightarrow> bool" where
  "timingSafeStrEqual env a b \<longleftrightarrow> ee_sha256 env a = ee_sha256 env b"

definition daemonAuthMw :: "runner_env \<Rightarrow> string option \<Rightarrow> runner_reply option" where
  "daemonAuthMw env header =
     (case rn_daemonToken env of
        None \<Rightarrow> Some (Refused 503 ''devplatform.daemon_not_configured'')
      | Some configured \<Rightarrow>
          if configured = [] then Some (Refused 503 ''devplatform.daemon_not_configured'')
          else case bearerToken header of
            None \<Rightarrow> Some (Refused 401 ''devplatform.unauthorized'')
          | Some token \<Rightarrow>
              if list_ex (timingSafeStrEqual env token)
                   (filter (\<lambda>t. t \<noteq> []) (map trim (split_char CHR '','' configured)))
              then None else Some (Refused 401 ''devplatform.unauthorized''))"

definition issue_policy :: "runner_env \<Rightarrow> dev_job \<Rightarrow> derived_job_policy \<Rightarrow> dev_db \<Rightarrow> dev_db \<times> runner_reply" where
  "issue_policy env job p db =
     (reissueRunnerToken (ee_now env) (ee_sha256 env (rn_minted env)) (j_id job) db,
      Policy_reply \<lparr>jp_jobId = j_id job, jp_image = dj_image p,
        jp_env = filter (\<lambda>kv. fst kv \<noteq> ''OMADIA_JOB_TOKEN'') (dj_env p) @ [(''OMADIA_JOB_TOKEN'', rn_minted env)],
        jp_egressAllowlist = dj_egressAllowlist p, jp_dockerInJob = dj_dockerInJob p\<rparr>)"

definition getJobPolicy :: "runner_env \<Rightarrow> string option \<Rightarrow> string \<Rightarrow> dev_db \<Rightarrow> dev_db \<times> runner_reply" where
  "getJobPolicy env header jobId db =
     (case daemonAuthMw env header of Some r \<Rightarrow> (db, r)
      | None \<Rightarrow>
          (case rn_jobPolicyConfig env of
             None \<Rightarrow> (db, Refused 503 ''devplatform.daemon_not_configured'')
           | Some config \<Rightarrow>
               (case getJob jobId db of
                  None \<Rightarrow> (db, Refused 404 ''devplatform.job_not_found'')
                | Some job \<Rightarrow>
                    (case getRepo (j_repoId job) db of
                       None \<Rightarrow> (db, Refused 500 ''devplatform.repo_unavailable'')
                     | Some repo \<Rightarrow>
                         (case deriveJobPolicy (rn_parse_url env) repo job config of
                            Inl _ \<Rightarrow> (db, Refused 500 ''devplatform.policy_underivable'')
                          | Inr p \<Rightarrow> issue_policy env job p db)))))"



end
