(* ===== verification/LlmProxy.thy ===== *)
theory LlmProxy
  imports LlmBudget RunnerApi
begin

text \<open>
  The LLM reverse proxy (\<open>llmProxy.ts\<close>): it authenticates a job token, vets and canonicalises the request,
  attaches the provider key, forwards, and meters and redacts what comes back.  The upstream is a parameter:
  what the \<open>k\<close>-th fetch answers, its body the chunks the stream yields and whether it breaks off.
  \<open>JSON.parse\<close>, number printing, the hash, the vault and the model policy are parameters.
\<close>

section \<open>Redaction\<close>

text \<open>\<open>split(secret).join('[REDACTED]')\<close>: the occurrences met from left to right.\<close>

definition REDACTED :: string where "REDACTED = ''[REDACTED]''"

function redactBytes :: "string \<Rightarrow> string \<Rightarrow> string" where
  "redactBytes secret [] = []"
| "redactBytes secret (c # cs) =
     (if secret \<noteq> [] \<and> prefix secret (c # cs)
      then REDACTED @ redactBytes secret (drop (length secret - 1) cs)
      else c # redactBytes secret cs)"
  by pat_completeness auto
termination by (relation "measure (\<lambda>(s, cs). length cs)") auto

text \<open>\<open>StreamRedactor\<close>: the carry is its state; \<open>push\<close> returns the new carry and the bytes to write.\<close>

definition redactor_push :: "string \<Rightarrow> string \<Rightarrow> string \<Rightarrow> string \<times> string" where
  "redactor_push secret carry chunk =
     (if secret = [] then (carry, chunk)
      else let redacted = redactBytes secret (carry @ chunk); keep = length secret - 1 in
           if length redacted \<le> keep then (redacted, [])
           else (drop (length redacted - keep) redacted, take (length redacted - keep) redacted))"

fun redact_chunks :: "string \<Rightarrow> string \<Rightarrow> string list \<Rightarrow> string list" where
  "redact_chunks secret carry [] = (if carry = [] then [] else [carry])"
| "redact_chunks secret carry (ch # chs) =
     (case redactor_push secret carry ch of
        (carry', safe) \<Rightarrow> (if safe = [] then [] else [safe]) @ redact_chunks secret carry' chs)"

section \<open>Usage in a response\<close>

record usage_acc = usage_tokens +
  ua_seen :: bool

definition newUsage :: usage_acc where
  "newUsage = \<lparr>ut_input = 0, ut_output = 0, ut_cacheRead = 0, ut_cacheCreation = 0, ua_seen = False\<rparr>"

definition applyUsage :: "json option \<Rightarrow> usage_acc \<Rightarrow> usage_acc" where
  "applyUsage u acc =
     (case u of None \<Rightarrow> acc
      | Some r \<Rightarrow>
          (let a1 = (case json_num ''input_tokens'' r of None \<Rightarrow> acc | Some n \<Rightarrow> acc\<lparr>ut_input := n, ua_seen := True\<rparr>);
               a2 = (case json_num ''output_tokens'' r of None \<Rightarrow> a1 | Some n \<Rightarrow> a1\<lparr>ut_output := n, ua_seen := True\<rparr>);
               a3 = (case json_num ''cache_read_input_tokens'' r of None \<Rightarrow> a2
                     | Some n \<Rightarrow> a2\<lparr>ut_cacheRead := n, ua_seen := True\<rparr>)
           in case json_num ''cache_creation_input_tokens'' r of None \<Rightarrow> a3
              | Some n \<Rightarrow> a3\<lparr>ut_cacheCreation := n, ua_seen := True\<rparr>))"

definition ingestSseData :: "json \<Rightarrow> usage_acc \<Rightarrow> usage_acc" where
  "ingestSseData d acc =
     (if json_str ''type'' d = Some ''message_start''
      then applyUsage (Option.bind (json_field ''message'' d) (json_field ''usage'')) acc
      else if json_str ''type'' d = Some ''message_delta'' then applyUsage (json_field ''usage'' d) acc
      else acc)"

definition sse_data_lines :: "string \<Rightarrow> string list" where
  "sse_data_lines block =
     map (\<lambda>l. trim (drop 5 l)) (filter (prefix ''data:'') (split_char CHR 0x0A block))"

definition ingest_block :: "(string \<Rightarrow> json option) \<Rightarrow> string \<Rightarrow> usage_acc \<Rightarrow> usage_acc" where
  "ingest_block parse block acc =
     (case sse_data_lines block of [] \<Rightarrow> acc
      | ls \<Rightarrow> (case parse (join_with newline ls) of None \<Rightarrow> acc | Some d \<Rightarrow> ingestSseData d acc))"

lemma index_of_bound: "index_of s p = Some i \<Longrightarrow> i + length p \<le> length s"
  by (induction s p arbitrary: i rule: index_of.induct) (auto split: if_splits dest: prefix_length_le)

function drainSse :: "(string \<Rightarrow> json option) \<Rightarrow> usage_acc \<Rightarrow> string \<Rightarrow> usage_acc \<times> string" where
  "drainSse parse acc buffer =
     (case index_of buffer (newline @ newline) of
        None \<Rightarrow> (acc, buffer)
      | Some i \<Rightarrow> drainSse parse (ingest_block parse (take i buffer) acc) (drop (i + 2) buffer))"
  by pat_completeness auto
termination by (relation "measure (\<lambda>(p, a, b). length b)") (auto dest: index_of_bound)

declare drainSse.simps [simp del]

section \<open>The request\<close>

record llm_model_policy =
  lp_provider :: string
  lp_upstreamBaseUrl :: string
  lp_allowedModels :: "string list"

datatype header_value = One_value string | Many_values "string list"

record llm_request =
  lr_authorization :: "string option"
  lr_headers :: "(string \<times> header_value) list"
  lr_query :: string
  lr_body :: string

record llm_env =
  lx_sha256 :: "string \<Rightarrow> string"
  lx_parse :: "string \<Rightarrow> json option"
  lx_num :: "rat \<Rightarrow> string"
  lx_policy :: "string \<Rightarrow> llm_model_policy option"
  lx_key :: "string \<Rightarrow> string option"
  lx_budget :: "accounting option"

record llm_call =
  lc_url :: string
  lc_headers :: "(string \<times> string) list"
  lc_body :: string
  lc_key :: string
  lc_job :: dev_job
  lc_model :: string

definition FORWARDED_REQUEST_HEADERS :: "string list" where
  "FORWARDED_REQUEST_HEADERS = [''accept'', ''anthropic-version'', ''anthropic-beta'', ''content-type'']"

definition STRIPPED_RESPONSE_HEADERS :: "string list" where
  "STRIPPED_RESPONSE_HEADERS =
     [''connection'', ''transfer-encoding'', ''content-length'', ''content-encoding'', ''keep-alive'',
      ''authorization'', ''proxy-authorization'', ''x-api-key'', ''set-cookie'', ''www-authenticate'',
      ''proxy-authenticate'']"

definition header_values :: "header_value \<Rightarrow> string list" where
  "header_values v = (case v of One_value s \<Rightarrow> [s] | Many_values ss \<Rightarrow> ss)"

definition header_text :: "header_value \<Rightarrow> string" where
  "header_text v = (case v of One_value s \<Rightarrow> s | Many_values ss \<Rightarrow> join_with '', '' ss)"

text \<open>Assignment to a property of an object: in place when the key is there, else last.\<close>

definition set_key :: "string \<Rightarrow> 'v \<Rightarrow> (string \<times> 'v) list \<Rightarrow> (string \<times> 'v) list" where
  "set_key k v kvs =
     (if k \<in> fst ` set kvs then map (\<lambda>e. if fst e = k then (k, v) else e) kvs else kvs @ [(k, v)])"

definition connection_named :: "(string \<times> header_value) list \<Rightarrow> string list" where
  "connection_named hs =
     (case map_of hs ''connection'' of None \<Rightarrow> []
      | Some v \<Rightarrow> filter (\<lambda>n. n \<noteq> [])
          (map (\<lambda>t. toLowerCase (trim t)) (concat (map (split_char CHR '','') (header_values v)))))"

definition buildForwardHeaders :: "(string \<times> header_value) list \<Rightarrow> string \<Rightarrow> (string \<times> string) list" where
  "buildForwardHeaders hs providerKey =
     (let kept = map (\<lambda>(k, v). (k, header_text v))
            (filter (\<lambda>(k, v). toLowerCase k \<notin> set (connection_named hs) \<and>
                              toLowerCase k \<in> set FORWARDED_REQUEST_HEADERS) hs);
          keyed = set_key ''x-api-key'' providerKey kept;
          versioned = (if list_ex (\<lambda>e. toLowerCase (fst e) = ''anthropic-version'') keyed then keyed
                       else set_key ''anthropic-version'' ''2023-06-01'' keyed)
      in set_key ''content-type'' ''application/json'' versioned)"

definition strip_slashes :: "string \<Rightarrow> string" where
  "strip_slashes s = rev (dropWhile (\<lambda>c. c = CHR ''/'') (rev s))"

definition clamp_max_tokens :: "accounting option \<Rightarrow> (string \<times> json) list \<Rightarrow> (string \<times> json) list" where
  "clamp_max_tokens budget kvs =
     (case Option.bind budget ac_maxOutputTokens of
        None \<Rightarrow> kvs
      | Some cap_tokens \<Rightarrow>
          set_key ''max_tokens''
            (case json_num ''max_tokens'' (JObj kvs) of
               Some q \<Rightarrow> (if 0 < q then JNum (min q cap_tokens) else JNum cap_tokens)
             | None \<Rightarrow> JNum cap_tokens) kvs)"

text \<open>\<open>handleMessages\<close> up to the forwarding: a refusal, or the call to make.\<close>

definition vet_messages :: "llm_env \<Rightarrow> llm_request \<Rightarrow> dev_db \<Rightarrow> (nat \<times> string) + llm_call" where
  "vet_messages env rq db =
     (case bearerToken (lr_authorization rq) of
        None \<Rightarrow> Inl (401, ''devplatform.unauthorized'')
      | Some token \<Rightarrow>
     (case resolveJobByToken (lx_sha256 env) token db of
        None \<Rightarrow> Inl (401, ''devplatform.unauthorized'')
      | Some job \<Rightarrow>
          if j_status job = St_budget_exceeded then Inl (402, ''dev.budget_exceeded'')
          else if isTerminalDevJobStatus (j_status job) then Inl (410, ''devplatform.job_terminal'')
          else case (if lr_body rq = [] then Some (JObj []) else lx_parse env (lr_body rq)) of
            Some (JObj kvs) \<Rightarrow>
              (case json_str ''model'' (JObj kvs) of
                 None \<Rightarrow> Inl (400, ''devplatform.invalid_body'')
               | Some model \<Rightarrow>
                   if model = [] then Inl (400, ''devplatform.invalid_body'')
                   else case lx_policy env (j_agentKind job) of
                     None \<Rightarrow> Inl (500, ''devplatform.no_provider'')
                   | Some policy \<Rightarrow>
                       if model \<notin> set (lp_allowedModels policy) then Inl (403, ''dev.model_not_allowed'')
                       else case lx_key env (lp_provider policy) of
                         None \<Rightarrow> Inl (500, ''devplatform.provider_key_unavailable'')
                       | Some key \<Rightarrow>
                           if key = [] then Inl (500, ''devplatform.provider_key_unavailable'')
                           else Inr
                             \<lparr>lc_url = strip_slashes (lp_upstreamBaseUrl policy) @ ''/v1/messages'' @ lr_query rq,
                              lc_headers = buildForwardHeaders (lr_headers rq) key,
                              lc_body = json_stringify (lx_num env) (JObj (clamp_max_tokens (lx_budget env) kvs)),
                              lc_key = key, lc_job = job, lc_model = model\<rparr>)
          | _ \<Rightarrow> Inl (400, ''devplatform.invalid_body'')))"

section \<open>The upstream\<close>

record up_response =
  ur_status :: nat
  ur_headers :: "(string \<times> string) list"
  ur_body :: "(string list \<times> bool) option"

datatype up_answer = Unreachable | Answered up_response

text \<open>One retry, on a connect error or a 5xx of the first attempt; and how many fetches were made.\<close>

definition fetch_upstream :: "(nat \<Rightarrow> up_answer) \<Rightarrow> up_response option \<times> nat" where
  "fetch_upstream answer =
     (let second = (case answer 1 of Unreachable \<Rightarrow> None | Answered r \<Rightarrow> Some r) in
      case answer 0 of
        Unreachable \<Rightarrow> (second, 2)
      | Answered r \<Rightarrow> (if 500 \<le> ur_status r then (second, 2) else (Some r, 1)))"

definition is_sse :: "up_response \<Rightarrow> bool" where
  "is_sse r = str_includes (toLowerCase (case map_of (ur_headers r) ''content-type'' of None \<Rightarrow> [] | Some t \<Rightarrow> t))
                ''text/event-stream''"

definition copied_headers :: "up_response \<Rightarrow> (string \<times> string) list" where
  "copied_headers r = filter (\<lambda>(k, v). toLowerCase k \<notin> set STRIPPED_RESPONSE_HEADERS) (ur_headers r)"

datatype llm_reply =
    Llm_fail nat string
  | Llm_response nat "(string \<times> string) list" "string list"
  | Llm_thrown

section \<open>Delivery\<close>

text \<open>The chunks an enforced response reads: those before the byte ceiling, and whether it was cut.\<close>

fun read_bounded :: "nat \<Rightarrow> nat \<Rightarrow> string list \<Rightarrow> string list \<times> bool" where
  "read_bounded limit n [] = ([], False)"
| "read_bounded limit n (ch # chs) =
     (if limit < n + length ch then ([], True)
      else case read_bounded limit (n + length ch) chs of (rest, over) \<Rightarrow> (ch # rest, over))"

definition MAX_ENFORCED_BUFFER_BYTES :: nat where "MAX_ENFORCED_BUFFER_BYTES = 32 * 1024 * 1024"

text \<open>Metering over the raw chunks: event by event for a stream, the whole text otherwise.\<close>

definition sse_usage :: "(string \<Rightarrow> json option) \<Rightarrow> string list \<Rightarrow> usage_acc" where
  "sse_usage parse chs = fst (foldl (\<lambda>(acc, buf) ch. drainSse parse acc (buf @ ch)) (newUsage, []) chs)"

definition body_usage :: "(string \<Rightarrow> json option) \<Rightarrow> bool \<Rightarrow> string list \<Rightarrow> usage_acc" where
  "body_usage parse sse chs =
     (if sse then sse_usage parse chs
      else if concat chs = [] then newUsage
      else case parse (concat chs) of None \<Rightarrow> newUsage
           | Some JNull \<Rightarrow> newUsage
           | Some v \<Rightarrow> applyUsage (json_field ''usage'' v) newUsage)"

definition proxyMeteredEnforced :: "llm_env \<Rightarrow> accounting \<Rightarrow> bool \<Rightarrow> nat \<Rightarrow> llm_call \<Rightarrow> up_response \<Rightarrow> string list
    \<Rightarrow> meter_state \<Rightarrow> meter_state \<times> llm_reply" where
  "proxyMeteredEnforced env ac fails limit call r chunks st =
     (let (taken, over) = read_bounded limit 0 chunks;
          acc = body_usage (lx_parse env) (is_sse r) taken;
          (st', exceeded) = (if ua_seen acc then meter ac fails (j_id (lc_job call)) (lc_model call)
                               (usage_tokens.truncate acc) st else (st, False))
      in if exceeded then (st', Llm_fail 402 ''dev.budget_exceeded'')
         else (st', Llm_response (ur_status r) (copied_headers r) (redact_chunks (lc_key call) [] taken)))"

text \<open>\<open>meterUsage\<close> of a proxy wired without a budget hook.\<close>

definition meterUsage :: "int \<Rightarrow> bool \<Rightarrow> llm_call \<Rightarrow> usage_acc \<Rightarrow> meter_state \<Rightarrow> meter_state" where
  "meterUsage now fails call acc st =
     (if \<not> ua_seen acc \<or> fails then st
      else let (tin, tout) = splitTokens (usage_tokens.truncate acc) in
           st\<lparr>ms_db := addJobUsage now (j_id (lc_job call)) (js_trunc tin) (js_trunc tout) (ms_db st),
              ms_ledger := ms_ledger st @ [\<lparr>lg_source = ''dev-job'', lg_model = lc_model call,
                 lg_usage = usage_tokens.truncate acc, lg_sessionId = ''devjob:'' @ j_id (lc_job call)\<rparr>]\<rparr>)"

definition proxyUpstream :: "llm_env \<Rightarrow> int \<Rightarrow> bool \<Rightarrow> nat \<Rightarrow> (nat \<Rightarrow> up_answer) \<Rightarrow> llm_call \<Rightarrow> meter_state
    \<Rightarrow> meter_state \<times> llm_reply" where
  "proxyUpstream env now fails limit answer call st =
     (case fst (fetch_upstream answer) of
        None \<Rightarrow> (st, Llm_fail 502 ''devplatform.upstream_unreachable'')
      | Some r \<Rightarrow>
          (case ur_body r of
             None \<Rightarrow> (st, Llm_response (ur_status r) (copied_headers r) [])
           | Some (chunks, broken) \<Rightarrow>
               if \<not> is_sse r \<and> 400 \<le> ur_status r
               then (st, if broken then Llm_thrown
                         else Llm_response (ur_status r) (copied_headers r) [redactBytes (lc_key call) (concat chunks)])
               else (case lx_budget env of
                       Some ac \<Rightarrow> proxyMeteredEnforced env ac fails limit call r chunks st
                     | None \<Rightarrow>
                         (meterUsage now fails call (body_usage (lx_parse env) (is_sse r) chunks) st,
                          Llm_response (ur_status r) (copied_headers r) (redact_chunks (lc_key call) [] chunks)))))"

text \<open>\<open>POST /v1/messages\<close>: the reply, and the calls sent upstream.\<close>

definition handleMessages :: "llm_env \<Rightarrow> int \<Rightarrow> bool \<Rightarrow> (nat \<Rightarrow> up_answer) \<Rightarrow> llm_request \<Rightarrow> meter_state
    \<Rightarrow> meter_state \<times> llm_reply \<times> llm_call list" where
  "handleMessages env now fails answer rq st =
     (case vet_messages env rq (ms_db st) of
        Inl (status, code) \<Rightarrow> (st, Llm_fail status code, [])
      | Inr call \<Rightarrow>
          (case proxyUpstream env now fails MAX_ENFORCED_BUFFER_BYTES answer call st of
             (st', reply) \<Rightarrow> (st', reply, replicate (snd (fetch_upstream answer)) call)))"

end
