(* ===== verification/DaemonPolicy.thy ===== *)
theory DaemonPolicy
  imports LlmProxy
begin

text \<open>
  The policy client of the runner daemon (\<open>sidecars/dev-runner-daemon\<close>): \<open>netClassify.mjs\<close>, the daemon's own
  copy of the egress classifier, and \<open>policyClient.mjs\<close>, which fetches the policy of a job from the plugin,
  treats it as untrusted input and clamps it before a container is created.  The HTTP exchange is an answer
  of the peer (what it sent, in chunks, or that it broke off); \<open>JSON.parse\<close> and Node's URL parser and printer
  are parameters.  Message texts are left out.
\<close>

section \<open>The daemon's copy of the address predicates\<close>

definition lower_hex :: "char \<Rightarrow> bool" where
  "lower_hex c \<longleftrightarrow> is_digit c \<or> (CHR ''a'' \<le> c \<and> c \<le> CHR ''f'')"

definition hex_val :: "char \<Rightarrow> nat" where
  "hex_val c = (if is_digit c then of_char c - 48 else of_char c - 87)"

definition nat_of_hex :: "string \<Rightarrow> nat" where
  "nat_of_hex s = foldl (\<lambda>n c. 16 * n + hex_val c) 0 s"

definition hex_group :: "string \<Rightarrow> bool" where
  "hex_group w \<longleftrightarrow> w \<noteq> [] \<and> length w \<le> 4 \<and> list_all lower_hex w"

definition quad_of_groups :: "nat \<Rightarrow> nat \<Rightarrow> string" where
  "quad_of_groups hi lo =
     join_with ''.'' (map show_nat [hi div 256, hi mod 256, lo div 256, lo mod 256])"

definition toDottedQuad :: "string \<Rightarrow> string" where
  "toDottedQuad host =
     (if prefix ''::ffff:'' host
      then (case split_char CHR '':'' (drop 7 host) of
              [hi, lo] \<Rightarrow> (if hex_group hi \<and> hex_group lo
                          then quad_of_groups (nat_of_hex hi) (nat_of_hex lo) else drop 7 host)
            | _ \<Rightarrow> drop 7 host)
      else host)"

text \<open>The regular expressions of \<open>isInternalIp\<close> that test how a dotted text begins.\<close>

definition INTERNAL_V4_PREFIXES :: "string list" where
  "INTERNAL_V4_PREFIXES = [''127.'', ''169.254.'', ''10.'', ''192.168.'']"

text \<open>\<open>/^172\.(1[6-9]|2[0-9]|3[01])\./\<close>\<close>

definition private_172 :: "string \<Rightarrow> bool" where
  "private_172 v \<longleftrightarrow> prefix ''172.'' v \<and>
     (case drop 4 v of
        a # b # c # _ \<Rightarrow> c = CHR ''.'' \<and>
          (a = CHR ''1'' \<and> b \<in> set ''6789'' \<or> a = CHR ''2'' \<and> is_digit b \<or> a = CHR ''3'' \<and> b \<in> set ''01'')
      | _ \<Rightarrow> False)"

text \<open>\<open>/^100\.(6[4-9]|[7-9][0-9]|1[01][0-9]|12[0-7])\./\<close>\<close>

definition shared_100 :: "string \<Rightarrow> bool" where
  "shared_100 v \<longleftrightarrow> prefix ''100.'' v \<and>
     (case drop 4 v of
        a # b # c # ds \<Rightarrow>
          c = CHR ''.'' \<and> (a = CHR ''6'' \<and> b \<in> set ''456789'' \<or> a \<in> set ''789'' \<and> is_digit b) \<or>
          (case ds of
             d # _ \<Rightarrow> d = CHR ''.'' \<and> a = CHR ''1'' \<and>
               (b \<in> set ''01'' \<and> is_digit c \<or> b = CHR ''2'' \<and> c \<in> set ''01234567'')
           | [] \<Rightarrow> False)
      | _ \<Rightarrow> False)"

definition internal_v4_like :: "string \<Rightarrow> bool" where
  "internal_v4_like v \<longleftrightarrow> list_ex (\<lambda>p. prefix p v) INTERNAL_V4_PREFIXES \<or> private_172 v \<or> shared_100 v"

definition unique_local_like :: "string \<Rightarrow> bool" where
  "unique_local_like v \<longleftrightarrow>
     (case v of a # b # c # _ \<Rightarrow> a = CHR ''f'' \<and> (b = CHR ''c'' \<or> b = CHR ''d'') \<and> lower_hex c | _ \<Rightarrow> False)"

definition link_local_like :: "string \<Rightarrow> bool" where
  "link_local_like v \<longleftrightarrow>
     (case v of a # b # c # d # e # _ \<Rightarrow>
        a = CHR ''f'' \<and> b = CHR ''e'' \<and> c \<in> set ''89ab'' \<and> lower_hex d \<and> e = CHR '':'' | _ \<Rightarrow> False)"

definition daemon_isInternalIp :: "string \<Rightarrow> bool" where
  "daemon_isInternalIp ip =
     (let v = toLowerCase ip; v4 = toDottedQuad v in
      internal_v4_like v4 \<or> v4 = ''::1'' \<or> v4 = ''0.0.0.0'' \<or>
      link_local_like v \<or> unique_local_like v)"

definition daemon_ip_literal :: "string \<Rightarrow> bool" where
  "daemon_ip_literal h \<longleftrightarrow>
     (let ws = split_char CHR ''.'' h in
      length ws = 4 \<and> list_all (\<lambda>w. w \<noteq> [] \<and> list_all is_digit w) ws) \<or>
     (h \<noteq> [] \<and> List.hd h = CHR ''['') \<or> daemon_isInternalIp h"

definition daemon_classify_canonical :: "(string \<Rightarrow> url option) \<Rightarrow> string \<Rightarrow> classified" where
  "daemon_classify_canonical parse_url lower =
     (case parse_url (''http://'' @ lower @ ''/'') of
        None \<Rightarrow> Egress_reject ''not a valid hostname''
      | Some u \<Rightarrow>
          if url_hostname u \<noteq> lower
          then Egress_reject (''not a bare hostname (URL parser rewrote it to '' @ url_hostname u @ '')'')
          else if daemon_ip_literal (url_hostname u) then Egress_reject ''IP literal''
          else if \<not> list_all HOSTNAME_LABEL (split_char CHR ''.'' lower)
          then Egress_reject ''not a valid hostname''
          else Egress_host lower)"

definition daemon_classifyEgressEntry :: "(string \<Rightarrow> url option) \<Rightarrow> string \<Rightarrow> classified" where
  "daemon_classifyEgressEntry parse_url raw =
     (let t = trim raw in
      if t = [] then Egress_reject ''empty''
      else if list_ex control_or_space t then Egress_reject ''whitespace/control char''
      else if str_includes t ''://'' \<or> scheme_like t then Egress_reject ''has a scheme''
      else if list_ex (\<lambda>c. c \<in> set ''/?#@'') t then Egress_reject ''has a path/userinfo''
      else if CHR ''*'' \<in> set t then Egress_reject ''wildcard not supported''
      else if CHR '':'' \<in> set t then Egress_reject ''has a port or is an IPv6 literal''
      else if CHR 0x00 \<in> set t then Egress_reject ''embedded NUL''
      else daemon_classify_canonical parse_url (normalizeHostname t))"

section \<open>Image references\<close>

record parsed_image_ref =
  pi_repository :: string
  pi_tag :: "string option"
  pi_digest :: "string option"

text \<open>\<open>lastIndexOf\<close>, minus one when the character does not occur.\<close>

definition last_index_of :: "char \<Rightarrow> string \<Rightarrow> int" where
  "last_index_of c s = int (length s) - 1 - int (length (takeWhile (\<lambda>d. d \<noteq> c) (rev s)))"

definition parseImageReference :: "string \<Rightarrow> parsed_image_ref" where
  "parseImageReference ref =
     (let rest = takeWhile (\<lambda>c. c \<noteq> CHR ''@'') ref;
          digest = (if CHR ''@'' \<in> set ref then Some (tl (dropWhile (\<lambda>c. c \<noteq> CHR ''@'') ref)) else None);
          slash = last_index_of CHR ''/'' rest;
          colon = last_index_of CHR '':'' rest
      in if slash < colon
         then \<lparr>pi_repository = take (nat colon) rest, pi_tag = Some (drop (nat colon + 1) rest), pi_digest = digest\<rparr>
         else \<lparr>pi_repository = rest, pi_tag = None, pi_digest = digest\<rparr>)"

definition DIGEST_RE :: "string \<Rightarrow> bool" where
  "DIGEST_RE d \<longleftrightarrow>
     (let alg = takeWhile (\<lambda>c. c \<noteq> CHR '':'') d;
          hex = tl (dropWhile (\<lambda>c. c \<noteq> CHR '':'') d)
      in CHR '':'' \<in> set d \<and>
         list_all (\<lambda>w. w \<noteq> [] \<and> list_all lower_alnum w)
           (split_char CHR ''.'' (map (\<lambda>c. if c \<in> set ''+_-'' then CHR ''.'' else c) alg)) \<and>
         32 \<le> length hex \<and> list_all lower_hex hex)"

text \<open>A configuration error stops the daemon at boot.\<close>

definition parseAllowedImages :: "string option \<Rightarrow> string list option" where
  "parseAllowedImages raw =
     (case raw of None \<Rightarrow> None
      | Some r \<Rightarrow>
          if trim r = [] then None
          else (let images = filter (\<lambda>s. s \<noteq> []) (map trim (split_char CHR '','' r)) in
                if images = [] then None
                else if list_ex (\<lambda>i. pi_tag (parseImageReference i) \<noteq> None \<or>
                                    pi_digest (parseImageReference i) \<noteq> None) images then None
                else Some images))"

definition parseRequireDigest :: "string option \<Rightarrow> bool" where
  "parseRequireDigest raw =
     (case raw of None \<Rightarrow> True
      | Some r \<Rightarrow> trim r = [] \<or> toLowerCase (trim r) \<notin> {''false'', ''0'', ''no'', ''off''})"

section \<open>The clamp\<close>

record lookup_error =
  le_status :: nat
  le_code :: string

definition ALLOWED_ENV_KEYS :: "string list" where
  "ALLOWED_ENV_KEYS = [''OMADIA_JOB_TOKEN'', ''OMADIA_PIPELINE_MODE'', ''OMADIA_LLM_ENV_ALLOWED'',
     ''OMADIA_ANTHROPIC_BASE_URL'', ''OMADIA_ANTHROPIC_AUTH_TOKEN'', ''ANTHROPIC_BASE_URL'',
     ''ANTHROPIC_AUTH_TOKEN'', ''CLAUDE_CODE_DISABLE_NONESSENTIAL_TRAFFIC'', ''DISABLE_AUTOUPDATER'',
     ''DISABLE_TELEMETRY'', ''LANG'', ''LC_ALL'', ''TERM'']"

definition PROXY_ENV_KEYS :: "string list" where
  "PROXY_ENV_KEYS = [''HTTP_PROXY'', ''HTTPS_PROXY'', ''http_proxy'', ''https_proxy'',
     ''npm_config_proxy'', ''npm_config_https_proxy'']"

definition NO_PROXY_ENV_KEYS :: "string list" where
  "NO_PROXY_ENV_KEYS = [''NO_PROXY'', ''no_proxy'', ''npm_config_noproxy'']"

definition DAEMON_OWNED_ENV_KEYS :: "string list" where
  "DAEMON_OWNED_ENV_KEYS = [''OMADIA_JOB_BASE_URL'', ''OMADIA_JOB_ID'', ''OMADIA_WORKSPACE'', ''OMADIA_CLI_BIN''] @
     PROXY_ENV_KEYS @ NO_PROXY_ENV_KEYS"

definition MAX_EGRESS_ENTRIES :: nat where "MAX_EGRESS_ENTRIES = 256"

definition assertPolicyImage :: "string \<Rightarrow> string list \<Rightarrow> bool \<Rightarrow> nat \<Rightarrow> lookup_error option" where
  "assertPolicyImage img allowedImages requireDigest status =
     (let r = parseImageReference img in
      if pi_repository r \<notin> set allowedImages
      then Some \<lparr>le_status = status, le_code = ''daemon.image_not_allowed''\<rparr>
      else if \<not> requireDigest then None
      else case pi_digest r of
        None \<Rightarrow> Some \<lparr>le_status = status, le_code = ''daemon.image_requires_digest''\<rparr>
      | Some d \<Rightarrow> if DIGEST_RE d then None
                  else Some \<lparr>le_status = status, le_code = ''daemon.image_bad_digest''\<rparr>)"

fun assertPolicyEnv :: "string list \<Rightarrow> nat \<Rightarrow> lookup_error option" where
  "assertPolicyEnv [] status = None"
| "assertPolicyEnv (key # keys) status =
     (if key \<in> set DAEMON_OWNED_ENV_KEYS
      then Some \<lparr>le_status = status, le_code = ''daemon.env_key_reserved''\<rparr>
      else if key \<notin> set ALLOWED_ENV_KEYS
      then Some \<lparr>le_status = status, le_code = ''daemon.env_key_not_allowed''\<rparr>
      else assertPolicyEnv keys status)"

fun canonical_hosts :: "(string \<Rightarrow> url option) \<Rightarrow> string list \<Rightarrow> string list option" where
  "canonical_hosts parse_url [] = Some []"
| "canonical_hosts parse_url (raw # raws) =
     (case daemon_classifyEgressEntry parse_url raw of
        Egress_reject _ \<Rightarrow> None
      | Egress_host h \<Rightarrow> map_option ((#) h) (canonical_hosts parse_url raws))"

definition assertPolicyEgress :: "(string \<Rightarrow> url option) \<Rightarrow> string list \<Rightarrow> nat \<Rightarrow> lookup_error + string list" where
  "assertPolicyEgress parse_url egressAllowlist status =
     (if MAX_EGRESS_ENTRIES < length egressAllowlist
      then Inl \<lparr>le_status = status, le_code = ''daemon.egress_too_many''\<rparr>
      else case canonical_hosts parse_url egressAllowlist of
        None \<Rightarrow> Inl \<lparr>le_status = status, le_code = ''daemon.egress_not_allowed''\<rparr>
      | Some hosts \<Rightarrow> Inr hosts)"

section \<open>The environment of the container\<close>

record owned_values =
  ow_jobBaseUrl :: string
  ow_workspace :: string
  ow_cliBin :: string
  ow_egressProxyUrl :: "string option"
  ow_proxyToken :: "string option"
  ow_noProxy :: "string option"

text \<open>\<open>with_userinfo url user password\<close> stands for Node's URL printer.\<close>

definition proxy_value :: "(string \<Rightarrow> string \<Rightarrow> string \<Rightarrow> string) \<Rightarrow> string \<Rightarrow> owned_values \<Rightarrow> string option" where
  "proxy_value with_userinfo jobId owned =
     (case ow_egressProxyUrl owned of None \<Rightarrow> None
      | Some u \<Rightarrow> if u = [] then None
          else Some (case ow_proxyToken owned of None \<Rightarrow> u
                     | Some t \<Rightarrow> if t = [] then u else with_userinfo u jobId t))"

definition set_all :: "string list \<Rightarrow> string \<Rightarrow> (string \<times> string) list \<Rightarrow> (string \<times> string) list" where
  "set_all ks v env = fold (\<lambda>k. set_key k v) ks env"

definition injectDaemonOwnedEnv :: "(string \<Rightarrow> string \<Rightarrow> string \<Rightarrow> string) \<Rightarrow> (string \<times> string) list \<Rightarrow> string
    \<Rightarrow> owned_values \<Rightarrow> (string \<times> string) list" where
  "injectDaemonOwnedEnv with_userinfo policyEnv jobId owned =
     (let env = set_key ''OMADIA_CLI_BIN'' (ow_cliBin owned)
                (set_key ''OMADIA_WORKSPACE'' (ow_workspace owned)
                (set_key ''OMADIA_JOB_ID'' jobId
                (set_key ''OMADIA_JOB_BASE_URL'' (ow_jobBaseUrl owned) policyEnv)));
          env1 = (case proxy_value with_userinfo jobId owned of None \<Rightarrow> env
                  | Some p \<Rightarrow> set_key ''NODE_USE_ENV_PROXY'' ''1'' (set_all PROXY_ENV_KEYS p env))
      in case ow_noProxy owned of None \<Rightarrow> env1
         | Some np \<Rightarrow> if np = [] then env1 else set_all NO_PROXY_ENV_KEYS np env1)"

definition parseEgressProxyUrl :: "(string \<Rightarrow> url option) \<Rightarrow> string option \<Rightarrow> string option option" where
  "parseEgressProxyUrl parse_url raw =
     (case raw of None \<Rightarrow> Some None
      | Some r \<Rightarrow>
          if trim r = [] then Some None
          else case parse_url (trim r) of
            None \<Rightarrow> None
          | Some u \<Rightarrow>
              if url_protocol u \<noteq> ''http:'' \<and> url_protocol u \<noteq> ''https:'' then None
              else if url_username u \<noteq> [] \<or> url_password u \<noteq> [] then None
              else Some (Some (trim r)))"

section \<open>The exchange with the plugin\<close>

text \<open>What the peer does with the request for a policy: the fetch fails (no connection, a redirect, the timer),
  or it answers with a status and a body in chunks that may break off.\<close>

datatype peer_answer = No_answer | Answer nat "string list" bool

fun readCappedBody :: "nat \<Rightarrow> nat \<Rightarrow> string \<Rightarrow> string list \<Rightarrow> string option" where
  "readCappedBody maxBytes got acc [] = Some acc"
| "readCappedBody maxBytes got acc (chunk # chunks) =
     (if maxBytes < got + length chunk then None
      else readCappedBody maxBytes (got + length chunk) (acc @ chunk) chunks)"

text \<open>The fields of a parsed object, each name once with its last value.\<close>

definition object_entries :: "(string \<times> json) list \<Rightarrow> (string \<times> json) list" where
  "object_entries kvs = fold (\<lambda>(k, v). set_key k v) kvs []"

definition string_of :: "json \<Rightarrow> string option" where
  "string_of v = (case v of JStr s \<Rightarrow> Some s | _ \<Rightarrow> None)"

fun all_some :: "'a option list \<Rightarrow> 'a list option" where
  "all_some [] = Some []"
| "all_some (x # xs) = (case x of None \<Rightarrow> None | Some a \<Rightarrow> map_option ((#) a) (all_some xs))"

definition schema_env :: "json \<Rightarrow> (string \<times> string) list option" where
  "schema_env v =
     (case v of
        JObj kvs \<Rightarrow> all_some (map (\<lambda>(k, w). map_option (Pair k) (string_of w)) (object_entries kvs))
      | _ \<Rightarrow> None)"

definition schema_list :: "json \<Rightarrow> string list option" where
  "schema_list v = (case v of JArr vs \<Rightarrow> all_some (map string_of vs) | _ \<Rightarrow> None)"

definition schema_dind :: "json option \<Rightarrow> bool option option" where
  "schema_dind v = (case v of None \<Rightarrow> Some None | Some (JBool b) \<Rightarrow> Some (Some b) | Some _ \<Rightarrow> None)"

record policy_response =
  pr_jobId :: string
  pr_image :: string
  pr_env :: "(string \<times> string) list"
  pr_egress :: "string list"
  pr_dockerInJob :: "bool option"

definition JobPolicyResponseSchema :: "json \<Rightarrow> policy_response option" where
  "JobPolicyResponseSchema v =
     (case (Option.bind (json_field ''jobId'' v) string_of, Option.bind (json_field ''image'' v) string_of,
            Option.bind (json_field ''env'' v) schema_env, Option.bind (json_field ''egressAllowlist'' v) schema_list,
            schema_dind (json_field ''dockerInJob'' v)) of
        (Some j, Some i, Some e, Some hs, Some d) \<Rightarrow>
          (if UUID_RE j \<and> i \<noteq> []
           then Some \<lparr>pr_jobId = j, pr_image = i, pr_env = e, pr_egress = hs, pr_dockerInJob = d\<rparr>
           else None)
      | _ \<Rightarrow> None)"

record policy_client_deps =
  pd_middlewareUrl :: string
  pd_daemonToken :: string
  pd_allowedImages :: "string list"
  pd_requireDigest :: "bool option"
  pd_jobBaseUrl :: "string option"
  pd_workspacePath :: "string option"
  pd_cliBin :: "string option"
  pd_egressProxyUrl :: "string option"
  pd_noProxy :: "string option"
  pd_maxBodyBytes :: "nat option"

record policy_client =
  pc_base :: string
  pc_daemonToken :: string
  pc_allowedImages :: "string list"
  pc_requireDigest :: bool
  pc_jobBaseUrl :: string
  pc_workspace :: string
  pc_cliBin :: string
  pc_egressProxyUrl :: "string option"
  pc_noProxy :: "string option"
  pc_maxBodyBytes :: nat

definition orelse :: "'a option \<Rightarrow> 'a \<Rightarrow> 'a" where
  "orelse x d = (case x of None \<Rightarrow> d | Some a \<Rightarrow> a)"

definition createPolicyClient :: "(string \<Rightarrow> url option) \<Rightarrow> policy_client_deps \<Rightarrow> policy_client option" where
  "createPolicyClient parse_url deps =
     (if pd_allowedImages deps = [] then None
      else case parseEgressProxyUrl parse_url (pd_egressProxyUrl deps) of
        None \<Rightarrow> None
      | Some proxy \<Rightarrow>
          (let base = strip_slashes (pd_middlewareUrl deps) in
           Some \<lparr>pc_base = base, pc_daemonToken = pd_daemonToken deps,
             pc_allowedImages = pd_allowedImages deps, pc_requireDigest = orelse (pd_requireDigest deps) True,
             pc_jobBaseUrl = strip_slashes (orelse (pd_jobBaseUrl deps) base),
             pc_workspace = orelse (pd_workspacePath deps) ''/workspace'',
             pc_cliBin = orelse (pd_cliBin deps) ''claude'',
             pc_egressProxyUrl = proxy,
             pc_noProxy = (case pd_noProxy deps of None \<Rightarrow> None
                           | Some np \<Rightarrow> if trim np = [] then None else Some (trim np)),
             pc_maxBodyBytes = orelse (pd_maxBodyBytes deps) (256 * 1024)\<rparr>))"

definition owned_by :: "policy_client \<Rightarrow> string option \<Rightarrow> owned_values" where
  "owned_by pc proxyToken =
     \<lparr>ow_jobBaseUrl = pc_jobBaseUrl pc, ow_workspace = pc_workspace pc, ow_cliBin = pc_cliBin pc,
      ow_egressProxyUrl = pc_egressProxyUrl pc, ow_proxyToken = proxyToken, ow_noProxy = pc_noProxy pc\<rparr>"

record url_lib =
  ul_parse :: "string \<Rightarrow> url option"
  ul_with_userinfo :: "string \<Rightarrow> string \<Rightarrow> string \<Rightarrow> string"

text \<open>What is done with a response that satisfies the schema.\<close>

definition clamp_policy :: "url_lib \<Rightarrow> policy_client \<Rightarrow> string \<Rightarrow> string option \<Rightarrow> nat \<Rightarrow> policy_response
    \<Rightarrow> lookup_error + policy_response" where
  "clamp_policy ul pc jobId proxyToken status r =
     (if pr_jobId r \<noteq> jobId then Inl \<lparr>le_status = status, le_code = ''daemon.policy_job_mismatch''\<rparr>
      else case assertPolicyImage (pr_image r) (pc_allowedImages pc) (pc_requireDigest pc) status of
        Some e \<Rightarrow> Inl e
      | None \<Rightarrow>
      (case assertPolicyEnv (map fst (pr_env r)) status of
        Some e \<Rightarrow> Inl e
      | None \<Rightarrow>
      (case assertPolicyEgress (ul_parse ul) (pr_egress r) status of
        Inl e \<Rightarrow> Inl e
      | Inr hosts \<Rightarrow>
          Inr (r\<lparr>pr_egress := hosts,
                 pr_env := injectDaemonOwnedEnv (ul_with_userinfo ul) (pr_env r) jobId (owned_by pc proxyToken)\<rparr>))))"

definition policy_url :: "policy_client \<Rightarrow> string \<Rightarrow> string" where
  "policy_url pc jobId = pc_base pc @ ''/api/v1/dev-runner/internal/job-policy/'' @ jobId"

definition fetchJobPolicy :: "url_lib \<Rightarrow> (string \<Rightarrow> json option) \<Rightarrow> (string \<Rightarrow> string \<Rightarrow> peer_answer)
    \<Rightarrow> policy_client \<Rightarrow> string \<Rightarrow> string option \<Rightarrow> lookup_error + policy_response" where
  "fetchJobPolicy ul parse peer pc jobId proxyToken =
     (case peer (policy_url pc jobId) (''Bearer '' @ pc_daemonToken pc) of
        No_answer \<Rightarrow> Inl \<lparr>le_status = 0, le_code = ''daemon.policy_unreachable''\<rparr>
      | Answer status chunks broke \<Rightarrow>
      (case readCappedBody (pc_maxBodyBytes pc) 0 [] chunks of
         None \<Rightarrow> Inl \<lparr>le_status = status, le_code = ''daemon.policy_too_large''\<rparr>
       | Some raw \<Rightarrow>
           if broke then Inl \<lparr>le_status = status, le_code = ''daemon.policy_unreachable''\<rparr>
           else if \<not> (200 \<le> status \<and> status < 300)
           then Inl \<lparr>le_status = status,
                     le_code = orelse (Option.bind (parse (trim raw)) (json_str ''code'')) ''daemon.policy_lookup_failed''\<rparr>
           else case Option.bind (parse (trim raw)) JobPolicyResponseSchema of
             None \<Rightarrow> Inl \<lparr>le_status = status, le_code = ''daemon.policy_malformed''\<rparr>
           | Some r \<Rightarrow> clamp_policy ul pc jobId proxyToken status r))"

section \<open>The plugin's answer on the wire\<close>

definition policy_json :: "job_policy_reply \<Rightarrow> json" where
  "policy_json r =
     JObj [(''jobId'', JStr (jp_jobId r)), (''image'', JStr (jp_image r)),
       (''env'', JObj (map (\<lambda>(k, v). (k, JStr v)) (jp_env r))),
       (''egressAllowlist'', JArr (map JStr (jp_egressAllowlist r))),
       (''dockerInJob'', JBool (jp_dockerInJob r))]"

end
