(* ===== verification/ContainerClamp.thy ===== *)
theory ContainerClamp
  imports DaemonPolicy
begin

text \<open>
  The hardening clamp of the runner daemon (\<open>sidecars/dev-runner-daemon/src/clamp.mjs\<close>): the resource limits read
  from the daemon's environment and the create options of the job container and of its optional docker-in-docker
  sidecar, exactly the objects dockerode is given.  Floating point numbers are exact rationals; a text that
  \<open>Number\<close> reads as NaN or infinite is None.
\<close>

section \<open>Numbers and dates of the language\<close>

text \<open>A rational rounds to a finite double, or to a double above zero.\<close>

definition js_finite :: "rat \<Rightarrow> bool" where
  "js_finite q \<longleftrightarrow> \<bar>q\<bar> < 2 ^ 1024 - 2 ^ 970"

definition js_positive :: "rat \<Rightarrow> bool" where
  "js_positive q \<longleftrightarrow> 1 < q * 2 ^ 1075"

definition js_round :: "rat \<Rightarrow> int" where
  "js_round q = \<lfloor>q + 1 / 2\<rfloor>"

definition scale10 :: "rat \<Rightarrow> int \<Rightarrow> rat" where
  "scale10 q e = (if 0 \<le> e then q * 10 ^ nat e else q / 10 ^ nat (- e))"

definition js_exponent :: "string \<Rightarrow> int option" where
  "js_exponent s =
     (case s of [] \<Rightarrow> Some 0
      | c # r \<Rightarrow>
          if c \<noteq> CHR ''e'' \<and> c \<noteq> CHR ''E'' then None
          else (let ds = (if r \<noteq> [] \<and> hd r \<in> set ''+-'' then tl r else r);
                    v = int (nat_of_digits ds)
                in if ds = [] \<or> \<not> list_all is_digit ds then None
                   else Some (if hd r = CHR ''-'' then - v else v)))"

definition js_decimal :: "string \<Rightarrow> rat option" where
  "js_decimal s =
     (let body = (if s \<noteq> [] \<and> hd s \<in> set ''+-'' then tl s else s);
          ip = takeWhile is_digit body;
          r = dropWhile is_digit body;
          fp = (if r \<noteq> [] \<and> hd r = CHR ''.'' then takeWhile is_digit (tl r) else []);
          ex = (if r \<noteq> [] \<and> hd r = CHR ''.'' then dropWhile is_digit (tl r) else r);
          m = of_nat (nat_of_digits (ip @ fp))
      in if ip = [] \<and> fp = [] then None
         else case js_exponent ex of
           None \<Rightarrow> None
         | Some e \<Rightarrow> Some (scale10 (if hd s = CHR ''-'' then - m else m) (e - int (length fp))))"

definition js_digit :: "char \<Rightarrow> nat" where
  "js_digit c = (let l = lower_char c in if is_digit l then digit_val l else of_char l - 87)"

definition js_radix :: "nat \<Rightarrow> string \<Rightarrow> rat option" where
  "js_radix b ds =
     (if ds = [] \<or> \<not> list_all (\<lambda>c. is_hex c \<and> js_digit c < b) ds then None
      else Some (of_nat (foldl (\<lambda>n c. b * n + js_digit c) 0 ds)))"

definition js_Number :: "string \<Rightarrow> rat option" where
  "js_Number raw =
     (let s = trim raw; p = toLowerCase (take 2 s);
          q = (if s = [] then Some 0
               else if p = ''0x'' then js_radix 16 (drop 2 s)
               else if p = ''0o'' then js_radix 8 (drop 2 s)
               else if p = ''0b'' then js_radix 2 (drop 2 s)
               else js_decimal s)
      in case q of None \<Rightarrow> None | Some v \<Rightarrow> if js_finite v then Some v else None)"

definition pad :: "nat \<Rightarrow> int \<Rightarrow> string" where
  "pad n i = (let s = show_nat (nat i) in replicate (n - length s) CHR ''0'' @ s)"

text \<open>\<open>Date.prototype.toISOString\<close> of a time in milliseconds.\<close>

definition toISOString :: "int \<Rightarrow> string" where
  "toISOString ms =
     (let t = ms mod 86400000; z = ms div 86400000 + 719468;
          era = z div 146097; doe = z mod 146097;
          yoe = (doe - doe div 1460 + doe div 36524 - doe div 146096) div 365;
          doy = doe - (365 * yoe + yoe div 4 - yoe div 100);
          mp = (5 * doy + 2) div 153;
          d = doy - (153 * mp + 2) div 5 + 1;
          m = (if mp < 10 then mp + 3 else mp - 9);
          y = yoe + era * 400 + (if m \<le> 2 then 1 else 0)
      in (if y < 0 then ''-'' @ pad 6 (- y) else if 9999 < y then ''+'' @ pad 6 y else pad 4 y)
         @ ''-'' @ pad 2 m @ ''-'' @ pad 2 d @ ''T'' @ pad 2 (t div 3600000) @ '':'' @ pad 2 (t div 60000 mod 60)
         @ '':'' @ pad 2 (t div 1000 mod 60) @ ''.'' @ pad 3 (t mod 1000) @ ''Z'')"

section \<open>The resource limits\<close>

record clamp_limits =
  cl_memoryBytes :: int
  cl_nanoCpus :: int
  cl_pidsLimit :: int
  cl_tmpfsMb :: int
  cl_nofile :: int

definition DEFAULT_MEM_BYTES :: int where "DEFAULT_MEM_BYTES = 4 * 1024 ^ 3"
definition DEFAULT_CPUS :: rat where "DEFAULT_CPUS = 2"
definition DEFAULT_PIDS :: rat where "DEFAULT_PIDS = 512"
definition DEFAULT_TMPFS_MB :: rat where "DEFAULT_TMPFS_MB = 512"
definition DEFAULT_NOFILE :: rat where "DEFAULT_NOFILE = 4096"

definition size_unit :: "string \<Rightarrow> rat option" where
  "size_unit u =
     (if u \<in> {'''', ''b''} then Some 1 else if u \<in> {''k'', ''kb''} then Some 1024
      else if u \<in> {''m'', ''mb''} then Some (1024 ^ 2) else if u \<in> {''g'', ''gb''} then Some (1024 ^ 3)
      else if u \<in> {''t'', ''tb''} then Some (1024 ^ 4) else None)"

definition parseSizeBytes :: "string option \<Rightarrow> int option" where
  "parseSizeBytes raw =
     (case raw of None \<Rightarrow> None
      | Some s \<Rightarrow>
          (let t = trim s;
               ip = takeWhile is_digit t;
               r = dropWhile is_digit t;
               fp = (if r \<noteq> [] \<and> hd r = CHR ''.'' then takeWhile is_digit (tl r) else []);
               rest = (if fp = [] then r else dropWhile is_digit (tl r));
               n = of_nat (nat_of_digits (ip @ fp)) / 10 ^ length fp
           in if ip = [] then None
              else case size_unit (toLowerCase (dropWhile is_space rest)) of
                None \<Rightarrow> None
              | Some factor \<Rightarrow> if js_finite n \<and> js_positive n then Some (js_round (n * factor)) else None))"

definition parsePositiveNumber :: "string option \<Rightarrow> rat option" where
  "parsePositiveNumber raw =
     (case raw of None \<Rightarrow> None
      | Some s \<Rightarrow>
          if trim s = [] then None
          else case js_Number (trim s) of None \<Rightarrow> None | Some n \<Rightarrow> if js_positive n then Some n else None)"

definition resolveClampLimits :: "(string \<Rightarrow> string option) \<Rightarrow> clamp_limits" where
  "resolveClampLimits env =
     (let cpus = orelse (parsePositiveNumber (env ''DEV_JOB_CPUS'')) DEFAULT_CPUS in
      \<lparr>cl_memoryBytes = orelse (parseSizeBytes (env ''DEV_JOB_MEM'')) DEFAULT_MEM_BYTES,
       cl_nanoCpus = js_round (cpus * 1000000000),
       cl_pidsLimit = js_round (orelse (parsePositiveNumber (env ''DEV_JOB_PIDS'')) DEFAULT_PIDS),
       cl_tmpfsMb = js_round (orelse (parsePositiveNumber (env ''DEV_JOB_TMPFS_MB'')) DEFAULT_TMPFS_MB),
       cl_nofile = js_round (orelse (parsePositiveNumber (env ''DEV_JOB_NOFILE'')) DEFAULT_NOFILE)\<rparr>)"

section \<open>Names of a job's resources\<close>

definition jobNetworkName :: "string \<Rightarrow> string" where
  "jobNetworkName jobId = ''omadia-job-'' @ jobId"

definition jobVolumeName :: "string \<Rightarrow> string" where
  "jobVolumeName jobId = ''omadia-job-'' @ jobId"

definition dindContainerName :: "string \<Rightarrow> string" where
  "dindContainerName jobId = ''omadia-job-'' @ jobId @ ''-dind''"

definition dindVolumeName :: "string \<Rightarrow> string" where
  "dindVolumeName jobId = ''omadia-job-'' @ jobId @ ''-dind''"

definition dindCertsVolumeName :: "string \<Rightarrow> string" where
  "dindCertsVolumeName jobId = ''omadia-job-'' @ jobId @ ''-certs''"

definition DEV_ROLE_LABEL :: string where "DEV_ROLE_LABEL = ''ai.omadia.dev.role''"
definition ROLE_JOB :: string where "ROLE_JOB = ''job''"
definition ROLE_DIND :: string where "ROLE_DIND = ''dind''"
definition DEV_DOCKER_IN_JOB_LABEL :: string where "DEV_DOCKER_IN_JOB_LABEL = ''ai.omadia.dev.dockerInJob''"
definition DIND_TLS_CERTDIR :: string where "DIND_TLS_CERTDIR = ''/certs''"
definition DIND_CLIENT_CERTDIR :: string where "DIND_CLIENT_CERTDIR = ''/certs/client''"
definition DIND_NETWORK_ALIAS :: string where "DIND_NETWORK_ALIAS = ''dind''"
definition DIND_PORT :: nat where "DIND_PORT = 2376"
definition DIND_DATA_ROOT :: string where "DIND_DATA_ROOT = ''/home/rootless/.local/share/docker''"
definition DEFAULT_DIND_DISK_GB :: int where "DEFAULT_DIND_DISK_GB = 10"
definition DEFAULT_DIND_IMAGE :: string where "DEFAULT_DIND_IMAGE = ''docker:dind-rootless''"

section \<open>The create options\<close>

text \<open>Dockerode's objects, with the fields the clamp sets and no others.\<close>

record host_config =
  hc_NetworkMode :: string
  hc_Binds :: "string list"
  hc_ReadonlyRootfs :: "bool option"
  hc_Tmpfs :: "(string \<times> string) list option"
  hc_CapDrop :: "string list option"
  hc_SecurityOpt :: "string list"
  hc_Privileged :: bool
  hc_Memory :: int
  hc_MemorySwap :: int
  hc_NanoCpus :: int
  hc_PidsLimit :: int
  hc_Ulimits :: "(string \<times> int \<times> int) list option"
  hc_RestartPolicy :: string
  hc_ExtraHosts :: "string list option"

record create_options =
  co_name :: "string option"
  co_Image :: string
  co_User :: "string option"
  co_Env :: "string list"
  co_WorkingDir :: "string option"
  co_Labels :: "(string \<times> string) list"
  co_NetworkingConfig :: "(string \<times> string list) list option"
  co_HostConfig :: host_config

record clamp_args =
  ca_jobId :: string
  ca_policy :: policy_response
  ca_leaseExpiresAt :: string
  ca_networkName :: string
  ca_volumeName :: string
  ca_createdBy :: string
  ca_limits :: clamp_limits
  ca_requireDigest :: "bool option"
  ca_dockerInJob :: "bool option"
  ca_extraHosts :: "string list option"

text \<open>The environment of the container: the keys in code unit order.\<close>

definition render_env :: "(string \<times> string) list \<Rightarrow> string list" where
  "render_env env = map (\<lambda>k. k @ ''='' @ the (map_of env k)) (sort (remdups (map fst env)))"

definition effective_env :: "bool \<Rightarrow> (string \<times> string) list \<Rightarrow> (string \<times> string) list" where
  "effective_env dockerInJob env =
     (if dockerInJob
      then set_key ''DOCKER_CERT_PATH'' DIND_CLIENT_CERTDIR
             (set_key ''DOCKER_TLS_VERIFY'' ''1''
               (set_key ''DOCKER_HOST'' (''tcp://'' @ DIND_NETWORK_ALIAS @ '':'' @ show_nat DIND_PORT) env))
      else env)"

definition clamp_image :: "bool \<Rightarrow> string \<Rightarrow> string option" where
  "clamp_image requireDigest ref =
     (case pi_digest (parseImageReference ref) of
        None \<Rightarrow> if requireDigest then Some ''image_not_digest_pinned'' else None
      | Some d \<Rightarrow> if DIGEST_RE d then None else Some ''image_bad_digest'')"

definition buildContainerCreateOptions :: "clamp_args \<Rightarrow> string + create_options" where
  "buildContainerCreateOptions args =
     (let jobId = ca_jobId args; limits = ca_limits args;
          dockerInJob = (ca_dockerInJob args = Some True);
          requireDigest = (ca_requireDigest args \<noteq> Some False)
      in case clamp_image requireDigest (pr_image (ca_policy args)) of
        Some reason \<Rightarrow> Inl reason
      | None \<Rightarrow>
          Inr \<lparr>co_name = None,
            co_Image = pr_image (ca_policy args),
            co_User = Some ''1000:1000'',
            co_Env = render_env (effective_env dockerInJob (pr_env (ca_policy args))),
            co_WorkingDir = Some ''/workspace'',
            co_Labels = [(''ai.omadia.dev.jobId'', jobId), (''ai.omadia.dev.createdBy'', ca_createdBy args),
                         (''ai.omadia.dev.leaseExpiresAt'', ca_leaseExpiresAt args), (DEV_ROLE_LABEL, ROLE_JOB)]
                        @ (if dockerInJob then [(DEV_DOCKER_IN_JOB_LABEL, ''true'')] else []),
            co_NetworkingConfig = None,
            co_HostConfig =
              \<lparr>hc_NetworkMode = ca_networkName args,
               hc_Binds = [ca_volumeName args @ '':/workspace'']
                          @ (if dockerInJob then [dindCertsVolumeName jobId @ '':'' @ DIND_TLS_CERTDIR @ '':ro''] else []),
               hc_ReadonlyRootfs = Some True,
               hc_Tmpfs = Some [(''/tmp'', ''rw,size='' @ show_int (cl_tmpfsMb limits) @ ''m'')],
               hc_CapDrop = Some [''ALL''],
               hc_SecurityOpt = [''no-new-privileges:true''],
               hc_Privileged = False,
               hc_Memory = cl_memoryBytes limits,
               hc_MemorySwap = cl_memoryBytes limits,
               hc_NanoCpus = cl_nanoCpus limits,
               hc_PidsLimit = cl_pidsLimit limits,
               hc_Ulimits = Some [(''nofile'', cl_nofile limits, cl_nofile limits)],
               hc_RestartPolicy = ''no'',
               hc_ExtraHosts = Some (orelse (ca_extraHosts args) [])\<rparr>\<rparr>)"

section \<open>The docker-in-docker sidecar\<close>

definition resolveDindDiskGb :: "(string \<Rightarrow> string option) \<Rightarrow> int" where
  "resolveDindDiskGb env =
     (case parsePositiveNumber (env ''DEV_DIND_DISK_GB'') of None \<Rightarrow> DEFAULT_DIND_DISK_GB | Some n \<Rightarrow> js_round n)"

definition resolveDindImage :: "(string \<Rightarrow> string option) \<Rightarrow> string" where
  "resolveDindImage env =
     (case env ''DEV_DIND_IMAGE'' of None \<Rightarrow> DEFAULT_DIND_IMAGE
      | Some raw \<Rightarrow> if trim raw = [] then DEFAULT_DIND_IMAGE else trim raw)"

record volume_options =
  vo_Name :: string
  vo_Labels :: "(string \<times> string) list"
  vo_DriverOpts :: "(string \<times> string) list option"

definition dindLabels :: "string \<Rightarrow> string \<Rightarrow> (string \<times> string) list" where
  "dindLabels jobId createdBy =
     [(''ai.omadia.dev.jobId'', jobId), (''ai.omadia.dev.createdBy'', createdBy), (DEV_ROLE_LABEL, ROLE_DIND)]"

definition buildDindImageStoreVolumeOptions :: "string \<Rightarrow> string \<Rightarrow> int \<Rightarrow> volume_options" where
  "buildDindImageStoreVolumeOptions jobId createdBy diskGb =
     \<lparr>vo_Name = dindVolumeName jobId, vo_Labels = dindLabels jobId createdBy,
      vo_DriverOpts = Some [(''size'', show_int diskGb @ ''g'')]\<rparr>"

definition buildDindCertsVolumeOptions :: "string \<Rightarrow> string \<Rightarrow> volume_options" where
  "buildDindCertsVolumeOptions jobId createdBy =
     \<lparr>vo_Name = dindCertsVolumeName jobId, vo_Labels = dindLabels jobId createdBy, vo_DriverOpts = None\<rparr>"

definition buildDindCreateOptions :: "string \<Rightarrow> string \<Rightarrow> string \<Rightarrow> string \<Rightarrow> clamp_limits \<Rightarrow> string \<Rightarrow> create_options" where
  "buildDindCreateOptions jobId networkName createdBy leaseExpiresAt limits img =
     \<lparr>co_name = Some (dindContainerName jobId),
      co_Image = img,
      co_User = None,
      co_Env = [''DOCKER_TLS_CERTDIR='' @ DIND_TLS_CERTDIR],
      co_WorkingDir = None,
      co_Labels = [(''ai.omadia.dev.jobId'', jobId), (''ai.omadia.dev.createdBy'', createdBy),
                   (''ai.omadia.dev.leaseExpiresAt'', leaseExpiresAt), (DEV_ROLE_LABEL, ROLE_DIND)],
      co_NetworkingConfig = Some [(networkName, [DIND_NETWORK_ALIAS])],
      co_HostConfig =
        \<lparr>hc_NetworkMode = networkName,
         hc_Binds = [dindVolumeName jobId @ '':'' @ DIND_DATA_ROOT, dindCertsVolumeName jobId @ '':'' @ DIND_TLS_CERTDIR],
         hc_ReadonlyRootfs = None, hc_Tmpfs = None, hc_CapDrop = None,
         hc_SecurityOpt = [''seccomp=unconfined'', ''apparmor=unconfined''],
         hc_Privileged = False,
         hc_Memory = cl_memoryBytes limits,
         hc_MemorySwap = cl_memoryBytes limits,
         hc_NanoCpus = cl_nanoCpus limits,
         hc_PidsLimit = cl_pidsLimit limits,
         hc_Ulimits = None,
         hc_RestartPolicy = ''no'',
         hc_ExtraHosts = None\<rparr>\<rparr>"

end
