(* ===== verification/JobManager.thy ===== *)
theory JobManager
  imports ContainerClamp
begin

text \<open>
  The registry of the runner daemon (\<open>jobs.mjs\<close>: \<open>JobManager\<close>) and the reaper that reconciles it with the
  container engine (\<open>reaper.mjs\<close>), as a step relation: a step is what runs between two awaits.  The engine's
  containers and the grants of the egress proxy are state of the world that survives a restart of the daemon.
  A container, a record, a provision and a teardown are named by numbers.  Times are milliseconds.
\<close>

section \<open>State\<close>

record daemon_cfg =
  dc_ul :: url_lib
  dc_parse :: "string \<Rightarrow> json option"
  dc_pc :: policy_client
  dc_proxied :: bool
  dc_maxLiveJobs :: nat
  dc_maxInflight :: nat
  dc_maxLifetimeMs :: int
  dc_createdBy :: string
  dc_limits :: clamp_limits
  dc_requireDigest :: bool

text \<open>A live job.  Its object is compared by identity, here \<open>jr_ref\<close>, as \<open>renew\<close> changes it in place.\<close>

record job_record =
  jr_ref :: nat
  jr_jobId :: string
  jr_container :: nat
  jr_leaseExpiresAt :: int
  jr_hardDeadlineAt :: int

datatype job_error = At_capacity | Too_many_inflight | Job_cancelled | Cleanup_failed | Create_failed

text \<open>Where a provision waits: for the policy, the proxy's control plane, the allowlist's addresses, the engine
  (before and after the container exists), the teardown of a cancelled container, the withdrawal of its grant; or
  it has settled, before or after its creator's \<open>finally\<close>.\<close>

datatype prov =
    P_none
  | P_policy string int string
  | P_register string policy_response string int int
  | P_resolve string policy_response int int
  | P_engine string policy_response int int "string list"
  | P_started string nat int int
  | P_teardown string nat int int
  | P_withdraw string job_error
  | P_settled string "job_error + nat"
  | P_over string "job_error + nat"

datatype teardown_run =
    R_none
  | R_teardown string nat nat
  | R_withdraw string nat nat
  | R_wait string nat
  | R_settled string "job_error + bool"
  | R_over string "job_error + bool"

record daemon_world =
  jw_now :: int
  jw_next :: nat
  jw_jobs :: "(string \<times> job_record) list"
  jw_inflight :: "(string \<times> nat) list"
  jw_cancelled :: "string set"
  jw_destroying :: "string set"
  jw_destroyRuns :: "(string \<times> nat) list"
  jw_provs :: "nat \<Rightarrow> prov"
  jw_runs :: "nat \<Rightarrow> teardown_run"
  jw_waiting :: "(string \<times> nat) list"
  jw_answers :: "(string \<times> bool \<times> (job_error + nat)) list"
  jw_rebuilt :: bool
  jw_orphans :: "(string \<times> nat) set"
  jw_live :: "nat set"
  jw_label :: "nat \<Rightarrow> string"
  jw_born :: "nat \<Rightarrow> int"
  jw_options :: "nat \<Rightarrow> create_options option"
  jw_egress :: "string \<rightharpoonup> string list \<times> int"
  jw_made :: "nat set"
  jw_stranded :: "nat set"
  jw_doomed :: "nat set"

definition map_delete :: "string \<Rightarrow> (string \<times> 'v) list \<Rightarrow> (string \<times> 'v) list" where
  "map_delete k kvs = filter (\<lambda>e. fst e \<noteq> k) kvs"

section \<open>Create\<close>

definition answer :: "string \<Rightarrow> bool \<Rightarrow> job_error + nat \<Rightarrow> daemon_world \<Rightarrow> daemon_world" where
  "answer j created res w = w\<lparr>jw_answers := jw_answers w @ [(j, created, res)]\<rparr>"

definition set_prov :: "nat \<Rightarrow> prov \<Rightarrow> daemon_world \<Rightarrow> daemon_world" where
  "set_prov p s w = w\<lparr>jw_provs := (jw_provs w)(p := s)\<rparr>"

definition set_run :: "nat \<Rightarrow> teardown_run \<Rightarrow> daemon_world \<Rightarrow> daemon_world" where
  "set_run n s w = w\<lparr>jw_runs := (jw_runs w)(n := s)\<rparr>"

definition create :: "daemon_cfg \<Rightarrow> string \<Rightarrow> int \<Rightarrow> string \<Rightarrow> daemon_world \<Rightarrow> daemon_world" where
  "create cfg j ttl tok w =
     (if j \<in> jw_destroying w then answer j False (Inl Job_cancelled) w
      else case map_of (jw_jobs w) j of
        Some r \<Rightarrow> answer j False (Inr (jr_container r)) w
      | None \<Rightarrow>
      (case map_of (jw_inflight w) j of
        Some p \<Rightarrow> w\<lparr>jw_waiting := jw_waiting w @ [(j, p)]\<rparr>
      | None \<Rightarrow>
          if dc_maxLiveJobs cfg \<le> length (jw_jobs w) + length (jw_inflight w) then answer j False (Inl At_capacity) w
          else if dc_maxInflight cfg \<le> length (jw_inflight w) then answer j False (Inl Too_many_inflight) w
          else set_prov (jw_next w) (P_policy j ttl tok)
                 (w\<lparr>jw_next := jw_next w + 1, jw_inflight := jw_inflight w @ [(j, jw_next w)]\<rparr>)))"

text \<open>The \<open>finally\<close> of the call that started the provision.\<close>

definition owner_done :: "nat \<Rightarrow> string \<Rightarrow> job_error + nat \<Rightarrow> daemon_world \<Rightarrow> daemon_world" where
  "owner_done p j res w =
     answer j True res (set_prov p (P_over j res)
       (w\<lparr>jw_inflight := map_delete j (jw_inflight w), jw_cancelled := jw_cancelled w - {j}\<rparr>))"

definition leaseExpiry :: "int \<Rightarrow> daemon_world \<Rightarrow> int" where
  "leaseExpiry ttl w = jw_now w + ttl * 1000"

definition policy_fetched :: "daemon_cfg \<Rightarrow> nat \<Rightarrow> string \<Rightarrow> int \<Rightarrow> string \<Rightarrow> policy_response \<Rightarrow> daemon_world \<Rightarrow> daemon_world" where
  "policy_fetched cfg p j ttl tok pol w =
     (let lease = leaseExpiry ttl w; deadline = jw_now w + dc_maxLifetimeMs cfg in
      set_prov p (if dc_proxied cfg then P_register j pol tok lease deadline else P_engine j pol lease deadline []) w)"

definition registration_ttl :: "daemon_cfg \<Rightarrow> int" where
  "registration_ttl cfg = max 1 (- ((- dc_maxLifetimeMs cfg) div 1000))"

definition register_grant :: "daemon_cfg \<Rightarrow> string \<Rightarrow> policy_response \<Rightarrow> daemon_world \<Rightarrow> daemon_world" where
  "register_grant cfg j pol w =
     w\<lparr>jw_egress := (jw_egress w)(j \<mapsto> (pr_egress pol, jw_now w + registration_ttl cfg * 1000))\<rparr>"

text \<open>\<open>resolveAllowlistHosts\<close> on what the proxy answers per host; the addresses of literals are not asked for.\<close>

definition resolveAllowlistHosts :: "(string \<Rightarrow> bool) \<Rightarrow> string list \<Rightarrow> (string list \<Rightarrow> (string \<times> string list option) list)
    \<Rightarrow> string list" where
  "resolveAllowlistHosts is_ip allowlist resolveHosts =
     (let toResolve = filter (\<lambda>h. \<not> is_ip h) allowlist in
      if toResolve = [] then []
      else List.map_filter (\<lambda>(h, as). case as of Some (a # _) \<Rightarrow> Some (h @ '':'' @ a) | _ \<Rightarrow> None) (resolveHosts toResolve))"

definition job_container_args :: "daemon_cfg \<Rightarrow> string \<Rightarrow> policy_response \<Rightarrow> int \<Rightarrow> string list \<Rightarrow> clamp_args" where
  "job_container_args cfg j pol lease extra =
     \<lparr>ca_jobId = j, ca_policy = pol, ca_leaseExpiresAt = toISOString lease, ca_networkName = jobNetworkName j,
      ca_volumeName = jobVolumeName j, ca_createdBy = dc_createdBy cfg, ca_limits = dc_limits cfg,
      ca_requireDigest = Some (dc_requireDigest cfg), ca_dockerInJob = Some (pr_dockerInJob pol = Some True),
      ca_extraHosts = Some extra\<rparr>"

text \<open>The engine has created and started the container; its call has not returned yet.\<close>

definition container_started :: "nat \<Rightarrow> string \<Rightarrow> int \<Rightarrow> int \<Rightarrow> create_options \<Rightarrow> daemon_world \<Rightarrow> daemon_world" where
  "container_started p j lease deadline opts w =
     (let c = jw_next w in
      set_prov p (P_started j c lease deadline)
        (w\<lparr>jw_next := c + 1, jw_live := insert c (jw_live w), jw_made := insert c (jw_made w),
           jw_label := (jw_label w)(c := j), jw_born := (jw_born w)(c := jw_now w),
           jw_options := (jw_options w)(c \<mapsto> opts)\<rparr>))"

definition add_record :: "string \<Rightarrow> nat \<Rightarrow> int \<Rightarrow> int \<Rightarrow> daemon_world \<Rightarrow> daemon_world" where
  "add_record j c lease deadline w =
     w\<lparr>jw_next := jw_next w + 1,
       jw_jobs := set_key j \<lparr>jr_ref = jw_next w, jr_jobId = j, jr_container = c, jr_leaseExpiresAt = lease,
                             jr_hardDeadlineAt = deadline\<rparr> (jw_jobs w)\<rparr>"

definition engine_returned :: "nat \<Rightarrow> string \<Rightarrow> nat \<Rightarrow> int \<Rightarrow> int \<Rightarrow> daemon_world \<Rightarrow> daemon_world" where
  "engine_returned p j c lease deadline w =
     (if j \<in> jw_cancelled w
      then set_prov p (P_teardown j c lease deadline) (w\<lparr>jw_doomed := insert c (jw_doomed w)\<rparr>)
      else set_prov p (P_settled j (Inr c)) (add_record j c lease deadline w))"

text \<open>The rollback of a failed create removes the container, or fails too and leaves it to the orphan sweep.\<close>

definition create_rolled_back :: "nat \<Rightarrow> string \<Rightarrow> nat \<Rightarrow> bool \<Rightarrow> daemon_world \<Rightarrow> daemon_world" where
  "create_rolled_back p j c removed w =
     set_prov p (P_withdraw j Create_failed)
       (if removed then w\<lparr>jw_live := jw_live w - {c}, jw_doomed := insert c (jw_doomed w)\<rparr>
        else w\<lparr>jw_stranded := insert c (jw_stranded w)\<rparr>)"

text \<open>\<open>withdrawEgress\<close> never throws; its request may fail.\<close>

definition withdraw_grant :: "string \<Rightarrow> bool \<Rightarrow> daemon_world \<Rightarrow> daemon_world" where
  "withdraw_grant j done w = (if done then w\<lparr>jw_egress := (jw_egress w)(j := None)\<rparr> else w)"

section \<open>Renew, destroy, adopt\<close>

definition renew :: "string \<Rightarrow> int \<Rightarrow> daemon_world \<Rightarrow> daemon_world" where
  "renew j ttl w =
     (case map_of (jw_jobs w) j of
        None \<Rightarrow> w
      | Some r \<Rightarrow> w\<lparr>jw_jobs :=
          set_key j (r\<lparr>jr_leaseExpiresAt := min (leaseExpiry ttl w) (jr_hardDeadlineAt r)\<rparr>) (jw_jobs w)\<rparr>)"

text \<open>\<open>destroyOnce\<close> up to its first await, with \<open>destroyInflight\<close>.\<close>

definition destroyOnce :: "nat \<Rightarrow> string \<Rightarrow> daemon_world \<Rightarrow> daemon_world" where
  "destroyOnce n j w =
     (case map_of (jw_jobs w) j of
        Some r \<Rightarrow> set_run n (R_teardown j (jr_ref r) (jr_container r))
                    (w\<lparr>jw_destroying := insert j (jw_destroying w), jw_doomed := insert (jr_container r) (jw_doomed w)\<rparr>)
      | None \<Rightarrow>
      (case map_of (jw_inflight w) j of
        Some p \<Rightarrow> set_run n (R_wait j p) (w\<lparr>jw_cancelled := insert j (jw_cancelled w)\<rparr>)
      | None \<Rightarrow> set_run n (R_settled j (Inr False)) w))"

definition destroy :: "string \<Rightarrow> daemon_world \<Rightarrow> daemon_world" where
  "destroy j w =
     (if map_of (jw_destroyRuns w) j \<noteq> None then w
      else destroyOnce (jw_next w) j
             (w\<lparr>jw_next := jw_next w + 1, jw_destroyRuns := jw_destroyRuns w @ [(j, jw_next w)]\<rparr>))"

text \<open>The engine has answered: every resource is gone, or at least one is not (the container may be).\<close>

definition teardown_done :: "nat \<Rightarrow> string \<Rightarrow> nat \<Rightarrow> nat \<Rightarrow> daemon_world \<Rightarrow> daemon_world" where
  "teardown_done n j ref c w =
     set_run n (R_withdraw j ref c)
       (w\<lparr>jw_live := jw_live w - {c}, jw_destroying := jw_destroying w - {j}\<rparr>)"

definition teardown_failed :: "nat \<Rightarrow> string \<Rightarrow> nat \<Rightarrow> bool \<Rightarrow> daemon_world \<Rightarrow> daemon_world" where
  "teardown_failed n j c gone w =
     set_run n (R_settled j (Inl Cleanup_failed))
       (w\<lparr>jw_live := (if gone then jw_live w - {c} else jw_live w), jw_destroying := jw_destroying w - {j}\<rparr>)"

definition forget :: "nat \<Rightarrow> string \<Rightarrow> nat \<Rightarrow> bool \<Rightarrow> daemon_world \<Rightarrow> daemon_world" where
  "forget n j ref done w =
     (let w1 = withdraw_grant j done w in
      set_run n (R_settled j (Inr True))
        (case map_of (jw_jobs w1) j of
           Some r \<Rightarrow> if jr_ref r = ref then w1\<lparr>jw_jobs := map_delete j (jw_jobs w1)\<rparr> else w1
         | None \<Rightarrow> w1))"

fun inflight_over :: "nat \<Rightarrow> string \<Rightarrow> job_error + nat \<Rightarrow> daemon_world \<Rightarrow> daemon_world" where
  "inflight_over n j (Inl Job_cancelled) w = set_run n (R_settled j (Inr True)) w"
| "inflight_over n j (Inl e) w = set_run n (R_settled j (Inl e)) w"
| "inflight_over n j (Inr c) w = destroyOnce n j w"

definition destroy_finally :: "nat \<Rightarrow> string \<Rightarrow> job_error + bool \<Rightarrow> daemon_world \<Rightarrow> daemon_world" where
  "destroy_finally n j res w = set_run n (R_over j res) (w\<lparr>jw_destroyRuns := map_delete j (jw_destroyRuns w)\<rparr>)"

definition tracks :: "string \<Rightarrow> daemon_world \<Rightarrow> bool" where
  "tracks j w \<longleftrightarrow> map_of (jw_jobs w) j \<noteq> None \<or> map_of (jw_inflight w) j \<noteq> None \<or> j \<in> jw_destroying w"

definition adopt :: "daemon_cfg \<Rightarrow> string \<Rightarrow> nat \<Rightarrow> int \<Rightarrow> int \<Rightarrow> daemon_world \<Rightarrow> daemon_world" where
  "adopt cfg j c lease createdAt w =
     (if map_of (jw_jobs w) j \<noteq> None then w
      else if map_of (jw_inflight w) j \<noteq> None \<or> j \<in> jw_destroying w then w
      else add_record j c lease (createdAt + dc_maxLifetimeMs cfg) w)"

section \<open>The reaper\<close>

text \<open>A container of the engine's listing: its job, itself, the lease of its label (None: absent or unreadable),
  whether it runs, and its creation time in whole seconds.\<close>

record managed_container =
  mc_jobId :: string
  mc_container :: nat
  mc_lease :: "int option"
  mc_running :: bool
  mc_createdAtMs :: int

definition isLeaseExpired :: "int option \<Rightarrow> int \<Rightarrow> bool" where
  "isLeaseExpired lease now = (case lease of None \<Rightarrow> True | Some t \<Rightarrow> t \<le> now)"

definition graced :: "int \<Rightarrow> int \<Rightarrow> int option \<Rightarrow> int" where
  "graced now grace lease = (case lease of None \<Rightarrow> now + grace | Some t \<Rightarrow> max t (now + grace))"

definition adopt_listed :: "daemon_cfg \<Rightarrow> int \<Rightarrow> managed_container list \<Rightarrow> daemon_world \<Rightarrow> daemon_world" where
  "adopt_listed cfg grace listing w =
     (fold (\<lambda>mc w. adopt cfg (mc_jobId mc) (mc_container mc) (graced (jw_now w) grace (mc_lease mc)) (mc_createdAtMs mc) w)
        listing w)\<lparr>jw_rebuilt := True\<rparr>"

definition staleAtBoot :: "managed_container list \<Rightarrow> string list" where
  "staleAtBoot listing = map mc_jobId (filter (\<lambda>mc. \<not> mc_running mc) listing)"

text \<open>The jobs a sweep tears down, each with the reason it logs.\<close>

definition expired_jobs :: "int \<Rightarrow> (string \<times> job_record) list \<Rightarrow> (string \<times> string) list" where
  "expired_jobs now jobs =
     List.map_filter (\<lambda>(_, r).
       let pastDeadline = isLeaseExpired (Some (jr_hardDeadlineAt r)) now in
       if pastDeadline \<or> isLeaseExpired (Some (jr_leaseExpiresAt r)) now
       then Some (jr_jobId r, if pastDeadline then ''lifetime_exceeded'' else ''lease_expired'') else None) jobs"

text \<open>The orphan sweep takes a listing, then tears down what no tracked job accounts for.\<close>

definition orphan_start :: "string \<Rightarrow> nat \<Rightarrow> daemon_world \<Rightarrow> daemon_world" where
  "orphan_start j c w = (if tracks j w then w else w\<lparr>jw_orphans := insert (j, c) (jw_orphans w)\<rparr>)"

definition orphan_done :: "string \<Rightarrow> nat \<Rightarrow> bool \<Rightarrow> daemon_world \<Rightarrow> daemon_world" where
  "orphan_done j c gone w =
     w\<lparr>jw_orphans := jw_orphans w - {(j, c)}, jw_live := (if gone then jw_live w - {c} else jw_live w)\<rparr>"

section \<open>Steps\<close>

text \<open>A crash and a restart: what the daemon held in memory is gone.\<close>

definition restart :: "daemon_world \<Rightarrow> daemon_world" where
  "restart w = w\<lparr>jw_jobs := [], jw_inflight := [], jw_cancelled := {}, jw_destroying := {}, jw_destroyRuns := [],
     jw_provs := (\<lambda>_. P_none), jw_runs := (\<lambda>_. R_none), jw_waiting := [], jw_answers := [], jw_rebuilt := False,
     jw_orphans := {}, jw_made := {}, jw_stranded := {}, jw_doomed := {}\<rparr>"

text \<open>A listing shows containers that exist or existed, with Docker's labels and creation times.\<close>

definition listed :: "daemon_world \<Rightarrow> managed_container \<Rightarrow> bool" where
  "listed w mc \<longleftrightarrow> mc_container mc < jw_next w \<and> jw_options w (mc_container mc) \<noteq> None \<and>
     jw_label w (mc_container mc) = mc_jobId mc \<and> mc_createdAtMs mc \<le> jw_born w (mc_container mc)"

inductive job_step :: "daemon_cfg \<Rightarrow> daemon_world \<Rightarrow> daemon_world \<Rightarrow> bool" for cfg where
  created: "job_step cfg w (create cfg j ttl tok w)"
| policy: "\<lbrakk>jw_provs w p = P_policy j ttl tok;
      fetchJobPolicy (dc_ul cfg) (dc_parse cfg) peer (dc_pc cfg) j (if dc_proxied cfg then Some tok else None) = Inr pol\<rbrakk>
    \<Longrightarrow> job_step cfg w (policy_fetched cfg p j ttl tok pol w)"
| policy_refused: "jw_provs w p = P_policy j ttl tok \<Longrightarrow> job_step cfg w (set_prov p (P_settled j (Inl Create_failed)) w)"
| registered: "jw_provs w p = P_register j pol tok lease deadline
    \<Longrightarrow> job_step cfg w (set_prov p (P_resolve j pol lease deadline) (register_grant cfg j pol w))"
| register_failed: "jw_provs w p = P_register j pol tok lease deadline
    \<Longrightarrow> job_step cfg w (set_prov p (P_settled j (Inl Create_failed)) (if effect then register_grant cfg j pol w else w))"
| hosts_resolved: "jw_provs w p = P_resolve j pol lease deadline
    \<Longrightarrow> job_step cfg w (set_prov p (P_engine j pol lease deadline
          (resolveAllowlistHosts (\<lambda>h. isIP h) (pr_egress pol) answers)) w)"
| hosts_failed: "jw_provs w p = P_resolve j pol lease deadline
    \<Longrightarrow> job_step cfg w (set_prov p (P_engine j pol lease deadline []) w)"
| started: "\<lbrakk>jw_provs w p = P_engine j pol lease deadline extra;
      buildContainerCreateOptions (job_container_args cfg j pol lease extra) = Inr opts\<rbrakk>
    \<Longrightarrow> job_step cfg w (container_started p j lease deadline opts w)"
| engine_refused: "jw_provs w p = P_engine j pol lease deadline extra
    \<Longrightarrow> job_step cfg w (set_prov p (P_withdraw j Create_failed) w)"
| rolled_back: "jw_provs w p = P_started j c lease deadline \<Longrightarrow> job_step cfg w (create_rolled_back p j c removed w)"
| returned: "jw_provs w p = P_started j c lease deadline \<Longrightarrow> job_step cfg w (engine_returned p j c lease deadline w)"
| cancelled: "jw_provs w p = P_teardown j c lease deadline
    \<Longrightarrow> job_step cfg w (set_prov p (P_withdraw j Job_cancelled) (w\<lparr>jw_live := jw_live w - {c}\<rparr>))"
| cancel_failed: "jw_provs w p = P_teardown j c lease deadline
    \<Longrightarrow> job_step cfg w (set_prov p (P_settled j (Inl Cleanup_failed)) (add_record j c lease deadline
          (w\<lparr>jw_live := (if gone then jw_live w - {c} else jw_live w)\<rparr>)))"
| withdrawn: "jw_provs w p = P_withdraw j e
    \<Longrightarrow> job_step cfg w (set_prov p (P_settled j (Inl e)) (withdraw_grant j done w))"
| owner: "jw_provs w p = P_settled j res \<Longrightarrow> job_step cfg w (owner_done p j res w)"
| joined: "\<lbrakk>(j, p) \<in> set (jw_waiting w); jw_provs w p = P_over j res\<rbrakk>
    \<Longrightarrow> job_step cfg w (answer j False res (w\<lparr>jw_waiting := remove1 (j, p) (jw_waiting w)\<rparr>))"
| renewed: "job_step cfg w (renew j ttl w)"
| destroyed: "job_step cfg w (destroy j w)"
| torn_down: "jw_runs w n = R_teardown j ref c \<Longrightarrow> job_step cfg w (teardown_done n j ref c w)"
| tear_failed: "jw_runs w n = R_teardown j ref c \<Longrightarrow> job_step cfg w (teardown_failed n j c gone w)"
| forgotten: "jw_runs w n = R_withdraw j ref c \<Longrightarrow> job_step cfg w (forget n j ref done w)"
| awaited: "\<lbrakk>jw_runs w n = R_wait j p; jw_provs w p = P_over j res\<rbrakk> \<Longrightarrow> job_step cfg w (inflight_over n j res w)"
| run_over: "jw_runs w n = R_settled j res \<Longrightarrow> job_step cfg w (destroy_finally n j res w)"
| rebuilt: "\<lbrakk>\<not> jw_rebuilt w; \<forall>mc \<in> set listing. listed w mc\<rbrakk> \<Longrightarrow> job_step cfg w (adopt_listed cfg grace listing w)"
| orphaned: "\<lbrakk>jw_rebuilt w; listed w mc\<rbrakk> \<Longrightarrow> job_step cfg w (orphan_start (mc_jobId mc) (mc_container mc) w)"
| orphan_gone: "(j, c) \<in> jw_orphans w \<Longrightarrow> job_step cfg w (orphan_done j c gone w)"
| restarted: "job_step cfg w (restart w)"
| time: "0 < d \<Longrightarrow> job_step cfg w (w\<lparr>jw_now := jw_now w + d\<rparr>)"

definition daemon_start :: "int \<Rightarrow> daemon_world" where
  "daemon_start now = \<lparr>jw_now = now, jw_next = 0, jw_jobs = [], jw_inflight = [], jw_cancelled = {},
     jw_destroying = {}, jw_destroyRuns = [], jw_provs = (\<lambda>_. P_none), jw_runs = (\<lambda>_. R_none), jw_waiting = [],
     jw_answers = [], jw_rebuilt = False, jw_orphans = {}, jw_live = {}, jw_label = (\<lambda>_. []), jw_born = (\<lambda>_. 0),
     jw_options = (\<lambda>_. None), jw_egress = Map.empty, jw_made = {}, jw_stranded = {}, jw_doomed = {}\<rparr>"

inductive daemon_reachable :: "daemon_cfg \<Rightarrow> daemon_world \<Rightarrow> bool" for cfg where
  start: "daemon_reachable cfg (daemon_start now)"
| step: "\<lbrakk>daemon_reachable cfg w; job_step cfg w w'\<rbrakk> \<Longrightarrow> daemon_reachable cfg w'"

end
