(* ===== verification/DaemonSound.thy ===== *)
theory DaemonSound
  imports DaemonPolicy
begin

text \<open>
  What the daemon's clamp guarantees about a policy it lets through, how its copy of the egress classifier
  relates to the plugin's, and that the plugin's own policies pass exactly when image and hosts do.
\<close>

section \<open>Assignment and lookup\<close>

lemma map_of_replace:
  "map_of (map (\<lambda>e. if fst e = k then (k, v) else e) kvs) k' =
   (if k' = k then (if map_of kvs k = None then None else Some v) else map_of kvs k')"
  by (induction kvs) auto

lemma map_of_set_key [simp]: "map_of (set_key k v kvs) k' = (if k' = k then Some v else map_of kvs k')"
proof -
  have "k \<in> fst ` set kvs \<longleftrightarrow> map_of kvs k \<noteq> None" by (metis map_of_eq_None_iff)
  then show ?thesis by (auto simp: set_key_def map_of_replace map_add_def split: option.splits)
qed

lemma map_fst_replace: "map fst (map (\<lambda>e. if fst e = k then (k, v) else e) kvs) = map fst kvs"
  by (induction kvs) auto

lemma keys_set_key [simp]: "fst ` set (set_key k v kvs) = insert k (fst ` set kvs)"
proof (cases "k \<in> fst ` set kvs")
  case True
  then have "map fst (set_key k v kvs) = map fst kvs" by (simp only: set_key_def if_True map_fst_replace)
  then have "fst ` set (set_key k v kvs) = fst ` set kvs" by (metis list.set_map)
  then show ?thesis using True by auto
qed (simp add: set_key_def)

lemma map_of_set_all [simp]: "map_of (set_all ks v env) k = (if k \<in> set ks then Some v else map_of env k)"
  unfolding set_all_def by (induction ks arbitrary: env) auto

lemma keys_set_all [simp]: "fst ` set (set_all ks v env) = set ks \<union> fst ` set env"
  unfolding set_all_def by (induction ks arbitrary: env) auto

lemma object_entries_distinct:
  assumes "distinct (map fst kvs)"
  shows "object_entries kvs = kvs"
proof -
  have "fold (\<lambda>(k, v). set_key k v) kvs acc = acc @ kvs" if "distinct (map fst (acc @ kvs))" for acc
    using that by (induction kvs arbitrary: acc) (auto simp: set_key_def rev_image_eqI)
  from this[of "[]"] assms show ?thesis by (simp add: object_entries_def)
qed

lemma all_some_map: "all_some (map (\<lambda>x. Some (f x)) xs) = Some (map f xs)"
  by (induction xs) auto

section \<open>The two classifiers\<close>

lemma label_host_plain:
  assumes "list_all HOSTNAME_LABEL (split_char CHR ''.'' h)" "c \<in> set h"
  shows "lower_char c = c \<and> \<not> is_space c \<and> c \<notin> set ''[]%:''"
proof -
  have "lower_alnum c \<or> c = CHR ''-'' \<or> c = CHR ''.''" using label_chars[OF assms] .
  then show ?thesis
    by (auto simp: lower_alnum_def is_lower_def is_digit_def is_upper_def lower_char_def is_space_def
        less_eq_char_def)
qed

lemma label_host_facts:
  assumes "list_all HOSTNAME_LABEL (split_char CHR ''.'' h)"
  shows "CHR '':'' \<notin> set h \<and> CHR ''['' \<notin> set h \<and> CHR ''%'' \<notin> set h \<and> toLowerCase h = h \<and> trim h = h"
proof -
  note p = label_host_plain[OF assms]
  have low: "toLowerCase h = h" unfolding toLowerCase_def using p by (simp add: map_idI)
  have d: "dropWhile is_space xs = xs" if "set xs \<subseteq> set h" for xs
    using that p by (cases xs) auto
  have "trim h = h" unfolding trim_def using d[of h] d[of "rev h"] by simp
  then show ?thesis using low p[of "CHR '':''"] p[of "CHR ''[''"] p[of "CHR ''%''"] by auto
qed

lemma no_colon_quad: "CHR '':'' \<notin> set h \<Longrightarrow> toDottedQuad h = h"
  by (auto simp: toDottedQuad_def prefix_def)

lemma label_host_external:
  assumes l: "list_all HOSTNAME_LABEL (split_char CHR ''.'' h)"
    and q: "\<not> (length (split_char CHR ''.'' h) = 4 \<and>
      list_all (\<lambda>w. w \<noteq> [] \<and> list_all is_digit w) (split_char CHR ''.'' h))"
  shows "\<not> isInternalIp h"
proof -
  note f = label_host_facts[OF l]
  have "strip_brackets h = h" using f by (cases h) (auto simp: strip_brackets_def)
  moreover have "strip_zone h = h" using f by (auto simp: strip_zone_def takeWhile_eq_all_conv)
  moreover have "unmap_v4 h = h" using f by (auto simp: unmap_v4_def prefix_def)
  moreover have "dotted_quad h = None"
    using q by (auto simp: dotted_quad_def Let_def octet_def list_all_iff)
  ultimately show ?thesis using f by (simp add: isInternalIp_def)
qed

text \<open>A hostname the daemon takes for an internal address by the way it begins.\<close>

definition looks_internal :: "string \<Rightarrow> bool" where
  "looks_internal h \<longleftrightarrow> internal_v4_like h \<or> unique_local_like h"

lemma daemon_internal_label_host:
  assumes l: "list_all HOSTNAME_LABEL (split_char CHR ''.'' h)"
    and q: "\<not> (length (split_char CHR ''.'' h) = 4 \<and>
      list_all (\<lambda>w. w \<noteq> [] \<and> list_all is_digit w) (split_char CHR ''.'' h))"
  shows "daemon_isInternalIp h = looks_internal h"
proof -
  note f = label_host_facts[OF l]
  have "h \<noteq> ''::1''" using f by auto
  moreover have "h \<noteq> ''0.0.0.0''" using q by (auto simp: is_digit_def less_eq_char_def)
  moreover have "\<not> link_local_like h" using f by (auto simp: link_local_like_def split: list.splits)
  ultimately show ?thesis
    using f by (simp add: daemon_isInternalIp_def Let_def no_colon_quad looks_internal_def)
qed

lemma canonical_classifiers:
  "daemon_classify_canonical P h = Egress_host h' \<longleftrightarrow> classify_canonical P h = Egress_host h' \<and> \<not> looks_internal h'"
proof -
  consider "list_all HOSTNAME_LABEL (split_char CHR ''.'' h)" "\<not> (length (split_char CHR ''.'' h) = 4 \<and>
      list_all (\<lambda>w. w \<noteq> [] \<and> list_all is_digit w) (split_char CHR ''.'' h))"
    | "\<not> list_all HOSTNAME_LABEL (split_char CHR ''.'' h)"
    | "length (split_char CHR ''.'' h) = 4 \<and>
      list_all (\<lambda>w. w \<noteq> [] \<and> list_all is_digit w) (split_char CHR ''.'' h)" by blast
  then show ?thesis
  proof cases
    case 1
    then show ?thesis
      using label_host_external[OF 1] daemon_internal_label_host[OF 1]
      by (auto simp: daemon_classify_canonical_def classify_canonical_def daemon_ip_literal_def ip_literal_def
          Let_def split: option.splits if_splits)
  next
    case 2
    then show ?thesis
      by (auto simp: daemon_classify_canonical_def classify_canonical_def split: option.splits if_splits)
  next
    case 3
    then show ?thesis
      by (auto simp: daemon_classify_canonical_def classify_canonical_def daemon_ip_literal_def ip_literal_def
          Let_def split: option.splits if_splits)
  qed
qed

lemma classifiers_agree:
  "daemon_classifyEgressEntry P raw = Egress_host h \<longleftrightarrow>
   classifyEgressEntry P raw = Egress_host h \<and> \<not> looks_internal h"
  by (simp add: daemon_classifyEgressEntry_def classifyEgressEntry_def Let_def canonical_classifiers)

lemma classified_iff: "classifyEgressEntry P raw = Egress_host h \<longleftrightarrow> operator_host P raw = Some h"
  using accepted_entry_iff[of P]
  by (metis accepted_entry_def classified.exhaust classified.simps(5,6) option.distinct(1) option.inject)

text \<open>C18: The daemon's classifier of egress entries, which its file calls a faithful port kept in lockstep
  with the plugin's, accepts exactly the entries the plugin accepts, except the hostnames that look like an
  internal address by their first characters: those that begin like a private dotted quad, and those that
  begin with \<open>fc\<close> or \<open>fd\<close> and a hexadecimal digit.  What it accepts it canonicalises as the plugin does.\<close>

theorem daemon_classifier_iff:
  "daemon_classifyEgressEntry P raw = Egress_host h \<longleftrightarrow> operator_host P raw = Some h \<and> \<not> looks_internal h"
  by (simp add: classifiers_agree classified_iff)

section \<open>What the clamp lets through\<close>

lemma assertPolicyEnv_None_iff:
  "assertPolicyEnv ks status = None \<longleftrightarrow> (\<forall>k \<in> set ks. k \<notin> set DAEMON_OWNED_ENV_KEYS \<and> k \<in> set ALLOWED_ENV_KEYS)"
  by (induction ks) auto

lemma assertPolicyImage_None_iff:
  "assertPolicyImage img allowed requireDigest status = None \<longleftrightarrow>
     pi_repository (parseImageReference img) \<in> set allowed \<and>
     (requireDigest \<longrightarrow> (\<exists>d. pi_digest (parseImageReference img) = Some d \<and> DIGEST_RE d))"
  by (auto simp: assertPolicyImage_def Let_def split: option.splits)

lemma canonical_hosts_Some:
  "canonical_hosts P raws = Some hs \<longleftrightarrow> list_all2 (\<lambda>raw h. daemon_classifyEgressEntry P raw = Egress_host h) raws hs"
proof (induction raws arbitrary: hs)
  case (Cons raw raws)
  then show ?case by (auto simp: list_all2_Cons1 split: classified.splits)
qed auto

lemma canonical_hosts_iff:
  "canonical_hosts P raws \<noteq> None \<longleftrightarrow> (\<forall>raw \<in> set raws. \<exists>h. daemon_classifyEgressEntry P raw = Egress_host h)"
  by (induction raws) (auto split: classified.splits)

lemma accepted_host:
  "daemon_classifyEgressEntry P raw = Egress_host h \<Longrightarrow> bare_hostname P h \<and> \<not> looks_internal h"
  unfolding classifiers_agree classified_iff by (auto simp: operator_host_def Let_def split: if_splits)

definition no_proxy_value :: "owned_values \<Rightarrow> string option" where
  "no_proxy_value owned = Option.bind (ow_noProxy owned) (\<lambda>np. if np = [] then None else Some np)"

lemma injected_lookup:
  "map_of (injectDaemonOwnedEnv wu env jobId owned) k =
     (if k \<in> set NO_PROXY_ENV_KEYS \<and> no_proxy_value owned \<noteq> None then no_proxy_value owned
      else if k = ''NODE_USE_ENV_PROXY'' \<and> proxy_value wu jobId owned \<noteq> None then Some ''1''
      else if k \<in> set PROXY_ENV_KEYS \<and> proxy_value wu jobId owned \<noteq> None then proxy_value wu jobId owned
      else if k = ''OMADIA_CLI_BIN'' then Some (ow_cliBin owned)
      else if k = ''OMADIA_WORKSPACE'' then Some (ow_workspace owned)
      else if k = ''OMADIA_JOB_ID'' then Some jobId
      else if k = ''OMADIA_JOB_BASE_URL'' then Some (ow_jobBaseUrl owned)
      else map_of env k)"
  by (cases "proxy_value wu jobId owned"; cases "ow_noProxy owned"; cases "ow_noProxy owned = Some []")
    (simp_all add: injectDaemonOwnedEnv_def Let_def no_proxy_value_def split del: if_split cong: if_cong)

lemma injected_keys:
  "fst ` set (injectDaemonOwnedEnv wu env jobId owned) \<subseteq>
     fst ` set env \<union> set DAEMON_OWNED_ENV_KEYS \<union> {''NODE_USE_ENV_PROXY''}"
  by (auto simp: injectDaemonOwnedEnv_def Let_def DAEMON_OWNED_ENV_KEYS_def simp flip: image_iff
      split: option.splits if_splits)

lemma clamp_policy_Inr:
  assumes "clamp_policy ul pc jobId tok status r = Inr p"
  shows "pr_jobId r = jobId \<and> assertPolicyImage (pr_image r) (pc_allowedImages pc) (pc_requireDigest pc) status = None \<and>
    assertPolicyEnv (map fst (pr_env r)) status = None \<and>
    assertPolicyEgress (ul_parse ul) (pr_egress r) status = Inr (pr_egress p) \<and>
    p = r\<lparr>pr_egress := pr_egress p,
          pr_env := injectDaemonOwnedEnv (ul_with_userinfo ul) (pr_env r) jobId (owned_by pc tok)\<rparr>"
  using assms by (auto simp: clamp_policy_def split: if_splits option.splits sum.splits)

lemma fetched_was_clamped:
  assumes "fetchJobPolicy ul parse peer pc jobId tok = Inr p"
  shows "\<exists>status r. clamp_policy ul pc jobId tok status r = Inr p"
  using assms by (auto simp: fetchJobPolicy_def split: peer_answer.splits option.splits if_splits)

lemma egress_accepted:
  assumes "assertPolicyEgress P raws status = Inr hs"
  shows "length hs \<le> MAX_EGRESS_ENTRIES \<and> (\<forall>h \<in> set hs. bare_hostname P h \<and> \<not> looks_internal h)"
proof -
  have l: "length raws \<le> MAX_EGRESS_ENTRIES" and "canonical_hosts P raws = Some hs"
    using assms by (auto simp: assertPolicyEgress_def split: if_splits option.splits)
  then have all2: "list_all2 (\<lambda>raw h. daemon_classifyEgressEntry P raw = Egress_host h) raws hs"
    by (simp add: canonical_hosts_Some)
  have "\<forall>h \<in> set hs. bare_hostname P h \<and> \<not> looks_internal h"
    using all2 by (induction rule: list_all2_induct) (simp_all add: accepted_host)
  then show ?thesis using l list_all2_lengthD[OF all2] by simp
qed

lemma clamped_env:
  assumes "assertPolicyEnv (map fst env) status = None" "k \<in> set DAEMON_OWNED_ENV_KEYS \<or> k = ''NODE_USE_ENV_PROXY''"
  shows "map_of env k = None"
proof -
  have "''NODE_USE_ENV_PROXY'' \<notin> set ALLOWED_ENV_KEYS" by code_simp
  then have "k \<notin> fst ` set env" using assms by (auto simp: assertPolicyEnv_None_iff)
  then show ?thesis by (metis map_of_eq_None_iff)
qed

definition other_key :: "string \<Rightarrow> bool" where
  "other_key k \<longleftrightarrow> k \<in> set DAEMON_OWNED_ENV_KEYS \<and>
     k \<notin> {''NODE_USE_ENV_PROXY'', ''OMADIA_CLI_BIN'', ''OMADIA_WORKSPACE'', ''OMADIA_JOB_ID'', ''OMADIA_JOB_BASE_URL''}"

lemma routing_keys:
  "list_all (\<lambda>k. other_key k \<and> k \<notin> set NO_PROXY_ENV_KEYS) PROXY_ENV_KEYS"
  "list_all (\<lambda>k. other_key k \<and> k \<notin> set PROXY_ENV_KEYS) NO_PROXY_ENV_KEYS"
  by code_simp+

lemma identity_keys:
  "list_all (\<lambda>k. k \<notin> set PROXY_ENV_KEYS \<and> k \<notin> set NO_PROXY_ENV_KEYS \<and> k \<noteq> ''NODE_USE_ENV_PROXY'')
     [''OMADIA_JOB_BASE_URL'', ''OMADIA_JOB_ID'', ''OMADIA_WORKSPACE'', ''OMADIA_CLI_BIN'']"
  by code_simp

text \<open>The environment the clamp produces, key by key.\<close>

definition env_confined :: "(string \<Rightarrow> string \<Rightarrow> string \<Rightarrow> string) \<Rightarrow> string \<Rightarrow> owned_values \<Rightarrow> (string \<times> string) list \<Rightarrow> bool" where
  "env_confined wu jobId owned env \<longleftrightarrow>
     fst ` set env \<subseteq> set ALLOWED_ENV_KEYS \<union> set DAEMON_OWNED_ENV_KEYS \<union> {''NODE_USE_ENV_PROXY''} \<and>
     map_of env ''OMADIA_JOB_BASE_URL'' = Some (ow_jobBaseUrl owned) \<and>
     map_of env ''OMADIA_JOB_ID'' = Some jobId \<and>
     map_of env ''OMADIA_WORKSPACE'' = Some (ow_workspace owned) \<and>
     map_of env ''OMADIA_CLI_BIN'' = Some (ow_cliBin owned) \<and>
     (\<forall>k \<in> set PROXY_ENV_KEYS. map_of env k = proxy_value wu jobId owned) \<and>
     (\<forall>k \<in> set NO_PROXY_ENV_KEYS. map_of env k = no_proxy_value owned)"

lemma injected_confined:
  assumes "assertPolicyEnv (map fst env) status = None"
  shows "env_confined wu jobId owned (injectDaemonOwnedEnv wu env jobId owned)"
proof -
  let ?e = "injectDaemonOwnedEnv wu env jobId owned"
  note look = injected_lookup[of wu env jobId owned]
  have o: "map_of env k = None" if "other_key k" for k
    using that clamped_env[OF assms] by (simp add: other_key_def)
  have p: "map_of ?e k = proxy_value wu jobId owned" if k: "k \<in> set PROXY_ENV_KEYS" for k
  proof -
    have "other_key k" "k \<notin> set NO_PROXY_ENV_KEYS" using k routing_keys(1) by (simp_all add: list_all_iff)
    then show ?thesis using k o[of k] unfolding look by (simp add: other_key_def)
  qed
  have n: "map_of ?e k = no_proxy_value owned" if k: "k \<in> set NO_PROXY_ENV_KEYS" for k
  proof -
    have "other_key k" "k \<notin> set PROXY_ENV_KEYS" using k routing_keys(2) by (simp_all add: list_all_iff)
    then show ?thesis using k o[of k] unfolding look by (simp add: other_key_def)
  qed
  have i: "map_of ?e ''OMADIA_JOB_BASE_URL'' = Some (ow_jobBaseUrl owned)" "map_of ?e ''OMADIA_JOB_ID'' = Some jobId"
    "map_of ?e ''OMADIA_WORKSPACE'' = Some (ow_workspace owned)" "map_of ?e ''OMADIA_CLI_BIN'' = Some (ow_cliBin owned)"
    using identity_keys unfolding look by simp_all
  have "fst ` set env \<subseteq> set ALLOWED_ENV_KEYS" using assms by (auto simp: assertPolicyEnv_None_iff)
  then have "fst ` set ?e \<subseteq> set ALLOWED_ENV_KEYS \<union> set DAEMON_OWNED_ENV_KEYS \<union> {''NODE_USE_ENV_PROXY''}"
    using injected_keys[of wu env jobId owned] by (meson Un_mono order_refl subset_trans)
  then show ?thesis unfolding env_confined_def using p n i by simp
qed

text \<open>Whatever the plugin (or whoever answers in its place) sends, a policy the daemon accepts is for the job
  it asked about; its image is of an allowlisted repository and, when digests are required, pinned to a
  well-formed digest; it has at most 256 egress hosts, each a canonical public hostname; and its environment
  has only allowlisted or daemon-owned keys, where the phone-home URL, job id, workspace, CLI and every
  spelling of the proxy variables have the daemon's own values, or none where the daemon has no proxy.\<close>

theorem daemon_policy_confined:
  assumes "fetchJobPolicy ul parse peer pc jobId tok = Inr p"
  shows "pr_jobId p = jobId \<and>
    pi_repository (parseImageReference (pr_image p)) \<in> set (pc_allowedImages pc) \<and>
    (pc_requireDigest pc \<longrightarrow> (\<exists>d. pi_digest (parseImageReference (pr_image p)) = Some d \<and> DIGEST_RE d)) \<and>
    length (pr_egress p) \<le> MAX_EGRESS_ENTRIES \<and>
    (\<forall>h \<in> set (pr_egress p). bare_hostname (ul_parse ul) h \<and> \<not> looks_internal h) \<and>
    env_confined (ul_with_userinfo ul) jobId (owned_by pc tok) (pr_env p)"
proof -
  obtain status r where c: "clamp_policy ul pc jobId tok status r = Inr p" using fetched_was_clamped[OF assms] by blast
  note f = clamp_policy_Inr[OF c]
  have "pr_jobId p = pr_jobId r" "pr_image p = pr_image r"
    "pr_env p = injectDaemonOwnedEnv (ul_with_userinfo ul) (pr_env r) jobId (owned_by pc tok)"
    using f by (metis policy_response.select_convs policy_response.update_convs policy_response.surjective)+
  then show ?thesis
    using f egress_accepted[of "ul_parse ul" "pr_egress r" status "pr_egress p"]
      injected_confined[of "pr_env r" status "ul_with_userinfo ul" jobId "owned_by pc tok"]
    by (simp add: assertPolicyImage_None_iff)
qed

section \<open>The plugin's policies at the daemon\<close>

lemma getJobPolicy_reply:
  assumes "getJobPolicy env header jobId db = (db', Policy_reply r)"
  shows "jp_jobId r = jobId \<and> (\<exists>job repo config p. getJob jobId db = Some job \<and> getRepo (j_repoId job) db = Some repo \<and>
    rn_jobPolicyConfig env = Some config \<and> deriveJobPolicy (rn_parse_url env) repo job config = Inr p \<and>
    jp_egressAllowlist r = dj_egressAllowlist p \<and>
    jp_env r = policy_env job config @ [(''OMADIA_JOB_TOKEN'', rn_minted env)])"
proof -
  have f: "filter (\<lambda>kv. fst kv \<noteq> ''OMADIA_JOB_TOKEN'') (policy_env job config) = policy_env job config" for job config
    by (simp add: policy_env_def SUBSCRIPTION_ENV_def)
  have d: "dj_env p = policy_env job config" if "deriveJobPolicy P repo job config = Inr p" for P repo job config p
    using that by (auto simp: deriveJobPolicy_def Let_def split: sum.splits)
  obtain job repo config p where g: "getJob jobId db = Some job" "getRepo (j_repoId job) db = Some repo"
    "rn_jobPolicyConfig env = Some config" and p: "deriveJobPolicy (rn_parse_url env) repo job config = Inr p"
    and r: "issue_policy env job p db = (db', Policy_reply r)"
    using assms by (auto simp: getJobPolicy_def daemonAuthMw_def split: option.splits sum.splits if_splits)
  have "jp_jobId r = jobId" using r g(1) getJob_SomeD[OF g(1)] by (auto simp: issue_policy_def)
  moreover have "jp_egressAllowlist r = dj_egressAllowlist p"
    "jp_env r = policy_env job config @ [(''OMADIA_JOB_TOKEN'', rn_minted env)]"
    using r d[OF p] f by (auto simp: issue_policy_def)
  ultimately show ?thesis using g p by blast
qed

lemma schema_env_strings:
  assumes "distinct (map fst kvs)"
  shows "schema_env (JObj (map (\<lambda>(k, v). (k, JStr v)) kvs)) = Some kvs"
proof -
  have "map fst (map (\<lambda>(k, v). (k, JStr v)) kvs) = map fst kvs" by (induction kvs) auto
  then have "object_entries (map (\<lambda>(k, v). (k, JStr v)) kvs) = map (\<lambda>(k, v). (k, JStr v)) kvs"
    using assms by (metis object_entries_distinct)
  moreover have "all_some (map ((\<lambda>(k, w). map_option (Pair k) (string_of w)) \<circ> (\<lambda>(k, v). (k, JStr v))) kvs) = Some kvs"
    by (induction kvs) (auto simp: string_of_def)
  ultimately show ?thesis by (simp add: schema_env_def)
qed

lemma schema_list_strings: "schema_list (JArr (map JStr hs)) = Some hs"
proof -
  have "all_some (map (string_of \<circ> JStr) hs) = Some hs" by (induction hs) (auto simp: string_of_def)
  then show ?thesis by (simp add: schema_list_def)
qed

lemma derived_env_keys:
  "distinct (map fst (policy_env job config @ [(''OMADIA_JOB_TOKEN'', t)])) \<and>
   assertPolicyEnv (map fst (policy_env job config @ [(''OMADIA_JOB_TOKEN'', t)])) status = None"
proof -
  have keys: "map fst (policy_env job config) =
      (if j_authMode job = Auth_subscription then map fst SUBSCRIPTION_ENV else [''ANTHROPIC_BASE_URL'']) @
      [''OMADIA_PIPELINE_MODE'']" by (simp add: policy_env_def)
  have "list_all (\<lambda>k. k \<notin> set DAEMON_OWNED_ENV_KEYS \<and> k \<in> set ALLOWED_ENV_KEYS)
      (map fst SUBSCRIPTION_ENV @ [''ANTHROPIC_BASE_URL'', ''OMADIA_PIPELINE_MODE'', ''OMADIA_JOB_TOKEN''])"
    by code_simp
  moreover have "distinct (map fst SUBSCRIPTION_ENV @ [''ANTHROPIC_BASE_URL'', ''OMADIA_PIPELINE_MODE'', ''OMADIA_JOB_TOKEN''])"
    by code_simp
  ultimately show ?thesis unfolding assertPolicyEnv_None_iff by (auto simp: keys list_all_iff)
qed

lemma issued_policy_wire:
  assumes "getJobPolicy env header jobId db = (db', Policy_reply r)" "UUID_RE jobId" "jp_image r \<noteq> []"
  shows "JobPolicyResponseSchema (policy_json r) =
      Some \<lparr>pr_jobId = jobId, pr_image = jp_image r, pr_env = jp_env r, pr_egress = jp_egressAllowlist r,
            pr_dockerInJob = Some (jp_dockerInJob r)\<rparr>"
    and "assertPolicyEnv (map fst (jp_env r)) status = None"
proof -
  obtain job config where e: "jp_env r = policy_env job config @ [(''OMADIA_JOB_TOKEN'', rn_minted env)]"
    and i: "jp_jobId r = jobId" using getJobPolicy_reply[OF assms(1)] by blast
  have d: "distinct (map fst (jp_env r))" "assertPolicyEnv (map fst (jp_env r)) status = None"
    using derived_env_keys[of job config "rn_minted env" status] unfolding e by blast+
  then show "assertPolicyEnv (map fst (jp_env r)) status = None" by simp
  show "JobPolicyResponseSchema (policy_json r) =
      Some \<lparr>pr_jobId = jobId, pr_image = jp_image r, pr_env = jp_env r, pr_egress = jp_egressAllowlist r,
            pr_dockerInJob = Some (jp_dockerInJob r)\<rparr>"
    using assms(2,3) i d(1) by (simp add: JobPolicyResponseSchema_def policy_json_def string_of_def schema_dind_def
        schema_env_strings schema_list_strings)
qed

lemma whole_body_read: "length (concat chunks) + got \<le> maxBytes \<Longrightarrow>
    readCappedBody maxBytes got acc chunks = Some (acc @ concat chunks)"
  by (induction chunks arbitrary: got acc) auto

text \<open>The plugin answers the daemon's request with the policy it issued.\<close>

definition plugin_answers :: "(string \<Rightarrow> json option) \<Rightarrow> (string \<Rightarrow> string \<Rightarrow> peer_answer) \<Rightarrow> policy_client \<Rightarrow> string
    \<Rightarrow> job_policy_reply \<Rightarrow> bool" where
  "plugin_answers parse peer pc jobId r \<longleftrightarrow>
     (case peer (policy_url pc jobId) (''Bearer '' @ pc_daemonToken pc) of
        Answer status chunks broke \<Rightarrow> status = 200 \<and> \<not> broke \<and> length (concat chunks) \<le> pc_maxBodyBytes pc \<and>
          parse (trim (concat chunks)) = Some (policy_json r)
      | No_answer \<Rightarrow> False)"

lemma fetched_from_plugin:
  assumes "plugin_answers parse peer pc jobId r" "JobPolicyResponseSchema (policy_json r) = Some p"
  shows "fetchJobPolicy ul parse peer pc jobId tok = clamp_policy ul pc jobId tok 200 p"
  using assms whole_body_read[of _ 0 "pc_maxBodyBytes pc" "[]"]
  by (auto simp: plugin_answers_def fetchJobPolicy_def split: peer_answer.splits)

text \<open>C16: Every policy the plugin issues is well typed on the wire: the message satisfies the schema of the daemon,
  which reads from it the job, the image, the environment, the hosts and the sidecar flag the plugin wrote,
  and every key of its environment is one the daemon admits.\<close>

theorem policy_message_well_typed:
  assumes "getJobPolicy env header jobId db = (db', Policy_reply r)" "UUID_RE jobId" "jp_image r \<noteq> []"
  shows "JobPolicyResponseSchema (policy_json r) =
      Some \<lparr>pr_jobId = jobId, pr_image = jp_image r, pr_env = jp_env r, pr_egress = jp_egressAllowlist r,
            pr_dockerInJob = Some (jp_dockerInJob r)\<rparr> \<and>
    assertPolicyEnv (map fst (jp_env r)) 200 = None"
  using issued_policy_wire[OF assms] by blast

text \<open>C17: A policy the plugin issued for a job passes the daemon's clamp exactly when its image passes and it has at
  most 256 hosts, none of which the daemon's copy of the classifier refuses: job, schema and environment never
  stand in the way.\<close>

theorem plugin_policy_accepted_iff:
  assumes "getJobPolicy env header jobId db = (db', Policy_reply r)" "UUID_RE jobId" "jp_image r \<noteq> []"
    "plugin_answers parse peer pc jobId r"
  shows "(\<exists>p. fetchJobPolicy ul parse peer pc jobId tok = Inr p) \<longleftrightarrow>
    assertPolicyImage (jp_image r) (pc_allowedImages pc) (pc_requireDigest pc) 200 = None \<and>
    length (jp_egressAllowlist r) \<le> MAX_EGRESS_ENTRIES \<and>
    (\<forall>raw \<in> set (jp_egressAllowlist r). \<exists>h. daemon_classifyEgressEntry (ul_parse ul) raw = Egress_host h)"
  unfolding fetched_from_plugin[OF assms(4) issued_policy_wire(1)[OF assms(1-3)]]
    canonical_hosts_iff[symmetric]
  by (auto simp: clamp_policy_def issued_policy_wire(2)[OF assms(1-3)] assertPolicyEgress_def split: option.splits)

lemma derived_lists_operator_hosts:
  assumes "deriveJobPolicy P repo job config = Inr p" "raw \<in> set (rp_egressAllowlist repo)" "operator_host P raw = Some h"
  shows "h \<in> set (dj_egressAllowlist p)"
proof -
  obtain forge where f: "forgeHostsFromCloneUrl P (rp_cloneUrl repo) = Inr forge"
    using assms(1) by (auto simp: deriveJobPolicy_def split: sum.splits)
  have "h \<in> set (List.map_filter (operator_host P) (dc_baseAllowlist config @ rp_egressAllowlist repo))"
    using assms(2,3) by (force simp: map_filter_def)
  then show ?thesis unfolding derived_allowlist[OF assms(1) f] by simp
qed

text \<open>One entry of a repository's allowlist that the plugin accepts and the daemon takes for an internal
  address, \<open>fda.gov\<close> for one, makes the daemon refuse the policy of every job of the repository: none of them
  ever gets a container from it.\<close>

theorem lookalike_host_starves_jobs:
  assumes "getJobPolicy env header jobId db = (db', Policy_reply r)" "UUID_RE jobId" "jp_image r \<noteq> []"
    "plugin_answers parse peer pc jobId r"
    "getJob jobId db = Some job" "getRepo (j_repoId job) db = Some repo"
    "raw \<in> set (rp_egressAllowlist repo)" "operator_host (rn_parse_url env) raw = Some h" "looks_internal h"
    "operator_host (ul_parse ul) h = Some h"
  shows "\<exists>e. fetchJobPolicy ul parse peer pc jobId tok = Inl e"
proof -
  have "h \<in> set (jp_egressAllowlist r)"
    using getJobPolicy_reply[OF assms(1)] assms(5,6) derived_lists_operator_hosts[OF _ assms(7,8)] by force
  moreover have "daemon_classifyEgressEntry (ul_parse ul) h \<noteq> Egress_host h'" for h'
    using assms(9,10) by (auto simp: classifiers_agree classified_iff)
  ultimately have "canonical_hosts (ul_parse ul) (jp_egressAllowlist r) = None"
    using canonical_hosts_iff[of "ul_parse ul" "jp_egressAllowlist r"] by blast
  then show ?thesis
    unfolding fetched_from_plugin[OF assms(4) issued_policy_wire(1)[OF assms(1-3)]]
    by (auto simp: clamp_policy_def assertPolicyEgress_def split: option.splits)
qed

section \<open>Witnesses\<close>

definition wire_parser :: "string \<Rightarrow> url option" where
  "wire_parser s =
     (if prefix ''https://github.com/'' s
      then Some \<lparr>url_protocol = ''https:'', url_username = [], url_password = [], url_hostname = ''github.com''\<rparr>
      else if prefix ''http://'' s
      then Some \<lparr>url_protocol = ''http:'', url_username = [], url_password = [], url_hostname = butlast (drop 7 s)\<rparr>
      else None)"

definition wire_image :: string where
  "wire_image = ''ghcr.io:443/acme/runner@sha256:'' @ concat (replicate 8 ''0123abcd'')"

definition wire_config :: derive_job_policy_config where
  "wire_config = \<lparr>dc_middlewareHost = ''omadia.example'', dc_baseAllowlist = [''Registry.npmjs.org.''],
     dc_image = wire_image, dc_llmProxyBaseUrl = ''https://omadia.example/llm''\<rparr>"

definition wire_repo :: "string list \<Rightarrow> dev_repo" where
  "wire_repo hosts = example_repo\<lparr>rp_egressAllowlist := hosts\<rparr>"

definition wire_job :: dev_job where
  "wire_job = example_job\<lparr>j_id := lease_uuid\<rparr>"

definition wire_db :: "string list \<Rightarrow> dev_db" where
  "wire_db hosts = empty_db\<lparr>db_repos := [wire_repo hosts], db_jobs := [wire_job]\<rparr>"

definition wire_env :: runner_env where
  "wire_env = engine_env.extend PhaseEngine.example_env
     \<lparr>rn_num_text = (\<lambda>_. ''0''), rn_parse_json = (\<lambda>_. None), rn_parse_ts = (\<lambda>_. None),
      rn_resolve = (\<lambda>_ _ _. Scm_none), rn_maxEvents = 100, rn_wallClockMs = None,
      rn_scmTokenTtlMs = None, rn_maxDiffBytes = None, rn_maxEventsPerBatch = None,
      rn_maxEventPayloadBytes = None, rn_agentModel = None, rn_maxTurns = None, rn_daemonToken = Some ''secret'',
      rn_jobPolicyConfig = Some wire_config, rn_parse_url = wire_parser, rn_minted = ''djr_new''\<rparr>"

lemma wire_env_simps [simp]:
  "rn_daemonToken wire_env = Some ''secret''" "rn_jobPolicyConfig wire_env = Some wire_config"
  "rn_parse_url wire_env = wire_parser" "rn_minted wire_env = ''djr_new''"
  by (simp_all add: wire_env_def engine_env.extend_def)

lemma wire_derived:
  "map_sum id (\<lambda>p. (dj_image p, dj_egressAllowlist p)) (deriveJobPolicy wire_parser (wire_repo []) wire_job wire_config) =
   Inr (wire_image, [''omadia.example'', ''github.com'', ''codeload.github.com'', ''registry.npmjs.org''])"
  "map_sum id (\<lambda>p. (dj_image p, dj_egressAllowlist p)) (deriveJobPolicy wire_parser (wire_repo [''fda.gov'']) wire_job wire_config) =
   Inr (wire_image, [''omadia.example'', ''github.com'', ''codeload.github.com'', ''registry.npmjs.org'', ''fda.gov''])"
  by code_simp+

lemma wire_auth: "daemonAuthMw wire_env (Some ''Bearer secret'') = None"
proof -
  have "bearerToken (Some ''Bearer secret'') = Some ''secret''"
    "filter (\<lambda>t. t \<noteq> []) (map trim (split_char CHR '','' ''secret'')) = [''secret'']" by code_simp+
  then show ?thesis by (simp add: daemonAuthMw_def timingSafeStrEqual_def)
qed

lemma wire_job_found:
  "getJob lease_uuid (wire_db hosts) = Some wire_job" "getRepo (j_repoId wire_job) (wire_db hosts) = Some (wire_repo hosts)"
  by (simp_all add: wire_db_def wire_job_def wire_repo_def getJob_def getRepo_def example_defs example_repo_def)

lemma wire_issued:
  assumes "map_sum id (\<lambda>p. (dj_image p, dj_egressAllowlist p)) (deriveJobPolicy wire_parser (wire_repo hosts) wire_job wire_config) =
    Inr (wire_image, egress)"
  shows "\<exists>db' r. getJobPolicy wire_env (Some ''Bearer secret'') lease_uuid (wire_db hosts) = (db', Policy_reply r) \<and>
    jp_image r = wire_image \<and> jp_egressAllowlist r = egress"
  using assms
  by (cases "deriveJobPolicy wire_parser (wire_repo hosts) wire_job wire_config")
    (auto simp: getJobPolicy_def wire_auth wire_job_found issue_policy_def)

definition wire_client :: policy_client where
  "wire_client = \<lparr>pc_base = ''http://middleware:8080'', pc_daemonToken = ''secret'',
     pc_allowedImages = [''ghcr.io:443/acme/runner''], pc_requireDigest = True,
     pc_jobBaseUrl = ''http://middleware:8080'', pc_workspace = ''/workspace'', pc_cliBin = ''claude'',
     pc_egressProxyUrl = Some ''http://proxy:3128'', pc_noProxy = None, pc_maxBodyBytes = 10\<rparr>"

definition wire_lib :: url_lib where
  "wire_lib = \<lparr>ul_parse = wire_parser, ul_with_userinfo = (\<lambda>u user pass. ''http://'' @ user @ '':'' @ pass @ ''@'' @ drop 7 u)\<rparr>"

lemma wire_answers: "plugin_answers (\<lambda>s. Some (policy_json r)) (\<lambda>u t. Answer 200 [''{}''] False) wire_client lease_uuid r"
  by (simp add: plugin_answers_def wire_client_def)

lemma wire_uuid: "UUID_RE lease_uuid" "wire_image \<noteq> []"
  by code_simp+

lemma wire_image_ok: "assertPolicyImage wire_image (pc_allowedImages wire_client) (pc_requireDigest wire_client) 200 = None"
  by code_simp

lemma wire_hosts_ok:
  "list_all (\<lambda>raw. case daemon_classifyEgressEntry wire_parser raw of Egress_host h \<Rightarrow> True | Egress_reject _ \<Rightarrow> False)
     [''omadia.example'', ''github.com'', ''codeload.github.com'', ''registry.npmjs.org'']"
  by code_simp

theorem policy_message_witness:
  "\<exists>db' r. getJobPolicy wire_env (Some ''Bearer secret'') lease_uuid (wire_db []) = (db', Policy_reply r) \<and>
    map_option pr_image (JobPolicyResponseSchema (policy_json r)) = Some wire_image"
proof -
  obtain db' r where r: "getJobPolicy wire_env (Some ''Bearer secret'') lease_uuid (wire_db []) = (db', Policy_reply r)"
    "jp_image r = wire_image" using wire_issued[OF wire_derived(1)] by blast
  then show ?thesis using policy_message_well_typed[OF r(1) wire_uuid(1)] wire_uuid(2) by auto
qed

lemma wire_accepting:
  "\<exists>db' r. getJobPolicy wire_env (Some ''Bearer secret'') lease_uuid (wire_db []) = (db', Policy_reply r) \<and>
    jp_image r = wire_image \<and> assertPolicyImage (jp_image r) (pc_allowedImages wire_client) (pc_requireDigest wire_client) 200 = None \<and>
    length (jp_egressAllowlist r) \<le> MAX_EGRESS_ENTRIES \<and>
    (\<forall>raw \<in> set (jp_egressAllowlist r). \<exists>h. daemon_classifyEgressEntry (ul_parse wire_lib) raw = Egress_host h)"
proof -
  obtain db' r where r: "getJobPolicy wire_env (Some ''Bearer secret'') lease_uuid (wire_db []) = (db', Policy_reply r)"
    "jp_image r = wire_image"
    "jp_egressAllowlist r = [''omadia.example'', ''github.com'', ''codeload.github.com'', ''registry.npmjs.org'']"
    using wire_issued[OF wire_derived(1)] by blast
  have "\<forall>raw \<in> set (jp_egressAllowlist r). \<exists>h. daemon_classifyEgressEntry (ul_parse wire_lib) raw = Egress_host h"
    using wire_hosts_ok unfolding r(3) by (auto simp: wire_lib_def split: classified.splits)
  then show ?thesis using r wire_image_ok by (auto simp: MAX_EGRESS_ENTRIES_def)
qed

theorem plugin_policy_accepted_witness:
  "\<exists>db' r p. getJobPolicy wire_env (Some ''Bearer secret'') lease_uuid (wire_db []) = (db', Policy_reply r) \<and>
    fetchJobPolicy wire_lib (\<lambda>s. Some (policy_json r)) (\<lambda>u t. Answer 200 [''{}''] False) wire_client lease_uuid (Some ''t'') = Inr p"
proof -
  obtain db' r where r: "getJobPolicy wire_env (Some ''Bearer secret'') lease_uuid (wire_db []) = (db', Policy_reply r)"
    "jp_image r = wire_image"
    and ok: "assertPolicyImage (jp_image r) (pc_allowedImages wire_client) (pc_requireDigest wire_client) 200 = None \<and>
      length (jp_egressAllowlist r) \<le> MAX_EGRESS_ENTRIES \<and>
      (\<forall>raw \<in> set (jp_egressAllowlist r). \<exists>h. daemon_classifyEgressEntry (ul_parse wire_lib) raw = Egress_host h)"
    using wire_accepting by blast
  have i: "jp_image r \<noteq> []" using r(2) wire_uuid(2) by simp
  show ?thesis using plugin_policy_accepted_iff[OF r(1) wire_uuid(1) i wire_answers, of wire_lib "Some ''t''"] ok r(1) by blast
qed

lemma wire_fetch:
  "\<exists>r p. fetchJobPolicy wire_lib (\<lambda>s. Some (policy_json r)) (\<lambda>u t. Answer 200 [''{}''] False) wire_client lease_uuid (Some ''t'') =
      Inr p"
proof -
  obtain db' r where r: "getJobPolicy wire_env (Some ''Bearer secret'') lease_uuid (wire_db []) = (db', Policy_reply r)"
    "jp_image r = wire_image"
    and ok: "assertPolicyImage (jp_image r) (pc_allowedImages wire_client) (pc_requireDigest wire_client) 200 = None"
      "length (jp_egressAllowlist r) \<le> MAX_EGRESS_ENTRIES"
      "\<forall>raw \<in> set (jp_egressAllowlist r). \<exists>h. daemon_classifyEgressEntry (ul_parse wire_lib) raw = Egress_host h"
    using wire_accepting by blast
  have i: "jp_image r \<noteq> []" using r(2) wire_uuid(2) by simp
  obtain hosts where "canonical_hosts (ul_parse wire_lib) (jp_egressAllowlist r) = Some hosts"
    using ok(3) canonical_hosts_iff[of "ul_parse wire_lib" "jp_egressAllowlist r"] by blast
  then have "\<exists>p. clamp_policy wire_lib wire_client lease_uuid (Some ''t'') 200 \<lparr>pr_jobId = lease_uuid, pr_image = jp_image r,
      pr_env = jp_env r, pr_egress = jp_egressAllowlist r, pr_dockerInJob = Some (jp_dockerInJob r)\<rparr> = Inr p"
    using ok(1,2) issued_policy_wire(2)[OF r(1) wire_uuid(1) i]
    by (auto simp: clamp_policy_def assertPolicyEgress_def)
  then show ?thesis
    unfolding fetched_from_plugin[OF wire_answers issued_policy_wire(1)[OF r(1) wire_uuid(1) i], symmetric] by blast
qed

theorem daemon_policy_witness:
  "\<exists>r p. fetchJobPolicy wire_lib (\<lambda>s. Some (policy_json r)) (\<lambda>u t. Answer 200 [''{}''] False) wire_client lease_uuid (Some ''t'') =
      Inr p \<and> pr_jobId p = lease_uuid \<and>
    map_of (pr_env p) ''https_proxy'' = Some ''http://11111111-2222-3333-4444-555555555555:t@proxy:3128'' \<and>
    map_of (pr_env p) ''NO_PROXY'' = None"
proof -
  obtain r p where f: "fetchJobPolicy wire_lib (\<lambda>s. Some (policy_json r)) (\<lambda>u t. Answer 200 [''{}''] False) wire_client
      lease_uuid (Some ''t'') = Inr p" using wire_fetch by blast
  have "''https_proxy'' \<in> set PROXY_ENV_KEYS" "''NO_PROXY'' \<in> set NO_PROXY_ENV_KEYS"
    by (simp_all add: PROXY_ENV_KEYS_def NO_PROXY_ENV_KEYS_def)
  moreover have "proxy_value (ul_with_userinfo wire_lib) lease_uuid (owned_by wire_client (Some ''t'')) =
      Some ''http://11111111-2222-3333-4444-555555555555:t@proxy:3128''"
    "no_proxy_value (owned_by wire_client (Some ''t'')) = None"
    by (simp_all add: proxy_value_def no_proxy_value_def owned_by_def wire_client_def wire_lib_def lease_uuid_def)
  ultimately have "map_of (pr_env p) ''https_proxy'' = Some ''http://11111111-2222-3333-4444-555555555555:t@proxy:3128''"
    "map_of (pr_env p) ''NO_PROXY'' = None" "pr_jobId p = lease_uuid"
    using daemon_policy_confined[OF f] by (simp_all add: env_confined_def)
  then show ?thesis using f by blast
qed

lemma fda_facts:
  "operator_host wire_parser ''fda.gov'' = Some ''fda.gov''" "looks_internal ''fda.gov''"
  by code_simp+

theorem lookalike_host_witness:
  "\<exists>db' r e. getJobPolicy wire_env (Some ''Bearer secret'') lease_uuid (wire_db [''fda.gov'']) = (db', Policy_reply r) \<and>
    fetchJobPolicy wire_lib (\<lambda>s. Some (policy_json r)) (\<lambda>u t. Answer 200 [''{}''] False) wire_client lease_uuid (Some ''t'') = Inl e"
proof -
  obtain db' r where r: "getJobPolicy wire_env (Some ''Bearer secret'') lease_uuid (wire_db [''fda.gov'']) = (db', Policy_reply r)"
    "jp_image r = wire_image" using wire_issued[OF wire_derived(2)] by blast
  have i: "jp_image r \<noteq> []" using r(2) wire_uuid(2) by simp
  have "''fda.gov'' \<in> set (rp_egressAllowlist (wire_repo [''fda.gov'']))"
    "operator_host (rn_parse_url wire_env) ''fda.gov'' = Some ''fda.gov''"
    "operator_host (ul_parse wire_lib) ''fda.gov'' = Some ''fda.gov''"
    using fda_facts(1) by (simp_all add: wire_repo_def wire_lib_def)
  then show ?thesis
    using lookalike_host_starves_jobs[OF r(1) wire_uuid(1) i wire_answers wire_job_found _ _ fda_facts(2), of "''fda.gov''" wire_lib "Some ''t''"]
      r(1) by blast
qed

lemma unspecified_not_internal: "\<not> daemon_isInternalIp ''::''" "isInternalIp ''::''" "\<not> daemon_isInternalIp ''0.0.0.1''"
  by code_simp+

end
