(* ===== verification/JobRegistry.thy ===== *)
theory JobRegistry
  imports JobManager DaemonSound
begin

text \<open>
  The registry of the runner daemon stays consistent under every step: a running provision is the one in flight for
  its job, whose record does not exist yet; a teardown works on the registered record; and a container has one
  handle, the record or the provision of the job on its label.
\<close>

section \<open>Association lists as maps\<close>

lemma map_of_map_delete [simp]: "map_of (map_delete k kvs) = (map_of kvs)(k := None)"
  by (induction kvs) (auto simp: map_delete_def)

lemma map_of_snoc: "map_of kvs k = None \<Longrightarrow> map_of (kvs @ [(k, v)]) = (map_of kvs)(k \<mapsto> v)"
  by (auto simp: map_add_def fun_eq_iff split: option.splits)

lemma keys_eq_dom: "set (map fst kvs) = dom (map_of kvs)"
  by (simp add: dom_map_of_conv_image_fst)

section \<open>Views of the state\<close>

fun prov_job :: "prov \<Rightarrow> string option" where
  "prov_job P_none = None"
| "prov_job (P_policy j _ _) = Some j"
| "prov_job (P_register j _ _ _ _) = Some j"
| "prov_job (P_resolve j _ _ _) = Some j"
| "prov_job (P_engine j _ _ _ _) = Some j"
| "prov_job (P_started j _ _ _) = Some j"
| "prov_job (P_teardown j _ _ _) = Some j"
| "prov_job (P_withdraw j _) = Some j"
| "prov_job (P_settled j _) = Some j"
| "prov_job (P_over _ _) = None"

fun prov_running :: "prov \<Rightarrow> string option" where
  "prov_running (P_settled _ _) = None"
| "prov_running s = prov_job s"

fun prov_container :: "prov \<Rightarrow> (string \<times> nat) option" where
  "prov_container (P_started j c _ _) = Some (j, c)"
| "prov_container (P_teardown j c _ _) = Some (j, c)"
| "prov_container _ = None"

fun run_job :: "teardown_run \<Rightarrow> string option" where
  "run_job R_none = None"
| "run_job (R_teardown j _ _) = Some j"
| "run_job (R_withdraw j _ _) = Some j"
| "run_job (R_wait j _) = Some j"
| "run_job (R_settled j _) = Some j"
| "run_job (R_over _ _) = None"

fun run_record :: "teardown_run \<Rightarrow> (string \<times> nat \<times> nat) option" where
  "run_record (R_teardown j ref c) = Some (j, ref, c)"
| "run_record (R_withdraw j ref c) = Some (j, ref, c)"
| "run_record _ = None"

lemma running_job: "prov_running s = Some j \<Longrightarrow> prov_job s = Some j"
  by (cases s) auto

lemma container_running: "prov_container s = Some (j, c) \<Longrightarrow> prov_running s = Some j"
  by (cases s) auto

lemma record_run_job: "run_record r = Some (j, ref, c) \<Longrightarrow> run_job r = Some j"
  by (cases r) auto

section \<open>The registry is consistent\<close>

definition provs_ok :: "daemon_world \<Rightarrow> bool" where
  "provs_ok w \<longleftrightarrow>
     (\<forall>p j. prov_job (jw_provs w p) = Some j \<longrightarrow> map_of (jw_inflight w) j = Some p) \<and>
     (\<forall>p j. prov_running (jw_provs w p) = Some j \<longrightarrow> map_of (jw_jobs w) j = None) \<and>
     (\<forall>p. jw_provs w p \<noteq> P_none \<longrightarrow> p < jw_next w)"

definition labels_ok :: "daemon_world \<Rightarrow> bool" where
  "labels_ok w \<longleftrightarrow>
     (\<forall>j r. map_of (jw_jobs w) j = Some r \<longrightarrow>
        jr_jobId r = j \<and> jw_label w (jr_container r) = j \<and> jr_container r < jw_next w) \<and>
     (\<forall>p j c. prov_container (jw_provs w p) = Some (j, c) \<longrightarrow> jw_label w c = j \<and> c < jw_next w) \<and>
     (\<forall>j c. (j, c) \<in> jw_orphans w \<longrightarrow> jw_label w c = j \<and> c < jw_next w) \<and>
     (\<forall>c \<in> jw_live w \<union> jw_made w. c < jw_next w)"

definition runs_ok :: "daemon_world \<Rightarrow> bool" where
  "runs_ok w \<longleftrightarrow>
     (\<forall>n j. run_job (jw_runs w n) = Some j \<longrightarrow> map_of (jw_destroyRuns w) j = Some n) \<and>
     (\<forall>n j ref c. run_record (jw_runs w n) = Some (j, ref, c) \<longrightarrow>
        (\<exists>r. map_of (jw_jobs w) j = Some r \<and> jr_ref r = ref \<and> jr_container r = c)) \<and>
     (\<forall>n j ref c. jw_runs w n = R_withdraw j ref c \<longrightarrow> c \<notin> jw_live w) \<and>
     (\<forall>n. jw_runs w n \<noteq> R_none \<longrightarrow> n < jw_next w)"

lemmas step_defs = create_def owner_done_def policy_fetched_def register_grant_def container_started_def
  engine_returned_def add_record_def create_rolled_back_def withdraw_grant_def renew_def destroy_def destroyOnce_def
  teardown_done_def teardown_failed_def forget_def destroy_finally_def restart_def orphan_start_def orphan_done_def
  set_prov_def set_run_def answer_def Let_def

lemma inflight_over_cases:
  "inflight_over n j res w = destroyOnce n j w \<or> (\<exists>res'. inflight_over n j res w = set_run n (R_settled j res') w)"
  by (cases "(n, j, res, w)" rule: inflight_over.cases) auto

text \<open>Adopting a listing changes the registry only, one container after the other.\<close>

lemma adopt_listed_preserves:
  assumes "P w" "\<forall>mc \<in> set listing. listed w mc" "\<not> jw_rebuilt w"
    and step: "\<And>mc w. P w \<Longrightarrow> listed w mc \<Longrightarrow> \<not> jw_rebuilt w \<Longrightarrow>
      P (adopt cfg (mc_jobId mc) (mc_container mc) (graced (jw_now w) grace (mc_lease mc)) (mc_createdAtMs mc) w)"
    and fin: "\<And>w. P w \<Longrightarrow> P (w\<lparr>jw_rebuilt := True\<rparr>)"
  shows "P (adopt_listed cfg grace listing w)"
proof -
  let ?f = "\<lambda>mc w. adopt cfg (mc_jobId mc) (mc_container mc) (graced (jw_now w) grace (mc_lease mc)) (mc_createdAtMs mc) w"
  have "P (fold ?f listing w)" using assms(1-3)
  proof (induction listing arbitrary: w)
    case (Cons mc listing)
    have "\<forall>m \<in> set listing. listed (?f mc w) m" "\<not> jw_rebuilt (?f mc w)"
      using Cons.prems(2,3) by (auto simp: adopt_def add_record_def listed_def)
    then show ?case using Cons.IH[OF step] Cons.prems by simp
  qed simp
  then show ?thesis using fin by (simp add: adopt_listed_def)
qed

lemma provs_okD:
  assumes "provs_ok w" "jw_provs w p = s"
  shows "(\<forall>j. prov_job s = Some j \<longrightarrow> map_of (jw_inflight w) j = Some p) \<and>
    (\<forall>j. prov_running s = Some j \<longrightarrow> map_of (jw_jobs w) j = None) \<and> (s \<noteq> P_none \<longrightarrow> p < jw_next w)"
  using assms by (auto simp: provs_ok_def)

lemma provs_adopt: "provs_ok w \<Longrightarrow> provs_ok (adopt cfg j c lease t w)"
  by (auto simp: provs_ok_def adopt_def add_record_def dest: running_job less_SucI split: if_splits)

lemma provs_ready: "provs_ok w \<Longrightarrow> provs_ok (w\<lparr>jw_rebuilt := True\<rparr>)"
  by (simp add: provs_ok_def)

lemma provs_unique:
  "provs_ok w \<Longrightarrow> prov_job (jw_provs w p) = Some j \<Longrightarrow> prov_job (jw_provs w q) = Some j \<Longrightarrow> p = q"
  unfolding provs_ok_def by (metis option.inject)

lemma provs_step:
  assumes "job_step cfg w w'" and inv: "provs_ok w"
  shows "provs_ok w'"
  using assms(1)
proof (cases rule: job_step.cases)
  case (returned p j c lease deadline)
  then show ?thesis using provs_okD[OF inv returned(2)] provs_unique[OF inv, of p j] inv
    by (auto simp: provs_ok_def step_defs less_Suc_eq dest: running_job split: if_splits)
next
  case (cancel_failed p j c lease deadline gone)
  then show ?thesis using provs_okD[OF inv cancel_failed(2)] provs_unique[OF inv, of p j] inv
    by (auto simp: provs_ok_def step_defs less_Suc_eq dest: running_job split: if_splits)
next
  case (owner p j res)
  then show ?thesis using provs_okD[OF inv owner(2)] provs_unique[OF inv, of p j] inv
    by (auto simp: provs_ok_def step_defs less_Suc_eq dest: running_job split: if_splits)
next
  case (awaited n j p res)
  then show ?thesis using inv inflight_over_cases[of n j res w]
    by (auto simp: provs_ok_def set_run_def destroyOnce_def split: option.splits)
next
  case (rebuilt listing grace)
  show ?thesis unfolding rebuilt(1)
    using rebuilt inv by (intro adopt_listed_preserves[of provs_ok]) (auto intro: provs_adopt provs_ready)
qed (((frule provs_okD[OF inv])?, use inv in \<open>auto simp: provs_ok_def step_defs map_of_snoc less_Suc_eq
      simp del: map_of_append dest: running_job split: if_splits option.splits\<close>)[1])+

lemma labels_okD:
  assumes "labels_ok w" "jw_provs w p = s"
  shows "\<forall>j c. prov_container s = Some (j, c) \<longrightarrow> jw_label w c = j \<and> c < jw_next w"
  using assms by (auto simp: labels_ok_def)

lemma labels_fresh:
  assumes "labels_ok w"
  shows "\<forall>j r. map_of (jw_jobs w) j = Some r \<longrightarrow> jr_container r \<noteq> jw_next w"
    "\<forall>p j. prov_container (jw_provs w p) \<noteq> Some (j, jw_next w)"
    "\<forall>j. (j, jw_next w) \<notin> jw_orphans w" "jw_next w \<notin> jw_live w" "jw_next w \<notin> jw_made w"
  using assms unfolding labels_ok_def by (metis less_irrefl UnCI)+

lemma labels_adopt: "labels_ok w \<Longrightarrow> listed w mc \<Longrightarrow> labels_ok (adopt cfg (mc_jobId mc) (mc_container mc) lease t w)"
  by (auto simp: labels_ok_def listed_def adopt_def add_record_def less_Suc_eq split: if_splits)

lemma labels_ready: "labels_ok w \<Longrightarrow> labels_ok (w\<lparr>jw_rebuilt := True\<rparr>)"
  by (simp add: labels_ok_def)

lemma labels_step:
  assumes "job_step cfg w w'" and inv: "labels_ok w"
  shows "labels_ok w'"
  using assms(1)
proof (cases rule: job_step.cases)
  case (awaited n j p res)
  then show ?thesis using inv inflight_over_cases[of n j res w]
    by (auto simp: labels_ok_def set_run_def destroyOnce_def split: option.splits)
next
  case (started p j pol lease deadline extra opts)
  then show ?thesis using inv labels_fresh[OF inv]
    by (auto simp: labels_ok_def container_started_def set_prov_def Let_def less_Suc_eq)
next
  case (rebuilt listing grace)
  show ?thesis unfolding rebuilt(1)
    using rebuilt inv by (intro adopt_listed_preserves[of labels_ok]) (auto intro: labels_adopt labels_ready)
qed (((frule labels_okD[OF inv])?, use inv in \<open>auto simp: labels_ok_def listed_def step_defs less_Suc_eq
      split: if_splits option.splits\<close>; fail)[1])+

lemma runs_okD:
  assumes "runs_ok w" "jw_runs w n = s"
  shows "(\<forall>j. run_job s = Some j \<longrightarrow> map_of (jw_destroyRuns w) j = Some n) \<and>
    (\<forall>j ref c. run_record s = Some (j, ref, c) \<longrightarrow>
       (\<exists>r. map_of (jw_jobs w) j = Some r \<and> jr_ref r = ref \<and> jr_container r = c)) \<and> (s \<noteq> R_none \<longrightarrow> n < jw_next w)"
  using assms unfolding runs_ok_def by blast

lemma runs_unique:
  "runs_ok w \<Longrightarrow> run_job (jw_runs w n) = Some j \<Longrightarrow> run_job (jw_runs w m) = Some j \<Longrightarrow> n = m"
  unfolding runs_ok_def by (metis option.inject)

lemma runs_untracked:
  "runs_ok w \<Longrightarrow> map_of (jw_jobs w) j = None \<Longrightarrow> run_record (jw_runs w n) \<noteq> Some (j, ref, c)"
  unfolding runs_ok_def by force

lemma runs_adopt: "runs_ok w \<Longrightarrow> runs_ok (adopt cfg j c lease t w)"
  using runs_untracked[of w j]
  by (fastforce simp: runs_ok_def adopt_def add_record_def split: if_splits)

lemma runs_ready: "runs_ok w \<Longrightarrow> runs_ok (w\<lparr>jw_rebuilt := True\<rparr>)"
  by (simp add: runs_ok_def)

lemma runs_step:
  assumes "job_step cfg w w'" and inv: "runs_ok w" and pr: "provs_ok w" and lb: "labels_ok w"
  shows "runs_ok w'"
  using assms(1)
proof (cases rule: job_step.cases)
  case (started p j pol lease deadline extra opts)
  have "jw_runs w n = R_withdraw j' ref (jw_next w) \<Longrightarrow> False" for n j' ref
    using runs_okD[OF inv, of n "R_withdraw j' ref (jw_next w)"] labels_fresh(1)[OF lb] by auto
  then show ?thesis using started inv
    by (auto simp: runs_ok_def container_started_def set_prov_def Let_def less_Suc_eq)
next
  case (returned p j c lease deadline)
  then show ?thesis using provs_okD[OF pr returned(2)] runs_untracked[OF inv, of j] inv
    by (fastforce simp: runs_ok_def step_defs less_Suc_eq)
next
  case (cancel_failed p j c lease deadline gone)
  then show ?thesis using provs_okD[OF pr cancel_failed(2)] runs_untracked[OF inv, of j] inv
    by (fastforce simp: runs_ok_def step_defs less_Suc_eq)
next
  case (forgotten n j ref c ok)
  then show ?thesis using runs_okD[OF inv forgotten(2)] runs_unique[OF inv, of n j] record_run_job inv
    by (fastforce simp: runs_ok_def step_defs)
next
  case (awaited n j p res)
  then show ?thesis using inv inflight_over_cases[of n j res w] runs_okD[OF inv awaited(2)]
    by (auto simp: runs_ok_def set_run_def destroyOnce_def split: if_splits option.splits)
next
  case (run_over n j res)
  then show ?thesis using runs_okD[OF inv run_over(2)] runs_unique[OF inv, of n j] inv
    by (fastforce simp: runs_ok_def step_defs)
next
  case (renewed j ttl)
  then show ?thesis using inv by (fastforce simp: runs_ok_def renew_def split: option.splits)
next
  case (rebuilt listing grace)
  show ?thesis unfolding rebuilt(1)
    using rebuilt inv by (intro adopt_listed_preserves[of runs_ok]) (auto intro: runs_adopt runs_ready)
qed (((frule runs_okD[OF inv])?, use inv in \<open>auto simp: runs_ok_def step_defs less_Suc_eq map_of_snoc
      simp del: map_of_append split: if_splits option.splits\<close>; fail)[1])+

section \<open>Containers and their handles\<close>

definition holds :: "daemon_world \<Rightarrow> string \<Rightarrow> nat \<Rightarrow> bool" where
  "holds w j c \<longleftrightarrow> (\<exists>r. map_of (jw_jobs w) j = Some r \<and> jr_container r = c) \<or>
     (\<exists>p. prov_container (jw_provs w p) = Some (j, c))"

text \<open>A container is held at one place: by the record of its job or by the provision of its job.\<close>

lemma prov_holds_alone:
  assumes "provs_ok w" "labels_ok w" "prov_container (jw_provs w p) = Some (j, c)"
  shows "prov_container (jw_provs w q) = Some (j', c') \<Longrightarrow> (j' = j \<or> c' = c) \<Longrightarrow> q = p"
    "map_of (jw_jobs w) j = None"
    "map_of (jw_jobs w) j' = Some r \<Longrightarrow> jr_container r \<noteq> c"
proof -
  have j: "jw_label w c = j" "prov_job (jw_provs w p) = Some j" "prov_running (jw_provs w p) = Some j"
    using assms container_running running_job by (auto simp: labels_ok_def)
  show "q = p" if "prov_container (jw_provs w q) = Some (j', c')" "j' = j \<or> c' = c"
  proof -
    have "jw_label w c' = j'" "prov_job (jw_provs w q) = Some j'"
      using that(1) assms(2) container_running running_job by (auto simp: labels_ok_def)
    then show ?thesis using provs_unique[OF assms(1) j(2)] that(2) j(1) by metis
  qed
  show n: "map_of (jw_jobs w) j = None" using assms(1) j(3) by (auto simp: provs_ok_def)
  show "jr_container r \<noteq> c" if "map_of (jw_jobs w) j' = Some r"
    using that assms(2) n j(1) by (auto simp: labels_ok_def)
qed

lemma record_holds_alone:
  assumes "provs_ok w" "labels_ok w" "runs_ok w" "run_record (jw_runs w n) = Some (j, ref, c)"
  shows "prov_container (jw_provs w q) \<noteq> Some (j', c)"
    "map_of (jw_jobs w) j' = Some r \<Longrightarrow> jr_container r = c \<Longrightarrow> j' = j"
proof -
  obtain r0 where r0: "map_of (jw_jobs w) j = Some r0" "jr_container r0 = c"
    using assms(3,4) unfolding runs_ok_def by blast
  then show "prov_container (jw_provs w q) \<noteq> Some (j', c)" using prov_holds_alone(3)[OF assms(1,2)] by blast
  show "j' = j" if "map_of (jw_jobs w) j' = Some r" "jr_container r = c"
    using that r0 assms(2) unfolding labels_ok_def by metis
qed

lemma untracked_holds:
  assumes "provs_ok w" "map_of (jw_jobs w) j = None" "map_of (jw_inflight w) j = None"
  shows "\<not> holds w j c"
proof -
  have "prov_container (jw_provs w p) \<noteq> Some (j, c)" for p
    using assms(1,3) container_running running_job unfolding provs_ok_def by (metis option.distinct(1))
  then show ?thesis using assms(2) by (simp add: holds_def)
qed

end
