(* ===== verification/JobHandles.thy ===== *)
theory JobHandles
  imports JobRegistry
begin

text \<open>
  No container of the daemon loses its handle: one it has created and that still exists is in the hands of the record
  or the provision of its job, unless a create whose rollback failed too has reported it as stranded; one that is
  gone was torn down on request; and the orphan sweep only works on containers nobody holds.
\<close>

section \<open>Containers have handles\<close>

definition world_ok :: "daemon_world \<Rightarrow> bool" where
  "world_ok w \<longleftrightarrow>
     (\<forall>p j c. prov_container (jw_provs w p) = Some (j, c) \<longrightarrow> c \<in> jw_live w \<and> c \<in> jw_made w \<and> c \<notin> jw_stranded w) \<and>
     (\<forall>c. c \<in> jw_made w \<longrightarrow> c \<in> jw_live w \<longrightarrow> c \<notin> jw_stranded w \<longrightarrow> holds w (jw_label w c) c) \<and>
     (\<forall>c. c \<in> jw_made w \<longrightarrow> c \<notin> jw_live w \<longrightarrow> c \<notin> jw_stranded w \<longrightarrow> c \<in> jw_doomed w) \<and>
     (\<forall>j c. (j, c) \<in> jw_orphans w \<longrightarrow> \<not> holds w j c \<and> jw_rebuilt w) \<and>
     jw_stranded w \<subseteq> jw_made w \<and>
     (\<forall>p j c l d. jw_provs w p = P_teardown j c l d \<longrightarrow> c \<in> jw_doomed w) \<and>
     (\<forall>n j ref c. jw_runs w n = R_teardown j ref c \<longrightarrow> c \<in> jw_doomed w)"

lemma world_facts:
  assumes "world_ok w"
  shows "prov_container (jw_provs w p) = Some (j, c) \<Longrightarrow> c \<in> jw_live w \<and> c \<in> jw_made w \<and> c \<notin> jw_stranded w"
    "c \<in> jw_made w \<Longrightarrow> c \<in> jw_live w \<Longrightarrow> c \<notin> jw_stranded w \<Longrightarrow> holds w (jw_label w c) c"
    "c \<in> jw_made w \<Longrightarrow> c \<notin> jw_live w \<Longrightarrow> c \<notin> jw_stranded w \<Longrightarrow> c \<in> jw_doomed w"
    "(j, c) \<in> jw_orphans w \<Longrightarrow> \<not> holds w j c \<and> jw_rebuilt w"
    "jw_stranded w \<subseteq> jw_made w"
    "jw_provs w p = P_teardown j c l d \<Longrightarrow> c \<in> jw_doomed w"
    "jw_runs w n = R_teardown j ref c \<Longrightarrow> c \<in> jw_doomed w"
  using assms unfolding world_ok_def by blast+

lemma world_okD:
  assumes "world_ok w" "jw_provs w p = s"
  shows "(\<forall>j c. prov_container s = Some (j, c) \<longrightarrow> c \<in> jw_live w \<and> c \<in> jw_made w \<and> c \<notin> jw_stranded w) \<and>
    (\<forall>j c l d. s = P_teardown j c l d \<longrightarrow> c \<in> jw_doomed w)"
  using assms unfolding world_ok_def by blast

text \<open>How a step changes what is held: not at all, one container more, one less.\<close>

lemma holds_alt:
  "holds w j c \<longleftrightarrow> map_option jr_container (map_of (jw_jobs w) j) = Some c \<or> (\<exists>p. prov_container (jw_provs w p) = Some (j, c))"
  by (auto simp: holds_def)

lemma holds_same:
  assumes "\<And>j. map_option jr_container (map_of (jw_jobs w') j) = map_option jr_container (map_of (jw_jobs w) j)"
    "\<And>p. prov_container (jw_provs w' p) = prov_container (jw_provs w p)"
  shows "holds w' j c = holds w j c"
  using assms by (simp add: holds_alt)

lemma holds_more:
  assumes "jw_jobs w' = jw_jobs w" "jw_provs w' = (jw_provs w)(p := s)" "prov_container (jw_provs w p) = None"
    "prov_container s = Some (j, c)"
  shows "holds w' j' c' \<longleftrightarrow> holds w j' c' \<or> j' = j \<and> c' = c"
  using assms(3,4) unfolding holds_alt assms(1,2) by (metis fun_upd_apply option.distinct(1) option.inject prod.inject)

lemma holds_less:
  assumes "provs_ok w" "labels_ok w" "jw_jobs w' = jw_jobs w" "jw_provs w' = (jw_provs w)(p := s)"
    "prov_container (jw_provs w p) = Some (j, c)" "prov_container s = None"
  shows "holds w' j' c' \<longleftrightarrow> holds w j' c' \<and> \<not> (j' = j \<and> c' = c)"
proof -
  note alone = prov_holds_alone[OF assms(1,2,5)]
  have "(\<exists>q. prov_container (((jw_provs w)(p := s)) q) = Some (j', c')) \<longleftrightarrow>
      (\<exists>q. prov_container (jw_provs w q) = Some (j', c')) \<and> \<not> (j' = j \<and> c' = c)" (is "?l \<longleftrightarrow> ?r \<and> _")
  proof
    assume ?l
    then obtain q where "q \<noteq> p" "prov_container (jw_provs w q) = Some (j', c')"
      using assms(6) by (metis fun_upd_apply option.distinct(1))
    then show "?r \<and> \<not> (j' = j \<and> c' = c)" using alone(1) by blast
  next
    assume r: "?r \<and> \<not> (j' = j \<and> c' = c)"
    then obtain q where q: "prov_container (jw_provs w q) = Some (j', c')" by blast
    then have "q \<noteq> p" using r assms(5) by auto
    then show ?l using q by (metis fun_upd_other)
  qed
  then show ?thesis using alone(2) by (auto simp: holds_alt assms(3,4))
qed

lemma holds_record:
  assumes "map_of (jw_jobs w) j = None" "jw_jobs w' = set_key j r (jw_jobs w)" "jw_provs w' = jw_provs w"
  shows "holds w' j' c' \<longleftrightarrow> holds w j' c' \<or> j' = j \<and> c' = jr_container r"
  using assms(1) by (auto simp: holds_alt assms(2,3))

lemma holds_moved:
  assumes "provs_ok w" "labels_ok w" "prov_container (jw_provs w p) = Some (j, c)" "prov_container s = None"
    "jw_jobs w' = set_key j r (jw_jobs w)" "jr_container r = c" "jw_provs w' = (jw_provs w)(p := s)"
  shows "holds w' j' c' = holds w j' c'"
proof -
  let ?w1 = "set_prov p s w"
  have "holds w' j' c' \<longleftrightarrow> holds ?w1 j' c' \<or> j' = j \<and> c' = c"
    using holds_record[of ?w1 j w' r] prov_holds_alone(2)[OF assms(1-3)] assms(5-7) by (simp add: set_prov_def)
  moreover have "holds ?w1 j' c' \<longleftrightarrow> holds w j' c' \<and> \<not> (j' = j \<and> c' = c)"
    by (rule holds_less[OF assms(1,2) _ _ assms(3,4)]) (simp_all add: set_prov_def)
  moreover have "holds w j c" using assms(3) by (auto simp: holds_alt)
  ultimately show ?thesis by blast
qed

text \<open>The invariant survives a step that starts no container, hands none over, and loses none but what was doomed.\<close>

lemma world_frame:
  assumes inv: "world_ok w"
    and h: "\<And>j c. holds w' j c \<Longrightarrow> holds w j c"
      "\<And>c. holds w (jw_label w c) c \<Longrightarrow> c \<in> jw_made w \<Longrightarrow> c \<in> jw_live w' \<Longrightarrow> c \<notin> jw_stranded w' \<Longrightarrow> holds w' (jw_label w c) c"
    and pc: "\<And>p j c. prov_container (jw_provs w' p) = Some (j, c) \<Longrightarrow>
      prov_container (jw_provs w p) = Some (j, c) \<and> (c \<in> jw_live w \<longrightarrow> c \<in> jw_live w') \<and> (c \<notin> jw_stranded w \<longrightarrow> c \<notin> jw_stranded w')"
    and live: "jw_live w' \<subseteq> jw_live w"
    and d: "\<And>c. c \<in> jw_made w \<Longrightarrow> c \<in> jw_live w \<Longrightarrow> c \<notin> jw_live w' \<Longrightarrow> c \<notin> jw_stranded w' \<Longrightarrow> c \<in> jw_doomed w'"
    and eq: "jw_made w' = jw_made w" "jw_label w' = jw_label w" "jw_rebuilt w' = jw_rebuilt w" "jw_doomed w \<subseteq> jw_doomed w'"
    and str: "jw_stranded w \<subseteq> jw_stranded w'" "jw_stranded w' \<subseteq> jw_made w"
    and o: "\<And>j c. (j, c) \<in> jw_orphans w' \<Longrightarrow> (j, c) \<in> jw_orphans w \<or> \<not> holds w j c \<and> jw_rebuilt w"
    and t: "\<And>p j c l d. jw_provs w' p = P_teardown j c l d \<Longrightarrow> jw_provs w p = P_teardown j c l d \<or> c \<in> jw_doomed w'"
      "\<And>n j ref c. jw_runs w' n = R_teardown j ref c \<Longrightarrow> jw_runs w n = R_teardown j ref c \<or> c \<in> jw_doomed w'"
  shows "world_ok w'"
proof -
  note f = world_facts[OF inv]
  have "c \<in> jw_live w' \<and> c \<in> jw_made w' \<and> c \<notin> jw_stranded w'" if "prov_container (jw_provs w' p) = Some (j, c)" for p j c
    using f(1)[of p j c] pc[OF that] unfolding eq(1) by blast
  moreover have "holds w' (jw_label w' c) c" if "c \<in> jw_made w'" "c \<in> jw_live w'" "c \<notin> jw_stranded w'" for c
    using that f(2)[of c] h(2)[of c] live str(1) unfolding eq(1,2) by blast
  moreover have "c \<in> jw_doomed w'" if "c \<in> jw_made w'" "c \<notin> jw_live w'" "c \<notin> jw_stranded w'" for c
    using that f(3)[of c] d[of c] str(1) eq(4) unfolding eq(1) by blast
  moreover have "\<not> holds w' j c \<and> jw_rebuilt w'" if "(j, c) \<in> jw_orphans w'" for j c
    using f(4)[of j c] o[OF that] h(1)[of j c] unfolding eq(3) by blast
  moreover have "c \<in> jw_doomed w'" if "jw_provs w' p = P_teardown j c l d" for p j c l d
    using f(6)[of p j c l d] t(1)[OF that] eq(4) by blast
  moreover have "c \<in> jw_doomed w'" if "jw_runs w' n = R_teardown j ref c" for n j ref c
    using f(7)[of n j ref c] t(2)[OF that] eq(4) by blast
  ultimately show ?thesis using str(2) unfolding world_ok_def eq(1) by blast
qed

text \<open>Only the stage of a provision changes, and no container with it.\<close>

lemma world_quiet:
  assumes "world_ok w" "\<And>j. map_option jr_container (map_of (jw_jobs w') j) = map_option jr_container (map_of (jw_jobs w) j)"
    "\<And>p. prov_container (jw_provs w' p) = prov_container (jw_provs w p)"
    "jw_live w' = jw_live w" "jw_made w' = jw_made w" "jw_stranded w' = jw_stranded w" "jw_label w' = jw_label w"
    "jw_orphans w' = jw_orphans w" "jw_rebuilt w' = jw_rebuilt w" "jw_doomed w \<subseteq> jw_doomed w'"
    "\<And>p j c l d. jw_provs w' p = P_teardown j c l d \<Longrightarrow> jw_provs w p = P_teardown j c l d \<or> c \<in> jw_doomed w'"
    "\<And>n j ref c. jw_runs w' n = R_teardown j ref c \<Longrightarrow> jw_runs w n = R_teardown j ref c \<or> c \<in> jw_doomed w'"
  shows "world_ok w'"
proof -
  have h: "holds w' j c = holds w j c" for j c by (rule holds_same[OF assms(2,3)])
  show ?thesis by (rule world_frame[OF assms(1)]) (use assms(3-12) world_facts(5)[OF assms(1)] h in \<open>simp_all\<close>)
qed

lemma world_adopt:
  assumes "world_ok w" "\<not> jw_rebuilt w"
  shows "world_ok (adopt cfg j c lease t w)"
proof (cases "map_of (jw_jobs w) j = None \<and> map_of (jw_inflight w) j = None \<and> j \<notin> jw_destroying w")
  case True
  let ?w = "add_record j c lease (t + dc_maxLifetimeMs cfg) w"
  have h: "holds ?w j' c' \<longleftrightarrow> holds w j' c' \<or> j' = j \<and> c' = c" for j' c'
    using holds_record[of w j ?w] True by (simp add: add_record_def)
  have "jw_orphans w = {}" using assms by (auto simp: world_ok_def)
  then have "world_ok ?w" using assms unfolding world_ok_def h by (simp add: add_record_def)
  then show ?thesis using True by (simp add: adopt_def)
qed (use assms in \<open>auto simp: adopt_def\<close>)

lemma world_ready: "world_ok w \<Longrightarrow> world_ok (w\<lparr>jw_rebuilt := True\<rparr>)"
  by (simp add: world_ok_def holds_def)

lemma world_started:
  assumes inv: "world_ok w" and lb: "labels_ok w" and p: "jw_provs w p = P_engine j pol l d extra"
  shows "world_ok (container_started p j lease deadline opts w)" (is "world_ok ?w")
proof -
  have h: "holds ?w j' c' \<longleftrightarrow> holds w j' c' \<or> j' = j \<and> c' = jw_next w" for j' c'
    by (rule holds_more[of _ w p "P_started j (jw_next w) lease deadline"])
      (simp_all add: container_started_def set_prov_def Let_def p)
  have s: "jw_live ?w = insert (jw_next w) (jw_live w)" "jw_made ?w = insert (jw_next w) (jw_made w)"
    "jw_label ?w = (jw_label w)(jw_next w := j)" "jw_provs ?w = (jw_provs w)(p := P_started j (jw_next w) lease deadline)"
    "jw_stranded ?w = jw_stranded w" "jw_doomed ?w = jw_doomed w" "jw_runs ?w = jw_runs w" "jw_orphans ?w = jw_orphans w"
    "jw_rebuilt ?w = jw_rebuilt w"
    by (simp_all add: container_started_def set_prov_def Let_def)
  show ?thesis using inv labels_fresh[OF lb] unfolding world_ok_def h s by auto
qed

text \<open>A provision that holds a container gives it up, or hands it to the record.\<close>

lemma world_dropped:
  assumes inv: "world_ok w" and pr: "provs_ok w" and lb: "labels_ok w"
    and p: "prov_container (jw_provs w p) = Some (j, c)" "prov_container s = None"
    and s: "jw_jobs w' = jw_jobs w" "jw_provs w' = (jw_provs w)(p := s)" "jw_label w' = jw_label w" "jw_made w' = jw_made w"
      "jw_runs w' = jw_runs w" "jw_orphans w' = jw_orphans w" "jw_rebuilt w' = jw_rebuilt w" "jw_doomed w \<subseteq> jw_doomed w'"
    and c: "jw_live w' = jw_live w - {c} \<and> c \<in> jw_doomed w' \<and> jw_stranded w' = jw_stranded w \<or>
      jw_live w' = jw_live w \<and> jw_stranded w' = insert c (jw_stranded w)"
  shows "world_ok w'"
proof -
  have h: "holds w' j' c' \<longleftrightarrow> holds w j' c' \<and> \<not> (j' = j \<and> c' = c)" for j' c'
    by (rule holds_less[OF pr lb s(1,2) p])
  have q: "prov_container (((jw_provs w)(p := s)) q) = Some (j', c') \<Longrightarrow>
      prov_container (jw_provs w q) = Some (j', c') \<and> c' \<noteq> c" for q j' c'
    using prov_holds_alone(1)[OF pr lb p(1), of q j' c'] p(2) by (cases "q = p") auto
  show ?thesis
  proof (rule world_frame[OF inv])
    fix q j' c' l d
    show "jw_provs w' q = P_teardown j' c' l d \<Longrightarrow> jw_provs w q = P_teardown j' c' l d \<or> c' \<in> jw_doomed w'"
      using p(2) s(2) by (cases "q = p") auto
  next
    fix q j' c'
    show "prov_container (jw_provs w' q) = Some (j', c') \<Longrightarrow> prov_container (jw_provs w q) = Some (j', c') \<and>
      (c' \<in> jw_live w \<longrightarrow> c' \<in> jw_live w') \<and> (c' \<notin> jw_stranded w \<longrightarrow> c' \<notin> jw_stranded w')"
      using q[of q j' c'] c unfolding s(2) by auto
  qed (use s h c world_facts(1)[OF inv p(1)] world_facts(5)[OF inv] in auto)
qed

lemma world_handed_over:
  assumes inv: "world_ok w" and pr: "provs_ok w" and lb: "labels_ok w"
    and p: "prov_container (jw_provs w p) = Some (j, c)" "prov_container s = None"
    and s: "jw_jobs w' = set_key j r (jw_jobs w)" "jr_container r = c" "jw_provs w' = (jw_provs w)(p := s)"
      "jw_label w' = jw_label w" "jw_made w' = jw_made w" "jw_stranded w' = jw_stranded w" "jw_runs w' = jw_runs w"
      "jw_orphans w' = jw_orphans w" "jw_rebuilt w' = jw_rebuilt w" "jw_doomed w' = jw_doomed w"
    and c: "jw_live w' = jw_live w \<or> jw_live w' = jw_live w - {c} \<and> c \<in> jw_doomed w"
  shows "world_ok w'"
proof -
  have h: "holds w' j' c' = holds w j' c'" for j' c' by (rule holds_moved[OF pr lb p s(1-3)])
  have q: "prov_container (((jw_provs w)(p := s)) q) = Some (j', c') \<Longrightarrow>
      prov_container (jw_provs w q) = Some (j', c') \<and> c' \<noteq> c" for q j' c'
    using prov_holds_alone(1)[OF pr lb p(1), of q j' c'] p(2) by (cases "q = p") auto
  show ?thesis
  proof (rule world_frame[OF inv])
    fix q j' c' l d
    show "jw_provs w' q = P_teardown j' c' l d \<Longrightarrow> jw_provs w q = P_teardown j' c' l d \<or> c' \<in> jw_doomed w'"
      using p(2) s(3) by (cases "q = p") auto
  next
    fix q j' c'
    show "prov_container (jw_provs w' q) = Some (j', c') \<Longrightarrow> prov_container (jw_provs w q) = Some (j', c') \<and>
      (c' \<in> jw_live w \<longrightarrow> c' \<in> jw_live w') \<and> (c' \<notin> jw_stranded w \<longrightarrow> c' \<notin> jw_stranded w')"
      using q[of q j' c'] c unfolding s(3,6) by auto
  qed (use s h c world_facts(5)[OF inv] in auto)
qed

text \<open>The teardown of a registered container ends, or an orphan is removed: no provision holds it.\<close>

lemma world_removed:
  assumes inv: "world_ok w" and live: "jw_live w' = jw_live w \<or> jw_live w' = jw_live w - {c}"
    and c: "\<And>p j. prov_container (jw_provs w p) \<noteq> Some (j, c)"
      "c \<in> jw_made w \<Longrightarrow> c \<in> jw_live w \<Longrightarrow> c \<notin> jw_stranded w \<Longrightarrow> c \<in> jw_doomed w"
    and s: "jw_jobs w' = jw_jobs w" "jw_provs w' = jw_provs w" "jw_label w' = jw_label w" "jw_made w' = jw_made w"
      "jw_stranded w' = jw_stranded w" "jw_orphans w' \<subseteq> jw_orphans w" "jw_rebuilt w' = jw_rebuilt w" "jw_doomed w' = jw_doomed w"
      "\<And>n j ref c. jw_runs w' n = R_teardown j ref c \<Longrightarrow> jw_runs w n = R_teardown j ref c"
  shows "world_ok w'"
proof -
  have h: "holds w' j' c' = holds w j' c'" for j' c' by (rule holds_same) (simp_all add: s(1,2))
  show ?thesis
  proof (rule world_frame[OF inv])
    fix q j' c'
    show "prov_container (jw_provs w' q) = Some (j', c') \<Longrightarrow> prov_container (jw_provs w q) = Some (j', c') \<and>
      (c' \<in> jw_live w \<longrightarrow> c' \<in> jw_live w') \<and> (c' \<notin> jw_stranded w \<longrightarrow> c' \<notin> jw_stranded w')"
      using c(1)[of q j'] live unfolding s(2,5) by auto
  qed (use s h c(2) live world_facts(5)[OF inv] in auto)
qed

lemma world_forgotten:
  assumes inv: "world_ok w" and ru: "runs_ok w" and r: "jw_runs w n = R_withdraw j ref c"
  shows "world_ok (forget n j ref ok w)" (is "world_ok ?w")
proof -
  obtain rec where rec: "map_of (jw_jobs w) j = Some rec" "jr_ref rec = ref" "jr_container rec = c"
    using runs_okD[OF ru r] by auto
  have dead: "c \<notin> jw_live w" using ru r unfolding runs_ok_def by blast
  have j: "map_of (jw_jobs ?w) = (map_of (jw_jobs w))(j := None)" "jw_provs ?w = jw_provs w"
    using rec by (auto simp: forget_def withdraw_grant_def set_run_def Let_def fun_eq_iff)
  have h: "holds ?w j' c' \<longleftrightarrow> (if j' = j then (\<exists>p. prov_container (jw_provs w p) = Some (j, c')) else holds w j' c')" for j' c'
    by (simp add: holds_alt j)
  have s: "jw_live ?w = jw_live w" "jw_made ?w = jw_made w" "jw_stranded ?w = jw_stranded w" "jw_label ?w = jw_label w"
    "jw_orphans ?w = jw_orphans w" "jw_rebuilt ?w = jw_rebuilt w" "jw_doomed ?w = jw_doomed w"
    "jw_runs ?w = (jw_runs w)(n := R_settled j (Inr True))"
    using rec by (simp_all add: forget_def withdraw_grant_def set_run_def Let_def)
  have k: "holds w j c' \<Longrightarrow> c' \<in> jw_live w \<Longrightarrow> \<exists>p. prov_container (jw_provs w p) = Some (j, c')" for c'
    using rec dead by (auto simp: holds_alt)
  show ?thesis
  proof (rule world_frame[OF inv])
    show "holds ?w (jw_label w c') c'" if "holds w (jw_label w c') c'" "c' \<in> jw_live ?w" for c'
      using that k[of c'] unfolding h s(1) by auto
    show "jw_runs ?w m = R_teardown j' ref' c' \<Longrightarrow> jw_runs w m = R_teardown j' ref' c' \<or> c' \<in> jw_doomed ?w" for m j' ref' c'
      unfolding s(8) by (cases "m = n") auto
  qed (use s j(2) h world_facts(5)[OF inv] in \<open>auto simp: holds_alt split: if_splits\<close>)
qed

lemma world_destroyOnce: "world_ok w \<Longrightarrow> world_ok (destroyOnce n j w)"
  by (erule world_quiet) (auto simp: destroyOnce_def set_run_def split: if_splits option.splits)

lemma world_run_settled: "world_ok w \<Longrightarrow> world_ok (set_run n (R_settled j res) w)"
  by (erule world_quiet) (auto simp: set_run_def split: if_splits)

lemma world_step:
  assumes "job_step cfg w w'" and inv: "world_ok w" and pr: "provs_ok w" and lb: "labels_ok w" and ru: "runs_ok w"
  shows "world_ok w'"
  using assms(1)
proof (cases rule: job_step.cases)
  case (created j ttl tok)
  have "jw_provs w (jw_next w) = P_none" using pr unfolding provs_ok_def by blast
  then show ?thesis using created
    by (intro world_quiet[OF inv]) (auto simp: create_def answer_def set_prov_def split: if_splits option.splits)
next
  case (started p j pol lease deadline extra opts)
  then show ?thesis using world_started[OF inv lb] by simp
next
  case (rolled_back p j c lease deadline removed)
  then show ?thesis
    by (intro world_dropped[OF inv pr lb, of p j c "P_withdraw j Create_failed"]) (auto simp: create_rolled_back_def set_prov_def)
next
  case (returned p j c lease deadline)
  show ?thesis
  proof (cases "j \<in> jw_cancelled w")
    case True
    show ?thesis by (rule world_quiet[OF inv]) (use returned True in \<open>auto simp: engine_returned_def set_prov_def split: if_splits\<close>)
  next
    case False
    then show ?thesis using returned
      by (intro world_handed_over[OF inv pr lb, of p j c "P_settled j (Inr c)"]) (auto simp: engine_returned_def set_prov_def add_record_def)
  qed
next
  case (cancelled p j c lease deadline)
  then show ?thesis using world_facts(6)[OF inv cancelled(2)]
    by (intro world_dropped[OF inv pr lb, of p j c "P_withdraw j Job_cancelled"]) (auto simp: set_prov_def)
next
  case (cancel_failed p j c lease deadline gone)
  then show ?thesis using world_facts(6)[OF inv cancel_failed(2)]
    by (intro world_handed_over[OF inv pr lb, of p j c "P_settled j (Inl Cleanup_failed)"]) (auto simp: set_prov_def add_record_def)
next
  case (torn_down n j ref c)
  then show ?thesis using record_holds_alone[OF pr lb ru, of n j ref c] world_facts(7)[OF inv torn_down(2)]
    by (intro world_removed[OF inv, of _ c]) (auto simp: teardown_done_def set_run_def split: if_splits)
next
  case (tear_failed n j ref c gone)
  then show ?thesis using record_holds_alone[OF pr lb ru, of n j ref c] world_facts(7)[OF inv tear_failed(2)]
    by (intro world_removed[OF inv, of _ c]) (auto simp: teardown_failed_def set_run_def split: if_splits)
next
  case (forgotten n j ref c ok)
  then show ?thesis using world_forgotten[OF inv ru] by simp
next
  case (awaited n j p res)
  then show ?thesis using inflight_over_cases[of n j res w] world_destroyOnce[OF inv] world_run_settled[OF inv] by metis
next
  case (destroyed j)
  have "world_ok (w\<lparr>jw_next := jw_next w + 1, jw_destroyRuns := jw_destroyRuns w @ [(j, jw_next w)]\<rparr>)"
    by (rule world_quiet[OF inv]) auto
  then show ?thesis using destroyed inv world_destroyOnce by (simp add: destroy_def)
next
  case (rebuilt listing grace)
  show ?thesis unfolding rebuilt(1)
    using rebuilt inv by (intro adopt_listed_preserves[of world_ok]) (auto intro: world_adopt world_ready)
next
  case (orphaned mc)
  then show ?thesis using inv untracked_holds[OF pr, of "mc_jobId mc" "mc_container mc"]
    by (cases "tracks (mc_jobId mc) w") (auto simp: orphan_start_def tracks_def world_ok_def holds_def)
next
  case (orphan_gone j c gone)
  have n: "\<not> holds w j c" "jw_label w c = j" using world_facts(4)[OF inv orphan_gone(2)] lb orphan_gone(2)
    by (auto simp: labels_ok_def)
  have "prov_container (jw_provs w p) \<noteq> Some (j', c)" for p j'
    using n lb unfolding holds_alt labels_ok_def by blast
  then show ?thesis using orphan_gone world_facts(2)[OF inv, of c] n
    by (intro world_removed[OF inv, of _ c]) (auto simp: orphan_done_def)
next
  case restarted
  then show ?thesis by (auto simp: world_ok_def restart_def holds_def)
qed ((rule world_quiet[OF inv]; auto simp: step_defs split: if_splits option.splits; fail)[1])+

end
