(* ===== verification/ContainerSound.thy ===== *)
theory ContainerSound
  imports ContainerClamp DaemonSound
begin

text \<open>
  What the clamp guarantees about a container whose policy the policy client let through, whatever the plugin
  sent; that the resources of two jobs never share a name; and where the limits stop being limits.
\<close>

section \<open>Names\<close>

lemma split_char_length: "length s + 1 = sum_list (map length (split_char d s)) + length (split_char d s)"
  by (induction s) (auto split: list.splits)

lemma split_char_chars: "c \<in> set s \<Longrightarrow> c = d \<or> (\<exists>p \<in> set (split_char d s). c \<in> set p)"
  by (induction s) (auto split: list.splits)

lemma uuid_shape:
  assumes "UUID_RE j"
  shows "length j = 36" "CHR '':'' \<notin> set j" "CHR ''/'' \<notin> set j"
proof -
  let ?ws = "split_char CHR ''-'' j"
  have l: "map length ?ws = [8, 4, 4, 4, 12]" and h: "list_all (list_all is_hex) ?ws"
    using assms by (simp_all add: UUID_RE_def Let_def)
  have "length ?ws = 5" using arg_cong[OF l, of length] by simp
  then show "length j = 36" using split_char_length[of j "CHR ''-''"] l by simp
  have "is_hex c" if "c \<in> set j" "c \<noteq> CHR ''-''" for c
    using split_char_chars[OF that(1), of "CHR ''-''"] that(2) h by (auto simp: list_all_iff)
  moreover have "\<not> is_hex CHR '':''" "\<not> is_hex CHR ''/''" by code_simp+
  ultimately show "CHR '':'' \<notin> set j" "CHR ''/'' \<notin> set j" by auto
qed

definition job_volumes :: "string \<Rightarrow> string set" where
  "job_volumes j = {jobVolumeName j, dindVolumeName j, dindCertsVolumeName j}"

lemma job_volumes_disjoint:
  assumes "UUID_RE j" "UUID_RE j'" "v \<in> job_volumes j" "v \<in> job_volumes j'"
  shows "j = j'"
  using assms(3,4) uuid_shape(1)[OF assms(1)] uuid_shape(1)[OF assms(2)]
  by (auto simp: job_volumes_def jobVolumeName_def dindVolumeName_def dindCertsVolumeName_def append_eq_append_conv)

definition bind_source :: "string \<Rightarrow> string" where
  "bind_source b = takeWhile (\<lambda>c. c \<noteq> CHR '':'') b"

lemma bind_source_append: "CHR '':'' \<notin> set v \<Longrightarrow> bind_source (v @ CHR '':'' # rest) = v"
  by (induction v) (auto simp: bind_source_def)

section \<open>The container of a job\<close>

text \<open>What the clamp builds, as far as isolation goes.\<close>

definition isolated :: "string \<Rightarrow> clamp_limits \<Rightarrow> create_options \<Rightarrow> bool" where
  "isolated j limits opts \<longleftrightarrow>
     co_User opts = Some ''1000:1000'' \<and>
     (let hc = co_HostConfig opts in
      hc_NetworkMode hc = jobNetworkName j \<and>
      (\<forall>b \<in> set (hc_Binds hc). bind_source b \<in> job_volumes j) \<and>
      hc_ReadonlyRootfs hc = Some True \<and> hc_CapDrop hc = Some [''ALL''] \<and> \<not> hc_Privileged hc \<and>
      hc_SecurityOpt hc = [''no-new-privileges:true''] \<and> hc_MemorySwap hc = hc_Memory hc \<and>
      hc_Memory hc = cl_memoryBytes limits \<and> hc_NanoCpus hc = cl_nanoCpus limits \<and> hc_PidsLimit hc = cl_pidsLimit limits)"

lemma built_isolated:
  assumes "buildContainerCreateOptions args = Inr opts" "UUID_RE (ca_jobId args)"
    "ca_networkName args = jobNetworkName (ca_jobId args)" "ca_volumeName args = jobVolumeName (ca_jobId args)"
  shows "isolated (ca_jobId args) (ca_limits args) opts"
proof -
  let ?j = "ca_jobId args"
  have "CHR '':'' \<notin> set (jobVolumeName ?j)" "CHR '':'' \<notin> set (dindCertsVolumeName ?j)"
    using uuid_shape(2)[OF assms(2)] by (simp_all add: jobVolumeName_def dindCertsVolumeName_def)
  then have "bind_source (jobVolumeName ?j @ '':/workspace'') = jobVolumeName ?j"
    "bind_source (dindCertsVolumeName ?j @ '':'' @ DIND_TLS_CERTDIR @ '':ro'') = dindCertsVolumeName ?j"
    using bind_source_append by simp_all
  then show ?thesis using assms(1,3,4)
    by (auto simp: isolated_def buildContainerCreateOptions_def Let_def job_volumes_def split: option.splits)
qed

text \<open>The environment of the container is the policy's, but for the docker client of a docker-in-docker job.\<close>

definition dind_keys :: "string list" where
  "dind_keys = [''DOCKER_HOST'', ''DOCKER_TLS_VERIFY'', ''DOCKER_CERT_PATH'']"

definition container_env :: "(string \<times> string) list \<Rightarrow> string list \<Rightarrow> bool" where
  "container_env env lines \<longleftrightarrow>
     (\<forall>l \<in> set lines. \<exists>k v. l = k @ ''='' @ v \<and> (map_of env k = Some v \<or> k \<in> set dind_keys))"


lemma built_env:
  assumes "buildContainerCreateOptions args = Inr opts"
  shows "container_env (pr_env (ca_policy args)) (co_Env opts)"
proof -
  define e where "e = effective_env (ca_dockerInJob args = Some True) (pr_env (ca_policy args))"
  have k: "map_of e k = map_of (pr_env (ca_policy args)) k \<or> k \<in> set dind_keys" for k
    by (simp add: e_def effective_env_def dind_keys_def)
  have env: "co_Env opts = render_env e"
    using assms by (auto simp: buildContainerCreateOptions_def Let_def e_def split: option.splits)
  show ?thesis unfolding container_env_def env
  proof
    fix l assume "l \<in> set (render_env e)"
    then obtain key where l: "l = key @ ''='' @ the (map_of e key)" "key \<in> fst ` set e"
      by (auto simp: render_env_def)
    then obtain v where "map_of e key = Some v" by (metis map_of_eq_None_iff option.exhaust)
    then show "\<exists>k v. l = k @ ''='' @ v \<and> (map_of (pr_env (ca_policy args)) k = Some v \<or> k \<in> set dind_keys)"
      using l(1) k[of key] by (metis option.sel)
  qed
qed

section \<open>The limits\<close>

lemma js_positive_pos: "js_positive q \<Longrightarrow> 0 < q"
  unfolding js_positive_def by (metis less_trans zero_less_mult_pos2 zero_less_numeral zero_less_one zero_less_power)

lemma js_round_zero: "0 < q \<Longrightarrow> 0 \<le> js_round q \<and> (js_round q = 0 \<longleftrightarrow> q < 1 / 2)"
  unfolding js_round_def by (auto simp: floor_eq_iff)

lemma parsePositiveNumber_pos: "parsePositiveNumber raw = Some n \<Longrightarrow> 0 < n"
  by (auto simp: parsePositiveNumber_def js_positive_pos split: option.splits if_splits)

lemma parseSizeBytes_nonneg: "parseSizeBytes raw = Some b \<Longrightarrow> 0 \<le> b"
proof -
  have "0 \<le> js_round (n * f)" if "js_positive n" "size_unit u = Some f" for n f u
    using js_positive_pos[OF that(1)] that(2) by (auto simp: size_unit_def js_round_zero split: if_splits)
  then show "parseSizeBytes raw = Some b \<Longrightarrow> 0 \<le> b"
    by (auto simp: parseSizeBytes_def Let_def simp del: times_divide_eq_left split: option.splits if_splits)
qed

text \<open>A limit read from the environment is zero, which the engine takes for no limit, iff its value rounds to zero.\<close>

definition rounds_away :: "rat \<Rightarrow> string option \<Rightarrow> bool" where
  "rounds_away scale raw = (case parsePositiveNumber raw of None \<Rightarrow> False | Some n \<Rightarrow> n * scale < 1 / 2)"

lemma scaled_limit:
  assumes "0 < s" "1 / 2 \<le> d * s"
  shows "0 \<le> js_round (orelse (parsePositiveNumber raw) d * s) \<and>
    (js_round (orelse (parsePositiveNumber raw) d * s) = 0 \<longleftrightarrow> rounds_away s raw)"
proof (cases "parsePositiveNumber raw")
  case None
  then show ?thesis using assms js_round_zero[of "d * s"] by (simp add: orelse_def rounds_away_def)
next
  case (Some n)
  then show ?thesis using assms js_round_zero[of "n * s"] parsePositiveNumber_pos[OF Some] by (simp add: orelse_def rounds_away_def)
qed


lemma fractional_pids_unlimited:
  "cl_pidsLimit (resolveClampLimits [''DEV_JOB_PIDS'' \<mapsto> ''0.4'']) = 0"
proof -
  have "js_decimal ''0.4'' = Some (2 / 5)" "trim ''0.4'' = ''0.4''" "toLowerCase (take 2 ''0.4'') = ''0.''" by code_simp+
  moreover have "js_finite (2 / 5)" "js_positive (2 / 5)" by (simp_all add: js_finite_def js_positive_def)
  ultimately have "parsePositiveNumber (Some ''0.4'') = Some (2 / 5)" by (simp add: parsePositiveNumber_def js_Number_def Let_def)
  then show ?thesis by (simp add: resolveClampLimits_def orelse_def js_round_def Let_def floor_eq_iff)
qed

lemma parsers_on_examples:
  "js_decimal ''1e3'' = Some 1000" "js_radix 16 ''fF'' = Some 255" "js_decimal ''-2.5E-1'' = Some (- 1 / 4)" "js_decimal ''1 2'' = None"
  "js_decimal ''.'' = None" "js_decimal ''7.'' = Some 7"
  "toISOString 0 = ''1970-01-01T00:00:00.000Z''" "toISOString 951782400123 = ''2000-02-29T00:00:00.123Z''"
  "toISOString (- 1) = ''1969-12-31T23:59:59.999Z''"
  by code_simp+

end
