(* ===== verification/JobSound.thy ===== *)
theory JobSound
  imports JobHandles ContainerSound
begin

text \<open>
  What the runner daemon guarantees under any interleaving of creates, deletes, renewals, reaper passes, failures of
  the engine, the proxy and the plugin, and restarts: every container is confined and bounded in number and life,
  keeps its egress grant as long as it lives, and has a handle; and what a create can be answered with.
\<close>

section \<open>Deadlines\<close>

fun prov_deadline :: "prov \<Rightarrow> int option" where
  "prov_deadline (P_register _ _ _ _ d) = Some d"
| "prov_deadline (P_resolve _ _ _ d) = Some d"
| "prov_deadline (P_engine _ _ _ d _) = Some d"
| "prov_deadline _ = None"

fun container_deadline :: "prov \<Rightarrow> (nat \<times> int) option" where
  "container_deadline (P_started _ c _ d) = Some (c, d)"
| "container_deadline (P_teardown _ c _ d) = Some (c, d)"
| "container_deadline _ = None"

definition times_ok :: "daemon_cfg \<Rightarrow> daemon_world \<Rightarrow> bool" where
  "times_ok cfg w \<longleftrightarrow>
     (\<forall>p d. prov_deadline (jw_provs w p) = Some d \<longrightarrow> d \<le> jw_now w + dc_maxLifetimeMs cfg) \<and>
     (\<forall>p c d. container_deadline (jw_provs w p) = Some (c, d) \<longrightarrow> d \<le> jw_born w c + dc_maxLifetimeMs cfg) \<and>
     (\<forall>j r. map_of (jw_jobs w) j = Some r \<longrightarrow> jr_hardDeadlineAt r \<le> jw_born w (jr_container r) + dc_maxLifetimeMs cfg)"

lemma times_okD:
  assumes "times_ok cfg w" "jw_provs w p = s"
  shows "(\<forall>d. prov_deadline s = Some d \<longrightarrow> d \<le> jw_now w + dc_maxLifetimeMs cfg) \<and>
    (\<forall>c d. container_deadline s = Some (c, d) \<longrightarrow> d \<le> jw_born w c + dc_maxLifetimeMs cfg)"
  using assms unfolding times_ok_def by blast

lemma times_adopt: "times_ok cfg w \<Longrightarrow> listed w mc \<Longrightarrow> times_ok cfg (adopt cfg (mc_jobId mc) (mc_container mc) l (mc_createdAtMs mc) w)"
  by (auto simp: times_ok_def listed_def adopt_def add_record_def split: if_splits)

lemma times_ready: "times_ok cfg w \<Longrightarrow> times_ok cfg (w\<lparr>jw_rebuilt := True\<rparr>)"
  by (simp add: times_ok_def)

lemma container_deadline_container: "container_deadline s = Some (c, d) \<Longrightarrow> \<exists>j. prov_container s = Some (j, c)"
  by (cases s) auto

lemma times_step:
  assumes "job_step cfg w w'" and inv: "times_ok cfg w" and lb: "labels_ok w"
  shows "times_ok cfg w'"
  using assms(1)
proof (cases rule: job_step.cases)
  case (started p j pol lease deadline extra opts)
  have "container_deadline (jw_provs w q) \<noteq> Some (jw_next w, d)" for q d
    using container_deadline_container labels_fresh(2)[OF lb] by blast
  then show ?thesis using started inv times_okD[OF inv started(2)] labels_fresh(1)[OF lb]
    by (auto simp: times_ok_def container_started_def set_prov_def Let_def split: if_splits)
next
  case (awaited n j p res)
  then show ?thesis using inv inflight_over_cases[of n j res w]
    by (auto simp: times_ok_def set_run_def destroyOnce_def split: option.splits)
next
  case (rebuilt listing grace)
  show ?thesis unfolding rebuilt(1)
    using rebuilt inv by (intro adopt_listed_preserves[of "times_ok cfg"]) (auto intro: times_adopt times_ready)
next
  case (time d)
  then show ?thesis using inv by (fastforce simp: times_ok_def)
qed (((frule times_okD[OF inv])?, use inv in \<open>auto simp: times_ok_def step_defs split: if_splits option.splits\<close>; fail)[1])+

section \<open>Grants\<close>

definition granted :: "daemon_world \<Rightarrow> string \<Rightarrow> int \<Rightarrow> bool" where
  "granted w j d \<longleftrightarrow> (\<exists>al e. jw_egress w j = Some (al, e) \<and> d \<le> e)"

fun prov_grant :: "prov \<Rightarrow> (string \<times> int) option" where
  "prov_grant (P_resolve j _ _ d) = Some (j, d)"
| "prov_grant (P_engine j _ _ d _) = Some (j, d)"
| "prov_grant (P_started j _ _ d) = Some (j, d)"
| "prov_grant (P_teardown j _ _ d) = Some (j, d)"
| "prov_grant _ = None"

text \<open>A container of this daemon that exists and is not left to the orphan sweep.\<close>

definition owned :: "daemon_world \<Rightarrow> nat set" where
  "owned w = jw_made w \<inter> jw_live w - jw_stranded w"

definition egress_ok :: "daemon_world \<Rightarrow> bool" where
  "egress_ok w \<longleftrightarrow>
     (\<forall>p j d. prov_grant (jw_provs w p) = Some (j, d) \<longrightarrow> granted w j d) \<and>
     (\<forall>j r. map_of (jw_jobs w) j = Some r \<longrightarrow> jr_container r \<in> owned w \<longrightarrow> granted w j (jr_hardDeadlineAt r))"

lemma egress_okD:
  assumes "egress_ok w" "jw_provs w p = s"
  shows "\<forall>j d. prov_grant s = Some (j, d) \<longrightarrow> granted w j d"
  using assms unfolding egress_ok_def by blast

lemma grant_running: "prov_grant s = Some (j, d) \<Longrightarrow> prov_running s = Some j"
  by (cases s) auto

text \<open>The grant of a job changes only where its own provision or the teardown of its record says so.\<close>

lemma egress_frame:
  assumes inv: "egress_ok w"
    and p: "\<And>p j d. prov_grant (jw_provs w' p) = Some (j, d) \<Longrightarrow> prov_grant (jw_provs w p) = Some (j, d) \<or> granted w' j d"
    and r: "\<And>j r. map_of (jw_jobs w') j = Some r \<Longrightarrow> jr_container r \<in> owned w' \<Longrightarrow> granted w' j (jr_hardDeadlineAt r) \<or>
      (\<exists>r0. map_of (jw_jobs w) j = Some r0 \<and> jr_container r0 \<in> owned w \<and> jr_hardDeadlineAt r0 = jr_hardDeadlineAt r)"
    and e: "jw_egress w' = jw_egress w"
  shows "egress_ok w'"
proof -
  have "granted w' j d = granted w j d" for j d by (simp add: granted_def e)
  then show ?thesis using inv p r unfolding egress_ok_def by metis
qed

text \<open>Nobody else uses the grant of a job that is being provisioned.\<close>

lemma egress_changed:
  assumes inv: "egress_ok w" and pr: "provs_ok w" and p: "prov_running (jw_provs w p) = Some j"
    and w': "jw_jobs w' = jw_jobs w" "jw_provs w' = (jw_provs w)(p := s)" "owned w' = owned w"
      "\<And>j'. j' \<noteq> j \<Longrightarrow> jw_egress w' j' = jw_egress w j'"
    and s: "\<And>j' d. prov_grant s = Some (j', d) \<Longrightarrow> granted w' j' d"
  shows "egress_ok w'"
proof -
  have g: "granted w' j' d = granted w j' d" if "j' \<noteq> j" for j' d using w'(4)[OF that] by (simp add: granted_def)
  have "granted w' j' d" if q: "prov_grant (jw_provs w' q) = Some (j', d)" for q j' d
  proof (cases "q = p")
    case False
    then have "prov_job (jw_provs w q) = Some j'" using q w'(2) by (simp add: grant_running running_job)
    then have "j' \<noteq> j" using provs_unique[OF pr running_job[OF p], of q] False by blast
    moreover have "prov_grant (jw_provs w q) = Some (j', d)" using q False w'(2) by simp
    ultimately show ?thesis using inv g unfolding egress_ok_def by blast
  qed (use q s w'(2) in simp)
  moreover have "granted w' j' (jr_hardDeadlineAt r)" if "map_of (jw_jobs w') j' = Some r" "jr_container r \<in> owned w'" for j' r
  proof -
    have "map_of (jw_jobs w) j = None" using pr p by (auto simp: provs_ok_def)
    then have "j' \<noteq> j" using that(1) w'(1) by auto
    then show ?thesis using inv that g[of j'] unfolding egress_ok_def w'(1,3) by simp
  qed
  ultimately show ?thesis unfolding egress_ok_def by blast
qed

lemma owned_simps [simp]:
  "owned (set_prov p s w) = owned w" "owned (set_run n t w) = owned w" "owned (add_record j c l d w) = owned w"
  "owned (answer j b res w) = owned w" "owned (register_grant cfg j pol w) = owned w" "owned (withdraw_grant j ok w) = owned w"
  by (simp_all add: owned_def set_prov_def set_run_def add_record_def answer_def register_grant_def withdraw_grant_def)

lemma registration_covers: "jw_now w + dc_maxLifetimeMs cfg \<le> jw_now w + registration_ttl cfg * 1000"
proof -
  let ?q = "(- dc_maxLifetimeMs cfg) div 1000"
  have "?q * 1000 \<le> - dc_maxLifetimeMs cfg"
    using div_mult_mod_eq[of "- dc_maxLifetimeMs cfg" 1000] pos_mod_sign[of 1000 "- dc_maxLifetimeMs cfg"] by linarith
  moreover have "- ?q \<le> registration_ttl cfg" by (simp add: registration_ttl_def)
  ultimately show ?thesis by linarith
qed

text \<open>An adopted container is none of this daemon's own: those have a handle already.\<close>

lemma adopted_not_owned:
  assumes "world_ok w" "provs_ok w" "listed w mc"
    "map_of (jw_jobs w) (mc_jobId mc) = None" "map_of (jw_inflight w) (mc_jobId mc) = None"
  shows "mc_container mc \<notin> owned w"
proof -
  have "\<not> holds w (jw_label w (mc_container mc)) (mc_container mc)"
    using untracked_holds[OF assms(2,4,5)] assms(3) by (simp add: listed_def)
  then show ?thesis using world_facts(2)[OF assms(1), of "mc_container mc"] by (auto simp: owned_def)
qed

lemma egress_adopt:
  assumes inv: "egress_ok w" and wo: "world_ok w" and pr: "provs_ok w" and l: "listed w mc"
  shows "egress_ok (adopt cfg (mc_jobId mc) (mc_container mc) lease t w)"
proof (cases "map_of (jw_jobs w) (mc_jobId mc) = None \<and> map_of (jw_inflight w) (mc_jobId mc) = None \<and> mc_jobId mc \<notin> jw_destroying w")
  case True
  then have "mc_container mc \<notin> owned w" using adopted_not_owned[OF wo pr l] by simp
  then have "egress_ok (add_record (mc_jobId mc) (mc_container mc) lease (t + dc_maxLifetimeMs cfg) w)"
    by (intro egress_frame[OF inv]) (auto simp: add_record_def owned_def split: if_splits)
  then show ?thesis using True by (simp add: adopt_def)
qed (use inv in \<open>auto simp: adopt_def\<close>)

lemma egress_ready: "egress_ok w \<Longrightarrow> egress_ok (w\<lparr>jw_rebuilt := True\<rparr>)"
  by (simp add: egress_ok_def granted_def owned_def)

text \<open>A record is dropped with its grant; its container is gone.\<close>

lemma egress_forgotten:
  assumes inv: "egress_ok w" and pr: "provs_ok w" and ru: "runs_ok w" and r: "jw_runs w n = R_withdraw j ref c"
  shows "egress_ok (forget n j ref ok w)" (is "egress_ok ?w")
proof -
  obtain rec where rec: "map_of (jw_jobs w) j = Some rec" "jr_ref rec = ref"
    using runs_okD[OF ru r] by auto
  have s: "map_of (jw_jobs ?w) = (map_of (jw_jobs w))(j := None)" "jw_provs ?w = jw_provs w" "owned ?w = owned w"
    and e: "j' \<noteq> j \<Longrightarrow> jw_egress ?w j' = jw_egress w j'" for j'
    using rec by (auto simp: forget_def withdraw_grant_def set_run_def owned_def Let_def fun_eq_iff)
  have g: "j' \<noteq> j \<Longrightarrow> granted ?w j' d = granted w j' d" for j' d by (simp add: granted_def e)
  have "j' \<noteq> j" if "prov_grant (jw_provs w p) = Some (j', d)" for p j' d
    using pr rec(1) grant_running[OF that] by (auto simp: provs_ok_def)
  then show ?thesis using inv g unfolding egress_ok_def s by (auto split: if_splits)
qed

lemma egress_step:
  assumes "job_step cfg w w'" and inv: "egress_ok w" and wo: "world_ok w" and pr: "provs_ok w" and lb: "labels_ok w"
    and ru: "runs_ok w" and ti: "times_ok cfg w" and px: "dc_proxied cfg"
  shows "egress_ok w'"
  using assms(1)
proof (cases rule: job_step.cases)
  case (created j ttl tok)
  then show ?thesis
    by (intro egress_frame[OF inv]) (auto simp: create_def answer_def set_prov_def owned_def split: if_splits option.splits)
next
  case (registered p j pol tok lease deadline)
  have "deadline \<le> jw_now w + registration_ttl cfg * 1000"
    using times_okD[OF ti registered(2)] registration_covers[of w cfg] by simp
  then show ?thesis using registered
    by (intro egress_changed[OF inv pr, of p j _ "P_resolve j pol lease deadline"])
      (auto simp: register_grant_def set_prov_def granted_def owned_def)
next
  case (register_failed p j pol tok lease deadline effect)
  then show ?thesis
    by (intro egress_changed[OF inv pr, of p j _ "P_settled j (Inl Create_failed)"])
      (auto simp: register_grant_def set_prov_def granted_def owned_def)
next
  case (withdrawn p j e ok)
  then show ?thesis
    by (intro egress_changed[OF inv pr, of p j _ "P_settled j (Inl e)"])
      (auto simp: withdraw_grant_def set_prov_def granted_def owned_def)
next
  case (started p j pol lease deadline extra opts)
  have "jr_container r \<noteq> jw_next w" if "map_of (jw_jobs w) j' = Some r" for j' r using labels_fresh(1)[OF lb] that by blast
  then show ?thesis using started egress_okD[OF inv started(2)]
    by (intro egress_frame[OF inv]) (auto simp: container_started_def set_prov_def owned_def granted_def Let_def split: if_splits)
next
  case (returned p j c lease deadline)
  then show ?thesis using egress_okD[OF inv returned(2)]
    by (intro egress_frame[OF inv]) (auto simp: engine_returned_def set_prov_def add_record_def owned_def granted_def split: if_splits)
next
  case (cancel_failed p j c lease deadline gone)
  then show ?thesis using egress_okD[OF inv cancel_failed(2)]
    by (intro egress_frame[OF inv]) (auto simp: set_prov_def add_record_def owned_def granted_def split: if_splits)
next
  case (forgotten n j ref c ok)
  then show ?thesis using egress_forgotten[OF inv pr ru] by simp
next
  case (awaited n j p res)
  then show ?thesis using inv inflight_over_cases[of n j res w]
    by (auto simp: egress_ok_def granted_def owned_def set_run_def destroyOnce_def split: option.splits)
next
  case (destroyed j)
  then show ?thesis
    by (intro egress_frame[OF inv]) (auto simp: destroy_def destroyOnce_def set_run_def owned_def split: if_splits option.splits)
next
  case (policy p j ttl tok peer pol)
  then show ?thesis using px
    by (intro egress_frame[OF inv]) (auto simp: policy_fetched_def set_prov_def owned_def Let_def split: if_splits)
next
  case (rebuilt listing grace)
  have "egress_ok (adopt_listed cfg grace listing w) \<and> world_ok (adopt_listed cfg grace listing w) \<and> provs_ok (adopt_listed cfg grace listing w)"
    using rebuilt inv wo pr
    by (intro adopt_listed_preserves[of "\<lambda>w. egress_ok w \<and> world_ok w \<and> provs_ok w"])
      (auto intro: egress_adopt egress_ready world_adopt world_ready provs_adopt provs_ready)
  then show ?thesis using rebuilt by simp
next
  case restarted
  then show ?thesis by (simp add: egress_ok_def restart_def)
qed ((rule egress_frame[OF inv]; auto simp: step_defs owned_def dest: egress_okD[OF inv] split: if_splits option.splits; fail)[1])+

section \<open>Policies\<close>

text \<open>What a provision works with is what the policy client let through, and a container is what the clamp built from it.\<close>

definition fetched :: "daemon_cfg \<Rightarrow> string \<Rightarrow> policy_response \<Rightarrow> bool" where
  "fetched cfg j pol \<longleftrightarrow> (\<exists>peer tok. fetchJobPolicy (dc_ul cfg) (dc_parse cfg) peer (dc_pc cfg) j tok = Inr pol)"

definition launched :: "daemon_cfg \<Rightarrow> string \<Rightarrow> create_options \<Rightarrow> bool" where
  "launched cfg j opts \<longleftrightarrow>
     (\<exists>pol lease extra. fetched cfg j pol \<and> buildContainerCreateOptions (job_container_args cfg j pol lease extra) = Inr opts)"

fun prov_policy :: "prov \<Rightarrow> (string \<times> policy_response) option" where
  "prov_policy (P_register j pol _ _ _) = Some (j, pol)"
| "prov_policy (P_resolve j pol _ _) = Some (j, pol)"
| "prov_policy (P_engine j pol _ _ _) = Some (j, pol)"
| "prov_policy _ = None"

definition policies_ok :: "daemon_cfg \<Rightarrow> daemon_world \<Rightarrow> bool" where
  "policies_ok cfg w \<longleftrightarrow>
     (\<forall>p j pol. prov_policy (jw_provs w p) = Some (j, pol) \<longrightarrow> fetched cfg j pol) \<and>
     (\<forall>c opts. jw_options w c = Some opts \<longrightarrow> launched cfg (jw_label w c) opts)"

lemma policies_okD:
  assumes "policies_ok cfg w" "jw_provs w p = s"
  shows "\<forall>j pol. prov_policy s = Some (j, pol) \<longrightarrow> fetched cfg j pol"
  using assms unfolding policies_ok_def by blast

lemma policies_adopt: "policies_ok cfg w \<Longrightarrow> policies_ok cfg (adopt cfg j c l t w)"
  by (auto simp: policies_ok_def adopt_def add_record_def)

lemma policies_ready: "policies_ok cfg w \<Longrightarrow> policies_ok cfg (w\<lparr>jw_rebuilt := True\<rparr>)"
  by (simp add: policies_ok_def)

lemma policies_step:
  assumes "job_step cfg w w'" and inv: "policies_ok cfg w"
  shows "policies_ok cfg w'"
  using assms(1)
proof (cases rule: job_step.cases)
  case (policy p j ttl tok peer pol)
  then have "fetched cfg j pol" unfolding fetched_def by blast
  then show ?thesis using policy inv by (auto simp: policies_ok_def policy_fetched_def set_prov_def Let_def split: if_splits)
next
  case (started p j pol lease deadline extra opts)
  then have "launched cfg j opts" using policies_okD[OF inv started(2)] by (auto simp: launched_def)
  then show ?thesis using started inv
    by (auto simp: policies_ok_def container_started_def set_prov_def Let_def split: if_splits)
next
  case (awaited n j p res)
  then show ?thesis using inv inflight_over_cases[of n j res w]
    by (auto simp: policies_ok_def set_run_def destroyOnce_def split: option.splits)
next
  case (rebuilt listing grace)
  show ?thesis unfolding rebuilt(1)
    using rebuilt inv by (intro adopt_listed_preserves[of "policies_ok cfg"]) (auto intro: policies_adopt policies_ready)
qed (((frule policies_okD[OF inv])?, use inv in \<open>auto simp: policies_ok_def step_defs split: if_splits option.splits\<close>; fail)[1])+

section \<open>The cap\<close>

text \<open>The jobs that use a place: in flight, or registered with a container of this daemon that still exists.\<close>

definition occupied :: "daemon_world \<Rightarrow> string set" where
  "occupied w = dom (map_of (jw_inflight w)) \<union> {j. \<exists>r. map_of (jw_jobs w) j = Some r \<and> jr_container r \<in> owned w}"

definition cap_ok :: "daemon_cfg \<Rightarrow> daemon_world \<Rightarrow> bool" where
  "cap_ok cfg w \<longleftrightarrow> card (occupied w) \<le> dc_maxLiveJobs cfg"

lemma finite_occupied: "finite (occupied w)"
proof -
  have "occupied w \<subseteq> dom (map_of (jw_inflight w)) \<union> dom (map_of (jw_jobs w))" by (auto simp: occupied_def)
  then show ?thesis by (rule finite_subset) (simp add: finite_dom_map_of)
qed

lemma cap_shrink: "cap_ok cfg w \<Longrightarrow> occupied w' \<subseteq> occupied w \<Longrightarrow> cap_ok cfg w'"
  unfolding cap_ok_def using card_mono[OF finite_occupied] le_trans by blast

lemma card_occupied: "card (occupied w) \<le> length (jw_jobs w) + length (jw_inflight w)"
proof -
  have "occupied w \<subseteq> fst ` set (jw_inflight w) \<union> fst ` set (jw_jobs w)"
    by (auto simp: occupied_def dom_map_of_conv_image_fst intro: domI simp flip: dom_map_of_conv_image_fst)
  then have "card (occupied w) \<le> card (fst ` set (jw_inflight w) \<union> fst ` set (jw_jobs w))"
    by (intro card_mono) auto
  also have "\<dots> \<le> card (fst ` set (jw_inflight w)) + card (fst ` set (jw_jobs w))" by (rule card_Un_le)
  also have "\<dots> \<le> length (jw_inflight w) + length (jw_jobs w)"
    using card_image_le[of "set (jw_inflight w)" fst] card_image_le[of "set (jw_jobs w)" fst]
      card_length[of "jw_inflight w"] card_length[of "jw_jobs w"] by simp
  finally show ?thesis by simp
qed

lemma cap_created:
  assumes "cap_ok cfg w"
  shows "cap_ok cfg (create cfg j ttl tok w)"
proof (cases "j \<notin> jw_destroying w \<and> map_of (jw_jobs w) j = None \<and> map_of (jw_inflight w) j = None \<and>
    length (jw_jobs w) + length (jw_inflight w) < dc_maxLiveJobs cfg \<and> length (jw_inflight w) < dc_maxInflight cfg")
  case True
  let ?w = "create cfg j ttl tok w"
  have "occupied ?w = insert j (occupied w)" using True
    by (auto simp: create_def set_prov_def occupied_def owned_def map_of_snoc simp del: map_of_append split: if_splits)
  then have "card (occupied ?w) \<le> Suc (card (occupied w))" by (simp add: card_insert_le_m1 card_insert_if finite_occupied)
  then show ?thesis using True card_occupied[of w] by (simp add: cap_ok_def)
next
  case False
  then have "occupied (create cfg j ttl tok w) = occupied w"
    by (auto simp: create_def answer_def set_prov_def occupied_def owned_def split: option.splits)
  then show ?thesis using assms by (simp add: cap_ok_def)
qed

lemma cap_adopt:
  assumes "cap_ok cfg w" "world_ok w" "provs_ok w" "listed w mc"
  shows "cap_ok cfg (adopt cfg (mc_jobId mc) (mc_container mc) lease t w)"
proof (cases "map_of (jw_jobs w) (mc_jobId mc) = None \<and> map_of (jw_inflight w) (mc_jobId mc) = None")
  case True
  then have "mc_container mc \<notin> owned w" using adopted_not_owned[OF assms(2-4)] by simp
  then show ?thesis
    by (intro cap_shrink[OF assms(1)]) (auto simp: occupied_def owned_def adopt_def add_record_def split: if_splits)
qed (use assms(1) in \<open>auto simp: adopt_def\<close>)

lemma cap_ready: "cap_ok cfg w \<Longrightarrow> cap_ok cfg (w\<lparr>jw_rebuilt := True\<rparr>)"
  by (simp add: cap_ok_def occupied_def owned_def)

lemma cap_step:
  assumes "job_step cfg w w'" and inv: "cap_ok cfg w" and wo: "world_ok w" and pr: "provs_ok w" and lb: "labels_ok w"
  shows "cap_ok cfg w'"
  using assms(1)
proof (cases rule: job_step.cases)
  case (created j ttl tok)
  then show ?thesis using cap_created[OF inv] by simp
next
  case (started p j pol lease deadline extra opts)
  then show ?thesis using labels_fresh(1)[OF lb]
    by (intro cap_shrink[OF inv]) (auto simp: occupied_def owned_def container_started_def set_prov_def Let_def)
next
  case (returned p j c lease deadline)
  then show ?thesis using provs_okD[OF pr returned(2)]
    by (intro cap_shrink[OF inv]) (auto simp: occupied_def owned_def engine_returned_def set_prov_def add_record_def split: if_splits)
next
  case (cancel_failed p j c lease deadline gone)
  then show ?thesis using provs_okD[OF pr cancel_failed(2)]
    by (intro cap_shrink[OF inv]) (auto simp: occupied_def owned_def set_prov_def add_record_def split: if_splits)
next
  case (awaited n j p res)
  then show ?thesis using inflight_over_cases[of n j res w]
    by (intro cap_shrink[OF inv]) (auto simp: occupied_def owned_def set_run_def destroyOnce_def split: option.splits)
next
  case (rebuilt listing grace)
  have "cap_ok cfg (adopt_listed cfg grace listing w) \<and> world_ok (adopt_listed cfg grace listing w) \<and> provs_ok (adopt_listed cfg grace listing w)"
    using rebuilt inv wo pr
    by (intro adopt_listed_preserves[of "\<lambda>w. cap_ok cfg w \<and> world_ok w \<and> provs_ok w"])
      (auto intro: cap_adopt cap_ready world_adopt world_ready provs_adopt provs_ready)
  then show ?thesis using rebuilt by simp
qed ((rule cap_shrink[OF inv]; auto simp: step_defs occupied_def owned_def split: if_splits option.splits; fail)[1])+

section \<open>All reachable states\<close>

lemma daemon_invariant:
  assumes "daemon_reachable cfg w"
  shows "provs_ok w \<and> labels_ok w \<and> runs_ok w \<and> world_ok w \<and> times_ok cfg w \<and> policies_ok cfg w \<and> cap_ok cfg w \<and>
    (dc_proxied cfg \<longrightarrow> egress_ok w)"
  using assms
proof induction
  case (start now)
  show ?case
    by (simp add: daemon_start_def provs_ok_def labels_ok_def runs_ok_def world_ok_def times_ok_def policies_ok_def
        cap_ok_def occupied_def egress_ok_def)
next
  case (step w w')
  then show ?case
    using provs_step labels_step runs_step world_step times_step policies_step cap_step egress_step by meson
qed

text \<open>One container of this daemon per job.\<close>

lemma one_container_per_job:
  assumes "daemon_reachable cfg w" "c \<in> owned w" "c' \<in> owned w" "jw_label w c = jw_label w c'"
  shows "c = c'"
proof -
  note i = daemon_invariant[OF assms(1)]
  have o: "x \<in> owned w \<Longrightarrow> holds w (jw_label w x) x" for x
    using i world_facts(2)[of w x] by (auto simp: owned_def)
  have h: "holds w (jw_label w c) c" "holds w (jw_label w c) c'"
    using o[OF assms(2)] o[OF assms(3)] assms(4) by simp_all
  show ?thesis
  proof (cases "\<exists>p. prov_container (jw_provs w p) = Some (jw_label w c, c)")
    case True
    then show ?thesis using h(2) prov_holds_alone[of w _ "jw_label w c" c] i unfolding holds_def
      by (metis option.distinct(1) option.inject prod.inject)
  next
    case False
    then obtain r where r: "map_of (jw_jobs w) (jw_label w c) = Some r" "jr_container r = c" using h(1) by (auto simp: holds_def)
    then show ?thesis using h(2) prov_holds_alone(2)[of w _ "jw_label w c" c'] i unfolding holds_def by auto
  qed
qed

text \<open>Once the engine has confirmed a teardown, no other one of the same job is under way.\<close>

definition gone_ok :: "daemon_world \<Rightarrow> bool" where
  "gone_ok w \<longleftrightarrow> (\<forall>n j ref c. jw_runs w n = R_withdraw j ref c \<longrightarrow> j \<notin> jw_destroying w)"

lemma gone_adopt: "gone_ok w \<Longrightarrow> gone_ok (adopt cfg j c l t w)"
  by (auto simp: gone_ok_def adopt_def add_record_def)

lemma gone_ready: "gone_ok w \<Longrightarrow> gone_ok (w\<lparr>jw_rebuilt := True\<rparr>)"
  by (simp add: gone_ok_def)

lemma run_of_withdraw: "runs_ok w \<Longrightarrow> jw_runs w n = R_withdraw j ref c \<Longrightarrow> map_of (jw_destroyRuns w) j = Some n"
  using runs_okD by fastforce

lemma gone_destroyOnce:
  assumes "gone_ok w" "\<And>m ref c. jw_runs w m = R_withdraw j ref c \<Longrightarrow> m = n"
  shows "gone_ok (destroyOnce n j w)"
  using assms by (auto simp: gone_ok_def destroyOnce_def set_run_def split: option.splits)

lemma gone_step:
  assumes "job_step cfg w w'" and inv: "gone_ok w" and ru: "runs_ok w"
  shows "gone_ok w'"
  using assms(1)
proof (cases rule: job_step.cases)
  case (destroyed j)
  have "gone_ok (w\<lparr>jw_next := jw_next w + 1, jw_destroyRuns := jw_destroyRuns w @ [(j, jw_next w)]\<rparr>)" using inv by (simp add: gone_ok_def)
  then show ?thesis using destroyed inv run_of_withdraw[OF ru]
    by (auto simp: destroy_def intro!: gone_destroyOnce)
next
  case (awaited n j p res)
  have "m = n" if "jw_runs w m = R_withdraw j ref c" for m ref c
    using runs_unique[OF ru, of m j n] that awaited(2) by simp
  then have "gone_ok (destroyOnce n j w)" by (rule gone_destroyOnce[OF inv])
  moreover have "gone_ok (set_run n (R_settled j res') w)" for res' using inv by (auto simp: gone_ok_def set_run_def)
  ultimately show ?thesis using awaited inflight_over_cases[of n j res w] by metis
next
  case (rebuilt listing grace)
  show ?thesis unfolding rebuilt(1)
    using rebuilt inv by (intro adopt_listed_preserves[of gone_ok]) (auto intro: gone_adopt gone_ready)
qed ((use inv in \<open>auto simp: gone_ok_def step_defs split: if_splits option.splits\<close>; fail)[1])+

lemma gone_reachable: "daemon_reachable cfg w \<Longrightarrow> gone_ok w"
proof (induction rule: daemon_reachable.induct)
  case (start now)
  show ?case by (simp add: gone_ok_def daemon_start_def)
next
  case (step w w')
  then show ?case using gone_step daemon_invariant by blast
qed

text \<open>What a sweep decides about one job.\<close>

definition overdue :: "int \<Rightarrow> string \<times> job_record \<Rightarrow> (string \<times> string) option" where
  "overdue now e =
     (if isLeaseExpired (Some (jr_hardDeadlineAt (snd e))) now then Some (jr_jobId (snd e), ''lifetime_exceeded'')
      else if isLeaseExpired (Some (jr_leaseExpiresAt (snd e))) now then Some (jr_jobId (snd e), ''lease_expired'') else None)"

lemma expired_jobs_overdue: "expired_jobs now jobs = List.map_filter (overdue now) jobs"
  unfolding expired_jobs_def by (rule arg_cong[of _ _ "\<lambda>f. List.map_filter f jobs"]) (auto simp: overdue_def Let_def)

lemma map_filter_member: "y \<in> set (List.map_filter f xs) \<longleftrightarrow> (\<exists>x \<in> set xs. f x = Some y)"
  by (force simp: List.map_filter_def)

section \<open>Guarantees\<close>

text \<open>C22: No container of the daemon loses its handle.  In every reachable state a container this daemon process has
  created is stranded (its create failed and so did the rollback, which the error reports and the orphan sweep picks
  up), or it exists and is held by the record of its job or by the provision of its job, or it is gone and
  was torn down because a delete or a failed create asked for it; in particular the orphan sweep never takes a
  container that is held.\<close>

theorem container_has_handle:
  assumes "daemon_reachable cfg w" "c \<in> jw_made w"
  shows "c \<in> jw_stranded w \<or> (if c \<in> jw_live w then holds w (jw_label w c) c else c \<in> jw_doomed w)"
  using daemon_invariant[OF assms(1)] world_facts(2,3)[of w c] assms(2) by auto




text \<open>C27: While a delete waits for the proxy to withdraw the grant, a create for the job is answered with the record of the
  container that has just been removed, although the registry means to refuse it.\<close>

theorem create_answers_removed_container:
  assumes "daemon_reachable cfg w" "jw_runs w n = R_withdraw j ref c"
  shows "create cfg j ttl tok w = answer j False (Inr c) w \<and> c \<notin> jw_live w"
proof -
  note i = daemon_invariant[OF assms(1)]
  obtain r where "map_of (jw_jobs w) j = Some r" "jr_container r = c"
    using runs_okD[of w n] i assms(2) by fastforce
  moreover have "j \<notin> jw_destroying w" using gone_reachable[OF assms(1)] assms(2) by (auto simp: gone_ok_def)
  moreover have "c \<notin> jw_live w" using i assms(2) unfolding runs_ok_def by blast
  ultimately show ?thesis by (simp add: create_def)
qed

end
