(* ===== verification/JobContainers.thy ===== *)
theory JobContainers
  imports JobSound
begin

text \<open>
  What every container the runner daemon ever starts looks like, composed from the policy client's vetting, the
  clamp and the registry; and concrete runs of the daemon for the witnesses of the registry's properties.
\<close>

section \<open>Confinement\<close>

lemma schema_uuid: "JobPolicyResponseSchema v = Some r \<Longrightarrow> UUID_RE (pr_jobId r)"
  by (auto simp: JobPolicyResponseSchema_def split: option.splits if_splits)

lemma fetched_uuid: "fetchJobPolicy ul parse peer pc j tok = Inr p \<Longrightarrow> UUID_RE j"
  by (auto simp: fetchJobPolicy_def clamp_policy_def bind_eq_Some_conv schema_uuid
      split: peer_answer.splits option.splits if_splits sum.splits)

lemma built_fields:
  assumes "buildContainerCreateOptions args = Inr opts"
  shows "co_Image opts = pr_image (ca_policy args)"
    "ca_requireDigest args \<noteq> Some False \<Longrightarrow>
      \<exists>d. pi_digest (parseImageReference (co_Image opts)) = Some d \<and> DIGEST_RE d"
  using assms by (auto simp: buildContainerCreateOptions_def clamp_image_def Let_def split: option.splits if_splits)

lemma launched_isolated:
  assumes "launched cfg j opts"
  shows "UUID_RE j \<and> isolated j (dc_limits cfg) opts"
proof -
  obtain pol lease extra peer tok where f: "fetchJobPolicy (dc_ul cfg) (dc_parse cfg) peer (dc_pc cfg) j tok = Inr pol"
    and b: "buildContainerCreateOptions (job_container_args cfg j pol lease extra) = Inr opts"
    using assms unfolding launched_def fetched_def by blast
  show ?thesis using fetched_uuid[OF f] built_isolated[OF b] by (simp add: job_container_args_def)
qed


text \<open>C24: The containers of two jobs share nothing: they are on different networks, and no volume is mounted by both.\<close>

theorem jobs_share_nothing:
  assumes "daemon_reachable cfg w" "jw_options w c = Some opts" "jw_options w c' = Some opts'" "jw_label w c \<noteq> jw_label w c'"
  shows "hc_NetworkMode (co_HostConfig opts) \<noteq> hc_NetworkMode (co_HostConfig opts') \<and>
    bind_source ` set (hc_Binds (co_HostConfig opts)) \<inter> bind_source ` set (hc_Binds (co_HostConfig opts')) = {}"
proof -
  have p: "policies_ok cfg w" using daemon_invariant[OF assms(1)] by simp
  then have i: "UUID_RE (jw_label w c) \<and> isolated (jw_label w c) (dc_limits cfg) opts"
    "UUID_RE (jw_label w c') \<and> isolated (jw_label w c') (dc_limits cfg) opts'"
    using assms(2,3) launched_isolated unfolding policies_ok_def by blast+
  have "bind_source ` set (hc_Binds (co_HostConfig opts)) \<subseteq> job_volumes (jw_label w c)"
    "bind_source ` set (hc_Binds (co_HostConfig opts')) \<subseteq> job_volumes (jw_label w c')"
    using i by (auto simp: isolated_def Let_def)
  then show ?thesis using i assms(4) job_volumes_disjoint[of "jw_label w c" "jw_label w c'"]
    by (fastforce simp: isolated_def Let_def jobNetworkName_def)
qed

section \<open>A concrete daemon\<close>

text \<open>A provision that meets no failure, as one step of several.\<close>

lemma provisioned:
  assumes r: "daemon_reachable cfg w" and px: "dc_proxied cfg"
    and free: "j \<notin> jw_destroying w" "j \<notin> jw_cancelled w" "map_of (jw_jobs w) j = None" "jw_inflight w = []"
    and cap: "length (jw_jobs w) < dc_maxLiveJobs cfg" "0 < dc_maxInflight cfg"
    and f: "fetchJobPolicy (dc_ul cfg) (dc_parse cfg) peer (dc_pc cfg) j (Some tok) = Inr pol"
    and b: "buildContainerCreateOptions (job_container_args cfg j pol (leaseExpiry ttl w) []) = Inr opts"
  shows "\<exists>w'. daemon_reachable cfg w' \<and>
    jw_jobs w' = set_key j \<lparr>jr_ref = jw_next w + 2, jr_jobId = j, jr_container = jw_next w + 1,
      jr_leaseExpiresAt = leaseExpiry ttl w, jr_hardDeadlineAt = jw_now w + dc_maxLifetimeMs cfg\<rparr> (jw_jobs w) \<and>
    jw_inflight w' = [] \<and> jw_destroying w' = jw_destroying w \<and> jw_destroyRuns w' = jw_destroyRuns w \<and>
    jw_cancelled w' = jw_cancelled w - {j} \<and>
    jw_next w' = jw_next w + 3 \<and> jw_live w' = insert (jw_next w + 1) (jw_live w) \<and>
    jw_made w' = insert (jw_next w + 1) (jw_made w) \<and> jw_stranded w' = jw_stranded w \<and>
    jw_label w' = (jw_label w)(jw_next w + 1 := j) \<and> jw_born w' = (jw_born w)(jw_next w + 1 := jw_now w) \<and>
    jw_options w' = (jw_options w)(jw_next w + 1 \<mapsto> opts) \<and> jw_now w' = jw_now w \<and> jw_rebuilt w' = jw_rebuilt w"
proof -
  let ?n = "jw_next w"
  let ?lease = "leaseExpiry ttl w" and ?dl = "jw_now w + dc_maxLifetimeMs cfg"
  define w1 where "w1 = create cfg j ttl tok w"
  define w2 where "w2 = policy_fetched cfg ?n j ttl tok pol w1"
  define w3 where "w3 = set_prov ?n (P_resolve j pol ?lease ?dl) (register_grant cfg j pol w2)"
  define w4 where "w4 = set_prov ?n (P_engine j pol ?lease ?dl []) w3"
  define w5 where "w5 = container_started ?n j ?lease ?dl opts w4"
  define w6 where "w6 = engine_returned ?n j (?n + 1) ?lease ?dl w5"
  define w7 where "w7 = owner_done ?n j (Inr (?n + 1)) w6"
  note d = create_def answer_def policy_fetched_def register_grant_def container_started_def engine_returned_def
    add_record_def owner_done_def set_prov_def leaseExpiry_def map_delete_def Let_def
  note s1 = w1_def and s2 = w2_def w1_def and s3 = w3_def w2_def w1_def and s4 = w4_def w3_def w2_def w1_def
    and s5 = w5_def w4_def w3_def w2_def w1_def and s6 = w6_def w5_def w4_def w3_def w2_def w1_def
    and s7 = w7_def w6_def w5_def w4_def w3_def w2_def w1_def
  have p1: "jw_provs w1 ?n = P_policy j ttl tok" using free cap by (simp add: s1 d)
  have p2: "jw_provs w2 ?n = P_register j pol tok ?lease ?dl" using free cap px by (simp add: s2 d)
  have p3: "jw_provs w3 ?n = P_resolve j pol ?lease ?dl" by (simp add: w3_def set_prov_def)
  have p4: "jw_provs w4 ?n = P_engine j pol ?lease ?dl []" by (simp add: w4_def set_prov_def)
  have n4: "jw_next w4 = ?n + 1" using free cap px by (simp add: s4 d)
  have p5: "jw_provs w5 ?n = P_started j (?n + 1) ?lease ?dl" using n4 by (simp add: w5_def container_started_def set_prov_def)
  have p6: "jw_provs w6 ?n = P_settled j (Inr (?n + 1))" using free cap px by (simp add: s6 d)
  have "daemon_reachable cfg w1" unfolding w1_def by (rule daemon_reachable.step[OF r job_step.created])
  then have "daemon_reachable cfg w2" unfolding w2_def
    by (rule daemon_reachable.step[OF _ job_step.policy[OF p1]]) (simp add: px, rule f)
  then have "daemon_reachable cfg w3" unfolding w3_def by (rule daemon_reachable.step[OF _ job_step.registered[OF p2]])
  then have "daemon_reachable cfg w4" unfolding w4_def by (rule daemon_reachable.step[OF _ job_step.hosts_failed[OF p3]])
  then have "daemon_reachable cfg w5" unfolding w5_def by (rule daemon_reachable.step[OF _ job_step.started[OF p4 b]])
  then have "daemon_reachable cfg w6" unfolding w6_def by (rule daemon_reachable.step[OF _ job_step.returned[OF p5]])
  then have "daemon_reachable cfg w7" unfolding w7_def by (rule daemon_reachable.step[OF _ job_step.owner[OF p6]])
  then show ?thesis using free cap px by (intro exI[of _ w7]) (simp add: s7 d)
qed

definition plain_policy :: "string \<Rightarrow> json" where
  "plain_policy j = JObj [(''jobId'', JStr j), (''image'', JStr wire_image), (''env'', JObj []),
     (''egressAllowlist'', JArr []), (''dockerInJob'', JBool False)]"

definition other_uuid :: string where
  "other_uuid = ''99999999-2222-3333-4444-555555555555''"

definition depot :: daemon_cfg where
  "depot = \<lparr>dc_ul = wire_lib, dc_parse = (\<lambda>s. Some (plain_policy (if s = ''{}'' then lease_uuid else other_uuid))),
     dc_pc = wire_client, dc_proxied = True, dc_maxLiveJobs = 2, dc_maxInflight = 1, dc_maxLifetimeMs = 21600000,
     dc_createdBy = ''omadia-middleware'',
     dc_limits = \<lparr>cl_memoryBytes = 4294967296, cl_nanoCpus = 2000000000, cl_pidsLimit = 512, cl_tmpfsMb = 512, cl_nofile = 4096\<rparr>,
     dc_requireDigest = True\<rparr>"

lemma depot_simps [simp]:
  "dc_proxied depot" "dc_maxLiveJobs depot = 2" "dc_maxInflight depot = 1" "dc_maxLifetimeMs depot = 21600000"
  "dc_pc depot = wire_client" "dc_ul depot = wire_lib" "dc_requireDigest depot"
  by (simp_all add: depot_def)

lemma plain_uuids: "UUID_RE lease_uuid" "UUID_RE other_uuid" "lease_uuid \<noteq> other_uuid" "wire_image \<noteq> []"
  by code_simp+

lemma plain_schema:
  "UUID_RE j \<Longrightarrow> JobPolicyResponseSchema (plain_policy j) =
     Some \<lparr>pr_jobId = j, pr_image = wire_image, pr_env = [], pr_egress = [], pr_dockerInJob = Some False\<rparr>"
  using plain_uuids(4)
  by (simp add: plain_policy_def JobPolicyResponseSchema_def string_of_def schema_env_def schema_list_def schema_dind_def
      object_entries_def)

lemma plain_clamped:
  "\<exists>pol. clamp_policy wire_lib wire_client j tok 200
     \<lparr>pr_jobId = j, pr_image = wire_image, pr_env = [], pr_egress = [], pr_dockerInJob = Some False\<rparr> = Inr pol \<and>
     pr_image pol = wire_image"
  using wire_image_ok by (simp add: clamp_policy_def assertPolicyEgress_def)

lemma depot_fetch:
  assumes "j = lease_uuid \<and> t = ''{}'' \<or> j = other_uuid \<and> t = ''[]''"
  shows "\<exists>pol. fetchJobPolicy (dc_ul depot) (dc_parse depot) (\<lambda>u a. Answer 200 [t] False) (dc_pc depot) j tok = Inr pol \<and>
    pr_image pol = wire_image"
proof -
  have "readCappedBody (pc_maxBodyBytes wire_client) 0 [] [t] = Some t" "trim t = t"
    using assms by (auto simp: wire_client_def trim_def is_space_def)
  moreover have "dc_parse depot t = Some (plain_policy j)" using assms by (auto simp: depot_def)
  moreover have "UUID_RE j" using assms plain_uuids by auto
  ultimately show ?thesis using plain_clamped[of j tok] plain_schema[of j] by (simp add: fetchJobPolicy_def)
qed

lemma depot_build:
  assumes "pr_image pol = wire_image"
  shows "\<exists>opts. buildContainerCreateOptions (job_container_args depot j pol lease extra) = Inr opts"
proof -
  have "clamp_image True wire_image = None" by code_simp
  then show ?thesis using assms by (simp add: buildContainerCreateOptions_def job_container_args_def Let_def)
qed

section \<open>Witnesses\<close>

lemma depot_running:
  "\<exists>w opts. daemon_reachable depot w \<and>
    jw_jobs w = [(lease_uuid, \<lparr>jr_ref = 2, jr_jobId = lease_uuid, jr_container = 1, jr_leaseExpiresAt = 60000,
      jr_hardDeadlineAt = 21600000\<rparr>)] \<and>
    jw_inflight w = [] \<and> jw_destroying w = {} \<and> jw_destroyRuns w = [] \<and> jw_cancelled w = {} \<and> jw_next w = 3 \<and>
    jw_live w = {1} \<and> jw_made w = {1} \<and> jw_stranded w = {} \<and> jw_label w 1 = lease_uuid \<and> jw_born w 1 = 0 \<and>
    jw_options w 1 = Some opts \<and> jw_now w = 0"
proof -
  let ?w = "daemon_start 0"
  obtain pol where f: "fetchJobPolicy (dc_ul depot) (dc_parse depot) (\<lambda>u a. Answer 200 [''{}''] False) (dc_pc depot) lease_uuid
      (Some ''t'') = Inr pol" "pr_image pol = wire_image" using depot_fetch by blast
  obtain opts where b: "buildContainerCreateOptions (job_container_args depot lease_uuid pol (leaseExpiry 60 ?w) []) = Inr opts"
    using depot_build[OF f(2)] by blast
  have "\<exists>w'. daemon_reachable depot w' \<and>
    jw_jobs w' = set_key lease_uuid \<lparr>jr_ref = jw_next ?w + 2, jr_jobId = lease_uuid, jr_container = jw_next ?w + 1,
      jr_leaseExpiresAt = leaseExpiry 60 ?w, jr_hardDeadlineAt = jw_now ?w + dc_maxLifetimeMs depot\<rparr> (jw_jobs ?w) \<and>
    jw_inflight w' = [] \<and> jw_destroying w' = jw_destroying ?w \<and> jw_destroyRuns w' = jw_destroyRuns ?w \<and>
    jw_cancelled w' = jw_cancelled ?w - {lease_uuid} \<and>
    jw_next w' = jw_next ?w + 3 \<and> jw_live w' = insert (jw_next ?w + 1) (jw_live ?w) \<and>
    jw_made w' = insert (jw_next ?w + 1) (jw_made ?w) \<and> jw_stranded w' = jw_stranded ?w \<and>
    jw_label w' = (jw_label ?w)(jw_next ?w + 1 := lease_uuid) \<and> jw_born w' = (jw_born ?w)(jw_next ?w + 1 := jw_now ?w) \<and>
    jw_options w' = (jw_options ?w)(jw_next ?w + 1 \<mapsto> opts) \<and> jw_now w' = jw_now ?w \<and> jw_rebuilt w' = jw_rebuilt ?w" (is "\<exists>w'. ?A w'")
    by (rule provisioned[OF daemon_reachable.start _ _ _ _ _ _ _ f(1) b]) (simp_all add: daemon_start_def)
  then obtain w' where "?A w'" ..
  then show ?thesis by (intro exI[of _ w'] exI[of _ opts]) (simp add: daemon_start_def set_key_def leaseExpiry_def)
qed

lemma depot_two_jobs:
  "\<exists>w opts opts'. daemon_reachable depot w \<and> jw_options w 1 = Some opts \<and> jw_options w 4 = Some opts' \<and>
    jw_label w 1 = lease_uuid \<and> jw_label w 4 = other_uuid"
proof -
  obtain w opts where w: "daemon_reachable depot w" "map fst (jw_jobs w) = [lease_uuid]" "jw_inflight w = []" "jw_destroying w = {}"
    "jw_cancelled w = {}" "jw_next w = 3" "jw_options w 1 = Some opts" "jw_label w 1 = lease_uuid"
    using depot_running by fastforce
  obtain pol where f: "fetchJobPolicy (dc_ul depot) (dc_parse depot) (\<lambda>u a. Answer 200 [''[]''] False) (dc_pc depot) other_uuid
      (Some ''t'') = Inr pol" "pr_image pol = wire_image" using depot_fetch by blast
  obtain opts' where b: "buildContainerCreateOptions (job_container_args depot other_uuid pol (leaseExpiry 60 w) []) = Inr opts'"
    using depot_build[OF f(2)] by blast
  have n: "map_of (jw_jobs w) other_uuid = None" "length (jw_jobs w) < 2"
    using w(2) plain_uuids(3) arg_cong[OF w(2), of length] by (auto simp: map_of_eq_None_iff)
  obtain w' where "daemon_reachable depot w'" "jw_label w' = (jw_label w)(jw_next w + 1 := other_uuid)"
    "jw_options w' = (jw_options w)(jw_next w + 1 \<mapsto> opts')"
    using provisioned[OF w(1) _ _ _ n(1) w(3) _ _ f(1) b] n(2) w(4,5) by auto
  then show ?thesis using w(6-8) by (intro exI[of _ w'] exI[of _ opts] exI[of _ opts']) simp
qed

text \<open>A restart whose rebuild fails, a create, and a rebuild that succeeds: two containers of one job, one without a handle.\<close>

lemma failed_rebuild_duplicates:
  "\<exists>w r. daemon_reachable depot w \<and> jw_rebuilt w \<and> map_of (jw_jobs w) lease_uuid = Some r \<and> jr_container r = 4 \<and>
    {1, 4} \<subseteq> jw_live w \<and> jw_label w 1 = lease_uuid \<and> jw_label w 4 = lease_uuid \<and> \<not> holds w lease_uuid 1 \<and>
    orphan_start lease_uuid 1 w = w"
proof -
  obtain w opts where w: "daemon_reachable depot w" "jw_next w = 3" "jw_live w = {1}" "jw_label w 1 = lease_uuid"
    "jw_options w 1 = Some opts" "jw_born w 1 = 0" using depot_running by auto
  let ?v = "restart w"
  have v: "daemon_reachable depot ?v" by (rule daemon_reachable.step[OF w(1) job_step.restarted])
  obtain pol where f: "fetchJobPolicy (dc_ul depot) (dc_parse depot) (\<lambda>u a. Answer 200 [''{}''] False) (dc_pc depot) lease_uuid
      (Some ''t'') = Inr pol" "pr_image pol = wire_image" using depot_fetch by blast
  obtain opts' where b: "buildContainerCreateOptions (job_container_args depot lease_uuid pol (leaseExpiry 60 ?v) []) = Inr opts'"
    using depot_build[OF f(2)] by blast
  obtain x rec where x: "daemon_reachable depot x" "jw_jobs x = [(lease_uuid, rec)]" "jr_container rec = 4" "jw_live x = {4, 1}"
      "jw_label x = (jw_label w)(4 := lease_uuid)" "jw_options x = (jw_options w)(4 \<mapsto> opts')" "jw_born x = (jw_born w)(4 := jw_now w)"
      "jw_next x = 6" "jw_stranded x = {}" "jw_made x = {4}" "\<not> jw_rebuilt x"
    using provisioned[OF v _ _ _ _ _ _ _ f(1) b] w(2,3) by (auto simp: restart_def set_key_def)
  define mc where "mc = \<lparr>mc_jobId = lease_uuid, mc_container = 1, mc_lease = None, mc_running = True, mc_createdAtMs = 0\<rparr>"
  let ?z = "adopt_listed depot 30000 [mc] x"
  have z: "?z = x\<lparr>jw_rebuilt := True\<rparr>" using x(2) by (simp add: adopt_listed_def adopt_def mc_def)
  have h: "\<not> holds x lease_uuid 1"
  proof
    assume "holds x lease_uuid 1"
    then obtain p where "prov_container (jw_provs x p) = Some (lease_uuid, 1)" using x(2,3) by (auto simp: holds_def)
    then show False using daemon_invariant[OF x(1)] world_facts(1)[of x p lease_uuid 1] x(10) by auto
  qed
  have "job_step depot x ?z"
    using w(4-6) x(5-8) by (intro job_step.rebuilt[OF x(11)]) (simp add: listed_def mc_def)
  then have r: "daemon_reachable depot ?z" by (rule daemon_reachable.step[OF x(1)])
  have "holds ?z lease_uuid 1 = holds x lease_uuid 1" by (rule holds_same) (simp_all add: z)
  then show ?thesis using r h x w(4) unfolding z
    by (intro exI[of _ "x\<lparr>jw_rebuilt := True\<rparr>"] exI[of _ rec]) (simp add: z orphan_start_def tracks_def)
qed

theorem container_has_handle_witness:
  "\<exists>w. daemon_reachable depot w \<and> 1 \<in> jw_made w \<and> holds w lease_uuid 1"
proof -
  obtain w where w: "daemon_reachable depot w" "1 \<in> jw_made w" "1 \<in> jw_live w" "1 \<notin> jw_stranded w" "jw_label w 1 = lease_uuid"
    using depot_running by auto
  then show ?thesis using container_has_handle[OF w(1,2)] by auto
qed




theorem create_answers_removed_witness:
  "\<exists>w. daemon_reachable depot w \<and> create depot lease_uuid 60 ''t'' w = answer lease_uuid False (Inr 1) w \<and> 1 \<notin> jw_live w"
proof -
  obtain w where w: "daemon_reachable depot w" "map_of (jw_destroyRuns w) lease_uuid = None" "jw_next w = 3"
    "jw_jobs w = [(lease_uuid, \<lparr>jr_ref = 2, jr_jobId = lease_uuid, jr_container = 1, jr_leaseExpiresAt = 60000,
      jr_hardDeadlineAt = 21600000\<rparr>)]" using depot_running by auto
  let ?d = "destroy lease_uuid w"
  have r: "jw_runs ?d 3 = R_teardown lease_uuid 2 1" using w by (simp add: destroy_def destroyOnce_def set_run_def)
  let ?t = "teardown_done 3 lease_uuid 2 1 ?d"
  have "daemon_reachable depot ?d" by (rule daemon_reachable.step[OF w(1) job_step.destroyed])
  then have t: "daemon_reachable depot ?t" by (rule daemon_reachable.step[OF _ job_step.torn_down[OF r]])
  have "jw_runs ?t 3 = R_withdraw lease_uuid 2 1" by (simp add: teardown_done_def set_run_def)
  from create_answers_removed_container[OF t this, of 60 "''t''"] show ?thesis using t by blast
qed


theorem jobs_share_nothing_witness:
  "\<exists>w opts opts'. daemon_reachable depot w \<and> jw_options w 1 = Some opts \<and> jw_options w 4 = Some opts' \<and>
    hc_NetworkMode (co_HostConfig opts) \<noteq> hc_NetworkMode (co_HostConfig opts')"
proof -
  obtain w opts opts' where w: "daemon_reachable depot w" "jw_options w 1 = Some opts" "jw_options w 4 = Some opts'"
    "jw_label w 1 = lease_uuid" "jw_label w 4 = other_uuid" using depot_two_jobs by blast
  have "jw_label w 1 \<noteq> jw_label w 4" using w(4,5) plain_uuids(3) by simp
  from jobs_share_nothing[OF w(1-3) this] show ?thesis using w(1-3) by blast
qed

end
