(* ===== verification/EgressProxy.thy ===== *)
theory EgressProxy
  imports DaemonPolicy
begin

text \<open>
  The egress proxy of the runner daemon (\<open>egressPolicy.mjs\<close>, \<open>proxy.mjs\<close>, \<open>auth.mjs\<close>): the registry of the jobs'
  allowlists, the decision on a request, the vetting of resolved addresses, the batching of its events, and
  both planes as steps of a state machine in which any number of connections interleave.  A name server is
  the relation \<open>dns host addresses\<close>; base64, the hash and Node's URL parser are parameters.  What flows
  through an open tunnel, the batch resolution route of the control plane and the status lines written to a
  refused client are not modelled.
\<close>

section \<open>Targets\<close>

record full_url = url +
  url_port :: string
  url_pathname :: string
  url_search :: string
  url_hash :: string

definition strip_dot_once :: "string \<Rightarrow> string" where
  "strip_dot_once s = (if s \<noteq> [] \<and> last s = CHR ''.'' then butlast s else s)"

definition normalizeParsedHost :: "string \<Rightarrow> string" where
  "normalizeParsedHost hostname =
     (let s1 = (if hostname \<noteq> [] \<and> List.hd hostname = CHR ''['' then tl hostname else hostname);
          s2 = (if s1 \<noteq> [] \<and> last s1 = CHR '']'' then butlast s1 else s1)
      in toLowerCase (strip_dot_once s2))"

definition bare_shape :: "string \<Rightarrow> bool" where
  "bare_shape h \<longleftrightarrow>
     (if prefix ''['' h
      then h \<noteq> [] \<and> last h = CHR '']'' \<and> length (takeWhile (\<lambda>c. c \<noteq> CHR '']'') h) = length h - 1
      else CHR '':'' \<notin> set h)"

definition parseAuthority :: "(string \<Rightarrow> full_url option) \<Rightarrow> string \<Rightarrow> nat \<Rightarrow> (string \<times> nat) option" where
  "parseAuthority parse_url authority defaultPort =
     (if authority = [] then None
      else
        let lastColon = last_index_of CHR '':'' authority;
            hasPort = last_index_of CHR '']'' authority < lastColon \<and> lastColon \<noteq> -1;
            hostPart = (if hasPort then take (nat lastColon) authority else authority);
            portPart = (if hasPort then drop (nat lastColon + 1) authority else [])
        in
        if hasPort \<and> \<not> (portPart \<noteq> [] \<and> length portPart \<le> 5 \<and> list_all is_digit portPart) then None
        else if \<not> bare_shape hostPart then None
        else case parse_url (''http://'' @ hostPart) of
          None \<Rightarrow> None
        | Some u \<Rightarrow>
            if url_username u \<noteq> [] \<or> url_password u \<noteq> [] \<or> url_search u \<noteq> [] \<or> url_hash u \<noteq> [] then None
            else if url_pathname u \<noteq> ''/'' \<and> url_pathname u \<noteq> [] then None
            else if url_port u \<noteq> [] then None
            else
              let host = normalizeParsedHost (url_hostname u);
                  port = (if hasPort then nat_of_digits portPart else defaultPort)
              in if host = [] then None
                 else if port = 0 \<or> 65535 < port then None else Some (host, port))"

section \<open>Allowlists\<close>

record allowlist =
  al_exact :: "string list"
  al_suffixes :: "string list"

definition MAX_ALLOWLIST_ENTRIES :: nat where "MAX_ALLOWLIST_ENTRIES = 512"

fun compile_entries :: "(string \<Rightarrow> url option) \<Rightarrow> json list \<Rightarrow> allowlist \<Rightarrow> allowlist option" where
  "compile_entries parse_url [] al = Some al"
| "compile_entries parse_url (JStr raw # es) al =
     (let t = trim raw in
      if prefix ''*.'' t
      then (case daemon_classifyEgressEntry parse_url (drop 2 t) of
              Egress_reject _ \<Rightarrow> None
            | Egress_host h \<Rightarrow> compile_entries parse_url es (al\<lparr>al_suffixes := al_suffixes al @ [h]\<rparr>))
      else (case daemon_classifyEgressEntry parse_url t of
              Egress_reject _ \<Rightarrow> None
            | Egress_host h \<Rightarrow> compile_entries parse_url es (al\<lparr>al_exact := al_exact al @ [h]\<rparr>)))"
| "compile_entries parse_url (_ # es) al = None"

definition compileAllowlist :: "(string \<Rightarrow> url option) \<Rightarrow> json option \<Rightarrow> allowlist option" where
  "compileAllowlist parse_url entries =
     (case entries of
        Some (JArr es) \<Rightarrow>
          (if MAX_ALLOWLIST_ENTRIES < length es then None
           else compile_entries parse_url es \<lparr>al_exact = [], al_suffixes = []\<rparr>)
      | _ \<Rightarrow> None)"

definition hostMatchesAllowlist :: "string \<Rightarrow> allowlist \<Rightarrow> bool" where
  "hostMatchesAllowlist host al \<longleftrightarrow>
     host \<in> set (al_exact al) \<or> list_ex (\<lambda>s. suffix (CHR ''.'' # s) host) (al_suffixes al)"

section \<open>The registry\<close>

record registration =
  rg_allowlist :: allowlist
  rg_proxyToken :: string
  rg_expiresAt :: rat

type_synonym registry = "string \<rightharpoonup> registration"

definition registry_register :: "(string \<Rightarrow> url option) \<Rightarrow> rat \<Rightarrow> string \<Rightarrow> json option \<Rightarrow> json option \<Rightarrow> json option
    \<Rightarrow> registry \<Rightarrow> registry option" where
  "registry_register parse_url now jobId entries token ttl reg =
     (if jobId = [] then None
      else case (token, ttl) of
        (Some (JStr t), Some (JNum s)) \<Rightarrow>
          (if t = [] \<or> s \<le> 0 then None
           else map_option (\<lambda>al. reg(jobId \<mapsto> \<lparr>rg_allowlist = al, rg_proxyToken = t, rg_expiresAt = now + s * 1000\<rparr>))
                  (compileAllowlist parse_url entries))
      | _ \<Rightarrow> None)"

definition registry_get :: "rat \<Rightarrow> string \<Rightarrow> registry \<Rightarrow> registry \<times> registration option" where
  "registry_get now jobId reg =
     (case reg jobId of
        None \<Rightarrow> (reg, None)
      | Some r \<Rightarrow> if rg_expiresAt r \<le> now then (reg(jobId := None), None) else (reg, Some r))"

definition registry_delete :: "string \<Rightarrow> registry \<Rightarrow> registry \<times> bool" where
  "registry_delete jobId reg = (reg(jobId := None), reg jobId \<noteq> None)"

definition registry_prune :: "rat \<Rightarrow> registry \<Rightarrow> registry" where
  "registry_prune now reg = (\<lambda>j. case reg j of None \<Rightarrow> None
     | Some r \<Rightarrow> if rg_expiresAt r \<le> now then None else Some r)"

section \<open>The decision\<close>

text \<open>\<open>/^Basic[ ]+(\S+)$/i\<close> on the trimmed header.\<close>

definition parseProxyAuthorization :: "(string \<Rightarrow> string) \<Rightarrow> string option \<Rightarrow> (string \<times> string) option" where
  "parseProxyAuthorization b64 header =
     (case header of None \<Rightarrow> None
      | Some h \<Rightarrow>
          (let s = trim h; rest = dropWhile (\<lambda>c. c = CHR '' '') (drop 5 s) in
           if toLowerCase (take 5 s) = ''basic'' \<and> prefix '' '' (drop 5 s) \<and> rest \<noteq> [] \<and> \<not> list_ex is_space rest
           then (let d = b64 rest;
                     jobId = takeWhile (\<lambda>c. c \<noteq> CHR '':'') d;
                     token = tl (dropWhile (\<lambda>c. c \<noteq> CHR '':'') d)
                 in if CHR '':'' \<notin> set d \<or> jobId = [] \<or> token = [] then None else Some (jobId, token))
           else None))"

datatype matched_rule = By_internal | By_allowlist

datatype decision = Deny nat string | Allow_by matched_rule

record proxy_env =
  px_sha :: "string \<Rightarrow> string"
  px_b64 :: "string \<Rightarrow> string"
  px_parse_url :: "string \<Rightarrow> url option"
  px_parse_full :: "string \<Rightarrow> full_url option"
  px_tokens :: "string list"
  px_internal :: "(string \<times> nat) option"
  px_allowedPorts :: "nat list"
  px_maxTunnels :: nat
  px_cacheTtl :: rat

definition DEFAULT_ALLOWED_PORTS :: "nat list" where "DEFAULT_ALLOWED_PORTS = [80, 443]"

text \<open>The decision, the registry after its lookup, and the registration it was made on.\<close>

definition decideRequest :: "proxy_env \<Rightarrow> rat \<Rightarrow> (string \<times> string) option \<Rightarrow> string \<Rightarrow> nat \<Rightarrow> registry
    \<Rightarrow> registry \<times> decision \<times> registration option" where
  "decideRequest env now auth host port reg =
     (case auth of None \<Rightarrow> (reg, Deny 407 ''bad_auth'', None)
      | Some (jobId, token) \<Rightarrow>
          (case registry_get now jobId reg of
             (reg', None) \<Rightarrow> (reg', Deny 407 ''bad_auth'', None)
           | (reg', Some r) \<Rightarrow>
               (if px_sha env token \<noteq> px_sha env (rg_proxyToken r) then (reg', Deny 407 ''bad_auth'', None)
                else if px_internal env = Some (host, port) then (reg', Allow_by By_internal, Some r)
                else if port \<notin> set (px_allowedPorts env) then (reg', Deny 403 ''port_not_allowed'', None)
                else if hostMatchesAllowlist host (rg_allowlist r) then (reg', Allow_by By_allowlist, Some r)
                else (reg', Deny 403 ''not_allowlisted'', None))))"

definition classifyResolvedAddresses :: "string list \<Rightarrow> bool \<Rightarrow> string + string" where
  "classifyResolvedAddresses addresses allowInternal =
     (case addresses of
        [] \<Rightarrow> Inl ''no_address''
      | a # _ \<Rightarrow> if \<not> allowInternal \<and> list_ex daemon_isInternalIp addresses then Inl ''internal_ip'' else Inr a)"

section \<open>Events\<close>

datatype event_decision = Ev_allow | Ev_deny | Ev_close

record egress_event =
  eg_jobId :: string
  eg_verb :: string
  eg_host :: string
  eg_port :: nat
  eg_decision :: event_decision
  eg_reason :: "string option"
  eg_resolvedIp :: "string option"

text \<open>\<open>record\<close> of the event client: the queue left behind and the batch it posts, if any.\<close>

definition event_record :: "nat \<Rightarrow> egress_event \<Rightarrow> egress_event list \<Rightarrow> egress_event list \<times> egress_event list option" where
  "event_record maxBatch e queue =
     (if eg_decision e = Ev_deny \<or> maxBatch \<le> length (queue @ [e]) then ([], Some (queue @ [e]))
      else (queue @ [e], None))"

fun record_all :: "nat \<Rightarrow> egress_event list \<Rightarrow> egress_event list \<Rightarrow> egress_event list list \<times> egress_event list" where
  "record_all maxBatch queue [] = ([], queue)"
| "record_all maxBatch queue (e # es) =
     (case event_record maxBatch e queue of
        (q, None) \<Rightarrow> record_all maxBatch q es
      | (q, Some b) \<Rightarrow> (let (bs, q') = record_all maxBatch q es in (b # bs, q')))"

section \<open>Headers of a plain request\<close>

definition STRIPPED_REQUEST_HEADERS :: "string list" where
  "STRIPPED_REQUEST_HEADERS = [''host'', ''proxy-authorization'', ''proxy-connection'', ''connection'', ''keep-alive'',
     ''te'', ''trailer'', ''transfer-encoding'', ''upgrade'']"

definition forwarded_headers :: "string \<Rightarrow> nat \<Rightarrow> (string \<times> header_value) list \<Rightarrow> (string \<times> header_value) list" where
  "forwarded_headers host port headers =
     set_key ''host'' (One_value (if port = 80 then host else host @ '':'' @ show_nat port))
       (filter (\<lambda>(k, v). toLowerCase k \<notin> set STRIPPED_REQUEST_HEADERS) headers)"

definition filterResponseHeaders :: "(string \<times> header_value) list \<Rightarrow> (string \<times> header_value) list" where
  "filterResponseHeaders headers =
     filter (\<lambda>(k, v). toLowerCase k \<notin> {''connection'', ''keep-alive'', ''transfer-encoding'', ''te'', ''trailer'', ''upgrade''})
       headers"

section \<open>The control plane\<close>

definition MIN_DAEMON_TOKEN_LENGTH :: nat where "MIN_DAEMON_TOKEN_LENGTH = 32"

definition parseDaemonTokens :: "string option \<Rightarrow> string list option" where
  "parseDaemonTokens raw =
     (case raw of None \<Rightarrow> None
      | Some r \<Rightarrow>
          (let tokens = filter (\<lambda>t. t \<noteq> []) (map trim (split_char CHR '','' r)) in
           if trim r = [] \<or> tokens = [] \<or> list_ex (\<lambda>t. length t < MIN_DAEMON_TOKEN_LENGTH) tokens then None
           else Some tokens))"

definition matchesDaemonToken :: "(string \<Rightarrow> string) \<Rightarrow> string \<Rightarrow> string list \<Rightarrow> bool" where
  "matchesDaemonToken sha presented tokens \<longleftrightarrow> list_ex (\<lambda>t. sha presented = sha t) tokens"

definition isAuthorized :: "(string \<Rightarrow> string) \<Rightarrow> string option \<Rightarrow> string list \<Rightarrow> bool" where
  "isAuthorized sha header tokens \<longleftrightarrow>
     (case bearerToken header of None \<Rightarrow> False | Some t \<Rightarrow> matchesDaemonToken sha t tokens)"

text \<open>A request of the control plane, its route taken apart; a body is \<open>None\<close> when it is too large or not JSON.\<close>

datatype control_request = Ctl_put string "json option" | Ctl_delete string | Ctl_other

datatype control_reply = Ctl_status nat | Ctl_registered | Ctl_deleted bool

definition handleControl :: "proxy_env \<Rightarrow> rat \<Rightarrow> string option \<Rightarrow> control_request \<Rightarrow> registry \<Rightarrow> registry \<times> control_reply" where
  "handleControl env now header rq reg =
     (if \<not> isAuthorized (px_sha env) header (px_tokens env) then (reg, Ctl_status 401)
      else case rq of
        Ctl_put jobId body \<Rightarrow>
          (case body of None \<Rightarrow> (reg, Ctl_status 400)
           | Some v \<Rightarrow>
               (case registry_register (px_parse_url env) now jobId (json_field ''allowlist'' v)
                       (json_field ''proxyToken'' v) (json_field ''ttlSec'' v) reg of
                  None \<Rightarrow> (reg, Ctl_status 400)
                | Some reg' \<Rightarrow> (reg', Ctl_registered)))
      | Ctl_delete jobId \<Rightarrow> (let (reg', gone) = registry_delete jobId reg in (reg', Ctl_deleted gone))
      | Ctl_other \<Rightarrow> (reg, Ctl_status 405))"

section \<open>The data plane\<close>

text \<open>What a request was granted: the target, whether as the one internal destination, and the registration and
  instant it was judged by.\<close>

record grant =
  gr_jobId :: string
  gr_token :: string
  gr_verb :: string
  gr_host :: string
  gr_port :: nat
  gr_internal :: bool
  gr_registration :: registration
  gr_at :: rat

text \<open>A connection waits for the name server, lost its lookup, has its addresses, is a tunnel to an address (the
  flag: its socket is connected), or is over.  The flag of the others tells a CONNECT from a plain request.\<close>

datatype conn =
    C_none
  | C_waiting bool grant
  | C_failed grant
  | C_answered bool grant "string list"
  | C_tunnel grant string bool
  | C_over

record dial =
  dl_grant :: grant
  dl_ip :: string
  dl_addresses :: "string list"

record proxy_world =
  pw_now :: rat
  pw_jobs :: registry
  pw_cache :: "string \<rightharpoonup> string list \<times> rat"
  pw_inflight :: "string set"
  pw_active :: nat
  pw_conns :: "nat \<Rightarrow> conn"
  pw_events :: "egress_event list"
  pw_dials :: "dial list"
  pw_lookups :: "grant list"
  pw_registered :: "(string \<times> registration) set"

definition event :: "string \<Rightarrow> string \<Rightarrow> string \<Rightarrow> nat \<Rightarrow> event_decision \<Rightarrow> string option \<Rightarrow> string option \<Rightarrow> egress_event" where
  "event job verb host port d reason ip = \<lparr>eg_jobId = job, eg_verb = verb, eg_host = host, eg_port = port,
     eg_decision = d, eg_reason = reason, eg_resolvedIp = ip\<rparr>"

definition grant_event :: "grant \<Rightarrow> event_decision \<Rightarrow> string option \<Rightarrow> string option \<Rightarrow> egress_event" where
  "grant_event g d reason ip = event (gr_jobId g) (gr_verb g) (gr_host g) (gr_port g) d reason ip"

definition emit :: "egress_event \<Rightarrow> proxy_world \<Rightarrow> proxy_world" where
  "emit e w = w\<lparr>pw_events := pw_events w @ [e]\<rparr>"

definition set_conn :: "nat \<Rightarrow> conn \<Rightarrow> proxy_world \<Rightarrow> proxy_world" where
  "set_conn c s w = w\<lparr>pw_conns := (pw_conns w)(c := s)\<rparr>"

text \<open>Both handlers after the resolution: vet every address, dial the first.\<close>

definition proceed :: "nat \<Rightarrow> bool \<Rightarrow> grant \<Rightarrow> string list \<Rightarrow> proxy_world \<Rightarrow> proxy_world" where
  "proceed c tunnel g addresses w =
     (case classifyResolvedAddresses addresses (gr_internal g) of
        Inl reason \<Rightarrow> set_conn c C_over (emit (grant_event g Ev_deny (Some reason) None) w)
      | Inr ip \<Rightarrow>
          (let w1 = w\<lparr>pw_dials := pw_dials w @ [\<lparr>dl_grant = g, dl_ip = ip, dl_addresses = addresses\<rparr>]\<rparr>
           in if tunnel then set_conn c (C_tunnel g ip False) (w1\<lparr>pw_active := pw_active w1 + 1\<rparr>)
              else set_conn c C_over (emit (grant_event g Ev_allow None (Some ip)) w1)))"

text \<open>\<open>cachedResolve\<close>: a fresh entry answers at once (the handler
  goes on before any other event is served), a lookup under way is shared, else one is started.\<close>

definition start_resolve :: "nat \<Rightarrow> bool \<Rightarrow> grant \<Rightarrow> proxy_world \<Rightarrow> proxy_world" where
  "start_resolve c tunnel g w =
     (let fresh = (case pw_cache w (gr_host g) of None \<Rightarrow> None
                   | Some (as, t) \<Rightarrow> if pw_now w < t then Some as else None)
      in case fresh of
        Some as \<Rightarrow> proceed c tunnel g as w
      | None \<Rightarrow>
          (if gr_host g \<in> pw_inflight w then set_conn c (C_waiting tunnel g) w
           else set_conn c (C_waiting tunnel g)
                  (w\<lparr>pw_inflight := insert (gr_host g) (pw_inflight w), pw_lookups := pw_lookups w @ [g]\<rparr>)))"

text \<open>The part of both handlers up to the resolution, for a parsed target.\<close>

definition admit :: "proxy_env \<Rightarrow> nat \<Rightarrow> bool \<Rightarrow> string \<Rightarrow> string option \<Rightarrow> string \<Rightarrow> nat \<Rightarrow> proxy_world \<Rightarrow> proxy_world" where
  "admit env c tunnel verb header host port w =
     (let auth = parseProxyAuthorization (px_b64 env) header;
          job = (case auth of None \<Rightarrow> ''unknown'' | Some (j, _) \<Rightarrow> j)
      in case decideRequest env (pw_now w) auth host port (pw_jobs w) of
        (reg, Deny status reason, _) \<Rightarrow>
          set_conn c C_over (emit (event job verb host port Ev_deny (Some reason) None) (w\<lparr>pw_jobs := reg\<rparr>))
      | (reg, Allow_by rule, r) \<Rightarrow>
          (let w1 = w\<lparr>pw_jobs := reg\<rparr> in
           if tunnel \<and> px_maxTunnels env \<le> pw_active w1 then set_conn c C_over w1
           else case (auth, r) of
             (Some (j, t), Some rg) \<Rightarrow>
               start_resolve c tunnel \<lparr>gr_jobId = j, gr_token = t, gr_verb = verb, gr_host = host, gr_port = port,
                 gr_internal = (rule = By_internal), gr_registration = rg, gr_at = pw_now w\<rparr> w1
           | _ \<Rightarrow> w1))"

definition handleConnect :: "proxy_env \<Rightarrow> nat \<Rightarrow> string option \<Rightarrow> string \<Rightarrow> proxy_world \<Rightarrow> proxy_world" where
  "handleConnect env c header authority w =
     (case parseAuthority (px_parse_full env) authority 443 of
        None \<Rightarrow> set_conn c C_over w
      | Some (host, port) \<Rightarrow> admit env c True ''CONNECT'' header host port w)"

definition handleHttp :: "proxy_env \<Rightarrow> nat \<Rightarrow> string option \<Rightarrow> string \<Rightarrow> string \<Rightarrow> proxy_world \<Rightarrow> proxy_world" where
  "handleHttp env c header verb target w =
     (case px_parse_full env target of
        None \<Rightarrow> set_conn c C_over w
      | Some u \<Rightarrow>
          if url_protocol u \<noteq> ''http:'' then set_conn c C_over w
          else admit env c False verb header (normalizeParsedHost (url_hostname u))
                 (if url_port u = [] then 80 else nat_of_digits (url_port u)) w)"

definition teardown :: "nat \<Rightarrow> grant \<Rightarrow> string \<Rightarrow> proxy_world \<Rightarrow> proxy_world" where
  "teardown c g ip w =
     set_conn c C_over (emit (grant_event g Ev_close None (Some ip)) (w\<lparr>pw_active := pw_active w - 1\<rparr>))"

fun answer_conn :: "string \<Rightarrow> string list \<Rightarrow> conn \<Rightarrow> conn" where
  "answer_conn host addresses (C_waiting tunnel g) =
     (if gr_host g = host then C_answered tunnel g addresses else C_waiting tunnel g)"
| "answer_conn host addresses s = s"

fun fail_conn :: "string \<Rightarrow> conn \<Rightarrow> conn" where
  "fail_conn host (C_waiting tunnel g) = (if gr_host g = host then C_failed g else C_waiting tunnel g)"
| "fail_conn host s = s"

definition resolved :: "proxy_env \<Rightarrow> string \<Rightarrow> string list \<Rightarrow> proxy_world \<Rightarrow> proxy_world" where
  "resolved env host addresses w =
     w\<lparr>pw_cache := (if 0 < px_cacheTtl env then (pw_cache w)(host \<mapsto> (addresses, pw_now w + px_cacheTtl env))
                    else pw_cache w),
       pw_inflight := pw_inflight w - {host},
       pw_conns := answer_conn host addresses \<circ> pw_conns w\<rparr>"

definition control :: "proxy_env \<Rightarrow> string option \<Rightarrow> control_request \<Rightarrow> proxy_world \<Rightarrow> proxy_world" where
  "control env header rq w =
     (let reg = fst (handleControl env (pw_now w) header rq (pw_jobs w)) in
      w\<lparr>pw_jobs := reg, pw_registered := pw_registered w \<union> {(j, r). reg j = Some r}\<rparr>)"

inductive proxy_step :: "proxy_env \<Rightarrow> (string \<Rightarrow> string list \<Rightarrow> bool) \<Rightarrow> proxy_world \<Rightarrow> proxy_world \<Rightarrow> bool"
  for env dns where
  connect: "pw_conns w c = C_none \<Longrightarrow> proxy_step env dns w (handleConnect env c header authority w)"
| http: "pw_conns w c = C_none \<Longrightarrow> proxy_step env dns w (handleHttp env c header verb target w)"
| answered: "\<lbrakk>host \<in> pw_inflight w; dns host addresses\<rbrakk> \<Longrightarrow> proxy_step env dns w (resolved env host addresses w)"
| lookup_failed: "host \<in> pw_inflight w \<Longrightarrow>
    proxy_step env dns w (w\<lparr>pw_inflight := pw_inflight w - {host}, pw_conns := fail_conn host \<circ> pw_conns w\<rparr>)"
| dns_error: "pw_conns w c = C_failed g \<or> pw_conns w c = C_waiting tunnel g \<Longrightarrow>
    proxy_step env dns w (set_conn c C_over (emit (grant_event g Ev_deny (Some ''dns_error'') None) w))"
| go_on: "pw_conns w c = C_answered tunnel g addresses \<Longrightarrow> proxy_step env dns w (proceed c tunnel g addresses w)"
| opened: "pw_conns w c = C_tunnel g ip False \<Longrightarrow>
    proxy_step env dns w (set_conn c (C_tunnel g ip True) (emit (grant_event g Ev_allow None (Some ip)) w))"
| closed: "pw_conns w c = C_tunnel g ip up \<Longrightarrow> proxy_step env dns w (teardown c g ip w)"
| controlled: "proxy_step env dns w (control env header rq w)"
| time: "0 < d \<Longrightarrow> proxy_step env dns w (w\<lparr>pw_now := pw_now w + d\<rparr>)"
| prune: "proxy_step env dns w (w\<lparr>pw_jobs := registry_prune (pw_now w) (pw_jobs w)\<rparr>)"

definition proxy_start :: "rat \<Rightarrow> proxy_world" where
  "proxy_start now = \<lparr>pw_now = now, pw_jobs = Map.empty, pw_cache = Map.empty, pw_inflight = {}, pw_active = 0,
     pw_conns = (\<lambda>_. C_none), pw_events = [], pw_dials = [], pw_lookups = [], pw_registered = {}\<rparr>"

inductive proxy_reachable :: "proxy_env \<Rightarrow> (string \<Rightarrow> string list \<Rightarrow> bool) \<Rightarrow> proxy_world \<Rightarrow> bool" for env dns where
  start: "proxy_reachable env dns (proxy_start now)"
| step: "\<lbrakk>proxy_reachable env dns w; proxy_step env dns w w'\<rbrakk> \<Longrightarrow> proxy_reachable env dns w'"

end
