(* ===== verification/ProxySound.thy ===== *)
theory ProxySound
  imports EgressProxy DaemonSound
begin

text \<open>
  What the egress proxy guarantees under any interleaving of connections, answers of the name server, control
  requests and passing time: it dials only vetted addresses of granted targets, looks up only granted names and
  accounts for every tunnel; and what its cap on tunnels does not bound.
\<close>

section \<open>Compiled allowlists\<close>

definition allowlist_ok :: "(string \<Rightarrow> url option) \<Rightarrow> allowlist \<Rightarrow> bool" where
  "allowlist_ok P al \<longleftrightarrow> (\<forall>h \<in> set (al_exact al) \<union> set (al_suffixes al). bare_hostname P h \<and> \<not> looks_internal h)"

lemma allowlist_ok_add:
  assumes "allowlist_ok P al" "daemon_classifyEgressEntry P raw = Egress_host h"
  shows "allowlist_ok P (al\<lparr>al_exact := al_exact al @ [h]\<rparr>)" "allowlist_ok P (al\<lparr>al_suffixes := al_suffixes al @ [h]\<rparr>)"
  using assms(1) accepted_host[OF assms(2)] by (auto simp: allowlist_ok_def)

lemma compile_entries_ok:
  "compile_entries P es al = Some al' \<Longrightarrow> allowlist_ok P al \<Longrightarrow> allowlist_ok P al'"
proof (induction es arbitrary: al)
  case (Cons e es)
  then obtain raw where e: "e = JStr raw" by (cases e) auto
  let ?entry = "if prefix ''*.'' (trim raw) then drop 2 (trim raw) else trim raw"
  obtain h where h: "daemon_classifyEgressEntry P ?entry = Egress_host h"
    using Cons.prems(1) unfolding e by (auto simp: Let_def split: if_splits classified.splits)
  note add = allowlist_ok_add[OF Cons.prems(2) h]
  show ?case
  proof (cases "prefix ''*.'' (trim raw)")
    case True
    then have "compile_entries P es (al\<lparr>al_suffixes := al_suffixes al @ [h]\<rparr>) = Some al'"
      using Cons.prems(1) h unfolding e by simp
    then show ?thesis using Cons.IH add(2) by blast
  next
    case False
    then have "compile_entries P es (al\<lparr>al_exact := al_exact al @ [h]\<rparr>) = Some al'"
      using Cons.prems(1) h unfolding e by simp
    then show ?thesis using Cons.IH add(1) by blast
  qed
qed simp

lemma compileAllowlist_ok: "compileAllowlist P entries = Some al \<Longrightarrow> allowlist_ok P al"
  by (auto simp: compileAllowlist_def allowlist_ok_def[of P "\<lparr>al_exact = [], al_suffixes = []\<rparr>"] intro: compile_entries_ok
      split: option.splits json.splits if_splits)

lemma matched_host_public:
  assumes "allowlist_ok P al" "hostMatchesAllowlist h al"
  shows "bare_hostname P h \<or> (\<exists>s. bare_hostname P s \<and> suffix (CHR ''.'' # s) h)"
  using assms by (auto simp: allowlist_ok_def hostMatchesAllowlist_def list_ex_iff)

section \<open>The registry\<close>

lemma registry_get_Some:
  "registry_get now j reg = (reg', Some r) \<longleftrightarrow> reg' = reg \<and> reg j = Some r \<and> now < rg_expiresAt r"
  by (auto simp: registry_get_def split: option.splits if_splits)

lemma registry_get_sub: "registry_get now j reg = (reg', x) \<Longrightarrow> reg' \<subseteq>\<^sub>m reg"
  by (auto simp: registry_get_def map_le_def split: option.splits if_splits)

lemma registry_prune_sub: "registry_prune now reg \<subseteq>\<^sub>m reg"
  by (auto simp: registry_prune_def map_le_def dom_def split: option.splits if_splits)

text \<open>Pruning on a timer changes no lookup: expiry is decided when the data plane asks.\<close>

lemma prune_invisible: "snd (registry_get now j (registry_prune now' reg)) = snd (registry_get now j reg)"
  if "now' \<le> now"
  using that by (auto simp: registry_get_def registry_prune_def split: option.splits)

lemma decideRequest_allow:
  assumes "decideRequest env now auth host port reg = (reg', Allow_by rule, r)"
  shows "\<exists>j t rg. auth = Some (j, t) \<and> r = Some rg \<and> reg' = reg \<and> reg j = Some rg \<and> now < rg_expiresAt rg \<and>
    px_sha env t = px_sha env (rg_proxyToken rg) \<and>
    (if rule = By_internal then px_internal env = Some (host, port)
     else port \<in> set (px_allowedPorts env) \<and> hostMatchesAllowlist host (rg_allowlist rg))"
  using assms
  by (auto simp: decideRequest_def registry_get_Some split: option.splits prod.splits if_splits)

lemma decideRequest_sub: "decideRequest env now auth host port reg = (reg', d, r) \<Longrightarrow> reg' \<subseteq>\<^sub>m reg"
  by (auto simp: decideRequest_def dest: registry_get_sub split: option.splits prod.splits if_splits)

lemma register_adds:
  assumes "registry_register P now jobId entries token ttl reg = Some reg'" "reg' j = Some r"
  shows "reg j = Some r \<or> allowlist_ok P (rg_allowlist r)"
proof -
  obtain t s al where "reg' = reg(jobId \<mapsto> \<lparr>rg_allowlist = al, rg_proxyToken = t, rg_expiresAt = now + s * 1000\<rparr>)"
    and al: "compileAllowlist P entries = Some al"
    using assms(1) by (auto simp: registry_register_def split: if_splits option.splits json.splits)
  then show ?thesis using assms(2) compileAllowlist_ok[OF al] by (auto split: if_splits)
qed

lemma registered_ok:
  assumes "handleControl env now header rq reg = (reg', reply)" "reg' j = Some r"
  shows "reg j = Some r \<or> allowlist_ok (px_parse_url env) (rg_allowlist r)"
  using assms register_adds
  by (fastforce simp: handleControl_def registry_delete_def Let_def split: if_splits control_request.splits option.splits)

section \<open>The invariant\<close>

definition grant_ok :: "proxy_env \<Rightarrow> (string \<times> registration) set \<Rightarrow> grant \<Rightarrow> bool" where
  "grant_ok env H g \<longleftrightarrow>
     (gr_jobId g, gr_registration g) \<in> H \<and> gr_at g < rg_expiresAt (gr_registration g) \<and>
     px_sha env (gr_token g) = px_sha env (rg_proxyToken (gr_registration g)) \<and>
     (if gr_internal g then px_internal env = Some (gr_host g, gr_port g)
      else gr_port g \<in> set (px_allowedPorts env) \<and> hostMatchesAllowlist (gr_host g) (rg_allowlist (gr_registration g)))"

fun conn_ok :: "proxy_env \<Rightarrow> (string \<Rightarrow> string list \<Rightarrow> bool) \<Rightarrow> (string \<times> registration) set \<Rightarrow> conn \<Rightarrow> bool" where
  "conn_ok env dns H (C_waiting t g) = grant_ok env H g"
| "conn_ok env dns H (C_answered t g addrs) = (grant_ok env H g \<and> dns (gr_host g) addrs)"
| "conn_ok env dns H _ = True"

definition dial_ok :: "proxy_env \<Rightarrow> (string \<Rightarrow> string list \<Rightarrow> bool) \<Rightarrow> (string \<times> registration) set \<Rightarrow> dial \<Rightarrow> bool" where
  "dial_ok env dns H d \<longleftrightarrow>
     grant_ok env H (dl_grant d) \<and> dns (gr_host (dl_grant d)) (dl_addresses d) \<and> dl_ip d \<in> set (dl_addresses d) \<and>
     (gr_internal (dl_grant d) \<or> \<not> list_ex daemon_isInternalIp (dl_addresses d))"

definition proxy_ok :: "proxy_env \<Rightarrow> (string \<Rightarrow> string list \<Rightarrow> bool) \<Rightarrow> proxy_world \<Rightarrow> bool" where
  "proxy_ok env dns w \<longleftrightarrow>
     (\<forall>j r. pw_jobs w j = Some r \<longrightarrow> (j, r) \<in> pw_registered w) \<and>
     (\<forall>j r. (j, r) \<in> pw_registered w \<longrightarrow> allowlist_ok (px_parse_url env) (rg_allowlist r)) \<and>
     (\<forall>h addrs t. pw_cache w h = Some (addrs, t) \<longrightarrow> dns h addrs) \<and>
     (\<forall>c. conn_ok env dns (pw_registered w) (pw_conns w c)) \<and>
     (\<forall>d \<in> set (pw_dials w). dial_ok env dns (pw_registered w) d) \<and>
     (\<forall>g \<in> set (pw_lookups w). grant_ok env (pw_registered w) g)"

lemma grant_ok_mono: "grant_ok env H g \<Longrightarrow> H \<subseteq> H' \<Longrightarrow> grant_ok env H' g"
  by (auto simp: grant_ok_def)

lemma conn_ok_mono: "conn_ok env dns H s \<Longrightarrow> H \<subseteq> H' \<Longrightarrow> conn_ok env dns H' s"
  by (cases s) (auto intro: grant_ok_mono)

lemma proxy_ok_jobs: "proxy_ok env dns w \<Longrightarrow> reg \<subseteq>\<^sub>m pw_jobs w \<Longrightarrow> proxy_ok env dns (w\<lparr>pw_jobs := reg\<rparr>)"
  unfolding proxy_ok_def by (fastforce simp: map_le_def dom_def)

lemma proxy_ok_set_conn:
  "proxy_ok env dns w \<Longrightarrow> conn_ok env dns (pw_registered w) s \<Longrightarrow> proxy_ok env dns (set_conn c s w)"
  by (simp add: proxy_ok_def set_conn_def)

lemma proxy_ok_emit [simp]: "proxy_ok env dns (emit e w) = proxy_ok env dns w"
  by (simp add: proxy_ok_def emit_def)

lemma world_simps [simp]:
  "pw_registered (set_conn c s w) = pw_registered w" "pw_registered (emit e w) = pw_registered w"
  "pw_dials (emit e w) = pw_dials w" "pw_dials (set_conn c s w) = pw_dials w"
  "pw_active (emit e w) = pw_active w" "pw_active (set_conn c s w) = pw_active w"
  "pw_conns (emit e w) = pw_conns w" "pw_conns (set_conn c s w) = (pw_conns w)(c := s)"
  "pw_jobs (emit e w) = pw_jobs w" "pw_jobs (set_conn c s w) = pw_jobs w"
  by (simp_all add: set_conn_def emit_def)

lemma proceed_ok:
  assumes "proxy_ok env dns w" "grant_ok env (pw_registered w) g" "dns (gr_host g) addrs"
  shows "proxy_ok env dns (proceed c tunnel g addrs w)"
proof (cases "classifyResolvedAddresses addrs (gr_internal g)")
  case (Inl reason)
  then show ?thesis using assms(1) by (simp add: proceed_def proxy_ok_set_conn)
next
  case (Inr ip)
  then have "dial_ok env dns (pw_registered w) \<lparr>dl_grant = g, dl_ip = ip, dl_addresses = addrs\<rparr>"
    using assms(2,3) by (auto simp: dial_ok_def classifyResolvedAddresses_def split: list.splits if_splits)
  then have "proxy_ok env dns (w\<lparr>pw_dials := pw_dials w @ [\<lparr>dl_grant = g, dl_ip = ip, dl_addresses = addrs\<rparr>]\<rparr>)"
    "proxy_ok env dns (w\<lparr>pw_dials := pw_dials w @ [\<lparr>dl_grant = g, dl_ip = ip, dl_addresses = addrs\<rparr>], pw_active := n\<rparr>)" for n
    using assms(1) by (auto simp: proxy_ok_def)
  then show ?thesis using Inr by (simp add: proceed_def Let_def proxy_ok_set_conn)
qed

lemma start_resolve_ok:
  assumes "proxy_ok env dns w" "grant_ok env (pw_registered w) g"
  shows "proxy_ok env dns (start_resolve c tunnel g w)"
proof -
  have lookup: "proxy_ok env dns (w\<lparr>pw_inflight := X, pw_lookups := pw_lookups w @ [g]\<rparr>)" for X
    using assms by (auto simp: proxy_ok_def)
  show ?thesis
  proof (cases "pw_cache w (gr_host g)")
    case None
    then show ?thesis using assms lookup by (auto simp: start_resolve_def Let_def intro!: proxy_ok_set_conn)
  next
    case (Some e)
    then obtain addrs t where e: "pw_cache w (gr_host g) = Some (addrs, t)" by (cases e) auto
    then have "dns (gr_host g) addrs" using assms(1) by (auto simp: proxy_ok_def)
    then show ?thesis using assms lookup e by (auto simp: start_resolve_def Let_def intro!: proxy_ok_set_conn proceed_ok)
  qed
qed

lemma admit_ok:
  assumes "proxy_ok env dns w"
  shows "proxy_ok env dns (admit env c tunnel verb header host port w)"
proof -
  obtain reg d r where d: "decideRequest env (pw_now w) (parseProxyAuthorization (px_b64 env) header) host port (pw_jobs w) =
      (reg, d, r)" by (metis prod_cases3)
  have w1: "proxy_ok env dns (w\<lparr>pw_jobs := reg\<rparr>)" using proxy_ok_jobs[OF assms decideRequest_sub[OF d]] .
  show ?thesis
  proof (cases d)
    case (Deny status reason)
    then show ?thesis using d w1 by (simp add: admit_def Let_def proxy_ok_set_conn)
  next
    case (Allow_by rule)
    obtain j t rg where a: "parseProxyAuthorization (px_b64 env) header = Some (j, t)" "r = Some rg" "reg = pw_jobs w"
      "pw_jobs w j = Some rg" "pw_now w < rg_expiresAt rg" "px_sha env t = px_sha env (rg_proxyToken rg)"
      "if rule = By_internal then px_internal env = Some (host, port)
       else port \<in> set (px_allowedPorts env) \<and> hostMatchesAllowlist host (rg_allowlist rg)"
      using decideRequest_allow d Allow_by by metis
    have "(j, rg) \<in> pw_registered w" using assms a(4) by (simp add: proxy_ok_def)
    then have "grant_ok env (pw_registered (w\<lparr>pw_jobs := reg\<rparr>)) \<lparr>gr_jobId = j, gr_token = t, gr_verb = verb, gr_host = host,
        gr_port = port, gr_internal = (rule = By_internal), gr_registration = rg, gr_at = pw_now w\<rparr>"
      using a by (auto simp: grant_ok_def)
    then show ?thesis
      using d Allow_by a(1,2) w1 by (auto simp: admit_def Let_def intro!: start_resolve_ok proxy_ok_set_conn)
  qed
qed

lemma answer_conn_ok: "conn_ok env dns H s \<Longrightarrow> dns h addrs \<Longrightarrow> conn_ok env dns H (answer_conn h addrs s)"
  by (cases s) auto

lemma fail_conn_ok: "conn_ok env dns H s \<Longrightarrow> conn_ok env dns H (fail_conn h s)"
  by (cases s) auto

lemma control_ok:
  assumes "proxy_ok env dns w"
  shows "proxy_ok env dns (control env header rq w)"
proof -
  obtain reg reply where h: "handleControl env (pw_now w) header rq (pw_jobs w) = (reg, reply)" by fastforce
  let ?H = "pw_registered w \<union> {(j, r). reg j = Some r}"
  have sub: "pw_registered w \<subseteq> ?H" by blast
  have al: "allowlist_ok (px_parse_url env) (rg_allowlist r)" if "(j, r) \<in> ?H" for j r
    using that registered_ok[OF h, of j r] assms unfolding proxy_ok_def by blast
  have d: "dial_ok env dns ?H d" if "dial_ok env dns (pw_registered w) d" for d
    using that grant_ok_mono[OF _ sub] by (auto simp: dial_ok_def)
  have g: "grant_ok env ?H g" if "grant_ok env (pw_registered w) g" for g using grant_ok_mono[OF that sub] .
  have c: "conn_ok env dns ?H s" if "conn_ok env dns (pw_registered w) s" for s using conn_ok_mono[OF that sub] .
  show ?thesis
    using assms al d g c unfolding proxy_ok_def control_def by (simp add: h Let_def)
qed

lemma step_ok: "proxy_step env dns w w' \<Longrightarrow> proxy_ok env dns w \<Longrightarrow> proxy_ok env dns w'"
proof (induction rule: proxy_step.induct)
  case (connect w c header authority)
  then show ?case by (auto simp: handleConnect_def admit_ok proxy_ok_set_conn split: option.splits)
next
  case (http w c header verb target)
  then show ?case by (auto simp: handleHttp_def admit_ok proxy_ok_set_conn split: option.splits)
next
  case (answered host w addrs)
  then show ?case by (auto simp: resolved_def proxy_ok_def answer_conn_ok)
next
  case (lookup_failed host w)
  then show ?case by (auto simp: proxy_ok_def fail_conn_ok)
next
  case (go_on w c tunnel g addrs)
  then have "conn_ok env dns (pw_registered w) (C_answered tunnel g addrs)" unfolding proxy_ok_def by metis
  then show ?case using go_on proceed_ok by simp
next
  case (closed w c g ip up)
  then have "proxy_ok env dns (w\<lparr>pw_active := pw_active w - 1\<rparr>)" by (simp add: proxy_ok_def)
  then show ?case by (simp add: teardown_def proxy_ok_set_conn)
next
  case (controlled header rq w)
  then show ?case by (simp add: control_ok)
next
  case (time d w)
  then show ?case by (simp add: proxy_ok_def)
next
  case (prune w)
  then show ?case using proxy_ok_jobs registry_prune_sub by blast
qed (simp_all add: proxy_ok_set_conn)

lemma reachable_ok: "proxy_reachable env dns w \<Longrightarrow> proxy_ok env dns w"
proof (induction rule: proxy_reachable.induct)
  case (start now)
  then show ?case by (simp add: proxy_ok_def proxy_start_def)
qed (rule step_ok)


section \<open>Tunnel slots\<close>

fun is_tunnel :: "conn \<Rightarrow> bool" where
  "is_tunnel (C_tunnel g ip up) = True"
| "is_tunnel _ = False"

definition tunnels :: "proxy_world \<Rightarrow> nat set" where
  "tunnels w = {c. is_tunnel (pw_conns w c)}"

definition slots_ok :: "proxy_world \<Rightarrow> bool" where
  "slots_ok w \<longleftrightarrow> finite (tunnels w) \<and> pw_active w = card (tunnels w)"

lemma tunnels_set_conn:
  "tunnels (set_conn c s w) = (if is_tunnel s then insert c (tunnels w) else tunnels w - {c})"
  by (auto simp: tunnels_def split: if_splits)

lemma slots_keep:
  assumes "slots_ok w" "\<not> is_tunnel (pw_conns w c)" "\<not> is_tunnel s" "pw_active w' = pw_active w" "pw_conns w' = pw_conns w"
  shows "slots_ok (set_conn c s w')"
proof -
  have "tunnels (set_conn c s w') = tunnels w"
    using assms(2,3,5) by (auto simp: tunnels_def)
  then show ?thesis using assms(1,4) by (simp add: slots_ok_def)
qed

lemma slots_open:
  assumes "slots_ok w" "\<not> is_tunnel (pw_conns w c)" "pw_active w' = pw_active w + 1" "pw_conns w' = pw_conns w"
  shows "slots_ok (set_conn c (C_tunnel g ip up) w')"
proof -
  have "tunnels (set_conn c (C_tunnel g ip up) w') = insert c (tunnels w)" "c \<notin> tunnels w"
    using assms(2,4) by (auto simp: tunnels_def)
  then show ?thesis using assms(1,3) by (simp add: slots_ok_def)
qed

lemma slots_proceed:
  assumes "slots_ok w" "\<not> is_tunnel (pw_conns w c)" "pw_active w' = pw_active w" "pw_conns w' = pw_conns w"
  shows "slots_ok (proceed c tunnel g addrs w')"
  using assms(3,4)
  by (auto simp: proceed_def Let_def split: sum.splits intro!: slots_keep[OF assms(1,2)] slots_open[OF assms(1,2)])

lemma slots_start_resolve:
  assumes "slots_ok w" "\<not> is_tunnel (pw_conns w c)" "pw_active w' = pw_active w" "pw_conns w' = pw_conns w"
  shows "slots_ok (start_resolve c tunnel g w')"
  using assms unfolding start_resolve_def Let_def
  by (auto split: option.splits intro!: slots_keep[OF assms(1,2)] slots_proceed[OF assms(1,2)])

lemma slots_admit:
  assumes "slots_ok w" "\<not> is_tunnel (pw_conns w c)"
  shows "slots_ok (admit env c tunnel verb header host port w)"
proof -
  obtain reg d r where d: "decideRequest env (pw_now w) (parseProxyAuthorization (px_b64 env) header) host port (pw_jobs w) =
      (reg, d, r)" by (metis prod_cases3)
  have same: "slots_ok (w\<lparr>pw_jobs := reg\<rparr>)" using assms(1) by (simp add: slots_ok_def tunnels_def)
  show ?thesis
    using d same
    by (auto simp: admit_def Let_def split: decision.splits option.splits
        intro!: slots_keep[OF assms] slots_start_resolve[OF assms])
qed

lemma is_tunnel_answer [simp]: "is_tunnel (answer_conn h addrs s) = is_tunnel s"
  by (cases s) auto

lemma is_tunnel_fail [simp]: "is_tunnel (fail_conn h s) = is_tunnel s"
  by (cases s) auto

lemma slots_step: "proxy_step env dns w w' \<Longrightarrow> slots_ok w \<Longrightarrow> slots_ok w'"
proof (induction rule: proxy_step.induct)
  case (connect w c header authority)
  then show ?case by (auto simp: handleConnect_def slots_admit intro!: slots_keep split: option.splits)
next
  case (http w c header verb target)
  then show ?case by (auto simp: handleHttp_def slots_admit intro!: slots_keep split: option.splits)
next
  case (answered host w addrs)
  then show ?case by (simp add: slots_ok_def tunnels_def resolved_def)
next
  case (lookup_failed host w)
  then show ?case by (simp add: slots_ok_def tunnels_def)
next
  case (dns_error w c g tunnel)
  then show ?case by (auto intro!: slots_keep[of w])
next
  case (go_on w c tunnel g addrs)
  then show ?case
    by (auto intro!: slots_proceed[of w])
next
  case (opened w c g ip)
  then have "tunnels (set_conn c (C_tunnel g ip True) w) = tunnels w" by (auto simp: tunnels_def)
  then show ?case using opened by (simp add: slots_ok_def tunnels_def)
next
  case (closed w c g ip up)
  then have "c \<in> tunnels w" "tunnels (teardown c g ip w) = tunnels w - {c}"
    by (auto simp: tunnels_def teardown_def)
  then show ?case using closed(2) by (simp add: slots_ok_def teardown_def)
next
  case (controlled header rq w)
  then show ?case by (simp add: slots_ok_def tunnels_def control_def Let_def)
next
  case (time d w)
  then show ?case by (simp add: slots_ok_def tunnels_def)
next
  case (prune w)
  then show ?case by (simp add: slots_ok_def tunnels_def)
qed

text \<open>C20: The counter of live tunnels is exact at every moment: it is the number of connections that have dialled
  and are not torn down, so no slot leaks and none is released twice.\<close>

theorem tunnel_slots_exact:
  assumes "proxy_reachable env dns w"
  shows "finite (tunnels w) \<and> pw_active w = card (tunnels w)"
  using assms
proof (induction rule: proxy_reachable.induct)
  case (start now)
  then show ?case by (simp add: tunnels_def proxy_start_def)
next
  case (step w w')
  then show ?case using slots_step unfolding slots_ok_def by blast
qed

section \<open>The cap on tunnels\<close>

text \<open>The cap is tested when a request arrives and the counter is raised when its name is resolved: requests that
  arrive in between all pass.\<close>

definition granted :: "proxy_env \<Rightarrow> string option \<Rightarrow> string \<Rightarrow> proxy_world \<Rightarrow> grant \<Rightarrow> bool" where
  "granted env header authority w g \<longleftrightarrow>
     parseAuthority (px_parse_full env) authority 443 = Some (gr_host g, gr_port g) \<and>
     parseProxyAuthorization (px_b64 env) header = Some (gr_jobId g, gr_token g) \<and>
     gr_verb g = ''CONNECT'' \<and> gr_at g = pw_now w \<and>
     decideRequest env (pw_now w) (Some (gr_jobId g, gr_token g)) (gr_host g) (gr_port g) (pw_jobs w) =
       (pw_jobs w, Allow_by (if gr_internal g then By_internal else By_allowlist), Some (gr_registration g))"

lemma granted_arrives:
  assumes "granted env header authority w g" "pw_active w < px_maxTunnels env"
    "gr_host g \<in> pw_inflight w" "pw_cache w (gr_host g) = None"
  shows "handleConnect env c header authority w = set_conn c (C_waiting True g) w"
  using assms
  by (cases g) (auto simp: granted_def handleConnect_def admit_def Let_def start_resolve_def)

lemma arrivals:
  assumes "proxy_reachable env dns w" "granted env header authority w g" "pw_active w < px_maxTunnels env"
    "gr_host g \<in> pw_inflight w" "pw_cache w (gr_host g) = None" "\<And>c. base \<le> c \<Longrightarrow> pw_conns w c = C_none"
  shows "proxy_reachable env dns (w\<lparr>pw_conns := (\<lambda>c. if base \<le> c \<and> c < base + k then C_waiting True g else pw_conns w c)\<rparr>)"
proof (induction k)
  case 0
  have "(\<lambda>c. if base \<le> c \<and> c < base + 0 then C_waiting True g else pw_conns w c) = pw_conns w" by (rule ext) auto
  then show ?case using assms(1) by simp
next
  case (Suc k)
  let ?w = "w\<lparr>pw_conns := (\<lambda>c. if base \<le> c \<and> c < base + k then C_waiting True g else pw_conns w c)\<rparr>"
  have g: "granted env header authority ?w g" using assms(2) by (simp add: granted_def)
  let ?v = "w\<lparr>pw_conns := (\<lambda>c. if base \<le> c \<and> c < base + Suc k then C_waiting True g else pw_conns w c)\<rparr>"
  have free: "pw_conns ?w (base + k) = C_none" by (simp add: assms(6))
  have "handleConnect env (base + k) header authority ?w = set_conn (base + k) (C_waiting True g) ?w"
    using granted_arrives[OF g] assms(3-5) by simp
  also have "\<dots> = ?v" by (auto simp: set_conn_def fun_eq_iff)
  finally have arrive: "handleConnect env (base + k) header authority ?w = ?v" .
  have "proxy_step env dns ?w (handleConnect env (base + k) header authority ?w)" by (rule proxy_step.connect[OF free])
  then show ?case unfolding arrive by (rule proxy_reachable.step[OF Suc])
qed

lemma departures:
  assumes "proxy_reachable env dns w" "classifyResolvedAddresses addrs (gr_internal g) = Inr ip"
    "\<And>c. base \<le> c \<Longrightarrow> c < base + k \<Longrightarrow> pw_conns w c = C_answered True g addrs"
  shows "\<exists>w'. proxy_reachable env dns w' \<and> pw_active w' = pw_active w + k"
  using assms
proof (induction k arbitrary: w base)
  case 0
  then show ?case by auto
next
  case (Suc k)
  let ?w = "proceed base True g addrs w"
  have "proxy_step env dns w ?w" by (rule proxy_step.go_on) (simp add: Suc.prems(3))
  then have r: "proxy_reachable env dns ?w" using Suc.prems(1) proxy_reachable.step by metis
  have a: "pw_active ?w = pw_active w + 1" and c: "pw_conns ?w = (pw_conns w)(base := C_tunnel g ip False)"
    using Suc.prems(2) by (simp_all add: proceed_def Let_def)
  have "pw_conns ?w c = C_answered True g addrs" if "Suc base \<le> c" "c < Suc base + k" for c
    using Suc.prems(3)[of c] that unfolding c by simp
  from Suc.IH[OF r Suc.prems(2) this] show ?case using a by simp
qed

text \<open>C19: The cap on concurrent tunnels bounds nothing: it is tested when a request arrives, the counter is raised
  after the name is resolved.  While one slot is free and a lookup of a host is under way, any number of
  requests for it pass the test, and when the name server answers every one of them becomes a tunnel.\<close>

theorem tunnel_cap_overrun:
  assumes "proxy_reachable env dns w" "granted env header authority w g" "pw_active w < px_maxTunnels env"
    "gr_host g \<in> pw_inflight w" "pw_cache w (gr_host g) = None" "\<And>c. base \<le> c \<Longrightarrow> pw_conns w c = C_none"
    "dns (gr_host g) addrs" "classifyResolvedAddresses addrs (gr_internal g) = Inr ip"
  shows "\<exists>w'. proxy_reachable env dns w' \<and> pw_active w' = pw_active w + k"
proof -
  let ?w = "w\<lparr>pw_conns := (\<lambda>c. if base \<le> c \<and> c < base + k then C_waiting True g else pw_conns w c)\<rparr>"
  let ?v = "resolved env (gr_host g) addrs ?w"
  have i: "gr_host g \<in> pw_inflight ?w" using assms(4) by simp
  have r: "proxy_reachable env dns ?v"
    by (rule proxy_reachable.step[OF arrivals[OF assms(1-6)] proxy_step.answered[where w = ?w and dns = dns, OF i assms(7)]])
  have "pw_conns ?v c = C_answered True g addrs" if "base \<le> c" "c < base + k" for c
    using that by (simp add: resolved_def)
  from departures[OF r assms(8) this] show ?thesis by (simp add: resolved_def)
qed

section \<open>Witnesses\<close>

definition demo_env :: proxy_env where
  "demo_env = \<lparr>px_sha = id, px_b64 = (\<lambda>_. ''j1:tok''), px_parse_url = wire_parser,
     px_parse_full = (\<lambda>s. if s = ''http://github.com''
       then Some \<lparr>url_protocol = ''http:'', url_username = [], url_password = [], url_hostname = ''github.com'',
                 url_port = [], url_pathname = ''/'', url_search = [], url_hash = []\<rparr> else None),
     px_tokens = [''secret''], px_internal = None, px_allowedPorts = DEFAULT_ALLOWED_PORTS, px_maxTunnels = 1,
     px_cacheTtl = 0\<rparr>"

definition demo_dns :: "string \<Rightarrow> string list \<Rightarrow> bool" where
  "demo_dns h addrs \<longleftrightarrow> addrs = [''140.82.121.4'']"

definition demo_body :: json where
  "demo_body = JObj [(''allowlist'', JArr [JStr ''GitHub.com.'']), (''proxyToken'', JStr ''tok''), (''ttlSec'', JNum 60)]"

definition demo_registration :: registration where
  "demo_registration = \<lparr>rg_allowlist = \<lparr>al_exact = [''github.com''], al_suffixes = []\<rparr>, rg_proxyToken = ''tok'',
     rg_expiresAt = 60000\<rparr>"

definition demo_grant :: grant where
  "demo_grant = \<lparr>gr_jobId = ''j1'', gr_token = ''tok'', gr_verb = ''CONNECT'', gr_host = ''github.com'', gr_port = 443,
     gr_internal = False, gr_registration = demo_registration, gr_at = 0\<rparr>"

definition demo_registered :: proxy_world where
  "demo_registered = control demo_env (Some ''Bearer secret'') (Ctl_put ''j1'' (Some demo_body)) (proxy_start 0)"

definition demo_waiting :: proxy_world where
  "demo_waiting = handleConnect demo_env 0 (Some ''Basic eA=='') ''github.com:443'' demo_registered"

lemma demo_parts:
  "isAuthorized id (Some ''Bearer secret'') [''secret'']"
  "compileAllowlist wire_parser (Some (JArr [JStr ''GitHub.com.''])) = Some \<lparr>al_exact = [''github.com''], al_suffixes = []\<rparr>"
  "parseProxyAuthorization (\<lambda>_. ''j1:tok'') (Some ''Basic eA=='') = Some (''j1'', ''tok'')"
  "parseAuthority (px_parse_full demo_env) ''github.com:443'' 443 = Some (''github.com'', 443)"
  "\<not> daemon_isInternalIp ''140.82.121.4''"
proof -
  have "bearerToken (Some ''Bearer secret'') = Some ''secret''" by code_simp
  then show "isAuthorized id (Some ''Bearer secret'') [''secret'']" by (simp add: isAuthorized_def matchesDaemonToken_def)
  have "last_index_of CHR '':'' ''github.com:443'' = 10" "last_index_of CHR '']'' ''github.com:443'' = -1"
    "bare_shape ''github.com''" "list_all is_digit ''443''" "normalizeParsedHost ''github.com'' = ''github.com''" by code_simp+
  moreover have "nat_of_digits ''443'' = 443" by (simp add: nat_of_digits_def digit_val_def)
  ultimately show "parseAuthority (px_parse_full demo_env) ''github.com:443'' 443 = Some (''github.com'', 443)"
    by (simp add: parseAuthority_def demo_env_def Let_def)
qed code_simp+

lemma demo_registered_eq:
  "demo_registered = (proxy_start 0)\<lparr>pw_jobs := [''j1'' \<mapsto> demo_registration], pw_registered := {(''j1'', demo_registration)}\<rparr>"
proof -
  have "registry_register wire_parser 0 ''j1'' (json_field ''allowlist'' demo_body) (json_field ''proxyToken'' demo_body)
      (json_field ''ttlSec'' demo_body) Map.empty = Some [''j1'' \<mapsto> demo_registration]"
    by (simp add: demo_body_def registry_register_def demo_parts demo_registration_def)
  then have "fst (handleControl demo_env 0 (Some ''Bearer secret'') (Ctl_put ''j1'' (Some demo_body)) Map.empty) =
      [''j1'' \<mapsto> demo_registration]"
    by (simp add: handleControl_def demo_env_def demo_parts)
  then show ?thesis by (auto simp: demo_registered_def control_def proxy_start_def split: if_splits)
qed

lemma demo_decision:
  "decideRequest demo_env 0 (Some (''j1'', ''tok'')) ''github.com'' 443 [''j1'' \<mapsto> demo_registration] =
     ([''j1'' \<mapsto> demo_registration], Allow_by By_allowlist, Some demo_registration)"
  by (simp add: decideRequest_def registry_get_def demo_registration_def demo_env_def DEFAULT_ALLOWED_PORTS_def
      hostMatchesAllowlist_def)

lemma demo_waiting_eq:
  "demo_waiting = demo_registered\<lparr>pw_conns := (\<lambda>_. C_none)(0 := C_waiting True demo_grant),
     pw_inflight := {''github.com''}, pw_lookups := [demo_grant]\<rparr>"
proof -
  have "parseProxyAuthorization (px_b64 demo_env) (Some ''Basic eA=='') = Some (''j1'', ''tok'')"
    using demo_parts(3) by (simp add: demo_env_def)
  moreover have "px_maxTunnels demo_env = 1" by (simp add: demo_env_def)
  ultimately show ?thesis
    by (simp add: demo_waiting_def handleConnect_def demo_parts(4) admit_def demo_registered_eq demo_decision
        proxy_start_def start_resolve_def set_conn_def demo_grant_def)
qed

lemma demo_reachable: "proxy_reachable demo_env demo_dns demo_waiting"
proof -
  have "proxy_reachable demo_env demo_dns demo_registered"
    unfolding demo_registered_def by (rule proxy_reachable.step[OF proxy_reachable.start proxy_step.controlled])
  moreover have "pw_conns demo_registered 0 = C_none" by (simp add: demo_registered_eq proxy_start_def)
  ultimately show ?thesis
    unfolding demo_waiting_def by (rule proxy_reachable.step[OF _ proxy_step.connect])
qed

definition demo_answered :: proxy_world where
  "demo_answered = resolved demo_env ''github.com'' [''140.82.121.4''] demo_waiting"

definition demo_tunnel :: proxy_world where
  "demo_tunnel = proceed 0 True demo_grant [''140.82.121.4''] demo_answered"

lemma demo_tunnel_reachable: "proxy_reachable demo_env demo_dns demo_tunnel"
proof -
  have "''github.com'' \<in> pw_inflight demo_waiting" by (simp add: demo_waiting_eq)
  then have "proxy_reachable demo_env demo_dns demo_answered"
    unfolding demo_answered_def
    by (intro proxy_reachable.step[OF demo_reachable] proxy_step.answered) (simp_all add: demo_dns_def)
  moreover have "pw_conns demo_answered 0 = C_answered True demo_grant [''140.82.121.4'']"
    by (simp add: demo_answered_def resolved_def demo_waiting_eq demo_grant_def)
  ultimately show ?thesis
    unfolding demo_tunnel_def by (rule proxy_reachable.step[OF _ proxy_step.go_on])
qed

lemma demo_dialled:
  "pw_dials demo_tunnel = [\<lparr>dl_grant = demo_grant, dl_ip = ''140.82.121.4'', dl_addresses = [''140.82.121.4'']\<rparr>]"
  "pw_active demo_tunnel = 1"
  by (simp_all add: demo_tunnel_def proceed_def classifyResolvedAddresses_def demo_parts(5) demo_grant_def demo_answered_def
      resolved_def demo_waiting_eq demo_registered_eq proxy_start_def)


theorem tunnel_slots_witness: "card (tunnels demo_tunnel) = 1"
  using tunnel_slots_exact[OF demo_tunnel_reachable] by (simp add: demo_dialled)

theorem tunnel_cap_witness:
  "px_maxTunnels demo_env = 1 \<and> (\<exists>w. proxy_reachable demo_env demo_dns w \<and> pw_active w = 300)"
proof -
  have m: "px_maxTunnels demo_env = 1" by (simp add: demo_env_def)
  have g: "granted demo_env (Some ''Basic eA=='') ''github.com:443'' demo_waiting demo_grant"
    using demo_parts(3,4) demo_decision
    by (simp add: granted_def demo_grant_def demo_waiting_eq demo_registered_eq proxy_start_def demo_env_def)
  have w: "pw_active demo_waiting = 0" "gr_host demo_grant \<in> pw_inflight demo_waiting"
    "pw_cache demo_waiting (gr_host demo_grant) = None" "\<And>c. 1 \<le> c \<Longrightarrow> pw_conns demo_waiting c = C_none"
    by (simp_all add: demo_waiting_eq demo_registered_eq proxy_start_def demo_grant_def)
  have free: "pw_active demo_waiting < px_maxTunnels demo_env" using m w(1) by simp
  have "demo_dns (gr_host demo_grant) [''140.82.121.4'']" by (simp add: demo_dns_def)
  moreover have "classifyResolvedAddresses [''140.82.121.4''] (gr_internal demo_grant) = Inr ''140.82.121.4''"
    by (simp add: classifyResolvedAddresses_def demo_parts(5))
  ultimately show ?thesis
    using tunnel_cap_overrun[where k = 300, OF demo_reachable g free w(2-4)] m w(1) by simp
qed

end
