(* ===== verification/EventInv.thy ===== *)
theory EventInv
  imports FinalizeJob
begin

text \<open>
  What the event log guarantees: the IDENTITY is a strict order of insertion, a (job, provision, seq)
  key is stored at most once, a job has at most one truncation marker; a retried batch stores nothing
  new; and the cap drops telemetry only, never an audit-grade event.
\<close>

section \<open>The log invariant\<close>

definition event_key :: "dev_job_event \<Rightarrow> string \<times> nat \<times> nat" where
  "event_key e = (e_jobId e, e_provision e, e_seq e)"

definition events_ok :: "dev_db \<Rightarrow> bool" where
  "events_ok db \<longleftrightarrow>
     sorted_wrt (<) (List.map e_id (db_events db)) \<and>
     (\<forall>e\<in>set (db_events db). e_id e < db_nextEventId db) \<and>
     distinct (List.map event_key (db_events db)) \<and>
     distinct (List.map e_jobId (filter is_truncation_marker (db_events db)))"

lemma seq_taken_iff: "seq_taken i prov sq db \<longleftrightarrow> (i, prov, sq) \<in> event_key ` set (db_events db)"
  by (auto simp: seq_taken_def list_ex_iff event_key_def)

lemma marker_present_iff:
  "marker_present i db \<longleftrightarrow> i \<in> e_jobId ` set (filter is_truncation_marker (db_events db))"
  by (auto simp: marker_present_def list_ex_iff)

lemma insert_event_cases:
  assumes "insert_event i prov sq ty ts pl db = Inr (db', r)"
  obtains (skipped) "r = None" "seq_taken i prov sq db"
      "db' = db\<lparr>db_nextEventId := Suc (db_nextEventId db)\<rparr>"
    | (stored) e where "r = Some e" "\<not> seq_taken i prov sq db" "getJob i db \<noteq> None"
      "e = \<lparr>e_id = db_nextEventId db, e_jobId = i, e_provision = prov, e_seq = sq, e_type = ty,
            e_ts = ts, e_payload = pl\<rparr>"
      "is_truncation_marker e \<longrightarrow> \<not> marker_present i db"
      "db' = db\<lparr>db_nextEventId := Suc (db_nextEventId db), db_events := db_events db @ [e]\<rparr>"
  using assms by (auto simp: insert_event_def Let_def split: if_splits)

lemma insert_event_ok:
  assumes "events_ok db" "insert_event i prov sq ty ts pl db = Inr (db', r)"
  shows "events_ok db'"
  using assms(2)
proof (cases rule: insert_event_cases)
  case skipped
  then show ?thesis using assms(1) by (auto simp: events_ok_def less_Suc_eq)
next
  case (stored e)
  have "event_key e \<notin> event_key ` set (db_events db)"
    using stored by (simp add: seq_taken_iff event_key_def)
  moreover have "is_truncation_marker e \<longrightarrow>
      e_jobId e \<notin> e_jobId ` set (filter is_truncation_marker (db_events db))"
    using stored(4,5) by (simp add: marker_present_iff)
  ultimately show ?thesis
    using assms(1) stored(4,6)
    by (auto simp: events_ok_def sorted_wrt_append less_Suc_eq)
qed

lemma insert_event_mono:
  "\<lbrakk>insert_event i prov sq ty ts pl db = Inr (db', r); seq_taken k p q db\<rbrakk> \<Longrightarrow> seq_taken k p q db'"
  by (erule insert_event_cases) (auto simp: seq_taken_iff)

lemma insert_event_taken:
  "insert_event i prov sq ty ts pl db = Inr (db', r) \<Longrightarrow> seq_taken i prov sq db'"
  by (erule insert_event_cases) (auto simp: seq_taken_iff event_key_def)

lemma insert_events_step:
  assumes "insert_events i prov ((sq, ty, ts, pl) # us) db = Inr (db', st)"
  obtains db1 r st1 where "insert_event i prov sq ty ts pl db = Inr (db1, r)"
    "insert_events i prov us db1 = Inr (db', st1)"
    "st = (case r of None \<Rightarrow> st1 | Some e \<Rightarrow> e # st1)"
  using assms by (auto split: sum.splits)

lemma insert_events_ok:
  "\<lbrakk>events_ok db; insert_events i prov us db = Inr (db', st)\<rbrakk> \<Longrightarrow> events_ok db'"
proof (induction us arbitrary: db st)
  case (Cons u us)
  obtain sq ty ts pl where u: "u = (sq, ty, ts, pl)" by (cases u)
  from insert_events_step[OF Cons.prems(2)[unfolded u]] show ?case
    using Cons.IH insert_event_ok Cons.prems(1) by metis
qed simp

lemma insert_events_mono:
  "\<lbrakk>insert_events i prov us db = Inr (db', st); seq_taken k p q db\<rbrakk> \<Longrightarrow> seq_taken k p q db'"
proof (induction us arbitrary: db st)
  case (Cons u us)
  obtain sq ty ts pl where u: "u = (sq, ty, ts, pl)" by (cases u)
  from insert_events_step[OF Cons.prems(1)[unfolded u]] show ?case
    using Cons.IH insert_event_mono Cons.prems(2) by metis
qed simp

lemma insert_events_taken:
  "\<lbrakk>insert_events i prov us db = Inr (db', st); u \<in> set us\<rbrakk> \<Longrightarrow> seq_taken i prov (fst u) db'"
proof (induction us arbitrary: db st)
  case (Cons v us)
  obtain sq ty ts pl where v: "v = (sq, ty, ts, pl)" by (cases v)
  from insert_events_step[OF Cons.prems(1)[unfolded v]] obtain db1 r st1 where
    s: "insert_event i prov sq ty ts pl db = Inr (db1, r)" "insert_events i prov us db1 = Inr (db', st1)"
    by metis
  show ?case
  proof (cases "u = v")
    case True
    then show ?thesis using insert_events_mono[OF s(2) insert_event_taken[OF s(1)]] v by simp
  next
    case False
    then show ?thesis using Cons.IH[OF s(2)] Cons.prems(2) by simp
  qed
qed simp

lemma insert_events_stored:
  "insert_events i prov us db = Inr (db', st) \<Longrightarrow> db_events db' = db_events db @ st"
proof (induction us arbitrary: db st)
  case (Cons u us)
  obtain sq ty ts pl where u: "u = (sq, ty, ts, pl)" by (cases u)
  from insert_events_step[OF Cons.prems[unfolded u]] obtain db1 r st1 where
    s: "insert_event i prov sq ty ts pl db = Inr (db1, r)" "insert_events i prov us db1 = Inr (db', st1)"
      "st = (case r of None \<Rightarrow> st1 | Some e \<Rightarrow> e # st1)" by metis
  from s(1) show ?case
    by (cases rule: insert_event_cases) (use Cons.IH[OF s(2)] s(3) in auto)
qed simp

lemma insert_events_types:
  "\<lbrakk>insert_events i prov us db = Inr (db', st); e \<in> set st\<rbrakk> \<Longrightarrow>
     e_jobId e = i \<and> e_provision e = prov \<and> (\<exists>u\<in>set us. e_type e = fst (snd u) \<and> e_seq e = fst u)"
proof (induction us arbitrary: db st)
  case (Cons u us)
  obtain sq ty ts pl where u: "u = (sq, ty, ts, pl)" by (cases u)
  from insert_events_step[OF Cons.prems(1)[unfolded u]] obtain db1 r st1 where
    s: "insert_event i prov sq ty ts pl db = Inr (db1, r)" "insert_events i prov us db1 = Inr (db', st1)"
      "st = (case r of None \<Rightarrow> st1 | Some e \<Rightarrow> e # st1)" by metis
  from s(1) show ?case
  proof (cases rule: insert_event_cases)
    case skipped
    then show ?thesis using Cons.IH[OF s(2)] s(3) Cons.prems(2) by auto
  next
    case (stored e1)
    then show ?thesis using Cons.IH[OF s(2)] s(3) Cons.prems(2) u by auto
  qed
qed simp

lemma insert_events_all_taken:
  "\<lbrakk>\<And>u. u \<in> set us \<Longrightarrow> seq_taken i prov (fst u) db\<rbrakk> \<Longrightarrow>
     \<exists>db'. insert_events i prov us db = Inr (db', []) \<and> db_events db' = db_events db"
proof (induction us arbitrary: db)
  case (Cons u us)
  obtain sq ty ts pl where u: "u = (sq, ty, ts, pl)" by (cases u)
  let ?db1 = "db\<lparr>db_nextEventId := Suc (db_nextEventId db)\<rparr>"
  have t: "seq_taken i prov sq db" using Cons.prems[of u] u by simp
  have keep: "seq_taken i prov q ?db1 = seq_taken i prov q db" for q by (simp add: seq_taken_def)
  obtain db' where "insert_events i prov us ?db1 = Inr (db', [])" "db_events db' = db_events ?db1"
    using Cons.IH[of ?db1] Cons.prems keep by auto
  then show ?case using t u by (simp add: insert_event_def Let_def)
qed simp

lemma host_event_attempts_ok:
  assumes "\<And>k d. events_ok d \<Longrightarrow> events_ok (race k d)" "events_ok db"
  shows "events_ok (fst (host_event_attempts race k n now i ty pl db))"
  using assms
proof (induction race k n now i ty pl db rule: host_event_attempts.induct)
  case (2 race k n now i ty pl db)
  have g: "events_ok (race k db)" using 2 by blast
  show ?case
  proof (cases "insert_event i HOST_EVENT_PROVISION (next_host_seq i db) ty now pl (race k db)")
    case (Inl e)
    then show ?thesis using g by (simp add: Let_def)
  next
    case (Inr x)
    obtain db2 r where x: "x = (db2, r)" by (cases x)
    have "events_ok db2" using insert_event_ok[OF g] Inr x by blast
    then show ?thesis using 2 Inr x by (cases r) (simp_all add: Let_def)
  qed
qed simp

lemma appendHostEvent_ok: "events_ok db \<Longrightarrow> events_ok (fst (appendHostEvent now i ty pl db))"
  by (simp add: appendHostEvent_def appendHostEvent_racing_def host_event_attempts_ok no_race_def
      split: option.splits)

lemma insert_marker_ok:
  assumes "events_ok db" "insert_marker now i d sq seen db = Inr (db', r)"
  shows "events_ok db'"
proof (cases "seen \<or> marker_present i db \<or> seq_taken i HOST_EVENT_PROVISION sq db")
  case True
  have "events_ok (db\<lparr>db_nextEventId := Suc (db_nextEventId db)\<rparr>)"
    using assms(1) by (auto simp: events_ok_def less_Suc_eq)
  then show ?thesis using True assms by (auto simp: insert_marker_def split: if_splits)
next
  case False
  then have "insert_event i HOST_EVENT_PROVISION sq Ev_status now (truncation_payload d) db = Inr (db', r)"
    using assms(2) by (simp add: insert_marker_def)
  then show ?thesis by (rule insert_event_ok[OF assms(1)])
qed

lemma truncation_attempts_ok:
  assumes "\<And>k d. events_ok d \<Longrightarrow> events_ok (race k d)" "events_ok db"
  shows "events_ok (fst (truncation_attempts race k n now i d db))"
  using assms
proof (induction race k n now i d db rule: truncation_attempts.induct)
  case (2 race k n now i d db)
  have g: "events_ok (race k db)" using 2 by blast
  show ?case
  proof (cases "insert_marker now i d (next_host_seq i db) (marker_present i db) (race k db)")
    case (Inl e)
    then show ?thesis using g by (simp add: Let_def)
  next
    case (Inr x)
    obtain db2 r where x: "x = (db2, r)" by (cases x)
    have "events_ok db2" using insert_marker_ok[OF g] Inr x by blast
    then show ?thesis using 2 Inr x by (cases r) (simp_all add: Let_def)
  qed
qed simp

lemma recordTruncationOnce_ok: "events_ok db \<Longrightarrow> events_ok (fst (recordTruncationOnce now i d db))"
  by (simp add: recordTruncationOnce_def truncation_attempts_ok no_race_def)

lemma beat_ok [simp]: "events_ok (beat now i db) = events_ok db"
  by (simp add: events_ok_def beat_def)

lemma beat_events [simp]: "db_events (beat now i db) = db_events db"
  by (simp add: beat_def)

lemma finish_append_ok: "events_ok db \<Longrightarrow> events_ok (fst (finish_append now i d st db))"
  using recordTruncationOnce_ok[of db now i d]
  by (auto simp: finish_append_def split: prod.splits sum.splits)

lemma appendEvents_ok: "events_ok db \<Longrightarrow> events_ok (fst (appendEvents mx now i prov evs db))"
  using finish_append_ok insert_events_ok
  by (auto simp: appendEvents_def Let_def split: sum.splits)

lemma events_ok_filter:
  assumes "events_ok db" "db_events db' = filter p (db_events db)" "db_nextEventId db' = db_nextEventId db"
  shows "events_ok db'"
proof -
  have "filter is_truncation_marker (filter p (db_events db)) =
      filter p (filter is_truncation_marker (db_events db))" by (simp add: conj_commute)
  then show ?thesis
    using assms
    by (auto simp: events_ok_def sorted_wrt_map sorted_wrt_filter distinct_map_filter
        simp del: filter_filter)
qed

section \<open>Retries and the cap\<close>

lemma recordTruncationOnce_spec:
  assumes "recordTruncationOnce now i d db = (db', Inr m)"
  shows "marker_present i db' \<and>
    (if marker_present i db then m = None \<and> db' = db
     else \<exists>e. m = Some e \<and> db_events db' = db_events db @ [e] \<and> e_type e = Ev_status \<and>
       e_payload e = truncation_payload d)"
proof (cases "marker_present i db")
  case True
  then show ?thesis using assms
    by (auto simp: recordTruncationOnce_def eval_nat_numeral no_race_def insert_marker_def)
next
  case False
  have fresh: "\<not> seq_taken i HOST_EVENT_PROVISION (next_host_seq i db) db" by (rule next_host_seq_fresh)
  let ?ins = "insert_event i HOST_EVENT_PROVISION (next_host_seq i db) Ev_status now (truncation_payload d) db"
  obtain db1 e where ins: "?ins = Inr (db1, Some e)" "db' = db1" "m = Some e"
    using assms False fresh
    by (auto simp: recordTruncationOnce_def eval_nat_numeral no_race_def insert_marker_def Let_def
        insert_event_def split: if_splits)
  from ins(1) have "e_type e = Ev_status" "e_payload e = truncation_payload d"
    "db_events db1 = db_events db @ [e]" "e_jobId e = i"
    by (auto elim!: insert_event_cases)
  then show ?thesis using ins False
    by (auto simp: marker_present_def is_truncation_marker_def truncation_payload_def)
qed

lemma finish_append_spec:
  assumes "finish_append now i d st db = (db', Inr (n, st'))"
  shows "n = length st \<and> (\<exists>ms. st' = st @ ms \<and> db_events db' = db_events db @ ms \<and>
      (\<forall>e\<in>set ms. e_type e = Ev_status) \<and> (d = 0 \<longrightarrow> ms = []))"
proof (cases "d = 0")
  case True
  then show ?thesis using assms by (auto simp: finish_append_def)
next
  case False
  obtain db1 x where r: "recordTruncationOnce now i d db = (db1, x)"
    by (cases "recordTruncationOnce now i d db")
  then obtain m where x: "x = Inr m" using assms False by (cases x) (auto simp: finish_append_def)
  from recordTruncationOnce_spec[OF r[unfolded x]]
  show ?thesis using assms False r x by (auto simp: finish_append_def split: if_splits)
qed

lemma validate_events_spec:
  "validate_events evs = Inr vs \<Longrightarrow> List.map fst vs = evs \<and>
     (\<forall>v\<in>set vs. dev_job_event_type_of (in_type (fst v)) = Some (snd v))"
  by (induction evs arbitrary: vs) (auto split: if_splits option.splits sum.splits)

lemma validate_events_mem:
  assumes "validate_events evs = Inr vs" "e \<in> set evs" "dev_job_event_type_of (in_type e) = Some ty"
  shows "(e, ty) \<in> set vs"
proof -
  have "e \<in> fst ` set vs" using validate_events_spec[OF assms(1)] assms(2) by (metis set_map)
  then obtain v where "v \<in> set vs" "fst v = e" by blast
  then show ?thesis using validate_events_spec[OF assms(1)] assms(3)
    by (metis option.inject prod.collapse)
qed

lemma validate_events_sub:
  "\<lbrakk>validate_events evs = Inr vs; set evs' \<subseteq> set evs\<rbrakk> \<Longrightarrow> \<exists>vs'. validate_events evs' = Inr vs' \<and> set vs' \<subseteq> set vs"
proof (induction evs')
  case (Cons e es)
  then obtain vs' where v: "validate_events es = Inr vs'" "set vs' \<subseteq> set vs" by auto
  have e: "e \<in> set evs" using Cons.prems(2) by simp
  have ok: "is_seq (in_seq e)" "\<exists>ty. dev_job_event_type_of (in_type e) = Some ty"
    using Cons.prems(1) e
    by (induction evs arbitrary: vs) (auto split: if_splits option.splits sum.splits)
  then obtain ty where ty: "dev_job_event_type_of (in_type e) = Some ty" by blast
  then show ?case using ok v validate_events_mem[OF Cons.prems(1) e ty] by simp
qed simp

lemma appendEvents_cases:
  assumes "appendEvents mx now i prov evs db = (db', Inr (n, st))" "evs \<noteq> []"
  obtains vs kept db1 st1 where "validate_events evs = Inr vs"
    "kept = (if capped mx i db then filter (\<lambda>v. \<not> isLowValueEventType (snd v)) vs else vs)"
    "insert_events i prov (List.map (event_tuple_of now) kept) db = Inr (db1, st1)"
    "finish_append now i (length vs - length kept) st1 db1 = (db', Inr (n, st))"
  using assms by (auto simp: appendEvents_def Let_def split: sum.splits)

lemma event_tuple_simps [simp]:
  "fst (event_tuple_of now v) = nat \<lfloor>in_seq (fst v)\<rfloor>" "fst (snd (event_tuple_of now v)) = snd v"
  by (simp_all add: event_tuple_of_def split: prod.splits)

text \<open>Event batches are idempotent: after a batch was accepted without a cap, retrying it or any part
  of it, at any later time, is accepted, stores and publishes nothing and leaves the log as it is.\<close>

theorem event_retry_stores_nothing:
  assumes "appendEvents mx now i prov evs db = (db1, Inr (n, st))" "mx \<le> 0"
    and "set evs' \<subseteq> set evs"
  shows "\<exists>db2. appendEvents mx now' i prov evs' db1 = (db2, Inr (0, [])) \<and> db_events db2 = db_events db1"
proof (cases "evs' = []")
  case True
  then show ?thesis by (simp add: appendEvents_def)
next
  case False
  then have ne: "evs \<noteq> []" using assms(3) by auto
  have nc: "\<not> capped mx i d" for d using assms(2) by (simp add: capped_def)
  from appendEvents_cases[OF assms(1) ne] nc obtain vs dbx st1 where v: "validate_events evs = Inr vs"
    "insert_events i prov (List.map (event_tuple_of now) vs) db = Inr (dbx, st1)"
    "finish_append now i 0 st1 dbx = (db1, Inr (n, st))"
    by (metis diff_self_eq_0)
  obtain vs' where v': "validate_events evs' = Inr vs'" "set vs' \<subseteq> set vs"
    using validate_events_sub[OF v(1) assms(3)] by blast
  have ev: "db_events db1 = db_events dbx" using finish_append_spec[OF v(3)] by auto
  have "seq_taken i prov (fst u) db1" if u: "u \<in> set (List.map (event_tuple_of now') vs')" for u
  proof -
    obtain w where w: "w \<in> set vs'" "u = event_tuple_of now' w" using u by auto
    then have "event_tuple_of now w \<in> set (List.map (event_tuple_of now) vs)" using v'(2) by auto
    from insert_events_taken[OF v(2) this] show ?thesis using w ev by (simp add: seq_taken_def)
  qed
  from insert_events_all_taken[of "List.map (event_tuple_of now') vs'", OF this] obtain db2 where
    "insert_events i prov (List.map (event_tuple_of now') vs') db1 = Inr (db2, [])"
    "db_events db2 = db_events db1" by blast
  then show ?thesis using False v'(1) nc by (simp add: appendEvents_def finish_append_def)
qed

text \<open>The per-job cap never loses an audit-grade event: every validated event of the batch whose type
  is not telemetry has its key in the log afterwards, the log only grows by exactly the events that
  were published, and at the cap no telemetry is stored at all.\<close>

theorem cap_keeps_audit_events:
  assumes "appendEvents mx now i prov evs db = (db', Inr (n, st))"
  shows "db_events db' = db_events db @ st \<and>
    (\<forall>e ty. e \<in> set evs \<and> dev_job_event_type_of (in_type e) = Some ty \<and> \<not> isLowValueEventType ty \<longrightarrow>
       seq_taken i prov (nat \<lfloor>in_seq e\<rfloor>) db') \<and>
    (capped mx i db \<longrightarrow> (\<forall>x\<in>set st. \<not> isLowValueEventType (e_type x)))"
proof (cases "evs = []")
  case True
  then show ?thesis using assms by (auto simp: appendEvents_def)
next
  case False
  from appendEvents_cases[OF assms False] obtain vs kept db1 st1 where
    v: "validate_events evs = Inr vs" and
    k: "kept = (if capped mx i db then filter (\<lambda>v. \<not> isLowValueEventType (snd v)) vs else vs)" and
    ins: "insert_events i prov (List.map (event_tuple_of now) kept) db = Inr (db1, st1)" and
    fin: "finish_append now i (length vs - length kept) st1 db1 = (db', Inr (n, st))" by blast
  from finish_append_spec[OF fin] obtain ms where
    ms: "st = st1 @ ms" "db_events db' = db_events db1 @ ms" "\<forall>e\<in>set ms. e_type e = Ev_status"
    by blast
  have log: "db_events db' = db_events db @ st" using insert_events_stored[OF ins] ms by simp
  have "seq_taken i prov (nat \<lfloor>in_seq e\<rfloor>) db'"
    if "e \<in> set evs" "dev_job_event_type_of (in_type e) = Some ty" "\<not> isLowValueEventType ty" for e ty
  proof -
    have "(e, ty) \<in> set kept" using validate_events_mem[OF v that(1,2)] that(3) k by simp
    then have "event_tuple_of now (e, ty) \<in> set (List.map (event_tuple_of now) kept)" by simp
    from insert_events_taken[OF ins this] show ?thesis using ms(2) by (auto simp: seq_taken_def)
  qed
  moreover have "\<not> isLowValueEventType (e_type x)" if "capped mx i db" "x \<in> set st" for x
  proof (cases "x \<in> set st1")
    case True
    from insert_events_types[OF ins True] show ?thesis using that(1) k by auto
  next
    case False
    then show ?thesis using that(2) ms by (auto simp: isLowValueEventType_def LOW_VALUE_EVENT_TYPES_def)
  qed
  ultimately show ?thesis using log by blast
qed

definition example_batch :: "runner_event_input list" where
  "example_batch = [\<lparr>in_seq = 0, in_type = ''log'', in_ts = None, in_payload = None\<rparr>,
     \<lparr>in_seq = 1, in_type = ''tool'', in_ts = None, in_payload = None\<rparr>]"

lemma example_types [simp]:
  "dev_job_event_type_of ''log'' = Some Ev_log" "dev_job_event_type_of ''tool'' = Some Ev_tool"
  by (simp_all add: dev_job_event_type_of_def DEV_JOB_EVENT_TYPES_def)

lemma insert_event_fresh:
  assumes "\<not> seq_taken i prov sq db" "getJob i db \<noteq> None" "ty \<noteq> Ev_status"
  shows "insert_event i prov sq ty ts pl db = Inr (db\<lparr>db_nextEventId := Suc (db_nextEventId db),
      db_events := db_events db @ [\<lparr>e_id = db_nextEventId db, e_jobId = i, e_provision = prov, e_seq = sq,
        e_type = ty, e_ts = ts, e_payload = pl\<rparr>]\<rparr>,
    Some \<lparr>e_id = db_nextEventId db, e_jobId = i, e_provision = prov, e_seq = sq,
        e_type = ty, e_ts = ts, e_payload = pl\<rparr>)"
  using assms by (auto simp: insert_event_def is_truncation_marker_def Let_def)

lemma example_validate:
  "validate_events example_batch = Inr [(example_batch ! 0, Ev_log), (example_batch ! 1, Ev_tool)]"
  by (simp add: example_batch_def is_seq_def)

lemma example_append: "\<exists>n st. snd (appendEvents 0 7 ''j1'' 1 example_batch example_db) = Inr (n, st)"
proof -
  let ?e = "\<lparr>e_id = db_nextEventId example_db, e_jobId = ''j1'', e_provision = 1, e_seq = 0,
      e_type = Ev_log, e_ts = 7, e_payload = JObj []\<rparr>"
  let ?db = "example_db\<lparr>db_nextEventId := Suc (db_nextEventId example_db),
      db_events := db_events example_db @ [?e]\<rparr>"
  have none: "db_events example_db = []" by (simp add: example_defs)
  have a: "insert_event ''j1'' 1 0 Ev_log 7 (JObj []) example_db = Inr (?db, Some ?e)"
    by (rule insert_event_fresh) (simp_all add: seq_taken_def none)
  have "getJob ''j1'' ?db = Some example_job" using example_get(1) by (simp add: getJob_def)
  then obtain db2 e2 where b: "insert_event ''j1'' 1 1 Ev_tool 7 (JObj []) ?db = Inr (db2, Some e2)"
    using insert_event_fresh[of "''j1''" 1 1 ?db Ev_tool 7 "JObj []"]
    by (simp add: seq_taken_def none)
  have "insert_events ''j1'' 1 (List.map (event_tuple_of 7)
      [(example_batch ! 0, Ev_log), (example_batch ! 1, Ev_tool)]) example_db = Inr (db2, [?e, e2])"
    using a b by (simp add: event_tuple_of_def example_batch_def)
  then show ?thesis
    using example_validate
    by (simp add: appendEvents_def capped_def finish_append_def example_batch_def)
qed

lemma example_append_pair:
  obtains n st where "appendEvents 0 7 ''j1'' 1 example_batch example_db =
    (fst (appendEvents 0 7 ''j1'' 1 example_batch example_db), Inr (n, st))"
  using example_append by (auto simp: prod_eq_iff)

theorem event_retry_witness:
  "\<exists>db2. appendEvents 0 9 ''j1'' 1 example_batch (fst (appendEvents 0 7 ''j1'' 1 example_batch example_db)) =
     (db2, Inr (0, []))"
proof -
  obtain n st where a: "appendEvents 0 7 ''j1'' 1 example_batch example_db =
      (fst (appendEvents 0 7 ''j1'' 1 example_batch example_db), Inr (n, st))"
    by (rule example_append_pair)
  have "(0::int) \<le> 0" by simp
  from event_retry_stores_nothing[OF a this subset_refl, of 9] show ?thesis by blast
qed

theorem cap_keeps_audit_witness:
  "seq_taken ''j1'' 1 1 (fst (appendEvents 0 7 ''j1'' 1 example_batch example_db))"
proof -
  obtain n st where a: "appendEvents 0 7 ''j1'' 1 example_batch example_db =
      (fst (appendEvents 0 7 ''j1'' 1 example_batch example_db), Inr (n, st))"
    by (rule example_append_pair)
  let ?e = "example_batch ! 1"
  have "?e \<in> set example_batch" "dev_job_event_type_of (in_type ?e) = Some Ev_tool"
    "\<not> isLowValueEventType Ev_tool" "nat \<lfloor>in_seq ?e\<rfloor> = 1"
    by (simp_all add: example_batch_def isLowValueEventType_def LOW_VALUE_EVENT_TYPES_def)
  with cap_keeps_audit_events[OF a] show ?thesis by metis
qed

end
