(* ===== verification/Lifecycle.thy ===== *)
theory Lifecycle
  imports EventInv GateStore
begin

text \<open>
  The store as a transition system.  \<open>store_op\<close> is one call of any method of the job, event, artifact
  and gate stores or of the retention runner, by any actor; \<open>exec_op\<close> runs it; \<open>reachable\<close> are the
  databases a sequence of calls can produce.  \<open>job_write\<close> is the row-level view: one constructor per
  UPDATE statement on \<open>dev_jobs\<close>.  The abstract specification is the status graph \<open>status_edge\<close>.
\<close>

section \<open>Operations\<close>

datatype store_op =
    Op_create int string string new_dev_job
  | Op_delete string
  | Op_claim int "string set" string
  | Op_release int string string
  | Op_touch int string
  | Op_running int string
  | Op_advance int string dev_job_phase dev_job_phase
  | Op_requeue int string dev_job_phase
  | Op_park int string
  | Op_park_apply int string
  | Op_resume_apply int string
  | Op_brief int string string string
  | Op_review int string nat "string option"
  | Op_handle int string string runner_handle
  | Op_result int string dev_job_result
  | Op_prepare int string dev_job string "string option"
  | Op_reissue int string string
  | Op_add_usage int string int int
  | Op_usage int string int int rat
  | Op_finish int string dev_job_status terminal_patch
  | Op_events int int string nat "runner_event_input list"
  | Op_host_event int string string json
  | Op_artifact "artifact_ceiling_options option" int string string string string string json
  | Op_open_gate int int string open_gate_input
  | Op_resolve_gate int string bool string "gate_answer list option"
  | Op_expire_gate int string
  | Op_cancel_gate int string
  | Op_retention retention_config int
  | Op_purge int int

fun exec_op :: "store_op \<Rightarrow> dev_db \<Rightarrow> dev_db" where
  "exec_op (Op_create now i h inp) db = fst (createJob now i h inp db)"
| "exec_op (Op_delete i) db = fst (deleteJob i db)"
| "exec_op (Op_claim now locked lease) db = fst (claimNextQueued now locked lease db)"
| "exec_op (Op_release now i lease) db = fst (releaseClaim now i lease db)"
| "exec_op (Op_touch now i) db = fst (touchHeartbeat now i db)"
| "exec_op (Op_running now i) db = fst (markRunning now i db)"
| "exec_op (Op_advance now i a b) db = fst (advancePhase now i a b db)"
| "exec_op (Op_requeue now i ph) db = fst (requeueAtPhase now i ph db)"
| "exec_op (Op_park now i) db = fst (parkForGate now i db)"
| "exec_op (Op_park_apply now i) db = fst (parkForApplyGate now i db)"
| "exec_op (Op_resume_apply now i) db = fst (resumeApplyAfterGate now i db)"
| "exec_op (Op_brief now i m part) db = fst (appendToBrief now i m part db)"
| "exec_op (Op_review now i n fp) db = setReviewState now i n fp db"
| "exec_op (Op_handle now i lease h) db = fst (setRunnerHandle now i lease h db)"
| "exec_op (Op_result now i res) db = recordResult now i res db"
| "exec_op (Op_prepare now th job lease sha) db = fst (prepareProvision now th job lease sha db)"
| "exec_op (Op_reissue now th i) db = reissueRunnerToken now th i db"
| "exec_op (Op_add_usage now i a b) db = addJobUsage now i a b db"
| "exec_op (Op_usage now i a b c) db = fst (accumulateJobUsage now i a b c db)"
| "exec_op (Op_finish now i s p) db = fst (db_finish now i s p db)"
| "exec_op (Op_events mx now i prov evs) db = fst (appendEvents mx now i prov evs db)"
| "exec_op (Op_host_event now i ty pl) db = fst (appendHostEvent now i ty pl db)"
| "exec_op (Op_artifact mb now nid u i k c m) db = fst (addArtifact mb now nid u i k c m db)"
| "exec_op (Op_open_gate now clk gid inp) db = fst (open_gate now clk gid inp db)"
| "exec_op (Op_resolve_gate now gid ok by_sub ans) db = fst (resolve_gate now gid ok by_sub ans db)"
| "exec_op (Op_expire_gate now gid) db = fst (expire_gate now gid db)"
| "exec_op (Op_cancel_gate now i) db = fst (cancelForJob now i db)"
| "exec_op (Op_retention c now) db = fst (retention_run c now db)"
| "exec_op (Op_purge days now) db = fst (purgeTerminalJobs days now db)"

text \<open>Callers create a job queued, or born waiting when a trigger gates it; never in another status.\<close>

definition legal_op :: "store_op \<Rightarrow> bool" where
  "legal_op op = (case op of Op_create now i h inp \<Rightarrow> n_status inp \<in> {None, Some St_waiting} | _ \<Rightarrow> True)"

definition initial_db :: "dev_db \<Rightarrow> bool" where
  "initial_db db \<longleftrightarrow> db_jobs db = [] \<and> db_events db = [] \<and> db_artifacts db = [] \<and> db_gates db = []"

inductive reachable :: "dev_db \<Rightarrow> bool" where
  init: "initial_db db \<Longrightarrow> reachable db"
| step: "\<lbrakk>reachable db; legal_op op\<rbrakk> \<Longrightarrow> reachable (exec_op op db)"

section \<open>Row transitions\<close>

text \<open>Every UPDATE but the one of \<open>parkForApplyGate\<close>, which is the only one that may leave a terminal
  status and is treated on its own.\<close>

inductive job_write :: "dev_job \<Rightarrow> dev_job \<Rightarrow> bool" where
  claim: "\<lbrakk>j_status j = St_queued; UUID_RE lease\<rbrakk> \<Longrightarrow> job_write j (claim_set now lease j)"
| release: "release_guard lease j \<Longrightarrow> job_write j (release_set now j)"
| beat: "non_terminal j \<Longrightarrow> job_write j (beat_set now j)"
| run: "running_guard j \<Longrightarrow> job_write j (running_set now j)"
| phase: "phase_guard a j \<Longrightarrow> job_write j (phase_set now b j)"
| requeue: "phase_guard Ph_await_human j \<Longrightarrow> job_write j (requeue_set now ph j)"
| park: "phase_guard Ph_await_human j \<Longrightarrow> job_write j (park_set now j)"
| resume: "resume_guard j \<Longrightarrow> job_write j (resume_set now j)"
| brief: "brief_guard m j \<Longrightarrow> job_write j (brief_set now part j)"
| review: "non_terminal j \<Longrightarrow>
    job_write j (j\<lparr>j_reviewAttempt := n, j_reviewFingerprint := fp, j_updatedAt := now\<rparr>)"
| handle: "lease_guard lease j \<Longrightarrow> job_write j (handle_set now h j)"
| result: "non_terminal j \<Longrightarrow> job_write j (result_set now res j)"
| prepare: "lease_guard lease j \<Longrightarrow> job_write j (provision_set now th br sha j)"
| reissue: "job_write j (j\<lparr>j_runnerTokenHash := Some th, j_updatedAt := now\<rparr>)"
| add_usage: "job_write j (j\<lparr>j_tokensIn := j_tokensIn j + max 0 a, j_tokensOut := j_tokensOut j + max 0 b,
    j_updatedAt := now\<rparr>)"
| usage: "job_write j (usage_set now a b c j)"
| finish: "\<lbrakk>non_terminal j; isTerminalDevJobStatus s\<rbrakk> \<Longrightarrow> job_write j (finish_set now s p j)"

lemmas row_defs = claim_set_def release_set_def beat_set_def running_set_def phase_set_def
  requeue_set_def park_set_def resume_set_def brief_set_def handle_set_def
  provision_set_def usage_set_def finish_set_def release_guard_def running_guard_def phase_guard_def
  apply_gate_guard_def resume_guard_def brief_guard_def lease_guard_def non_terminal_def

definition rows_move :: "dev_db \<Rightarrow> dev_db \<Rightarrow> bool" where
  "rows_move db db' \<longleftrightarrow>
     (\<forall>j'\<in>set (db_jobs db'). \<exists>j\<in>set (db_jobs db). j_id j = j_id j' \<and> (j' = j \<or> job_write j j'))"

lemma rows_move_same: "set (db_jobs db') \<subseteq> set (db_jobs db) \<Longrightarrow> rows_move db db'"
  unfolding rows_move_def by blast

lemma rows_move_update:
  assumes "\<And>j. j_id (upd j) = j_id j" "\<And>j. guard j \<Longrightarrow> job_write j (upd j)"
  shows "rows_move db (fst (update_job i guard upd db))"
proof (unfold rows_move_def, intro ballI)
  fix j' assume "j' \<in> set (db_jobs (fst (update_job i guard upd db)))"
  from update_job_origin[OF assms(1) this]
  show "\<exists>j\<in>set (db_jobs db). j_id j = j_id j' \<and> (j' = j \<or> job_write j j')"
    using assms by metis
qed

lemma store_db:
  "fst (releaseClaim now i lease db) =
     (if UUID_RE lease then fst (update_job i (release_guard lease) (release_set now) db) else db)"
  "fst (prepareProvision now th job lease sha db) =
     (if UUID_RE lease
      then fst (update_job (j_id job) (lease_guard lease)
        (provision_set now th (case j_branch job of None \<Rightarrow> jobBranchName job | Some b \<Rightarrow> b) sha) db)
      else db)"
  "fst (touchHeartbeat now i db) = fst (update_job i touch_guard (beat_set now) db)"
  "fst (markRunning now i db) = fst (update_job i running_guard (running_set now) db)"
  "fst (advancePhase now i a b db) = fst (update_job i (phase_guard a) (phase_set now b) db)"
  "fst (requeueAtPhase now i ph db) = fst (update_job i (phase_guard Ph_await_human) (requeue_set now ph) db)"
  "fst (parkForGate now i db) = fst (update_job i (phase_guard Ph_await_human) (park_set now) db)"
  "fst (resumeApplyAfterGate now i db) = fst (update_job i resume_guard (resume_set now) db)"
  "fst (appendToBrief now i m part db) = fst (update_job i (brief_guard m) (brief_set now part) db)"
  "setReviewState now i n fp db = fst (update_job i non_terminal
     (\<lambda>j. j\<lparr>j_reviewAttempt := n, j_reviewFingerprint := fp, j_updatedAt := now\<rparr>) db)"
  "fst (setRunnerHandle now i lease h db) = fst (update_job i (lease_guard lease) (handle_set now h) db)"
  "recordResult now i res db = fst (update_job i non_terminal (result_set now res) db)"
  "reissueRunnerToken now th i db =
     fst (update_job i (\<lambda>j. True) (\<lambda>j. j\<lparr>j_runnerTokenHash := Some th, j_updatedAt := now\<rparr>) db)"
  "addJobUsage now i ta tb db = fst (update_job i (\<lambda>j. True)
     (\<lambda>j. j\<lparr>j_tokensIn := j_tokensIn j + max 0 ta, j_tokensOut := j_tokensOut j + max 0 tb,
             j_updatedAt := now\<rparr>) db)"
  "fst (accumulateJobUsage now i ta tb tc db) = fst (update_job i (\<lambda>j. True) (usage_set now ta tb tc) db)"
  by (simp_all add: releaseClaim_def prepareProvision_def touchHeartbeat_def markRunning_def advancePhase_def
      requeueAtPhase_def parkForGate_def resumeApplyAfterGate_def appendToBrief_def setReviewState_def
      setRunnerHandle_def recordResult_def reissueRunnerToken_def addJobUsage_def accumulateJobUsage_def
      Let_def row_count_def split: prod.splits list.splits)

lemma claim_fst:
  "fst (claimNextQueued now locked lease db) =
     (if \<not> UUID_RE lease then db
      else case oldest_queued locked db of None \<Rightarrow> db
        | Some q \<Rightarrow> fst (update_job (j_id q) (\<lambda>j. True) (claim_set now lease) db))"
  by (auto simp: claimNextQueued_def split: option.splits prod.splits)

lemma quiet_jobs:
  "db_jobs (fst (addArtifact mb now nid u i k txt m db)) = db_jobs db"
  "db_jobs (fst (open_gate now clk gid inp db)) = db_jobs db"
  "db_jobs (fst (resolve_gate now gid ok by_sub ans db)) = db_jobs db"
  "db_jobs (fst (expire_gate now gid db)) = db_jobs db"
  "db_jobs (fst (cancelForJob now i db)) = db_jobs db"
  "db_jobs (fst (retention_run c now db)) = db_jobs db"
  by (auto simp: addArtifact_def open_gate_def open_gate_racing_def resolve_gate_def expire_gate_def
      cancelForJob_def retention_run_def pruneLowValueEvents_def pruneExpiredEvents_def delete_events_def
      update_gates_def sql_update_def Let_def split: prod.splits option.splits)

lemma purge_jobs:
  "set (db_jobs (fst (deleteJob i db))) \<subseteq> set (db_jobs db)"
  "set (db_jobs (fst (purgeTerminalJobs days now db))) \<subseteq> set (db_jobs db)"
  by (auto simp: deleteJob_def purgeTerminalJobs_def cascade_delete_def Let_def)

lemma touch_write: "touch_guard j \<Longrightarrow> job_write j (beat_set now j)"
  by (rule job_write.beat) (simp add: touch_guard_def non_terminal_def active_not_terminal)

lemma oldest_queued_SomeD:
  assumes "oldest_queued locked db = Some q"
  shows "q \<in> set (db_jobs db)" "j_status q = St_queued" "j_id q \<notin> locked"
    "\<And>k. \<lbrakk>k \<in> set (db_jobs db); j_status k = St_queued; j_id k \<notin> locked\<rbrakk> \<Longrightarrow> j_createdAt q \<le> j_createdAt k"
proof -
  let ?xs = "filter (\<lambda>j. j_status j = St_queued \<and> j_id j \<notin> locked) (db_jobs db)"
  obtain rest where s: "sort_key j_createdAt ?xs = q # rest"
    using assms by (auto simp: oldest_queued_def split: list.splits)
  then have mem: "set (q # rest) = set ?xs" by (metis set_sort)
  have "sorted (List.map j_createdAt (q # rest))" by (metis s sorted_sort_key)
  then have "j_createdAt q \<le> j_createdAt k" if "k \<in> set ?xs" for k
    using that mem by auto
  moreover have "q \<in> set ?xs" using mem by auto
  ultimately show "q \<in> set (db_jobs db)" "j_status q = St_queued" "j_id q \<notin> locked"
    "\<And>k. \<lbrakk>k \<in> set (db_jobs db); j_status k = St_queued; j_id k \<notin> locked\<rbrakk> \<Longrightarrow> j_createdAt q \<le> j_createdAt k"
    by auto
qed

lemma insert_events_jobs: "insert_events i prov ts db = Inr (db', r) \<Longrightarrow> db_jobs db' = db_jobs db"
proof (induction ts arbitrary: db db' r)
  case (Cons t ts)
  then show ?case
    by (cases t) (auto split: sum.splits, metis insert_event_jobs)
qed simp

lemma insert_marker_jobs: "insert_marker now i d sq seen db = Inr (db', r) \<Longrightarrow> db_jobs db' = db_jobs db"
  by (auto simp: insert_marker_def dest: insert_event_jobs split: if_splits)

lemma truncation_attempts_jobs:
  assumes "\<And>k d. db_jobs (race k d) = db_jobs d"
  shows "db_jobs (fst (truncation_attempts race k n now i d db)) = db_jobs db"
  using assms
  by (induction race k n now i d db rule: truncation_attempts.induct)
     (auto simp: Let_def dest: insert_marker_jobs split: sum.splits option.splits)

lemma recordTruncationOnce_jobs: "db_jobs (fst (recordTruncationOnce now i d db)) = db_jobs db"
  by (simp add: recordTruncationOnce_def truncation_attempts_jobs no_race_def)

lemma rows_move_beat:
  assumes "db_jobs db1 = db_jobs db"
  shows "rows_move db (beat now i db1)"
  using rows_move_update[of "beat_set now" non_terminal db1 i] assms
  by (simp add: beat_def job_write.beat rows_move_def)

lemma rows_move_appendEvents: "rows_move db (fst (appendEvents mx now i prov evs db))"
proof -
  have fin: "rows_move db (fst (finish_append now i d st db1))" if "db_jobs db1 = db_jobs db" for d st db1
  proof (cases "d = 0")
    case True
    then show ?thesis using rows_move_beat[OF that] by (simp add: finish_append_def)
  next
    case False
    obtain db2 m where r: "recordTruncationOnce now i d db1 = (db2, m)"
      by (cases "recordTruncationOnce now i d db1")
    then have "db_jobs db2 = db_jobs db" using recordTruncationOnce_jobs[of now i d db1] that by simp
    then show ?thesis using False r rows_move_beat rows_move_same
      by (cases m) (auto simp: finish_append_def)
  qed
  show ?thesis
    using fin by (auto simp: appendEvents_def Let_def rows_move_same dest: insert_events_jobs split: sum.splits)
qed

lemma exec_op_rows:
  assumes "\<And>now i h inp. op \<noteq> Op_create now i h inp" "\<And>now i. op \<noteq> Op_park_apply now i"
    and "ids_distinct db"
  shows "rows_move db (exec_op op db)"
proof (cases op)
  case (Op_claim now locked lease)
  show ?thesis
  proof (cases "oldest_queued locked db")
    case None
    then show ?thesis using Op_claim by (auto simp: claimNextQueued_def rows_move_same)
  next
    case (Some q)
    note q = oldest_queued_SomeD[OF Some]
    have one: "j \<in> set (db_jobs db) \<Longrightarrow> j_id j = j_id q \<Longrightarrow> j = q" for j
      using assms(3) q(1) by (auto simp: ids_distinct_def distinct_map inj_on_def)
    have "rows_move db (fst (update_job (j_id q) (\<lambda>j. True) (claim_set now lease) db))" if "UUID_RE lease"
    proof (unfold rows_move_def, intro ballI)
      fix j' assume "j' \<in> set (db_jobs (fst (update_job (j_id q) (\<lambda>j. True) (claim_set now lease) db)))"
      from update_job_origin[OF _ this]
      show "\<exists>j\<in>set (db_jobs db). j_id j = j_id j' \<and> (j' = j \<or> job_write j j')"
        using one job_write.claim[OF q(2) that, of now] by (metis set_ids(1))
    qed
    then show ?thesis using Some Op_claim
      by (auto simp: claimNextQueued_def rows_move_same split: prod.splits)
  qed
next
  case (Op_park_apply now i)
  then show ?thesis using assms(2) by blast
next
  case (Op_finish now i s p)
  have "rows_move db (fst (update_job i non_terminal (finish_set now s p) db))"
    if "isTerminalDevJobStatus s"
    by (rule rows_move_update) (simp_all add: job_write.finish that)
  then show ?thesis using Op_finish
    by (auto simp: finishTerminal_def rows_move_same split: prod.splits list.splits)
next
  case (Op_create now i h inp)
  then show ?thesis using assms(1) by blast
next
  case (Op_release now i lease)
  show ?thesis unfolding Op_release exec_op.simps store_db
    by (auto intro!: rows_move_update job_write.release simp: rows_move_same)
next
  case (Op_prepare now th job lease sha)
  show ?thesis unfolding Op_prepare exec_op.simps store_db
    by (auto intro!: rows_move_update job_write.prepare simp: rows_move_same)
next
  case (Op_touch now i)
  show ?thesis unfolding Op_touch exec_op.simps store_db
    by (rule rows_move_update) (simp_all add: touch_write)
next
  case (Op_running now i)
  show ?thesis unfolding Op_running exec_op.simps store_db
    by (rule rows_move_update) (simp_all add: job_write.run)
next
  case (Op_advance now i a b)
  show ?thesis unfolding Op_advance exec_op.simps store_db
    by (rule rows_move_update) (simp_all add: job_write.phase)
next
  case (Op_requeue now i ph)
  show ?thesis unfolding Op_requeue exec_op.simps store_db
    by (rule rows_move_update) (simp_all add: job_write.requeue)
next
  case (Op_park now i)
  show ?thesis unfolding Op_park exec_op.simps store_db
    by (rule rows_move_update) (simp_all add: job_write.park)
next
  case (Op_resume_apply now i)
  show ?thesis unfolding Op_resume_apply exec_op.simps store_db
    by (rule rows_move_update) (simp_all add: job_write.resume)
next
  case (Op_brief now i m part)
  show ?thesis unfolding Op_brief exec_op.simps store_db
    by (rule rows_move_update) (simp_all add: job_write.brief)
next
  case (Op_review now i n fp)
  show ?thesis unfolding Op_review exec_op.simps store_db
    by (rule rows_move_update) (simp_all add: job_write.review)
next
  case (Op_handle now i lease h)
  show ?thesis unfolding Op_handle exec_op.simps store_db
    by (rule rows_move_update) (simp_all add: job_write.handle)
next
  case (Op_result now i res)
  show ?thesis unfolding Op_result exec_op.simps store_db
    by (rule rows_move_update) (simp_all add: job_write.result)
next
  case (Op_reissue now th i)
  show ?thesis unfolding Op_reissue exec_op.simps store_db
    by (rule rows_move_update) (simp_all add: job_write.reissue)
next
  case (Op_add_usage now i a b)
  show ?thesis unfolding Op_add_usage exec_op.simps store_db
    by (rule rows_move_update) (simp_all add: job_write.add_usage)
next
  case (Op_usage now i a b c)
  show ?thesis unfolding Op_usage exec_op.simps store_db
    by (rule rows_move_update) (simp_all add: job_write.usage)
next
  case (Op_events mx now i prov evs)
  then show ?thesis by (simp add: rows_move_appendEvents)
qed (simp_all add: rows_move_same appendHostEvent_jobs quiet_jobs purge_jobs)

section \<open>The abstract status graph\<close>

definition status_edge :: "dev_job_status \<Rightarrow> dev_job_status \<Rightarrow> bool" where
  "status_edge a b \<longleftrightarrow>
     (if isTerminalDevJobStatus a then a = St_failed \<and> b = St_waiting
      else if b = St_provisioning then a = St_queued
      else if b = St_running then a = St_provisioning
      else True)"

definition job_row_ok :: "dev_job \<Rightarrow> bool" where
  "job_row_ok j \<longleftrightarrow>
     (j_status j \<in> {St_queued, St_waiting} \<longrightarrow> j_claimedBy j = None \<and> j_runnerHandle j = None) \<and>
     (j_status j \<in> {St_provisioning, St_running} \<longrightarrow> j_claimedBy j \<noteq> None \<and> j_startedAt j \<noteq> None) \<and>
     (isTerminalDevJobStatus (j_status j) \<longrightarrow> j_endedAt j \<noteq> None) \<and>
     (j_claimedBy j \<noteq> None \<longrightarrow> j_claimedAt j \<noteq> None \<and> UUID_RE (the (j_claimedBy j)))"

lemma result_set_fields [simp]:
  "j_status (result_set now res j) = (if r_outcome res = Out_diff_ready then St_applying else j_status j)"
  "j_claimedBy (result_set now res j) = j_claimedBy j" "j_claimedAt (result_set now res j) = j_claimedAt j"
  "j_runnerHandle (result_set now res j) = j_runnerHandle j"
  "j_startedAt (result_set now res j) = j_startedAt j" "j_endedAt (result_set now res j) = j_endedAt j"
  "j_source (result_set now res j) = j_source j" "j_sourceRef (result_set now res j) = j_sourceRef j"
  "j_repoId (result_set now res j) = j_repoId j"
  by (simp_all add: result_set_def Let_def)

lemma job_write_edge: "job_write j j' \<Longrightarrow> j_status j' = j_status j \<or> status_edge (j_status j) (j_status j')"
  by (induction rule: job_write.induct) (auto simp: row_defs status_edge_def)

lemma job_write_row_ok: "job_write j j' \<Longrightarrow> job_row_ok j \<Longrightarrow> job_row_ok j'"
proof (induction rule: job_write.induct)
  case (finish j s now p)
  then show ?case by (cases s) (simp_all add: row_defs job_row_ok_def)
next
  case (result j now res)
  then show ?case by (cases "j_status j") (simp_all add: row_defs job_row_ok_def)
qed (simp_all add: row_defs job_row_ok_def)

text \<open>The single-row updates keep the row invariant in any table, whatever rows they hit.\<close>

interpretation beat_rows: row_invariant j_id touch_guard "beat_set now" job_row_ok for now
  by unfold_locales (simp_all add: beat_set_def job_row_ok_def)

interpretation running_rows: row_invariant j_id running_guard "running_set now" job_row_ok for now
  by unfold_locales (auto simp: row_defs job_row_ok_def)

interpretation release_rows: row_invariant j_id "release_guard lease" "release_set now" job_row_ok for now lease
  by unfold_locales (auto simp: row_defs job_row_ok_def)

lemma update_rows_ok:
  "\<forall>r\<in>set rs. job_row_ok r \<Longrightarrow>
     (\<forall>r\<in>set (fst (beat_rows.run now j rs)). job_row_ok r) \<and> (\<forall>r\<in>set (fst (running_cas.run now j rs)). job_row_ok r)"
  using beat_rows.rows_inv running_rows.rows_inv by blast

section \<open>The integrity of the whole database\<close>

definition slots_ok :: "dev_db \<Rightarrow> bool" where
  "slots_ok db \<longleftrightarrow> (\<forall>j\<in>set (db_jobs db). \<forall>k\<in>set (db_jobs db).
     j_id j \<noteq> j_id k \<longrightarrow> webhook_slot_of j \<noteq> None \<longrightarrow> webhook_slot_of j \<noteq> webhook_slot_of k)"

definition rows_ok :: "dev_db \<Rightarrow> bool" where
  "rows_ok db \<longleftrightarrow> (\<forall>j\<in>set (db_jobs db). job_row_ok j)"

definition db_inv :: "dev_db \<Rightarrow> bool" where
  "db_inv db \<longleftrightarrow> ids_distinct db \<and> rows_ok db \<and> slots_ok db \<and> events_ok db \<and>
     one_waiting_per_job (db_gates db)"

lemma slots_okI:
  assumes "\<And>j k. \<lbrakk>j \<in> set (db_jobs db); k \<in> set (db_jobs db); j_id j \<noteq> j_id k; webhook_slot_of j \<noteq> None\<rbrakk>
    \<Longrightarrow> webhook_slot_of j \<noteq> webhook_slot_of k"
  shows "slots_ok db"
  using assms by (auto simp: slots_ok_def)

lemma job_write_slot: "job_write j j' \<Longrightarrow> webhook_slot_of j' = None \<or> webhook_slot_of j' = webhook_slot_of j"
proof (induction rule: job_write.induct)
  case (result j now res)
  then show ?case by (simp add: row_defs webhook_slot_of_def)
qed (simp_all add: row_defs webhook_slot_of_def)

lemma rows_move_slots:
  assumes "slots_ok db" "rows_move db db'"
  shows "slots_ok db'"
proof (rule slots_okI)
  fix j' k' assume a: "j' \<in> set (db_jobs db')" "k' \<in> set (db_jobs db')" "j_id j' \<noteq> j_id k'"
    "webhook_slot_of j' \<noteq> None"
  obtain j where j: "j \<in> set (db_jobs db)" "j_id j = j_id j'" "j' = j \<or> job_write j j'"
    using assms(2) a(1) unfolding rows_move_def by blast
  obtain k where k: "k \<in> set (db_jobs db)" "j_id k = j_id k'" "k' = k \<or> job_write k k'"
    using assms(2) a(2) unfolding rows_move_def by blast
  have sj: "webhook_slot_of j' = webhook_slot_of j" using j(3) job_write_slot[of j j'] a(4) by auto
  moreover have "webhook_slot_of k' = None \<or> webhook_slot_of k' = webhook_slot_of k"
    using k(3) job_write_slot[of k k'] by auto
  moreover have "webhook_slot_of j \<noteq> webhook_slot_of k"
    using assms(1) j k a(3,4) sj by (auto simp: slots_ok_def)
  ultimately show "webhook_slot_of j' \<noteq> webhook_slot_of k'" using a(4) sj by auto
qed

lemma rows_move_rows_ok: "\<lbrakk>rows_ok db; rows_move db db'\<rbrakk> \<Longrightarrow> rows_ok db'"
  unfolding rows_ok_def rows_move_def using job_write_row_ok by metis

lemma park_row_ok: "job_row_ok (park_set now j)"
  by (simp add: job_row_ok_def park_set_def)

lemma park_apply_rows:
  assumes "ids_distinct db" "slots_ok db" "rows_ok db"
  shows "slots_ok (fst (parkForApplyGate now i db)) \<and> rows_ok (fst (parkForApplyGate now i db))"
proof (cases "snd (parkForApplyGate now i db)")
  case (Inl e)
  then have "fst (parkForApplyGate now i db) = db"
    by (auto simp: parkForApplyGate_def split: prod.splits if_splits)
  then show ?thesis using assms by simp
next
  case (Inr b)
  let ?db' = "fst (update_job i apply_gate_guard (park_set now) db)"
  have u: "fst (parkForApplyGate now i db) = ?db'"
    and free: "\<forall>j\<in>set (snd (update_job i apply_gate_guard (park_set now) db)). webhook_slot_free j db"
    using Inr by (auto simp: parkForApplyGate_def list_all_iff split: prod.splits if_splits)
  have origin: "j' \<in> set (db_jobs db) \<or> (\<exists>j\<in>set (db_jobs db). j_id j = i \<and> apply_gate_guard j \<and>
      j' = park_set now j \<and> webhook_slot_free j' db)" if "j' \<in> set (db_jobs ?db')" for j'
  proof -
    from update_job_origin[OF _ that] consider "j' \<in> set (db_jobs db)"
      | j where "j \<in> set (db_jobs db)" "j_id j = i" "apply_gate_guard j" "j' = park_set now j"
      by (metis set_ids(7))
    then show ?thesis
    proof cases
      case (2 j)
      then have "j' \<in> set (snd (update_job i apply_gate_guard (park_set now) db))"
        by (auto simp: update_job_def sql_update_def)
      then show ?thesis using 2 free by blast
    qed blast
  qed
  have old: "webhook_slot_of j' \<noteq> webhook_slot_of k"
    if "j' \<in> set (db_jobs ?db')" "k \<in> set (db_jobs db)" "j_id j' \<noteq> j_id k" "webhook_slot_of j' \<noteq> None" for j' k
    using origin[OF that(1)]
  proof
    assume "j' \<in> set (db_jobs db)"
    then show ?thesis using assms(2) that by (auto simp: slots_ok_def)
  next
    assume "\<exists>j\<in>set (db_jobs db). j_id j = i \<and> apply_gate_guard j \<and> j' = park_set now j \<and> webhook_slot_free j' db"
    then show ?thesis using that by (auto simp: webhook_slot_free_def list_ex_iff split: option.splits)
  qed
  have "slots_ok ?db'"
  proof (rule slots_okI)
    fix j' k' assume a: "j' \<in> set (db_jobs ?db')" "k' \<in> set (db_jobs ?db')" "j_id j' \<noteq> j_id k'"
      "webhook_slot_of j' \<noteq> None"
    show "webhook_slot_of j' \<noteq> webhook_slot_of k'"
      using origin[OF a(1)] origin[OF a(2)] old[OF a(1)] old[OF a(2)] a set_ids(7) by metis
  qed
  moreover have "rows_ok ?db'"
    using origin assms(3) park_row_ok unfolding rows_ok_def by metis
  ultimately show ?thesis using u by simp
qed

lemma new_row_simps [simp]:
  "j_id (new_job_row now i h inp) = i" "j_claimedBy (new_job_row now i h inp) = None"
  "j_runnerHandle (new_job_row now i h inp) = None"
  "j_status (new_job_row now i h inp) = (case n_status inp of None \<Rightarrow> St_queued | Some s \<Rightarrow> s)"
  by (simp_all add: new_job_row_def)

lemma create_inv:
  assumes "n_status inp \<in> {None, Some St_waiting}" "ids_distinct db" "slots_ok db" "rows_ok db"
  shows "ids_distinct (fst (createJob now i h inp db)) \<and> slots_ok (fst (createJob now i h inp db)) \<and>
    rows_ok (fst (createJob now i h inp db))"
proof (cases "snd (createJob now i h inp db)")
  case (Inl e)
  then have "fst (createJob now i h inp db) = db"
    by (auto simp: createJob_def Let_def split: if_splits)
  then show ?thesis using assms by simp
next
  case (Inr j)
  let ?j = "new_job_row now i h inp"
  have f: "fst (createJob now i h inp db) = db\<lparr>db_jobs := db_jobs db @ [?j]\<rparr>" "getJob i db = None"
    "webhook_slot_free ?j db"
    using Inr by (auto simp: createJob_def Let_def split: if_splits)
  have new: "j_id k \<noteq> i" if "k \<in> set (db_jobs db)" for k
    using f(2) that by (auto simp: getJob_def find_row_None_iff)
  have other: "webhook_slot_of ?j \<noteq> webhook_slot_of k" if "k \<in> set (db_jobs db)" "webhook_slot_of ?j \<noteq> None" for k
    using f(3) that new[OF that(1)] by (auto simp: webhook_slot_free_def list_ex_iff)
  have "job_row_ok ?j" using assms(1) by (auto simp: job_row_ok_def)
  moreover have "slots_ok (db\<lparr>db_jobs := db_jobs db @ [?j]\<rparr>)"
  proof (rule slots_okI)
    fix a b assume "a \<in> set (db_jobs (db\<lparr>db_jobs := db_jobs db @ [?j]\<rparr>))"
      "b \<in> set (db_jobs (db\<lparr>db_jobs := db_jobs db @ [?j]\<rparr>))" "j_id a \<noteq> j_id b" "webhook_slot_of a \<noteq> None"
    then show "webhook_slot_of a \<noteq> webhook_slot_of b"
      using other assms(3) by (auto simp: slots_ok_def) metis+
  qed
  ultimately show ?thesis
    using f(1) new assms(2,4) by (auto simp: ids_distinct_def rows_ok_def)
qed

lemma cascade_delete_inv:
  assumes "db_inv db"
  shows "db_inv (cascade_delete p db)"
proof -
  let ?db' = "cascade_delete p db"
  have "rows_move db ?db'" by (rule rows_move_same) (auto simp: cascade_delete_def Let_def)
  moreover have "events_ok ?db'"
    by (rule events_ok_filter[of db _ "\<lambda>e. e_jobId e \<notin> j_id ` set (filter p (db_jobs db))"])
       (use assms in \<open>simp_all add: cascade_delete_def Let_def db_inv_def\<close>)
  moreover have "ids_distinct ?db'"
    using assms by (simp add: db_inv_def ids_distinct_def cascade_delete_def Let_def distinct_map_filter)
  moreover have "one_waiting_per_job (db_gates ?db')"
  proof -
    have "filter is_waiting (filter q gs) = filter q (filter is_waiting gs)" for q gs
      by (simp add: conj_commute)
    then show ?thesis
      using assms by (simp add: db_inv_def one_waiting_per_job_def cascade_delete_def Let_def
          distinct_map_filter del: filter_filter)
  qed
  ultimately show ?thesis
    using assms rows_move_slots rows_move_rows_ok by (auto simp: db_inv_def)
qed

lemma quiet_inv:
  assumes "db_inv db" "db_jobs db' = db_jobs db" "events_ok db'" "one_waiting_per_job (db_gates db')"
  shows "db_inv db'"
  using assms by (simp add: db_inv_def ids_distinct_def rows_ok_def slots_ok_def)

lemma gate_ops_events:
  "db_events (fst (open_gate now clk gid inp db)) = db_events db"
  "db_nextEventId (fst (open_gate now clk gid inp db)) = db_nextEventId db"
  "db_events (fst (update_gates p f db)) = db_events db"
  "db_nextEventId (fst (update_gates p f db)) = db_nextEventId db"
  by (auto simp: open_gate_def open_gate_racing_def update_gates_def sql_update_def Let_def
      split: option.splits)

lemma gate_ops_fst:
  "fst (resolve_gate now gid ok by_sub ans db) =
     fst (update_gates (\<lambda>g. g_id g = gid \<and> is_waiting g) (resolve_set now ok by_sub ans) db)"
  "fst (expire_gate now gid db) =
     fst (update_gates (\<lambda>g. g_id g = gid \<and> is_waiting g) (close_set now Gate_expired) db)"
  "fst (cancelForJob now i db) =
     fst (update_gates (\<lambda>g. g_jobId g = i \<and> is_waiting g) (close_set now Gate_cancelled) db)"
  by (simp_all add: resolve_gate_def expire_gate_def cancelForJob_def split: prod.splits)

lemma closing_waiting:
  "is_waiting g \<Longrightarrow> \<not> is_waiting (resolve_set now ok by_sub ans g)"
  "s \<noteq> Gate_waiting \<Longrightarrow> \<not> is_waiting (close_set now s g)"
  by (auto simp: is_waiting_def resolve_set_def close_set_def)

lemma gates_close_inv:
  assumes "db_inv db" "\<And>g. p g \<Longrightarrow> is_waiting g \<and> \<not> is_waiting (f g)"
  shows "db_inv (fst (update_gates p f db))"
  using assms closing_update_one_waiting[OF assms(2)]
  by (intro quiet_inv[OF assms(1)]) (simp_all add: db_inv_def events_ok_def gate_ops_events)

lemma quiet_ids:
  "ids_distinct (fst (addArtifact mb now nid u i k txt m db)) = ids_distinct db"
  "ids_distinct (fst (open_gate now clk gid inp db)) = ids_distinct db"
  "ids_distinct (fst (resolve_gate now gid ok by_sub ans db)) = ids_distinct db"
  "ids_distinct (fst (expire_gate now gid db)) = ids_distinct db"
  "ids_distinct (fst (cancelForJob now i db)) = ids_distinct db"
  "ids_distinct (fst (retention_run c now db)) = ids_distinct db"
  by (simp_all add: ids_distinct_def quiet_jobs)

lemma exec_op_ids:
  assumes "ids_distinct db" "\<And>now i h inp. op \<noteq> Op_create now i h inp" "\<And>i. op \<noteq> Op_delete i"
    and "\<And>d now. op \<noteq> Op_purge d now"
  shows "ids_distinct (exec_op op db)"
proof (cases op)
  case (Op_claim now locked lease)
  have "ids_distinct (fst (update_job k (\<lambda>j. True) (claim_set now lease) db))" for k
    using assms(1) by (simp add: ids_distinct_update)
  then show ?thesis using Op_claim assms(1) by (simp add: claim_fst split: option.splits)
next
  case (Op_park_apply now i)
  have "ids_distinct (fst (update_job i apply_gate_guard (park_set now) db))"
    using assms(1) by (simp add: ids_distinct_update)
  then show ?thesis using Op_park_apply assms(1)
    by (auto simp: parkForApplyGate_def split: prod.splits dest: arg_cong[where f = fst])
next
  case (Op_finish now i s p)
  then show ?thesis using assms(1) by (simp add: db_finish_ids)
next
  case (Op_events mx now i prov evs)
  have b: "ids_distinct (beat now i d) = ids_distinct d" for d
    by (simp add: beat_def ids_distinct_update)
  have t: "ids_distinct (fst (recordTruncationOnce now i k d)) = ids_distinct d" for k d
    by (simp add: ids_distinct_def recordTruncationOnce_jobs)
  have f: "ids_distinct (fst (finish_append now i k st d))" if "ids_distinct d" for k st d
  proof -
    obtain d1 m where "recordTruncationOnce now i k d = (d1, m)" by (cases "recordTruncationOnce now i k d")
    moreover from this have "ids_distinct d1" using t[of k d] that by simp
    ultimately show ?thesis using that by (cases m) (simp_all add: finish_append_def b)
  qed
  have ins: "ids_distinct d" if "insert_events i prov ts db = Inr (d, st)" for ts d st
    using assms(1) insert_events_jobs[OF that] by (simp add: ids_distinct_def)
  show ?thesis using Op_events assms(1) f ins
    by (auto simp: appendEvents_def Let_def split: sum.splits)
next
  case (Op_host_event now i ty pl)
  then show ?thesis using assms(1) by (simp add: appendHostEvent_ids)
qed (use assms in \<open>simp_all add: store_db ids_distinct_update quiet_ids\<close>)

section \<open>Every operation keeps the database consistent\<close>

lemma insert_event_gates: "insert_event i prov sq ty ts pl db = Inr (db', r) \<Longrightarrow> db_gates db' = db_gates db"
  by (erule insert_event_cases) simp_all

lemma insert_events_gates: "insert_events i prov us db = Inr (db', r) \<Longrightarrow> db_gates db' = db_gates db"
proof (induction us arbitrary: db r)
  case (Cons u us)
  obtain sq ty ts pl where u: "u = (sq, ty, ts, pl)" by (cases u)
  from insert_events_step[OF Cons.prems[unfolded u]] show ?case
    using Cons.IH insert_event_gates by metis
qed simp

lemma host_event_attempts_gates:
  assumes "\<And>k d. db_gates (race k d) = db_gates d"
  shows "db_gates (fst (host_event_attempts race k n now i ty pl db)) = db_gates db"
  using assms
  by (induction race k n now i ty pl db rule: host_event_attempts.induct)
     (auto simp: Let_def dest: insert_event_gates split: sum.splits option.splits)

lemma appendHostEvent_gates: "db_gates (fst (appendHostEvent now i ty pl db)) = db_gates db"
  by (simp add: appendHostEvent_def appendHostEvent_racing_def host_event_attempts_gates no_race_def
      split: option.splits)

lemma insert_marker_gates: "insert_marker now i d sq seen db = Inr (db', r) \<Longrightarrow> db_gates db' = db_gates db"
  by (auto simp: insert_marker_def dest: insert_event_gates split: if_splits)

lemma truncation_attempts_gates:
  assumes "\<And>k d. db_gates (race k d) = db_gates d"
  shows "db_gates (fst (truncation_attempts race k n now i d db)) = db_gates db"
  using assms
  by (induction race k n now i d db rule: truncation_attempts.induct)
     (auto simp: Let_def dest: insert_marker_gates split: sum.splits option.splits)

lemma recordTruncationOnce_gates: "db_gates (fst (recordTruncationOnce now i d db)) = db_gates db"
  by (simp add: recordTruncationOnce_def no_race_def truncation_attempts_gates)

lemma appendEvents_gates: "db_gates (fst (appendEvents mx now i prov evs db)) = db_gates db"
proof -
  have f: "db_gates (fst (finish_append now i k st d)) = db_gates d" for k st d
  proof -
    obtain d1 m where "recordTruncationOnce now i k d = (d1, m)" by (cases "recordTruncationOnce now i k d")
    moreover from this have "db_gates d1 = db_gates d" using recordTruncationOnce_gates[of now i k d] by simp
    ultimately show ?thesis by (cases m) (simp_all add: finish_append_def beat_def)
  qed
  show ?thesis
    using f insert_events_gates by (auto simp: appendEvents_def Let_def split: sum.splits)
qed

lemma park_apply_fst:
  "fst (parkForApplyGate now i db) \<in> {db, fst (update_job i apply_gate_guard (park_set now) db)}"
  by (auto simp: parkForApplyGate_def split: prod.splits)

lemma finish_fst:
  "fst (db_finish now i s p db) \<in> {db, fst (update_job i non_terminal (finish_set now s p) db)}"
  by (auto simp: finishTerminal_def split: prod.splits list.splits)

lemma exec_op_gates:
  assumes "one_waiting_per_job (db_gates db)" "\<And>i. op \<noteq> Op_delete i" "\<And>d now. op \<noteq> Op_purge d now"
  shows "one_waiting_per_job (db_gates (exec_op op db))"
proof (cases op)
  case (Op_open_gate now clk gid inp)
  then show ?thesis using assms(1) open_gate_one_waiting by simp
next
  case (Op_resolve_gate now gid ok by_sub ans)
  show ?thesis unfolding Op_resolve_gate exec_op.simps gate_ops_fst
    by (rule closing_update_one_waiting[OF _ assms(1)]) (simp add: closing_waiting)
next
  case (Op_expire_gate now gid)
  show ?thesis unfolding Op_expire_gate exec_op.simps gate_ops_fst
    by (rule closing_update_one_waiting[OF _ assms(1)]) (simp add: closing_waiting)
next
  case (Op_cancel_gate now i)
  show ?thesis unfolding Op_cancel_gate exec_op.simps gate_ops_fst
    by (rule closing_update_one_waiting[OF _ assms(1)]) (simp add: closing_waiting)
next
  case (Op_claim now locked lease)
  then show ?thesis using assms(1) by (simp add: claim_fst split: option.splits)
next
  case (Op_create now i h inp)
  then show ?thesis using assms(1) by (simp add: createJob_def Let_def)
next
  case (Op_park_apply now i)
  then show ?thesis using park_apply_fst[of now i db] assms(1) by auto
next
  case (Op_finish now i s p)
  then show ?thesis using finish_fst[of now i s p db] assms(1) by auto
next
  case (Op_artifact mb now nid u i k c m)
  then show ?thesis using assms(1)
    by (auto simp: addArtifact_def Let_def split: option.splits prod.splits)
next
  case (Op_retention c now)
  then show ?thesis using assms(1)
    by (simp add: retention_run_def pruneLowValueEvents_def pruneExpiredEvents_def delete_events_def)
qed (use assms in \<open>simp_all add: store_db appendEvents_gates appendHostEvent_gates\<close>)

lemma retention_events:
  "\<exists>p. db_events (fst (retention_run c now db)) = filter p (db_events db) \<and>
     db_nextEventId (fst (retention_run c now db)) = db_nextEventId db"
  by (simp add: retention_run_def pruneLowValueEvents_def pruneExpiredEvents_def delete_events_def) blast

lemma events_ok_same:
  "\<lbrakk>events_ok db; db_events db' = db_events db; db_nextEventId db' = db_nextEventId db\<rbrakk> \<Longrightarrow> events_ok db'"
  by (simp add: events_ok_def)

lemma events_ok_update [simp]: "events_ok (fst (update_job i guard upd db)) = events_ok db"
  by (simp add: events_ok_def)

lemma exec_op_events:
  assumes "events_ok db" "\<And>i. op \<noteq> Op_delete i" "\<And>d now. op \<noteq> Op_purge d now"
  shows "events_ok (exec_op op db)"
proof (cases op)
  case (Op_claim now locked lease)
  then show ?thesis using assms(1) by (simp add: claim_fst split: option.splits)
next
  case (Op_create now i h inp)
  then show ?thesis using assms(1) by (simp add: createJob_def Let_def events_ok_def)
next
  case (Op_park_apply now i)
  then show ?thesis using park_apply_fst[of now i db] assms(1) by auto
next
  case (Op_finish now i s p)
  then show ?thesis using finish_fst[of now i s p db] assms(1) by auto
next
  case (Op_artifact mb now nid u i k c m)
  have "db_events (exec_op op db) = db_events db" "db_nextEventId (exec_op op db) = db_nextEventId db"
    using Op_artifact by (auto simp: addArtifact_def Let_def split: option.splits prod.splits)
  then show ?thesis using assms(1) events_ok_same by blast
next
  case (Op_retention c now)
  then show ?thesis using retention_events[of c now db] events_ok_filter[OF assms(1)] by auto
qed (use assms events_ok_same[OF assms(1)] in \<open>simp_all add: store_db appendEvents_ok appendHostEvent_ok
      gate_ops_fst gate_ops_events\<close>)

lemma exec_op_inv:
  assumes "db_inv db" "legal_op op"
  shows "db_inv (exec_op op db)"
proof -
  have parts: "ids_distinct db" "rows_ok db" "slots_ok db" "events_ok db" "one_waiting_per_job (db_gates db)"
    using assms(1) by (simp_all add: db_inv_def)
  consider (del) i where "op = Op_delete i" | (purge) d now where "op = Op_purge d now"
    | (create) now i h inp where "op = Op_create now i h inp" | (park) now i where "op = Op_park_apply now i"
    | (other) "\<And>i. op \<noteq> Op_delete i" "\<And>d now. op \<noteq> Op_purge d now"
        "\<And>now i h inp. op \<noteq> Op_create now i h inp" "\<And>now i. op \<noteq> Op_park_apply now i"
    by blast
  then show ?thesis
  proof cases
    case del
    then show ?thesis using assms(1) cascade_delete_inv by (simp add: deleteJob_def Let_def)
  next
    case purge
    then show ?thesis using assms(1) cascade_delete_inv by (simp add: purgeTerminalJobs_def Let_def)
  next
    case create
    then show ?thesis
      using create_inv[of inp db now i h] assms(2) parts exec_op_events[OF parts(4), of op]
        exec_op_gates[OF parts(5), of op]
      by (simp add: db_inv_def legal_op_def)
  next
    case park
    then show ?thesis
      using park_apply_rows[OF parts(1,3,2), of now i] parts exec_op_events[OF parts(4), of op]
        exec_op_gates[OF parts(5), of op] exec_op_ids[OF parts(1), of op]
      by (simp add: db_inv_def)
  next
    case other
    have "rows_move db (exec_op op db)" using exec_op_rows other parts(1) by blast
    then show ?thesis
      using rows_move_slots rows_move_rows_ok exec_op_ids exec_op_events exec_op_gates other parts
      unfolding db_inv_def by metis
  qed
qed

section \<open>Properties\<close>

text \<open>C6: whatever sequence of store calls any actors issue, from an empty installation on, the database
  stays consistent: job ids are unique; a queued or waiting job holds no lease and no runner handle, a
  provisioning or running one holds a lease and a start time, a terminal one has ended; at most one
  live webhook job exists per issue; event ids increase and no event key or truncation marker is
  duplicated; and a job has at most one waiting gate.\<close>

theorem reachable_consistent:
  assumes "reachable db"
  shows "db_inv db"
  using assms
proof induction
  case (init db)
  then show ?case
    by (simp add: initial_db_def db_inv_def ids_distinct_def rows_ok_def slots_ok_def events_ok_def
        one_waiting_per_job_def)
next
  case (step db op)
  then show ?case by (simp add: exec_op_inv)
qed

theorem reachable_consistent_witness:
  "db_inv (exec_op (Op_claim 9 {} lease_uuid)
     (exec_op (Op_create 5 ''j2'' ''h'' example_new_job) (empty_db\<lparr>db_repos := [example_repo]\<rparr>)))"
  by (rule reachable_consistent, intro reachable.step reachable.init)
     (simp_all add: initial_db_def empty_db_def legal_op_def example_new_job_def)

lemma row_origin_by_id:
  assumes "ids_distinct db" "getJob i db = Some j" "k \<in> set (db_jobs db)" "j_id k = i"
  shows "k = j"
  using assms getJob_SomeD[OF assms(2)]
  by (auto simp: ids_distinct_def distinct_map inj_on_def)

lemma exec_op_row:
  assumes "ids_distinct db" "getJob i db = Some j" "getJob i (exec_op op db) = Some j'"
  shows "j' = j \<or> job_write j j' \<or> (\<exists>now. op = Op_park_apply now i \<and> apply_gate_guard j \<and> j' = park_set now j)"
proof -
  note mem = getJob_SomeD[OF assms(3)]
  consider (create) now k h inp where "op = Op_create now k h inp" | (park) now k where "op = Op_park_apply now k"
    | (other) "\<And>now i h inp. op \<noteq> Op_create now i h inp" "\<And>now i. op \<noteq> Op_park_apply now i" by blast
  then show ?thesis
  proof cases
    case create
    have "j' \<in> set (db_jobs db)"
    proof (cases "exec_op op db = db")
      case True
      then show ?thesis using mem by simp
    next
      case False
      then have "getJob k db = None" "db_jobs (exec_op op db) = db_jobs db @ [new_job_row now k h inp]"
        using create by (auto simp: createJob_def Let_def split: if_splits)
      moreover from this have "k \<noteq> i" using assms(2) by auto
      ultimately show ?thesis using mem by auto
    qed
    then show ?thesis using row_origin_by_id[OF assms(1,2)] mem by blast
  next
    case park
    from mem have "j' \<in> set (db_jobs db) \<or>
        j' \<in> set (db_jobs (fst (update_job k apply_gate_guard (park_set now) db)))"
      using park park_apply_fst[of now k db] by auto
    then show ?thesis
    proof
      assume "j' \<in> set (db_jobs db)"
      then show ?thesis using row_origin_by_id[OF assms(1,2)] mem by blast
    next
      assume "j' \<in> set (db_jobs (fst (update_job k apply_gate_guard (park_set now) db)))"
      from update_job_origin[OF _ this] consider "j' \<in> set (db_jobs db)"
        | r where "r \<in> set (db_jobs db)" "j_id r = k" "apply_gate_guard r" "j' = park_set now r"
        by (metis set_ids(7))
      then show ?thesis
      proof cases
        case 1
        then show ?thesis using row_origin_by_id[OF assms(1,2)] mem by blast
      next
        case (2 r)
        then have "r = j" "k = i" using row_origin_by_id[OF assms(1,2), of r] mem by auto
        then show ?thesis using 2 park by blast
      qed
    qed
  next
    case other
    then have "rows_move db (exec_op op db)" using exec_op_rows assms(1) by blast
    then obtain r where "r \<in> set (db_jobs db)" "j_id r = i" "j' = r \<or> job_write r j'"
      using mem unfolding rows_move_def by metis
    then show ?thesis using row_origin_by_id[OF assms(1,2)] by blast
  qed
qed

text \<open>The status column implements the abstract status graph: between any two store calls a job's
  status stays or follows one edge, provisioning is entered from queued only, running from
  provisioning only, and a terminal status is left only from failed to waiting.\<close>

theorem status_refines_graph:
  assumes "ids_distinct db" "getJob i db = Some j" "getJob i (exec_op op db) = Some j'"
  shows "j_status j' = j_status j \<or> status_edge (j_status j) (j_status j')"
  using exec_op_row[OF assms]
proof (elim disjE exE conjE)
  fix now assume "op = Op_park_apply now i" "apply_gate_guard j" "j' = park_set now j"
  then show ?thesis by (auto simp: apply_gate_guard_def park_set_def status_edge_def)
qed (use job_write_edge in auto)

theorem status_refines_graph_witness:
  "status_edge St_queued (j_status (claim_set 9 lease_uuid example_queued_job))"
proof -
  have "getJob ''j2'' (exec_op (Op_claim 9 {} lease_uuid) example_db) =
      Some (claim_set 9 lease_uuid example_queued_job)"
    by code_simp
  from status_refines_graph[OF example_db_ids example_get(2) this]
  show ?thesis by (simp add: claim_set_def)
qed

text \<open>A finished job stays finished: whatever operation follows, a terminal job keeps its status,
  outcome, pull request, phase, lease and end time, unless the operation is the apply gate re-parking
  a failed job, the one documented way out of a terminal status.\<close>

theorem terminal_job_frozen:
  assumes "ids_distinct db" "getJob i db = Some j" "isTerminalDevJobStatus (j_status j)"
    and "getJob i (exec_op op db) = Some j'"
  shows "(j_status j' = j_status j \<and> j_error j' = j_error j \<and> j_result j' = j_result j \<and>
      j_branch j' = j_branch j \<and> j_prUrl j' = j_prUrl j \<and> j_phase j' = j_phase j \<and>
      j_claimedBy j' = j_claimedBy j \<and> j_runnerHandle j' = j_runnerHandle j \<and>
      j_lastHeartbeatAt j' = j_lastHeartbeatAt j \<and> j_endedAt j' = j_endedAt j \<and> j_brief j' = j_brief j) \<or>
    (\<exists>now. op = Op_park_apply now i \<and> j_status j = St_failed \<and> j' = park_set now j)"
  using exec_op_row[OF assms(1,2,4)]
proof (elim disjE)
  assume "job_write j j'"
  then show ?thesis using assms(3)
    by (induction rule: job_write.induct) (auto simp: row_defs)
next
  assume "\<exists>now. op = Op_park_apply now i \<and> apply_gate_guard j \<and> j' = park_set now j"
  then show ?thesis using assms(3) by (auto simp: apply_gate_guard_def)
qed auto

definition failed_db :: dev_db where
  "failed_db = example_db\<lparr>db_jobs := [example_job\<lparr>j_status := St_failed, j_endedAt := Some 8\<rparr>]\<rparr>"

lemma failed_db_facts:
  "ids_distinct failed_db"
  "getJob ''j1'' failed_db = Some (example_job\<lparr>j_status := St_failed, j_endedAt := Some 8\<rparr>)"
  by (simp_all add: ids_distinct_def failed_db_def getJob_def example_defs)

theorem terminal_job_frozen_witness:
  "\<exists>j'. getJob ''j1'' (exec_op (Op_touch 20 ''j1'') failed_db) = Some j' \<and> j_status j' = St_failed \<and>
     j_endedAt j' = Some 8"
proof -
  obtain j' where j': "getJob ''j1'' (exec_op (Op_touch 20 ''j1'') failed_db) = Some j'"
    using failed_db_facts(2) by (simp add: store_db getJob_update)
  from terminal_job_frozen[OF failed_db_facts _ j'] show ?thesis using j' by auto
qed

text \<open>Claiming takes the oldest queued job that no other transaction holds, stamps the worker's lease
  and changes no other row; it returns nothing exactly when there is no such job.\<close>

theorem claim_takes_oldest:
  assumes "ids_distinct db" "UUID_RE lease" "claimNextQueued now locked lease db = (db', r)"
  shows "(r = Inr None \<and> db' = db \<and> (\<forall>k\<in>set (db_jobs db). j_status k = St_queued \<longrightarrow> j_id k \<in> locked)) \<or>
    (\<exists>q. q \<in> set (db_jobs db) \<and> j_status q = St_queued \<and> j_id q \<notin> locked \<and>
       (\<forall>k\<in>set (db_jobs db). j_status k = St_queued \<and> j_id k \<notin> locked \<longrightarrow> j_createdAt q \<le> j_createdAt k) \<and>
       r = Inr (Some (claim_set now lease q)) \<and> getJob (j_id q) db' = Some (claim_set now lease q) \<and>
       (\<forall>i. i \<noteq> j_id q \<longrightarrow> getJob i db' = getJob i db))"
proof (cases "oldest_queued locked db")
  case None
  then have "filter (\<lambda>j. j_status j = St_queued \<and> j_id j \<notin> locked) (db_jobs db) = []"
    unfolding oldest_queued_def by (metis (no_types, lifting) length_0_conv length_sort list.simps(5)
        list.exhaust option.distinct(1))
  then show ?thesis using None assms(2,3) by (auto simp: claimNextQueued_def filter_empty_conv)
next
  case (Some q)
  note q = oldest_queued_SomeD[OF Some]
  have g: "getJob (j_id q) db = Some q"
    using q(1) assms(1) find_row_in_set[of j_id "db_jobs db" q] by (simp add: getJob_def ids_distinct_def)
  then have "snd (update_job (j_id q) (\<lambda>j. True) (claim_set now lease) db) = [claim_set now lease q]"
    by (simp add: hits_update assms(1))
  then have "r = Inr (Some (claim_set now lease q))"
    "db' = fst (update_job (j_id q) (\<lambda>j. True) (claim_set now lease) db)"
    using assms(2,3) Some by (auto simp: claimNextQueued_def split: prod.splits)
  then show ?thesis using q g by (auto simp: getJob_update)
qed

lemma lease_uuid_ok: "UUID_RE lease_uuid"
  by code_simp

theorem claim_takes_oldest_witness:
  "snd (claimNextQueued 9 {} lease_uuid example_db) = Inr (Some (claim_set 9 lease_uuid example_queued_job))"
proof -
  obtain db' r where c: "claimNextQueued 9 {} lease_uuid example_db = (db', r)" by fastforce
  have rows: "set (db_jobs example_db) = {example_job, example_queued_job}" by (simp add: example_db_def)
  from claim_takes_oldest[OF example_db_ids lease_uuid_ok c] show ?thesis
    by (auto simp: rows c)
qed

lemma claim_hit:
  assumes "ids_distinct db" "claimNextQueued now locked lease db = (db', Inr (Some j))"
  shows "\<exists>q. getJob (j_id j) db = Some q \<and> j_status q = St_queued \<and> j_id q \<notin> locked \<and>
    getJob (j_id j) db' = Some j \<and> j_status j = St_provisioning"
proof -
  have u: "UUID_RE lease" using assms(2) by (auto simp: claimNextQueued_def split: if_splits)
  from assms(2) obtain q where o: "oldest_queued locked db = Some q"
    using u by (auto simp: claimNextQueued_def split: option.splits)
  note q = oldest_queued_SomeD[OF o]
  have g: "getJob (j_id q) db = Some q"
    using q(1) assms(1) find_row_in_set[of j_id "db_jobs db" q] by (simp add: getJob_def ids_distinct_def)
  then have "snd (update_job (j_id q) (\<lambda>j. True) (claim_set now lease) db) = [claim_set now lease q]"
    by (simp add: hits_update assms(1))
  then have "j = claim_set now lease q"
    "db' = fst (update_job (j_id q) (\<lambda>j. True) (claim_set now lease) db)"
    using assms(2) u o by (auto simp: claimNextQueued_def split: prod.splits)
  then show ?thesis using q g by (simp add: getJob_update claim_set_def)
qed

text \<open>Two workers never claim the same job: a second claim that runs while the first holds its row
  lock, or at any later point before the job is queued again, returns a different job.\<close>

theorem claims_disjoint:
  assumes "ids_distinct db1" "claimNextQueued now1 locked1 lease1 db1 = (db1', Inr (Some j1))"
    and "ids_distinct db2" "claimNextQueued now2 locked2 lease2 db2 = (db2', Inr (Some j2))"
    and "j_id j1 \<in> locked2 \<or> (\<exists>j. getJob (j_id j1) db2 = Some j \<and> j_status j \<noteq> St_queued)"
  shows "j_id j1 \<noteq> j_id j2"
proof
  assume same: "j_id j1 = j_id j2"
  obtain q where q: "getJob (j_id j2) db2 = Some q" "j_status q = St_queued" "j_id q \<notin> locked2"
    using claim_hit[OF assms(3,4)] by blast
  then have "j_id q = j_id j1" using getJob_SomeD[OF q(1)] same by simp
  then show False using q assms(5) same by auto
qed

theorem claims_disjoint_witness:
  "let d = example_db\<lparr>db_jobs := [example_queued_job, example_queued_job\<lparr>j_id := ''j3''\<rparr>]\<rparr>;
       c1 = claimNextQueued 9 {} lease_uuid d; c2 = claimNextQueued 10 {} lease_uuid (fst c1)
   in \<exists>a b. snd c1 = Inr (Some a) \<and> snd c2 = Inr (Some b) \<and> j_id a \<noteq> j_id b"
proof -
  let ?d = "example_db\<lparr>db_jobs := [example_queued_job, example_queued_job\<lparr>j_id := ''j3''\<rparr>]\<rparr>"
  let ?a = "claim_set 9 lease_uuid example_queued_job"
  let ?b = "claim_set 10 lease_uuid (example_queued_job\<lparr>j_id := ''j3''\<rparr>)"
  obtain d1 where c1: "claimNextQueued 9 {} lease_uuid ?d = (d1, Inr (Some ?a))"
    "d1 = ?d\<lparr>db_jobs := [?a, example_queued_job\<lparr>j_id := ''j3''\<rparr>]\<rparr>"
    using lease_uuid_ok
    by (simp add: claimNextQueued_def oldest_queued_def update_job_def sql_update_def)
  obtain d2 where c2: "claimNextQueued 10 {} lease_uuid d1 = (d2, Inr (Some ?b))"
    using lease_uuid_ok
    by (simp add: c1(2) claimNextQueued_def oldest_queued_def update_job_def sql_update_def claim_set_def)
  have i: "ids_distinct ?d" "ids_distinct d1" by (simp_all add: ids_distinct_def c1(2))
  have "\<exists>j. getJob (j_id ?a) d1 = Some j \<and> j_status j \<noteq> St_queued"
    by (simp add: c1(2) getJob_def claim_set_def)
  from claims_disjoint[OF i(1) c1(1) i(2) c2 disjI2[OF this]] show ?thesis
    using c1(1) c2 by (simp add: Let_def)
qed

text \<open>C5: lease fencing: a worker whose lease the row no longer carries, or whose job is finished, cannot
  write it. Attaching a runner handle and minting the runner token both report the lost lease, handing
  the claim back reports a miss, and none of the three changes anything.\<close>

theorem lost_lease_writes_nothing:
  assumes "ids_distinct db" "UUID_RE lease"
    and "\<And>r. getJob (j_id job) db = Some r \<Longrightarrow> j_claimedBy r \<noteq> Some lease \<or> isTerminalDevJobStatus (j_status r)"
  shows "setRunnerHandle now (j_id job) lease h db = (db, Inl (DevJobLeaseLostError (j_id job))) \<and>
    prepareProvision now th job lease sha db = (db, Inl (DevJobLeaseLostError (j_id job))) \<and>
    releaseClaim now (j_id job) lease db = (db, Inr False)"
proof -
  have miss: "snd (update_job (j_id job) (lease_guard lease) upd db) = []"
    if "\<And>j. j_id (upd j) = j_id j" for upd
    using hits_update[OF that assms(1)] assms(3) by (auto simp: lease_guard_def non_terminal_def split: option.splits)
  have m: "update_job (j_id job) (lease_guard lease) (handle_set now h) db = (db, [])"
    "update_job (j_id job) (lease_guard lease)
       (provision_set now th (case j_branch job of None \<Rightarrow> jobBranchName job | Some b \<Rightarrow> b) sha) db = (db, [])"
    using miss update_job_miss by (simp_all add: prod_eq_iff)
  have "snd (update_job (j_id job) (release_guard lease) (release_set now) db) = []"
    using hits_update[of "release_set now" db "j_id job" "release_guard lease"] assms(1,3)
    by (auto simp: release_guard_def split: option.splits)
  then have "update_job (j_id job) (release_guard lease) (release_set now) db = (db, [])"
    using update_job_miss[of "release_set now"] by (simp add: prod_eq_iff)
  with m assms(2) show ?thesis
    by (simp add: setRunnerHandle_def prepareProvision_def releaseClaim_def row_count_def Let_def)
qed

theorem lost_lease_writes_nothing_witness:
  "snd (setRunnerHandle 9 ''j2'' lease_uuid example_handle example_db) =
     (Inl (DevJobLeaseLostError ''j2'') :: store_error + unit)"
proof -
  have "j_claimedBy example_queued_job \<noteq> Some lease_uuid" by (simp add: example_defs)
  then have "setRunnerHandle 9 (j_id example_queued_job) lease_uuid example_handle example_db =
      (example_db, Inl (DevJobLeaseLostError (j_id example_queued_job)))"
    using lost_lease_writes_nothing[OF example_db_ids lease_uuid_ok, of example_queued_job 9 example_handle] by simp
  then show ?thesis by simp
qed

end
