(* ===== verification/UnifiedDiff.thy ===== *)
theory UnifiedDiff
  imports DevPrelude
begin

text \<open>
  The unified-diff parser and patch applier (\<open>policy/parseUnifiedDiff.ts\<close>).  The parser works on the
  list of remaining lines instead of an index into the array; a hunk's body is consumed from the front
  of that list.  Quoted paths are decoded to bytes (the code decodes to bytes and reads them as UTF-8;
  the model keeps the bytes).
\<close>

section \<open>Types\<close>

datatype diff_change = Ch_add | Ch_modify | Ch_delete | Ch_rename | Ch_copy

record diff_hunk =
  dh_oldStart :: nat
  dh_oldLines :: nat
  dh_newStart :: nat
  dh_newLines :: nat
  dh_lines :: "string list"

record diff_file_stat =
  fs_path :: string
  fs_oldPath :: "string option"
  fs_change :: diff_change
  fs_additions :: nat
  fs_deletions :: nat
  fs_binary :: bool

record diff_file_change =
  df_path :: string
  df_oldPath :: "string option"
  df_change :: diff_change
  df_binary :: bool
  df_additions :: nat
  df_deletions :: nat
  df_hunks :: "diff_hunk list"
  df_mode :: "string option"

datatype diff_error =
    DiffContextMismatchError string string string string
  | DiffStructureError string string string

record mutable_file =
  mf_change :: diff_change
  mf_binary :: bool
  mf_additions :: nat
  mf_deletions :: nat
  mf_hunks :: "diff_hunk list"
  mf_aPath :: "string option"
  mf_bPath :: "string option"
  mf_minus :: "string option option"
  mf_plus :: "string option option"
  mf_oldPath :: "string option"
  mf_newPath :: "string option"
  mf_mode :: "string option"

section \<open>Path decoding\<close>

definition is_octal :: "char \<Rightarrow> bool" where
  "is_octal c \<longleftrightarrow> CHR ''0'' \<le> c \<and> c \<le> CHR ''7''"

definition c_escape :: "char \<Rightarrow> char" where
  "c_escape e =
     (if e = CHR ''n'' then CHR 0x0A else if e = CHR ''t'' then CHR 0x09
      else if e = CHR ''r'' then CHR 0x0D else if e = CHR ''a'' then CHR 0x07
      else if e = CHR ''b'' then CHR 0x08 else if e = CHR ''f'' then CHR 0x0C
      else if e = CHR ''v'' then CHR 0x0B else e)"

definition byte_of_octal :: "string \<Rightarrow> char" where
  "byte_of_octal ds = char_of (foldl (\<lambda>n c. 8 * n + digit_val c) 0 ds mod 256)"

text \<open>The characters after the opening quote: the decoded value and what follows the closing quote.\<close>

fun readQuoted :: "string \<Rightarrow> (string \<times> string) option" where
  "readQuoted [] = None"
| "readQuoted (c # cs) =
     (if c = CHR 0x22 then Some ([], cs)
      else if c = CHR 0x5C then
        (case cs of
           [] \<Rightarrow> None
         | e # r \<Rightarrow>
             if is_octal e then
               (case r of
                  [] \<Rightarrow> map_option (apfst (Cons (byte_of_octal [e]))) (readQuoted [])
                | d # r2 \<Rightarrow>
                    if \<not> is_octal d
                    then map_option (apfst (Cons (byte_of_octal [e]))) (readQuoted (d # r2))
                    else (case r2 of
                        [] \<Rightarrow> map_option (apfst (Cons (byte_of_octal [e, d]))) (readQuoted [])
                      | f # r3 \<Rightarrow>
                          if is_octal f
                          then map_option (apfst (Cons (byte_of_octal [e, d, f]))) (readQuoted r3)
                          else map_option (apfst (Cons (byte_of_octal [e, d]))) (readQuoted (f # r3))))
             else map_option (apfst (Cons (c_escape e))) (readQuoted r))
      else map_option (apfst (Cons c)) (readQuoted cs))"

definition stripAbPrefix :: "string \<Rightarrow> string" where
  "stripAbPrefix p = (if prefix ''a/'' p \<or> prefix ''b/'' p then drop 2 p else p)"

definition unquotePath :: "string \<Rightarrow> string" where
  "unquotePath token =
     (let t = takeWhile (\<lambda>c. c \<noteq> CHR 0x09) token in
      case t of
        [] \<Rightarrow> []
      | c # cs \<Rightarrow> if c = CHR 0x22 then (case readQuoted cs of Some (v, _) \<Rightarrow> v | None \<Rightarrow> t) else t)"

text \<open>\<open>^a\/(.+) b\/(.+)$\<close>: the first group is greedy, so the split is at the last \<open> b/\<close> that leaves both
  groups non-empty; a dot matches no line terminator.\<close>

fun last_b_split :: "string \<Rightarrow> (string \<times> string) option" where
  "last_b_split [] = None"
| "last_b_split (c # cs) =
     (case last_b_split cs of
        Some (x, y) \<Rightarrow> Some (c # x, y)
      | None \<Rightarrow> if prefix '' b/'' cs \<and> drop 3 cs \<noteq> [] then Some ([c], drop 3 cs) else None)"

definition no_terminator :: "string \<Rightarrow> bool" where
  "no_terminator s \<longleftrightarrow> list_all (\<lambda>c. c \<noteq> CHR 0x0A \<and> c \<noteq> CHR 0x0D) s"

definition parseDiffGitPaths :: "string \<Rightarrow> (string \<times> string) option" where
  "parseDiffGitPaths rest =
     (case rest of
        [] \<Rightarrow> None
      | c # cs \<Rightarrow>
          if c = CHR 0x22 then
            (case readQuoted cs of
               None \<Rightarrow> None
             | Some (v, r) \<Rightarrow>
                 (case dropWhile (\<lambda>d. d = CHR '' '') r of
                    [] \<Rightarrow> Some (stripAbPrefix v, [])
                  | d # ds \<Rightarrow>
                      if d = CHR 0x22
                      then map_option (\<lambda>(w, _). (stripAbPrefix v, stripAbPrefix w)) (readQuoted ds)
                      else Some (stripAbPrefix v, stripAbPrefix (d # ds))))
          else if prefix ''a/'' rest \<and> no_terminator rest then last_b_split (drop 2 rest)
          else None)"

definition lastToken :: "string \<Rightarrow> string" where
  "lastToken line = rev (takeWhile (\<lambda>c. \<not> is_space c) (rev (trim line)))"

section \<open>Hunks\<close>

definition take_nat :: "string \<Rightarrow> (nat \<times> string) option" where
  "take_nat s = (let ds = takeWhile is_digit s in
     if ds = [] then None else Some (nat_of_digits ds, dropWhile is_digit s))"

definition expect :: "string \<Rightarrow> string \<Rightarrow> string option" where
  "expect p s = (if prefix p s then Some (drop (length p) s) else None)"

definition opt_count :: "string \<Rightarrow> (nat option \<times> string) option" where
  "opt_count s = (case s of
     c # cs \<Rightarrow> if c = CHR '','' then
                 (case take_nat cs of Some (n, r) \<Rightarrow> Some (Some n, r) | None \<Rightarrow> Some (None, s))
               else Some (None, s)
   | [] \<Rightarrow> Some (None, s))"

text \<open>\<open>HUNK_RE\<close>: old start, old count, new start, new count; text after the second \<open>@@\<close> is ignored.\<close>

definition HUNK_RE :: "string \<Rightarrow> (nat \<times> nat option \<times> nat \<times> nat option) option" where
  "HUNK_RE line =
     do {
       s1 \<leftarrow> expect ''@@ -'' line;
       (os, s2) \<leftarrow> take_nat s1;
       (oc, s3) \<leftarrow> opt_count s2;
       s4 \<leftarrow> expect '' +'' s3;
       (ns, s5) \<leftarrow> take_nat s4;
       (nc, s6) \<leftarrow> opt_count s5;
       _ \<leftarrow> expect '' @@'' s6;
       Some (os, oc, ns, nc)
     }"

definition formatHunkHeader :: "diff_hunk \<Rightarrow> string" where
  "formatHunkHeader h = ''@@ -'' @ show_nat (dh_oldStart h) @ '','' @ show_nat (dh_oldLines h) @
     '' +'' @ show_nat (dh_newStart h) @ '','' @ show_nat (dh_newLines h) @ '' @@''"

datatype line_tag = Tag_add | Tag_del | Tag_mark | Tag_ctx

definition tag_of :: "string \<Rightarrow> line_tag" where
  "tag_of l = (case l of
     c # _ \<Rightarrow> if c = CHR ''+'' then Tag_add else if c = CHR ''-'' then Tag_del
              else if c = CHR 0x5C then Tag_mark else Tag_ctx
   | [] \<Rightarrow> Tag_ctx)"

definition ends_hunk :: "string \<Rightarrow> bool" where
  "ends_hunk body \<longleftrightarrow> body = [] \<or> prefix ''diff --git '' body \<or> HUNK_RE body \<noteq> None"

datatype hunk_fault = Under_run | Over_run | Surplus

text \<open>The counted body: its lines and the lines that remain.\<close>

definition cons_body :: "string \<Rightarrow> hunk_fault + (string list \<times> string list) \<Rightarrow> hunk_fault + (string list \<times> string list)" where
  "cons_body b r = (case r of Inl e \<Rightarrow> Inl e | Inr (body, rest) \<Rightarrow> Inr (b # body, rest))"

fun hunk_body :: "nat \<Rightarrow> nat \<Rightarrow> string list \<Rightarrow> hunk_fault + (string list \<times> string list)" where
  "hunk_body orem nrem [] = (if orem = 0 \<and> nrem = 0 then Inr ([], []) else Inl Under_run)"
| "hunk_body orem nrem (b # bs) =
     (if orem = 0 \<and> nrem = 0 then Inr ([], b # bs)
      else if ends_hunk b then Inl Under_run
      else case tag_of b of
        Tag_add \<Rightarrow> if nrem = 0 then Inl Over_run else cons_body b (hunk_body orem (nrem - 1) bs)
      | Tag_del \<Rightarrow> if orem = 0 then Inl Over_run else cons_body b (hunk_body (orem - 1) nrem bs)
      | Tag_mark \<Rightarrow> cons_body b (hunk_body orem nrem bs)
      | Tag_ctx \<Rightarrow> if orem = 0 \<or> nrem = 0 then Inl Over_run
                  else cons_body b (hunk_body (orem - 1) (nrem - 1) bs))"

definition is_mark :: "string \<Rightarrow> bool" where
  "is_mark l \<longleftrightarrow> l \<noteq> [] \<and> tag_of l = Tag_mark"

definition is_surplus :: "string \<Rightarrow> bool" where
  "is_surplus l \<longleftrightarrow> (case l of c # _ \<Rightarrow> c \<in> {CHR ''+'', CHR ''-'', CHR '' ''} | [] \<Rightarrow> False)"

definition fault_detail :: "hunk_fault \<Rightarrow> string" where
  "fault_detail f = (case f of
     Under_run \<Rightarrow> ''hunk body ends before its declared line counts are satisfied''
   | Over_run \<Rightarrow> ''hunk body has more +/- lines than its header declares''
   | Surplus \<Rightarrow> ''hunk body has more lines than its header declares'')"

definition count_tag :: "line_tag \<Rightarrow> string list \<Rightarrow> nat" where
  "count_tag t ls = length (filter (\<lambda>l. tag_of l = t) ls)"

definition orElse :: "'a option \<Rightarrow> 'a option \<Rightarrow> 'a option" where
  "orElse a b = (case a of None \<Rightarrow> b | Some x \<Rightarrow> Some x)"

definition consumeHunk :: "mutable_file \<Rightarrow> nat \<times> nat option \<times> nat \<times> nat option \<Rightarrow> string list
    \<Rightarrow> diff_error + (mutable_file \<times> string list)" where
  "consumeHunk cur m rest =
     (case m of (os, oc, ns, nc) \<Rightarrow>
       (let ol = (case oc of None \<Rightarrow> 1 | Some n \<Rightarrow> n);
            nl = (case nc of None \<Rightarrow> 1 | Some n \<Rightarrow> n);
            h = \<lparr>dh_oldStart = os, dh_oldLines = ol, dh_newStart = ns, dh_newLines = nl, dh_lines = []\<rparr>;
            path = (case orElse (mf_bPath cur) (orElse (mf_newPath cur) (mf_aPath cur)) of
                      None \<Rightarrow> ''(unknown)'' | Some p \<Rightarrow> p);
            bad = (\<lambda>f. Inl (DiffStructureError path (formatHunkHeader h) (fault_detail f)))
        in case hunk_body ol nl rest of
             Inl f \<Rightarrow> bad f
           | Inr (body, rest1) \<Rightarrow>
               (let marks = takeWhile is_mark rest1; rest2 = dropWhile is_mark rest1;
                    ls = body @ marks
                in if (case rest2 of l # _ \<Rightarrow> is_surplus l | [] \<Rightarrow> False) then bad Surplus
                   else Inr (cur\<lparr>mf_additions := mf_additions cur + count_tag Tag_add body,
                                 mf_deletions := mf_deletions cur + count_tag Tag_del body,
                                 mf_hunks := mf_hunks cur @ [h\<lparr>dh_lines := ls\<rparr>]\<rparr>, rest2))))"

section \<open>The parser\<close>

definition new_file :: "(string \<times> string) option \<Rightarrow> mutable_file" where
  "new_file pair = \<lparr>mf_change = Ch_modify, mf_binary = False, mf_additions = 0, mf_deletions = 0,
     mf_hunks = [], mf_aPath = map_option fst pair, mf_bPath = map_option snd pair, mf_minus = None,
     mf_plus = None, mf_oldPath = None, mf_newPath = None, mf_mode = None\<rparr>"

definition finalizeFile :: "mutable_file \<Rightarrow> diff_file_change" where
  "finalizeFile f =
     (let path0 = (case orElse (mf_newPath f) (orElse (Option.bind (mf_plus f) id) (mf_bPath f)) of
                     None \<Rightarrow> [] | Some p \<Rightarrow> p);
          oldPath = orElse (mf_oldPath f) (orElse (Option.bind (mf_minus f) id) (mf_aPath f));
          change = (if mf_plus f = Some None then Ch_delete
                    else if mf_minus f = Some None \<and> mf_change f = Ch_modify then Ch_add
                    else mf_change f);
          path = (if change = Ch_delete then (case oldPath of None \<Rightarrow> path0 | Some p \<Rightarrow> p) else path0)
      in \<lparr>df_path = path,
          df_oldPath = (case oldPath of
             Some p \<Rightarrow> if (change = Ch_rename \<or> change = Ch_copy) \<and> p \<noteq> [] \<and> p \<noteq> path then Some p else None
           | None \<Rightarrow> None),
          df_change = change, df_binary = mf_binary f, df_additions = mf_additions f,
          df_deletions = mf_deletions f, df_hunks = mf_hunks f, df_mode = mf_mode f\<rparr>)"

definition side_path :: "string \<Rightarrow> string option" where
  "side_path p = (if p = ''/dev/null'' then None else Some (stripAbPrefix (unquotePath p)))"

text \<open>A header line inside a file; \<open>None\<close> means the line is none of these (a hunk or ignored).\<close>

definition header_line :: "string \<Rightarrow> mutable_file \<Rightarrow> mutable_file option" where
  "header_line line cur =
     (if prefix ''new file mode'' line then Some (cur\<lparr>mf_change := Ch_add, mf_mode := Some (lastToken line)\<rparr>)
      else if prefix ''new mode '' line then Some (cur\<lparr>mf_mode := Some (lastToken line)\<rparr>)
      else if prefix ''deleted file mode'' line then Some (cur\<lparr>mf_change := Ch_delete\<rparr>)
      else if prefix ''rename from '' line
      then Some (cur\<lparr>mf_change := Ch_rename, mf_oldPath := Some (unquotePath (drop 12 line))\<rparr>)
      else if prefix ''rename to '' line
      then Some (cur\<lparr>mf_change := Ch_rename, mf_newPath := Some (unquotePath (drop 10 line))\<rparr>)
      else if prefix ''copy from '' line
      then Some (cur\<lparr>mf_change := Ch_copy, mf_oldPath := Some (unquotePath (drop 10 line))\<rparr>)
      else if prefix ''copy to '' line
      then Some (cur\<lparr>mf_change := Ch_copy, mf_newPath := Some (unquotePath (drop 8 line))\<rparr>)
      else if prefix ''Binary files '' line \<or> prefix ''GIT binary patch'' line
      then Some (cur\<lparr>mf_binary := True\<rparr>)
      else if prefix ''--- '' line then Some (cur\<lparr>mf_minus := Some (side_path (drop 4 line))\<rparr>)
      else if prefix ''+++ '' line then Some (cur\<lparr>mf_plus := Some (side_path (drop 4 line))\<rparr>)
      else None)"

definition flush :: "mutable_file option \<Rightarrow> diff_file_change list" where
  "flush cur = (case cur of None \<Rightarrow> [] | Some f \<Rightarrow> [finalizeFile f])"

lemma hunk_body_rest: "hunk_body orem nrem ls = Inr (body, rest) \<Longrightarrow> ls = body @ rest"
  by (induction orem nrem ls arbitrary: body rest rule: hunk_body.induct)
     (auto simp: cons_body_def split: if_splits line_tag.splits sum.splits)

lemma consumeHunk_rest: "consumeHunk cur m rest = Inr (cur', rest') \<Longrightarrow> length rest' \<le> length rest"
proof -
  assume "consumeHunk cur m rest = Inr (cur', rest')"
  then obtain o_n n_n body rest1 where h: "hunk_body o_n n_n rest = Inr (body, rest1)"
    "rest' = dropWhile is_mark rest1"
    by (auto simp: consumeHunk_def Let_def split: prod.splits sum.splits if_splits)
  then show ?thesis using hunk_body_rest[OF h(1)] length_dropWhile_le[of is_mark rest1] by simp
qed

function parse_lines :: "string list \<Rightarrow> mutable_file option \<Rightarrow> diff_error + diff_file_change list" where
  "parse_lines [] cur = Inr (flush cur)"
| "parse_lines (line # rest) cur =
     (if prefix ''diff --git '' line then
        (case parse_lines rest (Some (new_file (parseDiffGitPaths (drop 11 line)))) of
           Inl e \<Rightarrow> Inl e | Inr fs \<Rightarrow> Inr (flush cur @ fs))
      else case cur of
        None \<Rightarrow> parse_lines rest None
      | Some f \<Rightarrow>
          (case header_line line f of
             Some f' \<Rightarrow> parse_lines rest (Some f')
           | None \<Rightarrow>
               (case HUNK_RE line of
                  None \<Rightarrow> parse_lines rest (Some f)
                | Some m \<Rightarrow>
                    (case consumeHunk f m rest of
                       Inl e \<Rightarrow> Inl e
                     | Inr (f', rest') \<Rightarrow> parse_lines rest' (Some f')))))"
  by pat_completeness auto
termination
  by (relation "measure (\<lambda>(ls, _). length ls)") (auto dest: consumeHunk_rest)

definition strip_cr :: "string \<Rightarrow> string" where
  "strip_cr l = (if l \<noteq> [] \<and> last l = CHR 0x0D then butlast l else l)"

definition parseUnifiedDiffDetailed :: "string \<Rightarrow> diff_error + diff_file_change list" where
  "parseUnifiedDiffDetailed diff = parse_lines (List.map strip_cr (split_char CHR 0x0A diff)) None"

definition stat_of :: "diff_file_change \<Rightarrow> diff_file_stat" where
  "stat_of f = \<lparr>fs_path = df_path f, fs_oldPath = df_oldPath f, fs_change = df_change f,
     fs_additions = df_additions f, fs_deletions = df_deletions f, fs_binary = df_binary f\<rparr>"

definition parseUnifiedDiff :: "string \<Rightarrow> diff_error + diff_file_stat list" where
  "parseUnifiedDiff diff = map_sum id (List.map stat_of) (parseUnifiedDiffDetailed diff)"

section \<open>The applier\<close>

definition splitLines :: "string \<Rightarrow> string list" where
  "splitLines s =
     (if s = [] then []
      else (let parts = split_char CHR 0x0A s in if last parts = [] then butlast parts else parts))"

record apply_state =
  as_cursor :: nat
  as_out :: "string list"
  as_noFinalNewline :: bool
  as_lastKind :: "line_tag option"

definition mismatch :: "string \<Rightarrow> diff_hunk \<Rightarrow> string \<Rightarrow> string \<Rightarrow> diff_error" where
  "mismatch path h expected actual = DiffContextMismatchError path (formatHunkHeader h) expected actual"

definition apply_line :: "string \<Rightarrow> diff_hunk \<Rightarrow> string list \<Rightarrow> string \<Rightarrow> apply_state \<Rightarrow> diff_error + apply_state" where
  "apply_line path h src raw st =
     (let text = drop 1 raw; cursor = as_cursor st in
      case tag_of raw of
        Tag_add \<Rightarrow> Inr (st\<lparr>as_out := as_out st @ [text], as_lastKind := Some Tag_add\<rparr>)
      | Tag_mark \<Rightarrow>
          Inr (if as_lastKind st \<in> {Some Tag_add, Some Tag_ctx} then st\<lparr>as_noFinalNewline := True\<rparr> else st)
      | t \<Rightarrow>
          if length src \<le> cursor then Inl (mismatch path h text ''end of file'')
          else if src ! cursor \<noteq> text then Inl (mismatch path h text (src ! cursor))
          else if t = Tag_del then Inr (st\<lparr>as_cursor := cursor + 1, as_lastKind := Some Tag_del\<rparr>)
          else Inr (st\<lparr>as_cursor := cursor + 1, as_out := as_out st @ [src ! cursor],
                       as_lastKind := Some Tag_ctx\<rparr>))"

fun apply_body :: "string \<Rightarrow> diff_hunk \<Rightarrow> string list \<Rightarrow> string list \<Rightarrow> apply_state \<Rightarrow> diff_error + apply_state" where
  "apply_body path h src [] st = Inr st"
| "apply_body path h src (raw # rest) st =
     (case apply_line path h src raw st of
        Inl e \<Rightarrow> Inl e
      | Inr st' \<Rightarrow> apply_body path h src rest st')"

text \<open>\<open>while (cursor < start) out.push(src[cursor++])\<close>: copies the gap; a start behind the cursor copies
  nothing.\<close>

definition copy_gap :: "string list \<Rightarrow> nat \<Rightarrow> apply_state \<Rightarrow> apply_state" where
  "copy_gap src start st =
     (if as_cursor st < start
      then st\<lparr>as_out := as_out st @ take (start - as_cursor st) (drop (as_cursor st) src), as_cursor := start\<rparr>
      else st)"

definition hunk_start :: "diff_hunk \<Rightarrow> nat" where
  "hunk_start h = dh_oldStart h - 1"

fun apply_all :: "string \<Rightarrow> string list \<Rightarrow> diff_hunk list \<Rightarrow> apply_state \<Rightarrow> diff_error + apply_state" where
  "apply_all path src [] st = Inr st"
| "apply_all path src (h # hs) st =
     (if length src < hunk_start h
      then Inl (mismatch path h (''a line at position '' @ show_nat (hunk_start h + 1)) ''end of file'')
      else case apply_body path h src (dh_lines h) (copy_gap src (hunk_start h) st) of
        Inl e \<Rightarrow> Inl e
      | Inr st' \<Rightarrow> apply_all path src hs st')"

definition render_lines :: "string list \<Rightarrow> bool \<Rightarrow> string" where
  "render_lines out no_final =
     (if out = [] then [] else join_with newline out @ (if no_final then [] else newline))"

definition applyHunks :: "string \<Rightarrow> diff_hunk list \<Rightarrow> string option \<Rightarrow> diff_error + string" where
  "applyHunks base hunks ctx_path =
     (let path = (case ctx_path of None \<Rightarrow> ''(unknown)'' | Some p \<Rightarrow> p); src = splitLines base in
      case apply_all path src hunks
             \<lparr>as_cursor = 0, as_out = [], as_noFinalNewline = False, as_lastKind = None\<rparr> of
        Inl e \<Rightarrow> Inl e
      | Inr st \<Rightarrow> Inr (render_lines (as_out st @ drop (as_cursor st) src) (as_noFinalNewline st)))"

end
