(* ===== verification/PathGlobs.thy ===== *)
theory PathGlobs
  imports UnifiedDiff
begin

text \<open>
  The protected-path globs (\<open>policy/protectedGlobs.ts\<close>).  \<open>globToRegExp\<close> compiles a glob to the
  anchored regular expression the code builds, here as a list of its pieces, and \<open>re_match\<close> is the
  test of that expression: a dot matches no line terminator, a negated class does.  Characters are the
  bytes of the path, so a question mark is one byte.
\<close>

section \<open>Compilation and matching\<close>

datatype re_piece = R_dirs | R_any | R_run | R_one | R_lit char

fun globToRegExp :: "string \<Rightarrow> re_piece list" where
  "globToRegExp [] = []"
| "globToRegExp (c # cs) =
     (if c = CHR ''*'' then
        (case cs of
           [] \<Rightarrow> [R_run]
         | d # ds \<Rightarrow>
             if d = CHR ''*'' then
               (case ds of
                  [] \<Rightarrow> [R_any]
                | e # es \<Rightarrow> if e = CHR ''/'' then R_dirs # globToRegExp es
                            else R_any # globToRegExp (e # es))
             else R_run # globToRegExp (d # ds))
      else if c = CHR ''?'' then R_one # globToRegExp cs
      else R_lit c # globToRegExp cs)"

definition is_dot :: "char \<Rightarrow> bool" where
  "is_dot c \<longleftrightarrow> c \<noteq> CHR 0x0A \<and> c \<noteq> CHR 0x0D"

definition piece_weight :: "re_piece \<Rightarrow> nat" where
  "piece_weight t = (if t = R_dirs then 3 else 1)"

text \<open>The expression anchored at both ends; \<open>R_dirs\<close> is the optional group of leading directories.\<close>

function re_match :: "re_piece list \<Rightarrow> string \<Rightarrow> bool" where
  "re_match [] s = (s = [])"
| "re_match (R_lit c # r) s = (case s of [] \<Rightarrow> False | d # t \<Rightarrow> d = c \<and> re_match r t)"
| "re_match (R_one # r) s = (case s of [] \<Rightarrow> False | d # t \<Rightarrow> d \<noteq> CHR ''/'' \<and> re_match r t)"
| "re_match (R_run # r) s =
     (re_match r s \<or> (case s of [] \<Rightarrow> False | d # t \<Rightarrow> d \<noteq> CHR ''/'' \<and> re_match (R_run # r) t))"
| "re_match (R_any # r) s =
     (re_match r s \<or> (case s of [] \<Rightarrow> False | d # t \<Rightarrow> is_dot d \<and> re_match (R_any # r) t))"
| "re_match (R_dirs # r) s = (re_match r s \<or> re_match (R_any # R_lit CHR ''/'' # r) s)"
  by pat_completeness auto
termination
  by (relation "measures [\<lambda>(r, s). sum_list (List.map piece_weight r), \<lambda>(r, s). length s]")
     (auto simp: piece_weight_def)

definition normalizePath :: "string \<Rightarrow> string" where
  "normalizePath path =
     (let p = List.map (\<lambda>c. if c = CHR 0x5C then CHR ''/'' else c) path
      in if prefix ''./'' p then drop 2 p else p)"

fun matches_any :: "string \<Rightarrow> string list \<Rightarrow> bool" where
  "matches_any s [] = False"
| "matches_any s (g # gs) = (re_match (globToRegExp g) s \<or> matches_any s gs)"

definition matchesAnyGlob :: "string \<Rightarrow> string list \<Rightarrow> bool" where
  "matchesAnyGlob path globs = matches_any (normalizePath path) globs"

definition DEFAULT_PROTECTED_GLOBS :: "string list" where
  "DEFAULT_PROTECTED_GLOBS =
     [''.github/workflows/**'', ''**/action.yml'', ''**/action.yaml'', ''**/Dockerfile*'',
      ''.gitlab-ci.yml'', ''Jenkinsfile'', ''.circleci/**'', ''.husky/**'',
      ''**/.env'', ''**/.env.*'', ''**/*.pem'', ''**/*.key'', ''**/id_rsa'', ''**/id_dsa'',
      ''**/*.pfx'', ''**/*.p12'']"

section \<open>What each piece matches\<close>

lemma match_lits: "re_match (List.map R_lit w @ r) s \<longleftrightarrow> (\<exists>y. s = w @ y \<and> re_match r y)"
  by (induction w arbitrary: s) (auto split: list.splits)

lemma match_lits_end: "re_match (List.map R_lit w) s \<longleftrightarrow> s = w"
  using match_lits[of w "[]" s] by auto

lemma split_step:
  "(\<exists>x y. d # t = x @ y \<and> list_all P x \<and> Q y) \<longleftrightarrow> Q (d # t) \<or> P d \<and> (\<exists>x y. t = x @ y \<and> list_all P x \<and> Q y)"
    (is "?L \<longleftrightarrow> ?R")
proof
  assume ?L
  then obtain x y where xy: "d # t = x @ y" "list_all P x" "Q y" by blast
  then show ?R by (cases x) auto
next
  assume ?R
  then show ?L
  proof
    assume "Q (d # t)"
    then show ?L by (metis append_Nil list.pred_inject(1))
  next
    assume "P d \<and> (\<exists>x y. t = x @ y \<and> list_all P x \<and> Q y)"
    then show ?L by (metis append_Cons list.pred_inject(2))
  qed
qed

lemma match_any: "re_match (R_any # r) s \<longleftrightarrow> (\<exists>x y. s = x @ y \<and> list_all is_dot x \<and> re_match r y)"
  by (induction s) (simp_all add: split_step)

lemma match_run:
  "re_match (R_run # r) s \<longleftrightarrow> (\<exists>x y. s = x @ y \<and> list_all (\<lambda>c. c \<noteq> CHR ''/'') x \<and> re_match r y)"
  by (induction s) (simp_all add: split_step)

lemma match_dirs:
  "re_match (R_dirs # r) s \<longleftrightarrow> re_match r s \<or> (\<exists>x y. s = x @ CHR ''/'' # y \<and> list_all is_dot x \<and> re_match r y)"
proof -
  have "re_match (R_lit CHR ''/'' # r) z \<longleftrightarrow> (\<exists>y. z = CHR ''/'' # y \<and> re_match r y)" for z
    by (auto split: list.splits)
  then show ?thesis by (simp add: match_any del: re_match.simps(2,5)) blast
qed

definition base_of :: "string \<Rightarrow> string" where
  "base_of s = rev (takeWhile (\<lambda>c. c \<noteq> CHR ''/'') (rev s))"

lemma takeWhile_all: "CHR ''/'' \<notin> set y \<Longrightarrow> takeWhile (\<lambda>c. c \<noteq> CHR ''/'') (rev y @ zs) = rev y @ takeWhile (\<lambda>c. c \<noteq> CHR ''/'') zs"
  by (rule takeWhile_append2) auto

lemma base_of_slash: "CHR ''/'' \<notin> set y \<Longrightarrow> base_of (x @ CHR ''/'' # y) = y"
  using takeWhile_all[of y "CHR ''/'' # rev x"] by (simp add: base_of_def)

lemma base_of_none:
  assumes "CHR ''/'' \<notin> set y"
  shows "base_of y = y"
proof -
  have "takeWhile (\<lambda>c. c \<noteq> CHR ''/'') (rev y) = rev y" using takeWhile_all[OF assms, of "[]"] by simp
  then show ?thesis unfolding base_of_def by (metis rev_rev_ident)
qed

lemma base_of_cases: "s = base_of s \<or> (\<exists>x. s = x @ CHR ''/'' # base_of s)"
proof -
  let ?t = "takeWhile (\<lambda>c. c \<noteq> CHR ''/'') (rev s)" and ?d = "dropWhile (\<lambda>c. c \<noteq> CHR ''/'') (rev s)"
  have s: "s = rev ?d @ base_of s"
    by (metis base_of_def rev_append rev_rev_ident takeWhile_dropWhile_id)
  show ?thesis
  proof (cases ?d)
    case Nil
    then show ?thesis using s by (metis append_Nil rev.simps(1))
  next
    case (Cons c cs)
    then have "c = CHR ''/''" using hd_dropWhile[of "\<lambda>c. c \<noteq> CHR ''/''" "rev s"] by simp
    then show ?thesis using s Cons by auto
  qed
qed

lemma base_of_no_slash: "CHR ''/'' \<notin> set (base_of s)"
  by (auto simp: base_of_def dest: set_takeWhileD)

lemma dirs_base:
  assumes "list_all is_dot s" "\<And>y. re_match r y \<Longrightarrow> CHR ''/'' \<notin> set y"
  shows "re_match (R_dirs # r) s \<longleftrightarrow> re_match r (base_of s)"
proof
  assume "re_match (R_dirs # r) s"
  then consider "re_match r s" | x y where "s = x @ CHR ''/'' # y" "re_match r y" using match_dirs by blast
  then show "re_match r (base_of s)" using assms(2) base_of_slash base_of_none by cases auto
next
  assume "re_match r (base_of s)"
  then show "re_match (R_dirs # r) s" using base_of_cases[of s] assms(1) by (metis list_all_append match_dirs)
qed

text \<open>The four shapes of the default globs.\<close>

lemma dirs_lit:
  "\<lbrakk>list_all is_dot s; CHR ''/'' \<notin> set w\<rbrakk> \<Longrightarrow> re_match (R_dirs # List.map R_lit w) s \<longleftrightarrow> base_of s = w"
  by (subst dirs_base) (auto simp: match_lits_end)

lemma dirs_lit_run:
  assumes "list_all is_dot s" "CHR ''/'' \<notin> set w"
  shows "re_match (R_dirs # List.map R_lit w @ [R_run]) s \<longleftrightarrow> prefix w (base_of s)"
proof -
  have m: "re_match (List.map R_lit w @ [R_run]) y \<longleftrightarrow> (\<exists>z. y = w @ z \<and> CHR ''/'' \<notin> set z)" for y
    unfolding match_lits match_run by (auto simp: list_all_iff)
  have "re_match (R_dirs # List.map R_lit w @ [R_run]) s \<longleftrightarrow> re_match (List.map R_lit w @ [R_run]) (base_of s)"
    by (rule dirs_base[OF assms(1)]) (use assms(2) m in auto)
  then show ?thesis using base_of_no_slash[of s] unfolding m prefix_def by (metis Un_iff set_append)
qed

lemma dirs_run_lit:
  assumes "list_all is_dot s" "CHR ''/'' \<notin> set w"
  shows "re_match (R_dirs # R_run # List.map R_lit w) s \<longleftrightarrow> suffix w (base_of s)"
proof -
  have m: "re_match (R_run # List.map R_lit w) y \<longleftrightarrow> (\<exists>z. y = z @ w \<and> CHR ''/'' \<notin> set z)" for y
    unfolding match_run match_lits_end by (auto simp: list_all_iff)
  have "re_match (R_dirs # R_run # List.map R_lit w) s \<longleftrightarrow> re_match (R_run # List.map R_lit w) (base_of s)"
    by (rule dirs_base[OF assms(1)]) (use assms(2) m in auto)
  then show ?thesis using base_of_no_slash[of s] unfolding m suffix_def by (metis Un_iff set_append)
qed

lemma lit_any:
  assumes "list_all is_dot s"
  shows "re_match (List.map R_lit w @ [R_any]) s \<longleftrightarrow> prefix w s"
  using assms unfolding match_lits match_any prefix_def by (metis append_Nil2 list_all_append re_match.simps(1))

section \<open>The default globs\<close>

lemma glob_literal: "list_all (\<lambda>c. c \<noteq> CHR ''*'' \<and> c \<noteq> CHR ''?'') g \<Longrightarrow> globToRegExp g = List.map R_lit g"
  by (induction g rule: globToRegExp.induct) auto

lemma default_regexps:
  "List.map globToRegExp DEFAULT_PROTECTED_GLOBS =
     [List.map R_lit ''.github/workflows/'' @ [R_any], R_dirs # List.map R_lit ''action.yml'',
      R_dirs # List.map R_lit ''action.yaml'', R_dirs # List.map R_lit ''Dockerfile'' @ [R_run],
      List.map R_lit ''.gitlab-ci.yml'', List.map R_lit ''Jenkinsfile'',
      List.map R_lit ''.circleci/'' @ [R_any], List.map R_lit ''.husky/'' @ [R_any],
      R_dirs # List.map R_lit ''.env'', R_dirs # List.map R_lit ''.env.'' @ [R_run],
      R_dirs # R_run # List.map R_lit ''.pem'', R_dirs # R_run # List.map R_lit ''.key'',
      R_dirs # List.map R_lit ''id_rsa'', R_dirs # List.map R_lit ''id_dsa'',
      R_dirs # R_run # List.map R_lit ''.pfx'', R_dirs # R_run # List.map R_lit ''.p12'']"
  by code_simp

lemma matches_any_iff: "matches_any s gs \<longleftrightarrow> (\<exists>r \<in> set (List.map globToRegExp gs). re_match r s)"
  by (induction gs) auto

lemma no_slash_in_names:
  "list_all (\<lambda>w. CHR ''/'' \<notin> set w) [''action.yml'', ''action.yaml'', ''Dockerfile'', ''.env'', ''.env.'', ''.pem'',
     ''.key'', ''id_rsa'', ''id_dsa'', ''.pfx'', ''.p12'']"
  by code_simp

text \<open>The default protected globs are exactly the documented table: a path free of line terminators
  matches them precisely when it lies under a workflow, CircleCI or husky directory, is the GitLab or
  Jenkins pipeline file, or its last component, at any depth, is an action definition, a Dockerfile
  variant, an env file or a key file.\<close>

theorem default_globs_iff:
  assumes "no_terminator (normalizePath path)"
  shows "matchesAnyGlob path DEFAULT_PROTECTED_GLOBS \<longleftrightarrow>
    (let n = normalizePath path; b = base_of n in
       prefix ''.github/workflows/'' n \<or> prefix ''.circleci/'' n \<or> prefix ''.husky/'' n \<or>
       n = ''.gitlab-ci.yml'' \<or> n = ''Jenkinsfile'' \<or>
       b \<in> {''action.yml'', ''action.yaml'', ''.env'', ''id_rsa'', ''id_dsa''} \<or>
       prefix ''Dockerfile'' b \<or> prefix ''.env.'' b \<or>
       suffix ''.pem'' b \<or> suffix ''.key'' b \<or> suffix ''.pfx'' b \<or> suffix ''.p12'' b)"
proof -
  let ?n = "normalizePath path"
  have dots: "list_all is_dot ?n" using assms unfolding no_terminator_def is_dot_def[abs_def] .
  have "matchesAnyGlob path DEFAULT_PROTECTED_GLOBS \<longleftrightarrow>
      (\<exists>r \<in> set (List.map globToRegExp DEFAULT_PROTECTED_GLOBS). re_match r ?n)"
    by (simp only: matchesAnyGlob_def matches_any_iff)
  also have "\<dots> \<longleftrightarrow>
       prefix ''.github/workflows/'' ?n \<or> base_of ?n = ''action.yml'' \<or> base_of ?n = ''action.yaml'' \<or>
       prefix ''Dockerfile'' (base_of ?n) \<or> ?n = ''.gitlab-ci.yml'' \<or> ?n = ''Jenkinsfile'' \<or>
       prefix ''.circleci/'' ?n \<or> prefix ''.husky/'' ?n \<or>
       base_of ?n = ''.env'' \<or> prefix ''.env.'' (base_of ?n) \<or> suffix ''.pem'' (base_of ?n) \<or>
       suffix ''.key'' (base_of ?n) \<or> base_of ?n = ''id_rsa'' \<or> base_of ?n = ''id_dsa'' \<or>
       suffix ''.pfx'' (base_of ?n) \<or> suffix ''.p12'' (base_of ?n)"
    unfolding default_regexps list.set bex_simps
    using no_slash_in_names
    by (simp only: list.pred_inject dirs_lit[OF dots] dirs_lit_run[OF dots] dirs_run_lit[OF dots]
      lit_any[OF dots] match_lits_end simp_thms)
  finally show ?thesis unfolding Let_def by blast
qed

lemma default_globs_witness:
  "matchesAnyGlob ''a/b/server.key'' DEFAULT_PROTECTED_GLOBS \<and> \<not> matchesAnyGlob ''src/main.ts'' DEFAULT_PROTECTED_GLOBS"
proof -
  have n: "no_terminator (normalizePath ''a/b/server.key'')" "no_terminator (normalizePath ''src/main.ts'')"
    by code_simp+
  have "let n = normalizePath ''a/b/server.key''; b = base_of n in suffix ''.key'' b" by code_simp
  moreover have "let n = normalizePath ''src/main.ts''; b = base_of n in
       \<not> (prefix ''.github/workflows/'' n \<or> prefix ''.circleci/'' n \<or> prefix ''.husky/'' n \<or>
       n = ''.gitlab-ci.yml'' \<or> n = ''Jenkinsfile'' \<or>
       b \<in> {''action.yml'', ''action.yaml'', ''.env'', ''id_rsa'', ''id_dsa''} \<or>
       prefix ''Dockerfile'' b \<or> prefix ''.env.'' b \<or>
       suffix ''.pem'' b \<or> suffix ''.key'' b \<or> suffix ''.pfx'' b \<or> suffix ''.p12'' b)" by code_simp
  ultimately show ?thesis
    using default_globs_iff[OF n(1)] default_globs_iff[OF n(2)] unfolding Let_def by blast
qed

text \<open>A line feed in a path defeats the directory globs: the dot of the compiled expression does not
  match it, so a key file below such a directory is not protected.\<close>

lemma newline_path_unprotected:
  "\<not> matchesAnyGlob (''a'' @ newline @ ''b/server.key'') DEFAULT_PROTECTED_GLOBS"
  by code_simp

end
