(* ===== verification/SecretScan.thy ===== *)
theory SecretScan
  imports DevPrelude
begin

text \<open>
  The outbound secret scanner and the redactor (\<open>policy/scanForSecrets.ts\<close>).  A regular expression of
  the source is a matcher: the length of its match at the front of a text, 0 for none; \<open>scan_all\<close> is
  \<open>matchAll\<close> and \<open>replace_all\<close> the global replace.  The entropy is the exact real number, where the code
  computes in floating point; \<open>entropy_reaches\<close> decides the two thresholds in integers.
\<close>

section \<open>Matchers\<close>

function scan_all :: "(string \<Rightarrow> nat) \<Rightarrow> string \<Rightarrow> string list" where
  "scan_all m [] = []"
| "scan_all m (c # cs) =
     (if m (c # cs) = 0 then scan_all m cs
      else take (m (c # cs)) (c # cs) # scan_all m (drop (m (c # cs)) (c # cs)))"
  by pat_completeness auto
termination by (relation "measure (\<lambda>(m, s). length s)") auto

function replace_all :: "(string \<Rightarrow> nat) \<Rightarrow> (string \<Rightarrow> string) \<Rightarrow> string \<Rightarrow> string" where
  "replace_all m f [] = []"
| "replace_all m f (c # cs) =
     (if m (c # cs) = 0 then c # replace_all m f cs
      else f (take (m (c # cs)) (c # cs)) @ replace_all m f (drop (m (c # cs)) (c # cs)))"
  by pat_completeness auto
termination by (relation "measure (\<lambda>(m, f, s). length s)") auto

section \<open>The detectors\<close>

record prefix_pattern =
  pp_prefix :: string
  pp_class :: "char \<Rightarrow> bool"
  pp_min :: nat

definition PREFIX_PATTERNS :: "prefix_pattern list" where
  "PREFIX_PATTERNS =
     [\<lparr>pp_prefix = ''ghp_'', pp_class = is_alnum, pp_min = 20\<rparr>,
      \<lparr>pp_prefix = ''github_pat_'', pp_class = (\<lambda>c. is_alnum c \<or> c = CHR ''_''), pp_min = 20\<rparr>,
      \<lparr>pp_prefix = ''sk-ant-'', pp_class = (\<lambda>c. is_alnum c \<or> c = CHR ''_'' \<or> c = CHR ''-''), pp_min = 20\<rparr>,
      \<lparr>pp_prefix = ''djr_'', pp_class = is_alnum, pp_min = 16\<rparr>,
      \<lparr>pp_prefix = ''ghs_'', pp_class = is_alnum, pp_min = 20\<rparr>,
      \<lparr>pp_prefix = ''gho_'', pp_class = is_alnum, pp_min = 20\<rparr>,
      \<lparr>pp_prefix = ''ghu_'', pp_class = is_alnum, pp_min = 20\<rparr>,
      \<lparr>pp_prefix = ''ghr_'', pp_class = is_alnum, pp_min = 20\<rparr>]"

definition KNOWN_PREFIXES :: "string list" where
  "KNOWN_PREFIXES = List.map pp_prefix PREFIX_PATTERNS"

definition prefix_len :: "prefix_pattern \<Rightarrow> string \<Rightarrow> nat" where
  "prefix_len p s =
     (let run = takeWhile (pp_class p) (drop (length (pp_prefix p)) s)
      in if prefix (pp_prefix p) s \<and> pp_min p \<le> length run then length (pp_prefix p) + length run else 0)"

text \<open>A PEM banner: the begin marker, a run of upper-case letters, digits and blanks that gives back
  characters until the closing words fit.\<close>

definition PEM_BEGIN :: string where "PEM_BEGIN = ''-----BEGIN''"

definition pem_class :: "char \<Rightarrow> bool" where
  "pem_class c \<longleftrightarrow> is_upper c \<or> is_digit c \<or> c = CHR '' ''"

fun give_back :: "nat \<Rightarrow> string \<Rightarrow> string \<Rightarrow> nat option" where
  "give_back 0 tl_w s = (if prefix tl_w s then Some 0 else None)"
| "give_back (Suc k) tl_w s = (if prefix tl_w (drop (Suc k) s) then Some (Suc k) else give_back k tl_w s)"

definition pem_len :: "string \<Rightarrow> string \<Rightarrow> nat" where
  "pem_len tl_w s =
     (if prefix PEM_BEGIN s then
        (let r = drop (length PEM_BEGIN) s in
         case give_back (length (takeWhile pem_class r)) tl_w r of
           None \<Rightarrow> 0 | Some k \<Rightarrow> length PEM_BEGIN + k + length tl_w)
      else 0)"

definition PEM_PATTERNS :: "string list" where
  "PEM_PATTERNS = [''KEY-----'', ''PRIVATE'']"

definition token_char :: "char \<Rightarrow> bool" where
  "token_char c \<longleftrightarrow> is_alnum c \<or> c \<in> {CHR ''+'', CHR ''/'', CHR ''_'', CHR ''-''}"

definition MIN_ENTROPY_LEN :: nat where "MIN_ENTROPY_LEN = 20"

definition token_len :: "string \<Rightarrow> nat" where
  "token_len s = (let n = length (takeWhile token_char s) in if n < 20 then 0 else n)"

definition is_hex_text :: "string \<Rightarrow> bool" where
  "is_hex_text s \<longleftrightarrow> s \<noteq> [] \<and>
     list_all (\<lambda>c. is_digit c \<or> (CHR ''a'' \<le> c \<and> c \<le> CHR ''f'') \<or> (CHR ''A'' \<le> c \<and> c \<le> CHR ''F'')) s"

definition char_count :: "char \<Rightarrow> string \<Rightarrow> nat" where
  "char_count c s = length (filter (\<lambda>d. d = c) s)"

definition shannonEntropy :: "string \<Rightarrow> real" where
  "shannonEntropy s =
     (if s = [] then 0
      else sum_list (List.map (\<lambda>c. - (real (char_count c s) / real (length s)) *
             log 2 (real (char_count c s) / real (length s))) (remdups s)))"

text \<open>Whether the entropy is at least half of \<open>h\<close> bits, in integers.\<close>

definition entropy_reaches :: "nat \<Rightarrow> string \<Rightarrow> bool" where
  "entropy_reaches h s \<longleftrightarrow>
     (2 :: int) ^ (h * length s) * prod_list (List.map (\<lambda>c. int (char_count c s) ^ (2 * char_count c s)) (remdups s))
       \<le> int (length s) ^ (2 * length s)"

definition high_entropy :: "string \<Rightarrow> bool" where
  "high_entropy t \<longleftrightarrow> entropy_reaches (if is_hex_text t then 6 else 9) t"

definition entropy_hit :: "string \<Rightarrow> bool" where
  "entropy_hit t \<longleftrightarrow> MIN_ENTROPY_LEN \<le> length t \<and> high_entropy t \<and> \<not> list_ex (\<lambda>p. prefix p t) KNOWN_PREFIXES"

section \<open>Scanning\<close>

record secret_finding =
  sf_kind :: string
  sf_sample :: string

definition ellipsis :: string where "ellipsis = [CHR 0xE2, CHR 0x80, CHR 0xA6]"

definition redact :: "string \<Rightarrow> string" where
  "redact s =
     (let n = length s in
      if n \<le> 6 then take 1 s @ ''***(len '' @ show_nat n @ '')''
      else take 3 s @ ellipsis @ drop (n - 2) s @ '' (len '' @ show_nat n @ '')'')"

definition prefix_findings :: "string \<Rightarrow> secret_finding list" where
  "prefix_findings text =
     concat (List.map (\<lambda>p. List.map (\<lambda>t. \<lparr>sf_kind = ''prefix:'' @ pp_prefix p, sf_sample = redact t\<rparr>)
       (scan_all (prefix_len p) text)) PREFIX_PATTERNS)"

definition pem_findings :: "string \<Rightarrow> secret_finding list" where
  "pem_findings text =
     (if list_ex (\<lambda>w. scan_all (pem_len w) text \<noteq> []) PEM_PATTERNS
      then [\<lparr>sf_kind = ''pem'', sf_sample = PEM_BEGIN @ ellipsis @ ''(key banner)''\<rparr>] else [])"

fun entropy_findings :: "string list \<Rightarrow> string list \<Rightarrow> secret_finding list" where
  "entropy_findings flagged [] = []"
| "entropy_findings flagged (t # ts) =
     (if \<not> entropy_hit t \<or> redact t \<in> set flagged then entropy_findings flagged ts
      else \<lparr>sf_kind = ''high-entropy'', sf_sample = redact t\<rparr> # entropy_findings (redact t # flagged) ts)"

definition scanJobTokens :: "string \<Rightarrow> string list \<Rightarrow> secret_finding list" where
  "scanJobTokens text tokens =
     List.map (\<lambda>t. \<lparr>sf_kind = ''job-token'', sf_sample = redact t\<rparr>)
       (filter (\<lambda>t. t \<noteq> [] \<and> str_includes text t) tokens)"

definition scanForSecrets :: "string \<Rightarrow> string list option \<Rightarrow> secret_finding list" where
  "scanForSecrets text jobTokens =
     (let own = (case jobTokens of None \<Rightarrow> [] | Some ts \<Rightarrow> scanJobTokens text ts)
      in if text = [] then own
         else (let early = prefix_findings text @ pem_findings text
               in early @ entropy_findings (List.map sf_sample early) (scan_all token_len text) @ own))"

section \<open>Redaction\<close>

definition REDACTION_PLACEHOLDER :: string where "REDACTION_PLACEHOLDER = ''[REDACTED]''"

definition literal_len :: "string \<Rightarrow> string \<Rightarrow> nat" where
  "literal_len w s = (if prefix w s then length w else 0)"

definition redact_prefixes :: "string \<Rightarrow> string" where
  "redact_prefixes text =
     fold (\<lambda>p s. replace_all (prefix_len p) (\<lambda>_. REDACTION_PLACEHOLDER) s) PREFIX_PATTERNS text"

definition redact_pem :: "string \<Rightarrow> string" where
  "redact_pem text = fold (\<lambda>w s. replace_all (pem_len w) (\<lambda>_. REDACTION_PLACEHOLDER) s) PEM_PATTERNS text"

definition redact_entropy :: "string \<Rightarrow> string" where
  "redact_entropy text =
     replace_all token_len (\<lambda>t. if entropy_hit t then REDACTION_PLACEHOLDER else t) text"

definition redact_tokens :: "string list \<Rightarrow> string \<Rightarrow> string" where
  "redact_tokens tokens text =
     fold (\<lambda>t s. replace_all (literal_len t) (\<lambda>_. REDACTION_PLACEHOLDER) s) (filter (\<lambda>t. t \<noteq> []) tokens) text"

definition redactSecrets :: "string \<Rightarrow> string list option \<Rightarrow> string" where
  "redactSecrets text jobTokens =
     (let s = redact_entropy (redact_pem (redact_prefixes text))
      in case jobTokens of None \<Rightarrow> s | Some ts \<Rightarrow> redact_tokens ts s)"

section \<open>What the matchers find\<close>

lemma includes_sublist: "str_includes s u \<longleftrightarrow> sublist u s"
  by (auto simp: includes_iff sublist_def)

lemma scan_nonempty: "scan_all m s \<noteq> [] \<longleftrightarrow> (\<exists>a b. s = a @ b \<and> b \<noteq> [] \<and> 0 < m b)"
proof (induction m s rule: scan_all.induct)
  case (2 m c cs)
  show ?case
  proof (cases "m (c # cs) = 0")
    case True
    have "(\<exists>a b. c # cs = a @ b \<and> b \<noteq> [] \<and> 0 < m b) \<longleftrightarrow> (\<exists>a b. cs = a @ b \<and> b \<noteq> [] \<and> 0 < m b)"
      using True by (metis append_Cons append_Nil less_irrefl neq_Nil_conv list.inject)
    then show ?thesis using 2(1)[OF True] True by simp
  next
    case False
    then have "c # cs = [] @ (c # cs) \<and> c # cs \<noteq> [] \<and> 0 < m (c # cs)" by simp
    then have "\<exists>a b. c # cs = a @ b \<and> b \<noteq> [] \<and> 0 < m b" by blast
    then show ?thesis using False by simp
  qed
qed simp

definition is_token :: "prefix_pattern \<Rightarrow> string \<Rightarrow> bool" where
  "is_token p u \<longleftrightarrow> (\<exists>w. u = pp_prefix p @ w \<and> list_all (pp_class p) w \<and> pp_min p \<le> length w)"

lemma takeWhile_longest: "list_all P w \<Longrightarrow> length w \<le> length (takeWhile P (w @ r))"
  by (induction w) auto

lemma prefix_len_pos:
  assumes "pp_prefix p \<noteq> []"
  shows "0 < prefix_len p s \<longleftrightarrow> (\<exists>u. is_token p u \<and> prefix u s)"
proof
  assume "0 < prefix_len p s"
  then have h: "prefix (pp_prefix p) s"
    "pp_min p \<le> length (takeWhile (pp_class p) (drop (length (pp_prefix p)) s))"
    by (auto simp: prefix_len_def Let_def split: if_splits)
  let ?w = "takeWhile (pp_class p) (drop (length (pp_prefix p)) s)"
  obtain r where "s = pp_prefix p @ r" using h(1) by (auto simp: prefix_def)
  then have "prefix (pp_prefix p @ ?w) s" by (simp add: takeWhile_is_prefix)
  moreover have "list_all (pp_class p) ?w" by (auto simp: list_all_iff dest: set_takeWhileD)
  ultimately show "\<exists>u. is_token p u \<and> prefix u s" using h(2) unfolding is_token_def by blast
next
  assume "\<exists>u. is_token p u \<and> prefix u s"
  then obtain w r where w: "s = pp_prefix p @ w @ r" "list_all (pp_class p) w" "pp_min p \<le> length w"
    by (auto simp: is_token_def prefix_def)
  then show "0 < prefix_len p s"
    using takeWhile_longest[OF w(2), of r] assms by (simp add: prefix_len_def Let_def)
qed

lemma pattern_facts:
  assumes "p \<in> set PREFIX_PATTERNS"
  shows "pp_prefix p \<noteq> []" "0 < pp_min p"
  using assms by (auto simp: PREFIX_PATTERNS_def)

lemma scan_finds:
  assumes "p \<in> set PREFIX_PATTERNS"
  shows "scan_all (prefix_len p) text \<noteq> [] \<longleftrightarrow> (\<exists>u. is_token p u \<and> sublist u text)"
proof -
  have "is_token p u \<Longrightarrow> u \<noteq> []" for u using pattern_facts[OF assms] by (auto simp: is_token_def)
  then show ?thesis
    unfolding scan_nonempty prefix_len_pos[OF pattern_facts(1)[OF assms]] sublist_def prefix_def
    by (metis append_Nil2 append_is_Nil_conv)
qed

lemma pattern_kinds: "distinct (List.map pp_prefix PREFIX_PATTERNS)"
  by (simp add: PREFIX_PATTERNS_def)

lemma entropy_kinds: "f \<in> set (entropy_findings fl ts) \<Longrightarrow> sf_kind f = ''high-entropy''"
  by (induction fl ts rule: entropy_findings.induct) (auto split: if_splits)

lemma prefix_findings_iff:
  "f \<in> set (prefix_findings text) \<longleftrightarrow> (\<exists>q \<in> set PREFIX_PATTERNS. \<exists>t \<in> set (scan_all (prefix_len q) text).
     f = \<lparr>sf_kind = ''prefix:'' @ pp_prefix q, sf_sample = redact t\<rparr>)"
  by (auto simp: prefix_findings_def)

lemma prefix_findings_kind:
  assumes "p \<in> set PREFIX_PATTERNS"
  shows "(\<exists>f \<in> set (prefix_findings text). sf_kind f = ''prefix:'' @ pp_prefix p) \<longleftrightarrow>
    scan_all (prefix_len p) text \<noteq> []"
proof -
  have inj: "q = p" if "q \<in> set PREFIX_PATTERNS" "pp_prefix q = pp_prefix p" for q
    using that assms pattern_kinds by (metis distinct_map inj_onD)
  show ?thesis
  proof
    assume "\<exists>f \<in> set (prefix_findings text). sf_kind f = ''prefix:'' @ pp_prefix p"
    then obtain f where f: "f \<in> set (prefix_findings text)" "sf_kind f = ''prefix:'' @ pp_prefix p" by blast
    from f(1)[unfolded prefix_findings_iff] obtain q t where q: "q \<in> set PREFIX_PATTERNS"
      "t \<in> set (scan_all (prefix_len q) text)" "f = \<lparr>sf_kind = ''prefix:'' @ pp_prefix q, sf_sample = redact t\<rparr>"
      by blast
    have "pp_prefix q = pp_prefix p" using f(2) q(3) by simp
    then have "q = p" using inj q(1) by simp
    then show "scan_all (prefix_len p) text \<noteq> []" using q(2) by auto
  next
    assume "scan_all (prefix_len p) text \<noteq> []"
    then obtain t where t: "t \<in> set (scan_all (prefix_len p) text)" by (meson last_in_set)
    have "\<lparr>sf_kind = ''prefix:'' @ pp_prefix p, sf_sample = redact t\<rparr> \<in> set (prefix_findings text)"
      unfolding prefix_findings_iff using assms t by blast
    then show "\<exists>f \<in> set (prefix_findings text). sf_kind f = ''prefix:'' @ pp_prefix p"
      by (rule bexI[rotated]) simp
  qed
qed

text \<open>C7: the prefix detectors are exact: a scan reports a credential family precisely when the text
  contains, anywhere, that family's prefix followed by at least its minimum run of token characters.\<close>

theorem scan_reports_prefix_iff:
  assumes "p \<in> set PREFIX_PATTERNS"
  shows "(\<exists>f \<in> set (scanForSecrets text jobTokens). sf_kind f = ''prefix:'' @ pp_prefix p) \<longleftrightarrow>
    (\<exists>a w b. text = a @ pp_prefix p @ w @ b \<and> list_all (pp_class p) w \<and> pp_min p \<le> length w)"
proof -
  have "(\<exists>f \<in> set (scanForSecrets text jobTokens). sf_kind f = ''prefix:'' @ pp_prefix p) \<longleftrightarrow>
      (\<exists>f \<in> set (prefix_findings text). sf_kind f = ''prefix:'' @ pp_prefix p)"
  proof (cases "text = []")
    case True
    then show ?thesis
      by (auto simp: scanForSecrets_def scanJobTokens_def prefix_findings_iff split: option.splits)
  next
    case False
    then show ?thesis
      by (auto simp: scanForSecrets_def Let_def scanJobTokens_def pem_findings_def dest!: entropy_kinds
          split: option.splits if_splits)
  qed
  also have "\<dots> \<longleftrightarrow> (\<exists>u. is_token p u \<and> sublist u text)"
    unfolding prefix_findings_kind[OF assms] scan_finds[OF assms] ..
  also have "\<dots> \<longleftrightarrow> (\<exists>a w b. text = a @ pp_prefix p @ w @ b \<and> list_all (pp_class p) w \<and> pp_min p \<le> length w)"
    unfolding is_token_def sublist_def by (metis append_assoc)
  finally show ?thesis .
qed

lemma scan_reports_prefix_witness:
  "\<exists>f \<in> set (scanForSecrets ''x = ghp_0123456789abcdefghij;'' None). sf_kind f = ''prefix:ghp_''"
proof -
  let ?p = "\<lparr>pp_prefix = ''ghp_'', pp_class = is_alnum, pp_min = 20\<rparr>"
  have p: "?p \<in> set PREFIX_PATTERNS" by (simp add: PREFIX_PATTERNS_def)
  have w: "''x = ghp_0123456789abcdefghij;'' = ''x = '' @ ''ghp_'' @ ''0123456789abcdefghij'' @ '';'' \<and>
      list_all is_alnum ''0123456789abcdefghij'' \<and> 20 \<le> length ''0123456789abcdefghij''"
    by code_simp
  have "\<exists>a w b. ''x = ghp_0123456789abcdefghij;'' = a @ pp_prefix ?p @ w @ b \<and> list_all (pp_class ?p) w \<and>
      pp_min ?p \<le> length w"
    by (rule exI[of _ "''x = ''"], rule exI[of _ "''0123456789abcdefghij''"], rule exI[of _ "'';''"]) (use w in simp)
  then have "\<exists>f \<in> set (scanForSecrets ''x = ghp_0123456789abcdefghij;'' None). sf_kind f = ''prefix:'' @ pp_prefix ?p"
    using scan_reports_prefix_iff[OF p] by blast
  then show ?thesis by simp
qed

section \<open>Redaction\<close>

definition bracket_free :: "string \<Rightarrow> bool" where
  "bracket_free u \<longleftrightarrow> u \<noteq> [] \<and> CHR ''['' \<notin> set u \<and> CHR '']'' \<notin> set u \<and> \<not> sublist u ''REDACTED''"

lemma sublist_sep: "d \<notin> set u \<Longrightarrow> u \<noteq> [] \<Longrightarrow> sublist u (x @ d # y) \<Longrightarrow> sublist u x \<or> sublist u y"
  by (induction x) (auto simp: sublist_Cons_right prefix_Cons sublist_append prefix_append)

lemma sublist_placeholder:
  "\<lbrakk>bracket_free u; sublist u (REDACTION_PLACEHOLDER @ y)\<rbrakk> \<Longrightarrow> sublist u y"
  using sublist_sep[of "CHR ''[''" u "[]" "''REDACTED'' @ CHR '']'' # y"]
    sublist_sep[of "CHR '']''" u "''REDACTED''" y]
  by (auto simp: bracket_free_def REDACTION_PLACEHOLDER_def)

definition hides :: "(string \<Rightarrow> string) \<Rightarrow> bool" where
  "hides f \<longleftrightarrow> (\<forall>t. f t = REDACTION_PLACEHOLDER \<or> f t = t)"

lemma hides_const [simp]: "hides (\<lambda>_. REDACTION_PLACEHOLDER)"
  by (simp add: hides_def)

lemma replace_prefix:
  "\<lbrakk>hides f; CHR ''['' \<notin> set u; prefix u (replace_all m f s)\<rbrakk> \<Longrightarrow> prefix u s"
proof (induction m f s arbitrary: u rule: replace_all.induct)
  case (2 m f c cs)
  show ?case
  proof (cases "m (c # cs) = 0")
    case True
    then show ?thesis using 2 by (cases u) auto
  next
    case False
    let ?t = "take (m (c # cs)) (c # cs)" and ?r = "drop (m (c # cs)) (c # cs)"
    have pr: "prefix u (f ?t @ replace_all m f ?r)" using 2(5) False by simp
    show ?thesis
    proof (cases "f ?t = REDACTION_PLACEHOLDER")
      case True
      then show ?thesis using pr 2(4) by (cases u) (auto simp: REDACTION_PLACEHOLDER_def)
    next
      case False
      then have "prefix u (?t @ replace_all m f ?r)" using pr 2(3) by (auto simp: hides_def)
      then consider "prefix u ?t" | u' where "u = ?t @ u'" "prefix u' (replace_all m f ?r)"
        unfolding prefix_append by blast
      then show ?thesis
      proof cases
        case 1
        then show ?thesis by (metis append_take_drop_id prefix_append prefix_prefix)
      next
        case (2 u')
        then have "prefix u' ?r" using "2.IH"(2)[OF \<open>m (c # cs) \<noteq> 0\<close>] "2.prems" by simp
        then show ?thesis using \<open>u = ?t @ u'\<close> by (metis append_take_drop_id same_prefix_prefix)
      qed
    qed
  qed
qed simp

lemma replace_sublist:
  "\<lbrakk>hides f; bracket_free u; sublist u (replace_all m f s)\<rbrakk> \<Longrightarrow> sublist u s"
proof (induction m f s rule: replace_all.induct)
  case (2 m f c cs)
  note bf = "2.prems"(2)[unfolded bracket_free_def]
  show ?case
  proof (cases "m (c # cs) = 0")
    case True
    have "prefix u (c # cs)" if "prefix u (c # replace_all m f cs)"
      using that replace_prefix[of f u m "c # cs"] "2.prems" bf True by simp
    then show ?thesis using 2 True bf by (auto simp: sublist_Cons_right)
  next
    case False
    let ?t = "take (m (c # cs)) (c # cs)" and ?r = "drop (m (c # cs)) (c # cs)"
    have split: "c # cs = ?t @ ?r" by simp
    have sub: "sublist u (f ?t @ replace_all m f ?r)" using "2.prems"(3) False by simp
    have rest: "sublist u ?r \<Longrightarrow> sublist u (c # cs)" by (metis split sublist_appendI sublist_order.order_trans suffix_imp_sublist suffix_drop)
    show ?thesis
    proof (cases "f ?t = REDACTION_PLACEHOLDER")
      case True
      then have "sublist u (replace_all m f ?r)" using sublist_placeholder "2.prems"(2) sub by metis
      then show ?thesis using "2.IH"(2)[OF False "2.prems"(1,2)] rest by blast
    next
      case keep: False
      then have "sublist u (?t @ replace_all m f ?r)" using sub "2.prems"(1) by (auto simp: hides_def)
      then consider "sublist u ?t" | "sublist u (replace_all m f ?r)"
        | x y where "u = x @ y" "suffix x ?t" "prefix y (replace_all m f ?r)"
        unfolding sublist_append by blast
      then show ?thesis
      proof cases
        case 1
        then show ?thesis using prefix_imp_sublist sublist_order.order_trans take_is_prefix by blast
      next
        case 2
        then show ?thesis using "2.IH"(2)[OF False "2.prems"(1,2)] rest by blast
      next
        case (3 x y)
        then have "prefix y ?r" using replace_prefix[of f y m ?r] "2.prems"(1) bf by simp
        then show ?thesis using 3(1,2) split by (metis sublist_append)
      qed
    qed
  qed
qed (simp add: bracket_free_def)

lemma replace_removes:
  assumes "bracket_free u" "\<And>z. prefix u z \<Longrightarrow> 0 < m z"
  shows "\<not> sublist u (replace_all m (\<lambda>_. REDACTION_PLACEHOLDER) s)"
proof (induction s rule: measure_induct_rule[of length])
  case (less s)
  let ?R = "\<lambda>z. replace_all m (\<lambda>_. REDACTION_PLACEHOLDER) z"
  show ?case
  proof (cases s)
    case Nil
    then show ?thesis using assms(1) by (simp add: bracket_free_def)
  next
    case (Cons c cs)
    show ?thesis
    proof (cases "m (c # cs) = 0")
      case True
      have "prefix u (c # ?R cs) \<Longrightarrow> prefix u (c # cs)"
        using replace_prefix[of "\<lambda>_. REDACTION_PLACEHOLDER" u m "c # cs"] True assms(1)
        by (simp add: bracket_free_def)
      then have "\<not> prefix u (c # ?R cs)" using assms(2) True by fastforce
      then show ?thesis using less[of cs] Cons True by (simp add: sublist_Cons_right)
    next
      case False
      then have "\<not> sublist u (?R (drop (m (c # cs)) (c # cs)))" using less Cons by simp
      then show ?thesis using sublist_placeholder[OF assms(1)] Cons False by auto
    qed
  qed
qed

text \<open>What no stage brings back, once it is gone.\<close>

lemma fold_replace_sublist:
  "\<lbrakk>bracket_free u; sublist u (fold (\<lambda>x s. replace_all (k x) (\<lambda>_. REDACTION_PLACEHOLDER) s) xs s)\<rbrakk> \<Longrightarrow> sublist u s"
  by (induction xs arbitrary: s) (auto dest: replace_sublist[OF hides_const])

lemma fold_replace_removes:
  assumes "bracket_free u" "x \<in> set xs" "\<And>z. prefix u z \<Longrightarrow> 0 < k x z"
  shows "\<not> sublist u (fold (\<lambda>x s. replace_all (k x) (\<lambda>_. REDACTION_PLACEHOLDER) s) xs s)"
  using assms(2)
proof (induction xs arbitrary: s)
  case (Cons y ys)
  show ?case
  proof (cases "x \<in> set ys")
    case False
    then have "y = x" using Cons.prems by simp
    then show ?thesis
      using fold_replace_sublist[OF assms(1), of k ys "replace_all (k x) (\<lambda>_. REDACTION_PLACEHOLDER) s"]
        replace_removes[OF assms(1), of "k x" s] assms(3) by auto
  qed (use Cons.IH in simp)
qed simp

lemma hides_entropy: "hides (\<lambda>t. if entropy_hit t then REDACTION_PLACEHOLDER else t)"
  by (simp add: hides_def)

lemma later_stages:
  assumes "bracket_free u"
  shows "sublist u (redact_pem t) \<Longrightarrow> sublist u t"
    and "sublist u (redact_entropy t) \<Longrightarrow> sublist u t"
    and "sublist u (redact_tokens ts t) \<Longrightarrow> sublist u t"
    and "sublist u (redactSecrets t jt) \<Longrightarrow> sublist u (redact_entropy (redact_pem (redact_prefixes t)))"
proof -
  show pem: "sublist u (redact_pem t) \<Longrightarrow> sublist u t" for t
    unfolding redact_pem_def by (rule fold_replace_sublist[OF assms])
  show ent: "sublist u (redact_entropy t) \<Longrightarrow> sublist u t" for t
    unfolding redact_entropy_def by (rule replace_sublist[OF hides_entropy assms])
  show tok: "sublist u (redact_tokens ts t) \<Longrightarrow> sublist u t" for ts t
    unfolding redact_tokens_def by (rule fold_replace_sublist[OF assms])
  show "sublist u (redactSecrets t jt) \<Longrightarrow> sublist u (redact_entropy (redact_pem (redact_prefixes t)))"
    using tok by (auto simp: redactSecrets_def Let_def split: option.splits)
qed

lemma class_bracket_free:
  assumes "p \<in> set PREFIX_PATTERNS" "is_token p u"
  shows "bracket_free u"
proof -
  obtain w where w: "u = pp_prefix p @ w" "list_all (pp_class p) w" "pp_min p \<le> length w"
    using assms(2) by (auto simp: is_token_def)
  have cls: "\<not> pp_class p CHR ''['' \<and> \<not> pp_class p CHR '']'' \<and> CHR ''['' \<notin> set (pp_prefix p) \<and>
      CHR '']'' \<notin> set (pp_prefix p) \<and> 16 \<le> pp_min p \<and> pp_prefix p \<noteq> []"
    using assms(1) unfolding PREFIX_PATTERNS_def
    by (auto simp: is_alnum_def is_digit_def is_upper_def is_lower_def less_eq_char_def)
  have "\<not> sublist u ''REDACTED''" using sublist_length_le[of u "''REDACTED''"] w(1,3) cls by auto
  then show ?thesis using w cls by (auto simp: bracket_free_def list_all_iff)
qed

lemma give_back_ge: "\<lbrakk>i \<le> n; prefix k (drop i s)\<rbrakk> \<Longrightarrow> give_back n k s \<noteq> None"
  by (induction n) (auto simp: le_Suc_eq split: if_splits)

lemma pem_len_pos: "\<lbrakk>list_all pem_class v; prefix (PEM_BEGIN @ v @ k) z\<rbrakk> \<Longrightarrow> 0 < pem_len k z"
proof -
  assume v: "list_all pem_class v" and "prefix (PEM_BEGIN @ v @ k) z"
  then obtain r where z: "z = PEM_BEGIN @ v @ k @ r" by (auto simp: prefix_def)
  have "give_back (length (takeWhile pem_class (v @ k @ r))) k (v @ k @ r) \<noteq> None"
    by (rule give_back_ge[OF takeWhile_longest[OF v]]) simp
  then show ?thesis by (auto simp: z pem_len_def Let_def PEM_BEGIN_def split: option.splits)
qed

lemma pem_bracket_free:
  assumes "k \<in> set PEM_PATTERNS" "list_all pem_class v"
  shows "bracket_free (PEM_BEGIN @ v @ k)"
proof -
  have "\<not> pem_class CHR ''['' \<and> \<not> pem_class CHR '']''" by code_simp
  then have "CHR ''['' \<notin> set v" "CHR '']'' \<notin> set v" using assms(2) by (auto simp: list_all_iff)
  moreover have "\<not> sublist (PEM_BEGIN @ v @ k) ''REDACTED''"
    using sublist_length_le[of "PEM_BEGIN @ v @ k" "''REDACTED''"] by (auto simp: PEM_BEGIN_def)
  ultimately show ?thesis using assms(1) by (auto simp: bracket_free_def PEM_PATTERNS_def PEM_BEGIN_def)
qed

lemma token_removed:
  assumes "p \<in> set PREFIX_PATTERNS" "is_token p u"
  shows "\<not> sublist u (redactSecrets text jt)"
proof -
  have bf: "bracket_free u" by (rule class_bracket_free[OF assms])
  have "prefix u z \<Longrightarrow> 0 < prefix_len p z" for z
    using prefix_len_pos[OF pattern_facts(1)[OF assms(1)], of z] assms(2) by blast
  then have "\<not> sublist u (redact_prefixes text)"
    unfolding redact_prefixes_def using fold_replace_removes[OF bf assms(1), of prefix_len] by blast
  then show ?thesis using later_stages[OF bf] by blast
qed

lemma banner_removed:
  assumes "k \<in> set PEM_PATTERNS" "list_all pem_class v"
  shows "\<not> sublist (PEM_BEGIN @ v @ k) (redactSecrets text jt)"
proof -
  have bf: "bracket_free (PEM_BEGIN @ v @ k)" by (rule pem_bracket_free[OF assms])
  have "\<not> sublist (PEM_BEGIN @ v @ k) (redact_pem t)" for t
    unfolding redact_pem_def using fold_replace_removes[OF bf assms(1), of pem_len] pem_len_pos[OF assms(2)] by blast
  then show ?thesis using later_stages[OF bf] by blast
qed

lemma own_token_removed:
  assumes "t \<in> set ts" "bracket_free t"
  shows "\<not> sublist t (redactSecrets text (Some ts))"
proof -
  have "t \<in> set (filter (\<lambda>t. t \<noteq> []) ts)" using assms by (auto simp: bracket_free_def)
  moreover have "prefix t z \<Longrightarrow> 0 < literal_len t z" for z
    using assms(2) by (auto simp: literal_len_def bracket_free_def)
  ultimately have "\<not> sublist t (redact_tokens ts s)" for s
    unfolding redact_tokens_def using fold_replace_removes[OF assms(2), of t _ literal_len] by blast
  then show ?thesis by (simp add: redactSecrets_def Let_def)
qed

text \<open>C8: redaction removes the credentials: whatever the text and the job's tokens, the redacted text
  contains no token of a known prefix family, no PEM key banner, and none of the job's own tokens (for
  tokens without brackets that are not themselves part of the placeholder).\<close>

theorem redaction_removes:
  "(\<forall>p \<in> set PREFIX_PATTERNS. \<forall>w. list_all (pp_class p) w \<and> pp_min p \<le> length w \<longrightarrow>
      \<not> str_includes (redactSecrets text jobTokens) (pp_prefix p @ w)) \<and>
   (\<forall>k \<in> set PEM_PATTERNS. \<forall>v. list_all pem_class v \<longrightarrow>
      \<not> str_includes (redactSecrets text jobTokens) (PEM_BEGIN @ v @ k)) \<and>
   (\<forall>t \<in> set ts. t \<noteq> [] \<and> CHR ''['' \<notin> set t \<and> CHR '']'' \<notin> set t \<and> \<not> str_includes ''REDACTED'' t \<longrightarrow>
      \<not> str_includes (redactSecrets text (Some ts)) t)"
  unfolding includes_sublist
proof (intro conjI ballI allI impI)
  fix p w assume "p \<in> set PREFIX_PATTERNS" "list_all (pp_class p) w \<and> pp_min p \<le> length w"
  then show "\<not> sublist (pp_prefix p @ w) (redactSecrets text jobTokens)"
    using token_removed unfolding is_token_def by blast
next
  fix k v assume "k \<in> set PEM_PATTERNS" "list_all pem_class v"
  then show "\<not> sublist (PEM_BEGIN @ v @ k) (redactSecrets text jobTokens)" by (rule banner_removed)
next
  fix t assume "t \<in> set ts"
    "t \<noteq> [] \<and> CHR ''['' \<notin> set t \<and> CHR '']'' \<notin> set t \<and> \<not> sublist t ''REDACTED''"
  then show "\<not> sublist t (redactSecrets text (Some ts))"
    using own_token_removed unfolding bracket_free_def by blast
qed

lemma redaction_removes_witness:
  "\<not> str_includes (redactSecrets ''a ghp_0123456789abcdefghij b'' None) ''ghp_0123456789abcdefghij'' \<and>
   \<not> str_includes (redactSecrets ''key s3cr3t'' (Some [''s3cr3t''])) ''s3cr3t''"
proof -
  let ?p = "\<lparr>pp_prefix = ''ghp_'', pp_class = is_alnum, pp_min = 20\<rparr>"
  have p: "?p \<in> set PREFIX_PATTERNS" by (simp add: PREFIX_PATTERNS_def)
  have w: "list_all (pp_class ?p) ''0123456789abcdefghij'' \<and> pp_min ?p \<le> length ''0123456789abcdefghij''"
    by code_simp
  have t: "''s3cr3t'' \<noteq> [] \<and> CHR ''['' \<notin> set ''s3cr3t'' \<and> CHR '']'' \<notin> set ''s3cr3t'' \<and>
      \<not> str_includes ''REDACTED'' ''s3cr3t''" by code_simp
  have "\<not> str_includes (redactSecrets ''a ghp_0123456789abcdefghij b'' None) (pp_prefix ?p @ ''0123456789abcdefghij'')"
    using redaction_removes[of "''a ghp_0123456789abcdefghij b''" None "[]"] p w by blast
  moreover have "\<not> str_includes (redactSecrets ''key s3cr3t'' (Some [''s3cr3t''])) ''s3cr3t''"
    using redaction_removes[of "''key s3cr3t''" None "[''s3cr3t'']"] t by auto
  ultimately show ?thesis by simp
qed

section \<open>The entropy threshold\<close>

lemma char_count_list: "char_count c s = count_list s c"
  by (induction s) (auto simp: char_count_def)

lemma char_count_sum: "(\<Sum>c \<in> set s. char_count c s) = length s"
  by (simp add: char_count_list sum_count_set)

lemma char_count_pos: "c \<in> set s \<Longrightarrow> 0 < char_count c s"
  by (auto simp: char_count_def filter_empty_conv)

lemma shannon_sum:
  assumes "s \<noteq> []"
  shows "real (length s) * shannonEntropy s =
    real (length s) * log 2 (real (length s)) - (\<Sum>c \<in> set s. real (char_count c s) * log 2 (real (char_count c s)))"
proof -
  let ?n = "real (length s)" and ?k = "\<lambda>c. real (char_count c s)"
  have n: "0 < ?n" using assms by simp
  have "?n * shannonEntropy s = ?n * (\<Sum>c \<in> set s. - (?k c / ?n) * log 2 (?k c / ?n))"
    using assms by (simp add: shannonEntropy_def sum_list_distinct_conv_sum_set)
  also have "\<dots> = (\<Sum>c \<in> set s. ?k c * log 2 ?n - ?k c * log 2 (?k c))"
    unfolding sum_distrib_left
  proof (rule sum.cong)
    fix c assume "c \<in> set s"
    then have "0 < ?k c" using char_count_pos by simp
    then show "?n * (- (?k c / ?n) * log 2 (?k c / ?n)) = ?k c * log 2 ?n - ?k c * log 2 (?k c)"
      using n by (simp add: log_divide field_simps)
  qed simp
  also have "\<dots> = ?n * log 2 ?n - (\<Sum>c \<in> set s. ?k c * log 2 (?k c))"
    by (simp add: sum_subtractf sum_distrib_right[symmetric] char_count_sum[symmetric] del: of_nat_sum)
       (simp add: of_nat_sum)
  finally show ?thesis .
qed

lemma log_weighted:
  assumes "finite A" "\<And>c. c \<in> A \<Longrightarrow> 0 < f c"
  shows "log 2 (\<Prod>c \<in> A. real (f c) ^ (2 * f c)) = 2 * (\<Sum>c \<in> A. real (f c) * log 2 (real (f c)))"
  using assms
proof (induction A rule: finite_induct)
  case (insert a A)
  have "0 < (\<Prod>c \<in> A. real (f c) ^ (2 * f c))" using insert.prems by (intro prod_pos) auto
  then have "log 2 (real (f a) ^ (2 * f a) * (\<Prod>c \<in> A. real (f c) ^ (2 * f c))) =
      log 2 (real (f a) ^ (2 * f a)) + log 2 (\<Prod>c \<in> A. real (f c) ^ (2 * f c))"
    using insert.prems[of a] by (simp add: log_mult)
  then show ?case using insert by (simp add: log_nat_power distrib_left)
qed simp

text \<open>The integer test of the scanner decides the real entropy threshold exactly: a non-empty token
  passes it precisely when its Shannon entropy is at least half of the given number of bits.\<close>

theorem entropy_test_exact:
  assumes "s \<noteq> []"
  shows "entropy_reaches h s \<longleftrightarrow> real h / 2 \<le> shannonEntropy s"
proof -
  let ?n = "length s" and ?k = "\<lambda>c. char_count c s"
  let ?P = "\<Prod>c \<in> set s. real (?k c) ^ (2 * ?k c)"
  have n: "0 < real ?n" using assms by simp
  have P: "0 < ?P" using char_count_pos by (intro prod_pos) auto
  have "entropy_reaches h s \<longleftrightarrow> (2 :: real) ^ (h * ?n) * ?P \<le> real ?n ^ (2 * ?n)"
  proof -
    have "prod_list (List.map (\<lambda>c. int (?k c) ^ (2 * ?k c)) (remdups s)) = (\<Prod>c \<in> set s. int (?k c) ^ (2 * ?k c))"
      by (metis distinct_remdups prod.distinct_set_conv_list set_remdups)
    then have "entropy_reaches h s \<longleftrightarrow>
        (of_int (2 ^ (h * ?n) * (\<Prod>c \<in> set s. int (?k c) ^ (2 * ?k c))) :: real) \<le> of_int (int ?n ^ (2 * ?n))"
      unfolding entropy_reaches_def of_int_le_iff by simp
    then show ?thesis by simp
  qed
  also have "\<dots> \<longleftrightarrow> log 2 (2 ^ (h * ?n) * ?P) \<le> log 2 (real ?n ^ (2 * ?n))"
    using P n by (subst log_le_cancel_iff) simp_all
  also have "\<dots> \<longleftrightarrow> real (h * ?n) + 2 * (\<Sum>c \<in> set s. real (?k c) * log 2 (real (?k c))) \<le> 2 * (real ?n * log 2 (real ?n))"
    using P n log_weighted[of "set s" ?k] char_count_pos by (simp add: log_mult log_nat_power mult.assoc)
  also have "\<dots> \<longleftrightarrow> real h * real ?n \<le> 2 * (real ?n * shannonEntropy s)"
    using shannon_sum[OF assms] by auto
  also have "\<dots> \<longleftrightarrow> real ?n * (real h / 2) \<le> real ?n * shannonEntropy s" by (simp add: field_simps)
  also have "\<dots> \<longleftrightarrow> real h / 2 \<le> shannonEntropy s" using n by (rule mult_le_cancel_left_pos)
  finally show ?thesis .
qed

lemma entropy_test_witness: "entropy_reaches 2 ''abab'' \<and> 1 \<le> shannonEntropy ''abab''"
proof -
  have "entropy_reaches 2 ''abab''" by code_simp
  then show ?thesis using entropy_test_exact[of "''abab''" 2] by simp
qed

text \<open>A minted runner token whose random part has a dash or underscore in its first sixteen characters is
  found by no detector but the own-token list: the prefix detector wants sixteen letters or digits, and the
  entropy detector skips every token with a known prefix.\<close>

lemma runner_token_missed:
  "scanForSecrets ''t djr_Zk3v-9QxT_b7LwR2mNpYc5HsJgUe8aFdVi0oKt1rBqE'' (Some []) = []"
  by code_simp

end
