(* ===== verification/DiffSound.thy ===== *)
theory DiffSound
  imports UnifiedDiff
begin

text \<open>
  What the diff parser and the applier guarantee.  \<open>edits\<close> is the specification of a patch: the base is
  cut into untouched gaps and the old sides of the hunks, and each old side is replaced by its new
  side.  \<open>applyHunks\<close> succeeds exactly on the patches that fit the base, with exactly that result, and
  the parser's counts are the line counts of that edit.
\<close>

section \<open>Sides and counts of a hunk\<close>

definition old_side :: "string list \<Rightarrow> string list" where
  "old_side ls = List.map (drop 1) (filter (\<lambda>l. tag_of l \<in> {Tag_del, Tag_ctx}) ls)"

definition new_side :: "string list \<Rightarrow> string list" where
  "new_side ls = List.map (drop 1) (filter (\<lambda>l. tag_of l \<in> {Tag_add, Tag_ctx}) ls)"

lemma side_simps [simp]:
  "old_side [] = []" "new_side [] = []"
  "old_side (l # ls) = (if tag_of l \<in> {Tag_del, Tag_ctx} then drop 1 l # old_side ls else old_side ls)"
  "new_side (l # ls) = (if tag_of l \<in> {Tag_add, Tag_ctx} then drop 1 l # new_side ls else new_side ls)"
  by (simp_all add: old_side_def new_side_def)

lemma count_tag_simps [simp]:
  "count_tag t [] = 0" "count_tag t (l # ls) = (if tag_of l = t then Suc (count_tag t ls) else count_tag t ls)"
  "count_tag t (ls @ ks) = count_tag t ls + count_tag t ks"
  by (simp_all add: count_tag_def)

lemma length_sides:
  "length (old_side ls) = count_tag Tag_del ls + count_tag Tag_ctx ls"
  "length (new_side ls) = count_tag Tag_add ls + count_tag Tag_ctx ls"
  by (induction ls) (auto split: line_tag.splits)

definition hunk_ok :: "diff_hunk \<Rightarrow> bool" where
  "hunk_ok h \<longleftrightarrow> length (old_side (dh_lines h)) = dh_oldLines h \<and> length (new_side (dh_lines h)) = dh_newLines h"

definition hunk_adds :: "diff_hunk \<Rightarrow> nat" where "hunk_adds h = count_tag Tag_add (dh_lines h)"

definition hunk_dels :: "diff_hunk \<Rightarrow> nat" where "hunk_dels h = count_tag Tag_del (dh_lines h)"

section \<open>The parser's bookkeeping\<close>

lemma hunk_body_counts:
  "hunk_body orem nrem ls = Inr (body, rest) \<Longrightarrow>
     count_tag Tag_del body + count_tag Tag_ctx body = orem \<and>
     count_tag Tag_add body + count_tag Tag_ctx body = nrem"
  by (induction orem nrem ls arbitrary: body rest rule: hunk_body.induct)
     (auto simp: cons_body_def split: if_splits line_tag.splits sum.splits prod.splits)

lemma count_tag_marks: "t \<noteq> Tag_mark \<Longrightarrow> count_tag t (takeWhile is_mark ls) = 0"
  by (induction ls) (auto simp: is_mark_def)

definition file_stats_ok :: "mutable_file \<Rightarrow> bool" where
  "file_stats_ok f \<longleftrightarrow> mf_additions f = sum_list (List.map hunk_adds (mf_hunks f)) \<and>
     mf_deletions f = sum_list (List.map hunk_dels (mf_hunks f)) \<and> list_all hunk_ok (mf_hunks f)"

lemma consumeHunk_stats:
  assumes "consumeHunk cur m rest = Inr (cur', rest')" "file_stats_ok cur"
  shows "file_stats_ok cur'"
proof -
  obtain os oc ns nc where m: "m = (os, oc, ns, nc)" by (cases m)
  let ?ol = "case oc of None \<Rightarrow> 1 | Some n \<Rightarrow> n" and ?nl = "case nc of None \<Rightarrow> 1 | Some n \<Rightarrow> n"
  obtain body rest1 where b: "hunk_body ?ol ?nl rest = Inr (body, rest1)"
    "cur' = cur\<lparr>mf_additions := mf_additions cur + count_tag Tag_add body,
        mf_deletions := mf_deletions cur + count_tag Tag_del body,
        mf_hunks := mf_hunks cur @ [\<lparr>dh_oldStart = os, dh_oldLines = ?ol, dh_newStart = ns,
          dh_newLines = ?nl, dh_lines = body @ takeWhile is_mark rest1\<rparr>]\<rparr>"
    using assms(1) m by (auto simp: consumeHunk_def Let_def split: sum.splits if_splits)
  from hunk_body_counts[OF b(1)] show ?thesis
    using assms(2) b(2)
    by (simp add: file_stats_ok_def hunk_ok_def hunk_adds_def hunk_dels_def length_sides count_tag_marks)
qed

lemma header_line_stats: "header_line line f = Some f' \<Longrightarrow> file_stats_ok f' = file_stats_ok f"
  by (auto simp: header_line_def file_stats_ok_def split: if_splits)

definition change_ok :: "diff_file_change \<Rightarrow> bool" where
  "change_ok f \<longleftrightarrow> df_additions f = sum_list (List.map hunk_adds (df_hunks f)) \<and>
     df_deletions f = sum_list (List.map hunk_dels (df_hunks f)) \<and> list_all hunk_ok (df_hunks f)"

lemma finalizeFile_ok: "file_stats_ok f \<Longrightarrow> change_ok (finalizeFile f)"
  by (simp add: finalizeFile_def file_stats_ok_def change_ok_def Let_def)

lemma new_file_ok: "file_stats_ok (new_file p)"
  by (simp add: new_file_def file_stats_ok_def)

lemma parse_lines_ok:
  "\<lbrakk>parse_lines ls cur = Inr fs; \<forall>f. cur = Some f \<longrightarrow> file_stats_ok f\<rbrakk> \<Longrightarrow> list_all change_ok fs"
proof (induction ls cur arbitrary: fs rule: parse_lines.induct)
  case (1 cur)
  then show ?case by (auto simp: flush_def finalizeFile_ok split: option.splits)
next
  case (2 line rest cur)
  have fl: "list_all change_ok (flush cur)"
    using 2(7) by (auto simp: flush_def finalizeFile_ok split: option.splits)
  show ?case
  proof (cases "prefix ''diff --git '' line")
    case True
    then obtain gs where "parse_lines rest (Some (new_file (parseDiffGitPaths (drop 11 line)))) = Inr gs"
      "fs = flush cur @ gs"
      using 2(6) by (auto split: sum.splits)
    then show ?thesis using 2(1)[OF True] fl new_file_ok by simp
  next
    case notgit: False
    show ?thesis
    proof (cases cur)
      case None
      then show ?thesis using 2 notgit by simp
    next
      case (Some f)
      show ?thesis
      proof (cases "header_line line f")
        case (Some f')
        then show ?thesis
          using 2(5)[OF notgit \<open>cur = Some f\<close> Some] 2(6,7) notgit \<open>cur = Some f\<close> header_line_stats by simp
      next
        case hl: None
        show ?thesis
        proof (cases "HUNK_RE line")
          case None
          then show ?thesis using 2(3)[OF notgit \<open>cur = Some f\<close> hl None] 2(6,7) notgit \<open>cur = Some f\<close> hl by simp
        next
          case (Some m)
          then obtain f' rest' where c: "consumeHunk f m rest = Inr (f', rest')"
            using 2(6) notgit \<open>cur = Some f\<close> hl by (auto split: sum.splits)
          have "file_stats_ok f'" using consumeHunk_stats[OF c] 2(7) \<open>cur = Some f\<close> by simp
          then show ?thesis
            using 2(4)[OF notgit \<open>cur = Some f\<close> hl Some c] 2(6) notgit \<open>cur = Some f\<close> hl Some c by simp
        qed
      qed
    qed
  qed
qed

section \<open>The specification of a patch\<close>

inductive edits :: "nat \<Rightarrow> string list \<Rightarrow> diff_hunk list \<Rightarrow> string list \<Rightarrow> bool" where
  no_more: "edits c src [] src"
| patched: "\<lbrakk>length gap = hunk_start h - c; edits (c + length gap + length (old_side (dh_lines h))) rest hs out\<rbrakk> \<Longrightarrow>
    edits c (gap @ old_side (dh_lines h) @ rest) (h # hs) (gap @ new_side (dh_lines h) @ out)"

inductive_cases edits_NilE: "edits c src [] out"
inductive_cases edits_ConsE: "edits c src (h # hs) out"

text \<open>The markers: whether a no-newline marker follows an added or kept line.\<close>

fun marks_new_side :: "line_tag option \<Rightarrow> string list \<Rightarrow> bool" where
  "marks_new_side k [] = False"
| "marks_new_side k (l # ls) =
     (case tag_of l of
        Tag_mark \<Rightarrow> k \<in> {Some Tag_add, Some Tag_ctx} \<or> marks_new_side k ls
      | t \<Rightarrow> marks_new_side (Some t) ls)"

fun last_kind :: "line_tag option \<Rightarrow> string list \<Rightarrow> line_tag option" where
  "last_kind k [] = k"
| "last_kind k (l # ls) = last_kind (if tag_of l = Tag_mark then k else Some (tag_of l)) ls"

lemma marks_append:
  "marks_new_side k (xs @ ys) \<longleftrightarrow> marks_new_side k xs \<or> marks_new_side (last_kind k xs) ys"
  by (induction xs arbitrary: k) (auto split: line_tag.splits)

text \<open>One hunk body: it succeeds exactly when the old side is next in the base.\<close>

definition after_body :: "string list \<Rightarrow> apply_state \<Rightarrow> apply_state" where
  "after_body ls st = \<lparr>as_cursor = as_cursor st + length (old_side ls), as_out = as_out st @ new_side ls,
     as_noFinalNewline = (as_noFinalNewline st \<or> marks_new_side (as_lastKind st) ls),
     as_lastKind = last_kind (as_lastKind st) ls\<rparr>"

lemma prefix_drop_step:
  "prefix (t # ts) (drop c src) \<longleftrightarrow> c < length src \<and> src ! c = t \<and> prefix ts (drop (Suc c) src)"
  by (cases "c < length src") (auto simp: Cons_nth_drop_Suc[symmetric])

lemma apply_body_iff:
  "(prefix (old_side ls) (drop (as_cursor st) src) \<longrightarrow> apply_body p h src ls st = Inr (after_body ls st)) \<and>
   (\<not> prefix (old_side ls) (drop (as_cursor st) src) \<longrightarrow> (\<exists>e. apply_body p h src ls st = Inl e))"
proof (induction ls arbitrary: st)
  case (Cons l ls)
  show ?case
  proof (cases "tag_of l")
    case Tag_add
    then show ?thesis
      using Cons.IH[of "st\<lparr>as_out := as_out st @ [drop 1 l], as_lastKind := Some Tag_add\<rparr>"]
      by (simp add: apply_line_def after_body_def)
  next
    case Tag_mark
    then show ?thesis
      using Cons.IH[of "if as_lastKind st \<in> {Some Tag_add, Some Tag_ctx} then st\<lparr>as_noFinalNewline := True\<rparr> else st"]
      by (auto simp: apply_line_def after_body_def)
  next
    case Tag_del
    then show ?thesis
      using Cons.IH[of "st\<lparr>as_cursor := Suc (as_cursor st), as_lastKind := Some Tag_del\<rparr>"]
      by (auto simp: apply_line_def after_body_def prefix_drop_step Let_def)
  next
    case Tag_ctx
    then show ?thesis
      using Cons.IH[of "st\<lparr>as_cursor := Suc (as_cursor st), as_out := as_out st @ [drop 1 l],
          as_lastKind := Some Tag_ctx\<rparr>"]
      by (auto simp: apply_line_def after_body_def prefix_drop_step Let_def)
  qed
qed (simp add: after_body_def)

lemma edits_Nil [simp]: "edits c src [] out \<longleftrightarrow> out = src"
  by (auto intro: edits.intros elim: edits_NilE)

lemma edits_Cons:
  fixes h :: diff_hunk
  defines "e \<equiv> \<lambda>c. max c (hunk_start h)"
  assumes "c \<le> length src"
  shows "edits c (drop c src) (h # hs) out \<longleftrightarrow>
     hunk_start h \<le> length src \<and> prefix (old_side (dh_lines h)) (drop (e c) src) \<and>
     (\<exists>o2. edits (e c + length (old_side (dh_lines h))) (drop (e c + length (old_side (dh_lines h))) src) hs o2 \<and>
       out = take (e c - c) (drop c src) @ new_side (dh_lines h) @ o2)"
    (is "?L \<longleftrightarrow> ?R")
proof
  assume ?L
  then obtain gap rest o2 where g: "drop c src = gap @ old_side (dh_lines h) @ rest"
    "out = gap @ new_side (dh_lines h) @ o2" "length gap = hunk_start h - c"
    "edits (c + (hunk_start h - c) + length (old_side (dh_lines h))) rest hs o2"
    using \<open>?L\<close> by (auto elim!: edits_ConsE)
  have lg: "length gap = e c - c" "c + length gap = e c" using g(3) by (auto simp: e_def)
  have d: "drop (e c) src = old_side (dh_lines h) @ rest"
    using arg_cong[OF g(1), of "drop (length gap)"] lg(2) by (simp add: add.commute)
  have tk: "take (e c - c) (drop c src) = gap"
    using arg_cong[OF g(1), of "take (length gap)"] lg(1) by simp
  have "length src - c = length gap + length (old_side (dh_lines h) @ rest)"
    using arg_cong[OF g(1), of length] by simp
  then have "hunk_start h \<le> length src" using lg assms by (auto simp: e_def)
  moreover have "drop (e c + length (old_side (dh_lines h))) src = rest"
    using arg_cong[OF d, of "drop (length (old_side (dh_lines h)))"] by (simp add: add.commute)
  ultimately show ?R using g d tk lg by (auto simp: prefix_def)
next
  assume R: ?R
  then obtain o2 rest where r: "drop (e c) src = old_side (dh_lines h) @ rest"
    "edits (e c + length (old_side (dh_lines h))) (drop (e c + length (old_side (dh_lines h))) src) hs o2"
    "out = take (e c - c) (drop c src) @ new_side (dh_lines h) @ o2"
    by (auto simp: prefix_def)
  let ?gap = "take (e c - c) (drop c src)"
  have ec: "e c \<le> length src" "c \<le> e c" using R assms by (auto simp: e_def)
  have lg: "length ?gap = hunk_start h - c" using ec by (auto simp: e_def)
  have rest: "drop (e c + length (old_side (dh_lines h))) src = rest"
    using arg_cong[OF r(1), of "drop (length (old_side (dh_lines h)))"] by (simp add: add.commute)
  have "drop c src = ?gap @ drop (e c) src"
    using ec by (metis append_take_drop_id drop_drop le_add_diff_inverse2)
  moreover have "c + length ?gap = e c" using ec by simp
  moreover have "edits c (?gap @ old_side (dh_lines h) @ rest) (h # hs) (?gap @ new_side (dh_lines h) @ o2)"
    using edits.patched[OF lg, where rest = rest and hs = hs and out = o2] r(2) rest
      \<open>c + length ?gap = e c\<close> by simp
  ultimately show ?L using r(1,3) by simp
qed

definition finished_text :: "string list \<Rightarrow> apply_state \<Rightarrow> string list" where
  "finished_text src st = as_out st @ drop (as_cursor st) src"

lemma copy_gap_fields:
  "as_cursor (copy_gap src i st) = max (as_cursor st) i"
  "as_out (copy_gap src i st) = as_out st @ take (max (as_cursor st) i - as_cursor st) (drop (as_cursor st) src)"
  "as_noFinalNewline (copy_gap src i st) = as_noFinalNewline st"
  "as_lastKind (copy_gap src i st) = as_lastKind st"
  by (auto simp: copy_gap_def max_def)

lemma after_body_fields:
  "as_cursor (after_body ls st) = as_cursor st + length (old_side ls)"
  "as_out (after_body ls st) = as_out st @ new_side ls"
  "as_noFinalNewline (after_body ls st) = (as_noFinalNewline st \<or> marks_new_side (as_lastKind st) ls)"
  "as_lastKind (after_body ls st) = last_kind (as_lastKind st) ls"
  by (simp_all add: after_body_def)

lemma apply_hunk_step:
  fixes h :: diff_hunk
  assumes "as_cursor st \<le> length src"
  defines "st2 \<equiv> after_body (dh_lines h) (copy_gap src (hunk_start h) st)"
  defines "fits \<equiv> hunk_start h \<le> length src \<and>
     prefix (old_side (dh_lines h)) (drop (max (as_cursor st) (hunk_start h)) src)"
  shows "fits \<Longrightarrow> apply_all p src (h # hs) st = apply_all p src hs st2 \<and> as_cursor st2 \<le> length src"
    and "\<not> fits \<Longrightarrow> \<exists>e. apply_all p src (h # hs) st = Inl e"
proof -
  let ?st1 = "copy_gap src (hunk_start h) st"
  note b = apply_body_iff[of "dh_lines h" ?st1 src p h, unfolded copy_gap_fields]
  show "apply_all p src (h # hs) st = apply_all p src hs st2 \<and> as_cursor st2 \<le> length src" if fits
    using that b prefix_length_le[of "old_side (dh_lines h)" "drop (max (as_cursor st) (hunk_start h)) src"] assms(1)
    by (auto simp: fits_def st2_def after_body_fields copy_gap_fields)
  show "\<exists>e. apply_all p src (h # hs) st = Inl e" if "\<not> fits"
    using that b by (auto simp: fits_def)
qed

lemma apply_all_sound:
  "\<lbrakk>as_cursor st \<le> length src; apply_all p src hs st = Inr st'\<rbrakk> \<Longrightarrow>
     (\<exists>o2. edits (as_cursor st) (drop (as_cursor st) src) hs o2 \<and> finished_text src st' = as_out st @ o2) \<and>
     as_noFinalNewline st' = (as_noFinalNewline st \<or> marks_new_side (as_lastKind st) (concat (List.map dh_lines hs)))"
proof (induction hs arbitrary: st)
  case (Cons h hs)
  define st2 where "st2 = after_body (dh_lines h) (copy_gap src (hunk_start h) st)"
  have fits: "hunk_start h \<le> length src \<and>
     prefix (old_side (dh_lines h)) (drop (max (as_cursor st) (hunk_start h)) src)"
    using apply_hunk_step(2)[OF Cons.prems(1), of h p hs] Cons.prems(2) by fastforce
  note step = apply_hunk_step(1)[OF Cons.prems(1) fits, of p hs, folded st2_def]
  obtain o2 where o2: "edits (as_cursor st2) (drop (as_cursor st2) src) hs o2"
    "finished_text src st' = as_out st2 @ o2"
    "as_noFinalNewline st' = (as_noFinalNewline st2 \<or> marks_new_side (as_lastKind st2) (concat (List.map dh_lines hs)))"
    using Cons.IH[of st2] step Cons.prems(2) by auto
  show ?case
    using o2 fits edits_Cons[OF Cons.prems(1), of h hs]
    by (simp add: st2_def after_body_fields copy_gap_fields marks_append)
qed (simp add: finished_text_def)

lemma apply_all_complete:
  "\<lbrakk>as_cursor st \<le> length src; edits (as_cursor st) (drop (as_cursor st) src) hs o2\<rbrakk> \<Longrightarrow>
     \<exists>st'. apply_all p src hs st = Inr st' \<and> finished_text src st' = as_out st @ o2"
proof (induction hs arbitrary: st o2)
  case (Cons h hs)
  define st2 where "st2 = after_body (dh_lines h) (copy_gap src (hunk_start h) st)"
  from edits_Cons[OF Cons.prems(1), of h hs o2] Cons.prems(2) obtain o3 where o3:
    "hunk_start h \<le> length src \<and>
       prefix (old_side (dh_lines h)) (drop (max (as_cursor st) (hunk_start h)) src)"
    "edits (as_cursor st2) (drop (as_cursor st2) src) hs o3"
    "as_out st @ o2 = as_out st2 @ o3"
    by (auto simp: st2_def after_body_fields copy_gap_fields)
  note step = apply_hunk_step(1)[OF Cons.prems(1) o3(1), of p hs, folded st2_def]
  then show ?case using Cons.IH[of st2 o3] o3 by auto
qed (simp add: finished_text_def)

section \<open>The properties\<close>

lemma applyHunks_edits:
  "applyHunks base hs ctx = Inr s \<longleftrightarrow>
     (\<exists>out. edits 0 (splitLines base) hs out \<and>
        s = render_lines out (marks_new_side None (concat (List.map dh_lines hs))))"
proof -
  let ?p = "case ctx of None \<Rightarrow> ''(unknown)'' | Some p \<Rightarrow> p" and ?src = "splitLines base"
  let ?st = "\<lparr>as_cursor = 0, as_out = [], as_noFinalNewline = False, as_lastKind = None\<rparr>"
  have ap: "applyHunks base hs ctx = (case apply_all ?p ?src hs ?st of Inl e \<Rightarrow> Inl e
      | Inr st \<Rightarrow> Inr (render_lines (finished_text ?src st) (as_noFinalNewline st)))"
    by (simp add: applyHunks_def Let_def finished_text_def split: sum.split)
  show ?thesis
  proof
    assume "applyHunks base hs ctx = Inr s"
    then obtain st' where st': "apply_all ?p ?src hs ?st = Inr st'"
      "s = render_lines (finished_text ?src st') (as_noFinalNewline st')"
      using ap by (auto split: sum.splits)
    with apply_all_sound[OF _ st'(1)] show
      "\<exists>out. edits 0 ?src hs out \<and> s = render_lines out (marks_new_side None (concat (List.map dh_lines hs)))"
      by auto
  next
    assume "\<exists>out. edits 0 ?src hs out \<and> s = render_lines out (marks_new_side None (concat (List.map dh_lines hs)))"
    then obtain out where out: "edits 0 ?src hs out"
      "s = render_lines out (marks_new_side None (concat (List.map dh_lines hs)))" by blast
    obtain st' where st': "apply_all ?p ?src hs ?st = Inr st'" "finished_text ?src st' = out"
      using apply_all_complete[of ?st ?src hs out ?p] out(1) by auto
    then show "applyHunks base hs ctx = Inr s"
      using ap apply_all_sound[OF _ st'(1)] out(2) by auto
  qed
qed

text \<open>C4: the applier implements exactly the patch specification: it returns text for a base precisely
  when the base is cut into gaps and old sides that the hunks describe, and then that text is the gaps
  and new sides, with a final newline unless a marker after an added or kept line says otherwise; every
  other base is refused.\<close>

theorem apply_hunks_iff:
  "applyHunks base hs ctx = Inr s \<longleftrightarrow>
     (\<exists>out. edits 0 (splitLines base) hs out \<and>
        s = render_lines out (marks_new_side None (concat (List.map dh_lines hs))))"
  by (rule applyHunks_edits)

text \<open>The parser's counts are the truth about the hunks it returns: the added and deleted line
  counts of every file are the sums over its hunks, and each hunk holds exactly the old-side and
  new-side lines its header declares.\<close>

theorem parsed_counts_exact:
  assumes "parseUnifiedDiffDetailed diff = Inr fs" "f \<in> set fs"
  shows "df_additions f = sum_list (List.map hunk_adds (df_hunks f)) \<and>
    df_deletions f = sum_list (List.map hunk_dels (df_hunks f)) \<and>
    (\<forall>h \<in> set (df_hunks f). length (old_side (dh_lines h)) = dh_oldLines h \<and>
       length (new_side (dh_lines h)) = dh_newLines h)"
  using parse_lines_ok[of "List.map strip_cr (split_char CHR 0x0A diff)" None fs] assms
  by (auto simp: parseUnifiedDiffDetailed_def list_all_iff change_ok_def hunk_ok_def)

lemma edits_length:
  "edits c src hs out \<Longrightarrow>
     length out + sum_list (List.map hunk_dels hs) = length src + sum_list (List.map hunk_adds hs)"
  by (induction rule: edits.induct) (auto simp: length_sides hunk_adds_def hunk_dels_def)

lemma splitLines_join:
  assumes "out \<noteq> []" "\<forall>l \<in> set out. CHR 0x0A \<notin> set l"
  shows "splitLines (render_lines out False) = out"
proof -
  have "split_char CHR 0x0A (join_with newline out @ newline) = out @ [[]]"
    using assms
  proof (induction out)
    case (Cons w ws)
    then show ?case by (cases ws) (auto simp: split_char_append)
  qed simp
  then show ?thesis using assms(1) by (simp add: splitLines_def render_lines_def Let_def)
qed

text \<open>A successful application moves the file by exactly the counts the policy saw: the result has
  as many lines as the base plus the parsed additions minus the parsed deletions.\<close>

theorem apply_line_count:
  assumes "parseUnifiedDiffDetailed diff = Inr fs" "f \<in> set fs"
    and "applyHunks base (df_hunks f) ctx = Inr s"
  shows "\<exists>out nf. s = render_lines out nf \<and>
    length out + df_deletions f = length (splitLines base) + df_additions f"
proof -
  obtain out where out: "edits 0 (splitLines base) (df_hunks f) out"
    "s = render_lines out (marks_new_side None (concat (List.map dh_lines (df_hunks f))))"
    using assms(3) applyHunks_edits by blast
  have "change_ok f"
    using parse_lines_ok[of "List.map strip_cr (split_char CHR 0x0A diff)" None fs] assms(1,2)
    by (auto simp: parseUnifiedDiffDetailed_def list_all_iff)
  then show ?thesis using edits_length[OF out(1)] out(2) by (auto simp: change_ok_def)
qed

lemma hunk_body_set: "hunk_body orem nrem ls = Inr (body, rest) \<Longrightarrow> set body \<subseteq> set ls \<and> set rest \<subseteq> set ls"
  using hunk_body_rest by fastforce

lemma consumeHunk_lines:
  assumes "consumeHunk cur m rest = Inr (cur', rest')"
  shows "set rest' \<subseteq> set rest \<and> (\<exists>h. mf_hunks cur' = mf_hunks cur @ [h] \<and> set (dh_lines h) \<subseteq> set rest)"
proof -
  obtain os oc ns nc where m: "m = (os, oc, ns, nc)" by (cases m)
  obtain o_n n_n body rest1 h where b: "hunk_body o_n n_n rest = Inr (body, rest1)"
    "mf_hunks cur' = mf_hunks cur @ [h]" "dh_lines h = body @ takeWhile is_mark rest1"
    "rest' = dropWhile is_mark rest1"
    using assms m by (auto simp: consumeHunk_def Let_def split: sum.splits if_splits)
  have "set (dh_lines h) \<subseteq> set rest" "set rest' \<subseteq> set rest"
    using hunk_body_set[OF b(1)] set_takeWhileD[of _ is_mark rest1] set_dropWhileD[of _ is_mark rest1]
    by (auto simp: b(3,4))
  then show ?thesis using b(2) by blast
qed

definition hunk_lines :: "diff_hunk list \<Rightarrow> string set" where
  "hunk_lines hs = (\<Union>h \<in> set hs. set (dh_lines h))"

lemma header_line_hunks: "header_line line f = Some f' \<Longrightarrow> mf_hunks f' = mf_hunks f"
  by (auto simp: header_line_def split: if_splits)

lemma flush_lines: "f \<in> set (flush cur) \<Longrightarrow> \<exists>g. cur = Some g \<and> df_hunks f = mf_hunks g"
  by (auto simp: flush_def finalizeFile_def Let_def split: option.splits)

lemma parse_lines_source:
  "\<lbrakk>parse_lines ls cur = Inr fs; f \<in> set fs\<rbrakk> \<Longrightarrow>
     hunk_lines (df_hunks f) \<subseteq> set ls \<union> (case cur of None \<Rightarrow> {} | Some g \<Rightarrow> hunk_lines (mf_hunks g))"
proof (induction ls cur arbitrary: fs f rule: parse_lines.induct)
  case (1 cur)
  then show ?case by (auto dest!: flush_lines)
next
  case (2 line rest cur)
  consider (git) "prefix ''diff --git '' line" | (idle) "\<not> prefix ''diff --git '' line" "cur = None"
    | (inside) g where "\<not> prefix ''diff --git '' line" "cur = Some g" by (cases cur) auto
  then show ?case
  proof cases
    case git
    then obtain gs where gs: "parse_lines rest (Some (new_file (parseDiffGitPaths (drop 11 line)))) = Inr gs"
      "fs = flush cur @ gs" using "2.prems"(1) by (auto split: sum.splits)
    show ?thesis
    proof (cases "f \<in> set gs")
      case True
      then show ?thesis using "2.IH"(1)[OF git gs(1) True] by (auto simp: new_file_def hunk_lines_def)
    next
      case False
      then show ?thesis using gs(2) "2.prems"(2) flush_lines[of f cur] by auto
    qed
  next
    case idle
    then show ?thesis using "2.IH"(2)[OF idle] "2.prems" by auto
  next
    case (inside g)
    note IH = "2.IH"(3,4,5)[OF inside]
    show ?thesis
    proof (cases "header_line line g")
      case (Some g')
      then show ?thesis using IH(3)[OF Some] "2.prems" inside header_line_hunks[OF Some] by auto
    next
      case hl: None
      show ?thesis
      proof (cases "HUNK_RE line")
        case None
        then show ?thesis using IH(1)[OF hl None] "2.prems" inside hl by auto
      next
        case (Some m)
        obtain g' rest' where c: "consumeHunk g m rest = Inr (g', rest')" "parse_lines rest' (Some g') = Inr fs"
          using "2.prems"(1) inside hl Some by (auto split: sum.splits)
        from consumeHunk_lines[OF c(1)] obtain h where
          h: "set rest' \<subseteq> set rest" "mf_hunks g' = mf_hunks g @ [h]" "set (dh_lines h) \<subseteq> set rest" by blast
        show ?thesis using IH(2)[OF hl Some c(1) refl c(2) "2.prems"(2)] h inside
          by (auto simp: hunk_lines_def)
      qed
    qed
  qed
qed

definition ends_cr :: "string \<Rightarrow> bool" where
  "ends_cr l \<longleftrightarrow> l \<noteq> [] \<and> last l = CHR 0x0D"

lemma edits_old_lines:
  "\<lbrakk>edits c src hs out; h \<in> set hs\<rbrakk> \<Longrightarrow> set (old_side (dh_lines h)) \<subseteq> set src"
  by (induction rule: edits.induct) auto

lemma strip_cr_single: "\<not> ends_cr (strip_cr l)" if "\<not> str_includes l [CHR 0x0D, CHR 0x0D]"
proof
  assume a: "ends_cr (strip_cr l)"
  then have "l \<noteq> []" "last l = CHR 0x0D" by (auto simp: ends_cr_def strip_cr_def split: if_splits)
  moreover from this a have "butlast l \<noteq> []" "last (butlast l) = CHR 0x0D"
    by (auto simp: ends_cr_def strip_cr_def)
  ultimately have "l = butlast (butlast l) @ [CHR 0x0D, CHR 0x0D] @ []"
    by (metis append_Cons append_Nil append_assoc append_butlast_last_id)
  then show False using that includes_append by metis
qed

text \<open>Line endings are lost on the way through the parser: for a diff without doubled carriage
  returns, a hunk that deletes or keeps any line can never be applied to a base whose lines end in
  carriage returns, because the parser strips them from the diff and the applier compares with the base
  as it is.\<close>

theorem crlf_base_refused:
  assumes "parseUnifiedDiffDetailed diff = Inr fs" "f \<in> set fs"
    and "\<not> str_includes diff [CHR 0x0D, CHR 0x0D]"
    and "h \<in> set (df_hunks f)" "old_side (dh_lines h) \<noteq> []"
    and "\<forall>l \<in> set (splitLines base). ends_cr l"
  shows "\<exists>e. applyHunks base (df_hunks f) ctx = Inl e"
proof (rule ccontr)
  assume "\<nexists>e. applyHunks base (df_hunks f) ctx = Inl e"
  then obtain s where "applyHunks base (df_hunks f) ctx = Inr s" by (metis sum.exhaust)
  then obtain out where "edits 0 (splitLines base) (df_hunks f) out" using applyHunks_edits by blast
  then have sub: "set (old_side (dh_lines h)) \<subseteq> set (splitLines base)" using edits_old_lines assms(4) by blast
  obtain t where t: "t \<in> set (old_side (dh_lines h))" using assms(5) by (meson last_in_set)
  then obtain l where l: "l \<in> set (dh_lines h)" "t = drop 1 l" by (auto simp: old_side_def)
  have "ends_cr t" using sub t assms(6) by blast
  then have cr: "ends_cr l" using l(2) by (cases l) (auto simp: ends_cr_def)
  have "l \<in> set (List.map strip_cr (split_char CHR 0x0A diff))"
    using parse_lines_source[of "List.map strip_cr (split_char CHR 0x0A diff)" None fs f] assms(1,2,4) l(1)
    by (auto simp: parseUnifiedDiffDetailed_def hunk_lines_def)
  then obtain l0 where l0: "l0 \<in> set (split_char CHR 0x0A diff)" "l = strip_cr l0" by auto
  have "\<not> str_includes l0 [CHR 0x0D, CHR 0x0D]" using split_char_part[OF l0(1)] assms(3) includes_mono by metis
  then show False using strip_cr_single cr l0(2) by blast
qed

section \<open>Concrete diffs\<close>

definition example_diff :: string where
  "example_diff = join_with newline [''diff --git a/f b/f'', ''--- a/f'', ''+++ b/f'', ''@@ -1,2 +1,3 @@'',
     ''-a'', ''+b'', ''+d'', '' c'', []]"

definition example_hunk :: diff_hunk where
  "example_hunk = \<lparr>dh_oldStart = 1, dh_oldLines = 2, dh_newStart = 1, dh_newLines = 3,
     dh_lines = [''-a'', ''+b'', ''+d'', '' c'']\<rparr>"

definition example_change :: diff_file_change where
  "example_change = \<lparr>df_path = ''f'', df_oldPath = None, df_change = Ch_modify, df_binary = False,
     df_additions = 2, df_deletions = 1, df_hunks = [example_hunk], df_mode = None\<rparr>"

lemma example_parsed: "parseUnifiedDiffDetailed example_diff = Inr [example_change]"
  by code_simp

lemma example_applied:
  "applyHunks (join_with newline [''a'', ''c'', []]) (df_hunks example_change) None =
     Inr (join_with newline [''b'', ''d'', ''c'', []])"
  by code_simp

lemma parsed_counts_witness: "df_additions example_change = 2 \<and> df_deletions example_change = 1 \<and>
    sum_list (List.map hunk_adds (df_hunks example_change)) = 2"
  using parsed_counts_exact[OF example_parsed, of example_change]
  by (simp add: example_change_def)

lemma apply_line_count_witness:
  "\<exists>out nf. join_with newline [''b'', ''d'', ''c'', []] = render_lines out nf \<and>
     length out + 1 = length (splitLines (join_with newline [''a'', ''c'', []])) + 2"
  using apply_line_count[OF example_parsed _ example_applied] by (simp add: example_change_def)

definition crlf_base :: string where
  "crlf_base = ''a'' @ [CHR 0x0D] @ newline @ ''c'' @ [CHR 0x0D] @ newline"

lemma crlf_base_witness: "\<exists>e. applyHunks crlf_base [example_hunk] None = Inl e"
proof -
  have h: "df_hunks example_change = [example_hunk]" "example_change \<in> set [example_change]"
    "example_hunk \<in> set (df_hunks example_change)" by (simp_all add: example_change_def)
  have "\<not> str_includes example_diff [CHR 0x0D, CHR 0x0D]" by code_simp
  moreover have "old_side (dh_lines example_hunk) \<noteq> []" by code_simp
  moreover have "\<forall>l \<in> set (splitLines crlf_base). ends_cr l" by code_simp
  ultimately show ?thesis
    using crlf_base_refused[OF example_parsed h(2) _ h(3), of crlf_base None] unfolding h(1) by blast
qed

text \<open>A hunk that only inserts after line 1 (no old line, as a diff without context has it) lands before
  line 1, where \<open>git apply\<close> puts it after; and a base without a final newline gets one even when no hunk
  touches its last line.\<close>

lemma zero_context_insert_early:
  "applyHunks (join_with newline [''a'', ''b'', []])
     [\<lparr>dh_oldStart = 1, dh_oldLines = 0, dh_newStart = 2, dh_newLines = 1, dh_lines = [''+x'']\<rparr>] None =
   Inr (join_with newline [''x'', ''a'', ''b'', []])"
  by code_simp

lemma final_newline_added:
  "applyHunks (join_with newline [''a'', ''b'', ''c'', ''d'', ''e''])
     [\<lparr>dh_oldStart = 1, dh_oldLines = 1, dh_newStart = 1, dh_newLines = 1, dh_lines = [''-a'', ''+x'']\<rparr>] None =
   Inr (join_with newline [''x'', ''b'', ''c'', ''d'', ''e'', []])"
  by code_simp

end
