(* ===== verification/DiffPolicy.thy ===== *)
theory DiffPolicy
  imports JobTypes PathGlobs SecretScan DiffSound
begin

text \<open>
  The authoritative diff policy (\<open>policy/diffPolicyEngine.ts\<close>): the rules over the parsed diff, the
  uploaded numstat and the outbound texts, and the precedence of their findings.  Whitespace is ASCII
  whitespace and sorting is the order of the bytes.
\<close>

section \<open>Types\<close>

datatype policy_decision = Allow | Gate | Deny

instantiation policy_decision :: linorder
begin

definition decision_rank :: "policy_decision \<Rightarrow> nat" where
  "decision_rank d = (case d of Allow \<Rightarrow> 0 | Gate \<Rightarrow> 1 | Deny \<Rightarrow> 2)"

definition less_eq_policy_decision :: "policy_decision \<Rightarrow> policy_decision \<Rightarrow> bool" where
  "less_eq_policy_decision a b \<longleftrightarrow> decision_rank a \<le> decision_rank b"

definition less_policy_decision :: "policy_decision \<Rightarrow> policy_decision \<Rightarrow> bool" where
  "less_policy_decision a b \<longleftrightarrow> decision_rank a < decision_rank b"

instance
  by standard (auto simp: less_eq_policy_decision_def less_policy_decision_def decision_rank_def
      split: policy_decision.splits)

end

datatype finding_severity = Sev_gate | Sev_deny

record policy_finding =
  pf_ruleId :: string
  pf_severity :: finding_severity
  pf_paths :: "string list"
  pf_detail :: string

record policy_stats =
  ps_filesTouched :: nat
  ps_additions :: nat
  ps_deletions :: nat
  ps_binaries :: nat

record policy_verdict =
  pv_decision :: policy_decision
  pv_findings :: "policy_finding list"
  pv_stats :: policy_stats

record numstat_entry =
  ns_path :: string
  ns_additions :: int
  ns_deletions :: int
  ns_binary :: bool

record diff_policy_input =
  dp_diff :: string
  dp_numstat :: "numstat_entry list"
  dp_prBody :: "string option"
  dp_trackerComments :: "string list option"
  dp_policyOverrides :: "diff_policy_overrides option"
  dp_jobTokens :: "string list"
  dp_operatorApprovedGate :: bool

definition DEFAULT_MAX_FILES :: nat where "DEFAULT_MAX_FILES = 50"

definition DEFAULT_MAX_ADDED_LINES :: nat where "DEFAULT_MAX_ADDED_LINES = 5000"

definition DEP_MANIFEST_BASENAMES :: "string list" where
  "DEP_MANIFEST_BASENAMES = [''package.json'', ''go.mod'', ''Cargo.toml'', ''pyproject.toml'']"

section \<open>The rules\<close>

definition basename :: "string \<Rightarrow> string" where
  "basename path = base_of (normalizePath path)"

definition pathsOf :: "diff_file_change \<Rightarrow> string list" where
  "pathsOf f = df_path f # (case df_oldPath f of
     Some p \<Rightarrow> if p \<noteq> [] \<and> p \<noteq> df_path f then [p] else [] | None \<Rightarrow> [])"

definition isGitInternals :: "string \<Rightarrow> bool" where
  "isGitInternals path =
     (let segments = split_char CHR ''/'' (normalizePath path)
      in list_ex (\<lambda>s. toLowerCase s = ''.git'') segments \<or> ''..'' \<in> set segments)"

definition addedLinesOf :: "diff_file_change \<Rightarrow> string list" where
  "addedLinesOf f = concat (List.map (\<lambda>h. List.map (drop 1) (filter (\<lambda>l. tag_of l = Tag_add) (dh_lines h))) (df_hunks f))"

definition unique :: "string list \<Rightarrow> string list" where
  "unique arr = sort (remdups arr)"

definition arrow :: string where "arrow = [CHR 0xE2, CHR 0x86, CHR 0x92]"

definition em_dash :: string where "em_dash = [CHR 0xE2, CHR 0x80, CHR 0x94]"

definition symlink_target :: "diff_file_change \<Rightarrow> string" where
  "symlink_target f = trim (concat (addedLinesOf f))"

definition gitInternalsPaths :: "diff_file_change list \<Rightarrow> string list" where
  "gitInternalsPaths files =
     filter isGitInternals (concat (List.map pathsOf files)) @
     List.map (\<lambda>f. df_path f @ '' '' @ arrow @ '' '' @ symlink_target f)
       (filter (\<lambda>f. df_mode f = Some ''120000'' \<and> symlink_target f \<noteq> [] \<and> isGitInternals (symlink_target f)) files)"

definition git_findings :: "diff_file_change list \<Rightarrow> policy_finding list" where
  "git_findings files =
     (if gitInternalsPaths files = [] then []
      else [\<lparr>pf_ruleId = ''git-internals'', pf_severity = Sev_deny, pf_paths = unique (gitInternalsPaths files),
             pf_detail = ''diff touches '' @ em_dash @ '' or symlinks into '' @ em_dash @
               '' a path under .git/ or containing a `..` segment''\<rparr>])"

text \<open>The outbound texts with the label their findings are reported under.\<close>

definition addedContent :: "diff_file_change list \<Rightarrow> string" where
  "addedContent files = join_with newline (concat (List.map addedLinesOf files))"

definition addedJoined :: "diff_file_change list \<Rightarrow> string" where
  "addedJoined files = filter (\<lambda>c. \<not> is_space c) (concat (concat (List.map addedLinesOf files)))"

fun label_comments :: "nat \<Rightarrow> string list \<Rightarrow> (string \<times> string) list" where
  "label_comments i [] = []"
| "label_comments i (c # cs) = (''<tracker-comment['' @ show_nat i @ '']>'', c) # label_comments (Suc i) cs"

definition outbound_texts :: "diff_policy_input \<Rightarrow> diff_file_change list \<Rightarrow> (string \<times> string) list" where
  "outbound_texts inp files =
     [(''<diff>'', addedContent files), (''<diff>'', addedJoined files)] @
     (case dp_prBody inp of Some b \<Rightarrow> if b = [] then [] else [(''<pr-body>'', b)] | None \<Rightarrow> []) @
     (case dp_trackerComments inp of Some cs \<Rightarrow> label_comments 0 cs | None \<Rightarrow> [])"

definition credential_hits :: "diff_policy_input \<Rightarrow> diff_file_change list \<Rightarrow> (string \<times> secret_finding) list" where
  "credential_hits inp files =
     concat (List.map (\<lambda>(label, text). List.map (Pair label) (scanForSecrets text (Some (dp_jobTokens inp))))
       (outbound_texts inp files))"

definition credential_findings :: "diff_policy_input \<Rightarrow> diff_file_change list \<Rightarrow> policy_finding list" where
  "credential_findings inp files =
     (let hits = credential_hits inp files in
      if hits = [] then []
      else [\<lparr>pf_ruleId = ''credential-content'', pf_severity = Sev_deny, pf_paths = unique (List.map fst hits),
             pf_detail = ''outbound text contains secret-shaped content: '' @
               join_with '', '' (unique (List.map (sf_kind \<circ> snd) hits))\<rparr>])"

definition overrides_of :: "diff_policy_input \<Rightarrow> diff_policy_overrides" where
  "overrides_of inp = (case dp_policyOverrides inp of
     Some ov \<Rightarrow> ov
   | None \<Rightarrow> \<lparr>ov_maxFiles = None, ov_maxAddedLines = None, ov_extraProtectedGlobs = None, ov_unprotectedGlobs = None\<rparr>)"

definition or_else :: "'a option \<Rightarrow> 'a \<Rightarrow> 'a" where
  "or_else a d = (case a of Some x \<Rightarrow> x | None \<Rightarrow> d)"

definition path_gate :: "string \<Rightarrow> string \<Rightarrow> (string \<Rightarrow> bool) \<Rightarrow> diff_file_change list \<Rightarrow> policy_finding list" where
  "path_gate rule detail hit files =
     (let ps = filter hit (concat (List.map pathsOf files)) in
      if ps = [] then [] else [\<lparr>pf_ruleId = rule, pf_severity = Sev_gate, pf_paths = unique ps, pf_detail = detail\<rparr>])"

definition protected_findings :: "diff_policy_overrides \<Rightarrow> diff_file_change list \<Rightarrow> policy_finding list" where
  "protected_findings ov files =
     path_gate ''protected-ci'' ''diff touches a protected CI / workflow / credential-handling path''
       (\<lambda>p. matchesAnyGlob p (DEFAULT_PROTECTED_GLOBS @ or_else (ov_extraProtectedGlobs ov) []) \<and>
            \<not> matchesAnyGlob p (or_else (ov_unprotectedGlobs ov) [])) files"

definition manifest_findings :: "diff_policy_overrides \<Rightarrow> diff_file_change list \<Rightarrow> policy_finding list" where
  "manifest_findings ov files =
     path_gate ''dep-manifest-lockfile'' ''diff changes a dependency manifest''
       (\<lambda>p. basename p \<in> set DEP_MANIFEST_BASENAMES \<and> \<not> matchesAnyGlob p (or_else (ov_unprotectedGlobs ov) [])) files"

definition stats_of :: "diff_file_change list \<Rightarrow> policy_stats" where
  "stats_of files = \<lparr>ps_filesTouched = length files, ps_additions = sum_list (List.map df_additions files),
     ps_deletions = sum_list (List.map df_deletions files), ps_binaries = length (filter df_binary files)\<rparr>"

definition limit_finding :: "string \<Rightarrow> string \<Rightarrow> string \<Rightarrow> nat \<Rightarrow> nat \<Rightarrow> policy_finding list" where
  "limit_finding rule verb noun n limit =
     (if limit < n
      then [\<lparr>pf_ruleId = rule, pf_severity = Sev_gate, pf_paths = [],
             pf_detail = ''diff '' @ verb @ show_nat n @ noun @ show_nat limit @ '')''\<rparr>]
      else [])"

definition uploaded_additions :: "numstat_entry list \<Rightarrow> int" where
  "uploaded_additions es = sum_list (List.map (\<lambda>e. if ns_binary e then 0 else ns_additions e) es)"

definition uploaded_deletions :: "numstat_entry list \<Rightarrow> int" where
  "uploaded_deletions es = sum_list (List.map (\<lambda>e. if ns_binary e then 0 else ns_deletions e) es)"

definition checkIntegrity :: "diff_file_change list \<Rightarrow> numstat_entry list \<Rightarrow> policy_finding list" where
  "checkIntegrity files es =
     (let s = stats_of files in
      if ps_filesTouched s = length es \<and> int (ps_additions s) = uploaded_additions es \<and>
         int (ps_deletions s) = uploaded_deletions es
      then []
      else [\<lparr>pf_ruleId = ''diff-integrity'', pf_severity = Sev_gate, pf_paths = [],
             pf_detail = ''parsed diff ('' @ show_nat (ps_filesTouched s) @ '' files, +'' @ show_nat (ps_additions s) @
               ''/-'' @ show_nat (ps_deletions s) @ '') disagrees with uploaded numstat ('' @ show_nat (length es) @
               '' files, +'' @ show_int (uploaded_additions es) @ ''/-'' @ show_int (uploaded_deletions es) @ '')''\<rparr>])"

section \<open>The verdict\<close>

definition policy_findings :: "diff_policy_input \<Rightarrow> diff_file_change list \<Rightarrow> policy_finding list" where
  "policy_findings inp files =
     (let ov = overrides_of inp in
      git_findings files @
      credential_findings inp files @
      protected_findings ov files @
      manifest_findings ov files @
      limit_finding ''max-files'' ''touches '' '' files (limit '' (length files) (or_else (ov_maxFiles ov) DEFAULT_MAX_FILES) @
      limit_finding ''max-added-lines'' ''adds '' '' lines (limit '' (ps_additions (stats_of files))
        (or_else (ov_maxAddedLines ov) DEFAULT_MAX_ADDED_LINES) @
      checkIntegrity files (dp_numstat inp))"

definition decide :: "policy_finding list \<Rightarrow> bool \<Rightarrow> policy_decision" where
  "decide findings approved =
     (if list_ex (\<lambda>f. pf_severity f = Sev_deny) findings then Deny
      else if list_ex (\<lambda>f. pf_severity f = Sev_gate) findings \<and> \<not> approved then Gate
      else Allow)"

definition evaluateDiffPolicy :: "diff_policy_input \<Rightarrow> diff_error + policy_verdict" where
  "evaluateDiffPolicy inp =
     (case parseUnifiedDiffDetailed (dp_diff inp) of
        Inl e \<Rightarrow> Inl e
      | Inr files \<Rightarrow>
          (let fs = policy_findings inp files
           in Inr \<lparr>pv_decision = decide fs (dp_operatorApprovedGate inp), pv_findings = fs, pv_stats = stats_of files\<rparr>))"

section \<open>What the verdict depends on\<close>

lemma severities:
  "f \<in> set (git_findings files) \<Longrightarrow> pf_severity f = Sev_deny"
  "f \<in> set (credential_findings inp files) \<Longrightarrow> pf_severity f = Sev_deny"
  "f \<in> set (protected_findings ov files) \<Longrightarrow> pf_severity f = Sev_gate"
  "f \<in> set (manifest_findings ov files) \<Longrightarrow> pf_severity f = Sev_gate"
  "f \<in> set (limit_finding r v n k l) \<Longrightarrow> pf_severity f = Sev_gate"
  "f \<in> set (checkIntegrity files es) \<Longrightarrow> pf_severity f = Sev_gate"
  by (auto simp: git_findings_def credential_findings_def protected_findings_def manifest_findings_def
      path_gate_def limit_finding_def checkIntegrity_def Let_def split: if_splits)

definition denied :: "diff_policy_input \<Rightarrow> diff_file_change list \<Rightarrow> bool" where
  "denied inp files \<longleftrightarrow> gitInternalsPaths files \<noteq> [] \<or> credential_hits inp files \<noteq> []"

lemma git_findings_Nil: "git_findings files = [] \<longleftrightarrow> gitInternalsPaths files = []"
  by (simp add: git_findings_def)

lemma credential_findings_Nil: "credential_findings inp files = [] \<longleftrightarrow> credential_hits inp files = []"
  by (simp add: credential_findings_def Let_def)

lemma any_deny: "list_ex (\<lambda>f. pf_severity f = Sev_deny) (policy_findings inp files) \<longleftrightarrow> denied inp files"
proof -
  have gates: "\<not> list_ex (\<lambda>f. pf_severity f = Sev_deny) (protected_findings ov files)"
    "\<not> list_ex (\<lambda>f. pf_severity f = Sev_deny) (manifest_findings ov files)"
    "\<not> list_ex (\<lambda>f. pf_severity f = Sev_deny) (limit_finding r v n k l)"
    "\<not> list_ex (\<lambda>f. pf_severity f = Sev_deny) (checkIntegrity files es)" for ov r v n k l es
    by (auto simp: list_ex_iff dest!: severities(3-6))
  have "list_ex (\<lambda>f. pf_severity f = Sev_deny) fs \<longleftrightarrow> fs \<noteq> []"
    if "\<And>f. f \<in> set fs \<Longrightarrow> pf_severity f = Sev_deny" for fs
    using that by (cases fs) auto
  note denies = this[of "git_findings files", OF severities(1)] this[of "credential_findings inp files", OF severities(2)]
  have "list_ex (\<lambda>f. pf_severity f = Sev_deny) (policy_findings inp files) \<longleftrightarrow>
      git_findings files \<noteq> [] \<or> credential_findings inp files \<noteq> []"
    unfolding policy_findings_def Let_def by (simp only: list_ex_append gates denies simp_thms)
  then show ?thesis by (simp add: denied_def git_findings_Nil credential_findings_Nil)
qed

lemma decide_Deny: "decide (policy_findings inp files) a = Deny \<longleftrightarrow> denied inp files"
  by (simp add: decide_def any_deny)

lemma hits_text:
  "\<lbrakk>(label, text) \<in> set (outbound_texts inp files); scanForSecrets text (Some (dp_jobTokens inp)) \<noteq> []\<rbrakk> \<Longrightarrow>
     denied inp files"
proof -
  assume t: "(label, text) \<in> set (outbound_texts inp files)" and "scanForSecrets text (Some (dp_jobTokens inp)) \<noteq> []"
  then obtain s where "s \<in> set (scanForSecrets text (Some (dp_jobTokens inp)))" by (meson last_in_set)
  then have "(label, s) \<in> set (credential_hits inp files)"
    unfolding credential_hits_def using t by (auto intro!: bexI[OF _ t])
  then show ?thesis by (auto simp: denied_def)
qed

text \<open>A denial cannot be overridden: whether a diff is denied does not depend on the repository's
  overrides, on the uploaded numstat, nor on a human's approval.\<close>

theorem deny_not_overridable:
  "(\<exists>v. evaluateDiffPolicy inp = Inr v \<and> pv_decision v = Deny) \<longleftrightarrow>
   (\<exists>v. evaluateDiffPolicy (inp\<lparr>dp_policyOverrides := ov, dp_numstat := es, dp_operatorApprovedGate := a\<rparr>) = Inr v \<and>
      pv_decision v = Deny)"
proof -
  have "denied (inp\<lparr>dp_policyOverrides := ov, dp_numstat := es, dp_operatorApprovedGate := a\<rparr>) files = denied inp files"
    for files
    by (simp add: denied_def credential_hits_def outbound_texts_def)
  then show ?thesis
    by (auto simp: evaluateDiffPolicy_def Let_def decide_Deny split: sum.splits)
qed

text \<open>An approval changes nothing but the decision: the approved evaluation has the findings and
  statistics of the unattended one, a denial stays a denial and a gate becomes an allowance.\<close>

theorem approval_demotes_gates:
  "evaluateDiffPolicy (inp\<lparr>dp_operatorApprovedGate := True\<rparr>) =
   map_sum id (\<lambda>v. v\<lparr>pv_decision := (if pv_decision v = Deny then Deny else Allow)\<rparr>)
     (evaluateDiffPolicy (inp\<lparr>dp_operatorApprovedGate := False\<rparr>))"
proof -
  have "policy_findings (inp\<lparr>dp_operatorApprovedGate := b\<rparr>) files = policy_findings inp files" for b files
    by (simp add: policy_findings_def overrides_of_def credential_findings_def credential_hits_def
        outbound_texts_def)
  then show ?thesis
    by (auto simp: evaluateDiffPolicy_def Let_def decide_def split: sum.splits)
qed

lemma part_of_join: "l \<in> set ls \<Longrightarrow> \<exists>a b. join_with sep ls = a @ l @ b"
proof (induction ls)
  case (Cons x xs)
  show ?case
  proof (cases xs)
    case Nil
    then have "join_with sep (x # xs) = [] @ l @ []" using Cons.prems by simp
    then show ?thesis by blast
  next
    case xs: (Cons y ys)
    then have j: "join_with sep (x # xs) = x @ sep @ join_with sep xs" by simp
    show ?thesis
    proof (cases "l = x")
      case True
      then show ?thesis using j by (metis append_Nil)
    next
      case False
      then obtain a b where "join_with sep xs = a @ l @ b" using Cons by auto
      then show ?thesis using j by (metis append_assoc)
    qed
  qed
qed simp

text \<open>No added line smuggles a credential: when any line a parsed hunk adds holds, anywhere in it, a
  token of a known prefix family, the verdict is a denial, with any overrides and any approval.\<close>

theorem added_credential_denied:
  assumes "parseUnifiedDiffDetailed (dp_diff inp) = Inr files" "f \<in> set files" "h \<in> set (df_hunks f)"
    and "l \<in> set (dh_lines h)" "tag_of l = Tag_add"
    and "p \<in> set PREFIX_PATTERNS" "drop 1 l = a @ pp_prefix p @ w @ b"
    and "list_all (pp_class p) w" "pp_min p \<le> length w"
  shows "\<exists>v. evaluateDiffPolicy inp = Inr v \<and> pv_decision v = Deny"
proof -
  have "drop 1 l \<in> set (concat (List.map addedLinesOf files))"
    using assms(2-5) unfolding addedLinesOf_def by fastforce
  from part_of_join[OF this] obtain x y where "addedContent files = x @ drop 1 l @ y"
    unfolding addedContent_def by blast
  then have "sublist (pp_prefix p @ w) (addedContent files)"
    unfolding assms(7) sublist_def by (metis append_assoc)
  moreover have "is_token p (pp_prefix p @ w)" using assms(8,9) by (auto simp: is_token_def)
  ultimately have "scan_all (prefix_len p) (addedContent files) \<noteq> []" using scan_finds[OF assms(6)] by blast
  then have "prefix_findings (addedContent files) \<noteq> []"
    using prefix_findings_kind[OF assms(6)] by (metis empty_iff list.set(1))
  moreover have "addedContent files \<noteq> []"
    using \<open>scan_all (prefix_len p) (addedContent files) \<noteq> []\<close> by auto
  ultimately have "scanForSecrets (addedContent files) (Some (dp_jobTokens inp)) \<noteq> []"
    by (simp add: scanForSecrets_def Let_def)
  moreover have "(''<diff>'', addedContent files) \<in> set (outbound_texts inp files)" by (simp add: outbound_texts_def)
  ultimately have "denied inp files" using hits_text by blast
  then show ?thesis using assms(1) by (simp add: evaluateDiffPolicy_def Let_def decide_Deny)
qed

section \<open>A concrete diff\<close>

definition leak_diff :: string where
  "leak_diff = join_with newline [''diff --git a/f b/f'', ''--- a/f'', ''+++ b/f'', ''@@ -1,1 +1,2 @@'',
     '' c'', ''+++ghp_0123456789abcdefghij'', []]"

definition leak_input :: diff_policy_input where
  "leak_input = \<lparr>dp_diff = leak_diff, dp_numstat = [], dp_prBody = None, dp_trackerComments = None,
     dp_policyOverrides = None, dp_jobTokens = [], dp_operatorApprovedGate = True\<rparr>"

definition leak_change :: diff_file_change where
  "leak_change = \<lparr>df_path = ''f'', df_oldPath = None, df_change = Ch_modify, df_binary = False,
     df_additions = 1, df_deletions = 0, df_hunks =
       [\<lparr>dh_oldStart = 1, dh_oldLines = 1, dh_newStart = 1, dh_newLines = 2,
         dh_lines = ['' c'', ''+++ghp_0123456789abcdefghij'']\<rparr>], df_mode = None\<rparr>"

lemma leak_parsed: "parseUnifiedDiffDetailed leak_diff = Inr [leak_change]"
  by code_simp

lemma added_credential_witness: "\<exists>v. evaluateDiffPolicy leak_input = Inr v \<and> pv_decision v = Deny"
proof -
  let ?p = "\<lparr>pp_prefix = ''ghp_'', pp_class = is_alnum, pp_min = 20\<rparr>"
  let ?h = "\<lparr>dh_oldStart = 1, dh_oldLines = 1, dh_newStart = 1, dh_newLines = 2,
         dh_lines = ['' c'', ''+++ghp_0123456789abcdefghij'']\<rparr>"
  have parsed: "parseUnifiedDiffDetailed (dp_diff leak_input) = Inr [leak_change]"
    using leak_parsed by (simp add: leak_input_def)
  have h: "?h \<in> set (df_hunks leak_change)" "leak_change \<in> set [leak_change]" by (simp_all add: leak_change_def)
  have l: "''+++ghp_0123456789abcdefghij'' \<in> set (dh_lines ?h)" "tag_of ''+++ghp_0123456789abcdefghij'' = Tag_add"
    by (simp_all add: tag_of_def)
  have p: "?p \<in> set PREFIX_PATTERNS" by (simp add: PREFIX_PATTERNS_def)
  have d: "drop 1 ''+++ghp_0123456789abcdefghij'' = ''++'' @ pp_prefix ?p @ ''0123456789abcdefghij'' @ ''''" by simp
  have w: "list_all (pp_class ?p) ''0123456789abcdefghij''" "pp_min ?p \<le> length ''0123456789abcdefghij''"
    by code_simp+
  show ?thesis by (rule added_credential_denied[OF parsed h(2,1) l p d w])
qed

end
