(* ===== verification/DiffApply.thy ===== *)
theory DiffApply
  imports DiffPolicy
begin

text \<open>
  The server-side apply (\<open>diffApplyService.ts\<close>) and the commit it asks the forge client to build
  (\<open>githubForgeClient.ts\<close>).  GitHub is the parameter \<open>gh_api\<close>: a read returns the file at a reference or
  an error, a write returns the identifier of the new object or an error and may depend on the writes
  before it.  Every operation returns the writes it issued, in order, beside its result.
\<close>

section \<open>GitHub\<close>

record tree_entry =
  te_path :: string
  te_mode :: string
  te_sha :: "string option"

datatype gh_write =
    W_blob string
  | W_tree string "tree_entry list"
  | W_commit string string string "string \<times> string"
  | W_ref string string
  | W_pull string string string string

record gh_api =
  gh_read :: "string \<Rightarrow> string \<Rightarrow> string + string"
  gh_post :: "gh_write list \<Rightarrow> gh_write \<Rightarrow> string + string"
  gh_pull :: "gh_write list \<Rightarrow> gh_write \<Rightarrow> string + (string \<times> nat)"

datatype forge_error =
    NotImplementedError string
  | UnsupportedModeError string string
  | InvalidJobBranchError string
  | Forge_context diff_error
  | ForgeHttpError string

definition BLOB_MODE :: string where "BLOB_MODE = ''100644''"

definition SYMLINK_MODE :: string where "SYMLINK_MODE = ''120000''"

definition GITLINK_MODE :: string where "GITLINK_MODE = ''160000''"

definition resolveMode :: "diff_file_change \<Rightarrow> forge_error + string" where
  "resolveMode f = (case df_mode f of
     None \<Rightarrow> Inr BLOB_MODE
   | Some m \<Rightarrow> if m = SYMLINK_MODE \<or> m = GITLINK_MODE then Inl (UnsupportedModeError (df_path f) m)
               else if m = ''100755'' then Inr ''100755'' else Inr BLOB_MODE)"

definition branch_char :: "char \<Rightarrow> bool" where
  "branch_char c \<longleftrightarrow> is_alnum c \<or> c \<in> {CHR ''.'', CHR ''_'', CHR ''-''}"

definition job_branch_ok :: "string \<Rightarrow> bool" where
  "job_branch_ok b \<longleftrightarrow> prefix ''omadia/job-'' b \<and> drop 11 b \<noteq> [] \<and> list_all branch_char (drop 11 b) \<and>
     \<not> str_includes b ''..'' \<and> \<not> suffix ''.lock'' b"

record resolved_upsert =
  ru_path :: string
  ru_content :: string
  ru_mode :: string
  ru_deleteOld :: "string option"

record apply_diff_input =
  ad_baseSha :: string
  ad_branch :: string
  ad_message :: string
  ad_author :: "string \<times> string"
  ad_files :: "diff_file_change list"

record apply_diff_result =
  ar_commitSha :: string
  ar_treeSha :: string
  ar_branchRef :: string

section \<open>The forge client's applyDiff\<close>

fun prescan :: "diff_file_change list \<Rightarrow> forge_error option" where
  "prescan [] = None"
| "prescan (f # fs) =
     (if df_change f = Ch_delete then prescan fs
      else if df_binary f then Some (NotImplementedError (df_path f))
      else case resolveMode f of Inl e \<Rightarrow> Some e | Inr _ \<Rightarrow> prescan fs)"

definition base_content :: "gh_api \<Rightarrow> string \<Rightarrow> diff_file_change \<Rightarrow> string + string" where
  "base_content api sha f =
     (if df_change f = Ch_add then Inr []
      else gh_read api (case df_oldPath f of Some p \<Rightarrow> p | None \<Rightarrow> df_path f) sha)"

definition resolve_upsert :: "gh_api \<Rightarrow> string \<Rightarrow> diff_file_change \<Rightarrow> forge_error + resolved_upsert" where
  "resolve_upsert api sha f =
     (case base_content api sha f of
        Inl e \<Rightarrow> Inl (ForgeHttpError e)
      | Inr base \<Rightarrow>
          (case applyHunks base (df_hunks f) (Some (df_path f)) of
             Inl e \<Rightarrow> Inl (Forge_context e)
           | Inr content \<Rightarrow>
               (case resolveMode f of
                  Inl e \<Rightarrow> Inl e
                | Inr mode \<Rightarrow> Inr \<lparr>ru_path = df_path f, ru_content = content, ru_mode = mode,
                    ru_deleteOld = (case df_oldPath f of
                       Some p \<Rightarrow> if df_change f = Ch_rename \<and> p \<noteq> [] \<and> p \<noteq> df_path f then Some p else None
                     | None \<Rightarrow> None)\<rparr>)))"

text \<open>Phase 1: the files in order; the first failure ends the apply before any write.\<close>

fun resolve_files :: "gh_api \<Rightarrow> string \<Rightarrow> diff_file_change list \<Rightarrow> forge_error + (resolved_upsert list \<times> string list)" where
  "resolve_files api sha [] = Inr ([], [])"
| "resolve_files api sha (f # fs) =
     (if df_change f = Ch_delete then
        (case resolve_files api sha fs of Inl e \<Rightarrow> Inl e | Inr (us, ds) \<Rightarrow> Inr (us, df_path f # ds))
      else case resolve_upsert api sha f of
        Inl e \<Rightarrow> Inl e
      | Inr u \<Rightarrow> (case resolve_files api sha fs of Inl e \<Rightarrow> Inl e | Inr (us, ds) \<Rightarrow> Inr (u # us, ds)))"

definition deletion :: "string \<Rightarrow> tree_entry" where
  "deletion p = \<lparr>te_path = p, te_mode = BLOB_MODE, te_sha = None\<rparr>"

definition upsert_entries :: "resolved_upsert \<Rightarrow> string \<Rightarrow> tree_entry list" where
  "upsert_entries u sha = \<lparr>te_path = ru_path u, te_mode = ru_mode u, te_sha = Some sha\<rparr> #
     (case ru_deleteOld u of Some p \<Rightarrow> [deletion p] | None \<Rightarrow> [])"

fun post_blobs :: "gh_api \<Rightarrow> gh_write list \<Rightarrow> resolved_upsert list \<Rightarrow> gh_write list \<times> (forge_error + tree_entry list)" where
  "post_blobs api ws [] = (ws, Inr [])"
| "post_blobs api ws (u # us) =
     (case gh_post api ws (W_blob (ru_content u)) of
        Inl e \<Rightarrow> (ws @ [W_blob (ru_content u)], Inl (ForgeHttpError e))
      | Inr sha \<Rightarrow>
          (case post_blobs api (ws @ [W_blob (ru_content u)]) us of
             (ws', Inl e) \<Rightarrow> (ws', Inl e)
           | (ws', Inr es) \<Rightarrow> (ws', Inr (upsert_entries u sha @ es))))"

definition post :: "gh_api \<Rightarrow> gh_write list \<Rightarrow> gh_write \<Rightarrow> (gh_write list \<Rightarrow> string \<Rightarrow> gh_write list \<times> (forge_error + 'r))
    \<Rightarrow> gh_write list \<times> (forge_error + 'r)" where
  "post api ws w k = (case gh_post api ws w of
     Inl e \<Rightarrow> (ws @ [w], Inl (ForgeHttpError e))
   | Inr sha \<Rightarrow> k (ws @ [w]) sha)"

definition forge_applyDiff :: "gh_api \<Rightarrow> apply_diff_input \<Rightarrow> gh_write list \<times> (forge_error + apply_diff_result)" where
  "forge_applyDiff api inp =
     (case prescan (ad_files inp) of
        Some e \<Rightarrow> ([], Inl e)
      | None \<Rightarrow>
          (case resolve_files api (ad_baseSha inp) (ad_files inp) of
             Inl e \<Rightarrow> ([], Inl e)
           | Inr (us, ds) \<Rightarrow>
               (case post_blobs api [] us of
                  (ws, Inl e) \<Rightarrow> (ws, Inl e)
                | (ws, Inr es) \<Rightarrow>
                    post api ws (W_tree (ad_baseSha inp) (es @ List.map deletion ds)) (\<lambda>ws tree.
                    post api ws (W_commit (ad_message inp) tree (ad_baseSha inp) (ad_author inp)) (\<lambda>ws commit.
                    if \<not> job_branch_ok (ad_branch inp) then (ws, Inl (InvalidJobBranchError (ad_branch inp)))
                    else post api ws (W_ref (''refs/heads/'' @ ad_branch inp) commit) (\<lambda>ws _.
                      (ws, Inr \<lparr>ar_commitSha = commit, ar_treeSha = tree,
                                ar_branchRef = ''refs/heads/'' @ ad_branch inp\<rparr>)))))))"

section \<open>The uploaded numstat\<close>

definition parseInt :: "string \<Rightarrow> int option" where
  "parseInt s =
     (let t = dropWhile is_space s;
          neg = (case t of c # _ \<Rightarrow> c = CHR ''-'' | [] \<Rightarrow> False);
          u = (case t of c # cs \<Rightarrow> if c = CHR ''-'' \<or> c = CHR ''+'' then cs else t | [] \<Rightarrow> []);
          ds = takeWhile is_digit u
      in if ds = [] then None else Some ((if neg then -1 else 1) * int (nat_of_digits ds)))"

definition count_of :: "string \<Rightarrow> int" where
  "count_of s = (case parseInt s of Some n \<Rightarrow> n | None \<Rightarrow> 0)"

text \<open>The fields of the rows that count: rows that are blank or have fewer than three fields are skipped.\<close>

definition numstat_rows :: "string \<Rightarrow> string list list" where
  "numstat_rows numstat =
     filter (\<lambda>parts. 3 \<le> length parts)
       (List.map (split_char CHR 0x09)
         (filter (\<lambda>l. trim l \<noteq> []) (List.map strip_cr (split_char CHR 0x0A numstat))))"

definition parseNumstatEntries :: "string \<Rightarrow> numstat_entry list" where
  "parseNumstatEntries numstat =
     List.map (\<lambda>parts. let a = parts ! 0; d = parts ! 1 in
       \<lparr>ns_path = join_with [CHR 0x09] (drop 2 parts),
        ns_additions = (if a = ''-'' then 0 else count_of a), ns_deletions = (if d = ''-'' then 0 else count_of d),
        ns_binary = (a = ''-'' \<and> d = ''-'')\<rparr>) (numstat_rows numstat)"

definition numstatTotals :: "string \<Rightarrow> nat \<times> int \<times> int" where
  "numstatTotals numstat =
     (let rows = numstat_rows numstat in
      (length rows,
       sum_list (List.map (\<lambda>parts. if parts ! 0 = ''-'' then 0 else count_of (parts ! 0)) rows),
       sum_list (List.map (\<lambda>parts. if parts ! 1 = ''-'' then 0 else count_of (parts ! 1)) rows)))"

definition diffTotals :: "diff_file_change list \<Rightarrow> nat \<times> int \<times> int" where
  "diffTotals files = (length files, int (sum_list (List.map df_additions files)), int (sum_list (List.map df_deletions files)))"

section \<open>The apply service\<close>

definition is_letter :: "char \<Rightarrow> bool" where
  "is_letter c \<longleftrightarrow> is_upper c \<or> is_lower c"

definition windows_absolute :: "string \<Rightarrow> bool" where
  "windows_absolute p = (case p of
     a # b # c # _ \<Rightarrow> is_letter a \<and> b = CHR '':'' \<and> (c = CHR 0x5C \<or> c = CHR ''/'')
   | _ \<Rightarrow> False)"

definition isRepoRelative :: "string \<Rightarrow> bool" where
  "isRepoRelative p \<longleftrightarrow> p \<noteq> [] \<and> \<not> prefix ''/'' p \<and> \<not> prefix [CHR 0x5C] p \<and> \<not> windows_absolute p \<and>
     list_all (\<lambda>seg. seg \<noteq> ''..'' \<and> toLowerCase seg \<noteq> ''.git'') (split_char CHR ''/'' p)"

datatype diff_apply_error =
    Numstat_mismatch string
  | Path_escape string
  | Policy_deny string policy_verdict
  | Policy_gate string policy_verdict
  | Diff_unparsable diff_error
  | Forge_failed forge_error

record apply_input =
  ai_branch :: string
  ai_baseSha :: string
  ai_defaultBranch :: string
  ai_diff :: string
  ai_numstat :: string
  ai_prTitle :: string
  ai_prBody :: string
  ai_policyOverrides :: "diff_policy_overrides option"
  ai_trackerComments :: "string list option"
  ai_jobTokens :: "string list option"
  ai_operatorApprovedGate :: bool

record apply_result =
  res_prUrl :: string
  res_prNumber :: nat
  res_commitSha :: string
  res_branch :: string

definition statString :: "nat \<times> int \<times> int \<Rightarrow> string" where
  "statString s = (case s of (f, a, d) \<Rightarrow>
     show_nat f @ '' files, +'' @ show_int a @ '', -'' @ show_int d)"

definition policyMessage :: "string \<Rightarrow> policy_verdict \<Rightarrow> string" where
  "policyMessage disposition v =
     (let rules = join_with '', '' (List.map pf_ruleId (pv_findings v))
      in ''diff '' @ disposition @ '' by policy ('' @ (if rules = [] then ''policy'' else rules) @ '')'')"

definition touched_paths :: "diff_file_change list \<Rightarrow> string list" where
  "touched_paths files = concat (List.map (\<lambda>f. df_path f # (case df_oldPath f of Some p \<Rightarrow> [p] | None \<Rightarrow> [])) files)"

definition policy_input :: "apply_input \<Rightarrow> diff_policy_input" where
  "policy_input inp = \<lparr>dp_diff = ai_diff inp, dp_numstat = parseNumstatEntries (ai_numstat inp),
     dp_prBody = Some (ai_prBody inp), dp_trackerComments = Some (or_else (ai_trackerComments inp) []),
     dp_policyOverrides = ai_policyOverrides inp, dp_jobTokens = or_else (ai_jobTokens inp) [],
     dp_operatorApprovedGate = ai_operatorApprovedGate inp\<rparr>"

definition forge_input :: "string \<times> string \<Rightarrow> apply_input \<Rightarrow> diff_file_change list \<Rightarrow> apply_diff_input" where
  "forge_input author inp files = \<lparr>ad_baseSha = ai_baseSha inp, ad_branch = ai_branch inp,
     ad_message = ai_prTitle inp, ad_author = author, ad_files = files\<rparr>"

text \<open>The checks before the forge is asked: the files to commit, or the refusal.\<close>

definition vet_diff :: "apply_input \<Rightarrow> diff_apply_error + diff_file_change list" where
  "vet_diff inp =
     (case parseUnifiedDiffDetailed (ai_diff inp) of
        Inl e \<Rightarrow> Inl (Diff_unparsable e)
      | Inr files \<Rightarrow>
          if diffTotals files \<noteq> numstatTotals (ai_numstat inp)
          then Inl (Numstat_mismatch (''parsed diff totals ('' @ statString (diffTotals files) @
                 '') do not match uploaded numstat ('' @ statString (numstatTotals (ai_numstat inp)) @ '')''))
          else (case List.find (\<lambda>p. \<not> isRepoRelative p) (touched_paths files) of
            Some p \<Rightarrow> Inl (Path_escape (''refusing diff: path escapes repository: '' @ p))
          | None \<Rightarrow>
              (case evaluateDiffPolicy (policy_input inp) of
                 Inl e \<Rightarrow> Inl (Diff_unparsable e)
               | Inr v \<Rightarrow>
                   (case pv_decision v of
                      Deny \<Rightarrow> Inl (Policy_deny (policyMessage ''denied'' v) v)
                    | Gate \<Rightarrow> Inl (Policy_gate (policyMessage ''gated'' v) v)
                    | Allow \<Rightarrow> Inr files))))"

definition apply_service :: "gh_api \<Rightarrow> string \<times> string \<Rightarrow> apply_input \<Rightarrow> gh_write list \<times> (diff_apply_error + apply_result)" where
  "apply_service api author inp =
     (case vet_diff inp of
        Inl e \<Rightarrow> ([], Inl e)
      | Inr files \<Rightarrow>
          (case forge_applyDiff api (forge_input author inp files) of
             (ws, Inl e) \<Rightarrow> (ws, Inl (Forge_failed e))
           | (ws, Inr r) \<Rightarrow>
               (let w = W_pull (ai_branch inp) (ai_defaultBranch inp) (ai_prTitle inp) (ai_prBody inp) in
                case gh_pull api ws w of
                  Inl e \<Rightarrow> (ws @ [w], Inl (Forge_failed (ForgeHttpError e)))
                | Inr (url, n) \<Rightarrow>
                    (ws @ [w], Inr \<lparr>res_prUrl = url, res_prNumber = n, res_commitSha = ar_commitSha r,
                                    res_branch = ai_branch inp\<rparr>))))"

section \<open>What reaches GitHub\<close>

lemma post_blobs_writes:
  "post_blobs api ws us = (ws', r) \<Longrightarrow>
     (\<exists>k \<le> length us. ws' = ws @ List.map (W_blob \<circ> ru_content) (take k us)) \<and>
     (\<forall>es. r = Inr es \<longrightarrow> ws' = ws @ List.map (W_blob \<circ> ru_content) us \<and>
        (\<exists>shas. length shas = length us \<and> es = concat (List.map2 upsert_entries us shas)))"
proof (induction us arbitrary: ws ws' r)
  case (Cons u us)
  let ?w = "W_blob (ru_content u)"
  show ?case
  proof (cases "gh_post api ws ?w")
    case (Inl e)
    then have "ws' = ws @ List.map (W_blob \<circ> ru_content) (take 1 (u # us))" "\<forall>es. r \<noteq> Inr es" using Cons.prems by auto
    then show ?thesis by (metis One_nat_def Suc_leI length_greater_0_conv list.distinct(1))
  next
    case (Inr sha)
    obtain ws1 r1 where p: "post_blobs api (ws @ [?w]) us = (ws1, r1)" by (cases "post_blobs api (ws @ [?w]) us")
    have res: "ws' = ws1" "r = (case r1 of Inl e \<Rightarrow> Inl e | Inr es \<Rightarrow> Inr (upsert_entries u sha @ es))"
      using Cons.prems Inr p by (auto split: sum.splits)
    from Cons.IH[OF p] obtain k where k: "k \<le> length us" "ws1 = (ws @ [?w]) @ List.map (W_blob \<circ> ru_content) (take k us)"
      by blast
    have "ws' = ws @ List.map (W_blob \<circ> ru_content) (take (Suc k) (u # us)) \<and> Suc k \<le> length (u # us)"
      using k res by simp
    moreover have "ws' = ws @ List.map (W_blob \<circ> ru_content) (u # us) \<and>
        (\<exists>shas. length shas = length (u # us) \<and> es = concat (List.map2 upsert_entries (u # us) shas))"
      if r: "r = Inr es" for es
    proof -
      obtain es1 where es1: "r1 = Inr es1" "es = upsert_entries u sha @ es1" using r res by (auto split: sum.splits)
      from Cons.IH[OF p] es1 obtain shas where "length shas = length us" "es1 = concat (List.map2 upsert_entries us shas)"
        "ws1 = (ws @ [?w]) @ List.map (W_blob \<circ> ru_content) us" by blast
      then show ?thesis using es1(2) res(1) by (auto intro!: exI[of _ "sha # shas"])
    qed
    ultimately show ?thesis by blast
  qed
qed simp

text \<open>The files that become blobs, each with its base and the patched text.\<close>

lemma resolve_upsert_spec:
  "resolve_upsert api sha f = Inr u \<Longrightarrow>
     (\<exists>base. base_content api sha f = Inr base \<and> applyHunks base (df_hunks f) (Some (df_path f)) = Inr (ru_content u)) \<and>
     ru_path u = df_path f \<and> resolveMode f = Inr (ru_mode u)"
  by (auto simp: resolve_upsert_def split: sum.splits)

lemma resolve_files_spec:
  "resolve_files api sha fs = Inr (us, ds) \<Longrightarrow>
     list_all2 (\<lambda>f u. resolve_upsert api sha f = Inr u) (filter (\<lambda>f. df_change f \<noteq> Ch_delete) fs) us \<and>
     ds = List.map df_path (filter (\<lambda>f. df_change f = Ch_delete) fs)"
  by (induction fs arbitrary: us ds) (auto split: if_splits sum.splits)

lemma prescan_None:
  "prescan fs = None \<longleftrightarrow> (\<forall>f \<in> set fs. df_change f \<noteq> Ch_delete \<longrightarrow> \<not> df_binary f \<and> (\<exists>m. resolveMode f = Inr m))"
  by (induction fs) (auto split: sum.splits)

lemma resolveMode_ok:
  "(\<exists>m. resolveMode f = Inr m) \<longleftrightarrow> df_mode f \<noteq> Some SYMLINK_MODE \<and> df_mode f \<noteq> Some GITLINK_MODE"
  by (auto simp: resolveMode_def split: option.splits)

lemma post_writes:
  assumes "post api ws w k = (ws', r)"
  shows "(ws' = ws @ [w] \<and> (\<exists>e. r = Inl e)) \<or> (\<exists>sha. gh_post api ws w = Inr sha \<and> k (ws @ [w]) sha = (ws', r))"
  using assms by (auto simp: post_def split: sum.splits)

definition blob_writes :: "resolved_upsert list \<Rightarrow> gh_write list" where
  "blob_writes us = List.map (W_blob \<circ> ru_content) us"

lemma forge_shape:
  assumes "forge_applyDiff api inp = (ws, r)"
  shows "(ws = [] \<and> (\<exists>e. r = Inl e)) \<or>
    (prescan (ad_files inp) = None \<and>
     (\<exists>us ds. resolve_files api (ad_baseSha inp) (ad_files inp) = Inr (us, ds) \<and>
       (\<forall>c. W_blob c \<in> set ws \<longrightarrow> c \<in> ru_content ` set us) \<and>
       (\<forall>res. r = Inr res \<longrightarrow> job_branch_ok (ad_branch inp) \<and>
          (\<exists>shas. length shas = length us \<and>
             ws = blob_writes us @
               [W_tree (ad_baseSha inp) (concat (List.map2 upsert_entries us shas) @ List.map deletion ds),
                W_commit (ad_message inp) (ar_treeSha res) (ad_baseSha inp) (ad_author inp),
                W_ref (''refs/heads/'' @ ad_branch inp) (ar_commitSha res)]))))"
proof (cases "prescan (ad_files inp)")
  case (Some e)
  then show ?thesis using assms by (auto simp: forge_applyDiff_def)
next
  case pre: None
  show ?thesis
  proof (cases "resolve_files api (ad_baseSha inp) (ad_files inp)")
    case (Inl e)
    then show ?thesis using assms pre by (auto simp: forge_applyDiff_def)
  next
    case res: (Inr usds)
    obtain us ds where ud: "usds = (us, ds)" by (cases usds)
    obtain ws0 r0 where p: "post_blobs api [] us = (ws0, r0)" by (cases "post_blobs api [] us")
    from post_blobs_writes[OF p] obtain k where "ws0 = List.map (W_blob \<circ> ru_content) (take k us)" by auto
    then have sub: "set ws0 \<subseteq> (W_blob \<circ> ru_content) ` set us"
      using image_mono[OF set_take_subset[of k us]] by simp
    show ?thesis
    proof (cases r0)
      case (Inl e)
      then have "ws = ws0" "r = Inl e" using assms pre res ud p by (auto simp: forge_applyDiff_def)
      then show ?thesis using pre res ud sub by auto
    next
      case (Inr es)
      from post_blobs_writes[OF p] Inr obtain shas where shas: "length shas = length us"
        "es = concat (List.map2 upsert_entries us shas)" "ws0 = blob_writes us"
        by (auto simp: blob_writes_def)
      let ?t = "W_tree (ad_baseSha inp) (es @ List.map deletion ds)"
      have eq: "(ws, r) = post api ws0 ?t (\<lambda>ws tree.
                    post api ws (W_commit (ad_message inp) tree (ad_baseSha inp) (ad_author inp)) (\<lambda>ws commit.
                    if \<not> job_branch_ok (ad_branch inp) then (ws, Inl (InvalidJobBranchError (ad_branch inp)))
                    else post api ws (W_ref (''refs/heads/'' @ ad_branch inp) commit) (\<lambda>ws _.
                      (ws, Inr \<lparr>ar_commitSha = commit, ar_treeSha = tree,
                                ar_branchRef = ''refs/heads/'' @ ad_branch inp\<rparr>))))"
        using assms pre res ud p Inr by (simp add: forge_applyDiff_def)
      have blobs: "\<forall>c. W_blob c \<in> set ws \<longrightarrow> c \<in> ru_content ` set us"
        using eq sub by (auto simp: post_def split: sum.splits if_splits)
      have "job_branch_ok (ad_branch inp) \<and> ws = ws0 @ [?t,
                W_commit (ad_message inp) (ar_treeSha res) (ad_baseSha inp) (ad_author inp),
                W_ref (''refs/heads/'' @ ad_branch inp) (ar_commitSha res)]" if "r = Inr res" for res
        using eq that by (auto simp: post_def split: sum.splits if_splits)
      then show ?thesis using pre res ud blobs shas by blast
    qed
  qed
qed

lemma list_all2_left: "\<lbrakk>list_all2 P xs ys; x \<in> set xs\<rbrakk> \<Longrightarrow> \<exists>y \<in> set ys. P x y"
  by (induction rule: list_all2_induct) auto

lemma list_all2_right: "\<lbrakk>list_all2 P xs ys; y \<in> set ys\<rbrakk> \<Longrightarrow> \<exists>x \<in> set xs. P x y"
  by (induction rule: list_all2_induct) auto

lemma find_None_all: "List.find P xs = None \<longleftrightarrow> list_all (\<lambda>x. \<not> P x) xs"
  by (induction xs) auto

lemma vet_iff:
  "vet_diff inp = Inr files \<longleftrightarrow>
     parseUnifiedDiffDetailed (ai_diff inp) = Inr files \<and>
     diffTotals files = numstatTotals (ai_numstat inp) \<and>
     list_all isRepoRelative (touched_paths files) \<and>
     (\<exists>v. evaluateDiffPolicy (policy_input inp) = Inr v \<and> pv_decision v = Allow)"
proof -
  have found: "List.find (\<lambda>p. \<not> isRepoRelative p) ps = Some p \<Longrightarrow> \<not> list_all isRepoRelative ps" for p ps
    by (induction ps) (auto split: if_splits)
  show ?thesis
    by (auto simp: vet_diff_def find_None_all dest: found
        split: sum.splits if_splits option.splits policy_decision.splits)
qed

lemma service_shape:
  assumes "apply_service api author inp = (ws, r)"
  shows "(ws = [] \<and> (\<exists>e. r = Inl e)) \<or>
    (\<exists>files us ds. vet_diff inp = Inr files \<and> prescan files = None \<and>
       resolve_files api (ai_baseSha inp) files = Inr (us, ds) \<and>
       (\<forall>c. W_blob c \<in> set ws \<longrightarrow> c \<in> ru_content ` set us))"
proof (cases "vet_diff inp")
  case (Inl e)
  then show ?thesis using assms by (auto simp: apply_service_def)
next
  case (Inr files)
  obtain ws0 r0 where f: "forge_applyDiff api (forge_input author inp files) = (ws0, r0)"
    by (cases "forge_applyDiff api (forge_input author inp files)")
  have ws: "ws = ws0 \<and> (\<forall>e. r0 = Inl e \<longrightarrow> r = Inl (Forge_failed e)) \<or> (\<exists>a b c d. ws = ws0 @ [W_pull a b c d] \<and> (\<exists>x. r0 = Inr x))"
    using assms Inr f by (auto simp: apply_service_def Let_def split: sum.splits)
  from forge_shape[OF f] consider "ws0 = []" "\<exists>e. r0 = Inl e"
    | us ds where "prescan files = None" "resolve_files api (ai_baseSha inp) files = Inr (us, ds)"
      "\<forall>c. W_blob c \<in> set ws0 \<longrightarrow> c \<in> ru_content ` set us"
    by (auto simp: forge_input_def)
  then show ?thesis
  proof cases
    case 1
    then show ?thesis using ws by auto
  next
    case (2 us ds)
    then have "\<forall>c. W_blob c \<in> set ws \<longrightarrow> c \<in> ru_content ` set us" using ws by auto
    then show ?thesis using Inr 2(1,2) by blast
  qed
qed

text \<open>C2: nothing is written to the forge unless the diff was allowed: any write at all means that the
  diff parsed, its totals equal the uploaded numstat, every touched path stays in the repository, the
  policy's verdict is an allowance, and every file to store is text with an ordinary mode whose hunks
  fit the pinned base.\<close>

theorem write_only_when_allowed:
  assumes "fst (apply_service api author inp) \<noteq> []"
  shows "\<exists>files. parseUnifiedDiffDetailed (ai_diff inp) = Inr files \<and>
    diffTotals files = numstatTotals (ai_numstat inp) \<and> list_all isRepoRelative (touched_paths files) \<and>
    (\<exists>v. evaluateDiffPolicy (policy_input inp) = Inr v \<and> pv_decision v = Allow) \<and>
    (\<forall>f \<in> set files. df_change f \<noteq> Ch_delete \<longrightarrow>
       \<not> df_binary f \<and> df_mode f \<noteq> Some SYMLINK_MODE \<and> df_mode f \<noteq> Some GITLINK_MODE \<and>
       (\<exists>base content. base_content api (ai_baseSha inp) f = Inr base \<and>
          applyHunks base (df_hunks f) (Some (df_path f)) = Inr content))"
proof -
  obtain ws r where "apply_service api author inp = (ws, r)" by fastforce
  then obtain files us ds where v: "vet_diff inp = Inr files" "prescan files = None"
    "resolve_files api (ai_baseSha inp) files = Inr (us, ds)"
    using service_shape assms by fastforce
  have fit: "\<exists>base content. base_content api (ai_baseSha inp) f = Inr base \<and>
      applyHunks base (df_hunks f) (Some (df_path f)) = Inr content"
    if "f \<in> set files" "df_change f \<noteq> Ch_delete" for f
  proof -
    have "f \<in> set (filter (\<lambda>f. df_change f \<noteq> Ch_delete) files)" using that by simp
    then obtain u where "resolve_upsert api (ai_baseSha inp) f = Inr u"
      using list_all2_left[OF conjunct1[OF resolve_files_spec[OF v(3)]]] by blast
    then show ?thesis using resolve_upsert_spec by blast
  qed
  have "\<forall>f \<in> set files. df_change f \<noteq> Ch_delete \<longrightarrow>
       \<not> df_binary f \<and> df_mode f \<noteq> Some SYMLINK_MODE \<and> df_mode f \<noteq> Some GITLINK_MODE"
    using v(2) resolveMode_ok unfolding prescan_None by blast
  then show ?thesis using vet_iff[THEN iffD1, OF v(1)] fit by blast
qed

text \<open>What lands is what was reviewed: every blob the apply writes is the specified patch of the file's
  content at the pinned base, by the hunks of a file of the parsed diff that the policy allowed.\<close>

theorem blobs_are_reviewed_patches:
  assumes "W_blob c \<in> set (fst (apply_service api author inp))"
  shows "\<exists>files f base out. parseUnifiedDiffDetailed (ai_diff inp) = Inr files \<and> f \<in> set files \<and>
    (\<exists>v. evaluateDiffPolicy (policy_input inp) = Inr v \<and> pv_decision v = Allow) \<and>
    base_content api (ai_baseSha inp) f = Inr base \<and> edits 0 (splitLines base) (df_hunks f) out \<and>
    c = render_lines out (marks_new_side None (concat (List.map dh_lines (df_hunks f))))"
proof -
  obtain ws r where a: "apply_service api author inp = (ws, r)" by fastforce
  then obtain files us ds u where v: "vet_diff inp = Inr files"
    "resolve_files api (ai_baseSha inp) files = Inr (us, ds)" "u \<in> set us" "c = ru_content u"
    using service_shape[OF a] assms by fastforce
  obtain f where f: "f \<in> set files" "resolve_upsert api (ai_baseSha inp) f = Inr u"
    using list_all2_right[OF conjunct1[OF resolve_files_spec[OF v(2)]] v(3)] by auto
  obtain base where b: "base_content api (ai_baseSha inp) f = Inr base"
    "applyHunks base (df_hunks f) (Some (df_path f)) = Inr c"
    using resolve_upsert_spec[OF f(2)] v(4) by blast
  show ?thesis using vet_iff[THEN iffD1, OF v(1)] f(1) b(1) b(2)[unfolded applyHunks_edits] by blast
qed

text \<open>A returned pull request means one fresh job branch with exactly one commit on the pinned base:
  the writes are the blobs, a tree over the base, a commit whose only parent is the base, a new reference
  under the job prefix, and the pull request from it.\<close>

theorem pull_request_shape:
  assumes "apply_service api author inp = (ws, Inr res)"
  shows "job_branch_ok (ai_branch inp) \<and> res_branch res = ai_branch inp \<and>
    (\<exists>(us :: resolved_upsert list) entries tree. ws = List.map (W_blob \<circ> ru_content) us @
       [W_tree (ai_baseSha inp) entries,
        W_commit (ai_prTitle inp) tree (ai_baseSha inp) author,
        W_ref (''refs/heads/'' @ ai_branch inp) (res_commitSha res),
        W_pull (ai_branch inp) (ai_defaultBranch inp) (ai_prTitle inp) (ai_prBody inp)])"
proof -
  obtain files where v: "vet_diff inp = Inr files"
    using assms by (auto simp: apply_service_def split: sum.splits)
  obtain ws0 r0 where f: "forge_applyDiff api (forge_input author inp files) = (ws0, r0)"
    by (cases "forge_applyDiff api (forge_input author inp files)")
  obtain x where r: "r0 = Inr x" "res_commitSha res = ar_commitSha x" "res_branch res = ai_branch inp"
    "ws = ws0 @ [W_pull (ai_branch inp) (ai_defaultBranch inp) (ai_prTitle inp) (ai_prBody inp)]"
    using assms v f by (auto simp: apply_service_def Let_def split: sum.splits)
  from forge_shape[OF f] obtain us ds shas where u: "job_branch_ok (ai_branch inp)"
    "ws0 = List.map (W_blob \<circ> ru_content) us @
       [W_tree (ai_baseSha inp) (concat (List.map2 upsert_entries us shas) @ List.map deletion ds),
        W_commit (ai_prTitle inp) (ar_treeSha x) (ai_baseSha inp) author,
        W_ref (''refs/heads/'' @ ai_branch inp) (ar_commitSha x)]"
    using r(1) unfolding forge_input_def blob_writes_def apply_diff_input.simps by blast
  then have "ws = List.map (W_blob \<circ> ru_content) us @
       [W_tree (ai_baseSha inp) (concat (List.map2 upsert_entries us shas) @ List.map deletion ds),
        W_commit (ai_prTitle inp) (ar_treeSha x) (ai_baseSha inp) author,
        W_ref (''refs/heads/'' @ ai_branch inp) (res_commitSha res),
        W_pull (ai_branch inp) (ai_defaultBranch inp) (ai_prTitle inp) (ai_prBody inp)]"
    using r by simp
  then show ?thesis using u(1) r(3) by blast
qed

text \<open>The numstat cross-check subsumes the integrity gate: once the totals agree, the policy's
  diff-integrity rule has nothing to report, whatever rows the runner uploaded.\<close>

theorem integrity_rule_subsumed:
  assumes "diffTotals files = numstatTotals numstat"
  shows "checkIntegrity files (parseNumstatEntries numstat) = []"
proof -
  have "uploaded_additions (parseNumstatEntries numstat) = fst (snd (numstatTotals numstat))"
    "uploaded_deletions (parseNumstatEntries numstat) = snd (snd (numstatTotals numstat))"
    "length (parseNumstatEntries numstat) = fst (numstatTotals numstat)"
    by (auto simp: uploaded_additions_def uploaded_deletions_def parseNumstatEntries_def numstatTotals_def
        Let_def comp_def intro!: arg_cong[where f = sum_list] map_cong)
  then show ?thesis using assms[symmetric] by (simp add: checkIntegrity_def stats_of_def diffTotals_def)
qed

section \<open>A concrete apply\<close>

definition example_api :: gh_api where
  "example_api = \<lparr>gh_read = (\<lambda>p sha. Inr (join_with newline [''a'', ''c'', []])),
     gh_post = (\<lambda>ws w. Inr (''sha'' @ show_nat (length ws))), gh_pull = (\<lambda>ws w. Inr (''https://pr'', 7))\<rparr>"

definition example_apply :: apply_input where
  "example_apply = \<lparr>ai_branch = ''omadia/job-1'', ai_baseSha = ''base'', ai_defaultBranch = ''main'',
     ai_diff = example_diff, ai_numstat = join_with [CHR 0x09] [''2'', ''1'', ''f''], ai_prTitle = ''t'', ai_prBody = ''b'',
     ai_policyOverrides = None, ai_trackerComments = None, ai_jobTokens = None, ai_operatorApprovedGate = False\<rparr>"

definition example_writes :: "gh_write list" where
  "example_writes = [W_blob (join_with newline [''b'', ''d'', ''c'', []]),
     W_tree ''base'' [\<lparr>te_path = ''f'', te_mode = ''100644'', te_sha = Some ''sha0''\<rparr>],
     W_commit ''t'' ''sha1'' ''base'' (''n'', ''e''), W_ref ''refs/heads/omadia/job-1'' ''sha2'',
     W_pull ''omadia/job-1'' ''main'' ''t'' ''b'']"

definition example_result :: apply_result where
  "example_result = \<lparr>res_prUrl = ''https://pr'', res_prNumber = 7, res_commitSha = ''sha2'', res_branch = ''omadia/job-1''\<rparr>"

lemma example_apply_run: "apply_service example_api (''n'', ''e'') example_apply = (example_writes, Inr example_result)"
  by code_simp

lemma write_only_when_allowed_witness:
  "\<exists>files. parseUnifiedDiffDetailed (ai_diff example_apply) = Inr files \<and> list_all isRepoRelative (touched_paths files)"
proof -
  have "fst (apply_service example_api (''n'', ''e'') example_apply) \<noteq> []"
    by (simp add: example_apply_run example_writes_def)
  from write_only_when_allowed[OF this] show ?thesis by blast
qed

lemma blobs_are_reviewed_witness:
  "\<exists>(f :: diff_file_change) base out. edits 0 (splitLines base) (df_hunks f) out \<and>
     join_with newline [''b'', ''d'', ''c'', []] = render_lines out (marks_new_side None (concat (List.map dh_lines (df_hunks f))))"
proof -
  have "W_blob (join_with newline [''b'', ''d'', ''c'', []]) \<in> set (fst (apply_service example_api (''n'', ''e'') example_apply))"
    by (simp add: example_apply_run example_writes_def)
  from blobs_are_reviewed_patches[OF this] show ?thesis by blast
qed

lemma pull_request_witness: "job_branch_ok ''omadia/job-1'' \<and> res_branch example_result = ''omadia/job-1''"
  using pull_request_shape[OF example_apply_run] by (simp add: example_apply_def)

lemma integrity_rule_witness:
  "checkIntegrity [example_change] (parseNumstatEntries (join_with [CHR 0x09] [''2'', ''1'', ''f''])) = []"
proof -
  have "diffTotals [example_change] = numstatTotals (join_with [CHR 0x09] [''2'', ''1'', ''f''])" by code_simp
  then show ?thesis by (rule integrity_rule_subsumed)
qed

end
