(* ===== verification/JobWorker.thy ===== *)
theory JobWorker
  imports Lifecycle DiffApply PhaseEngine
begin

text \<open>
  The in-process control loop (\<open>devJobWorker.ts\<close>, \<open>devJobWorkerPolicy.ts\<close>) and the wiring's disposition
  of a diff-policy verdict (\<open>wireDevPlatform.ts\<close>).  The runner backends, GitHub, the minting of tokens
  and identifiers and the texts of foreign errors are the record \<open>worker_env\<close>; the worker's state is the
  database, the writes GitHub received, the effects of its finalizers, the set of jobs being applied and
  the number of leases minted.
\<close>

section \<open>Pure helpers\<close>

definition NUMSTAT_MARKER :: string where
  "NUMSTAT_MARKER = newline @ ''===OMADIA-DEV-RUNNER-NUMSTAT-V1==='' @ newline"

definition splitDiffBundle :: "string \<Rightarrow> string \<times> string" where
  "splitDiffBundle bundle =
     (case index_of bundle NUMSTAT_MARKER of
        None \<Rightarrow> (bundle, [])
      | Some i \<Rightarrow> (take i bundle, drop (i + length NUMSTAT_MARKER) bundle))"

definition isHostSideApplyPhase :: "dev_job_status \<Rightarrow> bool" where
  "isHostSideApplyPhase s \<longleftrightarrow> s = St_applying"

datatype worker_error =
    DevJobWorkerError string string
  | RunnerBackendError string string bool
  | Worker_store store_error
  | Worker_gate gate_error
  | Worker_apply diff_apply_error

definition isRetryableProvisionError :: "worker_error \<Rightarrow> bool" where
  "isRetryableProvisionError e = (case e of RunnerBackendError _ _ retryable \<Rightarrow> retryable | _ \<Rightarrow> False)"

definition assertAuthModeAdmissible :: "dev_job \<Rightarrow> dev_repo \<Rightarrow> bool \<Rightarrow> worker_error option" where
  "assertAuthModeAdmissible job repo subscriptionModeEnabled =
     (if j_authMode job \<noteq> Auth_subscription then None
      else if \<not> subscriptionModeEnabled
      then Some (DevJobWorkerError ''devplatform.subscription_disabled'' ''subscription auth mode is disabled'')
      else if rp_runsTests repo
      then Some (DevJobWorkerError ''devplatform.subscription_requires_no_exec''
                   ''subscription auth mode requires a repo whose tests do not execute'')
      else if j_source job \<noteq> Src_admin
      then Some (DevJobWorkerError ''devplatform.subscription_operator_only'' ''subscription auth mode is admin-only'')
      else if j_backend job = Be_fly
      then Some (DevJobWorkerError ''devplatform.subscription_backend_unsupported''
                   ''subscription auth mode is not supported on the fly backend'')
      else None)"

definition defaultBranchName :: "dev_job \<Rightarrow> string" where
  "defaultBranchName job =
     (let id8 = take 8 (filter is_alnum (j_id job)) in ''omadia/job-'' @ (if id8 = [] then ''job'' else id8))"

definition prTitle :: "dev_job \<Rightarrow> string" where
  "prTitle job =
     (let first = trim (hd (split_char CHR 0x0A (j_brief job))) in
      if first \<noteq> [] then take 72 first
      else dev_job_kind_name (j_kind job) @ '' job '' @ take 8 (j_id job))"

definition prBody :: "dev_job \<Rightarrow> dev_repo \<Rightarrow> string" where
  "prBody job repo = join_with newline
     ([''Automated change from the omadia dev platform ('' @ dev_job_kind_name (j_kind job) @ '').'', [],
       ''- Repository: '' @ rp_owner repo @ ''/'' @ rp_name repo, ''- Job: '' @ j_id job] @
      (case j_sourceRef job of Some r \<Rightarrow> if r = [] then [] else [''- Source: '' @ r] | None \<Rightarrow> []))"

definition jobTokensFor :: "dev_job \<Rightarrow> string list" where
  "jobTokensFor job = []"

section \<open>Environment and state\<close>

record provision_context =
  pc_jobId :: string
  pc_jobToken :: string
  pc_source :: dev_job_source
  pc_runsTests :: bool

record runner_backend =
  bk_kind :: runner_backend_kind
  bk_provision :: "provision_context \<Rightarrow> worker_error + runner_handle"
  bk_terminate_throws :: "runner_handle \<Rightarrow> bool"
  bk_reap :: "worker_error + runner_handle list"

record worker_env =
  we_backends :: "runner_backend list"
  we_forge :: gh_api
  we_author :: "string \<times> string"
  we_revokers :: "nat list"
  we_revoke_throws :: "nat \<Rightarrow> dev_job \<Rightarrow> bool"
  we_mint :: "dev_job \<Rightarrow> string \<times> string"
  we_resolveSha :: "dev_job \<Rightarrow> dev_repo \<Rightarrow> worker_error + string option"
  we_lease :: "nat \<Rightarrow> string"
  we_newId :: "dev_db \<Rightarrow> string"
  we_ceiling :: "artifact_ceiling_options option"
  we_verdict_text :: "policy_verdict \<Rightarrow> string"
  we_message :: "worker_error \<Rightarrow> string"
  we_maxConcurrent :: "int option"
  we_wallClockMs :: int
  we_heartbeatTimeoutMs :: int
  we_subscriptionModeEnabled :: bool

record worker_state =
  ww_db :: dev_db
  ww_writes :: "gh_write list"
  ww_effects :: "finalize_effect list"
  ww_applying :: "string list"
  ww_leases :: nat
  ww_ticking :: bool

definition DEFAULT_MAX_CONCURRENT_JOBS :: int where "DEFAULT_MAX_CONCURRENT_JOBS = 1"

definition errText :: "worker_env \<Rightarrow> worker_error \<Rightarrow> string" where
  "errText env e = (case e of
     DevJobWorkerError c m \<Rightarrow> c @ '': '' @ m
   | RunnerBackendError c m _ \<Rightarrow> c @ '': '' @ m
   | _ \<Rightarrow> we_message env e)"

text \<open>The constructor refuses two backends of one kind.\<close>

fun register_backends :: "runner_backend list \<Rightarrow> worker_error + runner_backend list" where
  "register_backends [] = Inr []"
| "register_backends (b # bs) =
     (case register_backends bs of
        Inl e \<Rightarrow> Inl e
      | Inr rs \<Rightarrow>
          if bk_kind b \<in> bk_kind ` set rs
          then Inl (DevJobWorkerError ''devplatform.duplicate_backend''
                 (''two backends registered for kind '' @ squote (runner_backend_kind_name (bk_kind b))))
          else Inr (b # rs))"

definition backend_for :: "worker_env \<Rightarrow> runner_backend_kind \<Rightarrow> runner_backend option" where
  "backend_for env k = List.find (\<lambda>b. bk_kind b = k) (we_backends env)"

definition terminateHandle :: "worker_env \<Rightarrow> runner_handle \<Rightarrow> bool" where
  "terminateHandle env h = (case backend_for env (h_backend h) of
     None \<Rightarrow> False | Some b \<Rightarrow> bk_terminate_throws b h)"

definition max_slots :: "worker_env \<Rightarrow> int" where
  "max_slots env = max 1 (or_else (we_maxConcurrent env) DEFAULT_MAX_CONCURRENT_JOBS)"

section \<open>Finalizing\<close>

definition worker_deps :: "worker_env \<Rightarrow> int \<Rightarrow> dev_db finalize_deps" where
  "worker_deps env now =
     store_deps now (Some (terminateHandle env)) (we_revokers env) (we_revoke_throws env)"

definition failure :: "string \<Rightarrow> string \<Rightarrow> finalize_context" where
  "failure reason err = no_context\<lparr>fc_reason := Some reason, fc_error := Some err\<rparr>"

text \<open>With a terminal status the choke point returns normally (\<open>finalize_returns\<close> below), so the worker's
  finalize is its state change.\<close>

definition worker_finalize :: "worker_env \<Rightarrow> int \<Rightarrow> string \<Rightarrow> dev_job_status \<Rightarrow> finalize_context
    \<Rightarrow> worker_state \<Rightarrow> worker_state" where
  "worker_finalize env now jobId s ctx w =
     (case finalizeDevJob (worker_deps env now) jobId s ctx (ww_db w) of
        (db', effs, _) \<Rightarrow> w\<lparr>ww_db := db', ww_effects := ww_effects w @ effs\<rparr>)"

section \<open>Enforcement and reaping\<close>

definition finalize_all :: "worker_env \<Rightarrow> int \<Rightarrow> dev_job_status \<Rightarrow> finalize_context \<Rightarrow> dev_job list
    \<Rightarrow> worker_state \<Rightarrow> worker_state" where
  "finalize_all env now s ctx jobs w = fold (\<lambda>j w. worker_finalize env now (j_id j) s ctx w) jobs w"

definition not_applying :: "dev_job list \<Rightarrow> dev_job list" where
  "not_applying jobs = filter (\<lambda>j. \<not> isHostSideApplyPhase (j_status j)) jobs"

definition enforceTimeouts :: "worker_env \<Rightarrow> int \<Rightarrow> worker_state \<Rightarrow> worker_state" where
  "enforceTimeouts env now w =
     (let w1 = finalize_all env now St_budget_exceeded
            (failure ''wall_clock_exceeded''
              (''job exceeded its '' @ show_int (we_wallClockMs env) @ ''ms wall-clock budget''))
            (not_applying (findOverWallClock (now - we_wallClockMs env) (ww_db w))) w
      in finalize_all env now St_stalled
            (failure ''heartbeat_timeout'' (''no runner heartbeat within '' @ show_int (we_heartbeatTimeoutMs env) @ ''ms''))
            (not_applying (findStalled (now - we_heartbeatTimeoutMs env) None (ww_db w1))) w1)"

definition reap_handle :: "worker_env \<Rightarrow> int \<Rightarrow> runner_handle \<Rightarrow> worker_state \<Rightarrow> worker_state" where
  "reap_handle env now h w =
     (case findActiveByHandleId (h_id h) (ww_db w) of
        None \<Rightarrow> w
      | Some job \<Rightarrow>
          if isHostSideApplyPhase (j_status job) then w
          else worker_finalize env now (j_id job) St_stalled
                 (failure ''runner_reaped'' (''runner '' @ h_id h @ '' was reaped (dead or orphaned)'')) w)"

definition reapBackends :: "worker_env \<Rightarrow> int \<Rightarrow> worker_state \<Rightarrow> worker_state" where
  "reapBackends env now w =
     fold (\<lambda>b w. case bk_reap b of Inl _ \<Rightarrow> w | Inr hs \<Rightarrow> fold (reap_handle env now) hs w) (we_backends env) w"

section \<open>Claim and provision\<close>

definition vet_claim :: "worker_env \<Rightarrow> dev_job \<Rightarrow> worker_state \<Rightarrow> worker_error + (dev_repo \<times> runner_backend)" where
  "vet_claim env job w =
     (case getRepo (j_repoId job) (ww_db w) of
        None \<Rightarrow> Inl (DevJobWorkerError ''devplatform.repo_not_found'' (''job repo '' @ squote (j_repoId job) @ '' not found''))
      | Some repo \<Rightarrow>
          (case assertAuthModeAdmissible job repo (we_subscriptionModeEnabled env) of
             Some e \<Rightarrow> Inl e
           | None \<Rightarrow>
               (case backend_for env (j_backend job) of
                  None \<Rightarrow> Inl (DevJobWorkerError ''devplatform.no_backend''
                    (''no runner backend registered for kind '' @ squote (runner_backend_kind_name (j_backend job))))
                | Some b \<Rightarrow> Inr (repo, b))))"

text \<open>The injected \<open>prepareProvision\<close>: resolve the base commit, mint the token and write both under the
  lease.\<close>

definition worker_prepare :: "worker_env \<Rightarrow> int \<Rightarrow> dev_job \<Rightarrow> string \<Rightarrow> dev_repo \<Rightarrow> worker_state
    \<Rightarrow> worker_state \<times> (worker_error + string)" where
  "worker_prepare env now job lease repo w =
     (case we_resolveSha env job repo of
        Inl e \<Rightarrow> (w, Inl e)
      | Inr sha \<Rightarrow>
          (case prepareProvision now (snd (we_mint env job)) job lease sha (ww_db w) of
             (db', Inl e) \<Rightarrow> (w\<lparr>ww_db := db'\<rparr>, Inl (Worker_store e))
           | (db', Inr _) \<Rightarrow> (w\<lparr>ww_db := db'\<rparr>, Inr (fst (we_mint env job)))))"

definition provisionOne :: "worker_env \<Rightarrow> int \<Rightarrow> dev_job \<Rightarrow> worker_state \<Rightarrow> worker_state" where
  "provisionOne env now job w =
     (let fail = (\<lambda>e w. worker_finalize env now (j_id job) St_failed (failure ''provision_error'' (errText env e)) w) in
      case j_claimedBy job of
        None \<Rightarrow> worker_finalize env now (j_id job) St_failed (failure ''no_lease'' ''claimed job has no lease token'') w
      | Some lease \<Rightarrow>
          if lease = [] then worker_finalize env now (j_id job) St_failed (failure ''no_lease'' ''claimed job has no lease token'') w
          else case vet_claim env job w of
            Inl e \<Rightarrow> fail e w
          | Inr (repo, b) \<Rightarrow>
              (case worker_prepare env now job lease repo w of
                 (w1, Inl e) \<Rightarrow> fail e w1
               | (w1, Inr token) \<Rightarrow>
                   (case bk_provision b \<lparr>pc_jobId = j_id job, pc_jobToken = token, pc_source = j_source job,
                           pc_runsTests = rp_runsTests repo\<rparr> of
                      Inl e \<Rightarrow>
                        if isRetryableProvisionError e
                        then (case releaseClaim now (j_id job) lease (ww_db w1) of
                                (db', Inl err) \<Rightarrow> fail (Worker_store err) (w1\<lparr>ww_db := db'\<rparr>)
                              | (db', Inr _) \<Rightarrow> w1\<lparr>ww_db := db'\<rparr>)
                        else worker_finalize env now (j_id job) St_failed (failure ''provision_failed'' (errText env e)) w1
                    | Inr h \<Rightarrow>
                        (case setRunnerHandle now (j_id job) lease h (ww_db w1) of
                           (db', Inr _) \<Rightarrow> w1\<lparr>ww_db := db'\<rparr>
                         | (db', Inl _) \<Rightarrow>
                             w1\<lparr>ww_db := db', ww_effects := ww_effects w1 @ [Eff_terminate h]\<rparr>))))"

fun claim_loop :: "worker_env \<Rightarrow> int \<Rightarrow> nat \<Rightarrow> worker_state \<Rightarrow> worker_state" where
  "claim_loop env now 0 w = w"
| "claim_loop env now (Suc slots) w =
     (case claimNextQueued now {} (we_lease env (ww_leases w)) (ww_db w) of
        (db', Inr (Some job)) \<Rightarrow>
          claim_loop env now slots (provisionOne env now job (w\<lparr>ww_db := db', ww_leases := Suc (ww_leases w)\<rparr>))
      | (db', _) \<Rightarrow> w\<lparr>ww_db := db', ww_leases := Suc (ww_leases w)\<rparr>)"

definition claimAndProvision :: "worker_env \<Rightarrow> int \<Rightarrow> worker_state \<Rightarrow> worker_state" where
  "claimAndProvision env now w = claim_loop env now (nat (max_slots env - int (countActiveJobs (ww_db w)))) w"

section \<open>Apply\<close>

datatype apply_outcome = Applied string | Gated string | Skipped

definition gate_questions :: "policy_verdict \<Rightarrow> gate_question list" where
  "gate_questions v =
     List.map (\<lambda>(i, f). \<lparr>q_id = ''diff_policy:'' @ pf_ruleId f @ '':'' @ show_nat i,
         q_text = ''['' @ (if pf_severity f = Sev_deny then ''deny'' else ''gate'') @ ''] '' @ pf_ruleId f @ '' ('' @
           (if join_with '', '' (pf_paths f) = [] then ''diff'' else join_with '', '' (pf_paths f)) @ ''): '' @ pf_detail f\<rparr>)
       (enumerate 0 (pv_findings v))"

definition decision_name :: "policy_decision \<Rightarrow> string" where
  "decision_name d = (case d of Allow \<Rightarrow> ''allow'' | Gate \<Rightarrow> ''gate'' | Deny \<Rightarrow> ''deny'')"

definition store_verdict :: "worker_env \<Rightarrow> int \<Rightarrow> dev_job \<Rightarrow> policy_verdict \<Rightarrow> worker_state
    \<Rightarrow> worker_state \<times> (worker_error + string)" where
  "store_verdict env now job v w =
     (case addArtifact (we_ceiling env) now (we_newId env (ww_db w)) (we_newId env (ww_db w)) (j_id job)
             ''review_verdict'' (we_verdict_text env v)
             (JObj [(''source'', JStr ''diff_policy''), (''decision'', JStr (decision_name (pv_decision v)))]) (ww_db w) of
        (db', Inl e) \<Rightarrow> (w\<lparr>ww_db := db'\<rparr>, Inl (Worker_store e))
      | (db', Inr i) \<Rightarrow> (w\<lparr>ww_db := db'\<rparr>, Inr i))"

definition gate_request :: "dev_job \<Rightarrow> policy_verdict \<Rightarrow> dev_db \<Rightarrow> open_gate_input" where
  "gate_request job v db =
     \<lparr>og_jobId = j_id job, og_gateKind = Some Diff_policy_gate, og_planArtifactId = None, og_planSha256 = None,
      og_baseSha = j_baseSha job, og_questions = gate_questions v,
      og_principalKind = fst (gatePrincipal job db), og_principalRef = snd (gatePrincipal job db),
      og_deadlineIso = gateDeadlineIso job db\<rparr>"

definition onGate :: "worker_env \<Rightarrow> int \<Rightarrow> dev_job \<Rightarrow> policy_verdict \<Rightarrow> worker_state
    \<Rightarrow> worker_state \<times> (worker_error + string)" where
  "onGate env now job v w =
     (case store_verdict env now job v w of
        (w1, Inl e) \<Rightarrow> (w1, Inl e)
      | (w1, Inr _) \<Rightarrow>
          (case open_gate now now (we_newId env (ww_db w1)) (gate_request job v (ww_db w1)) (ww_db w1) of
             (db', Inl e) \<Rightarrow> (w1\<lparr>ww_db := db'\<rparr>, Inl (Worker_gate e))
           | (db', Inr g) \<Rightarrow>
               (case parkForApplyGate now (j_id job) db' of
                  (db'', Inl e) \<Rightarrow> (w1\<lparr>ww_db := db''\<rparr>, Inl (Worker_store e))
                | (db'', Inr _) \<Rightarrow>
                    (w1\<lparr>ww_db := db'', ww_effects := ww_effects w1 @ [Eff_revoke 0 (j_id job)]\<rparr>, Inr (g_id g)))))"

text \<open>The forge client of one apply sees the writes of earlier ones as history.\<close>

definition forge_after :: "gh_write list \<Rightarrow> gh_api \<Rightarrow> gh_api" where
  "forge_after old api = api\<lparr>gh_post := (\<lambda>ws w. gh_post api (old @ ws) w), gh_pull := (\<lambda>ws w. gh_pull api (old @ ws) w)\<rparr>"

definition job_apply_input :: "dev_job \<Rightarrow> dev_repo \<Rightarrow> string \<Rightarrow> bool \<Rightarrow> apply_input" where
  "job_apply_input job repo bundle approved =
     \<lparr>ai_branch = or_else (j_branch job) (defaultBranchName job), ai_baseSha = or_else (j_baseSha job) [],
      ai_defaultBranch = rp_defaultBranch repo, ai_diff = fst (splitDiffBundle bundle),
      ai_numstat = snd (splitDiffBundle bundle), ai_prTitle = prTitle job, ai_prBody = prBody job repo,
      ai_policyOverrides = Some (rp_policyOverrides repo), ai_trackerComments = None,
      ai_jobTokens = Some (jobTokensFor job), ai_operatorApprovedGate = approved\<rparr>"

definition diff_artifact_of :: "dev_job \<Rightarrow> string option" where
  "diff_artifact_of job = (case Option.bind (j_result job) r_diffArtifactId of
     Some a \<Rightarrow> if a = [] then None else Some a | None \<Rightarrow> None)"

definition attempt_apply :: "worker_env \<Rightarrow> dev_job \<Rightarrow> bool \<Rightarrow> worker_state
    \<Rightarrow> gh_write list \<times> (worker_error + apply_result)" where
  "attempt_apply env job opt_approved w =
     (case getRepo (j_repoId job) (ww_db w) of
        None \<Rightarrow> ([], Inl (DevJobWorkerError ''devplatform.repo_not_found'' (''job repo '' @ squote (j_repoId job) @ '' not found'')))
      | Some repo \<Rightarrow>
          (case diff_artifact_of job of
             None \<Rightarrow> ([], Inl (DevJobWorkerError ''devplatform.no_diff'' ''job has no uploaded diff to apply''))
           | Some a \<Rightarrow>
               (case getArtifact a (ww_db w) of
                  None \<Rightarrow> ([], Inl (DevJobWorkerError ''devplatform.diff_missing'' (''diff artifact '' @ squote a @ '' not found'')))
                | Some art \<Rightarrow>
                    (case apply_service (forge_after (ww_writes w) (we_forge env)) (we_author env)
                            (job_apply_input job repo (a_content art)
                              (opt_approved \<or> hasApprovedApplyGate (j_id job) (ww_db w))) of
                       (ws, Inl e) \<Rightarrow> (ws, Inl (Worker_apply e))
                     | (ws, Inr r) \<Rightarrow> (ws, Inr r)))))"

definition apply_allowed :: "dev_job \<Rightarrow> bool" where
  "apply_allowed job \<longleftrightarrow> j_status job = St_applying \<or> (j_status job = St_failed \<and> diff_artifact_of job \<noteq> None)"

definition applyJobInner :: "worker_env \<Rightarrow> int \<Rightarrow> string \<Rightarrow> bool \<Rightarrow> worker_state
    \<Rightarrow> worker_state \<times> (worker_error + apply_outcome)" where
  "applyJobInner env now jobId opt_approved w =
     (case getJob jobId (ww_db w) of
        None \<Rightarrow> (w, Inl (DevJobWorkerError ''devplatform.job_not_found'' (''no such job '' @ squote jobId)))
      | Some job \<Rightarrow>
          if \<not> apply_allowed job
          then (w, Inl (DevJobWorkerError ''devplatform.apply_not_allowed''
                     (''cannot apply while job is '' @ squote (dev_job_status_name (j_status job)))))
          else
            (case attempt_apply env job opt_approved w of
               (ws, Inr r) \<Rightarrow>
                 (worker_finalize env now (j_id job) St_done
                    (no_context\<lparr>fc_reason := Some ''applied'', fc_branch := Some (res_branch r), fc_prUrl := Some (res_prUrl r)\<rparr>)
                    (w\<lparr>ww_writes := ww_writes w @ ws\<rparr>),
                  Inr (Applied (res_prUrl r)))
             | (ws, Inl e) \<Rightarrow>
                 (let w1 = w\<lparr>ww_writes := ww_writes w @ ws\<rparr>;
                      fail = (\<lambda>w. (worker_finalize env now (j_id job) St_failed (failure ''apply_failed'' (errText env e)) w, Inl e))
                  in case e of
                       Worker_apply (Policy_gate m v) \<Rightarrow>
                         (case onGate env now job v w1 of
                            (w2, Inl e') \<Rightarrow> (w2, Inl e')
                          | (w2, Inr g) \<Rightarrow> (w2, Inr (Gated g)))
                     | Worker_apply (Policy_deny m v) \<Rightarrow>
                         (case store_verdict env now job v w1 of
                            (w2, Inl e') \<Rightarrow> (w2, Inl e')
                          | (w2, Inr _) \<Rightarrow> fail w2)
                     | _ \<Rightarrow> fail w1)))"

definition applyJob :: "worker_env \<Rightarrow> int \<Rightarrow> string \<Rightarrow> bool \<Rightarrow> worker_state
    \<Rightarrow> worker_state \<times> (worker_error + apply_outcome)" where
  "applyJob env now jobId opt_approved w =
     (if jobId \<in> set (ww_applying w)
      then (w, Inl (DevJobWorkerError ''devplatform.apply_in_progress'' (''an apply is already in flight for '' @ squote jobId)))
      else (case applyJobInner env now jobId opt_approved (w\<lparr>ww_applying := jobId # ww_applying w\<rparr>) of
              (w', r) \<Rightarrow> (w'\<lparr>ww_applying := remove1 jobId (ww_applying w')\<rparr>, r)))"

definition resumeGatedApply :: "worker_env \<Rightarrow> int \<Rightarrow> string \<Rightarrow> worker_state
    \<Rightarrow> worker_state \<times> (worker_error + apply_outcome)" where
  "resumeGatedApply env now jobId w =
     (if jobId \<in> set (ww_applying w) then (w, Inr Skipped)
      else (case resumeApplyAfterGate now jobId (ww_db w) of
              (db', False) \<Rightarrow> (w\<lparr>ww_db := db'\<rparr>, Inr Skipped)
            | (db', True) \<Rightarrow>
                (case applyJobInner env now jobId True (w\<lparr>ww_db := db', ww_applying := jobId # ww_applying w\<rparr>) of
                   (w', r) \<Rightarrow> (w'\<lparr>ww_applying := remove1 jobId (ww_applying w')\<rparr>, r))))"

definition applyReady :: "worker_env \<Rightarrow> int \<Rightarrow> worker_state \<Rightarrow> worker_state" where
  "applyReady env now w =
     fold (\<lambda>job w. if j_id job \<in> set (ww_applying w) then w else fst (applyJob env now (j_id job) False w))
       (listJobs \<lparr>f_repoId = None, f_repoIds = None, f_status = Some St_applying, f_limit = None\<rparr> (ww_db w)) w"

definition tick :: "worker_env \<Rightarrow> int \<Rightarrow> worker_state \<Rightarrow> worker_state" where
  "tick env now w =
     (if ww_ticking w then w
      else (claimAndProvision env now (reapBackends env now (enforceTimeouts env now
             (applyReady env now (w\<lparr>ww_ticking := True\<rparr>)))))\<lparr>ww_ticking := False\<rparr>)"

end
