(* ===== verification/WorkerSound.thy ===== *)
theory WorkerSound
  imports JobWorker
begin

text \<open>
  What the control loop guarantees: finalizing touches one row and only ever makes it terminal, a job in
  its host-side apply is never stalled, a tick never exceeds the concurrency cap, a claimed job is never
  left wedged, and every apply ends in a pull request, a gate or a recorded failure.
\<close>

section \<open>Finalize as a row update\<close>

definition terminal_row :: "int \<Rightarrow> dev_job_status \<Rightarrow> finalize_context \<Rightarrow> string \<Rightarrow> dev_db \<Rightarrow> dev_db" where
  "terminal_row now s ctx i db = fst (update_job i non_terminal (finish_set now s (patch_of ctx)) db)"

lemma terminal_row_get:
  "getJob k (terminal_row now s ctx i db) =
     (if k = i then map_option (\<lambda>j. if non_terminal j then finish_set now s (patch_of ctx) j else j) (getJob k db)
      else getJob k db)"
  by (simp add: terminal_row_def getJob_update)

lemma terminal_row_ids [simp]: "ids_distinct (terminal_row now s ctx i db) = ids_distinct db"
  by (simp add: terminal_row_def ids_distinct_update)

lemma finalize_jobs:
  assumes "ids_distinct db" "isTerminalDevJobStatus s"
    and "finalizeDevJobDetailed (store_deps now term_fn regs throws) i s ctx db = (db', effs, r)"
  shows "db_jobs db' = db_jobs (terminal_row now s ctx i db) \<and> (\<exists>x. r = Inr x)"
proof -
  let ?u = "update_job i non_terminal (finish_set now s (patch_of ctx)) db"
  have miss: "terminal_row now s ctx i db = db" if "\<And>j. getJob i db = Some j \<Longrightarrow> isTerminalDevJobStatus (j_status j)"
  proof -
    have "snd ?u = []"
      using hits_update[of "finish_set now s (patch_of ctx)" db i non_terminal] that assms(1)
      by (auto simp: non_terminal_def split: option.splits)
    then show ?thesis unfolding terminal_row_def by (rule update_job_miss[rotated]) simp
  qed
  show ?thesis
  proof (cases "getJob i db")
    case None
    then show ?thesis using assms miss by (auto simp: finalizeDevJobDetailed_def store_deps_def)
  next
    case (Some j)
    show ?thesis
    proof (cases "isTerminalDevJobStatus (j_status j)")
      case True
      then show ?thesis using assms miss Some by (auto simp: finalizeDevJobDetailed_def store_deps_def)
    next
      case False
      let ?db1 = "fst (appendHostEvent now i ''status'' (status_payload s (j_status j) ctx) (fst ?u))"
      have "db' = ?db1 \<and> (\<exists>x. r = Inr x)"
        using assms(3) Some False assms(2) db_finish_live[OF assms(1) Some False assms(2), of now "patch_of ctx"]
        by (auto simp: finalizeDevJobDetailed_def store_deps_def finalize_write_def side_effects_def Let_def
            split: prod.splits)
      then show ?thesis by (simp add: appendHostEvent_jobs terminal_row_def)
    qed
  qed
qed

lemma worker_finalize_jobs:
  assumes "ids_distinct (ww_db w)" "isTerminalDevJobStatus s"
  shows "db_jobs (ww_db (worker_finalize env now i s ctx w)) = db_jobs (terminal_row now s ctx i (ww_db w))"
proof -
  obtain db' effs r where f: "finalizeDevJobDetailed (worker_deps env now) i s ctx (ww_db w) = (db', effs, r)"
    using prod_cases3 by blast
  then have "ww_db (worker_finalize env now i s ctx w) = db'"
    by (auto simp: worker_finalize_def finalizeDevJob_def split: sum.splits)
  then show ?thesis using finalize_jobs[OF assms f[unfolded worker_deps_def]] by simp
qed

lemma finalize_returns:
  assumes "ids_distinct db" "isTerminalDevJobStatus s"
  shows "\<exists>db' effs x. finalizeDevJob (worker_deps env now) i s ctx db = (db', effs, Inr x)"
proof -
  obtain db' effs r where f: "finalizeDevJobDetailed (worker_deps env now) i s ctx db = (db', effs, r)"
    using prod_cases3 by blast
  then show ?thesis using finalize_jobs[OF assms f[unfolded worker_deps_def]] by (auto simp: finalizeDevJob_def)
qed

lemma jobs_get: "db_jobs a = db_jobs b \<Longrightarrow> getJob k a = getJob k b"
  by (simp add: getJob_def)

lemma jobs_ids: "db_jobs a = db_jobs b \<Longrightarrow> ids_distinct a = ids_distinct b"
  by (simp add: ids_distinct_def)

lemma worker_finalize_get:
  assumes "ids_distinct (ww_db w)" "isTerminalDevJobStatus s"
  shows "getJob k (ww_db (worker_finalize env now i s ctx w)) =
     (if k = i then map_option (\<lambda>j. if non_terminal j then finish_set now s (patch_of ctx) j else j) (getJob k (ww_db w))
      else getJob k (ww_db w))"
  using jobs_get[OF worker_finalize_jobs[OF assms]] by (simp add: terminal_row_get)

lemma worker_finalize_ids:
  assumes "ids_distinct (ww_db w)" "isTerminalDevJobStatus s"
  shows "ids_distinct (ww_db (worker_finalize env now i s ctx w))"
  using jobs_ids[OF worker_finalize_jobs[OF assms]] assms(1) by simp

lemma worker_finalize_fields [simp]:
  "ww_writes (worker_finalize env now i s ctx w) = ww_writes w"
  "ww_applying (worker_finalize env now i s ctx w) = ww_applying w"
  "ww_leases (worker_finalize env now i s ctx w) = ww_leases w"
  by (auto simp: worker_finalize_def split: prod.splits)

section \<open>Enforcement and reaping spare an apply\<close>

definition spares :: "string \<Rightarrow> worker_state \<Rightarrow> worker_state \<Rightarrow> bool" where
  "spares i w w' \<longleftrightarrow> ids_distinct (ww_db w') \<and> getJob i (ww_db w') = getJob i (ww_db w)"

lemma finalize_other_spares:
  "\<lbrakk>ids_distinct (ww_db w); isTerminalDevJobStatus s; i \<noteq> k\<rbrakk> \<Longrightarrow> spares i w (worker_finalize env now k s ctx w)"
  by (simp add: spares_def worker_finalize_get worker_finalize_ids)

lemma finalize_all_spares:
  "\<lbrakk>ids_distinct (ww_db w); isTerminalDevJobStatus s; i \<notin> j_id ` set jobs\<rbrakk> \<Longrightarrow>
     spares i w (finalize_all env now s ctx jobs w)"
proof (induction jobs arbitrary: w)
  case Nil
  then show ?case by (simp add: finalize_all_def spares_def)
next
  case (Cons j js)
  let ?w = "worker_finalize env now (j_id j) s ctx w"
  have "spares i w ?w" using Cons.prems by (intro finalize_other_spares) auto
  moreover from this have "spares i ?w (finalize_all env now s ctx js ?w)"
    using Cons by (simp add: spares_def)
  ultimately show ?case by (simp add: finalize_all_def spares_def)
qed

lemma not_applying_ids:
  assumes "ids_distinct db" "getJob i db = Some j" "j_status j = St_applying" "set jobs \<subseteq> set (db_jobs db)"
  shows "i \<notin> j_id ` set (not_applying jobs)"
proof
  assume "i \<in> j_id ` set (not_applying jobs)"
  then obtain k where k: "k \<in> set (db_jobs db)" "j_id k = i" "j_status k \<noteq> St_applying"
    using assms(4) by (auto simp: not_applying_def isHostSideApplyPhase_def)
  then have "getJob i db = Some k"
    using assms(1) find_row_in_set[of j_id "db_jobs db" k] by (simp add: getJob_def ids_distinct_def)
  then show False using assms(2,3) k(3) by simp
qed

lemma enforce_spares:
  assumes "ids_distinct (ww_db w)" "getJob i (ww_db w) = Some j" "j_status j = St_applying"
  shows "spares i w (enforceTimeouts env now w)"
proof -
  let ?c1 = "failure ''wall_clock_exceeded'' (''job exceeded its '' @ show_int (we_wallClockMs env) @ ''ms wall-clock budget'')"
  let ?js = "not_applying (findOverWallClock (now - we_wallClockMs env) (ww_db w))"
  define w1 where "w1 = finalize_all env now St_budget_exceeded ?c1 ?js w"
  have "i \<notin> j_id ` set ?js" by (rule not_applying_ids[OF assms]) (auto simp: findOverWallClock_def)
  then have s1: "spares i w w1" unfolding w1_def by (intro finalize_all_spares assms(1)) simp_all
  then have w1: "ids_distinct (ww_db w1)" "getJob i (ww_db w1) = Some j" using assms(2) by (simp_all add: spares_def)
  have "i \<notin> j_id ` set (not_applying (findStalled (now - we_heartbeatTimeoutMs env) None (ww_db w1)))"
    by (rule not_applying_ids[OF w1 assms(3)]) (auto simp: findStalled_def)
  then have "spares i w1 (enforceTimeouts env now w)"
    unfolding enforceTimeouts_def Let_def w1_def[symmetric] by (intro finalize_all_spares w1(1)) simp_all
  then show ?thesis using s1 by (simp add: spares_def)
qed

lemma best_start_in: "best_start js = Some j \<Longrightarrow> j \<in> set js"
  by (induction js arbitrary: j) (auto split: option.splits if_splits)

lemma reap_handle_spares:
  assumes "ids_distinct (ww_db w)" "getJob i (ww_db w) = Some j" "j_status j = St_applying"
  shows "spares i w (reap_handle env now h w)"
proof (cases "findActiveByHandleId (h_id h) (ww_db w)")
  case None
  then show ?thesis using assms by (simp add: reap_handle_def spares_def)
next
  case (Some k)
  then have k: "k \<in> set (db_jobs (ww_db w))" "j_status k \<in> {St_provisioning, St_running}"
    by (auto simp: findActiveByHandleId_def dest!: best_start_in)
  then have "getJob (j_id k) (ww_db w) = Some k"
    using assms(1) find_row_in_set[of j_id "db_jobs (ww_db w)" k] by (simp add: getJob_def ids_distinct_def)
  then have "i \<noteq> j_id k" using k(2) assms(2,3) by auto
  then show ?thesis using Some k(2) assms(1)
    by (auto simp: reap_handle_def isHostSideApplyPhase_def intro!: finalize_other_spares)
qed

lemma fold_spares:
  assumes "\<And>x w. \<lbrakk>ids_distinct (ww_db w); getJob i (ww_db w) = Some j\<rbrakk> \<Longrightarrow> spares i w (f x w)"
    and "ids_distinct (ww_db w)" "getJob i (ww_db w) = Some j"
  shows "spares i w (fold f xs w)"
  using assms(2,3)
proof (induction xs arbitrary: w)
  case (Cons x xs)
  have s: "spares i w (f x w)" using assms(1) Cons.prems by blast
  then have "spares i (f x w) (fold f xs (f x w))" using Cons by (simp add: spares_def)
  then show ?case using s by (simp add: spares_def)
qed (simp add: spares_def)

lemma reap_spares:
  assumes "ids_distinct (ww_db w)" "getJob i (ww_db w) = Some j" "j_status j = St_applying"
  shows "spares i w (reapBackends env now w)"
  unfolding reapBackends_def
proof (rule fold_spares[OF _ assms(1,2)])
  fix b :: runner_backend and w :: worker_state
  assume w: "ids_distinct (ww_db w)" "getJob i (ww_db w) = Some j"
  show "spares i w (case bk_reap b of Inl _ \<Rightarrow> w | Inr hs \<Rightarrow> fold (reap_handle env now) hs w)"
  proof (cases "bk_reap b")
    case (Inr hs)
    have "spares i w (fold (reap_handle env now) hs w)"
      by (rule fold_spares[OF reap_handle_spares w]) (use assms(3) in auto)
    then show ?thesis using Inr by simp
  qed (use w in \<open>simp add: spares_def\<close>)
qed

text \<open>The sweeps never touch a job in its host-side apply: whatever its heartbeat and age and whatever
  handles the backends report dead, enforcement and reaping leave an applying job's row as it is.\<close>

theorem sweeps_spare_applying:
  assumes "ids_distinct (ww_db w)" "getJob i (ww_db w) = Some j" "j_status j = St_applying"
  shows "getJob i (ww_db (reapBackends env now (enforceTimeouts env now w))) = Some j"
proof -
  have e: "spares i w (enforceTimeouts env now w)" by (rule enforce_spares[OF assms])
  then have "spares i (enforceTimeouts env now w) (reapBackends env now (enforceTimeouts env now w))"
    using assms by (intro reap_spares) (simp_all add: spares_def)
  then show ?thesis using e assms(2) by (simp add: spares_def)
qed

section \<open>The concurrency cap\<close>

definition active_of :: "worker_state \<Rightarrow> nat" where
  "active_of w = countActiveJobs (ww_db w)"

lemma count_update_le:
  assumes "\<And>j. guard j \<Longrightarrow> active_status (j_status (upd j)) \<Longrightarrow> active_status (j_status j)"
  shows "countActiveJobs (fst (update_job i guard upd db)) \<le> countActiveJobs db"
proof -
  have "length (filter (\<lambda>j. active_status (j_status j)) (List.map (\<lambda>j. if j_id j = i \<and> guard j then upd j else j) rs))
      \<le> length (filter (\<lambda>j. active_status (j_status j)) rs)" for rs
    using assms by (induction rs) auto
  then show ?thesis by (simp add: countActiveJobs_def update_job_def sql_update_def)
qed

lemma count_jobs: "db_jobs a = db_jobs b \<Longrightarrow> countActiveJobs a = countActiveJobs b"
  by (simp add: countActiveJobs_def)

lemma count_claim:
  assumes "ids_distinct db" "claimNextQueued now locked lease db = (db', r)"
  shows "countActiveJobs db' \<le> Suc (countActiveJobs db)"
proof -
  have one: "length (filter (\<lambda>j. active_status (j_status j)) (List.map (\<lambda>j. if j_id j = i \<and> True then claim_set now lease j else j) rs))
      \<le> Suc (length (filter (\<lambda>j. active_status (j_status j)) rs))" if "distinct (List.map j_id rs)" for i rs
    using that
  proof (induction rs)
    case (Cons j rs)
    have "List.map (\<lambda>j. if j_id j = i \<and> True then claim_set now lease j else j) rs = rs" if "j_id j = i"
      using that Cons.prems by (intro map_idI) (auto simp: image_iff)
    then show ?case using Cons by (cases "j_id j = i") (auto simp: le_SucI)
  qed simp
  then have "countActiveJobs (fst (update_job i (\<lambda>j. True) (claim_set now lease) db)) \<le> Suc (countActiveJobs db)" for i
    using assms(1) by (simp add: countActiveJobs_def update_job_def sql_update_def ids_distinct_def)
  then show ?thesis
    using assms(2) by (auto simp: claimNextQueued_def Let_def split: if_splits option.splits prod.splits list.splits
        intro: le_SucI) (metis fst_conv)+
qed

lemma claim_ids:
  assumes "ids_distinct db" "claimNextQueued now locked lease db = (db', r)"
  shows "ids_distinct db'"
  using assms by (auto simp: claimNextQueued_def Let_def split: if_splits option.splits prod.splits)
    (metis fst_conv ids_distinct_update set_ids(1))

lemma worker_finalize_count:
  assumes "ids_distinct (ww_db w)" "isTerminalDevJobStatus s"
  shows "active_of (worker_finalize env now i s ctx w) \<le> active_of w"
  unfolding active_of_def count_jobs[OF worker_finalize_jobs[OF assms]] terminal_row_def
  by (rule count_update_le) (use assms(2) in \<open>cases s; simp add: finish_set_def\<close>)

definition calm :: "worker_state \<Rightarrow> worker_state \<Rightarrow> bool" where
  "calm w w' \<longleftrightarrow> ids_distinct (ww_db w') \<and> active_of w' \<le> active_of w"

lemma calm_trans: "\<lbrakk>calm w w1; calm w1 w2\<rbrakk> \<Longrightarrow> calm w w2"
  by (simp add: calm_def)

lemma calm_finalize: "\<lbrakk>ids_distinct (ww_db w); isTerminalDevJobStatus s\<rbrakk> \<Longrightarrow> calm w (worker_finalize env now i s ctx w)"
  by (simp add: calm_def worker_finalize_count worker_finalize_ids)

lemma calm_update:
  assumes "ids_distinct (ww_db w)" "ww_db w' = fst (update_job i guard upd (ww_db w))"
    and "\<And>j. j_id (upd j) = j_id j" "\<And>j. guard j \<Longrightarrow> active_status (j_status (upd j)) \<Longrightarrow> active_status (j_status j)"
  shows "calm w w'"
  using assms count_update_le[of guard upd i "ww_db w"] by (simp add: calm_def active_of_def ids_distinct_update)

lemma prepare_calm:
  assumes "ids_distinct (ww_db w)" "worker_prepare env now job lease repo w = (w', r)"
  shows "calm w w'"
proof -
  have "ww_db w' = ww_db w \<or> (\<exists>i guard sha br th. ww_db w' = fst (update_job i guard (provision_set now th br sha) (ww_db w)))"
    using assms(2) by (auto simp: worker_prepare_def prepareProvision_def Let_def
        split: sum.splits prod.splits if_splits list.splits) (metis fst_conv)+
  then show ?thesis
  proof
    assume "ww_db w' = ww_db w"
    then show ?thesis using assms(1) by (simp add: calm_def active_of_def)
  next
    assume "\<exists>i guard sha br th. ww_db w' = fst (update_job i guard (provision_set now th br sha) (ww_db w))"
    then show ?thesis using assms(1) by (auto intro!: calm_update simp: provision_set_def)
  qed
qed

lemma release_calm:
  assumes "ids_distinct (ww_db w)" "releaseClaim now i lease (ww_db w) = (db', r)" "ww_db w' = db'"
  shows "calm w w'"
proof (cases "UUID_RE lease")
  case True
  then have "db' = fst (update_job i (release_guard lease) (release_set now) (ww_db w))"
    using assms(2) by (auto simp: releaseClaim_def row_count_def split: prod.splits)
  then show ?thesis using assms(1,3) by (auto intro!: calm_update simp: release_set_def)
next
  case False
  then show ?thesis using assms by (auto simp: releaseClaim_def calm_def active_of_def)
qed

lemma handle_calm:
  assumes "ids_distinct (ww_db w)" "setRunnerHandle now i lease h (ww_db w) = (db', r)" "ww_db w' = db'"
  shows "calm w w'"
proof -
  have "db' = fst (update_job i (lease_guard lease) (handle_set now h) (ww_db w))"
    using assms(2) by (auto simp: setRunnerHandle_def row_count_def split: prod.splits)
  then show ?thesis using assms(1,3) by (auto intro!: calm_update simp: handle_set_def)
qed

lemma provision_calm:
  assumes "ids_distinct (ww_db w)"
  shows "calm w (provisionOne env now job w)"
proof -
  have fin: "calm w (worker_finalize env now (j_id job) St_failed c w1)" if "calm w w1" for c w1
    using that by (intro calm_trans[OF that] calm_finalize) (simp_all add: calm_def)
  have self: "calm w w" using assms by (simp add: calm_def)
  show ?thesis
  proof (cases "j_claimedBy job")
    case None
    then show ?thesis using fin[OF self] by (simp add: provisionOne_def Let_def)
  next
    case (Some lease)
    show ?thesis
    proof (cases "lease = []")
      case True
      then show ?thesis using fin[OF self] Some by (simp add: provisionOne_def Let_def)
    next
      case False
      show ?thesis
      proof (cases "vet_claim env job w")
        case (Inl e)
        then show ?thesis using fin[OF self] Some False by (simp add: provisionOne_def Let_def)
      next
        case (Inr rb)
        obtain repo b where rb: "rb = (repo, b)" by (cases rb)
        obtain w1 r where p: "worker_prepare env now job lease repo w = (w1, r)" by fastforce
        have c1: "calm w w1" by (rule prepare_calm[OF assms p])
        then have d1: "ids_distinct (ww_db w1)" by (simp add: calm_def)
        have rel: "calm w (w1\<lparr>ww_db := db'\<rparr>)" if "releaseClaim now (j_id job) lease (ww_db w1) = (db', x)" for db' x
          using calm_trans[OF c1 release_calm[OF d1 that]] by simp
        have han: "calm w w2" if "setRunnerHandle now (j_id job) lease h (ww_db w1) = (db', x)" "ww_db w2 = db'" for h db' x w2
          using calm_trans[OF c1 handle_calm[OF d1 that]] .
        show ?thesis
          using Some False Inr rb p fin[OF c1] fin[OF rel] rel han
          by (auto simp: provisionOne_def Let_def split: sum.splits prod.splits)
      qed
    qed
  qed
qed

lemma claim_loop_count:
  "ids_distinct (ww_db w) \<Longrightarrow> active_of (claim_loop env now n w) \<le> active_of w + n"
proof (induction n arbitrary: w)
  case (Suc n)
  obtain db' r where c: "claimNextQueued now {} (we_lease env (ww_leases w)) (ww_db w) = (db', r)" by fastforce
  note cnt = count_claim[OF Suc.prems c] and ids = claim_ids[OF Suc.prems c]
  show ?case
  proof (cases "\<exists>job. r = Inr (Some job)")
    case False
    then have "ww_db (claim_loop env now (Suc n) w) = db'" using c by (auto split: sum.splits option.splits)
    then show ?thesis using cnt by (simp add: active_of_def)
  next
    case True
    then obtain job where r: "r = Inr (Some job)" by blast
    let ?w1 = "w\<lparr>ww_db := db', ww_leases := Suc (ww_leases w)\<rparr>"
    have p: "calm ?w1 (provisionOne env now job ?w1)" using ids by (intro provision_calm) simp
    then have "active_of (claim_loop env now n (provisionOne env now job ?w1)) \<le> active_of (provisionOne env now job ?w1) + n"
      using Suc.IH by (simp add: calm_def)
    then show ?thesis using p c r cnt by (simp add: calm_def active_of_def)
  qed
qed simp

text \<open>A claim pass never over-provisions: afterwards at most the configured number of jobs is active,
  or as many as were active before when that was already more (after a restart with a lower cap).\<close>

theorem claim_respects_cap:
  assumes "ids_distinct (ww_db w)"
  shows "int (countActiveJobs (ww_db (claimAndProvision env now w))) \<le>
    max (max_slots env) (int (countActiveJobs (ww_db w)))"
  using claim_loop_count[OF assms, of env now "nat (max_slots env - int (countActiveJobs (ww_db w)))"]
  by (auto simp: claimAndProvision_def active_of_def)

section \<open>A claim is never left wedged\<close>

definition held :: "string \<Rightarrow> string \<Rightarrow> worker_state \<Rightarrow> bool" where
  "held i lease w \<longleftrightarrow> ids_distinct (ww_db w) \<and> (\<exists>j. getJob i (ww_db w) = Some j \<and> j_status j = St_provisioning \<and>
     j_claimedBy j = Some lease \<and> j_runnerHandle j = None)"

definition settled :: "string \<Rightarrow> string \<Rightarrow> worker_state \<Rightarrow> bool" where
  "settled i lease w \<longleftrightarrow> (\<exists>j. getJob i (ww_db w) = Some j \<and>
     (isTerminalDevJobStatus (j_status j) \<or>
      j_status j = St_queued \<and> j_claimedBy j = None \<or>
      j_claimedBy j = Some lease \<and> j_runnerHandle j \<noteq> None))"

lemma settledI:
  "\<lbrakk>getJob i (ww_db w) = Some j; isTerminalDevJobStatus (j_status j) \<or> j_status j = St_queued \<and> j_claimedBy j = None \<or>
      j_claimedBy j = Some lease \<and> j_runnerHandle j \<noteq> None\<rbrakk> \<Longrightarrow> settled i lease w"
  unfolding settled_def by blast

lemma finalize_settles:
  assumes "held i lease w" "isTerminalDevJobStatus s"
  shows "settled i lease (worker_finalize env now i s ctx w)"
proof -
  from assms(1) obtain j where j: "ids_distinct (ww_db w)" "getJob i (ww_db w) = Some j" "j_status j = St_provisioning"
    unfolding held_def by blast
  then have "getJob i (ww_db (worker_finalize env now i s ctx w)) = Some (finish_set now s (patch_of ctx) j)"
    by (simp add: worker_finalize_get assms(2) non_terminal_def)
  then show ?thesis by (rule settledI) (simp add: finish_set_def assms(2))
qed

lemma prepare_holds:
  assumes "held (j_id job) lease w" "worker_prepare env now job lease repo w = (w1, r)"
  shows "held (j_id job) lease w1"
proof -
  have "ww_db w1 = ww_db w \<or> (\<exists>guard sha br th.
      ww_db w1 = fst (update_job (j_id job) guard (provision_set now th br sha) (ww_db w)))"
    using assms(2) by (auto simp: worker_prepare_def prepareProvision_def Let_def
        split: sum.splits prod.splits if_splits list.splits) (metis fst_conv)+
  then show ?thesis
  proof
    assume "\<exists>guard sha br th. ww_db w1 = fst (update_job (j_id job) guard (provision_set now th br sha) (ww_db w))"
    then show ?thesis using assms(1)
      by (auto simp: held_def getJob_update ids_distinct_update provision_set_def)
  qed (use assms(1) in \<open>simp add: held_def\<close>)
qed

lemma release_settles:
  assumes "held i lease w" "UUID_RE lease" "releaseClaim now i lease (ww_db w) = (db', r)"
  shows "settled i lease (w\<lparr>ww_db := db'\<rparr>) \<and> (\<exists>x. r = Inr x)"
proof -
  have "db' = fst (update_job i (release_guard lease) (release_set now) (ww_db w))" "\<exists>x. r = Inr x"
    using assms(2,3) by (auto simp: releaseClaim_def row_count_def split: prod.splits)
  moreover from assms(1) obtain j where j: "getJob i (ww_db w) = Some j" "j_status j = St_provisioning"
    "j_claimedBy j = Some lease" "j_runnerHandle j = None" unfolding held_def by blast
  ultimately have "getJob i (ww_db (w\<lparr>ww_db := db'\<rparr>)) = Some (release_set now j)"
    by (simp add: getJob_update release_guard_def)
  then have "settled i lease (w\<lparr>ww_db := db'\<rparr>)" by (rule settledI) (simp add: release_set_def)
  then show ?thesis using \<open>\<exists>x. r = Inr x\<close> by blast
qed

lemma handle_settles:
  assumes "held i lease w" "setRunnerHandle now i lease h (ww_db w) = (db', r)" "ww_db w' = db'"
  shows "settled i lease w'"
proof -
  have "db' = fst (update_job i (lease_guard lease) (handle_set now h) (ww_db w))"
    using assms(2) by (auto simp: setRunnerHandle_def row_count_def split: prod.splits)
  moreover from assms(1) obtain j where j: "getJob i (ww_db w) = Some j" "j_status j = St_provisioning"
    "j_claimedBy j = Some lease" "j_runnerHandle j = None" unfolding held_def by blast
  ultimately have "getJob i (ww_db w') = Some (handle_set now h j)"
    by (simp add: getJob_update lease_guard_def non_terminal_def assms(3))
  then show ?thesis by (rule settledI) (simp add: handle_set_def j(3))
qed

text \<open>Provisioning always settles a fresh claim: whatever the repository lookup, the admission, the
  minting and the backend answer, afterwards the job is finished, or queued again without a lease, or
  holds a runner handle under its lease; no outcome leaves it claimed without a runner.\<close>

theorem provision_settles:
  assumes "ids_distinct (ww_db w)" "getJob (j_id job) (ww_db w) = Some job" "j_status job = St_provisioning"
    and "j_claimedBy job = Some lease" "UUID_RE lease" "j_runnerHandle job = None"
  shows "\<exists>j. getJob (j_id job) (ww_db (provisionOne env now job w)) = Some j \<and>
     (isTerminalDevJobStatus (j_status j) \<or>
      j_status j = St_queued \<and> j_claimedBy j = None \<or>
      j_claimedBy j = Some lease \<and> j_runnerHandle j \<noteq> None)"
proof -
  let ?i = "j_id job"
  have ne: "lease \<noteq> []" using assms(5) by (auto simp: UUID_RE_def)
  have h: "held ?i lease w" using assms by (auto simp: held_def)
  have fin: "settled ?i lease (worker_finalize env now ?i St_failed c v)" if "held ?i lease v" for c v
    using finalize_settles[OF that] by simp
  have "settled ?i lease (provisionOne env now job w)"
  proof (cases "vet_claim env job w")
    case (Inl e)
    then show ?thesis using fin[OF h] assms(4) ne by (simp add: provisionOne_def Let_def)
  next
    case (Inr rb)
    obtain repo b where rb: "rb = (repo, b)" by (cases rb)
    obtain w1 r where p: "worker_prepare env now job lease repo w = (w1, r)" by fastforce
    have h1: "held ?i lease w1" by (rule prepare_holds[OF h p])
    note rel = release_settles[OF h1 assms(5)] and han = handle_settles[OF h1]
    show ?thesis
      using assms(4) ne Inr rb p fin[OF h1] rel han
      by (fastforce simp: provisionOne_def Let_def split: sum.splits prod.splits)
  qed
  then show ?thesis by (simp add: settled_def)
qed

section \<open>How an apply ends\<close>

lemma attempt_pull:
  assumes "attempt_apply env job a w = (ws, Inr r)"
  shows "\<exists>b m t d. last ws = W_pull b m t d \<and> ws \<noteq> [] \<and> job_branch_ok (res_branch r)"
proof -
  obtain api inp where s: "apply_service api (we_author env) inp = (ws, Inr r)"
    using assms by (auto simp: attempt_apply_def split: option.splits prod.splits sum.splits)
  obtain files where v: "vet_diff inp = Inr files"
    using s by (auto simp: apply_service_def split: sum.splits)
  obtain ws0 r0 where f: "forge_applyDiff api (forge_input (we_author env) inp files) = (ws0, r0)"
    by (cases "forge_applyDiff api (forge_input (we_author env) inp files)")
  obtain x where r: "r0 = Inr x" "res_branch r = ai_branch inp"
    "ws = ws0 @ [W_pull (ai_branch inp) (ai_defaultBranch inp) (ai_prTitle inp) (ai_prBody inp)]"
    using s v f by (auto simp: apply_service_def Let_def split: sum.splits)
  have "job_branch_ok (ai_branch inp)" using forge_shape[OF f] r(1) by (auto simp: forge_input_def)
  then show ?thesis using r by simp
qed

lemma gate_stop_no_writes:
  assumes "attempt_apply env job a w = (ws, Inl (Worker_apply e))" "\<And>x. e \<noteq> Forge_failed x"
  shows "ws = []"
  using assms by (auto simp: attempt_apply_def apply_service_def Let_def
      split: option.splits prod.splits sum.splits)

lemma store_verdict_jobs:
  "store_verdict env now job v w = (w', r) \<Longrightarrow> db_jobs (ww_db w') = db_jobs (ww_db w) \<and> ww_writes w' = ww_writes w"
  by (auto simp: store_verdict_def addArtifact_def Let_def split: prod.splits sum.splits option.splits if_splits)

lemma open_gate_keeps_jobs: "open_gate now clock i inp db = (db', r) \<Longrightarrow> db_jobs db' = db_jobs db"
  by (auto simp: open_gate_def open_gate_racing_def Let_def split: if_splits option.splits)

lemma onGate_row:
  assumes "onGate env now job v w = (w', Inr g)" "ids_distinct (ww_db w)"
    and "getJob (j_id job) (ww_db w) = Some j" "apply_gate_guard j"
  shows "getJob (j_id job) (ww_db w') = Some (park_set now j) \<and> ww_writes w' = ww_writes w"
proof -
  obtain w1 x where s: "store_verdict env now job v w = (w1, Inr x)"
    using assms(1) by (auto simp: onGate_def split: prod.splits sum.splits)
  obtain db' gt where o: "open_gate now now (we_newId env (ww_db w1)) (gate_request job v (ww_db w1)) (ww_db w1) = (db', Inr gt)"
    using assms(1) s by (auto simp: onGate_def split: prod.splits sum.splits)
  obtain db'' y where p: "parkForApplyGate now (j_id job) db' = (db'', Inr y)"
    using assms(1) s o by (auto simp: onGate_def split: prod.splits sum.splits)
  have w': "ww_db w' = db''" "ww_writes w' = ww_writes w1" using assms(1) s o p by (auto simp: onGate_def)
  have same: "db_jobs db' = db_jobs (ww_db w)" using store_verdict_jobs[OF s] open_gate_keeps_jobs[OF o] by simp
  have "db'' = fst (update_job (j_id job) apply_gate_guard (park_set now) db')"
    using p by (auto simp: parkForApplyGate_def Let_def split: prod.splits if_splits)
  then show ?thesis
    using w' store_verdict_jobs[OF s] jobs_get[OF same, of "j_id job"] assms(3,4) by (simp add: getJob_update)
qed

lemma onGate_error:
  assumes "onGate env now job v w = (w', Inl e)"
  shows "db_jobs (ww_db w') = db_jobs (ww_db w) \<and> ww_writes w' = ww_writes w"
proof -
  obtain w1 x where s: "store_verdict env now job v w = (w1, x)" by fastforce
  note sj = store_verdict_jobs[OF s]
  show ?thesis
  proof (cases x)
    case (Inl e')
    then show ?thesis using assms s sj by (simp add: onGate_def)
  next
    case (Inr a)
    obtain db' y where o: "open_gate now now (we_newId env (ww_db w1)) (gate_request job v (ww_db w1)) (ww_db w1) = (db', y)"
      by fastforce
    note oj = open_gate_keeps_jobs[OF o]
    show ?thesis
    proof (cases y)
      case (Inl e')
      then show ?thesis using assms s o sj oj Inr by (auto simp: onGate_def)
    next
      case (Inr gt)
      show ?thesis
        using assms s o sj oj Inr \<open>x = Inr a\<close>
        by (auto simp: onGate_def parkForApplyGate_def Let_def split: prod.splits sum.splits if_splits)
    qed
  qed
qed

lemma finalize_live_row:
  assumes "ids_distinct (ww_db w)" "getJob i (ww_db w) = Some j" "non_terminal j" "isTerminalDevJobStatus s"
  shows "getJob i (ww_db (worker_finalize env now i s ctx w)) = Some (finish_set now s (patch_of ctx) j)"
  using assms by (simp add: worker_finalize_get)

lemma failed_row:
  assumes "ids_distinct (ww_db w)" "getJob i (ww_db w) = Some j" "non_terminal j"
  shows "\<exists>j'. getJob i (ww_db (worker_finalize env now i St_failed (failure a b) w)) = Some j' \<and>
     j_result j' = j_result j \<and> j_status j' = St_failed"
  using finalize_live_row[OF assms, of St_failed] by (auto simp: finish_set_def patch_of_def failure_def no_context_def)

text \<open>C9: an apply of an applying job ends in one of three ways: a pull request, the job done with its
  address; a diff-policy gate, the job waiting and nothing written to the forge; or an error, the job
  failed with its uploaded diff kept for a retry, or still applying when recording the verdict failed.\<close>

theorem apply_outcomes:
  assumes "ids_distinct (ww_db w)" "getJob i (ww_db w) = Some j" "j_status j = St_applying"
    and "applyJobInner env now i a w = (w', r)"
  shows "\<exists>j'. getJob i (ww_db w') = Some j' \<and> j_result j' = j_result j \<and>
    (case r of
       Inr (Applied url) \<Rightarrow> j_status j' = St_done \<and> j_prUrl j' = Some url \<and>
         (\<exists>b m t d. ww_writes w' \<noteq> [] \<and> last (ww_writes w') = W_pull b m t d)
     | Inr (Gated g) \<Rightarrow> j_status j' = St_waiting \<and> ww_writes w' = ww_writes w
     | Inr Skipped \<Rightarrow> False
     | Inl e \<Rightarrow> j_status j' = St_failed \<or> j' = j \<and> ww_writes w' = ww_writes w)"
proof -
  have i: "j_id j = i" using getJob_SomeD[OF assms(2)] by simp
  have al: "apply_allowed j" and nt: "non_terminal j" using assms(3) by (simp_all add: apply_allowed_def non_terminal_def)
  obtain ws x where at: "attempt_apply env j a w = (ws, x)" by fastforce
  define w1 where "w1 = w\<lparr>ww_writes := ww_writes w @ ws\<rparr>"
  have w1: "ids_distinct (ww_db w1)" "getJob i (ww_db w1) = Some j" using assms(1,2) by (simp_all add: w1_def)
  let ?fail = "\<lambda>e v. (worker_finalize env now i St_failed (failure ''apply_failed'' (errText env e)) v, Inl e :: worker_error + apply_outcome)"
  show ?thesis
  proof (cases x)
    case (Inr res)
    let ?ctx = "no_context\<lparr>fc_reason := Some ''applied'', fc_branch := Some (res_branch res), fc_prUrl := Some (res_prUrl res)\<rparr>"
    have e: "w' = worker_finalize env now i St_done ?ctx w1" "r = Inr (Applied (res_prUrl res))"
      using assms(2,4) al at Inr i by (auto simp: applyJobInner_def w1_def)
    have "getJob i (ww_db w') = Some (finish_set now St_done (patch_of ?ctx) j)"
      unfolding e(1) by (rule finalize_live_row[OF w1 nt]) simp
    moreover have "\<exists>b m t d. ww_writes w' \<noteq> [] \<and> last (ww_writes w') = W_pull b m t d"
      using attempt_pull[OF at[unfolded Inr]] by (auto simp: e(1) w1_def)
    ultimately show ?thesis using e(2) by (auto simp: finish_set_def patch_of_def no_context_def)
  next
    case (Inl e)
    consider (gate) m v where "e = Worker_apply (Policy_gate m v)" | (deny) m v where "e = Worker_apply (Policy_deny m v)"
      | (other) "\<forall>m v. e \<noteq> Worker_apply (Policy_gate m v) \<and> e \<noteq> Worker_apply (Policy_deny m v)" by blast
    then show ?thesis
    proof cases
      case (gate m v)
      have ws: "ws = []" by (rule gate_stop_no_writes) (use at Inl gate in auto)
      obtain w2 y where g: "onGate env now j v w1 = (w2, y)" by fastforce
      have e: "w' = w2" "r = map_sum id Gated y"
        using assms(2,4) al at Inl gate g by (auto simp: applyJobInner_def w1_def Let_def split: sum.splits)
      show ?thesis
      proof (cases y)
        case (Inl e')
        then show ?thesis using onGate_error[OF g[unfolded Inl]] e w1(2) ws jobs_get[of "ww_db w2" "ww_db w1" i]
          by (simp add: w1_def)
      next
        case (Inr gid)
        have "getJob i (ww_db w2) = Some (park_set now j) \<and> ww_writes w2 = ww_writes w1"
          using onGate_row[OF g[unfolded Inr] w1(1), of j] w1(2) i assms(3) by (simp add: apply_gate_guard_def)
        then show ?thesis using e Inr ws by (simp add: w1_def park_set_def)
      qed
    next
      case (deny m v)
      have ws: "ws = []" by (rule gate_stop_no_writes) (use at Inl deny in auto)
      obtain w2 y where g: "store_verdict env now j v w1 = (w2, y)" by fastforce
      note sj = store_verdict_jobs[OF g]
      have w2: "ids_distinct (ww_db w2)" "getJob i (ww_db w2) = Some j"
        using w1 jobs_ids[OF conjunct1[OF sj]] jobs_get[OF conjunct1[OF sj], of i] by simp_all
      have e: "(w', r) = (case y of Inl e' \<Rightarrow> (w2, Inl e') | Inr _ \<Rightarrow> ?fail e w2)"
        using assms(2,4) al at Inl deny g i by (auto simp: applyJobInner_def w1_def Let_def split: sum.splits)
      show ?thesis
      proof (cases y)
        case (Inl e')
        then show ?thesis using e w2(2) sj ws by (simp add: w1_def)
      next
        case (Inr z)
        then show ?thesis using e failed_row[OF w2 nt, of env now "''apply_failed''" "errText env (Worker_apply (Policy_deny m v))"] deny
          by auto
      qed
    next
      case other
      have "applyJobInner env now i a w = ?fail e w1"
      proof (cases e)
        case (Worker_apply d)
        then show ?thesis using assms(2) al at Inl i other by (cases d) (simp_all add: applyJobInner_def w1_def Let_def)
      qed (use assms(2) al at Inl i in \<open>simp_all add: applyJobInner_def w1_def Let_def\<close>)
      then show ?thesis using assms(4) failed_row[OF w1 nt, of env now "''apply_failed''" "errText env e"] by auto
    qed
  qed
qed

text \<open>A retried apply strands its pull request: when the apply of a failed job succeeds, the pull request
  is opened on the forge and reported to the caller, but the job's row stays as it was, failed and without
  the address, because the choke point does nothing for a finished job.\<close>

theorem retry_strands_pull_request:
  assumes "ids_distinct (ww_db w)" "getJob i (ww_db w) = Some j" "j_status j = St_failed"
    and "applyJobInner env now i a w = (w', Inr (Applied url))"
  shows "getJob i (ww_db w') = Some j \<and>
    (\<exists>b m t d. ww_writes w' \<noteq> [] \<and> last (ww_writes w') = W_pull b m t d)"
proof -
  have i: "j_id j = i" using getJob_SomeD[OF assms(2)] by simp
  have al: "apply_allowed j" using assms(2,4) by (auto simp: applyJobInner_def split: if_splits)
  obtain ws x where at: "attempt_apply env j a w = (ws, x)" by fastforce
  obtain res where res: "x = Inr res"
  proof (cases x)
    case (Inl e)
    have False
    proof (cases e)
      case (Worker_apply d)
      then show False using assms(2,4) al at Inl
        by (cases d) (auto simp: applyJobInner_def Let_def split: prod.splits sum.splits)
    qed (use assms(2,4) al at Inl in \<open>simp_all add: applyJobInner_def Let_def\<close>)
    then show ?thesis ..
  qed auto
  let ?ctx = "no_context\<lparr>fc_reason := Some ''applied'', fc_branch := Some (res_branch res), fc_prUrl := Some (res_prUrl res)\<rparr>"
  have w': "w' = worker_finalize env now i St_done ?ctx (w\<lparr>ww_writes := ww_writes w @ ws\<rparr>)"
    using assms(2,4) al at res i by (auto simp: applyJobInner_def)
  have "getJob i (ww_db w') = Some j"
    unfolding w' using worker_finalize_get[of "w\<lparr>ww_writes := ww_writes w @ ws\<rparr>" St_done i env now i ?ctx] assms(1-3)
    by (simp add: non_terminal_def)
  then show ?thesis using attempt_pull[OF at[unfolded res]] by (auto simp: w')
qed

section \<open>A concrete worker\<close>

definition example_backend :: runner_backend where
  "example_backend = \<lparr>bk_kind = Be_docker, bk_provision = (\<lambda>c. Inr example_handle), bk_terminate_throws = (\<lambda>h. False),
     bk_reap = Inr [example_handle]\<rparr>"

definition example_env :: worker_env where
  "example_env = \<lparr>we_backends = [example_backend], we_forge = example_api, we_author = (''n'', ''e''),
     we_revokers = [0], we_revoke_throws = (\<lambda>r j. False), we_mint = (\<lambda>j. (''djr_t'', ''hash'')),
     we_resolveSha = (\<lambda>j r. Inr (Some ''base'')), we_lease = (\<lambda>n. lease_uuid), we_newId = (\<lambda>db. ''x1''),
     we_ceiling = None, we_verdict_text = (\<lambda>v. ''{}''), we_message = (\<lambda>e. ''error''), we_maxConcurrent = None,
     we_wallClockMs = 1800000, we_heartbeatTimeoutMs = 120000, we_subscriptionModeEnabled = False\<rparr>"

definition state_of :: "dev_db \<Rightarrow> worker_state" where
  "state_of db = \<lparr>ww_db = db, ww_writes = [], ww_effects = [], ww_applying = [], ww_leases = 0, ww_ticking = False\<rparr>"

definition diff_result :: dev_job_result where
  "diff_result = \<lparr>r_outcome = Out_diff_ready, r_diffArtifactId = Some lease_uuid, r_summary = None, r_error = None,
     r_usage = None\<rparr>"

definition example_bundle :: string where
  "example_bundle = example_diff @ NUMSTAT_MARKER @ join_with [CHR 0x09] [''2'', ''1'', ''f'']"

definition diff_artifact :: dev_job_artifact where
  "diff_artifact = \<lparr>a_id = lease_uuid, a_jobId = ''j1'', a_kind = Art_diff, a_content = example_bundle, a_meta = JObj [],
     a_createdAt = 3\<rparr>"

definition apply_job :: "dev_job_status \<Rightarrow> dev_job" where
  "apply_job s = example_job\<lparr>j_status := s, j_result := Some diff_result\<rparr>"

definition apply_state_of :: "dev_job_status \<Rightarrow> worker_state" where
  "apply_state_of s = state_of (example_db\<lparr>db_jobs := [apply_job s], db_artifacts := [diff_artifact]\<rparr>)"

lemma apply_state_facts:
  "ids_distinct (ww_db (apply_state_of s))" "getJob ''j1'' (ww_db (apply_state_of s)) = Some (apply_job s)"
  "j_status (apply_job s) = s"
  by (simp_all add: apply_state_of_def state_of_def apply_job_def ids_distinct_def getJob_def)

lemma sweeps_spare_witness:
  "getJob ''j1'' (ww_db (reapBackends example_env 9999999 (enforceTimeouts example_env 9999999 (apply_state_of St_applying)))) =
     Some (apply_job St_applying)"
  by (rule sweeps_spare_applying[OF apply_state_facts])

lemma claim_respects_cap_witness:
  "int (countActiveJobs (ww_db (claimAndProvision example_env 9 (state_of example_db)))) \<le> 1"
proof -
  have "countActiveJobs example_db = 1" by (simp add: countActiveJobs_def example_defs)
  moreover have "max_slots example_env = 1" by (simp add: max_slots_def example_env_def or_else_def DEFAULT_MAX_CONCURRENT_JOBS_def)
  moreover have "ids_distinct (ww_db (state_of example_db))" using example_db_ids by (simp add: state_of_def)
  ultimately show ?thesis using claim_respects_cap[of "state_of example_db" example_env 9] by (simp add: state_of_def)
qed

definition claimed_job :: dev_job where
  "claimed_job = claim_set 9 lease_uuid example_queued_job"

lemma provision_settles_witness:
  "\<exists>j. getJob ''j2'' (ww_db (provisionOne example_env 9 claimed_job (state_of (example_db\<lparr>db_jobs := [claimed_job]\<rparr>)))) = Some j \<and>
     (isTerminalDevJobStatus (j_status j) \<or> j_status j = St_queued \<and> j_claimedBy j = None \<or>
      j_claimedBy j = Some lease_uuid \<and> j_runnerHandle j \<noteq> None)"
proof -
  let ?w = "state_of (example_db\<lparr>db_jobs := [claimed_job]\<rparr>)"
  have i: "j_id claimed_job = ''j2''" by (simp add: claimed_job_def)
  have "ids_distinct (ww_db ?w)" "getJob (j_id claimed_job) (ww_db ?w) = Some claimed_job"
    by (simp_all add: state_of_def ids_distinct_def getJob_def)
  moreover have "j_status claimed_job = St_provisioning" "j_claimedBy claimed_job = Some lease_uuid"
    "j_runnerHandle claimed_job = None"
    by (simp_all add: claimed_job_def claim_set_def)
  ultimately show ?thesis using provision_settles[of ?w claimed_job lease_uuid example_env 9] lease_uuid_ok i by simp
qed

lemma apply_outcomes_witness:
  "\<exists>j'. getJob ''j1'' (ww_db (fst (applyJobInner example_env 9 ''j1'' False (apply_state_of St_applying)))) = Some j' \<and>
     j_result j' = Some diff_result"
proof -
  obtain w' r where e: "applyJobInner example_env 9 ''j1'' False (apply_state_of St_applying) = (w', r)" by fastforce
  have "j_result (apply_job St_applying) = Some diff_result" by (simp add: apply_job_def)
  then show ?thesis using apply_outcomes[OF apply_state_facts e] by (auto simp: e)
qed

lemma retry_run: "snd (applyJobInner example_env 9 ''j1'' False (apply_state_of St_failed)) = Inr (Applied ''https://pr'')"
  by code_simp

lemma retry_strands_witness:
  "getJob ''j1'' (ww_db (fst (applyJobInner example_env 9 ''j1'' False (apply_state_of St_failed)))) = Some (apply_job St_failed)"
proof -
  obtain w' where e: "applyJobInner example_env 9 ''j1'' False (apply_state_of St_failed) = (w', Inr (Applied ''https://pr''))"
    using retry_run by (cases "applyJobInner example_env 9 ''j1'' False (apply_state_of St_failed)") auto
  show ?thesis using retry_strands_pull_request[OF apply_state_facts e] by (simp add: e)
qed

end
