(* ===== verification/LlmSound.thy ===== *)
theory LlmSound
  imports LlmProxy WorkerSound
begin

text \<open>
  What the LLM proxy guarantees: the rolling redactor equals the redaction of the whole stream whatever the
  chunking, so the provider key is never delivered; what is forwarded was vetted; spending over the budget
  ends the job and its calls; and which spending the counter does not see.
\<close>

section \<open>The redactor\<close>

text \<open>A provider key contains no brackets.\<close>

definition bracket_free :: "string \<Rightarrow> bool" where
  "bracket_free s \<longleftrightarrow> s \<noteq> [] \<and> CHR ''['' \<notin> set s \<and> CHR '']'' \<notin> set s"

lemma redact_cases:
  "redactBytes s x = x \<or> (\<exists>a b. redactBytes s x = a @ REDACTED @ b \<and> prefix a x)"
proof (induction s x rule: redactBytes.induct)
  case (2 s c cs)
  show ?case
  proof (cases "s \<noteq> [] \<and> prefix s (c # cs)")
    case True
    then have "redactBytes s (c # cs) = [] @ REDACTED @ redactBytes s (drop (length s - 1) cs)" by simp
    then show ?thesis using Nil_prefix by blast
  next
    case False
    from 2(2)[OF False] show ?thesis
    proof
      assume "redactBytes s cs = cs"
      then show ?thesis using False by auto
    next
      assume "\<exists>a b. redactBytes s cs = a @ REDACTED @ b \<and> prefix a cs"
      then obtain a b where "redactBytes s cs = a @ REDACTED @ b" "prefix a cs" by blast
      then have "redactBytes s (c # cs) = (c # a) @ REDACTED @ b \<and> prefix (c # a) (c # cs)" using False by auto
      then show ?thesis by blast
    qed
  qed
qed simp

lemma redact_short: "length x < length s \<Longrightarrow> redactBytes s x = x"
  by (induction s x rule: redactBytes.induct) (auto dest: prefix_length_le)

lemma prefix_before: "\<lbrakk>prefix s (a @ c # z); c \<notin> set s\<rbrakk> \<Longrightarrow> prefix s a"
proof (induction a arbitrary: s)
  case Nil
  then show ?case by (cases s) auto
next
  case (Cons d a)
  then show ?case by (cases s) auto
qed

text \<open>A tail of the replacement text is passed over unchanged.\<close>

lemma redact_tail:
  assumes "bracket_free s" "suffix d REDACTED" "length d < length s"
  shows "redactBytes s (d @ z) = d @ redactBytes s z"
  using assms(2,3)
proof (induction d)
  case (Cons e d)
  obtain w where w: "REDACTED = w @ e # d" using Cons.prems(1) by (auto simp: suffix_def)
  have "last (e # d) = CHR '']''" using arg_cong[OF w, of last] by (simp add: REDACTED_def)
  then have "CHR '']'' \<in> set (e # d)" using last_in_set[of "e # d"] by simp
  then obtain u v where uv: "e # d = u @ CHR '']'' # v" by (metis split_list)
  have "\<not> prefix s (e # d @ z)"
  proof
    assume "prefix s (e # d @ z)"
    moreover have "e # d @ z = (e # d) @ z" by simp
    moreover have "\<dots> = u @ CHR '']'' # v @ z" unfolding uv by simp
    ultimately have "prefix s (u @ CHR '']'' # v @ z)" by metis
    then have "prefix s u" by (rule prefix_before) (use assms(1) in \<open>simp add: bracket_free_def\<close>)
    moreover have "length u \<le> length d" using arg_cong[OF uv, of length] by simp
    ultimately show False using Cons.prems(2) prefix_length_le[of s u] by simp
  qed
  moreover have "redactBytes s (d @ z) = d @ redactBytes s z"
    using Cons.IH[OF suffix_ConsD[OF Cons.prems(1)]] Cons.prems(2) by simp
  ultimately show ?case by simp
qed simp

lemma redact_straddle:
  assumes "bracket_free s" "\<not> prefix s (c # cs)" "prefix s (c # cs @ y)"
  shows "length cs + 1 < length s"
proof (rule ccontr)
  assume "\<not> length cs + 1 < length s"
  then have "length s \<le> length (c # cs)" by simp
  then have "prefix s (c # cs)" using assms(3) by (metis append_Cons prefix_length_prefix prefixI)
  then show False using assms(2) by simp
qed

lemma redact_split:
  assumes "bracket_free s"
  shows "redactBytes s (x @ y) =
     take (length (redactBytes s x) - (length s - 1)) (redactBytes s x) @
     redactBytes s (drop (length (redactBytes s x) - (length s - 1)) (redactBytes s x) @ y)"
  using assms
proof (induction s x rule: redactBytes.induct)
  case (2 s c cs)
  let ?n = "length s - 1"
  have ne: "s \<noteq> []" using 2(3) by (simp add: bracket_free_def)
  show ?case
  proof (cases "prefix s (c # cs)")
    case True
    let ?r = "redactBytes s (drop ?n cs)"
    have "prefix s (c # cs @ y)" using True by (metis append_Cons prefix_prefix)
    moreover have "length s - 1 \<le> length cs" using True prefix_length_le by fastforce
    ultimately have whole: "redactBytes s ((c # cs) @ y) = REDACTED @ redactBytes s (drop ?n cs @ y)"
      using ne by simp
    have r: "redactBytes s (c # cs) = REDACTED @ ?r" using True ne by simp
    have ih: "redactBytes s (drop ?n cs @ y) = take (length ?r - ?n) ?r @ redactBytes s (drop (length ?r - ?n) ?r @ y)"
      using 2(1)[OF _ 2(3)] True ne by simp
    show ?thesis
    proof (cases "?n \<le> length ?r")
      case True
      then show ?thesis using whole ih r by (simp add: Nat.add_diff_assoc)
    next
      case False
      let ?k = "length (REDACTED @ ?r) - ?n"
      have k: "?k \<le> length REDACTED" using False by simp
      let ?d = "drop ?k REDACTED"
      have "suffix ?d REDACTED" by (rule suffix_drop)
      moreover have "length ?d < length s" using False ne by (cases s) auto
      ultimately have "redactBytes s (?d @ ?r @ y) = ?d @ redactBytes s (?r @ y)" by (rule redact_tail[OF 2(3)])
      moreover have "redactBytes s (drop ?n cs @ y) = redactBytes s (?r @ y)" using ih False by simp
      ultimately have "redactBytes s ((c # cs) @ y) = take ?k REDACTED @ redactBytes s (?d @ ?r @ y)"
        using whole append_take_drop_id[of ?k REDACTED] by (metis append_assoc)
      then show ?thesis unfolding r using k by (simp only: take_append drop_append) simp
    qed
  next
    case False
    let ?r = "redactBytes s cs"
    have r: "redactBytes s (c # cs) = c # ?r" using False by simp
    have ih: "redactBytes s (cs @ y) = take (length ?r - ?n) ?r @ redactBytes s (drop (length ?r - ?n) ?r @ y)"
      using 2(2)[OF _ 2(3)] False by simp
    show ?thesis
    proof (cases "prefix s (c # cs @ y)")
      case True
      then have short: "length cs + 1 < length s" by (rule redact_straddle[OF 2(3) False])
      then have "?r = cs" by (intro redact_short) simp
      then show ?thesis using short r by simp
    next
      case no: False
      show ?thesis
      proof (cases "?n \<le> length ?r")
        case True
        then show ?thesis using no ih r by (simp add: Suc_diff_le)
      next
        case short: False
        have "\<not> prefix s (c # ?r @ y)"
        proof
          assume p: "prefix s (c # ?r @ y)"
          have "?r \<noteq> cs" using p no by auto
          then obtain a b where ab: "?r = a @ REDACTED @ b" using redact_cases by blast
          then have "prefix s ((c # a) @ CHR ''['' # drop 1 REDACTED @ b @ y)" using p by (simp add: REDACTED_def)
          then have "prefix s (c # a)" by (rule prefix_before) (use 2(3) in \<open>simp add: bracket_free_def\<close>)
          then have "length s \<le> length a + 1" using prefix_length_le by fastforce
          then show False using short ab by simp
        qed
        then show ?thesis using no ih r short by simp
      qed
    qed
  qed
qed simp

lemma redact_chunks_concat:
  "\<lbrakk>bracket_free s; length carry < length s\<rbrakk> \<Longrightarrow>
     concat (redact_chunks s carry chs) = redactBytes s (carry @ concat chs)"
proof (induction chs arbitrary: carry)
  case Nil
  then show ?case by (simp add: redact_short)
next
  case (Cons ch chs)
  let ?r = "redactBytes s (carry @ ch)"
  let ?k = "length ?r - (length s - 1)"
  have push: "redactor_push s carry ch = (drop ?k ?r, take ?k ?r)"
    using Cons.prems(1) by (auto simp: redactor_push_def bracket_free_def Let_def)
  have "length (drop ?k ?r) < length s" using Cons.prems(2) by simp
  from Cons.IH[OF Cons.prems(1) this] show ?case
    using push redact_split[OF Cons.prems(1), of "carry @ ch" "concat chs"] by simp
qed

text \<open>C35: however the network cuts a response into chunks, a key without brackets is replaced exactly where a
  replacement over the whole text would replace it: the bytes written are those of the redacted text.\<close>

theorem stream_redaction_exact:
  assumes "bracket_free key"
  shows "concat (redact_chunks key [] chunks) = redactBytes key (concat chunks)"
  using redact_chunks_concat[OF assms, of "[]"] assms by (simp add: bracket_free_def)

section \<open>The key is never delivered\<close>

lemma replacement_clean:
  assumes "bracket_free s" "\<not> str_includes ''REDACTED'' s" "suffix (e # d) REDACTED"
  shows "\<not> prefix s ((e # d) @ z)"
proof
  assume p: "prefix s ((e # d) @ z)"
  obtain u where u: "e # d = u @ '']''" "suffix u ''[REDACTED''"
  proof -
    obtain w where w: "REDACTED = w @ e # d" using assms(3) by (auto simp: suffix_def)
    have last: "last (e # d) = CHR '']''" using arg_cong[OF w, of last] by (simp add: REDACTED_def)
    have "butlast REDACTED = w @ butlast (e # d)" using arg_cong[OF w, of butlast] by (simp add: butlast_append)
    then have "suffix (butlast (e # d)) ''[REDACTED''" by (simp add: REDACTED_def suffix_def)
    then show thesis using that[of "butlast (e # d)"] last append_butlast_last_id[of "e # d"] by simp
  qed
  then have "prefix s (u @ CHR '']'' # z)" using p by simp
  then have s: "prefix s u" by (rule prefix_before) (use assms(1) in \<open>simp add: bracket_free_def\<close>)
  have "u = ''[REDACTED'' \<or> suffix u ''REDACTED''" using u(2) by (auto simp: suffix_Cons)
  then show False
  proof
    assume "u = ''[REDACTED''"
    then show False using s assms(1) by (cases s) (auto simp: bracket_free_def)
  next
    assume "suffix u ''REDACTED''"
    then have "str_includes ''REDACTED'' s" using s unfolding includes_iff suffix_def prefix_def by (metis append_assoc)
    then show False using assms(2) by simp
  qed
qed

lemma replacement_then:
  assumes "bracket_free s" "\<not> str_includes ''REDACTED'' s" "\<not> str_includes z s" "suffix d REDACTED"
  shows "\<not> str_includes (d @ z) s"
  using assms(4)
proof (induction d)
  case (Cons e d)
  then show ?case using replacement_clean[OF assms(1,2) Cons.prems, of z] suffix_ConsD[OF Cons.prems] by simp
qed (use assms(3) in simp)

lemma redact_removes:
  assumes "bracket_free s" "\<not> str_includes ''REDACTED'' s"
  shows "\<not> str_includes (redactBytes s x) s"
  using assms
proof (induction s x rule: redactBytes.induct)
  case (1 s)
  then show ?case by (simp add: bracket_free_def)
next
  case (2 s c cs)
  have ne: "s \<noteq> []" using 2(3) by (simp add: bracket_free_def)
  show ?case
  proof (cases "prefix s (c # cs)")
    case True
    then show ?thesis using 2(1)[OF _ 2(3,4)] replacement_then[OF 2(3,4)] ne by simp
  next
    case False
    have "\<not> prefix s (c # redactBytes s cs)"
    proof
      assume p: "prefix s (c # redactBytes s cs)"
      then have "redactBytes s cs \<noteq> cs" using False by auto
      then obtain a b where ab: "redactBytes s cs = a @ REDACTED @ b" "prefix a cs" using redact_cases by blast
      then have "prefix s ((c # a) @ CHR ''['' # drop 1 REDACTED @ b)" using p by (simp add: REDACTED_def)
      then have "prefix s (c # a)" by (rule prefix_before) (use 2(3) in \<open>simp add: bracket_free_def\<close>)
      then show False using False ab(2) by (meson prefix_order.trans same_prefix_prefix Cons_prefix_Cons)
    qed
    then show ?thesis using 2(2)[OF _ 2(3,4)] False by simp
  qed
qed

lemma redacted_chunks_clean:
  "\<lbrakk>bracket_free s; \<not> str_includes ''REDACTED'' s\<rbrakk> \<Longrightarrow> \<not> str_includes (concat (redact_chunks s [] chs)) s"
  using redact_chunks_concat[of s "[]" chs] redact_removes by (auto simp: bracket_free_def)

lemma proxy_clean:
  assumes "bracket_free (lc_key call)" "\<not> str_includes ''REDACTED'' (lc_key call)"
    and "proxyUpstream env now fails limit answer call st = (st', Llm_response status hs chunks)"
  shows "\<not> str_includes (concat chunks) (lc_key call)"
proof -
  have "lc_key call \<noteq> []" using assms(1) by (simp add: bracket_free_def)
  then show ?thesis using assms(3) redacted_chunks_clean[OF assms(1,2)] redact_removes[OF assms(1,2)]
    by (auto simp: proxyUpstream_def proxyMeteredEnforced_def Let_def
        split: option.splits if_splits prod.splits)
qed

text \<open>C33: whatever the provider answers, in whatever chunks, and whatever of the request it echoes, no body the
  proxy delivers to the job contains the provider key (a key without brackets that is no part of the
  replacement text).\<close>

theorem key_never_delivered:
  assumes "\<And>p key. lx_key env p = Some key \<Longrightarrow> key \<noteq> [] \<Longrightarrow> bracket_free key \<and> \<not> str_includes ''REDACTED'' key"
    and "handleMessages env now fails answer rq st = (st', Llm_response status hs chunks, calls)"
  shows "\<exists>call. set calls = {call} \<and> \<not> str_includes (concat chunks) (lc_key call)"
proof -
  obtain call where v: "vet_messages env rq (ms_db st) = Inr call"
    and p: "proxyUpstream env now fails MAX_ENFORCED_BUFFER_BYTES answer call st = (st', Llm_response status hs chunks)"
    and c: "calls = replicate (snd (fetch_upstream answer)) call"
    using assms(2) by (auto simp: handleMessages_def split: sum.splits prod.splits)
  have "\<exists>p. lx_key env p = Some (lc_key call) \<and> lc_key call \<noteq> []"
    using v by (auto simp: vet_messages_def Let_def split: option.splits json.splits if_splits)
  then have "\<not> str_includes (concat chunks) (lc_key call)"
    using proxy_clean[OF _ _ p] assms(1) by blast
  moreover have "set calls = {call}"
    using c by (auto simp: fetch_upstream_def Let_def split: up_answer.splits option.splits)
  ultimately show ?thesis by blast
qed

section \<open>What is forwarded\<close>

lemma set_key_set: "e \<in> set (set_key k v kvs) \<Longrightarrow> e = (k, v) \<or> e \<in> set kvs \<and> fst e \<noteq> k"
  by (force simp: set_key_def split: if_splits)

lemma set_key_field: "json_field k' (JObj (set_key k v kvs)) = (if k' = k then Some v else json_field k' (JObj kvs))"
proof -
  let ?f = "\<lambda>e. if fst e = k then (k, v) else e"
  have other: "map_of (rev (map ?f es)) k' = map_of (rev es) k'" if "k' \<noteq> k" for es
    using that by (induction es) (auto simp: map_add_def split: option.splits)
  have hit: "map_of (rev (map ?f kvs)) k = Some v" if kin: "k \<in> fst ` set kvs"
  proof -
    obtain w where "(k, w) \<in> set kvs" using kin by auto
    then have "?f (k, w) \<in> set (rev (map ?f kvs))" by (simp only: set_rev set_map) (rule imageI)
    then have "(k, v) \<in> set (rev (map ?f kvs))" by (simp only: fst_conv if_True simp_thms)
    then obtain x where x: "map_of (rev (map ?f kvs)) k = Some x" using weak_map_of_SomeI by fast
    from map_of_SomeD[OF this] have "(k, x) \<in> ?f ` set kvs" by simp
    then obtain e where "(k, x) = ?f e" by blast
    then show ?thesis using x by (cases "fst e = k") auto
  qed
  show ?thesis using other[of kvs] hit by (auto simp: set_key_def)
qed

lemma clamp_fields:
  "json_str ''model'' (JObj (clamp_max_tokens b kvs)) = json_str ''model'' (JObj kvs)"
  "\<lbrakk>b = Some ac; ac_maxOutputTokens ac = Some mx\<rbrakk> \<Longrightarrow>
     \<exists>q. json_num ''max_tokens'' (JObj (clamp_max_tokens b kvs)) = Some q \<and> q \<le> mx"
  by (auto simp: clamp_max_tokens_def json_str_def json_num_def set_key_field
      simp del: json_field.simps split: option.splits json.splits)

definition header_vetted :: "string \<Rightarrow> string \<times> string \<Rightarrow> bool" where
  "header_vetted key e \<longleftrightarrow>
     e = (''x-api-key'', key) \<or> e = (''content-type'', ''application/json'') \<or>
     e = (''anthropic-version'', ''2023-06-01'') \<or> toLowerCase (fst e) \<in> set FORWARDED_REQUEST_HEADERS"

lemma forward_headers_vetted: "e \<in> set (buildForwardHeaders hs key) \<Longrightarrow> header_vetted key e"
  unfolding buildForwardHeaders_def Let_def header_vetted_def
  by (auto dest!: set_key_set split: if_splits)

lemma fetch_count: "snd (fetch_upstream answer) = 1 \<or>
    snd (fetch_upstream answer) = 2 \<and>
      (answer 0 = Unreachable \<or> (\<exists>r. answer 0 = Answered r \<and> 500 \<le> ur_status r))"
  by (auto simp: fetch_upstream_def Let_def split: up_answer.splits)

definition vetted_call :: "llm_env \<Rightarrow> llm_request \<Rightarrow> dev_db \<Rightarrow> llm_call \<Rightarrow> bool" where
  "vetted_call env rq db call \<longleftrightarrow>
     (\<exists>token policy. bearerToken (lr_authorization rq) = Some token \<and>
        resolveJobByToken (lx_sha256 env) token db = Some (lc_job call) \<and>
        lx_policy env (j_agentKind (lc_job call)) = Some policy \<and>
        lc_model call \<in> set (lp_allowedModels policy) \<and> lx_key env (lp_provider policy) = Some (lc_key call)) \<and>
     \<not> isTerminalDevJobStatus (j_status (lc_job call)) \<and>
     (\<exists>kvs. lc_body call = json_stringify (lx_num env) (JObj kvs) \<and>
        json_str ''model'' (JObj kvs) = Some (lc_model call) \<and>
        (\<forall>ac mx. lx_budget env = Some ac \<longrightarrow> ac_maxOutputTokens ac = Some mx \<longrightarrow>
           (\<exists>q. json_num ''max_tokens'' (JObj kvs) = Some q \<and> q \<le> mx))) \<and>
     list_all (header_vetted (lc_key call)) (lc_headers call)"

lemma vet_messages_vetted:
  assumes "vet_messages env rq db = Inr call"
  shows "vetted_call env rq db call"
proof -
  obtain kvs where "lc_body call = json_stringify (lx_num env) (JObj (clamp_max_tokens (lx_budget env) kvs))"
    "json_str ''model'' (JObj kvs) = Some (lc_model call)"
    using assms by (auto simp: vet_messages_def Let_def split: option.splits json.splits if_splits)
  moreover have "\<exists>token policy. bearerToken (lr_authorization rq) = Some token \<and>
        resolveJobByToken (lx_sha256 env) token db = Some (lc_job call) \<and>
        lx_policy env (j_agentKind (lc_job call)) = Some policy \<and>
        lc_model call \<in> set (lp_allowedModels policy) \<and> lx_key env (lp_provider policy) = Some (lc_key call)"
    "\<not> isTerminalDevJobStatus (j_status (lc_job call))"
    "lc_headers call = buildForwardHeaders (lr_headers rq) (lc_key call)"
    using assms by (auto simp: vet_messages_def Let_def split: option.splits json.splits if_splits)
  ultimately show ?thesis
    unfolding vetted_call_def list_all_iff using clamp_fields forward_headers_vetted by metis
qed


section \<open>The budget\<close>

lemma usage_set_id: "j_id (usage_set now a b c j) = j_id j"
  by (simp add: usage_set_def)

definition readback :: "int \<Rightarrow> string \<Rightarrow> usage_tokens \<Rightarrow> rat \<Rightarrow> dev_db \<Rightarrow> dev_job \<Rightarrow> budget_position" where
  "readback now i u cost db j =
     (let j' = usage_set now (js_trunc (fst (splitTokens u))) (js_trunc (snd (splitTokens u))) cost j;
          repo = getRepo (j_repoId j') db
      in \<lparr>bp_costUsd = j_costUsd j', bp_tokensTotal = j_tokensIn j' + j_tokensOut j',
          bp_budgetCostUsd = coalesce (j_budgetCostUsd j') (Option.bind repo rp_budgetCostUsd),
          bp_budgetTokens = coalesce (j_budgetTokens j') (Option.bind repo rp_budgetTokens)\<rparr>)"

lemma accumulate_found:
  assumes "ids_distinct db" "getJob i db = Some j"
  shows "accumulateJobUsage now i (js_trunc (fst (splitTokens u))) (js_trunc (snd (splitTokens u))) cost db =
    (fst (update_job i (\<lambda>j. True) (usage_set now (js_trunc (fst (splitTokens u))) (js_trunc (snd (splitTokens u))) cost) db),
     Some (readback now i u cost db j))"
proof -
  let ?u = "usage_set now (js_trunc (fst (splitTokens u))) (js_trunc (snd (splitTokens u))) cost"
  obtain db' hits where up: "update_job i (\<lambda>j. True) ?u db = (db', hits)" by fastforce
  have "snd (update_job i (\<lambda>j. True) ?u db) = [?u j]"
    using hits_update[OF usage_set_id assms(1), of i "\<lambda>_. True"] assms(2) by simp
  then have "hits = [?u j]" using up by simp
  then show ?thesis using up by (simp add: accumulateJobUsage_def readback_def Let_def)
qed

lemma finalize_row:
  assumes "ids_distinct db" "finalizeDevJob (store_deps now term_fn regs throws) i St_budget_exceeded ctx db = (db', effs, r)"
  shows "db_jobs db' = db_jobs (terminal_row now St_budget_exceeded ctx i db)"
proof -
  obtain x where "finalizeDevJobDetailed (store_deps now term_fn regs throws) i St_budget_exceeded ctx db = (db', effs, x)"
    using assms(2) by (auto simp: finalizeDevJob_def split: prod.splits sum.splits)
  from finalize_jobs[OF assms(1) _ this] show ?thesis by simp
qed

lemma refused_after_budget:
  assumes "ids_distinct db" "getJob i db = Some j" "j_status j = St_budget_exceeded" "db = ms_db st"
    and "bearerToken (lr_authorization rq) = Some token"
    and "resolveJobByToken (lx_sha256 env) token db = Some k" "j_id k = i"
  shows "handleMessages env now fails answer rq st = (st, Llm_fail 402 ''dev.budget_exceeded'', [])"
proof -
  have "k \<in> set (db_jobs db)"
    using assms(6) by (auto simp: resolveJobByToken_def find_Some_iff split: option.splits if_splits)
  then have "getJob (j_id k) db = Some k"
    using find_row_in_set[OF assms(1)[unfolded ids_distinct_def]] by (simp add: getJob_def)
  then have "k = j" using assms(2,7) by simp
  then show ?thesis using assms(3-6) by (simp add: handleMessages_def vet_messages_def)
qed

text \<open>A metered call answers over-budget exactly when the counters read back by its own update are at or
  above a budget; the job, if it was not already over, is then terminal with status budget_exceeded, and
  every later request with its token is refused with 402 and reaches no provider.\<close>

theorem over_budget_refused:
  assumes ids: "ids_distinct (ms_db st)" and j: "getJob i (ms_db st) = Some j" "\<not> isTerminalDevJobStatus (j_status j)"
    and fin: "ac_finalize ac = store_deps fnow term_fn regs throws"
    and used: "computeCostUsd model u \<noteq> 0"
    and m: "meter ac False i model u st = (st', exceeded)"
  shows "exceeded = over_budget ac (readback (ac_now ac) i u (computeCostUsd model u) (ms_db st) j) \<and>
    (exceeded \<longrightarrow> (\<exists>j'. getJob i (ms_db st') = Some j' \<and> j_status j' = St_budget_exceeded) \<and>
      (\<forall>env rq token k. bearerToken (lr_authorization rq) = Some token \<longrightarrow>
         resolveJobByToken (lx_sha256 env) token (ms_db st') = Some k \<longrightarrow> j_id k = i \<longrightarrow>
         handleMessages env now fails answer rq st' = (st', Llm_fail 402 ''dev.budget_exceeded'', [])))"
proof -
  let ?u = "usage_set (ac_now ac) (js_trunc (fst (splitTokens u))) (js_trunc (snd (splitTokens u))) (computeCostUsd model u)"
  let ?db1 = "fst (update_job i (\<lambda>j. True) ?u (ms_db st))"
  let ?p = "readback (ac_now ac) i u (computeCostUsd model u) (ms_db st) j"
  have db1: "ids_distinct ?db1" "getJob i ?db1 = Some (?u j)"
    using ids j by (simp_all add: ids_distinct_update getJob_update usage_set_id)
  have over: "exceeded = over_budget ac ?p"
    using m used accumulate_found[OF ids j(1), of "ac_now ac" u "computeCostUsd model u"]
    by (auto simp: meter_def Let_def case_prod_beta split: if_splits)
  have "(\<exists>j'. getJob i (ms_db st') = Some j' \<and> j_status j' = St_budget_exceeded) \<and> ids_distinct (ms_db st')" if exceeded
  proof -
    obtain db' effs r where f: "finalizeDevJob (store_deps fnow term_fn regs throws) i St_budget_exceeded
         (reason_context (Some ''llm_budget_exceeded'')) ?db1 = (db', effs, r)"
      using prod_cases3 by blast
    have "ms_db st' = db'"
      using m used that over accumulate_found[OF ids j(1), of "ac_now ac" u "computeCostUsd model u"] f fin
      by (auto simp: meter_def Let_def case_prod_beta markBudgetExceeded_def split: if_splits)
    then have jobs: "db_jobs (ms_db st') = db_jobs (terminal_row fnow St_budget_exceeded
         (reason_context (Some ''llm_budget_exceeded'')) i ?db1)"
      using finalize_row[OF db1(1) f] by simp
    have "getJob i (terminal_row fnow St_budget_exceeded (reason_context (Some ''llm_budget_exceeded'')) i ?db1) =
        Some (finish_set fnow St_budget_exceeded (patch_of (reason_context (Some ''llm_budget_exceeded''))) (?u j))"
      using db1(2) j(2) by (simp add: terminal_row_get non_terminal_def usage_set_def)
    moreover have "ids_distinct (terminal_row fnow St_budget_exceeded (reason_context (Some ''llm_budget_exceeded'')) i ?db1)"
      using db1(1) by simp
    ultimately show ?thesis using jobs by (auto simp: getJob_def ids_distinct_def finish_set_def)
  qed
  then show ?thesis using over refused_after_budget by blast
qed

section \<open>Spending the counter does not see\<close>

lemma numeric4_small:
  assumes "0 \<le> k" "0 \<le> d" "d < 1 / 20000"
  shows "numeric4 (of_int k / 10000 + d) = of_int k / 10000"
proof -
  have "\<lfloor>(of_int k / 10000 + d) * 10000 + 1 / 2\<rfloor> = k"
    by (rule floor_unique) (use assms in \<open>simp_all add: algebra_simps\<close>)
  moreover have "0 \<le> (of_int k / 10000 + d :: rat)" using assms by simp
  ultimately show ?thesis by (simp add: numeric4_def)
qed

lemma insert_event_repos: "insert_event i prov sq ty ts pl db = Inr (db', r) \<Longrightarrow> db_repos db' = db_repos db"
  by (auto simp: insert_event_def Let_def split: if_splits)

lemma host_event_attempts_repos:
  assumes "\<And>k d. db_repos (race k d) = db_repos d"
  shows "db_repos (fst (host_event_attempts race k n now i ty pl db)) = db_repos db"
  using assms by (induction race k n now i ty pl db rule: host_event_attempts.induct)
    (auto simp: Let_def dest: insert_event_repos split: sum.splits option.splits)

lemma appendHostEvent_repos: "db_repos (fst (appendHostEvent now i ty pl db)) = db_repos db"
  by (simp add: appendHostEvent_def appendHostEvent_racing_def host_event_attempts_repos no_race_def
      split: option.splits)

text \<open>A job below its cost budget and without a token budget.\<close>

definition cost_capped :: "string \<Rightarrow> int \<Rightarrow> rat \<Rightarrow> dev_repo list \<Rightarrow> meter_state \<Rightarrow> bool" where
  "cost_capped i k b repos st \<longleftrightarrow>
     ids_distinct (ms_db st) \<and> db_repos (ms_db st) = repos \<and> of_int k / 10000 < b \<and> 0 \<le> k \<and>
     (\<exists>j. getJob i (ms_db st) = Some j \<and> j_costUsd j = of_int k / 10000 \<and> j_budgetCostUsd j = Some b \<and>
        j_budgetTokens j = None \<and> Option.bind (find_row rp_id (j_repoId j) repos) rp_budgetTokens = None)"

lemma small_call_keeps:
  assumes c: "cost_capped i k b repos st" and d: "computeCostUsd model u < 1 / 20000"
    and m: "meter ac fails i model u st = (st', exceeded)"
  shows "cost_capped i k b repos st' \<and> \<not> exceeded"
proof -
  obtain j where j: "ids_distinct (ms_db st)" "db_repos (ms_db st) = repos" "of_int k / 10000 < b" "0 \<le> k"
    "getJob i (ms_db st) = Some j" "j_costUsd j = of_int k / 10000" "j_budgetCostUsd j = Some b" "j_budgetTokens j = None"
    "Option.bind (find_row rp_id (j_repoId j) repos) rp_budgetTokens = None"
    using c by (auto simp: cost_capped_def)
  let ?u = "usage_set (ac_now ac) (js_trunc (fst (splitTokens u))) (js_trunc (snd (splitTokens u))) (computeCostUsd model u)"
  let ?db1 = "fst (update_job i (\<lambda>j. True) ?u (ms_db st))"
  let ?p = "readback (ac_now ac) i u (computeCostUsd model u) (ms_db st) j"
  have cost: "j_costUsd (?u j) = of_int k / 10000"
  proof -
    have "j_costUsd (?u j) = numeric4 (j_costUsd j + max 0 (computeCostUsd model u))" by (simp add: usage_set_def)
    also have "\<dots> = of_int k / 10000" unfolding j(6) by (rule numeric4_small) (use j(4) d in auto)
    finally show ?thesis .
  qed
  have "db_repos ?db1 = repos" using j(2) by (simp add: update_job_def sql_update_def)
  then have kept: "cost_capped i k b repos s1" if "db_jobs (ms_db s1) = db_jobs ?db1" "db_repos (ms_db s1) = db_repos ?db1" for s1 :: meter_state
    using that j cost ids_distinct_update[OF usage_set_id, where db = "ms_db st"] getJob_update[OF usage_set_id, where db = "ms_db st"]
    unfolding cost_capped_def by (simp add: ids_distinct_def getJob_def) (simp add: usage_set_def)
  have "bp_costUsd ?p = of_int k / 10000" using cost by (simp add: readback_def Let_def)
  moreover have "bp_budgetCostUsd ?p = Some b" "bp_budgetTokens ?p = None"
    using j by (simp_all add: readback_def Let_def usage_set_def getRepo_def)
  ultimately have under: "\<not> over_budget ac ?p" using j(3) by (simp add: over_budget_def cost_budget_def)
  show ?thesis
  proof (cases "fst (splitTokens u) + snd (splitTokens u) = 0 \<and> computeCostUsd model u = 0 \<or> fails")
    case True
    then show ?thesis using m c by (auto simp: meter_def Let_def case_prod_beta split: if_splits)
  next
    case False
    then have "\<not> exceeded" "db_jobs (ms_db st') = db_jobs ?db1" "db_repos (ms_db st') = db_repos ?db1"
      using m under accumulate_found[OF j(1,5), of "ac_now ac" u "computeCostUsd model u"]
      by (auto simp: meter_def Let_def case_prod_beta emitBudgetWarning_def appendHostEvent_jobs appendHostEvent_repos
          split: if_splits)
    then show ?thesis using kept by blast
  qed
qed

text \<open>Calls that cost less than half of a hundredth of a cent are free: the cost column keeps four decimals, so
  each update rounds the call away, and no number of them moves the counter or reaches the cost budget.\<close>

theorem small_calls_free:
  assumes "cost_capped i k b repos st" "computeCostUsd model u < 1 / 20000"
  shows "cost_capped i k b repos (((\<lambda>s. fst (meter ac False i model u s)) ^^ n) st) \<and>
    \<not> snd (meter ac False i model u (((\<lambda>s. fst (meter ac False i model u s)) ^^ n) st))"
proof -
  have "cost_capped i k b repos (((\<lambda>s. fst (meter ac False i model u s)) ^^ n) st)"
  proof (induction n)
    case (Suc n)
    show ?case using small_call_keeps[OF Suc assms(2) prod.collapse[symmetric]] by simp
  qed (use assms(1) in simp)
  then show ?thesis using small_call_keeps[OF _ assms(2) prod.collapse[symmetric]] by blast
qed

text \<open>At the warning threshold such a call warns again, every time.\<close>

lemma small_call_warns_again:
  assumes "bp_costUsd p = cost_budget ac p * ac_warnThreshold ac" "0 < bp_costUsd p" "0 < d"
  shows "warns ac d t p"
  using assms by (simp add: warns_def crossedEdge_def)

section \<open>Concrete calls\<close>

lemma stream_redaction_witness:
  "concat (redact_chunks ''sk1'' [] [''abs'', ''k1c'', ''d'']) = redactBytes ''sk1'' ''absk1cd''"
  using stream_redaction_exact[of "''sk1''" "[''abs'', ''k1c'', ''d'']"] by (simp add: bracket_free_def)

definition llm_accounting :: accounting where
  "llm_accounting = \<lparr>ac_defaultBudgetCostUsd = 5, ac_warnThreshold = DEFAULT_WARN_THRESHOLD,
     ac_maxOutputTokens = Some 1000, ac_now = 9, ac_finalize = store_deps 9 None [] (\<lambda>r j. False)\<rparr>"

definition llm_env_ex :: llm_env where
  "llm_env_ex = \<lparr>lx_sha256 = (\<lambda>t. t), lx_parse = (\<lambda>_. Some (JObj [(''model'', JStr ''claude-haiku-4-5'')])),
     lx_num = (\<lambda>_. ''1''),
     lx_policy = (\<lambda>_. Some \<lparr>lp_provider = ''anthropic'', lp_upstreamBaseUrl = ''https://a'',
        lp_allowedModels = [''claude-haiku-4-5'']\<rparr>),
     lx_key = (\<lambda>_. Some ''sk1''), lx_budget = Some llm_accounting\<rparr>"

definition llm_job :: dev_job where
  "llm_job = example_job\<lparr>j_runnerTokenHash := Some ''ab''\<rparr>"

definition llm_state :: meter_state where
  "llm_state = \<lparr>ms_db = empty_db\<lparr>db_repos := [example_repo], db_jobs := [llm_job]\<rparr>, ms_effects = [], ms_ledger = []\<rparr>"

definition llm_request_ex :: llm_request where
  "llm_request_ex = \<lparr>lr_authorization = Some ''Bearer ab'', lr_headers = [], lr_query = [], lr_body = ''x''\<rparr>"

definition llm_echo :: "nat \<Rightarrow> up_answer" where
  "llm_echo k = Answered \<lparr>ur_status = 401, ur_headers = [], ur_body = Some ([''a sk1 b''], False)\<rparr>"

lemma llm_bearer: "bearerToken (Some ''Bearer ab'') = Some ''ab''"
  by code_simp

lemma llm_resolved: "resolveJobByToken (\<lambda>t. t) ''ab'' (empty_db\<lparr>db_repos := [example_repo], db_jobs := [llm_job]\<rparr>) = Some llm_job"
  by (simp add: resolveJobByToken_def verifyRunnerToken_hash_def llm_job_def example_defs)

lemma llm_vetted: "\<exists>call. vet_messages llm_env_ex llm_request_ex (ms_db llm_state) = Inr call \<and> lc_key call = ''sk1''"
  by (simp add: vet_messages_def llm_request_ex_def llm_env_ex_def llm_state_def llm_bearer llm_resolved json_str_def)
    (simp add: llm_job_def)

lemma llm_echo_call:
  "\<exists>call. handleMessages llm_env_ex 9 False llm_echo llm_request_ex llm_state =
     (llm_state, Llm_response 401 [] [''a [REDACTED] b''], [call])"
proof -
  obtain call where "vet_messages llm_env_ex llm_request_ex (ms_db llm_state) = Inr call" "lc_key call = ''sk1''"
    using llm_vetted by blast
  moreover have "\<not> str_includes [] ''text/event-stream''" by simp
  ultimately show ?thesis
    by (simp add: handleMessages_def proxyUpstream_def fetch_upstream_def llm_echo_def is_sse_def copied_headers_def
        toLowerCase_def REDACTED_def)
qed

theorem key_never_delivered_witness:
  "\<exists>(call :: llm_call). \<not> str_includes (concat [''a [REDACTED] b'']) (lc_key call)"
proof -
  obtain call where c: "handleMessages llm_env_ex 9 False llm_echo llm_request_ex llm_state =
     (llm_state, Llm_response 401 [] [''a [REDACTED] b''], [call])" using llm_echo_call by blast
  have "\<exists>k. set [call] = {k} \<and> \<not> str_includes (concat [''a [REDACTED] b'']) (lc_key k)"
    by (rule key_never_delivered[OF _ c]) (auto simp: llm_env_ex_def bracket_free_def)
  then show ?thesis by blast
qed


definition small_usage :: usage_tokens where
  "small_usage = \<lparr>ut_input = 10, ut_output = 1, ut_cacheRead = 0, ut_cacheCreation = 0\<rparr>"

definition large_usage :: usage_tokens where
  "large_usage = \<lparr>ut_input = 6000000, ut_output = 0, ut_cacheRead = 0, ut_cacheCreation = 0\<rparr>"

lemma haiku_price: "priceForModel ''claude-haiku-4-5'' = plain_price 1 5"
  by code_simp

lemma usage_costs: "computeCostUsd ''claude-haiku-4-5'' small_usage = 3 / 200000"
  "computeCostUsd ''claude-haiku-4-5'' large_usage = 6"
  by (simp_all add: computeCostUsd_def haiku_price plain_price_def small_usage_def large_usage_def round8_def Let_def floor_eq_iff
      CACHE_READ_MULTIPLIER_def CACHE_WRITE_MULTIPLIER_def)

theorem over_budget_refused_witness:
  "snd (meter llm_accounting False ''j1'' ''claude-haiku-4-5'' large_usage llm_state) =
     over_budget llm_accounting (readback 9 ''j1'' large_usage 6 (ms_db llm_state) llm_job) \<and>
   over_budget llm_accounting (readback 9 ''j1'' large_usage 6 (ms_db llm_state) llm_job)"
proof -
  have "ids_distinct (ms_db llm_state)" "getJob ''j1'' (ms_db llm_state) = Some llm_job"
    "\<not> isTerminalDevJobStatus (j_status llm_job)"
    by (simp_all add: llm_state_def llm_job_def ids_distinct_def getJob_def empty_db_def)
  from over_budget_refused[OF this, where ac = llm_accounting and fnow = 9 and term_fn = None and regs = "[]"
      and throws = "\<lambda>r j. False" and model = "''claude-haiku-4-5''" and u = large_usage
      and st' = "fst (meter llm_accounting False ''j1'' ''claude-haiku-4-5'' large_usage llm_state)"
      and exceeded = "snd (meter llm_accounting False ''j1'' ''claude-haiku-4-5'' large_usage llm_state)"]
  have "snd (meter llm_accounting False ''j1'' ''claude-haiku-4-5'' large_usage llm_state) =
     over_budget llm_accounting (readback 9 ''j1'' large_usage 6 (ms_db llm_state) llm_job)"
    by (simp add: usage_costs llm_accounting_def)
  moreover have "over_budget llm_accounting (readback 9 ''j1'' large_usage 6 (ms_db llm_state) llm_job)"
    by (simp add: over_budget_def cost_budget_def readback_def llm_accounting_def llm_state_def llm_job_def example_defs
        usage_set_def numeric4_def getRepo_def example_repo_def Let_def)
  ultimately show ?thesis by simp
qed

definition capped_state :: meter_state where
  "capped_state = llm_state\<lparr>ms_db := empty_db\<lparr>db_repos := [example_repo],
     db_jobs := [llm_job\<lparr>j_budgetCostUsd := Some 1\<rparr>]\<rparr>\<rparr>"

theorem small_calls_free_witness:
  "\<not> snd (meter llm_accounting False ''j1'' ''claude-haiku-4-5'' small_usage
     (((\<lambda>s. fst (meter llm_accounting False ''j1'' ''claude-haiku-4-5'' small_usage s)) ^^ 1000000) capped_state))"
proof -
  have "cost_capped ''j1'' 0 1 [example_repo] capped_state"
    by (simp add: cost_capped_def capped_state_def llm_state_def llm_job_def example_defs ids_distinct_def getJob_def
        example_repo_def)
  from small_calls_free[OF this, where model = "''claude-haiku-4-5''" and u = small_usage
      and ac = llm_accounting and n = 1000000] show ?thesis
    unfolding usage_costs by simp
qed

end
