(* ===== verification/AdminShared.thy ===== *)
theory AdminShared
  imports JobWorker JsonText
begin

text \<open>
  What the administration routes share (\<open>routes/devPlatformShared.ts\<close>): the verified session, errors as
  values, the launcher test, the views sent to the browser and the admission guards; and the two stores
  beside the database, the vault of repository credentials (\<open>devRepoCredentials.ts\<close>, one fixed vault
  namespace) and the device-flow map (\<open>host/deviceFlow.ts\<close>).  The forge probes, the tracker, the device
  provider and token minting are parameters that answer or throw; message texts are left out.
\<close>

section \<open>Errors, session, parameters\<close>

datatype admin_error = DevPlatformError nat string | Internal_error

record session_claims =
  se_sub :: "string option"
  se_email :: "string option"
  se_role :: "string option"

record dev_platform_caller =
  cl_sub :: string
  cl_email :: string
  cl_role :: string

definition requireCaller :: "session_claims option \<Rightarrow> admin_error + dev_platform_caller" where
  "requireCaller s =
     (let opt = (\<lambda>v. case v of None \<Rightarrow> [] | Some x \<Rightarrow> x);
          sub = (case s of None \<Rightarrow> [] | Some c \<Rightarrow> opt (se_sub c)) in
      if sub = [] then Inl (DevPlatformError 401 ''devplatform.unauthorized'')
      else (case s of None \<Rightarrow> Inl Internal_error
            | Some c \<Rightarrow> Inr \<lparr>cl_sub = sub, cl_email = opt (se_email c), cl_role = opt (se_role c)\<rparr>))"

definition sendError :: "admin_error \<Rightarrow> nat \<times> string" where
  "sendError e = (case e of DevPlatformError st code \<Rightarrow> (st, code) | Internal_error \<Rightarrow> (500, ''devplatform.internal''))"

definition asString :: "json option \<Rightarrow> string" where
  "asString v = (case v of Some (JStr s) \<Rightarrow> trim s | _ \<Rightarrow> [])"

definition isPermittedLauncher :: "dev_repo \<Rightarrow> dev_platform_caller \<Rightarrow> bool" where
  "isPermittedLauncher repo caller \<longleftrightarrow>
     (if rp_createdBy repo = cl_sub caller then True
      else if cl_role caller = [] then False
      else cl_role caller \<in> set (rp_allowedLaunchers repo))"

section \<open>The credential vault\<close>

type_synonym vault = "string \<Rightarrow> string option"

definition repoTokenKey :: "string \<Rightarrow> string" where "repoTokenKey r = ''repo/'' @ r @ ''/token''"
definition repoTokenKindKey :: "string \<Rightarrow> string" where "repoTokenKindKey r = ''repo/'' @ r @ ''/token_kind''"
definition repoLoginKey :: "string \<Rightarrow> string" where "repoLoginKey r = ''repo/'' @ r @ ''/login''"
definition pendingTokenKey :: "string \<Rightarrow> string" where "pendingTokenKey s = ''pending/'' @ s @ ''/token''"

datatype token_kind = Tk_device_flow | Tk_pat

fun token_kind_name :: "token_kind \<Rightarrow> string" where
  "token_kind_name Tk_device_flow = ''device_flow''"
| "token_kind_name Tk_pat = ''pat''"

definition asTokenKind :: "string option \<Rightarrow> token_kind option" where
  "asTokenKind raw =
     (if raw = Some ''device_flow'' then Some Tk_device_flow else if raw = Some ''pat'' then Some Tk_pat else None)"

record dev_repo_connection =
  cn_connected :: bool
  cn_login :: "string option"
  cn_kind :: "token_kind option"

definition non_empty :: "string option \<Rightarrow> string option" where
  "non_empty v = (case v of Some s \<Rightarrow> if s = [] then None else Some s | None \<Rightarrow> None)"

definition getConnection :: "string \<Rightarrow> vault \<Rightarrow> dev_repo_connection" where
  "getConnection r v =
     (if non_empty (v (repoTokenKey r)) = None then \<lparr>cn_connected = False, cn_login = None, cn_kind = None\<rparr>
      else \<lparr>cn_connected = True, cn_login = non_empty (v (repoLoginKey r)), cn_kind = asTokenKind (v (repoTokenKindKey r))\<rparr>)"

definition save_credential :: "string \<Rightarrow> string \<Rightarrow> token_kind \<Rightarrow> string option \<Rightarrow> vault \<Rightarrow> vault" where
  "save_credential r token kind login v =
     (let v1 = v(repoTokenKey r \<mapsto> token, repoTokenKindKey r \<mapsto> token_kind_name kind) in
      case non_empty login of None \<Rightarrow> v1 | Some l \<Rightarrow> v1(repoLoginKey r \<mapsto> l))"

definition resolve_credential :: "string \<Rightarrow> vault \<Rightarrow> string option" where
  "resolve_credential r v = v (repoTokenKey r)"

definition clear_credential :: "string \<Rightarrow> vault \<Rightarrow> vault" where
  "clear_credential r v = v(repoTokenKey r := None, repoTokenKindKey r := None, repoLoginKey r := None)"

definition stashPending :: "string \<Rightarrow> string \<Rightarrow> vault \<Rightarrow> vault" where
  "stashPending sub token v = v(pendingTokenKey sub \<mapsto> token)"

definition resolvePending :: "string \<Rightarrow> vault \<Rightarrow> string option" where
  "resolvePending sub v = v (pendingTokenKey sub)"

definition clearPending :: "string \<Rightarrow> vault \<Rightarrow> vault" where
  "clearPending sub v = v(pendingTokenKey sub := None)"

definition promotePending :: "string \<Rightarrow> string \<Rightarrow> string option \<Rightarrow> vault \<Rightarrow> vault \<times> bool" where
  "promotePending sub r login v =
     (case non_empty (v (pendingTokenKey sub)) of
        None \<Rightarrow> (v, False)
      | Some token \<Rightarrow> ((save_credential r token Tk_device_flow login v)(pendingTokenKey sub := None), True))"

section \<open>Device flows in flight\<close>

text \<open>Times are milliseconds; the slack factor 0.8 of the throttle is 4/5.\<close>

record device_flow =
  dfl_deviceCode :: string
  dfl_intervalMs :: rat
  dfl_expiresAt :: rat
  dfl_lastPolledAt :: rat

type_synonym flow_store = "string \<Rightarrow> device_flow option"

definition flow_start :: "rat \<Rightarrow> string \<Rightarrow> string \<Rightarrow> rat \<Rightarrow> rat \<Rightarrow> flow_store \<Rightarrow> flow_store" where
  "flow_start now sub deviceCode intervalSec expiresInSec fs =
     fs(sub \<mapsto> \<lparr>dfl_deviceCode = deviceCode, dfl_intervalMs = max 1 intervalSec * 1000,
                dfl_expiresAt = now + expiresInSec * 1000, dfl_lastPolledAt = 0\<rparr>)"

definition flow_delete :: "string \<Rightarrow> flow_store \<Rightarrow> flow_store" where
  "flow_delete sub fs = fs(sub := None)"

definition flow_get :: "rat \<Rightarrow> string \<Rightarrow> flow_store \<Rightarrow> flow_store \<times> device_flow option" where
  "flow_get now sub fs =
     (case fs sub of None \<Rightarrow> (fs, None)
      | Some f \<Rightarrow> if dfl_expiresAt f < now then (flow_delete sub fs, None) else (fs, Some f))"

definition isTooSoon :: "rat \<Rightarrow> string \<Rightarrow> flow_store \<Rightarrow> bool" where
  "isTooSoon now sub fs =
     (case fs sub of None \<Rightarrow> False | Some f \<Rightarrow> now - dfl_lastPolledAt f < dfl_intervalMs f * (4/5))"

definition markPolled :: "rat \<Rightarrow> string \<Rightarrow> flow_store \<Rightarrow> flow_store" where
  "markPolled now sub fs = (case fs sub of None \<Rightarrow> fs | Some f \<Rightarrow> fs(sub \<mapsto> f\<lparr>dfl_lastPolledAt := now\<rparr>))"

definition bumpInterval :: "string \<Rightarrow> rat \<Rightarrow> flow_store \<Rightarrow> flow_store" where
  "bumpInterval sub intervalSec fs =
     (case fs sub of None \<Rightarrow> fs | Some f \<Rightarrow> fs(sub \<mapsto> f\<lparr>dfl_intervalMs := max 1 intervalSec * 1000\<rparr>))"

section \<open>Views\<close>

text \<open>What the browser sees of a repository and of a job: never the vault reference, the token hash or the lease.\<close>

record credential_view =
  cv_kind :: dev_repo_credential_kind
  cv_login :: "string option"
  cv_isSet :: bool

definition token_credential_kind :: "token_kind \<Rightarrow> dev_repo_credential_kind" where
  "token_credential_kind k = (case k of Tk_device_flow \<Rightarrow> Cred_device_flow | Tk_pat \<Rightarrow> Cred_pat)"

record dev_repo_view =
  rv_id :: string
  rv_forgeKind :: string
  rv_owner :: string
  rv_name :: string
  rv_cloneUrl :: string
  rv_defaultBranch :: string
  rv_trackerKind :: "string option"
  rv_trackerConfig :: json
  rv_allowedTriggers :: "string list"
  rv_allowedLaunchers :: "string list"
  rv_egressAllowlist :: "string list"
  rv_runsTests :: bool
  rv_branchProtectionOk :: "bool option"
  rv_branchProtectionCheckedAt :: "int option"
  rv_budgetCostUsd :: "rat option"
  rv_triggerLabel :: string
  rv_webhookEnabled :: bool
  rv_webhookSenders :: "string list"
  rv_createdBy :: string
  rv_createdAt :: int
  rv_updatedAt :: int
  rv_credential :: credential_view

definition toRepoView :: "dev_repo \<Rightarrow> dev_repo_connection \<Rightarrow> dev_repo_view" where
  "toRepoView repo conn =
     \<lparr>rv_id = rp_id repo, rv_forgeKind = rp_forgeKind repo, rv_owner = rp_owner repo, rv_name = rp_name repo,
      rv_cloneUrl = rp_cloneUrl repo, rv_defaultBranch = rp_defaultBranch repo,
      rv_trackerKind = rp_trackerKind repo, rv_trackerConfig = rp_trackerConfig repo,
      rv_allowedTriggers = rp_allowedTriggers repo, rv_allowedLaunchers = rp_allowedLaunchers repo,
      rv_egressAllowlist = rp_egressAllowlist repo, rv_runsTests = rp_runsTests repo,
      rv_branchProtectionOk = rp_branchProtectionOk repo,
      rv_branchProtectionCheckedAt = rp_branchProtectionCheckedAt repo,
      rv_budgetCostUsd = rp_budgetCostUsd repo, rv_triggerLabel = rp_triggerLabel repo,
      rv_webhookEnabled = rp_webhookEnabled repo, rv_webhookSenders = rp_webhookSenders repo,
      rv_createdBy = rp_createdBy repo, rv_createdAt = rp_createdAt repo, rv_updatedAt = rp_updatedAt repo,
      rv_credential = \<lparr>cv_kind = (case cn_kind conn of Some k \<Rightarrow> token_credential_kind k | None \<Rightarrow> rp_credentialKind repo),
                       cv_login = cn_login conn, cv_isSet = cn_connected conn\<rparr>\<rparr>"

record dev_job_view =
  jv_id :: string
  jv_repoId :: string
  jv_kind :: dev_job_kind
  jv_brief :: string
  jv_source :: dev_job_source
  jv_sourceRef :: "string option"
  jv_baseSha :: "string option"
  jv_backend :: runner_backend_kind
  jv_agentKind :: string
  jv_authMode :: dev_job_auth_mode
  jv_provision :: nat
  jv_phase :: dev_job_phase
  jv_status :: dev_job_status
  jv_branch :: "string option"
  jv_prUrl :: "string option"
  jv_result :: "(dev_job_outcome \<times> string option \<times> string option \<times> string option) option"
  jv_error :: "string option"
  jv_usage :: "int \<times> int \<times> rat \<times> rat option \<times> bool"
  jv_createdBy :: string
  jv_createdAt :: int
  jv_startedAt :: "int option"
  jv_endedAt :: "int option"
  jv_updatedAt :: int


definition toJobView :: "dev_job \<Rightarrow> dev_job_view" where
  "toJobView job =
     \<lparr>jv_id = j_id job, jv_repoId = j_repoId job, jv_kind = j_kind job, jv_brief = j_brief job,
      jv_source = j_source job, jv_sourceRef = j_sourceRef job, jv_baseSha = j_baseSha job,
      jv_backend = j_backend job, jv_agentKind = j_agentKind job, jv_authMode = j_authMode job,
      jv_provision = j_provision job, jv_phase = j_phase job, jv_status = j_status job,
      jv_branch = j_branch job, jv_prUrl = j_prUrl job,
      jv_result = map_option (\<lambda>r. (r_outcome r, r_summary r, r_diffArtifactId r, r_error r)) (j_result job),
      jv_error = j_error job,
      jv_usage = (j_tokensIn job, j_tokensOut job, j_costUsd job, j_budgetCostUsd job,
        j_usageEstimated job \<or>
        (case Option.bind (Option.bind (j_result job) r_usage) u_estimated of None \<Rightarrow> False | Some b \<Rightarrow> b)),
      jv_createdBy = j_createdBy job, jv_createdAt = j_createdAt job, jv_startedAt = j_startedAt job,
      jv_endedAt = j_endedAt job, jv_updatedAt = j_updatedAt job\<rparr>"

section \<open>Admission guards\<close>

definition assertLocalBackendAdmissible :: "runner_backend_kind \<Rightarrow> dev_job_source \<Rightarrow> bool \<Rightarrow> admin_error option" where
  "assertLocalBackendAdmissible backend source runsTests =
     (if backend \<noteq> Be_local then None
      else if runsTests then Some (DevPlatformError 422 ''devplatform.local_backend_requires_no_exec'')
      else if source \<noteq> Src_admin then Some (DevPlatformError 422 ''devplatform.local_backend_admin_only'')
      else None)"

definition assertAuthModeAdmissible_route :: "dev_job_auth_mode \<Rightarrow> dev_job_source \<Rightarrow> runner_backend_kind \<Rightarrow> bool
    \<Rightarrow> bool \<Rightarrow> admin_error option" where
  "assertAuthModeAdmissible_route authMode source backend runsTests subscriptionModeEnabled =
     (if authMode \<noteq> Auth_subscription then None
      else if \<not> subscriptionModeEnabled then Some (DevPlatformError 422 ''devplatform.subscription_disabled'')
      else if runsTests then Some (DevPlatformError 422 ''devplatform.subscription_requires_no_exec'')
      else if source \<noteq> Src_admin then Some (DevPlatformError 422 ''devplatform.subscription_operator_only'')
      else if backend = Be_fly then Some (DevPlatformError 422 ''devplatform.subscription_backend_unsupported'')
      else None)"

definition brief_capabilities :: "runner_backend_kind \<Rightarrow> bool \<Rightarrow> bool \<times> bool" where
  "brief_capabilities backend runsTests = (if backend = Be_local then (False, False) else (True, runsTests))"

section \<open>State and parameters of the router\<close>

record repo_access =
  ra_ok :: bool
  ra_defaultBranch :: string
  ra_login :: "string option"

record ticket =
  tk_number :: int
  tk_title :: string
  tk_body :: string
  tk_labels :: "string list"
  tk_htmlUrl :: string
  tk_authorLogin :: string

datatype device_poll =
    Poll_authorized string
  | Poll_pending
  | Poll_slow_down rat
  | Poll_expired
  | Poll_denied
  | Poll_error

record device_code =
  dc_deviceCode :: string
  dc_userCode :: string
  dc_verificationUri :: string
  dc_expiresIn :: rat
  dc_interval :: rat

record device_provider =
  dv_requestDeviceCode :: "string list \<Rightarrow> device_code option"
  dv_pollAccessToken :: "string \<Rightarrow> device_poll option"
  dv_fetchUserLogin :: "string \<Rightarrow> string option"

text \<open>\<open>None\<close> of a parameter's answer is a throw.  \<open>ae_protection\<close> is the status GitHub answers to the
  branch-protection read.\<close>

record admin_env = worker_env +
  ae_probe :: "string \<Rightarrow> string \<Rightarrow> string \<Rightarrow> repo_access option"
  ae_protection :: "string \<Rightarrow> string \<Rightarrow> string \<Rightarrow> string \<Rightarrow> nat option"
  ae_getTicket :: "string \<Rightarrow> string \<Rightarrow> string \<Rightarrow> int \<Rightarrow> ticket option"
  ae_listOpenTickets :: "string \<Rightarrow> string \<Rightarrow> string \<Rightarrow> int \<Rightarrow> ticket list option"
  ae_deviceFlow :: "(device_provider \<times> string list option) option"
  ae_mintHash :: "dev_db \<Rightarrow> string"
  ae_cloneUrlFor :: "string \<Rightarrow> string \<Rightarrow> string"

definition worker_part :: "admin_env \<Rightarrow> worker_env" where
  "worker_part env = worker_env.truncate env"

record admin_state =
  as_worker :: worker_state
  as_vault :: vault
  as_flows :: flow_store

abbreviation as_db :: "admin_state \<Rightarrow> dev_db" where "as_db s \<equiv> ww_db (as_worker s)"

definition with_admin_db :: "dev_db \<Rightarrow> admin_state \<Rightarrow> admin_state" where
  "with_admin_db db s = s\<lparr>as_worker := (as_worker s)\<lparr>ww_db := db\<rparr>\<rparr>"

definition checkBranchProtection :: "nat option \<Rightarrow> bool option option" where
  "checkBranchProtection status =
     (case status of None \<Rightarrow> None
      | Some st \<Rightarrow> if st = 200 then Some (Some True) else if st = 404 then Some (Some False)
                  else if st = 403 then Some None else None)"

section \<open>Loading a job\<close>

definition loadJob :: "string \<Rightarrow> dev_db \<Rightarrow> admin_error + dev_job" where
  "loadJob jobId db =
     (if jobId = [] then Inl (DevPlatformError 400 ''devplatform.invalid_id'')
      else case getJob jobId db of
        None \<Rightarrow> Inl (DevPlatformError 404 ''devplatform.job_not_found'') | Some j \<Rightarrow> Inr j)"

definition callerMayReadRepo :: "string \<Rightarrow> dev_platform_caller \<Rightarrow> dev_db \<Rightarrow> bool" where
  "callerMayReadRepo jobId caller db \<longleftrightarrow>
     (case getJob jobId db of None \<Rightarrow> False
      | Some j \<Rightarrow> (case getRepo (j_repoId j) db of None \<Rightarrow> False | Some r \<Rightarrow> isPermittedLauncher r caller))"

definition loadAuthorizedJob :: "string \<Rightarrow> dev_platform_caller \<Rightarrow> dev_db \<Rightarrow> admin_error + dev_job" where
  "loadAuthorizedJob jobId caller db =
     (case loadJob jobId db of
        Inl e \<Rightarrow> Inl e
      | Inr j \<Rightarrow> (case getRepo (j_repoId j) db of
            None \<Rightarrow> Inl (DevPlatformError 404 ''devplatform.job_not_found'')
          | Some r \<Rightarrow> if isPermittedLauncher r caller then Inr j
                      else Inl (DevPlatformError 404 ''devplatform.job_not_found'')))"

lemma authorized_iff:
  "jobId \<noteq> [] \<Longrightarrow> loadAuthorizedJob jobId caller db =
     (if callerMayReadRepo jobId caller db then Inr (the (getJob jobId db))
      else Inl (DevPlatformError 404 ''devplatform.job_not_found''))"
  by (auto simp: loadAuthorizedJob_def loadJob_def callerMayReadRepo_def split: option.splits)

section \<open>The stores behave like separate cells\<close>

lemma key_facts [simp]:
  "repoTokenKey a = repoTokenKey b \<longleftrightarrow> a = b" "pendingTokenKey a = pendingTokenKey b \<longleftrightarrow> a = b"
  "repoTokenKindKey a = repoTokenKindKey b \<longleftrightarrow> a = b" "repoLoginKey a = repoLoginKey b \<longleftrightarrow> a = b"
  "repoTokenKey a \<noteq> pendingTokenKey b" "pendingTokenKey b \<noteq> repoTokenKey a"
  "repoTokenKindKey a \<noteq> pendingTokenKey b" "pendingTokenKey b \<noteq> repoTokenKindKey a"
  "repoLoginKey a \<noteq> pendingTokenKey b" "pendingTokenKey b \<noteq> repoLoginKey a"
  by (simp_all add: repoTokenKey_def pendingTokenKey_def repoTokenKindKey_def repoLoginKey_def)

end
