(* ===== verification/Triggers.thy ===== *)
theory Triggers
  imports AdminShared GateStore
begin

text \<open>
  The trigger sources behind the webhook route: the job-creation service every non-interactive trigger
  goes through (\<open>triggers/triggerJobService.ts\<close>), the delivery ledger (\<open>triggers/webhookDeliveryStore.ts\<close>)
  and the tracker poller (\<open>triggers/trackerPoller.ts\<close>).  The service is split at its two awaits, so that
  other transactions can commit between the insert of the job and the opening of its gate.  What a
  tracker answers is a parameter; a date is its \<open>Date.parse\<close> value in milliseconds.
\<close>

section \<open>The job-creation service\<close>

record trigger_input =
  ti_repo :: dev_repo
  ti_backend :: runner_backend_kind
  ti_kind :: dev_job_kind
  ti_brief :: string
  ti_sourceRef :: string
  ti_source :: dev_job_source
  ti_createdBy :: string
  ti_tokenHash :: string
  ti_requireGate :: bool
  ti_senderLogin :: "string option"

datatype trigger_decision = Td_created | Td_refused_policy | Td_deduped_active_job

record trigger_result =
  tr_decision :: trigger_decision
  tr_job :: "dev_job option"
  tr_gated :: bool
  tr_reason :: "string option"

datatype trigger_error = Te_store store_error | Te_gate gate_error

definition structural_refusal :: "trigger_input \<Rightarrow> string option" where
  "structural_refusal input =
     (if ti_backend input = Be_local then Some ''local backend not allowed for trigger jobs''
      else if rp_credentialKind (ti_repo input) = Cred_device_flow
      then Some ''device_flow credential not allowed for trigger jobs''
      else if ti_source input = Src_webhook \<and> rp_credentialKind (ti_repo input) \<noteq> Cred_github_app
      then Some (''webhook jobs require github_app credential (repo is '' @
             squote (dev_repo_credential_kind_name (rp_credentialKind (ti_repo input))) @ '')'')
      else None)"

definition trigger_new_job :: "trigger_input \<Rightarrow> new_dev_job" where
  "trigger_new_job input =
     \<lparr>n_repoId = rp_id (ti_repo input), n_kind = ti_kind input, n_brief = ti_brief input,
      n_source = ti_source input, n_sourceRef = Some (ti_sourceRef input), n_baseSha = None,
      n_backend = ti_backend input, n_agentKind = None, n_authMode = None, n_provision = None,
      n_phase = (if ti_requireGate input then Some Ph_await_human else None),
      n_status = (if ti_requireGate input then Some St_waiting else None),
      n_branch = None, n_createdBy = ti_createdBy input\<rparr>"

definition isUniqueViolation :: "store_error \<Rightarrow> bool" where
  "isUniqueViolation e = (case e of Unique_violation _ \<Rightarrow> True | _ \<Rightarrow> False)"

datatype insert_outcome = Settled trigger_result | Gate_pending dev_job

definition trigger_insert :: "int \<Rightarrow> string \<Rightarrow> trigger_input \<Rightarrow> dev_db
    \<Rightarrow> dev_db \<times> (trigger_error + insert_outcome)" where
  "trigger_insert now newId input db =
     (case structural_refusal input of
        Some why \<Rightarrow> (db, Inr (Settled \<lparr>tr_decision = Td_refused_policy, tr_job = None, tr_gated = False,
                                     tr_reason = Some why\<rparr>))
      | None \<Rightarrow>
          (case createJob now newId (ti_tokenHash input) (trigger_new_job input) db of
             (db', Inl e) \<Rightarrow>
               (if isUniqueViolation e
                then (db', Inr (Settled \<lparr>tr_decision = Td_deduped_active_job, tr_job = None,
                                          tr_gated = False, tr_reason = None\<rparr>))
                else (db', Inl (Te_store e)))
           | (db', Inr job) \<Rightarrow>
               (if ti_requireGate input then (db', Inr (Gate_pending job))
                else (db', Inr (Settled \<lparr>tr_decision = Td_created, tr_job = Some job, tr_gated = False,
                                          tr_reason = None\<rparr>)))))"

definition first_source_gate :: "trigger_input \<Rightarrow> dev_job \<Rightarrow> open_gate_input" where
  "first_source_gate input job =
     (let repo = ti_repo input;
          role = (case rp_approverRoleKey repo of Some r \<Rightarrow> r | None \<Rightarrow> [])
      in \<lparr>og_jobId = j_id job, og_gateKind = Some Review_gate, og_planArtifactId = None,
          og_planSha256 = None, og_baseSha = None,
          og_questions = [\<lparr>q_id = ''approve-trigger-source'',
             q_text = ''First job from trigger source '' @
               squote (case ti_senderLogin input of Some s \<Rightarrow> s | None \<Rightarrow> ''unknown'') @ '' on '' @
               rp_owner repo @ ''/'' @ rp_name repo @ ''. Approve before the agent runs.''\<rparr>],
          og_principalKind = (if role \<noteq> [] then Principal_role else Principal_user),
          og_principalRef = (if role \<noteq> [] then role else rp_createdBy repo),
          og_deadlineIso = Some (rp_gateDeadlineIso repo)\<rparr>)"

definition trigger_gate :: "int \<Rightarrow> int \<Rightarrow> string \<Rightarrow> trigger_input \<Rightarrow> dev_job \<Rightarrow> dev_db
    \<Rightarrow> dev_db \<times> (trigger_error + trigger_result)" where
  "trigger_gate now clock gateId input job db =
     (case open_gate now clock gateId (first_source_gate input job) db of
        (db', Inl e) \<Rightarrow> (db', Inl (Te_gate e))
      | (db', Inr g) \<Rightarrow> (db', Inr \<lparr>tr_decision = Td_created, tr_job = Some job, tr_gated = True,
                                   tr_reason = None\<rparr>))"

text \<open>The whole call, with \<open>between\<close> what other connections commit before the gate is opened.\<close>

definition createTriggerJob :: "(dev_db \<Rightarrow> dev_db) \<Rightarrow> int \<Rightarrow> string \<Rightarrow> int \<Rightarrow> int \<Rightarrow> string \<Rightarrow> trigger_input
    \<Rightarrow> dev_db \<Rightarrow> dev_db \<times> (trigger_error + trigger_result)" where
  "createTriggerJob between now newId gateNow clock gateId input db =
     (case trigger_insert now newId input db of
        (db1, Inl e) \<Rightarrow> (db1, Inl e)
      | (db1, Inr (Settled r)) \<Rightarrow> (db1, Inr r)
      | (db1, Inr (Gate_pending job)) \<Rightarrow> trigger_gate gateNow clock gateId input job (between db1))"

definition hasActiveTriggerJob :: "string \<Rightarrow> string \<Rightarrow> dev_job_source \<Rightarrow> dev_db \<Rightarrow> bool" where
  "hasActiveTriggerJob repoId ref source db \<longleftrightarrow>
     list_ex (\<lambda>j. j_repoId j = repoId \<and> j_sourceRef j = Some ref \<and> j_source j = source \<and> non_terminal j)
       (db_jobs db)"

section \<open>The delivery ledger\<close>

datatype delivery_outcome =
    Do_received | Do_job_created | Do_refused_sender | Do_rate_limited | Do_deduped_active_job
  | Do_refused_policy | Do_disabled | Do_duplicate | Do_dropped_event | Do_dropped_repo
  | Do_dropped_label

record webhook_delivery =
  wd_id :: string
  wd_event :: "string option"
  wd_repo :: "string option"
  wd_issueNumber :: "int option"
  wd_sender :: "string option"
  wd_outcome :: delivery_outcome
  wd_receivedAt :: int

type_synonym ledger = "webhook_delivery list"

record delivery_claim =
  dc_id :: string
  dc_event :: "string option"
  dc_repo :: "string option"
  dc_issueNumber :: "rat option"
  dc_sender :: "string option"

text \<open>\<open>issue_number\<close> is an INTEGER column: a value that is no 32-bit integer makes the INSERT fail.\<close>

definition int4_of :: "rat option \<Rightarrow> (int option) option" where
  "int4_of q =
     (case q of None \<Rightarrow> Some None
      | Some x \<Rightarrow> (if of_int \<lfloor>x\<rfloor> = x \<and> - 2147483648 \<le> \<lfloor>x\<rfloor> \<and> \<lfloor>x\<rfloor> \<le> 2147483647
                   then Some (Some \<lfloor>x\<rfloor>) else None))"

definition claim_delivery :: "int \<Rightarrow> delivery_claim \<Rightarrow> ledger \<Rightarrow> ledger \<times> bool option" where
  "claim_delivery now input rows =
     (case int4_of (dc_issueNumber input) of
        None \<Rightarrow> (rows, None)
      | Some n \<Rightarrow>
          (if find_row wd_id (dc_id input) rows \<noteq> None then (rows, Some False)
           else (rows @ [\<lparr>wd_id = dc_id input, wd_event = dc_event input, wd_repo = dc_repo input,
                          wd_issueNumber = n, wd_sender = dc_sender input, wd_outcome = Do_received,
                          wd_receivedAt = now\<rparr>], Some True)))"

definition setOutcome :: "string \<Rightarrow> delivery_outcome \<Rightarrow> ledger \<Rightarrow> ledger" where
  "setOutcome i oc rows = fst (sql_update (\<lambda>r. wd_id r = i) (\<lambda>r. r\<lparr>wd_outcome := oc\<rparr>) rows)"

definition counts_for_repo :: "string \<Rightarrow> int \<Rightarrow> webhook_delivery \<Rightarrow> bool" where
  "counts_for_repo repo since r \<longleftrightarrow>
     wd_repo r = Some repo \<and> wd_outcome r = Do_job_created \<and> since \<le> wd_receivedAt r"

definition counts_for_sender :: "string \<Rightarrow> string \<Rightarrow> int \<Rightarrow> webhook_delivery \<Rightarrow> bool" where
  "counts_for_sender repo sender since r \<longleftrightarrow> counts_for_repo repo since r \<and> wd_sender r = Some sender"

text \<open>One transaction under the repository's advisory lock; the limits are configuration numbers.\<close>

definition reserveJobSlot :: "string \<Rightarrow> string \<Rightarrow> string \<Rightarrow> int \<Rightarrow> int \<Rightarrow> int \<Rightarrow> ledger \<Rightarrow> ledger \<times> bool" where
  "reserveJobSlot repo sender i repoLimit senderLimit since rows =
     (let repoCount = int (length (filter (counts_for_repo repo since) rows));
          senderCount = int (length (filter (counts_for_sender repo sender since) rows));
          next_outcome = (if repoLimit \<le> repoCount \<or> senderLimit \<le> senderCount
                          then Do_rate_limited else Do_job_created)
      in (setOutcome i next_outcome rows, next_outcome = Do_job_created))"

definition hasPriorJob :: "string \<Rightarrow> string \<Rightarrow> ledger \<Rightarrow> bool" where
  "hasPriorJob repo sender rows \<longleftrightarrow>
     list_ex (\<lambda>r. wd_repo r = Some repo \<and> wd_sender r = Some sender \<and> wd_outcome r = Do_job_created) rows"

section \<open>The tracker poller\<close>

definition MIN_TRACKER_POLL_INTERVAL_S :: int where "MIN_TRACKER_POLL_INTERVAL_S = 60"

text \<open>\<open>Math.trunc\<close>; None is a number that is not finite.\<close>

definition effectivePollIntervalS :: "rat option \<Rightarrow> int" where
  "effectivePollIntervalS x =
     (case x of None \<Rightarrow> MIN_TRACKER_POLL_INTERVAL_S
      | Some q \<Rightarrow> (let n = (if 0 \<le> q then \<lfloor>q\<rfloor> else \<lceil>q\<rceil>) in
                   if n < MIN_TRACKER_POLL_INTERVAL_S then MIN_TRACKER_POLL_INTERVAL_S else n))"

record dated_ticket = ticket +
  tk_updatedAt :: "int option"

datatype tracker_answer =
    Tracker_throws
  | No_tracker
  | Listing_throws
  | Tickets "dated_ticket list"

text \<open>The poll columns of \<open>dev_repos\<close> that \<open>DevRepo\<close> does not carry.\<close>

record poll_columns =
  po_intervalS :: int
  po_cursor :: "int option"

record poll_state =
  ps_db :: dev_db
  ps_columns :: "string \<Rightarrow> poll_columns"
  ps_lastPolledAt :: "string \<Rightarrow> int option"

text \<open>\<open>Date.parse\<close> and \<open>toISOString\<close> are inverse on a stored cursor, so it stays in milliseconds.\<close>

definition advancePollCursor :: "string \<Rightarrow> int \<Rightarrow> (string \<Rightarrow> poll_columns) \<Rightarrow> string \<Rightarrow> poll_columns" where
  "advancePollCursor repoId t cols =
     (case po_cursor (cols repoId) of
        None \<Rightarrow> cols(repoId := (cols repoId)\<lparr>po_cursor := Some t\<rparr>)
      | Some c \<Rightarrow> (if c < t then cols(repoId := (cols repoId)\<lparr>po_cursor := Some t\<rparr>) else cols))"

definition listPollableRepos :: "poll_state \<Rightarrow> (dev_repo \<times> int \<times> int option) list" where
  "listPollableRepos st =
     map (\<lambda>r. (r, po_intervalS (ps_columns st (rp_id r)), po_cursor (ps_columns st (rp_id r))))
       (filter (\<lambda>r. ''tracker'' \<in> set (rp_allowedTriggers r) \<and>
                    (rp_trackerKind r \<noteq> None \<or> rp_credentialKind r = Cred_github_app))
         (db_repos (ps_db st)))"

record poll_env =
  pv_backend :: runner_backend_kind
  pv_now :: int
  pv_newId :: "nat \<Rightarrow> string"
  pv_tokenHash :: "nat \<Rightarrow> string"

definition ticket_ref :: "dev_repo \<Rightarrow> dated_ticket \<Rightarrow> string" where
  "ticket_ref repo t = rp_owner repo @ ''/'' @ rp_name repo @ ''#'' @ show_int (tk_number t)"

definition seen_before :: "int option \<Rightarrow> dated_ticket \<Rightarrow> bool" where
  "seen_before cursor t \<longleftrightarrow>
     (case (cursor, tk_updatedAt t) of (Some c, Some u) \<Rightarrow> u \<le> c | _ \<Rightarrow> False)"

definition ticket_input :: "poll_env \<Rightarrow> nat \<Rightarrow> dev_repo \<Rightarrow> dated_ticket \<Rightarrow> trigger_input" where
  "ticket_input env k repo t =
     \<lparr>ti_repo = repo, ti_backend = pv_backend env, ti_kind = Kind_fix_issue,
      ti_brief = tk_title t @ newline @ newline @ tk_body t, ti_sourceRef = ticket_ref repo t,
      ti_source = Src_tracker, ti_createdBy = ''tracker:poll'', ti_tokenHash = pv_tokenHash env k,
      ti_requireGate = False,
      ti_senderLogin = (if tk_authorLogin t = [] then None else Some (tk_authorLogin t))\<rparr>"

text \<open>One ticket of a listing; \<open>k\<close> numbers the job ids and tokens drawn.  None is a throw.\<close>

definition poll_ticket :: "poll_env \<Rightarrow> nat \<Rightarrow> dev_repo \<Rightarrow> dated_ticket \<Rightarrow> dev_db \<Rightarrow> dev_db \<times> trigger_result option option" where
  "poll_ticket env k repo t db =
     (if hasActiveTriggerJob (rp_id repo) (ticket_ref repo t) Src_tracker db then (db, Some None)
      else (case createTriggerJob (\<lambda>d. d) (pv_now env) (pv_newId env k) (pv_now env) (pv_now env) []
                   (ticket_input env k repo t) db of
              (db', Inl e) \<Rightarrow> (db', None)
            | (db', Inr r) \<Rightarrow> (db', Some (Some r))))"

text \<open>The loop over a listing: the database, and the newest update processed unless it threw
  (None inside: no ticket carried a valid date).\<close>

fun poll_tickets :: "poll_env \<Rightarrow> nat \<Rightarrow> dev_repo \<Rightarrow> int option \<Rightarrow> int option \<Rightarrow> dated_ticket list \<Rightarrow> dev_db
    \<Rightarrow> dev_db \<times> int option option" where
  "poll_tickets env k repo cursor newest [] db = (db, Some newest)"
| "poll_tickets env k repo cursor newest (t # ts) db =
     (if seen_before cursor t then poll_tickets env (Suc k) repo cursor newest ts db
      else (case poll_ticket env k repo t db of
              (db', None) \<Rightarrow> (db', None)
            | (db', Some _) \<Rightarrow>
                poll_tickets env (Suc k) repo cursor
                  (case tk_updatedAt t of None \<Rightarrow> newest
                   | Some u \<Rightarrow> Some (max u (case newest of Some m \<Rightarrow> m
                                           | None \<Rightarrow> (case cursor of Some c \<Rightarrow> c | None \<Rightarrow> 0)))) ts db'))"

text \<open>\<open>pollRepo\<close>: the new state and whether it threw.\<close>

definition pollRepo :: "poll_env \<Rightarrow> tracker_answer \<Rightarrow> dev_repo \<Rightarrow> int option \<Rightarrow> poll_state \<Rightarrow> poll_state \<times> bool" where
  "pollRepo env answer repo cursor st =
     (case answer of
        Tracker_throws \<Rightarrow> (st, True)
      | No_tracker \<Rightarrow> (st, False)
      | Listing_throws \<Rightarrow> (st, False)
      | Tickets ts \<Rightarrow>
          (case poll_tickets env 0 repo cursor None ts (ps_db st) of
             (db', None) \<Rightarrow> (st\<lparr>ps_db := db'\<rparr>, True)
           | (db', Some newest) \<Rightarrow>
               (st\<lparr>ps_db := db',
                   ps_columns := (case newest of
                      Some m \<Rightarrow> (if (case cursor of Some c \<Rightarrow> c | None \<Rightarrow> 0) < m
                                 then advancePollCursor (rp_id repo) m (ps_columns st) else ps_columns st)
                    | None \<Rightarrow> ps_columns st)\<rparr>, False)))"

text \<open>One sweep.  \<open>env_of\<close> gives each repository its ids, tokens and database times; the remaining
  repositories are skipped when one throws.\<close>

fun poll_rows :: "(string \<Rightarrow> poll_env) \<Rightarrow> (string \<Rightarrow> tracker_answer) \<Rightarrow> int \<Rightarrow> (dev_repo \<times> int \<times> int option) list
    \<Rightarrow> poll_state \<Rightarrow> poll_state \<times> bool" where
  "poll_rows env_of tracker t [] st = (st, False)"
| "poll_rows env_of tracker t ((repo, intervalS, cursor) # rows) st =
     (if ''tracker'' \<notin> set (rp_allowedTriggers repo) \<or>
         t - (case ps_lastPolledAt st (rp_id repo) of Some l \<Rightarrow> l | None \<Rightarrow> 0)
           < effectivePollIntervalS (Some (of_int intervalS)) * 1000
      then poll_rows env_of tracker t rows st
      else (case pollRepo (env_of (rp_id repo)) (tracker (rp_id repo)) repo cursor
                   (st\<lparr>ps_lastPolledAt := (ps_lastPolledAt st)(rp_id repo := Some t)\<rparr>) of
              (st', True) \<Rightarrow> (st', True)
            | (st', False) \<Rightarrow> poll_rows env_of tracker t rows st'))"

definition pollOnce :: "(string \<Rightarrow> poll_env) \<Rightarrow> (string \<Rightarrow> tracker_answer) \<Rightarrow> int \<Rightarrow> poll_state \<Rightarrow> poll_state \<times> bool" where
  "pollOnce env_of tracker t st = poll_rows env_of tracker t (listPollableRepos st) st"

section \<open>The timer of the poller\<close>

record poll_timer =
  pt_armed :: bool
  pt_sweepInFlight :: bool
  pt_stopped :: bool

definition scheduleNext :: "poll_timer \<Rightarrow> poll_timer" where
  "scheduleNext s = (if pt_stopped s then s else s\<lparr>pt_armed := True\<rparr>)"

text \<open>\<open>tick\<close> up to its await (and whether it starts a sweep), and its \<open>finally\<close>.\<close>

definition tick_begin :: "poll_timer \<Rightarrow> poll_timer \<times> bool" where
  "tick_begin s =
     (if pt_stopped s \<or> pt_sweepInFlight s then (scheduleNext s, False)
      else (s\<lparr>pt_sweepInFlight := True\<rparr>, True))"

definition tick_end :: "poll_timer \<Rightarrow> poll_timer" where
  "tick_end s = scheduleNext (s\<lparr>pt_sweepInFlight := False\<rparr>)"

definition poller_start :: "poll_timer \<Rightarrow> poll_timer" where
  "poller_start s = (if pt_armed s \<or> pt_stopped s then s else scheduleNext s)"

definition poller_stop :: "poll_timer \<Rightarrow> poll_timer" where
  "poller_stop s = s\<lparr>pt_stopped := True, pt_armed := False\<rparr>"

end
