(* ===== verification/Webhooks.thy ===== *)
theory Webhooks
  imports Triggers
begin

text \<open>
  The inbound GitHub webhook route (\<open>routes/devWebhooks.ts\<close>, wired in \<open>plugin.ts\<close>).  \<open>hook_step\<close> runs one
  delivery from one await to the next, so that deliveries interleave the way concurrent requests do;
  \<open>handleGithubWebhook\<close> runs it undisturbed.  A step of \<open>hook_trans\<close> is one such segment, an await that
  throws (with or without its effect on the database), a new delivery, the clock, or anything another
  part of the program does to the other tables.  The HMAC and \<open>JSON.parse\<close> are parameters; the body is
  the bytes \<open>express.raw\<close> accepted.
\<close>

section \<open>Requests\<close>

record webhook_request =
  rq_body :: string
  rq_signature :: "string option"
  rq_delivery :: "string option"
  rq_event :: "string option"

record webhook_config =
  wc_hmac :: "string \<Rightarrow> string \<Rightarrow> string"
  wc_parse :: "string \<Rightarrow> json option"
  wc_secrets :: "string list"
  wc_backend :: runner_backend_kind
  wc_enabled :: bool
  wc_repoLimit :: int
  wc_senderLimit :: int

definition ONE_HOUR_MS :: int where "ONE_HOUR_MS = 3600000"

definition verifyGithubSignature :: "(string \<Rightarrow> string \<Rightarrow> string) \<Rightarrow> string \<Rightarrow> string option \<Rightarrow> string list \<Rightarrow> bool" where
  "verifyGithubSignature hmac raw header secrets =
     (case header of None \<Rightarrow> False
      | Some h \<Rightarrow> prefix ''sha256='' h \<and>
                  list_ex (\<lambda>secret. secret \<noteq> [] \<and> h = ''sha256='' @ hmac secret raw) secrets)"

definition nonempty_string :: "json option \<Rightarrow> string option" where
  "nonempty_string v = (case v of Some (JStr s) \<Rightarrow> (if s = [] then None else Some s) | _ \<Rightarrow> None)"

record hook =
  hk_delivery :: string
  hk_event :: "string option"
  hk_action :: "string option"
  hk_repo :: "string option"
  hk_issue :: "rat option"
  hk_sender :: "string option"
  hk_label :: "string option"
  hk_title :: string
  hk_body :: string

text \<open>\<open>payload.a?.b\<close>\<close>

definition sub_field :: "string \<Rightarrow> string \<Rightarrow> json \<Rightarrow> json option" where
  "sub_field a b payload = Option.bind (json_field a payload) (json_field b)"

definition text_or_empty :: "json option \<Rightarrow> string" where
  "text_or_empty v = (case v of Some (JStr s) \<Rightarrow> s | _ \<Rightarrow> [])"

definition read_hook :: "webhook_request \<Rightarrow> json \<Rightarrow> hook" where
  "read_hook rq payload =
     \<lparr>hk_delivery = (case rq_delivery rq of None \<Rightarrow> [] | Some d \<Rightarrow> d), hk_event = rq_event rq,
      hk_action = nonempty_string (json_field ''action'' payload),
      hk_repo = nonempty_string (sub_field ''repository'' ''full_name'' payload),
      hk_issue = (case sub_field ''issue'' ''number'' payload of Some (JNum x) \<Rightarrow> Some x | _ \<Rightarrow> None),
      hk_sender = nonempty_string (sub_field ''sender'' ''login'' payload),
      hk_label = nonempty_string (sub_field ''label'' ''name'' payload),
      hk_title = text_or_empty (sub_field ''issue'' ''title'' payload),
      hk_body = text_or_empty (sub_field ''issue'' ''body'' payload)\<rparr>"

text \<open>A delivery past the filters: its repository row, names and source reference.\<close>

record candidate =
  cd_hook :: hook
  cd_repo :: dev_repo
  cd_full :: string
  cd_sender :: string
  cd_ref :: string

datatype hook_reply =
    Bad_signature
  | Hook_ok nat delivery_outcome "(string \<times> bool) option"
  | Hook_internal

datatype hook_pc =
    Arrived webhook_request
  | Claiming hook
  | Resolving hook
  | Checking_active candidate
  | Checking_prior candidate
  | Reserving candidate bool int
  | Creating candidate bool
  | Opening_gate candidate dev_job
  | Finishing hook delivery_outcome nat "(string \<times> bool) option"
  | Replied hook_reply

record hook_env =
  he_now :: int
  he_dbnow :: int
  he_newId :: string
  he_tokenHash :: string
  he_gateId :: string

record hook_world =
  hw_db :: dev_db
  hw_ledger :: ledger

definition getByFullName :: "string \<Rightarrow> dev_db \<Rightarrow> dev_repo option" where
  "getByFullName full db =
     List.find (\<lambda>r. rp_owner r @ ''/'' @ rp_name r = full) (sort_key (\<lambda>r. - rp_createdAt r) (db_repos db))"

section \<open>The segments of the handler\<close>

definition step_arrived :: "webhook_config \<Rightarrow> webhook_request \<Rightarrow> hook_pc" where
  "step_arrived cfg rq =
     (if \<not> verifyGithubSignature (wc_hmac cfg) (rq_body rq) (rq_signature rq) (wc_secrets cfg)
      then Replied Bad_signature
      else case wc_parse cfg (rq_body rq) of
        None \<Rightarrow> Replied (Hook_ok 202 Do_dropped_event None)
      | Some payload \<Rightarrow>
          (if payload = JNull then Replied Hook_internal
           else let h = read_hook rq payload in
             if hk_delivery h = [] then Replied (Hook_ok 202 Do_dropped_event None) else Claiming h))"

definition step_claiming :: "hook_env \<Rightarrow> hook \<Rightarrow> hook_world \<Rightarrow> hook_world \<times> hook_pc" where
  "step_claiming env h w =
     (case claim_delivery (he_dbnow env)
             \<lparr>dc_id = hk_delivery h, dc_event = hk_event h, dc_repo = hk_repo h,
              dc_issueNumber = hk_issue h, dc_sender = hk_sender h\<rparr> (hw_ledger w) of
        (rows, None) \<Rightarrow> (w\<lparr>hw_ledger := rows\<rparr>, Replied Hook_internal)
      | (rows, Some False) \<Rightarrow> (w\<lparr>hw_ledger := rows\<rparr>, Replied (Hook_ok 202 Do_duplicate None))
      | (rows, Some True) \<Rightarrow> (w\<lparr>hw_ledger := rows\<rparr>, Resolving h))"

definition drop_as :: "hook \<Rightarrow> delivery_outcome \<Rightarrow> hook_pc" where
  "drop_as h oc = Finishing h oc 202 None"

text \<open>Filters 4 to 10, with the repository row they read.\<close>

definition step_resolving :: "webhook_config \<Rightarrow> hook \<Rightarrow> dev_db \<Rightarrow> hook_pc" where
  "step_resolving cfg h db =
     (if \<not> wc_enabled cfg then drop_as h Do_disabled
      else if hk_event h \<noteq> Some ''issues'' \<or> hk_action h \<noteq> Some ''labeled'' then drop_as h Do_dropped_event
      else case Option.bind (hk_repo h) (\<lambda>full. getByFullName full db) of
        None \<Rightarrow> drop_as h Do_dropped_repo
      | Some repo \<Rightarrow>
          (if ''webhook'' \<notin> set (rp_allowedTriggers repo) then drop_as h Do_dropped_repo
           else if \<not> rp_webhookEnabled repo then drop_as h Do_disabled
           else if hk_label h \<noteq> Some (rp_triggerLabel repo) then drop_as h Do_dropped_label
           else case (hk_issue h, hk_sender h, hk_repo h) of
             (Some n, Some sender, Some full) \<Rightarrow>
               (if sender \<notin> set (rp_webhookSenders repo) then drop_as h Do_refused_sender
                else Checking_active \<lparr>cd_hook = h, cd_repo = repo, cd_full = full, cd_sender = sender,
                       cd_ref = full @ ''#'' @ show_int \<lfloor>n\<rfloor>\<rparr>)
           | _ \<Rightarrow> drop_as h Do_dropped_event))"

definition hook_trigger_input :: "webhook_config \<Rightarrow> hook_env \<Rightarrow> candidate \<Rightarrow> bool \<Rightarrow> trigger_input" where
  "hook_trigger_input cfg env c requireGate =
     \<lparr>ti_repo = cd_repo c, ti_backend = wc_backend cfg, ti_kind = Kind_fix_issue,
      ti_brief = hk_title (cd_hook c) @ newline @ newline @ hk_body (cd_hook c),
      ti_sourceRef = cd_ref c, ti_source = Src_webhook, ti_createdBy = ''webhook:github'',
      ti_tokenHash = he_tokenHash env, ti_requireGate = requireGate, ti_senderLogin = Some (cd_sender c)\<rparr>"

definition after_create :: "candidate \<Rightarrow> trigger_result \<Rightarrow> hook_pc" where
  "after_create c r =
     (case tr_decision r of
        Td_refused_policy \<Rightarrow> drop_as (cd_hook c) Do_refused_policy
      | Td_deduped_active_job \<Rightarrow> drop_as (cd_hook c) Do_deduped_active_job
      | Td_created \<Rightarrow> Finishing (cd_hook c) Do_job_created 201
                        (map_option (\<lambda>j. (j_id j, tr_gated r)) (tr_job r)))"

definition step_creating :: "webhook_config \<Rightarrow> hook_env \<Rightarrow> candidate \<Rightarrow> bool \<Rightarrow> hook_world \<Rightarrow> hook_world \<times> hook_pc" where
  "step_creating cfg env c requireGate w =
     (case trigger_insert (he_dbnow env) (he_newId env) (hook_trigger_input cfg env c requireGate) (hw_db w) of
        (db', Inl e) \<Rightarrow> (w\<lparr>hw_db := db'\<rparr>, Replied Hook_internal)
      | (db', Inr (Settled r)) \<Rightarrow> (w\<lparr>hw_db := db'\<rparr>, after_create c r)
      | (db', Inr (Gate_pending job)) \<Rightarrow> (w\<lparr>hw_db := db'\<rparr>, Opening_gate c job))"

definition step_gate :: "webhook_config \<Rightarrow> hook_env \<Rightarrow> candidate \<Rightarrow> dev_job \<Rightarrow> hook_world \<Rightarrow> hook_world \<times> hook_pc" where
  "step_gate cfg env c job w =
     (case trigger_gate (he_dbnow env) (he_now env) (he_gateId env) (hook_trigger_input cfg env c True) job (hw_db w) of
        (db', Inl e) \<Rightarrow> (w\<lparr>hw_db := db'\<rparr>, Replied Hook_internal)
      | (db', Inr r) \<Rightarrow> (w\<lparr>hw_db := db'\<rparr>, after_create c r))"

fun hook_step :: "webhook_config \<Rightarrow> hook_env \<Rightarrow> hook_pc \<Rightarrow> hook_world \<Rightarrow> hook_world \<times> hook_pc" where
  "hook_step cfg env (Arrived rq) w = (w, step_arrived cfg rq)"
| "hook_step cfg env (Claiming h) w = step_claiming env h w"
| "hook_step cfg env (Resolving h) w = (w, step_resolving cfg h (hw_db w))"
| "hook_step cfg env (Checking_active c) w =
     (w, if hasActiveTriggerJob (rp_id (cd_repo c)) (cd_ref c) Src_webhook (hw_db w)
         then drop_as (cd_hook c) Do_deduped_active_job else Checking_prior c)"
| "hook_step cfg env (Checking_prior c) w =
     (w, Reserving c (\<not> hasPriorJob (cd_full c) (cd_sender c) (hw_ledger w)) (he_now env - ONE_HOUR_MS))"
| "hook_step cfg env (Reserving c requireGate since) w =
     (case reserveJobSlot (cd_full c) (cd_sender c) (hk_delivery (cd_hook c)) (wc_repoLimit cfg)
             (wc_senderLimit cfg) since (hw_ledger w) of
        (rows, admitted) \<Rightarrow>
          (w\<lparr>hw_ledger := rows\<rparr>,
           if admitted then Creating c requireGate else drop_as (cd_hook c) Do_rate_limited))"
| "hook_step cfg env (Creating c requireGate) w = step_creating cfg env c requireGate w"
| "hook_step cfg env (Opening_gate c job) w = step_gate cfg env c job w"
| "hook_step cfg env (Finishing h oc status extra) w =
     (w\<lparr>hw_ledger := setOutcome (hk_delivery h) oc (hw_ledger w)\<rparr>, Replied (Hook_ok status oc extra))"
| "hook_step cfg env (Replied r) w = (w, Replied r)"

text \<open>A delivery passes each segment at most once, so nine steps answer it.\<close>

fun hook_rank :: "hook_pc \<Rightarrow> nat" where
  "hook_rank (Arrived _) = 9"
| "hook_rank (Claiming _) = 8"
| "hook_rank (Resolving _) = 7"
| "hook_rank (Checking_active _) = 6"
| "hook_rank (Checking_prior _) = 5"
| "hook_rank (Reserving _ _ _) = 4"
| "hook_rank (Creating _ _) = 3"
| "hook_rank (Opening_gate _ _) = 2"
| "hook_rank (Finishing _ _ _ _) = 1"
| "hook_rank (Replied _) = 0"

fun hook_run :: "nat \<Rightarrow> webhook_config \<Rightarrow> hook_env \<Rightarrow> hook_pc \<Rightarrow> hook_world \<Rightarrow> hook_world \<times> hook_pc" where
  "hook_run 0 cfg env pc w = (w, pc)"
| "hook_run (Suc n) cfg env pc w = (case hook_step cfg env pc w of (w', pc') \<Rightarrow> hook_run n cfg env pc' w')"

definition handleGithubWebhook :: "webhook_config \<Rightarrow> hook_env \<Rightarrow> webhook_request \<Rightarrow> hook_world \<Rightarrow> hook_world \<times> hook_pc" where
  "handleGithubWebhook cfg env rq w = hook_run 9 cfg env (Arrived rq) w"

section \<open>Concurrent deliveries\<close>

text \<open>\<open>hs_made\<close> is a ghost: the deliveries that created a job, with the job's row as inserted.\<close>

record made_job =
  mj_candidate :: candidate
  mj_gated :: bool
  mj_job :: dev_job

record hook_sys =
  hs_world :: hook_world
  hs_clock :: int
  hs_procs :: "hook_pc list"
  hs_made :: "made_job list"

definition newly_made :: "hook_pc \<Rightarrow> hook_world \<Rightarrow> hook_world \<Rightarrow> made_job list" where
  "newly_made pc w w' =
     (case pc of Creating c requireGate \<Rightarrow>
        (if length (db_jobs (hw_db w)) < length (db_jobs (hw_db w'))
         then [\<lparr>mj_candidate = c, mj_gated = requireGate, mj_job = last (db_jobs (hw_db w'))\<rparr>] else [])
      | _ \<Rightarrow> [])"

inductive hook_trans :: "webhook_config \<Rightarrow> hook_sys \<Rightarrow> hook_sys \<Rightarrow> bool" for cfg where
  Hook_arrive: "hook_trans cfg s (s\<lparr>hs_procs := hs_procs s @ [Arrived rq]\<rparr>)"
| Hook_step: "\<lbrakk>i < length (hs_procs s); he_now env = hs_clock s;
    hook_step cfg env (hs_procs s ! i) (hs_world s) = (w', pc')\<rbrakk> \<Longrightarrow>
    hook_trans cfg s (s\<lparr>hs_world := w', hs_procs := (hs_procs s)[i := pc'],
      hs_made := hs_made s @ newly_made (hs_procs s ! i) (hs_world s) w'\<rparr>)"
| Hook_throw_before: "i < length (hs_procs s) \<Longrightarrow>
    hook_trans cfg s (s\<lparr>hs_procs := (hs_procs s)[i := Replied Hook_internal]\<rparr>)"
| Hook_throw_after: "\<lbrakk>i < length (hs_procs s); he_now env = hs_clock s;
    hook_step cfg env (hs_procs s ! i) (hs_world s) = (w', pc')\<rbrakk> \<Longrightarrow>
    hook_trans cfg s (s\<lparr>hs_world := w', hs_procs := (hs_procs s)[i := Replied Hook_internal],
      hs_made := hs_made s @ newly_made (hs_procs s ! i) (hs_world s) w'\<rparr>)"
| Hook_clock: "hs_clock s \<le> t \<Longrightarrow> hook_trans cfg s (s\<lparr>hs_clock := t\<rparr>)"
| Hook_others: "hook_trans cfg s (s\<lparr>hs_world := (hs_world s)\<lparr>hw_db := db'\<rparr>\<rparr>)"

inductive hook_reachable :: "webhook_config \<Rightarrow> hook_sys \<Rightarrow> bool" for cfg where
  Hook_init: "hook_reachable cfg \<lparr>hs_world = \<lparr>hw_db = db, hw_ledger = []\<rparr>, hs_clock = t, hs_procs = [], hs_made = []\<rparr>"
| Hook_next: "\<lbrakk>hook_reachable cfg s; hook_trans cfg s s'\<rbrakk> \<Longrightarrow> hook_reachable cfg s'"

end
