(* ===== verification/WebhookSound.thy ===== *)
theory WebhookSound
  imports Webhooks ExampleData
begin

text \<open>
  What the trigger sources guarantee.  The invariant \<open>hook_inv\<close> of concurrent deliveries gives the rate
  limits and the deduplication; the lemmas on \<open>createTriggerJob\<close> and on one delivery give the structural
  refusals and the first-source gate; the last section is about the tracker poller.
\<close>

section \<open>The ledger\<close>

interpretation outcome_write: guarded_update wd_id "\<lambda>_. True" "\<lambda>r. r\<lparr>wd_outcome := oc\<rparr>" for oc
  by unfold_locales simp

lemma setOutcome_run: "setOutcome i oc rows = fst (outcome_write.run oc i rows)"
  by (simp add: setOutcome_def outcome_write.run_def)

lemma setOutcome_ids [simp]: "map wd_id (setOutcome i oc rows) = map wd_id rows"
  by (simp add: setOutcome_run outcome_write.keys_kept)

lemma setOutcome_other: "k \<noteq> i \<Longrightarrow> find_row wd_id k (setOutcome i oc rows) = find_row wd_id k rows"
  by (simp add: setOutcome_run outcome_write.find_other)

lemma setOutcome_same:
  "find_row wd_id i (setOutcome i oc rows) = map_option (\<lambda>r. r\<lparr>wd_outcome := oc\<rparr>) (find_row wd_id i rows)"
  by (simp add: setOutcome_run outcome_write.find_same)

lemma setOutcome_id:
  assumes "distinct (map wd_id rows)" "find_row wd_id i rows = Some r" "wd_outcome r = oc"
  shows "setOutcome i oc rows = rows"
proof -
  have "(if wd_id q = i then q\<lparr>wd_outcome := oc\<rparr> else q) = q" if "q \<in> set rows" for q
    using that assms find_row_in_set[OF assms(1) that] by auto
  then show ?thesis by (simp add: setOutcome_def sql_update_def map_idI)
qed

lemma setOutcome_count:
  assumes "distinct (map wd_id rows)"
  shows "length (filter P (setOutcome i oc rows)) \<le> length (filter P rows) +
     (case find_row wd_id i rows of None \<Rightarrow> 0 | Some r \<Rightarrow> if P (r\<lparr>wd_outcome := oc\<rparr>) then 1 else 0)"
  using assms
proof (induction rows)
  case (Cons a rows)
  show ?case
  proof (cases "wd_id a = i")
    case True
    then have "\<forall>q\<in>set rows. wd_id q \<noteq> i" using Cons.prems by (auto simp: image_iff)
    then have "setOutcome i oc rows = rows"
      by (auto simp: setOutcome_def sql_update_def intro!: map_idI)
    then have "setOutcome i oc (a # rows) = a\<lparr>wd_outcome := oc\<rparr> # rows"
      using True by (simp add: setOutcome_def sql_update_def)
    then show ?thesis using True by auto
  next
    case False
    then have "setOutcome i oc (a # rows) = a # setOutcome i oc rows"
      by (simp add: setOutcome_def sql_update_def)
    then show ?thesis using Cons False by auto
  qed
qed (simp add: setOutcome_def sql_update_def)

lemma count_window: "since \<le> since' \<Longrightarrow>
    length (filter (counts_for_repo repo since') rows) \<le> length (filter (counts_for_repo repo since) rows)"
  "since \<le> since' \<Longrightarrow>
    length (filter (counts_for_sender repo u since') rows) \<le> length (filter (counts_for_sender repo u since) rows)"
  by (induction rows) (auto simp: counts_for_repo_def counts_for_sender_def)

definition within_limits :: "webhook_config \<Rightarrow> int \<Rightarrow> ledger \<Rightarrow> bool" where
  "within_limits cfg since rows \<longleftrightarrow>
     (\<forall>repo. int (length (filter (counts_for_repo repo since) rows)) \<le> max 0 (wc_repoLimit cfg)) \<and>
     (\<forall>repo u. int (length (filter (counts_for_sender repo u since) rows)) \<le> max 0 (wc_senderLimit cfg))"

lemma within_limitsD:
  "within_limits cfg since rows \<Longrightarrow> n \<le> length (filter (counts_for_repo repo since) rows)
     \<Longrightarrow> int n \<le> max 0 (wc_repoLimit cfg)"
  "within_limits cfg since rows \<Longrightarrow> n \<le> length (filter (counts_for_sender repo u since) rows)
     \<Longrightarrow> int n \<le> max 0 (wc_senderLimit cfg)"
proof -
  show "int n \<le> max 0 (wc_repoLimit cfg)"
    if "within_limits cfg since rows" "n \<le> length (filter (counts_for_repo repo since) rows)"
    using that(1)[unfolded within_limits_def, THEN conjunct1, rule_format, of repo] that(2) by linarith
  show "int n \<le> max 0 (wc_senderLimit cfg)"
    if "within_limits cfg since rows" "n \<le> length (filter (counts_for_sender repo u since) rows)"
    using that(1)[unfolded within_limits_def, THEN conjunct2, rule_format, of repo u] that(2) by linarith
qed

lemma within_limits_later: "\<lbrakk>within_limits cfg since rows; since \<le> since'\<rbrakk> \<Longrightarrow> within_limits cfg since' rows"
  unfolding within_limits_def[of _ since'] by (blast intro: within_limitsD count_window)

lemma within_limits_uncounted:
  assumes "within_limits cfg since rows" "distinct (map wd_id rows)" "oc \<noteq> Do_job_created"
  shows "within_limits cfg since (setOutcome i oc rows)"
proof -
  have "length (filter (counts_for_repo repo since) (setOutcome i oc rows))
      \<le> length (filter (counts_for_repo repo since) rows)" for repo
    using setOutcome_count[OF assms(2), of "counts_for_repo repo since" i oc] assms(3)
    by (auto simp: counts_for_repo_def split: option.splits)
  moreover have "length (filter (counts_for_sender repo u since) (setOutcome i oc rows))
      \<le> length (filter (counts_for_sender repo u since) rows)" for repo u
    using setOutcome_count[OF assms(2), of "counts_for_sender repo u since" i oc] assms(3)
    by (auto simp: counts_for_repo_def counts_for_sender_def split: option.splits)
  ultimately show ?thesis unfolding within_limits_def by (blast intro: within_limitsD[OF assms(1)])
qed

text \<open>An admitted reservation counted fewer rows than the limits in a window that contains this one.\<close>

lemma within_limits_reserved:
  assumes lim: "within_limits cfg since' rows" and d: "distinct (map wd_id rows)"
    and row: "find_row wd_id i rows = Some r" "wd_repo r = Some full" "wd_sender r = Some u"
    and adm: "reserveJobSlot full u i (wc_repoLimit cfg) (wc_senderLimit cfg) since rows = (rows', True)"
    and win: "since \<le> since'"
  shows "within_limits cfg since' rows'"
proof -
  have room: "int (length (filter (counts_for_repo full since) rows)) < wc_repoLimit cfg"
      "int (length (filter (counts_for_sender full u since) rows)) < wc_senderLimit cfg"
    and rows': "rows' = setOutcome i Do_job_created rows"
    using adm by (auto simp: reserveJobSlot_def Let_def split: if_splits)
  have count: "length (filter P rows') \<le> length (filter P rows) + (if P (r\<lparr>wd_outcome := Do_job_created\<rparr>) then 1 else 0)" for P
    using setOutcome_count[OF d, of P i Do_job_created] row(1) rows' by simp
  have "int (length (filter (counts_for_repo repo since') rows')) \<le> max 0 (wc_repoLimit cfg)" for repo
  proof (cases "repo = full")
    case True
    have "length (filter (counts_for_repo full since') rows') \<le> length (filter (counts_for_repo full since) rows) + 1"
      using count[of "counts_for_repo full since'"] count_window(1)[OF win, of full rows] by (simp split: if_splits)
    then show ?thesis using True room(1) by simp
  next
    case False
    then have "length (filter (counts_for_repo repo since') rows') \<le> length (filter (counts_for_repo repo since') rows)"
      using count[of "counts_for_repo repo since'"] row(2) by (simp add: counts_for_repo_def)
    then show ?thesis by (rule within_limitsD(1)[OF lim])
  qed
  moreover have "int (length (filter (counts_for_sender repo v since') rows')) \<le> max 0 (wc_senderLimit cfg)" for repo v
  proof (cases "repo = full \<and> v = u")
    case True
    have "length (filter (counts_for_sender full u since') rows') \<le> length (filter (counts_for_sender full u since) rows) + 1"
      using count[of "counts_for_sender full u since'"] count_window(2)[OF win, of full u rows] by (simp split: if_splits)
    then show ?thesis using True room(2) by simp
  next
    case False
    then have "length (filter (counts_for_sender repo v since') rows') \<le> length (filter (counts_for_sender repo v since') rows)"
      using count[of "counts_for_sender repo v since'"] row(2,3)
      by (auto simp: counts_for_repo_def counts_for_sender_def)
    then show ?thesis by (rule within_limitsD(2)[OF lim])
  qed
  ultimately show ?thesis by (simp add: within_limits_def)
qed

section \<open>Concurrent deliveries: the invariant\<close>

fun owned :: "hook_pc \<Rightarrow> hook option" where
  "owned (Resolving h) = Some h"
| "owned (Checking_active c) = Some (cd_hook c)"
| "owned (Checking_prior c) = Some (cd_hook c)"
| "owned (Reserving c _ _) = Some (cd_hook c)"
| "owned (Creating c _) = Some (cd_hook c)"
| "owned (Opening_gate c _) = Some (cd_hook c)"
| "owned (Finishing h _ _ _) = Some h"
| "owned _ = None"

definition owned_id :: "hook_pc \<Rightarrow> string option" where
  "owned_id pc = map_option hk_delivery (owned pc)"

fun pc_candidate :: "hook_pc \<Rightarrow> candidate option" where
  "pc_candidate (Checking_active c) = Some c"
| "pc_candidate (Checking_prior c) = Some c"
| "pc_candidate (Reserving c _ _) = Some c"
| "pc_candidate (Creating c _) = Some c"
| "pc_candidate (Opening_gate c _) = Some c"
| "pc_candidate _ = None"

fun row_stage :: "hook_pc \<Rightarrow> delivery_outcome \<Rightarrow> bool" where
  "row_stage (Creating _ _) oc = (oc = Do_job_created)"
| "row_stage (Opening_gate _ _) oc = (oc = Do_job_created)"
| "row_stage (Finishing _ final _ _) oc = (final = Do_job_created \<longrightarrow> oc = Do_job_created)"
| "row_stage _ oc = (oc = Do_received)"

fun settled_pc :: "hook_pc \<Rightarrow> bool" where
  "settled_pc (Opening_gate _ _) = True"
| "settled_pc (Finishing _ oc _ _) = (oc = Do_job_created)"
| "settled_pc pc = (owned pc = None)"

definition cand_ok :: "candidate \<Rightarrow> bool" where
  "cand_ok c \<longleftrightarrow> hk_repo (cd_hook c) = Some (cd_full c) \<and> hk_sender (cd_hook c) = Some (cd_sender c)"

definition pc_ok :: "int \<Rightarrow> ledger \<Rightarrow> hook_pc \<Rightarrow> bool" where
  "pc_ok clock rows pc \<longleftrightarrow>
     (case owned pc of None \<Rightarrow> True
      | Some h \<Rightarrow> (\<exists>r. find_row wd_id (hk_delivery h) rows = Some r \<and> wd_repo r = hk_repo h \<and>
                       wd_sender r = hk_sender h \<and> row_stage pc (wd_outcome r))) \<and>
     (case pc_candidate pc of None \<Rightarrow> True | Some c \<Rightarrow> cand_ok c) \<and>
     (case pc of Reserving _ _ since \<Rightarrow> since \<le> clock - ONE_HOUR_MS | _ \<Rightarrow> True)"

abbreviation made_id :: "made_job \<Rightarrow> string" where
  "made_id m \<equiv> hk_delivery (cd_hook (mj_candidate m))"

definition made_row :: "ledger \<Rightarrow> made_job \<Rightarrow> bool" where
  "made_row rows m \<longleftrightarrow>
     (\<exists>r. find_row wd_id (made_id m) rows = Some r \<and> wd_outcome r = Do_job_created \<and>
          wd_repo r = Some (cd_full (mj_candidate m)) \<and> wd_sender r = Some (cd_sender (mj_candidate m)))"

definition hook_inv :: "webhook_config \<Rightarrow> hook_sys \<Rightarrow> bool" where
  "hook_inv cfg s \<longleftrightarrow>
     (let rows = hw_ledger (hs_world s); pcs = hs_procs s in
      distinct (map wd_id rows) \<and>
      (\<forall>pc\<in>set pcs. pc_ok (hs_clock s) rows pc) \<and>
      (\<forall>i j. i < length pcs \<longrightarrow> j < length pcs \<longrightarrow> i \<noteq> j \<longrightarrow> owned_id (pcs ! i) \<noteq> None \<longrightarrow>
             owned_id (pcs ! i) \<noteq> owned_id (pcs ! j)) \<and>
      distinct (map made_id (hs_made s)) \<and>
      (\<forall>m\<in>set (hs_made s). made_row rows m) \<and>
      (\<forall>pc\<in>set pcs. \<forall>m\<in>set (hs_made s). owned_id pc = Some (made_id m) \<longrightarrow> settled_pc pc) \<and>
      within_limits cfg (hs_clock s - ONE_HOUR_MS) rows)"

text \<open>What a segment of process \<open>i\<close> may do: it touches only its own delivery \<open>x\<close>.\<close>

definition own_write :: "webhook_config \<Rightarrow> hook_sys \<Rightarrow> nat \<Rightarrow> string option \<Rightarrow> ledger \<Rightarrow> hook_pc \<Rightarrow> made_job list \<Rightarrow> bool" where
  "own_write cfg s i x rows' pc' new \<longleftrightarrow>
     distinct (map wd_id rows') \<and>
     (\<forall>k. x \<noteq> Some k \<longrightarrow> find_row wd_id k rows' = find_row wd_id k (hw_ledger (hs_world s))) \<and>
     (\<forall>j<length (hs_procs s). j \<noteq> i \<longrightarrow> x \<noteq> None \<longrightarrow> owned_id (hs_procs s ! j) \<noteq> x) \<and>
     (owned_id pc' = None \<or> owned_id pc' = x) \<and> pc_ok (hs_clock s) rows' pc' \<and>
     (\<forall>m\<in>set new. x = Some (made_id m)) \<and> distinct (map made_id (hs_made s @ new)) \<and>
     (\<forall>m\<in>set (hs_made s @ new). x = Some (made_id m) \<longrightarrow> made_row rows' m \<and> settled_pc pc') \<and>
     within_limits cfg (hs_clock s - ONE_HOUR_MS) rows'"

lemma settled_unowned: "owned_id pc = None \<Longrightarrow> settled_pc pc"
  by (cases pc) (auto simp: owned_id_def)

lemma pc_ok_cong:
  "\<lbrakk>pc_ok clock rows pc; \<And>k. owned_id pc = Some k \<Longrightarrow> find_row wd_id k rows' = find_row wd_id k rows\<rbrakk>
     \<Longrightarrow> pc_ok clock rows' pc"
  by (auto simp: pc_ok_def owned_id_def split: option.splits)

lemma own_write_inv:
  assumes inv: "hook_inv cfg s" and i: "i < length (hs_procs s)"
    and fr: "own_write cfg s i x rows' pc' new"
  shows "hook_inv cfg (s\<lparr>hs_world := \<lparr>hw_db = db', hw_ledger = rows'\<rparr>, hs_procs := (hs_procs s)[i := pc'],
     hs_made := hs_made s @ new\<rparr>)"
proof -
  let ?rows = "hw_ledger (hs_world s)" and ?pcs = "hs_procs s" and ?pcs' = "(hs_procs s)[i := pc']"
  have others: "\<And>j. \<lbrakk>j < length ?pcs; j \<noteq> i; x \<noteq> None\<rbrakk> \<Longrightarrow> owned_id (?pcs ! j) \<noteq> x"
    and same: "\<And>k. x \<noteq> Some k \<Longrightarrow> find_row wd_id k rows' = find_row wd_id k ?rows"
    and own: "owned_id pc' = None \<or> owned_id pc' = x" and ok': "pc_ok (hs_clock s) rows' pc'"
    and newx: "\<And>m. m \<in> set new \<Longrightarrow> x = Some (made_id m)"
    and mine: "\<And>m. \<lbrakk>m \<in> set (hs_made s @ new); x = Some (made_id m)\<rbrakk> \<Longrightarrow> made_row rows' m \<and> settled_pc pc'"
    using fr unfolding own_write_def by blast+
  have ok: "\<And>pc. pc \<in> set ?pcs \<Longrightarrow> pc_ok (hs_clock s) ?rows pc"
    and uniq: "\<And>a b. \<lbrakk>a < length ?pcs; b < length ?pcs; a \<noteq> b; owned_id (?pcs ! a) \<noteq> None\<rbrakk> \<Longrightarrow>
             owned_id (?pcs ! a) \<noteq> owned_id (?pcs ! b)"
    and made: "\<And>m. m \<in> set (hs_made s) \<Longrightarrow> made_row ?rows m"
    and fin: "\<And>pc m. \<lbrakk>pc \<in> set ?pcs; m \<in> set (hs_made s); owned_id pc = Some (made_id m)\<rbrakk> \<Longrightarrow> settled_pc pc"
    using inv unfolding hook_inv_def Let_def by blast+
  have pcs_cases: "pc = pc' \<or> (\<exists>j<length ?pcs. j \<noteq> i \<and> pc = ?pcs ! j)" if pc_in: "pc \<in> set ?pcs'" for pc
  proof -
    obtain j where "j < length ?pcs" "pc = ?pcs' ! j" using pc_in by (auto simp: in_set_conv_nth)
    then show ?thesis using i by (cases "j = i") auto
  qed
  have a: "pc_ok (hs_clock s) rows' pc" if "pc \<in> set ?pcs'" for pc
    using pcs_cases[OF that]
  proof
    assume "\<exists>j<length ?pcs. j \<noteq> i \<and> pc = ?pcs ! j"
    then obtain j where j: "j < length ?pcs" "j \<noteq> i" "pc = ?pcs ! j" by blast
    have "x \<noteq> Some k" if "owned_id pc = Some k" for k using others[OF j(1,2)] j(3) that by auto
    then show ?thesis using pc_ok_cong[OF ok] j(1,3) same by simp
  qed (simp add: ok')
  have b: "owned_id (?pcs' ! p) \<noteq> owned_id (?pcs' ! q)"
    if "p < length ?pcs" "q < length ?pcs" "p \<noteq> q" "owned_id (?pcs' ! p) \<noteq> None" for p q
  proof (cases "p = i \<or> q = i")
    case True
    then show ?thesis using that i own others by (auto simp: nth_list_update)
  qed (use that uniq in auto)
  have c: "made_row rows' m" if "m \<in> set (hs_made s @ new)" for m
  proof (cases "x = Some (made_id m)")
    case False
    then have "m \<in> set (hs_made s)" using newx that by auto
    then show ?thesis using made same[OF False] by (simp add: made_row_def)
  qed (use mine[OF that] in blast)
  have d: "settled_pc pc" if "pc \<in> set ?pcs'" "m \<in> set (hs_made s @ new)" "owned_id pc = Some (made_id m)" for pc m
    using pcs_cases[OF that(1)]
  proof
    assume "pc = pc'"
    then show ?thesis using own mine[OF that(2)] that(3) by auto
  next
    assume "\<exists>j<length ?pcs. j \<noteq> i \<and> pc = ?pcs ! j"
    then obtain j where j: "j < length ?pcs" "j \<noteq> i" "pc = ?pcs ! j" by blast
    then have "x \<noteq> Some (made_id m)" using others[OF j(1,2)] j(3) that(3) by auto
    then have "m \<in> set (hs_made s)" using newx that(2) by auto
    then show ?thesis using fin[of pc m] j that(3) by simp
  qed
  have e: "distinct (map made_id (hs_made s @ new))" "distinct (map wd_id rows')"
    "within_limits cfg (hs_clock s - ONE_HOUR_MS) rows'"
    using fr unfolding own_write_def by blast+
  show ?thesis
    unfolding hook_inv_def Let_def using a b c d e by (simp del: map_append)
qed

section \<open>Every segment keeps the invariant\<close>

lemma trigger_insert_rows:
  assumes "trigger_insert now newId input db = (db', out)"
  shows "(db' = db \<and> (case out of Inr (Settled r) \<Rightarrow> tr_decision r \<noteq> Td_created | Inr (Gate_pending _) \<Rightarrow> False | Inl _ \<Rightarrow> True)) \<or>
    (\<exists>j. db_jobs db' = db_jobs db @ [j] \<and> j_id j = newId \<and>
      (out = Inr (Gate_pending j) \<or>
       out = Inr (Settled \<lparr>tr_decision = Td_created, tr_job = Some j, tr_gated = False, tr_reason = None\<rparr>)))"
  using assms
  by (auto simp: trigger_insert_def createJob_def new_job_row_def isUniqueViolation_def Let_def
      split: option.splits if_splits)

lemma after_create_created: "tr_decision r = Td_created \<Longrightarrow>
    after_create c r = Finishing (cd_hook c) Do_job_created 201 (map_option (\<lambda>j. (j_id j, tr_gated r)) (tr_job r))"
  by (simp add: after_create_def)

lemma after_create_owned [simp]: "owned (after_create c r) = Some (cd_hook c)"
  by (cases "tr_decision r") (simp_all add: after_create_def drop_as_def)

lemma pc_ok_replied [simp]: "pc_ok clock rows (Replied r)"
  by (simp add: pc_ok_def)

lemma own_write_same:
  assumes inv: "hook_inv cfg s" and i: "i < length (hs_procs s)"
    and pc': "owned_id pc' = None \<or> owned_id pc' = owned_id (hs_procs s ! i)"
    and ok: "pc_ok (hs_clock s) (hw_ledger (hs_world s)) pc'"
    and set: "settled_pc (hs_procs s ! i) \<longrightarrow> settled_pc pc'"
  shows "own_write cfg s i (owned_id (hs_procs s ! i)) (hw_ledger (hs_world s)) pc' []"
proof -
  have "hs_procs s ! i \<in> set (hs_procs s)" using i by simp
  then show ?thesis
    using inv i pc' ok set unfolding own_write_def hook_inv_def Let_def by (auto; metis)
qed

lemma own_write_replied: "own_write cfg s i x rows' pc' new \<Longrightarrow> own_write cfg s i x rows' (Replied r) new"
  unfolding own_write_def by (simp add: owned_id_def)

lemma own_write_set:
  assumes inv: "hook_inv cfg s" and i: "i < length (hs_procs s)"
    and own: "owned (hs_procs s ! i) = Some h"
    and pc': "owned pc' = Some h" "row_stage pc' oc" "\<And>c. pc_candidate pc' = Some c \<Longrightarrow> cand_ok c"
      "\<And>c g since. pc' \<noteq> Reserving c g since"
    and set: "settled_pc (hs_procs s ! i) \<longrightarrow> oc = Do_job_created \<and> settled_pc pc'"
    and lim: "within_limits cfg (hs_clock s - ONE_HOUR_MS) (setOutcome (hk_delivery h) oc (hw_ledger (hs_world s)))"
  shows "own_write cfg s i (Some (hk_delivery h)) (setOutcome (hk_delivery h) oc (hw_ledger (hs_world s))) pc' []"
proof -
  let ?rows = "hw_ledger (hs_world s)" and ?pcs = "hs_procs s"
  have mem: "?pcs ! i \<in> set ?pcs" using i by simp
  have d: "distinct (map wd_id ?rows)" and okp: "pc_ok (hs_clock s) ?rows (?pcs ! i)"
    and uniq: "\<And>a b. \<lbrakk>a < length ?pcs; b < length ?pcs; a \<noteq> b; owned_id (?pcs ! a) \<noteq> None\<rbrakk> \<Longrightarrow>
             owned_id (?pcs ! a) \<noteq> owned_id (?pcs ! b)"
    and dm: "distinct (map made_id (hs_made s))"
    and made: "\<And>m. m \<in> set (hs_made s) \<Longrightarrow> made_row ?rows m"
    and fin: "\<And>m. \<lbrakk>m \<in> set (hs_made s); owned_id (?pcs ! i) = Some (made_id m)\<rbrakk> \<Longrightarrow> settled_pc (?pcs ! i)"
    using inv mem unfolding hook_inv_def Let_def by blast+
  have id: "owned_id (?pcs ! i) = Some (hk_delivery h)" "owned_id pc' = Some (hk_delivery h)"
    using own pc'(1) by (simp_all add: owned_id_def)
  obtain r where r: "find_row wd_id (hk_delivery h) ?rows = Some r" "wd_repo r = hk_repo h" "wd_sender r = hk_sender h"
    using okp own by (auto simp: pc_ok_def)
  have "pc_ok (hs_clock s) (setOutcome (hk_delivery h) oc ?rows) pc'"
    using pc' r by (auto simp: pc_ok_def setOutcome_same split: option.splits hook_pc.splits)
  moreover have "owned_id (?pcs ! j) \<noteq> Some (hk_delivery h)" if "j < length ?pcs" "j \<noteq> i" for j
    using uniq[OF i that(1)] that(2) id(1) by auto
  moreover have "made_row (setOutcome (hk_delivery h) oc ?rows) m \<and> settled_pc pc'"
    if "m \<in> set (hs_made s)" "Some (hk_delivery h) = Some (made_id m)" for m
    using made[OF that(1)] fin[OF that(1)] that(2) id(1) set by (auto simp: made_row_def setOutcome_same)
  ultimately show ?thesis
    unfolding own_write_def using d dm id(2) lim setOutcome_other by auto
qed

lemma not_settled_unmade:
  "\<lbrakk>hook_inv cfg s; i < length (hs_procs s); owned_id (hs_procs s ! i) = Some k; \<not> settled_pc (hs_procs s ! i);
    m \<in> set (hs_made s)\<rbrakk> \<Longrightarrow> made_id m \<noteq> k"
  unfolding hook_inv_def Let_def by (metis nth_mem)

lemma claim_own_write:
  assumes inv: "hook_inv cfg s" and i: "i < length (hs_procs s)" and pc: "hs_procs s ! i = Claiming h"
    and st: "step_claiming env h (hs_world s) = (w', pc')"
  shows "\<exists>x. own_write cfg s i x (hw_ledger w') pc' []"
proof (cases "pc' = Resolving h")
  case False
  then have "hw_ledger w' = hw_ledger (hs_world s)" "owned pc' = None" "pc_ok (hs_clock s) (hw_ledger w') pc'"
    using st by (auto simp: step_claiming_def claim_delivery_def split: option.splits if_splits)
  then show ?thesis
    using own_write_same[OF inv i, of pc'] settled_unowned by (metis option.map_disc_iff owned_id_def)
next
  case True
  let ?rows = "hw_ledger (hs_world s)" and ?pcs = "hs_procs s"
  obtain n where n: "find_row wd_id (hk_delivery h) ?rows = None"
    "hw_ledger w' = ?rows @ [\<lparr>wd_id = hk_delivery h, wd_event = hk_event h, wd_repo = hk_repo h,
       wd_issueNumber = n, wd_sender = hk_sender h, wd_outcome = Do_received, wd_receivedAt = he_dbnow env\<rparr>]"
    (is "_ = _ @ [?r]")
    using st True by (auto simp: step_claiming_def claim_delivery_def split: option.splits if_splits)
  have d: "distinct (map wd_id ?rows)" and okp: "\<And>pc. pc \<in> set ?pcs \<Longrightarrow> pc_ok (hs_clock s) ?rows pc"
    and dm: "distinct (map made_id (hs_made s))" and made: "\<And>m. m \<in> set (hs_made s) \<Longrightarrow> made_row ?rows m"
    and lim: "within_limits cfg (hs_clock s - ONE_HOUR_MS) ?rows"
    using inv unfolding hook_inv_def Let_def by blast+
  have look: "find_row wd_id k (?rows @ [?r]) = (if k = hk_delivery h then Some ?r else find_row wd_id k ?rows)" for k
    using n(1) by (auto simp: find_row_append split: option.split)
  have "owned_id (?pcs ! j) \<noteq> Some (hk_delivery h)" if "j < length ?pcs" for j
    using okp[OF nth_mem[OF that]] n(1) by (auto simp: pc_ok_def owned_id_def split: option.splits)
  moreover have "hk_delivery h \<notin> made_id ` set (hs_made s)"
    using made n(1) by (force simp: made_row_def)
  moreover have "within_limits cfg (hs_clock s - ONE_HOUR_MS) (?rows @ [?r])"
    using lim by (simp add: within_limits_def counts_for_repo_def counts_for_sender_def)
  moreover have "pc_ok (hs_clock s) (?rows @ [?r]) pc'"
    using True look by (simp add: pc_ok_def)
  moreover have "distinct (map wd_id (?rows @ [?r]))" using d n(1) by (auto simp: find_row_None_iff)
  ultimately have "own_write cfg s i (Some (hk_delivery h)) (hw_ledger w') pc' []"
    unfolding own_write_def n(2) using dm look True by (auto simp: owned_id_def)
  then show ?thesis by blast
qed

lemma reserve_own_write:
  assumes inv: "hook_inv cfg s" and i: "i < length (hs_procs s)" and pc: "hs_procs s ! i = Reserving c g since"
    and res: "reserveJobSlot (cd_full c) (cd_sender c) (hk_delivery (cd_hook c)) (wc_repoLimit cfg)
         (wc_senderLimit cfg) since (hw_ledger (hs_world s)) = (rows', admitted)"
  shows "own_write cfg s i (Some (hk_delivery (cd_hook c))) rows'
           (if admitted then Creating c g else drop_as (cd_hook c) Do_rate_limited) []"
proof -
  let ?rows = "hw_ledger (hs_world s)"
  have "hs_procs s ! i \<in> set (hs_procs s)" using i by simp
  then have okp: "pc_ok (hs_clock s) ?rows (hs_procs s ! i)" and d: "distinct (map wd_id ?rows)"
    and lim: "within_limits cfg (hs_clock s - ONE_HOUR_MS) ?rows"
    using inv unfolding hook_inv_def Let_def by blast+
  have c: "cand_ok c" and win: "since \<le> hs_clock s - ONE_HOUR_MS" using okp pc by (auto simp: pc_ok_def)
  obtain r where r: "find_row wd_id (hk_delivery (cd_hook c)) ?rows = Some r"
    "wd_repo r = Some (cd_full c)" "wd_sender r = Some (cd_sender c)"
    using okp pc c by (auto simp: pc_ok_def cand_ok_def)
  have ns: "\<not> settled_pc (hs_procs s ! i)" using pc by simp
  show ?thesis
  proof (cases admitted)
    case True
    then have rows': "rows' = setOutcome (hk_delivery (cd_hook c)) Do_job_created ?rows"
      using res by (auto simp: reserveJobSlot_def Let_def split: if_splits)
    have "within_limits cfg (hs_clock s - ONE_HOUR_MS) rows'"
      using within_limits_reserved[OF lim d r _ win] res True by simp
    then show ?thesis
      using own_write_set[OF inv i, of "cd_hook c" "Creating c g" Do_job_created] pc c ns rows' True by simp
  next
    case False
    then have rows': "rows' = setOutcome (hk_delivery (cd_hook c)) Do_rate_limited ?rows"
      using res by (auto simp: reserveJobSlot_def Let_def split: if_splits)
    have "within_limits cfg (hs_clock s - ONE_HOUR_MS) rows'"
      unfolding rows' by (rule within_limits_uncounted[OF lim d]) simp
    then show ?thesis
      using own_write_set[OF inv i, of "cd_hook c" "drop_as (cd_hook c) Do_rate_limited" Do_rate_limited] pc ns rows' False
      by (simp add: drop_as_def)
  qed
qed

lemma finish_own_write:
  assumes inv: "hook_inv cfg s" and i: "i < length (hs_procs s)" and pc: "hs_procs s ! i = Finishing h oc status extra"
  shows "own_write cfg s i (Some (hk_delivery h)) (setOutcome (hk_delivery h) oc (hw_ledger (hs_world s))) (Replied r) []"
proof -
  let ?rows = "hw_ledger (hs_world s)"
  have "hs_procs s ! i \<in> set (hs_procs s)" using i by simp
  then have okp: "pc_ok (hs_clock s) ?rows (hs_procs s ! i)" and d: "distinct (map wd_id ?rows)"
    and lim: "within_limits cfg (hs_clock s - ONE_HOUR_MS) ?rows"
    using inv unfolding hook_inv_def Let_def by blast+
  obtain q where q: "find_row wd_id (hk_delivery h) ?rows = Some q" "oc = Do_job_created \<Longrightarrow> wd_outcome q = oc"
    using okp pc by (auto simp: pc_ok_def)
  have "within_limits cfg (hs_clock s - ONE_HOUR_MS) (setOutcome (hk_delivery h) oc ?rows)"
    using setOutcome_id[OF d q(1)] q(2) lim within_limits_uncounted[OF lim d]
    by (cases "oc = Do_job_created") auto
  then have "own_write cfg s i (Some (hk_delivery h)) (setOutcome (hk_delivery h) oc ?rows) (Finishing h oc status extra) []"
    using own_write_set[OF inv i, of h "Finishing h oc status extra" oc] pc by simp
  then show ?thesis by (rule own_write_replied)
qed

lemma create_own_write:
  assumes inv: "hook_inv cfg s" and i: "i < length (hs_procs s)" and pc: "hs_procs s ! i = Creating c g"
    and st: "step_creating cfg env c g (hs_world s) = (w', pc')"
  shows "own_write cfg s i (Some (hk_delivery (cd_hook c))) (hw_ledger w') pc'
           (newly_made (Creating c g) (hs_world s) w')"
proof -
  let ?rows = "hw_ledger (hs_world s)" and ?x = "hk_delivery (cd_hook c)"
  have mem: "hs_procs s ! i \<in> set (hs_procs s)" using i by simp
  then have okp: "pc_ok (hs_clock s) ?rows (hs_procs s ! i)" and dm: "distinct (map made_id (hs_made s))"
    using inv unfolding hook_inv_def Let_def by blast+
  have c: "cand_ok c" using okp pc by (simp add: pc_ok_def)
  obtain r where r: "find_row wd_id ?x ?rows = Some r" "wd_outcome r = Do_job_created"
    "wd_repo r = Some (cd_full c)" "wd_sender r = Some (cd_sender c)"
    using okp pc c by (auto simp: pc_ok_def cand_ok_def)
  have fresh: "made_id m \<noteq> ?x" if "m \<in> set (hs_made s)" for m
    using not_settled_unmade[OF inv i _ _ that] pc by (simp add: owned_id_def)
  have unmade: "?x \<notin> made_id ` set (hs_made s)"
  proof
    assume "?x \<in> made_id ` set (hs_made s)"
    then obtain m where m: "?x = made_id m" "m \<in> set (hs_made s)" by (rule imageE)
    then show False using fresh[OF m(2)] by simp
  qed
  obtain db' out where ins: "trigger_insert (he_dbnow env) (he_newId env) (hook_trigger_input cfg env c g) (hw_db (hs_world s)) = (db', out)"
    by fastforce
  have w': "w' = (hs_world s)\<lparr>hw_db := db'\<rparr>"
    using st ins by (auto simp: step_creating_def split: sum.splits insert_outcome.splits)
  have base: "own_write cfg s i (Some ?x) ?rows q []"
    if "owned_id q = None \<or> owned_id q = Some ?x" "pc_ok (hs_clock s) ?rows q" for q
    using own_write_same[OF inv i, of q] that pc by (simp add: owned_id_def)
  from trigger_insert_rows[OF ins] show ?thesis
  proof
    assume a: "db' = hw_db (hs_world s) \<and> (case out of Inr (Settled r) \<Rightarrow> tr_decision r \<noteq> Td_created
        | Inr (Gate_pending _) \<Rightarrow> False | Inl _ \<Rightarrow> True)"
    then have "owned_id pc' = None \<or> owned_id pc' = Some ?x" "pc_ok (hs_clock s) ?rows pc'"
      using st ins r c by (auto simp: step_creating_def owned_id_def pc_ok_def after_create_def drop_as_def cand_ok_def
          split: sum.splits insert_outcome.splits trigger_decision.splits)
    then show ?thesis using base a w' by (simp add: newly_made_def)
  next
    assume "\<exists>j. db_jobs db' = db_jobs (hw_db (hs_world s)) @ [j] \<and> j_id j = he_newId env \<and>
      (out = Inr (Gate_pending j) \<or>
       out = Inr (Settled \<lparr>tr_decision = Td_created, tr_job = Some j, tr_gated = False, tr_reason = None\<rparr>))"
    then obtain j where j: "db_jobs db' = db_jobs (hw_db (hs_world s)) @ [j]"
      "pc' = Opening_gate c j \<or> (\<exists>e. pc' = Finishing (cd_hook c) Do_job_created 201 e)"
      using st ins by (auto simp: step_creating_def after_create_created)
    let ?m = "\<lparr>mj_candidate = c, mj_gated = g, mj_job = j\<rparr>"
    have q: "owned_id pc' = Some ?x" "pc_ok (hs_clock s) ?rows pc'" "settled_pc pc'"
      using j(2) r c by (auto simp: owned_id_def pc_ok_def cand_ok_def)
    have "newly_made (Creating c g) (hs_world s) w' = [?m]" using j(1) w' by (simp add: newly_made_def)
    moreover have "own_write cfg s i (Some ?x) ?rows pc' [?m]"
      using base[OF disjI2[OF q(1)] q(2)] unmade r q(3) dm unfolding own_write_def
      by (auto simp: made_row_def)
    ultimately show ?thesis using w' by simp
  qed
qed

lemma step_own_write:
  assumes inv: "hook_inv cfg s" and i: "i < length (hs_procs s)" and now: "he_now env = hs_clock s"
    and st: "hook_step cfg env (hs_procs s ! i) (hs_world s) = (w', pc')"
  shows "\<exists>x. own_write cfg s i x (hw_ledger w') pc' (newly_made (hs_procs s ! i) (hs_world s) w')"
proof -
  let ?rows = "hw_ledger (hs_world s)" and ?pc = "hs_procs s ! i"
  have "?pc \<in> set (hs_procs s)" using i by simp
  then have okp: "pc_ok (hs_clock s) ?rows ?pc" using inv unfolding hook_inv_def Let_def by blast
  have same: "\<exists>x. own_write cfg s i x (hw_ledger w') pc' (newly_made ?pc (hs_world s) w')"
    if "hw_ledger w' = ?rows" "owned_id pc' = None \<or> owned_id pc' = owned_id ?pc" "pc_ok (hs_clock s) ?rows pc'"
      "settled_pc ?pc \<longrightarrow> settled_pc pc'" "newly_made ?pc (hs_world s) w' = []"
    using own_write_same[OF inv i that(2,3,4)] that(1,5) by auto
  show ?thesis
  proof (cases ?pc)
    case (Arrived rq)
    then show ?thesis using st
      by (intro same) (auto simp: step_arrived_def newly_made_def owned_id_def pc_ok_def Let_def split: option.splits if_splits)
  next
    case (Claiming h)
    then show ?thesis using claim_own_write[OF inv i Claiming] st by (simp add: newly_made_def)
  next
    case (Resolving h)
    then show ?thesis using st okp
      by (intro same) (auto simp: step_resolving_def drop_as_def newly_made_def owned_id_def pc_ok_def cand_ok_def
          split: option.splits if_splits)
  next
    case (Checking_active c)
    then show ?thesis using st okp
      by (intro same) (auto simp: drop_as_def newly_made_def owned_id_def pc_ok_def split: if_splits)
  next
    case (Checking_prior c)
    then show ?thesis using st okp now
      by (intro same) (auto simp: newly_made_def owned_id_def pc_ok_def)
  next
    case (Reserving c g since)
    then show ?thesis using st reserve_own_write[OF inv i Reserving]
      by (fastforce simp: newly_made_def split: prod.splits)
  next
    case (Creating c g)
    then show ?thesis using create_own_write[OF inv i Creating] st by auto
  next
    case (Opening_gate c j)
    then show ?thesis using st okp
      by (intro same) (auto simp: step_gate_def trigger_gate_def after_create_created newly_made_def owned_id_def pc_ok_def
          split: prod.splits sum.splits)
  next
    case (Finishing h oc status extra)
    then show ?thesis using st finish_own_write[OF inv i Finishing, of "Hook_ok status oc extra"]
      by (auto simp: newly_made_def)
  next
    case (Replied r)
    then have "pc' = Replied r" "w' = hs_world s" using st by auto
    then show ?thesis using Replied by (intro same) (simp_all add: newly_made_def owned_id_def)
  qed
qed

lemma hook_trans_inv: "\<lbrakk>hook_trans cfg s s'; hook_inv cfg s\<rbrakk> \<Longrightarrow> hook_inv cfg s'"
proof (induction rule: hook_trans.induct)
  case (Hook_arrive s rq)
  then show ?case unfolding hook_inv_def Let_def
    by (auto simp: pc_ok_def owned_id_def nth_append split: if_splits)
next
  case (Hook_step i s env w' pc')
  then obtain x where "own_write cfg s i x (hw_ledger w') pc' (newly_made (hs_procs s ! i) (hs_world s) w')"
    using step_own_write by blast
  from own_write_inv[OF Hook_step(4,1) this, of "hw_db w'"] show ?case by (cases w') simp
next
  case (Hook_throw_before i s)
  have "own_write cfg s i (owned_id (hs_procs s ! i)) (hw_ledger (hs_world s)) (Replied Hook_internal) []"
    using own_write_same[OF Hook_throw_before(2,1), of "Replied Hook_internal"] by (simp add: owned_id_def)
  from own_write_inv[OF Hook_throw_before(2,1) this, of "hw_db (hs_world s)"] show ?case by (simp add: hook_inv_def)
next
  case (Hook_throw_after i s env w' pc')
  then obtain x where "own_write cfg s i x (hw_ledger w') pc' (newly_made (hs_procs s ! i) (hs_world s) w')"
    using step_own_write by blast
  then have "own_write cfg s i x (hw_ledger w') (Replied Hook_internal) (newly_made (hs_procs s ! i) (hs_world s) w')"
    by (rule own_write_replied)
  from own_write_inv[OF Hook_throw_after(4,1) this, of "hw_db w'"] show ?case by (cases w') simp
next
  case (Hook_clock s t)
  have "pc_ok t rows pc" if "pc_ok (hs_clock s) rows pc" for rows pc
    using that Hook_clock(1) by (cases pc) (auto simp: pc_ok_def)
  moreover have "within_limits cfg (t - ONE_HOUR_MS) rows" if "within_limits cfg (hs_clock s - ONE_HOUR_MS) rows" for rows
    using within_limits_later[OF that] Hook_clock(1) by simp
  ultimately show ?case using Hook_clock(2) unfolding hook_inv_def Let_def by auto
next
  case (Hook_others s db')
  then show ?case by (simp add: hook_inv_def)
qed

lemma hook_reachable_inv: "hook_reachable cfg s \<Longrightarrow> hook_inv cfg s"
proof (induction rule: hook_reachable.induct)
  case (Hook_init db t)
  show ?case by (simp add: hook_inv_def within_limits_def)
next
  case (Hook_next s s')
  then show ?case using hook_trans_inv by blast
qed

section \<open>What every interleaving of deliveries satisfies\<close>

text \<open>The webhook jobs of a repository whose deliveries were received within the last hour.\<close>

definition recent_jobs :: "string \<Rightarrow> hook_sys \<Rightarrow> made_job list" where
  "recent_jobs repo s =
     filter (\<lambda>m. cd_full (mj_candidate m) = repo \<and>
        (\<exists>r\<in>set (hw_ledger (hs_world s)). wd_id r = made_id m \<and> hs_clock s - ONE_HOUR_MS \<le> wd_receivedAt r))
       (hs_made s)"

lemma made_count:
  assumes "distinct (map made_id ms)" "\<And>m. m \<in> set ms \<Longrightarrow> \<exists>r\<in>set rows. P r \<and> wd_id r = made_id m"
  shows "length ms \<le> length (filter P rows)"
proof -
  have "length ms = card (made_id ` set ms)" using assms(1) by (metis distinct_card length_map set_map)
  also have "\<dots> \<le> card (wd_id ` set (filter P rows))"
    by (rule card_mono) (use assms(2) in \<open>fastforce simp: image_iff\<close>)+
  also have "\<dots> \<le> length (filter P rows)" by (metis card_image_le card_length finite_set order_trans)
  finally show ?thesis .
qed

text \<open>C36: whatever deliveries arrive, in whatever order their handlers run, throw or lose their answer, the
  jobs created from a repository's deliveries of the last hour never exceed the repository limit, and those
  of one sender never exceed the sender limit.\<close>

theorem webhook_rate_limited:
  assumes "hook_reachable cfg s"
  shows "int (length (recent_jobs repo s)) \<le> max 0 (wc_repoLimit cfg) \<and>
    int (length (filter (\<lambda>m. cd_sender (mj_candidate m) = u) (recent_jobs repo s))) \<le> max 0 (wc_senderLimit cfg)"
proof (intro conjI)
  let ?rows = "hw_ledger (hs_world s)" and ?since = "hs_clock s - ONE_HOUR_MS"
  have inv: "distinct (map wd_id ?rows)" "distinct (map made_id (hs_made s))"
      "\<And>m. m \<in> set (hs_made s) \<Longrightarrow> made_row ?rows m" "within_limits cfg ?since ?rows"
    using hook_reachable_inv[OF assms] unfolding hook_inv_def Let_def by blast+
  have row: "\<exists>r\<in>set ?rows. counts_for_sender repo (cd_sender (mj_candidate m)) ?since r \<and> wd_id r = made_id m"
    if m: "m \<in> set (recent_jobs repo s)" for m
  proof -
    obtain q where q: "q \<in> set ?rows" "wd_id q = made_id m" "?since \<le> wd_receivedAt q"
      and m': "m \<in> set (hs_made s)" "cd_full (mj_candidate m) = repo"
      using m by (auto simp: recent_jobs_def)
    have "find_row wd_id (made_id m) ?rows = Some q" using find_row_in_set[OF inv(1) q(1)] q(2) by simp
    then show ?thesis using inv(3)[OF m'(1)] q m'(2)
      by (auto simp: made_row_def counts_for_sender_def counts_for_repo_def)
  qed
  have d: "distinct (map made_id (recent_jobs repo s))"
    using inv(2) by (simp add: recent_jobs_def distinct_map_filter)
  show "int (length (recent_jobs repo s)) \<le> max 0 (wc_repoLimit cfg)"
    by (rule within_limitsD(1)[OF inv(4) made_count[OF d]]) (use row in \<open>auto simp: counts_for_sender_def\<close>)
  show "int (length (filter (\<lambda>m. cd_sender (mj_candidate m) = u) (recent_jobs repo s))) \<le> max 0 (wc_senderLimit cfg)"
    by (rule within_limitsD(2)[OF inv(4), of _ repo u], rule made_count[OF distinct_map_filter[OF d]]) (use row in auto)
qed

text \<open>C37: a delivery GUID creates at most one job, however often GitHub redelivers it and however the handlers
  interleave; and the delivery that created a job stays recorded as such, with its repository and sender.\<close>

theorem one_job_per_delivery:
  assumes "hook_reachable cfg s"
  shows "distinct (map made_id (hs_made s)) \<and> (\<forall>m\<in>set (hs_made s). made_row (hw_ledger (hs_world s)) m)"
  using hook_reachable_inv[OF assms] unfolding hook_inv_def Let_def by blast

section \<open>Who can create a job\<close>

definition signed_hook :: "webhook_config \<Rightarrow> hook \<Rightarrow> bool" where
  "signed_hook cfg h \<longleftrightarrow>
     (\<exists>rq payload secret. rq_signature rq = Some (''sha256='' @ wc_hmac cfg secret (rq_body rq)) \<and>
        secret \<in> set (wc_secrets cfg) \<and> secret \<noteq> [] \<and>
        wc_parse cfg (rq_body rq) = Some payload \<and> h = read_hook rq payload)"

definition opted_in :: "webhook_config \<Rightarrow> candidate \<Rightarrow> bool" where
  "opted_in cfg c \<longleftrightarrow>
     (let h = cd_hook c; repo = cd_repo c in
      wc_enabled cfg \<and> signed_hook cfg h \<and> hk_event h = Some ''issues'' \<and> hk_action h = Some ''labeled'' \<and>
      hk_repo h = Some (cd_full c) \<and> rp_owner repo @ ''/'' @ rp_name repo = cd_full c \<and>
      ''webhook'' \<in> set (rp_allowedTriggers repo) \<and> rp_webhookEnabled repo \<and>
      hk_label h = Some (rp_triggerLabel repo) \<and> hk_sender h = Some (cd_sender c) \<and>
      cd_sender c \<in> set (rp_webhookSenders repo))"

definition structurally_allowed :: "webhook_config \<Rightarrow> candidate \<Rightarrow> bool" where
  "structurally_allowed cfg c \<longleftrightarrow> wc_backend cfg \<noteq> Be_local \<and> rp_credentialKind (cd_repo c) = Cred_github_app"

fun pc_hook :: "hook_pc \<Rightarrow> hook option" where
  "pc_hook (Claiming h) = Some h"
| "pc_hook pc = owned pc"

definition pc_auth :: "webhook_config \<Rightarrow> hook_pc \<Rightarrow> bool" where
  "pc_auth cfg pc \<longleftrightarrow>
     (case pc_hook pc of None \<Rightarrow> True | Some h \<Rightarrow> signed_hook cfg h) \<and>
     (case pc_candidate pc of None \<Rightarrow> True | Some c \<Rightarrow> opted_in cfg c)"

lemma verify_sound: "verifyGithubSignature hmac raw header secrets \<Longrightarrow>
    \<exists>secret\<in>set secrets. secret \<noteq> [] \<and> header = Some (''sha256='' @ hmac secret raw)"
  by (auto simp: verifyGithubSignature_def list_ex_iff split: option.splits)

lemma getByFullName_name: "getByFullName full db = Some r \<Longrightarrow> rp_owner r @ ''/'' @ rp_name r = full"
  by (auto simp: getByFullName_def find_Some_iff)

lemma step_resolving_auth:
  assumes "signed_hook cfg h"
  shows "pc_auth cfg (step_resolving cfg h db)"
  using assms by (auto simp: pc_auth_def step_resolving_def drop_as_def opted_in_def bind_eq_Some_conv
      dest!: getByFullName_name split: option.split if_split)

lemma step_arrived_auth: "pc_auth cfg (step_arrived cfg rq)"
proof (cases "verifyGithubSignature (wc_hmac cfg) (rq_body rq) (rq_signature rq) (wc_secrets cfg)")
  case True
  from verify_sound[OF this] obtain secret where
    "secret \<in> set (wc_secrets cfg)" "secret \<noteq> []" "rq_signature rq = Some (''sha256='' @ wc_hmac cfg secret (rq_body rq))"
    by blast
  then show ?thesis using True
    by (auto simp: step_arrived_def pc_auth_def signed_hook_def Let_def split: option.split)
qed (simp add: step_arrived_def pc_auth_def)

lemma after_create_auth: "signed_hook cfg (cd_hook c) \<Longrightarrow> pc_auth cfg (after_create c r)"
  by (cases "tr_decision r") (simp_all add: after_create_def pc_auth_def drop_as_def)

lemma hook_step_auth:
  assumes "pc_auth cfg pc" "hook_step cfg env pc w = (w', pc')"
  shows "pc_auth cfg pc'"
proof (cases pc)
  case (Arrived rq)
  then show ?thesis using assms(2) step_arrived_auth by auto
next
  case (Resolving h)
  then show ?thesis using assms step_resolving_auth by (auto simp: pc_auth_def)
next
  case (Creating c g)
  then show ?thesis using assms after_create_auth[of cfg c]
    by (auto simp: step_creating_def pc_auth_def opted_in_def Let_def split: prod.splits sum.splits insert_outcome.splits)
next
  case (Opening_gate c j)
  then show ?thesis using assms after_create_auth[of cfg c]
    by (auto simp: step_gate_def pc_auth_def opted_in_def Let_def split: prod.splits sum.splits)
qed (use assms in \<open>auto simp: pc_auth_def drop_as_def step_claiming_def split: prod.splits option.splits bool.splits if_splits\<close>)

text \<open>An ungated delivery of a pair follows another delivery of that pair.\<close>

definition seen_pair :: "ledger \<Rightarrow> candidate \<Rightarrow> bool" where
  "seen_pair rows c \<longleftrightarrow>
     (\<exists>r\<in>set rows. wd_id r \<noteq> hk_delivery (cd_hook c) \<and> wd_repo r = Some (cd_full c) \<and>
        wd_sender r = Some (cd_sender c))"

fun ungated :: "hook_pc \<Rightarrow> candidate option" where
  "ungated (Reserving c g _) = (if g then None else Some c)"
| "ungated (Creating c g) = (if g then None else Some c)"
| "ungated _ = None"

definition made_ok :: "webhook_config \<Rightarrow> ledger \<Rightarrow> made_job \<Rightarrow> bool" where
  "made_ok cfg rows m \<longleftrightarrow>
     (let c = mj_candidate m; j = mj_job m in
      opted_in cfg c \<and> structurally_allowed cfg c \<and>
      j_repoId j = rp_id (cd_repo c) \<and> j_source j = Src_webhook \<and> j_sourceRef j = Some (cd_ref c) \<and>
      (if mj_gated m then j_status j = St_waiting \<and> j_phase j = Ph_await_human
       else j_status j = St_queued \<and> seen_pair rows c))"

lemma seen_pair_mono:
  assumes "seen_pair rows c"
    "\<And>r. r \<in> set rows \<Longrightarrow> \<exists>r'\<in>set rows'. wd_id r' = wd_id r \<and> wd_repo r' = wd_repo r \<and> wd_sender r' = wd_sender r"
  shows "seen_pair rows' c"
  using assms unfolding seen_pair_def by metis

lemma setOutcome_keeps:
  assumes "r \<in> set rows"
  shows "\<exists>r'\<in>set (setOutcome i oc rows). wd_id r' = wd_id r \<and> wd_repo r' = wd_repo r \<and> wd_sender r' = wd_sender r"
proof -
  have "(if wd_id r = i then r\<lparr>wd_outcome := oc\<rparr> else r) \<in> set (setOutcome i oc rows)"
    using assms by (auto simp: setOutcome_def sql_update_def)
  then show ?thesis by (rule rev_bexI) simp
qed

lemma hook_step_keeps:
  assumes "hook_step cfg env pc w = (w', pc')" "r \<in> set (hw_ledger w)"
  shows "\<exists>r'\<in>set (hw_ledger w'). wd_id r' = wd_id r \<and> wd_repo r' = wd_repo r \<and> wd_sender r' = wd_sender r"
  using assms
  by (cases pc) (auto simp: step_claiming_def claim_delivery_def step_creating_def step_gate_def reserveJobSlot_def
      Let_def setOutcome_keeps split: prod.splits option.splits bool.splits sum.splits insert_outcome.splits if_splits)

lemma hook_step_ungated:
  assumes st: "hook_step cfg env pc w = (w', pc')" and c: "ungated pc' = Some c"
    and old: "\<And>c. ungated pc = Some c \<Longrightarrow> seen_pair (hw_ledger w) c" and ok: "pc_ok clock (hw_ledger w) pc"
    and d: "distinct (map wd_id (hw_ledger w))"
  shows "seen_pair (hw_ledger w) c"
proof (cases pc)
  case (Checking_prior c')
  then have c': "c' = c" "hasPriorJob (cd_full c) (cd_sender c) (hw_ledger w)" using st c by (auto split: if_splits)
  then obtain r where r: "r \<in> set (hw_ledger w)" "wd_repo r = Some (cd_full c)" "wd_sender r = Some (cd_sender c)"
    "wd_outcome r = Do_job_created"
    by (auto simp: hasPriorJob_def list_ex_iff)
  moreover have "wd_id r \<noteq> hk_delivery (cd_hook c)"
    using ok Checking_prior c'(1) r(4) find_row_in_set[OF d r(1)] by (auto simp: pc_ok_def)
  ultimately show ?thesis by (auto simp: seen_pair_def)
next
  case (Reserving c' g since)
  then show ?thesis using st c old by (auto simp: drop_as_def split: prod.splits if_splits)
qed (use st c in \<open>auto simp: step_arrived_def step_claiming_def step_resolving_def step_creating_def step_gate_def
    after_create_def drop_as_def Let_def split: prod.splits option.splits bool.splits sum.splits insert_outcome.splits
      trigger_decision.splits if_splits\<close>)

lemma newly_made_ok:
  assumes st: "hook_step cfg env pc w = (w', pc')" and auth: "pc_auth cfg pc"
    and old: "\<And>c. ungated pc = Some c \<Longrightarrow> seen_pair (hw_ledger w) c" and m: "m \<in> set (newly_made pc w w')"
  shows "made_ok cfg (hw_ledger w') m"
proof -
  obtain c g where pc: "pc = Creating c g" and len: "length (db_jobs (hw_db w)) < length (db_jobs (hw_db w'))"
    and m': "m = \<lparr>mj_candidate = c, mj_gated = g, mj_job = last (db_jobs (hw_db w'))\<rparr>"
    using m by (cases pc) (auto simp: newly_made_def split: if_splits)
  let ?in = "hook_trigger_input cfg env c g"
  obtain db' out where ins: "trigger_insert (he_dbnow env) (he_newId env) ?in (hw_db w) = (db', out)" by fastforce
  have w': "w' = w\<lparr>hw_db := db'\<rparr>"
    using st pc ins by (auto simp: step_creating_def split: sum.splits insert_outcome.splits)
  have "structural_refusal ?in = None"
    using ins len w' by (auto simp: trigger_insert_def split: option.splits)
  then have "structurally_allowed cfg c"
    by (auto simp: structural_refusal_def hook_trigger_input_def structurally_allowed_def split: if_splits)
  moreover have "db_jobs db' = db_jobs (hw_db w) @ [new_job_row (he_dbnow env) (he_newId env) (ti_tokenHash ?in) (trigger_new_job ?in)]"
    using ins len w' by (auto simp: trigger_insert_def createJob_def Let_def isUniqueViolation_def
        split: option.splits if_splits)
  moreover have "opted_in cfg c" using auth pc by (simp add: pc_auth_def)
  moreover have "\<not> g \<Longrightarrow> seen_pair (hw_ledger w) c" using old pc by simp
  ultimately show ?thesis using m' w'
    by (simp add: made_ok_def Let_def new_job_row_def trigger_new_job_def hook_trigger_input_def)
qed

lemma made_ok_mono:
  assumes "made_ok cfg rows m"
    "\<And>r. r \<in> set rows \<Longrightarrow> \<exists>r'\<in>set rows'. wd_id r' = wd_id r \<and> wd_repo r' = wd_repo r \<and> wd_sender r' = wd_sender r"
  shows "made_ok cfg rows' m"
  using assms(1) seen_pair_mono[OF _ assms(2)] unfolding made_ok_def Let_def by auto

definition hook_auth :: "webhook_config \<Rightarrow> hook_sys \<Rightarrow> bool" where
  "hook_auth cfg s \<longleftrightarrow>
     (\<forall>pc\<in>set (hs_procs s). pc_auth cfg pc \<and> (\<forall>c. ungated pc = Some c \<longrightarrow> seen_pair (hw_ledger (hs_world s)) c)) \<and>
     (\<forall>m\<in>set (hs_made s). made_ok cfg (hw_ledger (hs_world s)) m)"

lemma hook_auth_step:
  assumes auth: "hook_auth cfg s" and inv: "hook_inv cfg s" and i: "i < length (hs_procs s)"
    and st: "hook_step cfg env (hs_procs s ! i) (hs_world s) = (w', pc')"
    and q: "q = pc' \<or> q = Replied Hook_internal"
  shows "hook_auth cfg (s\<lparr>hs_world := w', hs_procs := (hs_procs s)[i := q],
     hs_made := hs_made s @ newly_made (hs_procs s ! i) (hs_world s) w'\<rparr>)"
proof -
  let ?rows = "hw_ledger (hs_world s)" and ?pc = "hs_procs s ! i"
  have mem: "?pc \<in> set (hs_procs s)" using i by simp
  note keep = hook_step_keeps[OF st]
  have pcok: "pc_ok (hs_clock s) ?rows ?pc" and d: "distinct (map wd_id ?rows)"
    using inv mem unfolding hook_inv_def Let_def by blast+
  have a: "pc_auth cfg ?pc" "\<And>c. ungated ?pc = Some c \<Longrightarrow> seen_pair ?rows c" using auth mem by (auto simp: hook_auth_def)
  have "pc_auth cfg q" using hook_step_auth[OF a(1) st] q by (auto simp: pc_auth_def)
  moreover have "seen_pair (hw_ledger w') c" if "ungated q = Some c" for c
  proof -
    have "ungated pc' = Some c" using q that by auto
    then show ?thesis using hook_step_ungated[OF st _ a(2) pcok d] seen_pair_mono[OF _ keep] by blast
  qed
  moreover have "pc_auth cfg pc \<and> (\<forall>c. ungated pc = Some c \<longrightarrow> seen_pair (hw_ledger w') c)" if "pc \<in> set (hs_procs s)" for pc
    using auth that seen_pair_mono[OF _ keep] unfolding hook_auth_def by blast
  moreover have "made_ok cfg (hw_ledger w') m" if "m \<in> set (hs_made s @ newly_made ?pc (hs_world s) w')" for m
    using that auth made_ok_mono[OF _ keep] newly_made_ok[OF st a] unfolding hook_auth_def by auto
  ultimately show ?thesis unfolding hook_auth_def by (auto dest!: set_update_subset_insert[THEN subsetD])
qed

lemma hook_reachable_auth: "hook_reachable cfg s \<Longrightarrow> hook_auth cfg s"
proof (induction rule: hook_reachable.induct)
  case (Hook_init db t)
  show ?case by (simp add: hook_auth_def)
next
  case (Hook_next s s')
  note inv = hook_reachable_inv[OF Hook_next(1)]
  from Hook_next(2) show ?case
  proof cases
    case (Hook_arrive rq)
    then show ?thesis using Hook_next(3) by (auto simp: hook_auth_def pc_auth_def)
  next
    case (Hook_step i env w' pc')
    then show ?thesis using hook_auth_step[OF Hook_next(3) inv] by blast
  next
    case (Hook_throw_before i)
    then show ?thesis using Hook_next(3)
      by (auto simp: hook_auth_def pc_auth_def dest!: set_update_subset_insert[THEN subsetD])
  next
    case (Hook_throw_after i env w' pc')
    then show ?thesis using hook_auth_step[OF Hook_next(3) inv] by blast
  qed (use Hook_next(3) in \<open>auto simp: hook_auth_def\<close>)
qed

text \<open>C38: a webhook creates a job only for a body signed with a registered secret that reports the trigger
  label put on an issue by an allow-listed sender of a repository that opted in and is enabled, never on the
  local backend and only with GitHub App credentials; the job of a pair without another delivery in the
  ledger is inserted parked at the human gate, never queued.\<close>

theorem webhook_job_authorized:
  assumes "hook_reachable cfg s" "m \<in> set (hs_made s)"
  shows "opted_in cfg (mj_candidate m) \<and> structurally_allowed cfg (mj_candidate m) \<and>
    (\<not> seen_pair (hw_ledger (hs_world s)) (mj_candidate m) \<longrightarrow>
      mj_gated m \<and> j_status (mj_job m) = St_waiting \<and> j_phase (mj_job m) = Ph_await_human)"
  using hook_reachable_auth[OF assms(1)] assms(2) unfolding hook_auth_def made_ok_def Let_def
  by (auto split: if_splits)

text \<open>The gate is skipped for a pair that never produced a job: when the request of the first delivery
  fails after its slot was reserved, its row stays \<open>job_created\<close>, no job exists, and every later
  delivery of the pair passes the first-source check ungated.\<close>

theorem lost_slot_skips_gate:
  assumes r: "hook_reachable cfg s" and i: "i < length (hs_procs s)" "hs_procs s ! i = Creating c True"
    and pair: "cd_full c' = cd_full c" "cd_sender c' = cd_sender c"
  defines "s' \<equiv> s\<lparr>hs_procs := (hs_procs s)[i := Replied Hook_internal]\<rparr>"
  shows "hook_reachable cfg s' \<and> hs_made s' = hs_made s \<and>
    hook_step cfg env (Checking_prior c') (hs_world s')
      = (hs_world s', Reserving c' False (he_now env - ONE_HOUR_MS))"
proof (intro conjI)
  show "hook_reachable cfg s'" unfolding s'_def by (rule Hook_next[OF r Hook_throw_before[OF i(1)]])
  show "hs_made s' = hs_made s" by (simp add: s'_def)
  have "hs_procs s ! i \<in> set (hs_procs s)" using i(1) by simp
  then have "pc_ok (hs_clock s) (hw_ledger (hs_world s)) (Creating c True)"
    using hook_reachable_inv[OF r] i(2) unfolding hook_inv_def Let_def by force
  then have "hasPriorJob (cd_full c) (cd_sender c) (hw_ledger (hs_world s))"
    using find_row_SomeD by (fastforce simp: pc_ok_def cand_ok_def hasPriorJob_def list_ex_iff)
  then show "hook_step cfg env (Checking_prior c') (hs_world s')
      = (hs_world s', Reserving c' False (he_now env - ONE_HOUR_MS))"
    using pair by (simp add: s'_def)
qed

section \<open>One delivery alone\<close>

lemma hook_step_rank: "hook_step cfg env pc w = (w', pc') \<Longrightarrow> hook_rank pc' \<le> hook_rank pc - 1"
  by (cases pc) (auto simp: step_arrived_def step_claiming_def step_resolving_def step_creating_def step_gate_def
      after_create_def drop_as_def Let_def split: prod.splits option.splits bool.splits sum.splits
      insert_outcome.splits trigger_decision.splits if_splits)

lemma hook_run_rank: "hook_rank pc \<le> n \<Longrightarrow> hook_run n cfg env pc w = (w', pc') \<Longrightarrow> hook_rank pc' = 0"
proof (induction n arbitrary: pc w)
  case (Suc n)
  obtain w1 pc1 where s: "hook_step cfg env pc w = (w1, pc1)" by fastforce
  then have "hook_rank pc1 \<le> n" using hook_step_rank[OF s] Suc.prems(1) by linarith
  then show ?case using Suc s by simp
qed simp

lemma delivery_answered: "\<exists>w' r. handleGithubWebhook cfg env rq w = (w', Replied r)"
proof -
  obtain w' pc' where h: "handleGithubWebhook cfg env rq w = (w', pc')" by fastforce
  then have "hook_rank pc' = 0" unfolding handleGithubWebhook_def by (rule hook_run_rank[rotated]) simp
  then show ?thesis using h by (cases pc') auto
qed

section \<open>A concrete delivery\<close>

definition hook_repo :: dev_repo where
  "hook_repo = example_repo\<lparr>rp_credentialKind := Cred_github_app, rp_allowedTriggers := [''webhook''],
     rp_webhookSenders := [''alice'']\<rparr>"

definition hook_payload :: json where
  "hook_payload = JObj [(''action'', JStr ''labeled''), (''label'', JObj [(''name'', JStr ''omadia-dev'')]),
     (''issue'', JObj [(''number'', JNum 7), (''title'', JStr ''Bug''), (''body'', JStr ''text'')]),
     (''repository'', JObj [(''full_name'', JStr ''acme/app'')]), (''sender'', JObj [(''login'', JStr ''alice'')])]"

definition hook_config :: webhook_config where
  "hook_config = \<lparr>wc_hmac = (\<lambda>secret raw. secret @ raw), wc_parse = (\<lambda>_. Some hook_payload),
     wc_secrets = [''k''], wc_backend = Be_docker, wc_enabled = True, wc_repoLimit = 1, wc_senderLimit = 1\<rparr>"

definition hook_request :: webhook_request where
  "hook_request = \<lparr>rq_body = ''x'', rq_signature = Some ''sha256=kx'', rq_delivery = Some ''g1'',
     rq_event = Some ''issues''\<rparr>"

definition hook_start :: hook_sys where
  "hook_start = \<lparr>hs_world = \<lparr>hw_db = empty_db\<lparr>db_repos := [hook_repo]\<rparr>, hw_ledger = []\<rparr>, hs_clock = 5,
     hs_procs = [], hs_made = []\<rparr>"

definition hook_time :: hook_env where
  "hook_time = \<lparr>he_now = 5, he_dbnow = 5, he_newId = ''j1'', he_tokenHash = ''h'', he_gateId = ''g''\<rparr>"

definition proc_step :: "webhook_config \<Rightarrow> hook_env \<Rightarrow> nat \<Rightarrow> hook_sys \<Rightarrow> hook_sys" where
  "proc_step cfg env i s =
     (case hook_step cfg env (hs_procs s ! i) (hs_world s) of (w', pc') \<Rightarrow>
        s\<lparr>hs_world := w', hs_procs := (hs_procs s)[i := pc'],
          hs_made := hs_made s @ newly_made (hs_procs s ! i) (hs_world s) w'\<rparr>)"

lemma proc_steps_reachable:
  assumes "hook_reachable cfg s" "i < length (hs_procs s)" "he_now env = hs_clock s"
  shows "hook_reachable cfg ((proc_step cfg env i ^^ n) s) \<and>
    length (hs_procs ((proc_step cfg env i ^^ n) s)) = length (hs_procs s) \<and>
    hs_clock ((proc_step cfg env i ^^ n) s) = hs_clock s"
proof (induction n)
  case (Suc n)
  let ?s = "(proc_step cfg env i ^^ n) s"
  obtain w' pc' where st: "hook_step cfg env (hs_procs ?s ! i) (hs_world ?s) = (w', pc')" by fastforce
  have "i < length (hs_procs ?s)" "he_now env = hs_clock ?s" using Suc assms(2,3) by auto
  then have "hook_trans cfg ?s (proc_step cfg env i ?s)" using Hook_step[OF _ _ st] st by (simp add: proc_step_def)
  then have "hook_reachable cfg (proc_step cfg env i ?s)" using Suc Hook_next by blast
  moreover have "length (hs_procs (proc_step cfg env i ?s)) = length (hs_procs ?s)"
    "hs_clock (proc_step cfg env i ?s) = hs_clock ?s"
    using st by (simp_all add: proc_step_def)
  ultimately show ?case using Suc by simp
qed (use assms in simp)

definition hook_sent :: hook where
  "hook_sent = \<lparr>hk_delivery = ''g1'', hk_event = Some ''issues'', hk_action = Some ''labeled'',
     hk_repo = Some ''acme/app'', hk_issue = Some 7, hk_sender = Some ''alice'', hk_label = Some ''omadia-dev'',
     hk_title = ''Bug'', hk_body = ''text''\<rparr>"

definition hook_cand :: candidate where
  "hook_cand = \<lparr>cd_hook = hook_sent, cd_repo = hook_repo, cd_full = ''acme/app'', cd_sender = ''alice'',
     cd_ref = ''acme/app#7''\<rparr>"

definition hook_row :: "delivery_outcome \<Rightarrow> webhook_delivery" where
  "hook_row oc = \<lparr>wd_id = ''g1'', wd_event = Some ''issues'', wd_repo = Some ''acme/app'',
     wd_issueNumber = Some 7, wd_sender = Some ''alice'', wd_outcome = oc, wd_receivedAt = 5\<rparr>"

definition hook_db :: dev_db where "hook_db = empty_db\<lparr>db_repos := [hook_repo]\<rparr>"

definition hook_job :: dev_job where
  "hook_job = new_job_row 5 ''j1'' ''h'' (trigger_new_job (hook_trigger_input hook_config hook_time hook_cand True))"

lemmas hook_defs = hook_request_def hook_config_def hook_payload_def hook_sent_def hook_cand_def hook_row_def
  hook_db_def hook_repo_def example_repo_def hook_time_def

lemma hook_sent_read: "read_hook hook_request hook_payload = hook_sent"
  by (simp add: read_hook_def sub_field_def nonempty_string_def text_or_empty_def hook_defs)

lemma run_arrived: "step_arrived hook_config hook_request = Claiming hook_sent"
  by (simp add: step_arrived_def verifyGithubSignature_def hook_sent_read flip: hook_sent_read)
    (simp add: hook_defs read_hook_def)

lemma run_claiming: "step_claiming hook_time hook_sent \<lparr>hw_db = hook_db, hw_ledger = []\<rparr>
    = (\<lparr>hw_db = hook_db, hw_ledger = [hook_row Do_received]\<rparr>, Resolving hook_sent)"
  by (simp add: step_claiming_def claim_delivery_def int4_of_def hook_defs)

lemma show_seven: "show_int 7 = ''7''"
  by code_simp

lemma run_resolving: "step_resolving hook_config hook_sent hook_db = Checking_active hook_cand"
  by (simp add: step_resolving_def getByFullName_def hook_defs empty_db_def show_seven)

lemma run_prior:
  "\<not> hasActiveTriggerJob (rp_id (cd_repo hook_cand)) (cd_ref hook_cand) Src_webhook hook_db"
  "\<not> hasPriorJob (cd_full hook_cand) (cd_sender hook_cand) [hook_row Do_received]"
  by (simp_all add: hasActiveTriggerJob_def hasPriorJob_def hook_db_def empty_db_def hook_row_def)

lemma run_reserving:
  "reserveJobSlot (cd_full hook_cand) (cd_sender hook_cand) (hk_delivery (cd_hook hook_cand)) (wc_repoLimit hook_config)
     (wc_senderLimit hook_config) since [hook_row Do_received] = ([hook_row Do_job_created], True)"
  by (simp add: reserveJobSlot_def setOutcome_def sql_update_def counts_for_repo_def counts_for_sender_def hook_defs)

lemma run_creating:
  "step_creating hook_config hook_time hook_cand True \<lparr>hw_db = hook_db, hw_ledger = [hook_row Do_job_created]\<rparr>
     = (\<lparr>hw_db = hook_db\<lparr>db_jobs := [hook_job]\<rparr>, hw_ledger = [hook_row Do_job_created]\<rparr>,
        Opening_gate hook_cand hook_job)"
proof -
  have "createJob 5 ''j1'' ''h'' (trigger_new_job (hook_trigger_input hook_config hook_time hook_cand True)) hook_db
      = (hook_db\<lparr>db_jobs := [hook_job]\<rparr>, Inr hook_job)"
    by (simp add: createJob_def Let_def getJob_def getRepo_def webhook_slot_free_def hook_job_def
        hook_trigger_input_def trigger_new_job_def hook_defs empty_db_def split: option.split)
  then show ?thesis
    by (simp add: step_creating_def trigger_insert_def structural_refusal_def hook_trigger_input_def hook_defs)
qed

definition hook_steps :: "nat \<Rightarrow> hook_sys" where
  "hook_steps n = (proc_step hook_config hook_time 0 ^^ n)
     \<lparr>hs_world = \<lparr>hw_db = hook_db, hw_ledger = []\<rparr>, hs_clock = 5, hs_procs = [Arrived hook_request], hs_made = []\<rparr>"

lemma hook_steps_reachable: "hook_reachable hook_config (hook_steps n)"
proof -
  let ?s = "\<lparr>hs_world = \<lparr>hw_db = hook_db, hw_ledger = []\<rparr>, hs_clock = 5, hs_procs = [], hs_made = []\<rparr>"
  have "hook_reachable hook_config ?s" by (rule Hook_init)
  from Hook_next[OF this Hook_arrive, of hook_request] show ?thesis
    using proc_steps_reachable[of hook_config "?s\<lparr>hs_procs := [Arrived hook_request]\<rparr>" 0 hook_time n]
    by (simp add: hook_steps_def hook_time_def)
qed

lemma hook_steps_6: "hook_steps 6 = \<lparr>hs_world = \<lparr>hw_db = hook_db, hw_ledger = [hook_row Do_job_created]\<rparr>, hs_clock = 5,
    hs_procs = [Creating hook_cand True], hs_made = []\<rparr>"
  by (simp add: hook_steps_def eval_nat_numeral proc_step_def newly_made_def run_arrived run_claiming run_resolving
      run_prior run_reserving)

lemma hook_steps_7: "hook_steps 7 = \<lparr>hs_world = \<lparr>hw_db = hook_db\<lparr>db_jobs := [hook_job]\<rparr>,
      hw_ledger = [hook_row Do_job_created]\<rparr>, hs_clock = 5, hs_procs = [Opening_gate hook_cand hook_job],
    hs_made = [\<lparr>mj_candidate = hook_cand, mj_gated = True, mj_job = hook_job\<rparr>]\<rparr>"
proof -
  have "hook_steps 7 = proc_step hook_config hook_time 0 (hook_steps 6)" by (simp add: hook_steps_def eval_nat_numeral)
  then show ?thesis unfolding hook_steps_6
    by (simp add: proc_step_def newly_made_def run_creating) (simp add: hook_db_def empty_db_def)
qed

theorem webhook_rate_limited_witness:
  "int (length (recent_jobs ''acme/app'' (hook_steps 7))) = 1 \<and>
   int (length (recent_jobs ''acme/app'' (hook_steps 7))) \<le> max 0 (wc_repoLimit hook_config)"
  using webhook_rate_limited[OF hook_steps_reachable[of 7], of "''acme/app''"]
  by (simp add: recent_jobs_def hook_steps_7 hook_cand_def hook_sent_def hook_row_def ONE_HOUR_MS_def)

theorem one_job_per_delivery_witness:
  "map made_id (hs_made (hook_steps 7)) = [''g1''] \<and>
   made_row (hw_ledger (hs_world (hook_steps 7))) (hd (hs_made (hook_steps 7)))"
  using one_job_per_delivery[OF hook_steps_reachable[of 7]] by (simp add: hook_steps_7 hook_cand_def hook_sent_def)

theorem webhook_job_authorized_witness:
  "opted_in hook_config hook_cand \<and> structurally_allowed hook_config hook_cand \<and>
   j_status hook_job = St_waiting \<and> j_phase hook_job = Ph_await_human"
  using webhook_job_authorized[OF hook_steps_reachable[of 7]] 
  by (simp add: hook_steps_7 seen_pair_def hook_row_def hook_cand_def hook_sent_def)

theorem lost_slot_skips_gate_witness:
  "\<exists>s'. hook_reachable hook_config s' \<and> hs_made s' = [] \<and>
     hook_step hook_config hook_time (Checking_prior hook_cand) (hs_world s')
       = (hs_world s', Reserving hook_cand False (5 - ONE_HOUR_MS))"
  using lost_slot_skips_gate[OF hook_steps_reachable[of 6], of 0 hook_cand hook_cand hook_time]
  by (auto simp: hook_steps_6 hook_time_def)

end
