(* ===== verification/PollerSound.thy ===== *)
theory PollerSound
  imports Triggers ExampleData
begin

text \<open>
  What a sweep of the tracker poller guarantees: it covers the listing it was given, its cursor only moves
  forward and only after a listing without a throw; and what the cursor hides from the next sweep.
\<close>

section \<open>One ticket\<close>

definition pollable :: "poll_env \<Rightarrow> dev_repo \<Rightarrow> bool" where
  "pollable env repo \<longleftrightarrow> pv_backend env \<noteq> Be_local \<and> rp_credentialKind repo \<noteq> Cred_device_flow"

text \<open>The ids still to be drawn are new: \<open>gen_random_uuid()\<close> does not repeat.\<close>

definition fresh_from :: "nat \<Rightarrow> poll_env \<Rightarrow> dev_db \<Rightarrow> bool" where
  "fresh_from k env db \<longleftrightarrow> inj (pv_newId env) \<and> (\<forall>m\<ge>k. pv_newId env m \<notin> j_id ` set (db_jobs db))"

lemma fresh_from_later: "\<lbrakk>fresh_from k env db; k \<le> n\<rbrakk> \<Longrightarrow> fresh_from n env db"
  by (simp add: fresh_from_def)

lemma active_mono: "\<lbrakk>hasActiveTriggerJob i ref src db; db_jobs db' = db_jobs db @ js\<rbrakk> \<Longrightarrow> hasActiveTriggerJob i ref src db'"
  by (simp add: hasActiveTriggerJob_def)

lemma createJob_tracker:
  assumes "n_source input = Src_tracker" "getJob newId db = None"
  shows "createJob now newId h input db =
     (if getRepo (n_repoId input) db = None then (db, Inl (Foreign_key_violation ''dev_jobs_repo_id_fkey''))
      else (db\<lparr>db_jobs := db_jobs db @ [new_job_row now newId h input]\<rparr>, Inr (new_job_row now newId h input)))"
  using assms by (simp add: createJob_def Let_def webhook_slot_free_def webhook_slot_of_def new_job_row_def)

lemma poll_ticket_result:
  assumes f: "fresh_from k env db" and p: "pollable env repo" and r: "poll_ticket env k repo t db = (db', out)"
  shows "db' = db \<and> (out = None \<or> hasActiveTriggerJob (rp_id repo) (ticket_ref repo t) Src_tracker db) \<or>
    (\<exists>j. db_jobs db' = db_jobs db @ [j] \<and> j_id j = pv_newId env k \<and> j_repoId j = rp_id repo \<and>
       j_sourceRef j = Some (ticket_ref repo t) \<and> j_source j = Src_tracker \<and> j_status j = St_queued)"
proof (cases "hasActiveTriggerJob (rp_id repo) (ticket_ref repo t) Src_tracker db")
  case True
  then show ?thesis using r by (simp add: poll_ticket_def)
next
  case False
  let ?in = "ticket_input env k repo t"
  have new: "getJob (pv_newId env k) db = None"
    using f by (simp add: fresh_from_def getJob_def find_row_None_iff)
  have src: "n_source (trigger_new_job ?in) = Src_tracker" by (simp add: trigger_new_job_def ticket_input_def)
  have "structural_refusal ?in = None" using p by (simp add: structural_refusal_def ticket_input_def pollable_def)
  then show ?thesis
    using r False createJob_tracker[OF src new]
    by (auto simp: poll_ticket_def createTriggerJob_def trigger_insert_def new_job_row_def trigger_new_job_def
        ticket_input_def isUniqueViolation_def Let_def split: if_splits)
qed

lemma poll_ticket_fresh:
  assumes "fresh_from k env db" "pollable env repo" "poll_ticket env k repo t db = (db', out)"
  shows "fresh_from (Suc k) env db'" "\<exists>js. db_jobs db' = db_jobs db @ js"
    "out \<noteq> None \<Longrightarrow> hasActiveTriggerJob (rp_id repo) (ticket_ref repo t) Src_tracker db'"
proof -
  from poll_ticket_result[OF assms] consider
      (same) "db' = db" "out = None \<or> hasActiveTriggerJob (rp_id repo) (ticket_ref repo t) Src_tracker db"
    | (made) j where "db_jobs db' = db_jobs db @ [j]" "j_id j = pv_newId env k" "j_repoId j = rp_id repo"
       "j_sourceRef j = Some (ticket_ref repo t)" "j_source j = Src_tracker" "j_status j = St_queued"
    by blast
  then have "fresh_from (Suc k) env db' \<and> (\<exists>js. db_jobs db' = db_jobs db @ js) \<and>
    (out \<noteq> None \<longrightarrow> hasActiveTriggerJob (rp_id repo) (ticket_ref repo t) Src_tracker db')"
  proof cases
    case same
    then show ?thesis using fresh_from_later[OF assms(1)] by auto
  next
    case made
    have "pv_newId env m \<noteq> pv_newId env k" if "Suc k \<le> m" for m
      using assms(1) that by (auto simp: fresh_from_def dest: injD)
    then have "fresh_from (Suc k) env db'" using assms(1) made by (auto simp: fresh_from_def)
    then show ?thesis using made by (simp add: hasActiveTriggerJob_def non_terminal_def)
  qed
  then show "fresh_from (Suc k) env db'" "\<exists>js. db_jobs db' = db_jobs db @ js"
    "out \<noteq> None \<Longrightarrow> hasActiveTriggerJob (rp_id repo) (ticket_ref repo t) Src_tracker db'" by auto
qed

section \<open>A listing\<close>

lemma poll_tickets_jobs:
  "\<lbrakk>fresh_from k env db; pollable env repo; poll_tickets env k repo cursor newest ts db = (db', out)\<rbrakk>
     \<Longrightarrow> (\<exists>js. db_jobs db' = db_jobs db @ js) \<and>
       (out \<noteq> None \<longrightarrow> (\<forall>t\<in>set ts. seen_before cursor t \<or>
          hasActiveTriggerJob (rp_id repo) (ticket_ref repo t) Src_tracker db'))"
proof (induction ts arbitrary: k newest db)
  case (Cons t ts)
  show ?case
  proof (cases "seen_before cursor t")
    case True
    then show ?thesis using Cons.IH[of "Suc k" db newest] Cons.prems fresh_from_later[OF Cons.prems(1)] by auto
  next
    case False
    obtain db1 out1 where one: "poll_ticket env k repo t db = (db1, out1)" by fastforce
    note facts = poll_ticket_fresh[OF Cons.prems(1,2) one]
    show ?thesis
    proof (cases out1)
      case None
      then show ?thesis using Cons.prems(3) False one facts(2) by auto
    next
      case (Some a)
      let ?n = "case tk_updatedAt t of None \<Rightarrow> newest
                | Some u \<Rightarrow> Some (max u (case newest of Some m \<Rightarrow> m | None \<Rightarrow> (case cursor of Some c \<Rightarrow> c | None \<Rightarrow> 0)))"
      have rest: "poll_tickets env (Suc k) repo cursor ?n ts db1 = (db', out)"
        using Cons.prems(3) False one Some by simp
      from Cons.IH[OF facts(1) Cons.prems(2) rest] obtain js where js: "db_jobs db' = db_jobs db1 @ js"
        and all: "out \<noteq> None \<longrightarrow> (\<forall>t\<in>set ts. seen_before cursor t \<or>
          hasActiveTriggerJob (rp_id repo) (ticket_ref repo t) Src_tracker db')" by blast
      have "hasActiveTriggerJob (rp_id repo) (ticket_ref repo t) Src_tracker db'"
        using active_mono[OF facts(3) js] Some by simp
      then show ?thesis using all js facts(2) by auto
    qed
  qed
qed simp

lemma poll_tickets_newest:
  "poll_tickets env k repo cursor newest ts db = (db', Some out) \<Longrightarrow>
     (\<forall>m. newest = Some m \<longrightarrow> (\<exists>n. out = Some n \<and> m \<le> n)) \<and>
     (\<forall>t\<in>set ts. \<forall>u. \<not> seen_before cursor t \<longrightarrow> tk_updatedAt t = Some u \<longrightarrow> (\<exists>n. out = Some n \<and> u \<le> n))"
proof (induction ts arbitrary: k newest db)
  case (Cons t ts)
  show ?case
  proof (cases "seen_before cursor t")
    case True
    then show ?thesis using Cons by auto
  next
    case False
    let ?n = "case tk_updatedAt t of None \<Rightarrow> newest
              | Some u \<Rightarrow> Some (max u (case newest of Some m \<Rightarrow> m | None \<Rightarrow> (case cursor of Some c \<Rightarrow> c | None \<Rightarrow> 0)))"
    obtain db1 where "poll_tickets env (Suc k) repo cursor ?n ts db1 = (db', Some out)"
      using Cons.prems False by (auto split: prod.splits option.splits)
    from Cons.IH[OF this] show ?thesis by (fastforce split: option.splits)
  qed
qed simp

lemma advance_reaches: "\<exists>c. po_cursor (advancePollCursor i t cols i) = Some c \<and> t \<le> c"
  by (auto simp: advancePollCursor_def split: option.splits)

lemma pollRepo_covers:
  assumes f: "fresh_from 0 env (ps_db st)" and p: "pollable env repo"
    and cur: "cursor = po_cursor (ps_columns st (rp_id repo))"
    and r: "pollRepo env (Tickets ts) repo cursor st = (st', threw)"
  shows "(threw \<longrightarrow> ps_columns st' = ps_columns st) \<and>
    (\<not> threw \<longrightarrow> (\<forall>t\<in>set ts. seen_before cursor t \<or>
        hasActiveTriggerJob (rp_id repo) (ticket_ref repo t) Src_tracker (ps_db st')) \<and>
      (\<forall>t\<in>set ts. \<forall>u>0. tk_updatedAt t = Some u \<longrightarrow>
        (\<exists>c. po_cursor (ps_columns st' (rp_id repo)) = Some c \<and> u \<le> c)))"
proof -
  obtain db' out where run: "poll_tickets env 0 repo cursor None ts (ps_db st) = (db', out)" by fastforce
  show ?thesis
  proof (cases out)
    case None
    then show ?thesis using r run by (auto simp: pollRepo_def)
  next
    case (Some newest)
    have st': "\<not> threw" "ps_db st' = db'"
      and cols: "ps_columns st' = (case newest of
                      Some m \<Rightarrow> (if (case cursor of Some c \<Rightarrow> c | None \<Rightarrow> 0) < m
                                 then advancePollCursor (rp_id repo) m (ps_columns st) else ps_columns st)
                    | None \<Rightarrow> ps_columns st)"
      using r run Some by (auto simp: pollRepo_def)
    have jobs: "\<forall>t\<in>set ts. seen_before cursor t \<or> hasActiveTriggerJob (rp_id repo) (ticket_ref repo t) Src_tracker db'"
      using poll_tickets_jobs[OF f p run] Some by simp
    have "\<exists>c. po_cursor (ps_columns st' (rp_id repo)) = Some c \<and> u \<le> c"
      if t: "t \<in> set ts" "0 < u" "tk_updatedAt t = Some u" for t u
    proof (cases newest)
      case None
      then have "seen_before cursor t" using poll_tickets_newest[OF run[unfolded Some]] t by auto
      then show ?thesis using None cols cur t(3) by (auto simp: seen_before_def split: option.splits)
    next
      case (Some m)
      have "seen_before cursor t \<or> u \<le> m"
        using poll_tickets_newest[OF run[unfolded \<open>out = Some newest\<close>]] t Some by auto
      then have old: "(\<exists>c. cursor = Some c \<and> u \<le> c) \<or> u \<le> m"
        using t(3) by (auto simp: seen_before_def split: option.splits)
      show ?thesis
      proof (cases "(case cursor of Some c \<Rightarrow> c | None \<Rightarrow> 0) < m")
        case True
        then have "u \<le> m" using old by (auto split: option.splits)
        then show ?thesis using True Some cols advance_reaches[of "rp_id repo" m "ps_columns st"] by fastforce
      next
        case False
        then show ?thesis using old cur t(2) Some cols by (auto split: option.splits)
      qed
    qed
    then show ?thesis using st' jobs by auto
  qed
qed

text \<open>A poll of a repository that throws leaves the cursor where it was; one that does not throw leaves every
  ticket of the listing newer than the cursor with an active job, and the cursor at or after the newest update it saw.\<close>

theorem poll_covers_listing:
  assumes f: "fresh_from 0 env (ps_db st)" and p: "pollable env repo"
    and cur: "cursor = po_cursor (ps_columns st (rp_id repo))"
    and r: "pollRepo env (Tickets ts) repo cursor st = (st', threw)"
  shows "(threw \<longrightarrow> ps_columns st' = ps_columns st) \<and>
    (\<not> threw \<longrightarrow> (\<forall>t\<in>set ts. seen_before cursor t \<or>
        hasActiveTriggerJob (rp_id repo) (ticket_ref repo t) Src_tracker (ps_db st')) \<and>
      (\<forall>t\<in>set ts. \<forall>u>0. tk_updatedAt t = Some u \<longrightarrow>
        (\<exists>c. po_cursor (ps_columns st' (rp_id repo)) = Some c \<and> u \<le> c)))"
  using pollRepo_covers[OF assms] .

text \<open>A ticket that the listing left out (it asks for one page) is dropped for good as soon as the page
  holds one updated no earlier: the cursor moves past it and the next poll takes it for processed.\<close>

theorem poll_page_skips:
  assumes "fresh_from 0 env (ps_db st)" "pollable env repo"
    and "pollRepo env (Tickets ts) repo (po_cursor (ps_columns st (rp_id repo))) st = (st', False)"
    and "t \<in> set ts" "tk_updatedAt t = Some u" "0 < u" "tk_updatedAt missed = Some v" "v \<le> u"
  shows "seen_before (po_cursor (ps_columns st' (rp_id repo))) missed \<and>
    pollRepo env' (Tickets [missed]) repo (po_cursor (ps_columns st' (rp_id repo))) st' = (st', False)"
proof -
  obtain c where "po_cursor (ps_columns st' (rp_id repo)) = Some c" "u \<le> c"
    using pollRepo_covers[OF assms(1,2) refl assms(3)] assms(4-6) by blast
  then show ?thesis using assms(7,8) by (simp add: seen_before_def pollRepo_def)
qed

section \<open>A concrete poll\<close>

definition poll_env_ex :: poll_env where
  "poll_env_ex = \<lparr>pv_backend = Be_docker, pv_now = 50, pv_newId = (\<lambda>k. replicate k CHR ''j''),
     pv_tokenHash = (\<lambda>_. ''h'')\<rparr>"

definition poll_state_ex :: poll_state where
  "poll_state_ex = \<lparr>ps_db = empty_db\<lparr>db_repos := [example_repo]\<rparr>,
     ps_columns = (\<lambda>_. \<lparr>po_intervalS = 300, po_cursor = Some 5\<rparr>), ps_lastPolledAt = (\<lambda>_. None)\<rparr>"

definition poll_ticket_ex :: "int \<Rightarrow> int \<Rightarrow> dated_ticket" where
  "poll_ticket_ex n u = \<lparr>tk_number = n, tk_title = ''t'', tk_body = ''b'', tk_labels = [], tk_htmlUrl = ''u'',
     tk_authorLogin = [], tk_updatedAt = Some u\<rparr>"

lemma poll_ex_fresh: "fresh_from 0 poll_env_ex (ps_db poll_state_ex)" "pollable poll_env_ex example_repo"
  by (auto simp: fresh_from_def poll_env_ex_def poll_state_ex_def empty_db_def pollable_def example_repo_def inj_def
      dest: arg_cong[where f = length])

lemma poll_ex_returns:
  "snd (pollRepo poll_env_ex (Tickets [poll_ticket_ex 7 10]) example_repo (Some 5) poll_state_ex) = False"
  by (simp add: pollRepo_def poll_ticket_def createTriggerJob_def trigger_insert_def structural_refusal_def
      ticket_input_def trigger_new_job_def createJob_tracker Let_def getJob_def getRepo_def hasActiveTriggerJob_def seen_before_def
      poll_env_ex_def poll_state_ex_def poll_ticket_ex_def empty_db_def example_repo_def)

theorem poll_covers_listing_witness:
  "hasActiveTriggerJob ''r1'' (ticket_ref example_repo (poll_ticket_ex 7 10)) Src_tracker
     (ps_db (fst (pollRepo poll_env_ex (Tickets [poll_ticket_ex 7 10]) example_repo (Some 5) poll_state_ex)))"
  using poll_covers_listing[OF poll_ex_fresh, of "Some 5" "[poll_ticket_ex 7 10]"
      "fst (pollRepo poll_env_ex (Tickets [poll_ticket_ex 7 10]) example_repo (Some 5) poll_state_ex)" False]
    poll_ex_returns
  by (simp add: prod_eq_iff) (simp add: poll_state_ex_def poll_ticket_ex_def seen_before_def example_repo_def)

theorem poll_page_skips_witness:
  "\<exists>(st' :: poll_state). pollRepo poll_env_ex (Tickets [poll_ticket_ex 8 9]) example_repo
      (po_cursor (ps_columns st' (rp_id example_repo))) st' = (st', False)"
  using poll_page_skips[OF poll_ex_fresh, of "[poll_ticket_ex 7 10]"
      "fst (pollRepo poll_env_ex (Tickets [poll_ticket_ex 7 10]) example_repo (Some 5) poll_state_ex)"
      "poll_ticket_ex 7 10" 10 "poll_ticket_ex 8 9" 9 poll_env_ex]
    poll_ex_returns
  by (intro exI[of _ "fst (pollRepo poll_env_ex (Tickets [poll_ticket_ex 7 10]) example_repo (Some 5) poll_state_ex)"])
    (simp add: prod_eq_iff poll_ticket_ex_def poll_state_ex_def)

end
