(* ===== verification/AdminRepos.thy ===== *)
theory AdminRepos
  imports AdminJobs
begin

text \<open>
  Registered repositories: the store (\<open>devRepoStore.ts\<close>, with the cascade of migration 0022) and the
  onboarding, device-flow and issues routes (\<open>routes/devPlatformRepos.ts\<close>).  A patch holds the fields the
  caller named.
\<close>

section \<open>The store\<close>

record new_dev_repo =
  nr_forgeKind :: "string option"
  nr_owner :: string
  nr_name :: string
  nr_cloneUrl :: string
  nr_defaultBranch :: "string option"
  nr_credentialKind :: dev_repo_credential_kind
  nr_credentialRef :: string
  nr_trackerKind :: "string option"
  nr_trackerConfig :: "json option"
  nr_allowedTriggers :: "string list option"
  nr_allowedLaunchers :: "string list option"
  nr_egressAllowlist :: "string list option"
  nr_runsTests :: "bool option"
  nr_createdBy :: string

definition or_default :: "'a option \<Rightarrow> 'a \<Rightarrow> 'a" where
  "or_default v d = (case v of None \<Rightarrow> d | Some x \<Rightarrow> x)"

definition new_repo_row :: "int \<Rightarrow> string \<Rightarrow> new_dev_repo \<Rightarrow> dev_repo" where
  "new_repo_row now newId i =
     \<lparr>rp_id = newId, rp_forgeKind = or_default (nr_forgeKind i) ''github'', rp_owner = nr_owner i,
      rp_name = nr_name i, rp_cloneUrl = nr_cloneUrl i, rp_defaultBranch = or_default (nr_defaultBranch i) ''main'',
      rp_credentialKind = nr_credentialKind i, rp_credentialRef = nr_credentialRef i,
      rp_trackerKind = nr_trackerKind i, rp_trackerConfig = or_default (nr_trackerConfig i) (JObj []),
      rp_allowedTriggers = or_default (nr_allowedTriggers i) [''admin''],
      rp_allowedLaunchers = or_default (nr_allowedLaunchers i) [],
      rp_egressAllowlist = or_default (nr_egressAllowlist i) [], rp_runsTests = or_default (nr_runsTests i) True,
      rp_branchProtectionOk = None, rp_branchProtectionCheckedAt = None, rp_approverRoleKey = None,
      rp_gateDeadlineIso = ''P7D'', rp_bootstrapCommand = None, rp_testCommand = None,
      rp_policyOverrides = \<lparr>ov_maxFiles = None, ov_maxAddedLines = None, ov_extraProtectedGlobs = None,
                            ov_unprotectedGlobs = None\<rparr>,
      rp_triggerLabel = ''omadia-dev'', rp_webhookEnabled = True, rp_webhookSenders = [],
      rp_budgetCostUsd = None, rp_budgetTokens = None, rp_dockerInJob = False, rp_createdBy = nr_createdBy i,
      rp_createdAt = now, rp_updatedAt = now\<rparr>"

definition repo_slot :: "dev_repo \<Rightarrow> string \<times> string \<times> string" where
  "repo_slot r = (rp_forgeKind r, rp_owner r, rp_name r)"

definition createRepo :: "int \<Rightarrow> string \<Rightarrow> new_dev_repo \<Rightarrow> dev_db \<Rightarrow> dev_db \<times> (store_error + dev_repo)" where
  "createRepo now newId i db =
     (let r = new_repo_row now newId i in
      if getRepo newId db \<noteq> None then (db, Inl (Unique_violation ''dev_repos_pkey''))
      else if list_ex (\<lambda>q. repo_slot q = repo_slot r) (db_repos db)
      then (db, Inl (Unique_violation ''dev_repos_forge_kind_owner_name_key''))
      else (db\<lparr>db_repos := db_repos db @ [r]\<rparr>, Inr r))"

record repo_patch =
  pt_forgeKind :: "string option"
  pt_owner :: "string option"
  pt_name :: "string option"
  pt_cloneUrl :: "string option"
  pt_defaultBranch :: "string option"
  pt_credentialKind :: "dev_repo_credential_kind option"
  pt_credentialRef :: "string option"
  pt_trackerKind :: "string option option"
  pt_trackerConfig :: "json option"
  pt_allowedTriggers :: "string list option"
  pt_allowedLaunchers :: "string list option"
  pt_egressAllowlist :: "string list option"
  pt_runsTests :: "bool option"
  pt_policyOverrides :: "diff_policy_overrides option"
  pt_triggerLabel :: "string option"
  pt_webhookEnabled :: "bool option"
  pt_webhookSenders :: "string list option"
  pt_budgetCostUsd :: "rat option option"

definition no_repo_patch :: repo_patch where
  "no_repo_patch =
     \<lparr>pt_forgeKind = None, pt_owner = None, pt_name = None, pt_cloneUrl = None, pt_defaultBranch = None,
      pt_credentialKind = None, pt_credentialRef = None, pt_trackerKind = None, pt_trackerConfig = None,
      pt_allowedTriggers = None, pt_allowedLaunchers = None, pt_egressAllowlist = None, pt_runsTests = None,
      pt_policyOverrides = None, pt_triggerLabel = None, pt_webhookEnabled = None, pt_webhookSenders = None,
      pt_budgetCostUsd = None\<rparr>"

definition patch_row :: "int \<Rightarrow> repo_patch \<Rightarrow> dev_repo \<Rightarrow> dev_repo" where
  "patch_row now p r =
     r\<lparr>rp_forgeKind := or_default (pt_forgeKind p) (rp_forgeKind r), rp_owner := or_default (pt_owner p) (rp_owner r),
       rp_name := or_default (pt_name p) (rp_name r), rp_cloneUrl := or_default (pt_cloneUrl p) (rp_cloneUrl r),
       rp_defaultBranch := or_default (pt_defaultBranch p) (rp_defaultBranch r),
       rp_credentialKind := or_default (pt_credentialKind p) (rp_credentialKind r),
       rp_credentialRef := or_default (pt_credentialRef p) (rp_credentialRef r),
       rp_trackerKind := or_default (pt_trackerKind p) (rp_trackerKind r),
       rp_trackerConfig := or_default (pt_trackerConfig p) (rp_trackerConfig r),
       rp_allowedTriggers := or_default (pt_allowedTriggers p) (rp_allowedTriggers r),
       rp_allowedLaunchers := or_default (pt_allowedLaunchers p) (rp_allowedLaunchers r),
       rp_egressAllowlist := or_default (pt_egressAllowlist p) (rp_egressAllowlist r),
       rp_runsTests := or_default (pt_runsTests p) (rp_runsTests r),
       rp_policyOverrides := or_default (pt_policyOverrides p) (rp_policyOverrides r),
       rp_triggerLabel := or_default (pt_triggerLabel p) (rp_triggerLabel r),
       rp_webhookEnabled := or_default (pt_webhookEnabled p) (rp_webhookEnabled r),
       rp_webhookSenders := or_default (pt_webhookSenders p) (rp_webhookSenders r),
       rp_budgetCostUsd := or_default (pt_budgetCostUsd p) (rp_budgetCostUsd r),
       rp_updatedAt := now\<rparr>"

definition update_repo_rows :: "string \<Rightarrow> (dev_repo \<Rightarrow> dev_repo) \<Rightarrow> dev_db \<Rightarrow> dev_db \<times> dev_repo option" where
  "update_repo_rows repoId f db =
     (let (rows, hits) = sql_update (\<lambda>r. rp_id r = repoId) f (db_repos db)
      in (db\<lparr>db_repos := rows\<rparr>, case hits of [] \<Rightarrow> None | r # _ \<Rightarrow> Some r))"

definition slot_conflict :: "string \<Rightarrow> (dev_repo \<Rightarrow> dev_repo) \<Rightarrow> dev_db \<Rightarrow> bool" where
  "slot_conflict repoId f db \<longleftrightarrow>
     (case getRepo repoId db of None \<Rightarrow> False
      | Some r \<Rightarrow> list_ex (\<lambda>q. rp_id q \<noteq> repoId \<and> repo_slot q = repo_slot (f r)) (db_repos db))"

definition updateRepo :: "int \<Rightarrow> string \<Rightarrow> repo_patch \<Rightarrow> dev_db \<Rightarrow> dev_db \<times> (store_error + dev_repo option)" where
  "updateRepo now repoId p db =
     (if p = no_repo_patch then (db, Inr (getRepo repoId db))
      else if slot_conflict repoId (patch_row now p) db
      then (db, Inl (Unique_violation ''dev_repos_forge_kind_owner_name_key''))
      else (case update_repo_rows repoId (patch_row now p) db of (db', r) \<Rightarrow> (db', Inr r)))"

definition setBranchProtection :: "int \<Rightarrow> string \<Rightarrow> bool option \<Rightarrow> dev_db \<Rightarrow> dev_db \<times> dev_repo option" where
  "setBranchProtection now repoId ok db =
     update_repo_rows repoId
       (\<lambda>r. r\<lparr>rp_branchProtectionOk := ok, rp_branchProtectionCheckedAt := Some now, rp_updatedAt := now\<rparr>) db"

text \<open>The jobs of a repository go with it (\<open>ON DELETE CASCADE\<close>), and with them their events, artifacts
  and gates.\<close>

definition deleteRepo :: "string \<Rightarrow> dev_db \<Rightarrow> dev_db \<times> bool" where
  "deleteRepo repoId db =
     ((cascade_delete (\<lambda>j. j_repoId j = repoId) db)
        \<lparr>db_repos := filter (\<lambda>r. rp_id r \<noteq> repoId) (db_repos db)\<rparr>, getRepo repoId db \<noteq> None)"

section \<open>Request fields\<close>

definition asStringArray :: "json option \<Rightarrow> string list option" where
  "asStringArray v =
     (case v of Some (JArr xs) \<Rightarrow> Some (concat (map (\<lambda>x. case x of JStr s \<Rightarrow> [s] | _ \<Rightarrow> []) xs)) | _ \<Rightarrow> None)"

definition bool_field :: "string \<Rightarrow> json \<Rightarrow> bool option" where
  "bool_field k body = (case json_field k body of Some (JBool b) \<Rightarrow> Some b | _ \<Rightarrow> None)"

text \<open>\<open>to_number\<close> is JavaScript's conversion of a string to a number, \<open>None\<close> for NaN and the infinities.
  An array converts as the string of its elements joined by commas.\<close>

fun number_of :: "(string \<Rightarrow> rat option) \<Rightarrow> json \<Rightarrow> rat option" where
  "number_of to_number (JNum q) = Some q"
| "number_of to_number (JBool b) = Some (if b then 1 else 0)"
| "number_of to_number JNull = Some 0"
| "number_of to_number (JStr s) = to_number s"
| "number_of to_number (JArr []) = Some 0"
| "number_of to_number (JArr [JBool b]) = None"
| "number_of to_number (JArr [x]) = number_of to_number x"
| "number_of to_number (JArr (x # y # zs)) = None"
| "number_of to_number (JObj kvs) = None"

definition parseNullableBudget :: "(string \<Rightarrow> rat option) \<Rightarrow> json option \<Rightarrow> admin_error + rat option" where
  "parseNullableBudget to_number v =
     (case v of None \<Rightarrow> Inr None | Some JNull \<Rightarrow> Inr None
      | Some x \<Rightarrow>
          if (case x of JStr s \<Rightarrow> trim s = [] | _ \<Rightarrow> False) then Inr None
          else (case number_of to_number x of
                  None \<Rightarrow> Inl (DevPlatformError 400 ''devplatform.invalid_budget'')
                | Some q \<Rightarrow> if q \<le> 0 then Inl (DevPlatformError 400 ''devplatform.invalid_budget'') else Inr (Some q)))"

definition clampLimit :: "json option \<Rightarrow> int \<Rightarrow> int" where
  "clampLimit v fallback =
     (let clamp = (\<lambda>n. max 1 (min 100 n)) in
      case v of Some (JStr s) \<Rightarrow> (case parseInt s of None \<Rightarrow> fallback | Some n \<Rightarrow> clamp n)
      | Some (JNum q) \<Rightarrow> clamp (if 0 \<le> q then \<lfloor>q\<rfloor> else \<lceil>q\<rceil>)
      | _ \<Rightarrow> fallback)"

section \<open>Routes on repositories\<close>

definition DEFAULT_ISSUES_LIMIT :: int where "DEFAULT_ISSUES_LIMIT = 30"

datatype repo_reply =
    Repo_list "dev_repo_view list"
  | Repo_created dev_repo_view
  | Repo_reply dev_repo_view
  | Repo_deleted
  | Check_reply bool "bool option"
  | Issues_reply "(int \<times> string \<times> string list \<times> string \<times> string) list"
  | Device_started device_code
  | Poll_reply string "string option" "rat option"

definition view_of :: "admin_state \<Rightarrow> dev_repo \<Rightarrow> dev_repo_view" where
  "view_of s repo = toRepoView repo (getConnection (rp_id repo) (as_vault s))"

definition loadRepo :: "string \<Rightarrow> dev_db \<Rightarrow> admin_error + dev_repo" where
  "loadRepo repoId db =
     (if repoId = [] then Inl (DevPlatformError 400 ''devplatform.invalid_id'')
      else found (DevPlatformError 404 ''devplatform.repo_not_found'') (getRepo repoId db))"

definition get_repos :: "session_claims option \<Rightarrow> admin_state \<Rightarrow> admin_error + repo_reply" where
  "get_repos sess s = map_sum id (\<lambda>_. Repo_list (map (view_of s) (list_repos (as_db s)))) (requireCaller sess)"

definition get_repo :: "session_claims option \<Rightarrow> string \<Rightarrow> admin_state \<Rightarrow> admin_error + repo_reply" where
  "get_repo sess repoId s =
     (case requireCaller sess of Inl e \<Rightarrow> Inl e
      | Inr _ \<Rightarrow> map_sum id (\<lambda>r. Repo_reply (view_of s r)) (loadRepo repoId (as_db s)))"

text \<open>The token the access probe runs with.\<close>

definition onboarding_token :: "json option \<Rightarrow> string \<Rightarrow> vault \<Rightarrow> admin_error + token_kind \<times> string" where
  "onboarding_token cred sub v =
     (let obj = or_default cred (JObj []) in
      case asTokenKind (string_field ''kind'' obj) of
        None \<Rightarrow> Inl (DevPlatformError 400 ''devplatform.invalid_credential'')
      | Some Tk_device_flow \<Rightarrow>
          map_sum id (Pair Tk_device_flow)
            (found (DevPlatformError 400 ''devplatform.no_pending_device_flow'') (non_empty (resolvePending sub v)))
      | Some Tk_pat \<Rightarrow>
          (let t = asString (json_field ''token'' obj) in
           if t = [] then Inl (DevPlatformError 400 ''devplatform.invalid_credential'') else Inr (Tk_pat, t)))"

definition repo_of_request :: "admin_env \<Rightarrow> json \<Rightarrow> string \<Rightarrow> string \<Rightarrow> token_kind \<Rightarrow> repo_access \<Rightarrow> string
    \<Rightarrow> new_dev_repo" where
  "repo_of_request env body owner name kind access sub =
     (let tracker = asString (json_field ''trackerKind'' body) in
     \<lparr>nr_forgeKind = None, nr_owner = owner, nr_name = name, nr_cloneUrl = ae_cloneUrlFor env owner name,
      nr_defaultBranch = Some (if ra_defaultBranch access = [] then ''main'' else ra_defaultBranch access),
      nr_credentialKind = token_credential_kind kind, nr_credentialRef = ''repo/pending'',
      nr_trackerKind = (if tracker = [] then None else Some tracker), nr_trackerConfig = None,
      nr_allowedTriggers = None, nr_allowedLaunchers = asStringArray (json_field ''allowedLaunchers'' body),
      nr_egressAllowlist = None, nr_runsTests = bool_field ''runsTests'' body, nr_createdBy = sub\<rparr>)"

definition store_token :: "token_kind \<Rightarrow> string \<Rightarrow> string \<Rightarrow> string \<Rightarrow> string option \<Rightarrow> vault \<Rightarrow> vault" where
  "store_token kind sub repoId token login v =
     (case kind of Tk_device_flow \<Rightarrow> fst (promotePending sub repoId login v)
      | Tk_pat \<Rightarrow> save_credential repoId token Tk_pat login v)"

definition record_protection :: "admin_env \<Rightarrow> int \<Rightarrow> dev_repo \<Rightarrow> vault \<Rightarrow> dev_db \<Rightarrow> dev_db" where
  "record_protection env now r v db =
     (case non_empty (resolve_credential (rp_id r) v) of None \<Rightarrow> db
      | Some token \<Rightarrow>
          fst (setBranchProtection now (rp_id r)
                 (case checkBranchProtection (ae_protection env (rp_owner r) (rp_name r) (rp_defaultBranch r) token) of
                    None \<Rightarrow> None | Some ok \<Rightarrow> ok) db))"

definition post_repo :: "admin_env \<Rightarrow> int \<Rightarrow> session_claims option \<Rightarrow> json \<Rightarrow> admin_state
    \<Rightarrow> admin_state \<times> (admin_error + repo_reply)" where
  "post_repo env now sess body s =
     attempt s (requireCaller sess) (\<lambda>caller.
     (let owner = asString (json_field ''owner'' body); name = asString (json_field ''name'' body) in
      if owner = [] \<or> name = [] then (s, Inl (DevPlatformError 400 ''devplatform.invalid_repo''))
      else attempt s (onboarding_token (json_field ''credential'' body) (cl_sub caller) (as_vault s)) (\<lambda>(kind, token).
           attempt s (found Internal_error (ae_probe env owner name token)) (\<lambda>access.
      if \<not> ra_ok access then (s, Inl (DevPlatformError 400 ''devplatform.repo_access_failed''))
      else (case createRepo now (we_newId env (as_db s)) (repo_of_request env body owner name kind access (cl_sub caller))
                   (as_db s) of
              (db, Inl e) \<Rightarrow> (s, Inl Internal_error)
            | (db, Inr r) \<Rightarrow>
                (let db1 = fst (updateRepo now (rp_id r)
                                  (no_repo_patch\<lparr>pt_credentialRef := Some (''repo/'' @ rp_id r)\<rparr>) db);
                     v = store_token kind (cl_sub caller) (rp_id r) token (ra_login access) (as_vault s);
                     db2 = record_protection env now r v db1;
                     s' = with_admin_db db2 (s\<lparr>as_vault := v\<rparr>)
                 in (s', Inr (Repo_created (view_of s' (or_default (getRepo (rp_id r) db2) r))))))))))"

definition patch_of_body :: "(string \<Rightarrow> rat option) \<Rightarrow> json \<Rightarrow> admin_error + repo_patch" where
  "patch_of_body to_number body =
     (let branch = trim (or_default (string_field ''defaultBranch'' body) []);
          tracker = asString (json_field ''trackerKind'' body);
          p = no_repo_patch
                \<lparr>pt_trackerKind := (if json_field ''trackerKind'' body = None then None
                                    else Some (if tracker = [] then None else Some tracker)),
                 pt_runsTests := bool_field ''runsTests'' body,
                 pt_allowedLaunchers := asStringArray (json_field ''allowedLaunchers'' body),
                 pt_allowedTriggers := asStringArray (json_field ''allowedTriggers'' body),
                 pt_defaultBranch := (if branch = [] then None else Some branch),
                 pt_webhookEnabled := bool_field ''webhookEnabled'' body\<rparr>
      in if json_field ''budgetCostUsd'' body = None then Inr p
         else map_sum id (\<lambda>b. p\<lparr>pt_budgetCostUsd := Some b\<rparr>)
                (parseNullableBudget to_number (json_field ''budgetCostUsd'' body)))"

definition patch_repo :: "(string \<Rightarrow> rat option) \<Rightarrow> int \<Rightarrow> session_claims option \<Rightarrow> string \<Rightarrow> json \<Rightarrow> admin_state
    \<Rightarrow> admin_state \<times> (admin_error + repo_reply)" where
  "patch_repo to_number now sess repoId body s =
     attempt s (requireCaller sess) (\<lambda>_.
     attempt s (loadRepo repoId (as_db s)) (\<lambda>repo.
     attempt s (patch_of_body to_number body) (\<lambda>p.
     (case updateRepo now (rp_id repo) p (as_db s) of
        (db, Inl e) \<Rightarrow> (s, Inl Internal_error)
      | (db, Inr r) \<Rightarrow> (let s' = with_admin_db db s in (s', Inr (Repo_reply (view_of s' (or_default r repo)))))))))"

definition delete_repo :: "session_claims option \<Rightarrow> string \<Rightarrow> admin_state
    \<Rightarrow> admin_state \<times> (admin_error + repo_reply)" where
  "delete_repo sess repoId s =
     attempt s (requireCaller sess) (\<lambda>_.
     attempt s (loadRepo repoId (as_db s)) (\<lambda>repo.
     (with_admin_db (fst (deleteRepo repoId (as_db s))) (s\<lparr>as_vault := clear_credential repoId (as_vault s)\<rparr>),
      Inr Repo_deleted)))"

definition check_repo :: "admin_env \<Rightarrow> int \<Rightarrow> session_claims option \<Rightarrow> string \<Rightarrow> admin_state
    \<Rightarrow> admin_state \<times> (admin_error + repo_reply)" where
  "check_repo env now sess repoId s =
     attempt s (requireCaller sess) (\<lambda>_.
     attempt s (loadRepo repoId (as_db s)) (\<lambda>repo.
     (case non_empty (resolve_credential (rp_id repo) (as_vault s)) of
        None \<Rightarrow> (s, Inr (Check_reply False None))
      | Some token \<Rightarrow>
          attempt s (found Internal_error (ae_probe env (rp_owner repo) (rp_name repo) token)) (\<lambda>access.
          if \<not> ra_ok access then (s, Inr (Check_reply False None))
          else (case checkBranchProtection (ae_protection env (rp_owner repo) (rp_name repo) (rp_defaultBranch repo) token) of
                  None \<Rightarrow> (s, Inl Internal_error)
                | Some ok \<Rightarrow> (with_admin_db (fst (setBranchProtection now (rp_id repo) ok (as_db s))) s,
                             Inr (Check_reply True ok)))))))"

definition get_issues :: "admin_env \<Rightarrow> session_claims option \<Rightarrow> string \<Rightarrow> json \<Rightarrow> admin_state
    \<Rightarrow> admin_error + repo_reply" where
  "get_issues env sess repoId query s =
     (case requireCaller sess of Inl e \<Rightarrow> Inl e
      | Inr _ \<Rightarrow> (case loadRepo repoId (as_db s) of Inl e \<Rightarrow> Inl e
      | Inr repo \<Rightarrow>
          (case non_empty (resolve_credential (rp_id repo) (as_vault s)) of
             None \<Rightarrow> Inl (DevPlatformError 409 ''devplatform.repo_not_connected'')
           | Some token \<Rightarrow>
               map_sum id (\<lambda>ts. Issues_reply (map (\<lambda>t. (tk_number t, tk_title t, tk_labels t, tk_htmlUrl t, tk_authorLogin t)) ts))
                 (found Internal_error (ae_listOpenTickets env (rp_owner repo) (rp_name repo) token
                    (clampLimit (json_field ''limit'' query) DEFAULT_ISSUES_LIMIT))))))"

section \<open>The device flow\<close>

definition DEFAULT_DEVICE_SCOPES :: "string list" where "DEFAULT_DEVICE_SCOPES = [''repo'']"

text \<open>The reply leaves the device code out.\<close>

definition connect_start :: "admin_env \<Rightarrow> rat \<Rightarrow> session_claims option \<Rightarrow> admin_state
    \<Rightarrow> admin_state \<times> (admin_error + repo_reply)" where
  "connect_start env now sess s =
     attempt s (requireCaller sess) (\<lambda>caller.
     attempt s (found (DevPlatformError 503 ''devplatform.device_flow_unconfigured'') (ae_deviceFlow env)) (\<lambda>(dv, scopes).
     attempt s (found Internal_error (dv_requestDeviceCode dv (or_default scopes DEFAULT_DEVICE_SCOPES))) (\<lambda>dc.
     (s\<lparr>as_flows := flow_start now (cl_sub caller) (dc_deviceCode dc) (dc_interval dc) (dc_expiresIn dc) (as_flows s)\<rparr>,
      Inr (Device_started (dc\<lparr>dc_deviceCode := []\<rparr>))))))"

definition settle_poll :: "device_provider \<Rightarrow> string \<Rightarrow> device_poll \<Rightarrow> admin_state \<Rightarrow> admin_state \<times> repo_reply" where
  "settle_poll dv sub result s =
     (let dropped = s\<lparr>as_flows := flow_delete sub (as_flows s)\<rparr> in
      case result of
        Poll_authorized token \<Rightarrow>
          (dropped\<lparr>as_vault := stashPending sub token (as_vault s)\<rparr>,
           Poll_reply ''authorized'' (non_empty (dv_fetchUserLogin dv token)) None)
      | Poll_slow_down i \<Rightarrow> (s\<lparr>as_flows := bumpInterval sub i (as_flows s)\<rparr>, Poll_reply ''pending'' None (Some i))
      | Poll_pending \<Rightarrow> (s, Poll_reply ''pending'' None None)
      | Poll_expired \<Rightarrow> (dropped, Poll_reply ''expired'' None None)
      | Poll_denied \<Rightarrow> (dropped, Poll_reply ''denied'' None None)
      | Poll_error \<Rightarrow> (s, Poll_reply ''error'' None None))"

definition connect_poll :: "admin_env \<Rightarrow> rat \<Rightarrow> session_claims option \<Rightarrow> admin_state
    \<Rightarrow> admin_state \<times> (admin_error + repo_reply)" where
  "connect_poll env now sess s =
     attempt s (requireCaller sess) (\<lambda>caller.
     attempt s (found (DevPlatformError 503 ''devplatform.device_flow_unconfigured'') (ae_deviceFlow env)) (\<lambda>(dv, scopes).
     (case flow_get now (cl_sub caller) (as_flows s) of
        (fs, None) \<Rightarrow> (s\<lparr>as_flows := fs\<rparr>, Inr (Poll_reply ''expired'' None None))
      | (fs, Some flow) \<Rightarrow>
          if isTooSoon now (cl_sub caller) fs then (s\<lparr>as_flows := fs\<rparr>, Inr (Poll_reply ''pending'' None None))
          else (let s1 = s\<lparr>as_flows := markPolled now (cl_sub caller) fs\<rparr> in
                attempt s1 (found Internal_error (dv_pollAccessToken dv (dfl_deviceCode flow))) (\<lambda>result.
                (case settle_poll dv (cl_sub caller) result s1 of (s2, r) \<Rightarrow> (s2, Inr r)))))))"

end
