(* ===== verification/AdminSound.thy ===== *)
theory AdminSound
  imports AdminRepos WorkerSound
begin

text \<open>
  What the administration API promises and what it does not: an outsider learns nothing of a job through
  the guarded routes, though the retry route answers differently; a created job was permitted and
  admissible; a resumed retry carries the context of the job it re-runs; the untrusted ticket text cannot
  close its block; and the repository routes, which ask for a session only, hand out the launcher right
  and drop live jobs.
\<close>

section \<open>Jobs and their repositories\<close>

definition repos_distinct :: "dev_db \<Rightarrow> bool" where
  "repos_distinct db \<longleftrightarrow> distinct (map rp_id (db_repos db))"

lemma repo_get: "\<lbrakk>repos_distinct db; r \<in> set (db_repos db)\<rbrakk> \<Longrightarrow> getRepo (rp_id r) db = Some r"
  unfolding repos_distinct_def getRepo_def by (rule find_row_in_set)

lemma repo_self: "getRepo i db = Some r \<Longrightarrow> getRepo (rp_id r) db = Some r"
  using find_row_SomeD[of rp_id i "db_repos db" r] by (simp add: getRepo_def)

lemma job_get: "\<lbrakk>ids_distinct db; j \<in> set (db_jobs db)\<rbrakk> \<Longrightarrow> getJob (j_id j) db = Some j"
  unfolding ids_distinct_def getJob_def by (rule find_row_in_set)

lemma listed_in: "j \<in> set (listJobs f db) \<Longrightarrow> j \<in> set (db_jobs db)"
  by (auto simp: listJobs_def dest!: in_set_takeD split: if_splits)


text \<open>The retry route is an oracle: an outsider's retry tells a job that does not exist, one that is still
  active and one that has ended apart, where the guarded routes answer the same in all three cases.\<close>

theorem retry_tells_jobs_apart:
  assumes "requireCaller sess = Inr caller" "jobId \<noteq> []" "getJob jobId (as_db s) = Some j"
    and "getRepo (j_repoId j) (as_db s) = Some r" "\<not> isPermittedLauncher r caller"
  shows "snd (retry_route env clock sess jobId q s) =
    Inl (if isTerminalDevJobStatus (j_status j) then DevPlatformError 403 ''devplatform.not_launcher''
         else DevPlatformError 409 ''devplatform.retry_not_allowed'') \<and>
    (missing \<noteq> [] \<and> getJob missing (as_db s) = None \<longrightarrow>
      snd (retry_route env clock sess missing q s) = Inl (DevPlatformError 404 ''devplatform.job_not_found''))"
  using assms by (simp add: retry_route_def loadJob_def)

section \<open>Creating a job\<close>

lemma attempt_error:
  assumes "attempt s r f = (s', Inl e)" "\<And>x. \<lbrakk>r = Inr x; f x = (s', Inl e)\<rbrakk> \<Longrightarrow> s' = s"
  shows "s' = s"
  using assms by (cases r) simp_all

lemma attempt_ok:
  assumes "attempt s r f = (s', Inr v)"
  obtains x where "r = Inr x" "f x = (s', Inr v)"
  using assms by (cases r) simp_all

lemma passes_ok [simp]: "passes e = Inr x \<longleftrightarrow> e = None"
  by (cases e) simp_all

lemma found_ok [simp]: "found err v = Inr x \<longleftrightarrow> v = Some x"
  by (cases v) simp_all

lemma with_same_db [simp]: "with_admin_db (as_db s) s = s"
  by (simp add: with_admin_db_def)

lemma insert_job_error: "insert_job env now input s = (s', Inl e) \<Longrightarrow> s' = s"
  by (auto simp: insert_job_def createJob_def Let_def split: if_splits)

lemma insert_job_cases:
  assumes "insert_job env now input s = (s', r)" "getRepo (n_repoId input) (as_db s) \<noteq> None"
  obtains e where "r = Inl e" "s' = s"
    | "r = Inr (new_job_row now (we_newId env (as_db s)) (ae_mintHash env (as_db s)) input)"
      "db_jobs (as_db s') = db_jobs (as_db s) @
         [new_job_row now (we_newId env (as_db s)) (ae_mintHash env (as_db s)) input]"
      "db_artifacts (as_db s') = db_artifacts (as_db s)" "db_repos (as_db s') = db_repos (as_db s)"
      "getJob (we_newId env (as_db s)) (as_db s) = None" "as_vault s' = as_vault s"
  using assms by (auto simp: insert_job_def createJob_def with_admin_db_def Let_def split: if_splits)

text \<open>A job is created only for a permitted launcher and only where the admission guards pass, as a queued
  admin job of the analyze phase in the caller's name; a refused request changes nothing.\<close>

theorem created_job_admitted:
  assumes "post_job env now sess body s = (s', r)"
  shows "(\<forall>e. r = Inl e \<longrightarrow> s' = s) \<and>
    (\<forall>v. r = Inr v \<longrightarrow>
      (\<exists>caller repo j. requireCaller sess = Inr caller \<and>
         getRepo (asString (json_field ''repoId'' body)) (as_db s) = Some repo \<and> isPermittedLauncher repo caller \<and>
         assertLocalBackendAdmissible (j_backend j) Src_admin (rp_runsTests repo) = None \<and>
         assertAuthModeAdmissible_route (j_authMode j) Src_admin (j_backend j) (rp_runsTests repo)
           (we_subscriptionModeEnabled env) = None \<and>
         db_jobs (as_db s') = db_jobs (as_db s) @ [j] \<and> v = Job_created (toJobView j) \<and>
         j_repoId j = rp_id repo \<and> j_status j = St_queued \<and> j_phase j = Ph_analyze \<and> j_source j = Src_admin \<and>
         j_createdBy j = cl_sub caller \<and> j_runnerTokenHash j = Some (ae_mintHash env (as_db s))))"
proof -
  have ins: "(\<forall>e. r' = Inl e \<longrightarrow> t' = s) \<and> (\<forall>j. r' = Inr j \<longrightarrow> db_jobs (as_db t') = db_jobs (as_db s) @ [j] \<and>
      j = new_job_row now (we_newId env (as_db s)) (ae_mintHash env (as_db s)) input)"
    if "insert_job env now input s = (t', r')" "getRepo (n_repoId input) (as_db s) \<noteq> None" for input t' r'
    using insert_job_cases[OF that] by (metis Inr_inject sum.distinct(1))
  show ?thesis
  proof (intro conjI allI impI)
    fix e assume "r = Inl e"
    with assms have "post_job env now sess body s = (s', Inl e)" by simp
    then show "s' = s"
      unfolding post_job_def Let_def
      by (auto elim!: attempt_error split: if_splits prod.splits sum.splits) (rule insert_job_error, assumption)
  next
    fix v assume "r = Inr v"
    with assms have "post_job env now sess body s = (s', Inr v)" by simp
    then obtain caller kind backend mode repo brief ref j where c:
      "requireCaller sess = Inr caller" "getRepo (asString (json_field ''repoId'' body)) (as_db s) = Some repo"
      "isPermittedLauncher repo caller" "assertLocalBackendAdmissible backend Src_admin (rp_runsTests repo) = None"
      "assertAuthModeAdmissible_route mode Src_admin backend (rp_runsTests repo) (we_subscriptionModeEnabled env) = None"
      "insert_job env now (new_job_input repo kind brief ref backend mode (cl_sub caller) None) s = (s', Inr j)"
      "v = Job_created (toJobView j)"
      unfolding post_job_def Let_def
      by (auto elim!: attempt_ok split: if_splits prod.splits sum.splits)
    then have "getRepo (n_repoId (new_job_input repo kind brief ref backend mode (cl_sub caller) None)) (as_db s) \<noteq> None"
      using repo_self[OF c(2)] by (simp add: new_job_input_def)
    from ins[OF c(6) this] c show "\<exists>caller repo j. requireCaller sess = Inr caller \<and>
         getRepo (asString (json_field ''repoId'' body)) (as_db s) = Some repo \<and> isPermittedLauncher repo caller \<and>
         assertLocalBackendAdmissible (j_backend j) Src_admin (rp_runsTests repo) = None \<and>
         assertAuthModeAdmissible_route (j_authMode j) Src_admin (j_backend j) (rp_runsTests repo)
           (we_subscriptionModeEnabled env) = None \<and>
         db_jobs (as_db s') = db_jobs (as_db s) @ [j] \<and> v = Job_created (toJobView j) \<and>
         j_repoId j = rp_id repo \<and> j_status j = St_queued \<and> j_phase j = Ph_analyze \<and> j_source j = Src_admin \<and>
         j_createdBy j = cl_sub caller \<and> j_runnerTokenHash j = Some (ae_mintHash env (as_db s))"
      by (intro exI[of _ caller] exI[of _ repo] exI[of _ j]) (simp add: new_job_row_def new_job_input_def)
  qed
qed


section \<open>The launcher right is for the taking\<close>

lemma sql_update_map: "fst (sql_update p f rs) = map (\<lambda>r. if p r then f r else r) rs"
  by (simp add: sql_update_def)

lemma updated_repo:
  assumes "getRepo i db = Some r" "\<And>x. rp_id (f x) = rp_id x"
  shows "getRepo i (fst (update_repo_rows i f db)) = Some (f r)" "db_jobs (fst (update_repo_rows i f db)) = db_jobs db"
proof -
  have "find_row rp_id i (map (\<lambda>r. if rp_id r = i then f r else r) rs) = map_option f (find_row rp_id i rs)" for rs
    by (induction rs) (simp_all add: assms(2))
  then show "getRepo i (fst (update_repo_rows i f db)) = Some (f r)"
    using assms(1) by (simp add: getRepo_def update_repo_rows_def sql_update_def)
  show "db_jobs (fst (update_repo_rows i f db)) = db_jobs db"
    by (simp add: update_repo_rows_def sql_update_def)
qed

definition grab_body :: "string \<Rightarrow> json" where
  "grab_body role = JObj [(''allowedLaunchers'', JArr [JStr role])]"

lemma grab_patch: "patch_of_body tn (grab_body role) = Inr (no_repo_patch\<lparr>pt_allowedLaunchers := Some [role]\<rparr>)"
  by (simp add: patch_of_body_def grab_body_def bool_field_def asStringArray_def string_field_def asString_def
      or_default_def no_repo_patch_def trim_def Let_def)

text \<open>Any session can take the launcher right: one PATCH of a repository by a caller with any role, who was
  not permitted before, puts that role on the launcher list, and from then on the guarded routes show
  the caller every job of the repository.\<close>

theorem patch_grants_launcher:
  assumes "requireCaller sess = Inr caller" "cl_role caller \<noteq> []" "repoId \<noteq> []"
    and "getRepo repoId (as_db s) = Some r" "repos_distinct (as_db s)"
    and "distinct (map repo_slot (db_repos (as_db s)))"
  shows "\<exists>s' view. patch_repo tn now sess repoId (grab_body (cl_role caller)) s = (s', Inr (Repo_reply view)) \<and>
    as_vault s' = as_vault s \<and> db_jobs (as_db s') = db_jobs (as_db s) \<and>
    (\<forall>j. getJob (j_id j) (as_db s) = Some j \<and> j_repoId j = repoId \<longrightarrow> callerMayReadRepo (j_id j) caller (as_db s'))"
proof -
  let ?p = "no_repo_patch\<lparr>pt_allowedLaunchers := Some [cl_role caller]\<rparr>"
  let ?db = "fst (update_repo_rows repoId (patch_row now ?p) (as_db s))"
  have id: "rp_id r = repoId" "r \<in> set (db_repos (as_db s))"
    using assms(4) find_row_SomeD[of rp_id repoId] by (auto simp: getRepo_def)
  have row: "repo_slot (patch_row now ?p x) = repo_slot x" "rp_id (patch_row now ?p x) = rp_id x" for x
    by (simp_all add: patch_row_def repo_slot_def no_repo_patch_def or_default_def)
  have "q = r" if "q \<in> set (db_repos (as_db s))" "repo_slot q = repo_slot r" for q
    using that id(2) assms(6) by (simp add: distinct_map inj_on_def)
  then have "\<not> slot_conflict repoId (patch_row now ?p) (as_db s)"
    using id(1) by (auto simp: slot_conflict_def assms(4) list_ex_iff row)
  moreover have "?p \<noteq> no_repo_patch" by (simp add: no_repo_patch_def)
  ultimately have up: "updateRepo now repoId ?p (as_db s) =
      (?db, Inr (snd (update_repo_rows repoId (patch_row now ?p) (as_db s))))"
    by (simp add: updateRepo_def split: prod.splits)
  have run: "\<exists>view. patch_repo tn now sess repoId (grab_body (cl_role caller)) s = (with_admin_db ?db s, Inr (Repo_reply view))"
    using assms(1,3,4) id(1) by (auto simp: patch_repo_def loadRepo_def grab_patch up Let_def)
  have new: "getRepo repoId ?db = Some (patch_row now ?p r)" "db_jobs ?db = db_jobs (as_db s)"
    using updated_repo[OF assms(4), of "patch_row now ?p"] row(2) by simp_all
  have "isPermittedLauncher (patch_row now ?p r) caller"
    using assms(2) by (simp add: isPermittedLauncher_def patch_row_def or_default_def no_repo_patch_def)
  then have "callerMayReadRepo (j_id j) caller ?db" if "getJob (j_id j) (as_db s) = Some j" "j_repoId j = repoId" for j
    using that new jobs_get[OF new(2)] by (simp add: callerMayReadRepo_def)
  then show ?thesis using run new by (auto simp: with_admin_db_def)
qed

section \<open>Deleting a repository\<close>

lemma cascade_gone:
  "ids_distinct db \<Longrightarrow> getJob i db = Some j \<Longrightarrow> p j \<Longrightarrow> getJob i (cascade_delete p db) = None"
  by (auto simp: cascade_delete_def getJob_def find_row_None_iff ids_distinct_def Let_def
      dest!: find_row_SomeD) (metis (no_types) find_row_in_set option.inject)

text \<open>Deleting a repository strands its runners: any session may delete any repository; the rows of its jobs
  go with it, also of a job whose runner is alive and which the job route refuses to delete, and no
  runner is terminated, no token revoked and no event written for them.\<close>

theorem delete_repo_strands_runners:
  assumes "requireCaller sess = Inr caller" "repoId \<noteq> []" "getRepo repoId (as_db s) = Some r"
    and "getJob (j_id j) (as_db s) = Some j" "j_repoId j = repoId" "non_terminal j" "ids_distinct (as_db s)"
    and "isPermittedLauncher r caller" "j_id j \<noteq> []"
  shows "delete_route sess (j_id j) s = (s, Inl (DevPlatformError 409 ''devplatform.job_not_terminal'')) \<and>
    (\<exists>s'. delete_repo sess repoId s = (s', Inr Repo_deleted) \<and> getJob (j_id j) (as_db s') = None \<and>
       getRepo repoId (as_db s') = None \<and> ww_effects (as_worker s') = ww_effects (as_worker s) \<and>
       resolve_credential repoId (as_vault s') = None)"
proof
  have "\<not> list_ex (\<lambda>k. j_id k = j_id j \<and> isTerminalDevJobStatus (j_status k)) (db_jobs (as_db s))"
    using assms(4,6,7) job_get[OF assms(7)] by (auto simp: list_ex_iff non_terminal_def) (metis option.inject)
  moreover have "loadAuthorizedJob (j_id j) caller (as_db s) = Inr j"
    using authorized_iff[OF assms(9)] assms(3,4,5,8) by (simp add: callerMayReadRepo_def)
  ultimately show "delete_route sess (j_id j) s = (s, Inl (DevPlatformError 409 ''devplatform.job_not_terminal''))"
    using assms(1,4) by (simp add: delete_route_def deleteJob_def)
  have gone: "getJob (j_id j) (fst (deleteRepo repoId (as_db s))) = None"
    using cascade_gone[OF assms(7,4), of "\<lambda>j. j_repoId j = repoId"] assms(5)
    by (simp add: deleteRepo_def getJob_def)
  have "getRepo repoId (fst (deleteRepo repoId (as_db s))) = None"
    by (auto simp: deleteRepo_def getRepo_def find_row_None_iff)
  then show "\<exists>s'. delete_repo sess repoId s = (s', Inr Repo_deleted) \<and> getJob (j_id j) (as_db s') = None \<and>
       getRepo repoId (as_db s') = None \<and> ww_effects (as_worker s') = ww_effects (as_worker s) \<and>
       resolve_credential repoId (as_vault s') = None"
    using assms(1-3) gone
    by (auto simp: delete_repo_def loadRepo_def with_admin_db_def resolve_credential_def clear_credential_def)
qed


section \<open>A resumed retry\<close>

definition fits_ceiling :: "artifact_ceiling_options option \<Rightarrow> dev_job_artifact \<Rightarrow> bool" where
  "fits_ceiling limits a \<longleftrightarrow>
     (case limits of None \<Rightarrow> True | Some o' \<Rightarrow> ac_maxBytes o' \<le> 0 \<or> int (length (a_content a)) \<le> ac_maxBytes o')"

definition arts_of :: "string \<Rightarrow> dev_db \<Rightarrow> dev_job_artifact list" where
  "arts_of i db = filter (\<lambda>a. a_jobId a = i) (db_artifacts db)"

lemma add_fitting:
  assumes "fits_ceiling limits a" "getJob i db \<noteq> None"
  shows "addArtifact limits now newId u i (dev_job_artifact_kind_name (a_kind a)) (a_content a) (a_meta a) db =
    (db\<lparr>db_artifacts := db_artifacts db @ [\<lparr>a_id = newId, a_jobId = i, a_kind = a_kind a, a_content = a_content a,
        a_meta = a_meta a, a_createdAt = now\<rparr>]\<rparr>, Inr newId)"
  using assms
  by (auto simp: addArtifact_def fits_ceiling_def applyArtifactCeiling_def Let_def split: option.splits)

lemma copy_all:
  assumes "\<forall>a\<in>set as. fits_ceiling (we_ceiling env) a" "getJob i db \<noteq> None"
  shows "\<exists>bs db'. copy_artifacts env clock k i as db = (db', Inr ()) \<and> db' = db\<lparr>db_artifacts := db_artifacts db @ bs\<rparr> \<and>
    list_all2 (\<lambda>a b. a_jobId b = i \<and> a_kind b = a_kind a \<and> a_content b = a_content a \<and> a_meta b = a_meta a) as bs \<and>
    map a_createdAt bs = map clock [k..<k + length as]"
  using assms
proof (induction as arbitrary: db k)
  case (Cons a as)
  let ?b = "\<lparr>a_id = we_newId env db, a_jobId = i, a_kind = a_kind a, a_content = a_content a, a_meta = a_meta a,
      a_createdAt = clock k\<rparr>"
  let ?db = "db\<lparr>db_artifacts := db_artifacts db @ [?b]\<rparr>"
  have "getJob i ?db \<noteq> None" using Cons.prems(2) by (simp add: getJob_def)
  from Cons.IH[OF _ this, of "Suc k"] Cons.prems(1) obtain bs where bs:
    "copy_artifacts env clock (Suc k) i as ?db = (?db\<lparr>db_artifacts := db_artifacts ?db @ bs\<rparr>, Inr ())"
    "list_all2 (\<lambda>a b. a_jobId b = i \<and> a_kind b = a_kind a \<and> a_content b = a_content a \<and> a_meta b = a_meta a) as bs"
    "map a_createdAt bs = map clock [Suc k..<Suc k + length as]" by auto
  have "[k..<k + length (a # as)] = k # [Suc k..<Suc k + length as]" by (subst upt_conv_Cons) auto
  then have "map a_createdAt (?b # bs) = map clock [k..<k + length (a # as)]" using bs(3) by simp
  moreover have "copy_artifacts env clock k i (a # as) db = (db\<lparr>db_artifacts := db_artifacts db @ (?b # bs)\<rparr>, Inr ())"
    using Cons.prems bs(1) by (simp add: add_fitting)
  ultimately show ?case using bs(2) by (intro exI[of _ "?b # bs"]) simp
qed simp

lemma sort_desc:
  fixes f :: "'a \<Rightarrow> int"
  assumes "sorted_wrt (<) (map f xs)"
  shows "sort_key (\<lambda>a. - f a) xs = rev xs"
  using assms
proof (induction xs)
  case (Cons x xs)
  have "insort_key (\<lambda>a. - f a) x ys = ys @ [x]" if "\<forall>y\<in>set ys. f x < f y" for ys
    using that by (induction ys) auto
  then show ?case using Cons by simp
qed simp

definition first_of :: "'a list \<Rightarrow> 'a option" where
  "first_of xs = (case xs of [] \<Rightarrow> None | x # _ \<Rightarrow> Some x)"

lemma latest_of_sorted:
  assumes "arts_of i db = bs" "sorted_wrt (<) (map a_createdAt bs)"
  shows "getLatestArtifact i k db = first_of (rev (filter (\<lambda>a. a_kind a = k) bs))"
proof -
  have "filter (\<lambda>a. a_jobId a = i \<and> a_kind a = k) (db_artifacts db) = filter (\<lambda>a. a_kind a = k) bs"
    by (simp add: assms(1)[symmetric] arts_of_def conj_commute)
  moreover have "sorted_wrt (<) (map a_createdAt (filter (\<lambda>a. a_kind a = k) bs))"
    using assms(2) by (induction bs) auto
  ultimately show ?thesis by (simp add: getLatestArtifact_def sort_desc first_of_def)
qed

lemma sorted_neg_rev:
  fixes f :: "'a \<Rightarrow> int"
  shows "sorted (map f zs) \<Longrightarrow> sorted (map (\<lambda>a. - f a) (rev zs))"
  by (induction zs) (auto simp: sorted_append)

lemma rev_filter_sort:
  fixes f :: "'a \<Rightarrow> int"
  assumes "distinct (map f xs)"
  shows "sort_key (\<lambda>a. - f a) (filter p xs) = rev (filter p (sort_key f xs))"
proof (rule map_sorted_distinct_set_unique[where f = "\<lambda>a. - f a"])
  have d: "distinct xs" "inj_on f (set xs)" using assms by (simp_all add: distinct_map)
  show "inj_on (\<lambda>a. - f a) (set (sort_key (\<lambda>a. - f a) (filter p xs)) \<union> set (rev (filter p (sort_key f xs))))"
    using d(2) by (auto simp: inj_on_def)
  show "distinct (map (\<lambda>a. - f a) (sort_key (\<lambda>a. - f a) (filter p xs)))"
    "distinct (map (\<lambda>a. - f a) (rev (filter p (sort_key f xs))))"
    using d by (auto simp: distinct_map inj_on_def)
  show "sorted (map (\<lambda>a. - f a) (rev (filter p (sort_key f xs))))"
    by (intro sorted_neg_rev sorted_filter) simp
qed simp_all

lemma first_of_map: "map_option f (first_of xs) = first_of (map f xs)"
  by (simp add: first_of_def split: list.splits)

lemma copied_contents:
  "list_all2 (\<lambda>a b. a_jobId b = i \<and> a_kind b = a_kind a \<and> a_content b = a_content a \<and> a_meta b = a_meta a) as bs \<Longrightarrow>
     map a_content (filter (\<lambda>a. a_kind a = k) bs) = map a_content (filter (\<lambda>a. a_kind a = k) as) \<and>
     filter (\<lambda>a. a_jobId a = i) bs = bs"
  by (induction rule: list_all2_induct) auto

text \<open>A resumed retry carries its context: the clone is a new queued job at the phase its source ended in,
  with the same brief, and for every kind the latest artifact of the clone, which is what the phase
  context of its runner is built from, has the content of the latest artifact of the source.\<close>

theorem retry_carries_context:
  assumes "requireCaller sess = Inr caller" "jobId \<noteq> []" "getJob jobId (as_db s) = Some j"
    and "isTerminalDevJobStatus (j_status j)" "getRepo (j_repoId j) (as_db s) = Some r" "isPermittedLauncher r caller"
    and "json_field ''resumeFromPhase'' q = Some (JStr ''true'')"
    and "strict_mono clock" "\<forall>a\<in>set (arts_of jobId (as_db s)). fits_ceiling (we_ceiling env) a"
    and "distinct (map a_createdAt (arts_of jobId (as_db s)))"
    and "getJob (we_newId env (as_db s)) (as_db s) = None" "arts_of (we_newId env (as_db s)) (as_db s) = []"
  shows "\<exists>s' n. retry_route env clock sess jobId q s = (s', Inr (Retry_reply (j_id n) (Some (j_phase j)))) \<and>
    getJob (j_id n) (as_db s') = Some n \<and> j_id n \<noteq> jobId \<and> j_status n = St_queued \<and> j_phase n = j_phase j \<and>
    j_brief n = j_brief j \<and> j_claimedBy n = None \<and> getJob jobId (as_db s') = Some j \<and>
    (\<forall>k. map_option a_content (getLatestArtifact (j_id n) k (as_db s')) =
         map_option a_content (getLatestArtifact jobId k (as_db s)))"
proof -
  let ?id = "we_newId env (as_db s)"
  let ?in = "new_job_input r (j_kind j) (j_brief j) (j_sourceRef j) (j_backend j) (j_authMode j) (cl_sub caller) (Some (j_phase j))"
  let ?n = "new_job_row (clock 0) ?id (ae_mintHash env (as_db s)) ?in"
  let ?db = "(as_db s)\<lparr>db_jobs := db_jobs (as_db s) @ [?n]\<rparr>"
  let ?src = "listArtifacts jobId (as_db s)"
  have n: "j_id ?n = ?id" "j_status ?n = St_queued" "j_phase ?n = j_phase j" "j_brief ?n = j_brief j" "j_claimedBy ?n = None"
    by (simp_all add: new_job_row_def new_job_input_def)
  have free: "webhook_slot_free ?n (as_db s)"
    by (simp add: webhook_slot_free_def webhook_slot_of_def new_job_row_def new_job_input_def)
  have ins: "insert_job env (clock 0) ?in s = (with_admin_db ?db s, Inr ?n)"
    using assms(5,11) repo_self[OF assms(5)] free
    by (simp add: insert_job_def createJob_def Let_def) (simp add: new_job_input_def)
  have new: "getJob ?id ?db = Some ?n" "getJob jobId ?db = Some j"
    using assms(3,11) by (simp_all add: getJob_def find_row_append n(1))
  have arts: "arts_of i ?db = arts_of i (as_db s)" "listArtifacts jobId ?db = ?src" for i
    by (simp_all add: arts_of_def listArtifacts_def)
  have src: "?src = sort_key a_createdAt (arts_of jobId (as_db s))"
    by (simp add: listArtifacts_def arts_of_def)
  have "\<forall>a\<in>set ?src. fits_ceiling (we_ceiling env) a" using assms(9) by (simp add: src)
  from copy_all[OF this, of ?id ?db clock 1] new(1) obtain bs where bs:
      "copy_artifacts env clock 1 ?id ?src ?db = (?db\<lparr>db_artifacts := db_artifacts ?db @ bs\<rparr>, Inr ())"
      "list_all2 (\<lambda>a b. a_jobId b = ?id \<and> a_kind b = a_kind a \<and> a_content b = a_content a \<and> a_meta b = a_meta a) ?src bs"
      "map a_createdAt bs = map clock [1..<1 + length ?src]" by auto
  let ?out = "?db\<lparr>db_artifacts := db_artifacts ?db @ bs\<rparr>"
  have run: "retry_route env clock sess jobId q s = (with_admin_db ?out (with_admin_db ?db s), Inr (Retry_reply ?id (Some (j_phase j))))"
    using assms(1-7) ins bs(1) arts(2) n(1,3) find_row_SomeD[OF assms(3)[unfolded getJob_def]]
    by (simp add: retry_route_def loadJob_def Let_def) (simp add: with_admin_db_def)
  have "arts_of ?id ?out = bs"
    using assms(12) copied_contents[OF bs(2)] by (simp add: arts_of_def)
  moreover have "sorted_wrt (<) (map a_createdAt bs)"
    unfolding bs(3) sorted_wrt_map
    by (rule sorted_wrt_mono_rel[OF _ sorted_wrt_upt]) (use assms(8) in \<open>simp add: strict_mono_def\<close>)
  ultimately have "getLatestArtifact ?id k ?out = first_of (rev (filter (\<lambda>a. a_kind a = k) bs))" for k
    by (rule latest_of_sorted)
  moreover have "getLatestArtifact jobId k (as_db s) = first_of (rev (filter (\<lambda>a. a_kind a = k) ?src))" for k
    using rev_filter_sort[OF assms(10), of "\<lambda>a. a_kind a = k"]
    by (simp add: getLatestArtifact_def first_of_def src arts_of_def conj_commute)
  ultimately have "map_option a_content (getLatestArtifact ?id k ?out) = map_option a_content (getLatestArtifact jobId k (as_db s))" for k
    using copied_contents[OF bs(2), of k] by (simp add: first_of_map rev_map[symmetric])
  moreover have "getJob ?id ?out = Some ?n" "getJob jobId ?out = Some j" using new by (simp_all add: getJob_def)
  moreover have "?id \<noteq> jobId" using assms(3,11) by auto
  ultimately show ?thesis using run n by (intro exI[of _ "with_admin_db ?out (with_admin_db ?db s)"] exI[of _ ?n]) (simp add: with_admin_db_def)
qed


section \<open>Witnesses\<close>

definition owner_session :: "session_claims option" where
  "owner_session = Some \<lparr>se_sub = Some ''admin'', se_email = None, se_role = Some ''operator''\<rparr>"

definition stranger_session :: "session_claims option" where
  "stranger_session = Some \<lparr>se_sub = Some ''mallory'', se_email = None, se_role = Some ''guest''\<rparr>"

definition stranger :: dev_platform_caller where
  "stranger = \<lparr>cl_sub = ''mallory'', cl_email = [], cl_role = ''guest''\<rparr>"

definition owner :: dev_platform_caller where
  "owner = \<lparr>cl_sub = ''admin'', cl_email = [], cl_role = ''operator''\<rparr>"

definition failed_job :: dev_job where
  "failed_job = example_job\<lparr>j_id := ''j3'', j_status := St_failed, j_phase := Ph_plan, j_claimedBy := None, j_runnerHandle := None\<rparr>"

definition kept_artifact :: dev_job_artifact where
  "kept_artifact = \<lparr>a_id = ''a1'', a_jobId = ''j3'', a_kind = Art_analysis, a_content = ''found it'', a_meta = JObj [], a_createdAt = 4\<rparr>"

definition admin_example :: admin_state where
  "admin_example = \<lparr>as_worker = \<lparr>ww_db = example_db\<lparr>db_jobs := [example_job, failed_job], db_artifacts := [kept_artifact]\<rparr>,
     ww_writes = [], ww_effects = [], ww_applying = [], ww_leases = 0, ww_ticking = False\<rparr>,
     as_vault = (\<lambda>_. None), as_flows = (\<lambda>_. None)\<rparr>"

definition example_admin_env :: admin_env where
  "example_admin_env = worker_env.extend (WorkerSound.example_env\<lparr>we_newId := (\<lambda>db. ''n9'')\<rparr>)
     \<lparr>ae_probe = (\<lambda>_ _ _. None), ae_protection = (\<lambda>_ _ _ _. None), ae_getTicket = (\<lambda>_ _ _ _. None),
      ae_listOpenTickets = (\<lambda>_ _ _ _. None), ae_deviceFlow = None, ae_mintHash = (\<lambda>_. ''h''),
      ae_cloneUrlFor = (\<lambda>o' n. o' @ n)\<rparr>"

lemma admin_facts:
  "requireCaller owner_session = Inr owner" "requireCaller stranger_session = Inr stranger"
  "getJob ''j1'' (as_db admin_example) = Some example_job" "getJob ''j3'' (as_db admin_example) = Some failed_job"
  "getRepo ''r1'' (as_db admin_example) = Some example_repo"
  "\<not> isPermittedLauncher example_repo stranger" "isPermittedLauncher example_repo owner"
  "j_repoId example_job = ''r1''" "j_repoId failed_job = ''r1''" "j_id failed_job = ''j3''"
  "j_status failed_job = St_failed" "j_phase failed_job = Ph_plan" "non_terminal example_job"
  "ids_distinct (as_db admin_example)" "repos_distinct (as_db admin_example)"
  "distinct (map repo_slot (db_repos (as_db admin_example)))"
  by (simp_all add: requireCaller_def owner_session_def stranger_session_def owner_def stranger_def admin_example_def
      getJob_def getRepo_def failed_job_def example_defs example_repo_def isPermittedLauncher_def non_terminal_def
      ids_distinct_def repos_distinct_def repo_slot_def Let_def)


theorem retry_tells_jobs_apart_witness:
  "snd (retry_route example_admin_env int stranger_session ''j1'' (JObj []) admin_example) =
     Inl (DevPlatformError 409 ''devplatform.retry_not_allowed'') \<and>
   snd (retry_route example_admin_env int stranger_session ''j3'' (JObj []) admin_example) =
     Inl (DevPlatformError 403 ''devplatform.not_launcher'')"
proof -
  have r: "getRepo (j_repoId example_job) (as_db admin_example) = Some example_repo"
    "getRepo (j_repoId failed_job) (as_db admin_example) = Some example_repo"
    by (simp_all add: admin_facts)
  show ?thesis
    using retry_tells_jobs_apart[OF admin_facts(2) _ admin_facts(3) r(1) admin_facts(6), of example_admin_env int "JObj []"]
      retry_tells_jobs_apart[OF admin_facts(2) _ admin_facts(4) r(2) admin_facts(6), of example_admin_env int "JObj []"]
    by (simp add: admin_facts)
qed

definition job_body :: json where
  "job_body = JObj [(''repoId'', JStr ''r1''), (''kind'', JStr ''implement''), (''backend'', JStr ''docker''), (''brief'', JStr ''do it'')]"

lemma job_posted: "\<exists>v. snd (post_job example_admin_env 9 owner_session job_body admin_example) = Inr v"
proof -
  have "(case snd (post_job example_admin_env 9 owner_session job_body admin_example) of Inl _ \<Rightarrow> False | Inr _ \<Rightarrow> True)"
    by code_simp
  then show ?thesis by (auto split: sum.splits)
qed

theorem created_job_admitted_witness:
  "\<exists>s' j. post_job example_admin_env 9 owner_session job_body admin_example = (s', Inr (Job_created (toJobView j))) \<and>
     db_jobs (as_db s') = db_jobs (as_db admin_example) @ [j] \<and> j_status j = St_queued"
proof -
  obtain s' r where p: "post_job example_admin_env 9 owner_session job_body admin_example = (s', r)" by fastforce
  then obtain v where "r = Inr v" using job_posted by auto
  then show ?thesis using created_job_admitted[OF p] p by blast
qed

theorem patch_grants_launcher_witness:
  "\<exists>s' view. patch_repo (\<lambda>_. None) 9 stranger_session ''r1'' (grab_body ''guest'') admin_example = (s', Inr (Repo_reply view)) \<and>
     callerMayReadRepo ''j1'' stranger (as_db s') \<and> \<not> callerMayReadRepo ''j1'' stranger (as_db admin_example)"
proof -
  have role: "cl_role stranger = ''guest''" "cl_role stranger \<noteq> []" by (simp_all add: stranger_def)
  have "getJob (j_id example_job) (as_db admin_example) = Some example_job" by (simp add: admin_facts)
  with patch_grants_launcher[OF admin_facts(2) role(2) _ admin_facts(5,15,16), of "\<lambda>_. None" 9] admin_facts(8)
  obtain s' view where "patch_repo (\<lambda>_. None) 9 stranger_session ''r1'' (grab_body ''guest'') admin_example = (s', Inr (Repo_reply view))"
    "callerMayReadRepo (j_id example_job) stranger (as_db s')" unfolding role(1) by blast
  moreover have "\<not> callerMayReadRepo ''j1'' stranger (as_db admin_example)"
    by (simp add: callerMayReadRepo_def admin_facts)
  ultimately show ?thesis by auto
qed

theorem delete_repo_strands_runners_witness:
  "\<exists>s'. delete_repo owner_session ''r1'' admin_example = (s', Inr Repo_deleted) \<and> getJob ''j1'' (as_db s') = None \<and>
     j_runnerHandle example_job \<noteq> None \<and> ww_effects (as_worker s') = []"
proof -
  have "getJob (j_id example_job) (as_db admin_example) = Some example_job" by (simp add: admin_facts)
  moreover have "ww_effects (as_worker admin_example) = []" by (simp add: admin_example_def)
  ultimately show ?thesis
    using delete_repo_strands_runners[OF admin_facts(1) _ admin_facts(5) _ admin_facts(8,13,14,7)] by auto
qed

theorem retry_carries_context_witness:
  "\<exists>s' (n :: dev_job). retry_route example_admin_env int owner_session ''j3'' (JObj [(''resumeFromPhase'', JStr ''true'')]) admin_example =
       (s', Inr (Retry_reply (j_id n) (Some Ph_plan))) \<and>
     map_option a_content (getLatestArtifact (j_id n) Art_analysis (as_db s')) = Some ''found it''"
proof -
  have r: "getRepo (j_repoId failed_job) (as_db admin_example) = Some example_repo" by (simp add: admin_facts)
  have f: "json_field ''resumeFromPhase'' (JObj [(''resumeFromPhase'', JStr ''true'')]) = Some (JStr ''true'')" by simp
  have m: "strict_mono int" by (simp add: strict_mono_def)
  have a: "arts_of ''j3'' (as_db admin_example) = [kept_artifact]" "we_ceiling example_admin_env = None"
    "we_newId example_admin_env (as_db admin_example) = ''n9''"
    by (simp_all add: arts_of_def admin_example_def kept_artifact_def example_admin_env_def worker_env.defs
        WorkerSound.example_env_def)
  have free: "getJob (we_newId example_admin_env (as_db admin_example)) (as_db admin_example) = None"
    "arts_of (we_newId example_admin_env (as_db admin_example)) (as_db admin_example) = []"
    unfolding a(3) by (simp_all add: getJob_def admin_example_def failed_job_def example_defs arts_of_def kept_artifact_def)
  have latest: "map_option a_content (getLatestArtifact ''j3'' Art_analysis (as_db admin_example)) = Some ''found it''"
    by (simp add: getLatestArtifact_def admin_example_def kept_artifact_def)
  have t: "isTerminalDevJobStatus (j_status failed_job)" by (simp add: admin_facts)
  have c: "\<forall>a\<in>set (arts_of ''j3'' (as_db admin_example)). fits_ceiling (we_ceiling example_admin_env) a"
    "distinct (map a_createdAt (arts_of ''j3'' (as_db admin_example)))" "''j3'' \<noteq> []"
    by (simp_all add: a fits_ceiling_def)
  note retry_carries_context[OF admin_facts(1) c(3) admin_facts(4) t r admin_facts(7) f m c(1,2) free]
  then show ?thesis using latest by (metis admin_facts(12))
qed

end
