(* ===== verification/GateFlow.thy ===== *)
theory GateFlow
  imports JobWorker JsonText
begin

text \<open>
  Deciding a human gate: the admin routes (\<open>routes/devPlatformGates.ts\<close>) with what \<open>wireDevPlatform.ts\<close>
  plugs into them, and the gate-deadline worker.  The flip of the gate and the transition of the job are
  two writes; a request that finds the gate already decided and the job still waiting drives the
  transition again.  The role directory, the text of a timestamp and the session are parameters; the
  choke point bound by the wiring has the worker's backends and revokers, so it is \<open>worker_finalize\<close>.
\<close>

record gate_env = worker_env +
  ge_role_holders :: "string \<Rightarrow> string list"
  ge_iso :: "int \<Rightarrow> string"

definition worker_of :: "gate_env \<Rightarrow> worker_env" where
  "worker_of env = worker_env.truncate env"

datatype gate_reply =
    Gate_refused nat string
  | Gate_ok string gate_status bool

record resolve_body =
  rb_approved :: "bool option"
  rb_note :: "string option"
  rb_answers :: "gate_answer list"

section \<open>Who may decide\<close>

definition canonical :: "string \<Rightarrow> string" where
  "canonical sub = toLowerCase (trim sub)"

definition holdersOf :: "gate_env \<Rightarrow> dev_job_gate \<Rightarrow> string list" where
  "holdersOf env g =
     rev (remdups (rev (map canonical
       (if g_principalKind g = Principal_role then ge_role_holders env (g_principalRef g)
        else [g_principalRef g]))))"

section \<open>The brief sections\<close>

definition briefMarker :: "dev_job_gate \<Rightarrow> string" where
  "briefMarker g = ''(gate '' @ g_id g"

definition decided_at :: "gate_env \<Rightarrow> int \<Rightarrow> dev_job_gate \<Rightarrow> string" where
  "decided_at env now g = ge_iso env (case g_resolvedAt g of None \<Rightarrow> now | Some t \<Rightarrow> t)"

definition answer_line :: "dev_job_gate \<Rightarrow> nat \<times> gate_answer \<Rightarrow> string" where
  "answer_line g ia =
     (case ia of (i, a) \<Rightarrow>
        ''Q'' @ show_nat (i + 1) @ '': '' @
        (case List.find (\<lambda>q. q_id q = ans_questionId a) (g_questions g) of
           None \<Rightarrow> ans_questionId a | Some q \<Rightarrow> q_text q) @ newline @
        ''A'' @ show_nat (i + 1) @ '': '' @ ans_text a)"

definition answersBriefSection :: "gate_env \<Rightarrow> int \<Rightarrow> dev_job_gate \<Rightarrow> gate_answer list \<Rightarrow> string \<Rightarrow> string" where
  "answersBriefSection env now g answers resolvedBy =
     newline @ newline @ ''## Operator answers (gate '' @ g_id g @ '', resolved by '' @ resolvedBy @ '' at '' @
     decided_at env now g @ '')'' @ newline @
     join_with newline (map (answer_line g) (enumerate 0 answers)) @ newline"

definition rejectionBriefSection :: "gate_env \<Rightarrow> int \<Rightarrow> dev_job_gate \<Rightarrow> string option \<Rightarrow> string \<Rightarrow> string" where
  "rejectionBriefSection env now g note resolvedBy =
     newline @ newline @ ''## Operator rejection (gate '' @ g_id g @ '', resolved by '' @ resolvedBy @ '' at '' @
     decided_at env now g @ '')'' @ newline @
     ''Note: '' @ (case note of None \<Rightarrow> ''(none)'' | Some n \<Rightarrow> n) @ newline"

section \<open>The transitions a decision drives\<close>

definition with_db :: "worker_state \<Rightarrow> dev_db \<times> (store_error + 'a) \<Rightarrow> worker_state \<times> worker_error option" where
  "with_db w r = (case r of (db, Inl e) \<Rightarrow> (w\<lparr>ww_db := db\<rparr>, Some (Worker_store e))
                  | (db, Inr _) \<Rightarrow> (w\<lparr>ww_db := db\<rparr>, None))"

definition writeOverrideAudit :: "gate_env \<Rightarrow> int \<Rightarrow> dev_job_gate \<Rightarrow> string \<Rightarrow> worker_state
    \<Rightarrow> worker_state \<times> worker_error option" where
  "writeOverrideAudit env now g resolvedBy w =
     with_db w (addArtifact (we_ceiling env) now (we_newId env (ww_db w)) (we_newId env (ww_db w)) (g_jobId g)
       ''review_verdict''
       (json_stringify (\<lambda>_. []) (JObj [(''source'', JStr ''diff_policy_override''), (''gateId'', JStr (g_id g)),
          (''resolvedBy'', JStr resolvedBy),
          (''resolvedAt'', case g_resolvedAt g of None \<Rightarrow> JNull | Some t \<Rightarrow> JStr (ge_iso env t)),
          (''note'', JStr ''operator approved the diff-policy gate; gate-severity findings demoted, deny findings still block'')]))
       (JObj [(''source'', JStr ''diff_policy_override''), (''gateId'', JStr (g_id g)), (''resolvedBy'', JStr resolvedBy)])
       (ww_db w))"

text \<open>A denial hiding behind the gate is recorded and swallowed; every other error of the apply is thrown.\<close>

definition onApprovedDiffPolicyGate :: "gate_env \<Rightarrow> int \<Rightarrow> dev_job_gate \<Rightarrow> string \<Rightarrow> worker_state
    \<Rightarrow> worker_state \<times> worker_error option" where
  "onApprovedDiffPolicyGate env now g resolvedBy w =
     (case resumeGatedApply (worker_of env) now (g_jobId g) w of
        (w1, Inl (Worker_apply (Policy_deny m v))) \<Rightarrow> writeOverrideAudit env now g resolvedBy w1
      | (w1, Inl e) \<Rightarrow> (w1, Some e)
      | (w1, Inr Skipped) \<Rightarrow> (w1, None)
      | (w1, Inr _) \<Rightarrow> writeOverrideAudit env now g resolvedBy w1)"

definition answers_json :: "gate_answer list \<Rightarrow> json" where
  "answers_json answers =
     JArr (map (\<lambda>a. JObj [(''questionId'', JStr (ans_questionId a)), (''text'', JStr (ans_text a))]) answers)"

definition store_answers :: "gate_env \<Rightarrow> int \<Rightarrow> dev_job_gate \<Rightarrow> gate_answer list \<Rightarrow> string \<Rightarrow> worker_state
    \<Rightarrow> worker_state \<times> worker_error option" where
  "store_answers env now g answers resolvedBy w =
     with_db w (addArtifact (we_ceiling env) now (we_newId env (ww_db w)) (we_newId env (ww_db w)) (g_jobId g)
       ''answers'' (json_stringify (\<lambda>_. []) (answers_json answers))
       (JObj [(''gateId'', JStr (g_id g)), (''resolvedBy'', JStr resolvedBy)]) (ww_db w))"

definition onApproved :: "gate_env \<Rightarrow> int \<Rightarrow> dev_job_gate \<Rightarrow> gate_answer list \<Rightarrow> string \<Rightarrow> worker_state
    \<Rightarrow> worker_state \<times> worker_error option" where
  "onApproved env now g answers resolvedBy w =
     (if g_gateKind g = Diff_policy_gate then onApprovedDiffPolicyGate env now g resolvedBy w
      else
        (let (db1, wrote) = appendToBrief now (g_jobId g) (briefMarker g)
                              (answersBriefSection env now g answers resolvedBy) (ww_db w);
             (w2, err) = (if wrote then store_answers env now g answers resolvedBy (w\<lparr>ww_db := db1\<rparr>)
                          else (w\<lparr>ww_db := db1\<rparr>, None))
         in case err of Some e \<Rightarrow> (w2, Some e)
            | None \<Rightarrow> (w2\<lparr>ww_db := fst (requeueAtPhase now (g_jobId g) Ph_implement (ww_db w2))\<rparr>, None)))"

definition onRejected :: "gate_env \<Rightarrow> int \<Rightarrow> dev_job_gate \<Rightarrow> string option \<Rightarrow> string \<Rightarrow> worker_state
    \<Rightarrow> worker_state \<times> worker_error option" where
  "onRejected env now g note resolvedBy w =
     (let db1 = fst (appendToBrief now (g_jobId g) (briefMarker g)
                       (rejectionBriefSection env now g note resolvedBy) (ww_db w))
      in (worker_finalize (worker_of env) now (g_jobId g) St_cancelled
            (no_context\<lparr>fc_reason := Some ''gate_rejected''\<rparr>) (w\<lparr>ww_db := db1\<rparr>), None))"

definition driveSideEffect :: "gate_env \<Rightarrow> int \<Rightarrow> dev_job_gate \<Rightarrow> string option \<Rightarrow> worker_state
    \<Rightarrow> worker_state \<times> worker_error option" where
  "driveSideEffect env now g note w =
     (let by_sub = (case g_resolvedBy g of None \<Rightarrow> [] | Some s \<Rightarrow> s) in
      if g_status g = Gate_resolved
      then onApproved env now g (case g_answers g of None \<Rightarrow> [] | Some a \<Rightarrow> a) by_sub w
      else onRejected env now g note by_sub w)"

section \<open>POST /gates/:gateId/resolve\<close>

definition isJobStuckAtGate :: "string \<Rightarrow> dev_db \<Rightarrow> bool" where
  "isJobStuckAtGate jobId db \<longleftrightarrow> map_option j_status (getJob jobId db) = Some St_waiting"

definition drive_reply :: "gate_env \<Rightarrow> int \<Rightarrow> dev_job_gate \<Rightarrow> string option \<Rightarrow> bool \<Rightarrow> worker_state
    \<Rightarrow> worker_state \<times> gate_reply" where
  "drive_reply env now g note recovered w =
     (case driveSideEffect env now g note w of
        (w', Some _) \<Rightarrow> (w', Gate_refused 500 ''devplatform.internal'')
      | (w', None) \<Rightarrow> (w', Gate_ok (g_jobId g) (g_status g) recovered))"

text \<open>\<open>between\<close> is what other requests and workers commit between the read of the gate and the
  compare-and-swap.\<close>

definition decide_gate :: "gate_env \<Rightarrow> int \<Rightarrow> string \<Rightarrow> string \<Rightarrow> bool \<Rightarrow> resolve_body \<Rightarrow> worker_state
    \<Rightarrow> worker_state \<times> gate_reply" where
  "decide_gate env now sub gateId approved body w =
     (case resolve_gate now gateId approved (canonical sub) (Some (rb_answers body)) (ww_db w) of
        (db1, Some winner) \<Rightarrow> drive_reply env now winner (rb_note body) False (w\<lparr>ww_db := db1\<rparr>)
      | (db1, None) \<Rightarrow>
          (case get_gate gateId db1 of
             None \<Rightarrow> (w\<lparr>ww_db := db1\<rparr>, Gate_refused 409 ''devplatform.gate_not_pending'')
           | Some cur \<Rightarrow>
               if (g_status cur \<noteq> Gate_resolved \<and> g_status cur \<noteq> Gate_rejected) \<or>
                  \<not> isJobStuckAtGate (g_jobId cur) db1
               then (w\<lparr>ww_db := db1\<rparr>, Gate_refused 409 ''devplatform.gate_not_pending'')
               else drive_reply env now cur None True (w\<lparr>ww_db := db1\<rparr>)))"

definition resolve_route_racing :: "(worker_state \<Rightarrow> worker_state) \<Rightarrow> gate_env \<Rightarrow> int \<Rightarrow> string \<Rightarrow> string
    \<Rightarrow> resolve_body \<Rightarrow> worker_state \<Rightarrow> worker_state \<times> gate_reply" where
  "resolve_route_racing between env now sub gateId body w =
     (if sub = [] then (w, Gate_refused 401 ''devplatform.unauthorized'')
      else case rb_approved body of
        None \<Rightarrow> (w, Gate_refused 400 ''devplatform.invalid_resolve'')
      | Some approved \<Rightarrow>
          (case get_gate gateId (ww_db w) of
             None \<Rightarrow> (w, Gate_refused 404 ''devplatform.gate_not_found'')
           | Some g \<Rightarrow>
               if canonical sub \<notin> set (holdersOf env g)
               then (w, Gate_refused 403 ''devplatform.gate_not_holder'')
               else decide_gate env now sub gateId approved body (between w)))"

definition resolve_route :: "gate_env \<Rightarrow> int \<Rightarrow> string \<Rightarrow> string \<Rightarrow> resolve_body \<Rightarrow> worker_state
    \<Rightarrow> worker_state \<times> gate_reply" where
  "resolve_route env now sub gateId body w = resolve_route_racing id env now sub gateId body w"

section \<open>GET /gates\<close>

definition list_route :: "gate_env \<Rightarrow> string \<Rightarrow> string option \<Rightarrow> dev_db \<Rightarrow> (nat + (dev_job_gate \<times> string list) list)" where
  "list_route env sub status db =
     (if sub = [] then Inl 401
      else if status \<noteq> None \<and> status \<noteq> Some ''waiting'' then Inl 400
      else Inr (map (\<lambda>g. (g, holdersOf env g)) (listWaiting db)))"

section \<open>The gate-deadline worker\<close>

text \<open>\<open>stopped k\<close> tells whether a stop was requested before the \<open>k\<close>-th overdue gate is handled.\<close>

fun expire_due :: "gate_env \<Rightarrow> int \<Rightarrow> (nat \<Rightarrow> bool) \<Rightarrow> nat \<Rightarrow> dev_job_gate list \<Rightarrow> worker_state
    \<Rightarrow> worker_state \<times> nat" where
  "expire_due env now stopped k [] w = (w, 0)"
| "expire_due env now stopped k (due # gs) w =
     (if stopped k then (w, 0)
      else case expire_gate now (g_id due) (ww_db w) of
        (db1, None) \<Rightarrow> expire_due env now stopped (Suc k) gs (w\<lparr>ww_db := db1\<rparr>)
      | (db1, Some _) \<Rightarrow>
          (let (w', n) = expire_due env now stopped (Suc k) gs
                 (worker_finalize (worker_of env) now (g_jobId due) St_cancelled
                    (no_context\<lparr>fc_reason := Some ''gate_expired''\<rparr>) (w\<lparr>ww_db := db1\<rparr>))
           in (w', Suc n)))"

definition gateDeadlineTick :: "gate_env \<Rightarrow> int \<Rightarrow> (nat \<Rightarrow> bool) \<Rightarrow> worker_state \<Rightarrow> worker_state \<times> nat" where
  "gateDeadlineTick env now stopped w = expire_due env now stopped 0 (listDue now (ww_db w)) w"

end
