(* ===== verification/GateSound.thy ===== *)
theory GateSound
  imports GateFlow WorkerSound
begin

text \<open>
  What the gate routes promise: only a live holder decides, an approval of a review gate puts the job
  back in the queue at \<open>implement\<close>, a crash between the two writes of a decision is healed by the next
  request of a holder to the state the first request would have left, and the deadline worker closes
  every overdue gate and cancels exactly their jobs.
\<close>

section \<open>The compare-and-swap on a gate row\<close>

definition gates_distinct :: "dev_db \<Rightarrow> bool" where
  "gates_distinct db \<longleftrightarrow> distinct (map g_id (db_gates db))"

lemma resolve_run:
  "resolve_gate now gid a s ans db =
     (db\<lparr>db_gates := fst (guarded_update.run g_id is_waiting (resolve_set now a s ans) gid (db_gates db))\<rparr>,
      first_hit (snd (guarded_update.run g_id is_waiting (resolve_set now a s ans) gid (db_gates db))))"
  by (simp add: resolve_gate_def update_gates_def resolve_cas.run_def Let_def split: prod.splits)

lemma expire_run:
  "expire_gate now gid db =
     (db\<lparr>db_gates := fst (guarded_update.run g_id is_waiting (close_set now Gate_expired) gid (db_gates db))\<rparr>,
      first_hit (snd (guarded_update.run g_id is_waiting (close_set now Gate_expired) gid (db_gates db))))"
  by (simp add: expire_gate_def update_gates_def expire_cas.run_def Let_def split: prod.splits)

lemma resolve_hit:
  assumes "gates_distinct db" "get_gate gid db = Some g" "is_waiting g"
  shows "resolve_gate now gid a s ans db = (fst (resolve_gate now gid a s ans db), Some (resolve_set now a s ans g)) \<and>
    get_gate gid (fst (resolve_gate now gid a s ans db)) = Some (resolve_set now a s ans g) \<and>
    gates_distinct (fst (resolve_gate now gid a s ans db)) \<and>
    db_jobs (fst (resolve_gate now gid a s ans db)) = db_jobs db"
  using assms
  by (simp add: resolve_run resolve_cas.hit_find resolve_cas.find_same resolve_cas.keys_kept gates_distinct_def
      get_gate_def first_hit_def)

lemma resolve_miss:
  assumes "gates_distinct db" "\<And>g. get_gate gid db = Some g \<Longrightarrow> \<not> is_waiting g"
  shows "resolve_gate now gid a s ans db = (db, None)"
proof -
  have "snd (guarded_update.run g_id is_waiting (resolve_set now a s ans) gid (db_gates db)) = []"
    using assms by (simp add: resolve_cas.hit_find gates_distinct_def get_gate_def split: option.splits)
  then show ?thesis using resolve_cas.miss_unchanged by (simp add: resolve_run first_hit_def)
qed

section \<open>Driving a decision\<close>

lemma store_answers_jobs:
  assumes "store_answers env now g ans b w = (w', err)" "getJob (g_jobId g) (ww_db w) \<noteq> None"
  shows "err = None \<and> db_jobs (ww_db w') = db_jobs (ww_db w)"
proof -
  have "dev_job_artifact_kind_of ''answers'' = Some Art_answers" by code_simp
  then show ?thesis using assms
    by (auto simp: store_answers_def with_db_def addArtifact_def Let_def split: option.splits prod.splits)
qed

lemma approved_review_job:
  assumes "onApproved env now g ans b w = (w', err)" "g_gateKind g = Review_gate"
    and "ids_distinct (ww_db w)" "getJob (g_jobId g) (ww_db w) = Some j" "j_status j = St_waiting"
    and "j_phase j = Ph_await_human"
  shows "err = None \<and> (\<exists>j'. getJob (g_jobId g) (ww_db w') = Some j' \<and> j_status j' = St_queued \<and>
    j_phase j' = Ph_implement \<and> j_claimedBy j' = None \<and> j_provision j' = j_provision j + 1)"
proof -
  let ?i = "g_jobId g"
  obtain db1 wrote where ab: "appendToBrief now ?i (briefMarker g) (answersBriefSection env now g ans b) (ww_db w) = (db1, wrote)"
    by fastforce
  have db1: "db1 = fst (update_job ?i (brief_guard (briefMarker g)) (brief_set now (answersBriefSection env now g ans b)) (ww_db w))"
    using ab store_db(9)[of now ?i "briefMarker g" "answersBriefSection env now g ans b" "ww_db w"] by simp
  obtain j1 where j1: "getJob ?i db1 = Some j1" "j_phase j1 = Ph_await_human" "non_terminal j1" "j_provision j1 = j_provision j"
    using assms(4-6) unfolding db1 by (auto simp: getJob_update brief_set_def non_terminal_def)
  obtain w2 e2 where st: "(if wrote then store_answers env now g ans b (w\<lparr>ww_db := db1\<rparr>) else (w\<lparr>ww_db := db1\<rparr>, None)) = (w2, e2)"
    by fastforce
  have e2: "e2 = None" "db_jobs (ww_db w2) = db_jobs db1"
    using st store_answers_jobs[of env now g ans b "w\<lparr>ww_db := db1\<rparr>" w2 e2] j1(1) by (auto split: if_splits)
  have w': "w' = w2\<lparr>ww_db := fst (requeueAtPhase now ?i Ph_implement (ww_db w2))\<rparr>" "err = None"
    using assms(1,2) ab st e2(1) by (auto simp: onApproved_def)
  show ?thesis
    using j1 jobs_get[OF e2(2)] unfolding w' by (auto simp: store_db getJob_update phase_guard_def requeue_set_def)
qed

text \<open>Only the approval side depends on nothing but the stored gate.\<close>

lemma drive_approved_note:
  "g_status g = Gate_resolved \<Longrightarrow> driveSideEffect env now g note w = driveSideEffect env now g note' w"
  by (simp add: driveSideEffect_def)

lemma resolved_fields [simp]:
  "g_status (resolve_set now a s ans g) = (if a then Gate_resolved else Gate_rejected)"
  "g_jobId (resolve_set now a s ans g) = g_jobId g" "g_gateKind (resolve_set now a s ans g) = g_gateKind g"
  "\<not> is_waiting (resolve_set now a s ans g)" "holdersOf env (resolve_set now a s ans g) = holdersOf env g"
  by (simp_all add: resolve_set_def is_waiting_def holdersOf_def)

text \<open>A re-drive of an approval that had already extended the brief does not store the answers artifact:
  a crash between those two writes loses it for good.\<close>

lemma redrive_stores_no_answers:
  assumes "g_gateKind g = Review_gate" "ids_distinct (ww_db w)" "getJob (g_jobId g) (ww_db w) = Some j"
    and "str_includes (j_brief j) (briefMarker g)"
  shows "db_artifacts (ww_db (fst (onApproved env now g ans b w))) = db_artifacts (ww_db w)"
proof -
  have "snd (update_job (g_jobId g) (brief_guard (briefMarker g)) f (ww_db w)) = []" if "\<And>j. j_id (f j) = j_id j" for f
    using hits_update[OF that assms(2)] assms(3,4) by (simp add: brief_guard_def)
  then have "\<not> snd (appendToBrief now (g_jobId g) (briefMarker g) part (ww_db w))" for part
    by (simp add: appendToBrief_def row_count_def brief_set_def)
  moreover have "db_artifacts (fst (appendToBrief now (g_jobId g) (briefMarker g) part (ww_db w))) = db_artifacts (ww_db w)"
    "db_artifacts (fst (requeueAtPhase now (g_jobId g) Ph_implement db)) = db_artifacts db" for part db
    by (simp_all add: store_db)
  moreover obtain db1 wrote where "appendToBrief now (g_jobId g) (briefMarker g)
      (answersBriefSection env now g ans b) (ww_db w) = (db1, wrote)" by fastforce
  ultimately have "\<not> wrote" "db_artifacts db1 = db_artifacts (ww_db w)"
    "onApproved env now g ans b w =
      (w\<lparr>ww_db := fst (requeueAtPhase now (g_jobId g) Ph_implement db1)\<rparr>, None)"
    using assms(1) by (metis snd_conv, metis fst_conv, simp add: onApproved_def) (metis snd_conv)
  then show ?thesis by (simp add: store_db)
qed

section \<open>The deadline worker\<close>

lemma worker_finalize_gates:
  "db_gates (ww_db (worker_finalize env now i s ctx w)) = db_gates (ww_db w)"
proof -
  have "db_gates (fst (db_finish now i s p db)) = db_gates db" for p db
    using finish_fst[of now i s p db] by auto
  then have "db_gates d = db_gates (ww_db w)"
    if "finalizeDevJobDetailed (worker_deps env now) i s ctx (ww_db w) = (d, effs, r)" for d effs r
    using that
    by (auto simp: finalizeDevJobDetailed_def worker_deps_def store_deps_def finalize_write_def side_effects_def
        Let_def appendHostEvent_gates[symmetric, of d] split: prod.splits if_splits option.splits sum.splits)
       (metis appendHostEvent_gates fst_conv)+
  then show ?thesis
    by (auto simp: worker_finalize_def finalizeDevJob_def split: prod.splits sum.splits)
qed

definition cancel_context :: finalize_context where
  "cancel_context = no_context\<lparr>fc_reason := Some ''gate_expired''\<rparr>"

definition cancelled_row :: "int \<Rightarrow> dev_job \<Rightarrow> dev_job" where
  "cancelled_row now j = (if non_terminal j then finish_set now St_cancelled (patch_of cancel_context) j else j)"

lemma cancelled_row_twice [simp]: "cancelled_row now (cancelled_row now j) = cancelled_row now j"
  by (simp add: cancelled_row_def finish_set_def non_terminal_def)

lemma expire_due_spec:
  assumes "gates_distinct (ww_db w)" "ids_distinct (ww_db w)" "distinct (map g_id gs)"
    and "\<And>g. g \<in> set gs \<Longrightarrow> g \<in> set (db_gates (ww_db w)) \<and> is_waiting g"
    and "expire_due env now (\<lambda>_. False) k gs w = (w', n)"
  shows "n = length gs \<and>
    (\<forall>i. getJob i (ww_db w') = (if i \<in> g_jobId ` set gs then map_option (cancelled_row now) (getJob i (ww_db w))
                               else getJob i (ww_db w))) \<and>
    db_gates (ww_db w') =
      map (\<lambda>x. if g_id x \<in> g_id ` set gs then close_set now Gate_expired x else x) (db_gates (ww_db w))"
  using assms
proof (induction gs arbitrary: w k n)
  case (Cons g gs)
  let ?db = "ww_db w" and ?c = "close_set now Gate_expired"
  have g: "g \<in> set (db_gates ?db)" "is_waiting g" using Cons.prems(4) by auto
  then have find: "find_row g_id (g_id g) (db_gates ?db) = Some g"
    using Cons.prems(1) by (simp add: gates_distinct_def find_row_in_set)
  let ?rows = "map (\<lambda>x. if g_id x = g_id g then ?c x else x) (db_gates ?db)"
  have rows: "fst (guarded_update.run g_id is_waiting ?c (g_id g) (db_gates ?db)) = ?rows"
  proof -
    have "x = g" if "x \<in> set (db_gates ?db)" "g_id x = g_id g" for x
      using that g(1) Cons.prems(1) by (metis gates_distinct_def inj_on_def distinct_map)
    then show ?thesis using g(2) by (auto simp: expire_cas.run_def sql_update_def)
  qed
  let ?db1 = "?db\<lparr>db_gates := ?rows\<rparr>"
  have ex: "expire_gate now (g_id g) ?db = (?db1, Some (?c g))"
    using find g(2) Cons.prems(1)
    by (simp add: expire_run rows expire_cas.hit_find gates_distinct_def first_hit_def)
  let ?w1 = "worker_finalize (worker_of env) now (g_jobId g) St_cancelled cancel_context (w\<lparr>ww_db := ?db1\<rparr>)"
  have i1: "ids_distinct (ww_db (w\<lparr>ww_db := ?db1\<rparr>))" using Cons.prems(2) by (simp add: ids_distinct_def)
  obtain n' where rest: "expire_due env now (\<lambda>_. False) (Suc k) gs ?w1 = (w', n')" "n = Suc n'"
    using Cons.prems(5) ex by (auto simp: cancel_context_def Let_def split: prod.splits)
  have gates1: "db_gates (ww_db ?w1) = ?rows" by (simp add: worker_finalize_gates)
  have gd: "gates_distinct (ww_db ?w1)"
  proof -
    have "map g_id ?rows = map g_id (db_gates ?db)" by (simp add: close_set_def)
    then show ?thesis using Cons.prems(1) by (simp only: gates_distinct_def gates1)
  qed
  have id: "ids_distinct (ww_db ?w1)" using worker_finalize_ids[OF i1] by simp
  have "h \<in> set (db_gates (ww_db ?w1)) \<and> is_waiting h" if "h \<in> set gs" for h
  proof -
    have "g_id h \<noteq> g_id g" using Cons.prems(3) that by (metis distinct.simps(2) image_eqI list.set_map list.simps(9))
    then show ?thesis using Cons.prems(4)[of h] that unfolding gates1 by force
  qed
  note IH = Cons.IH[OF gd id _ this rest(1)]
  have get1: "getJob i (ww_db ?w1) =
      (if i = g_jobId g then map_option (cancelled_row now) (getJob i ?db) else getJob i ?db)" for i
    using worker_finalize_get[OF i1, of St_cancelled i "worker_of env" now "g_jobId g" cancel_context]
    by (simp add: getJob_def cancelled_row_def cong: option.map_cong)
  have keep: "g_id (close_set now s x) = g_id x" "close_set now s (close_set now s x) = close_set now s x" for s x
    by (simp_all add: close_set_def)
  have "distinct (map g_id gs)" using Cons.prems(3) by simp
  note IH = IH[OF this]
  then show ?case
    using rest(2) get1 by (auto simp: gates1 keep option.map_comp comp_def)
qed simp

section \<open>Properties\<close>


text \<open>An approval releases the job: when a holder approves the waiting review gate of a job parked at
  \<open>await_human\<close>, the gate is resolved in the caller's name and the job is queued at \<open>implement\<close>,
  unclaimed and under a new provision.\<close>

theorem approval_requeues:
  assumes "resolve_route env now sub gid body w = (w', r)" "rb_approved body = Some True" "sub \<noteq> []"
    and "gates_distinct (ww_db w)" "get_gate gid (ww_db w) = Some g" "is_waiting g" "g_gateKind g = Review_gate"
    and "canonical sub \<in> set (holdersOf env g)"
    and "ids_distinct (ww_db w)" "getJob (g_jobId g) (ww_db w) = Some j" "j_status j = St_waiting"
    and "j_phase j = Ph_await_human"
  shows "r = Gate_ok (g_jobId g) Gate_resolved False \<and>
    (\<exists>j'. getJob (g_jobId g) (ww_db w') = Some j' \<and> j_status j' = St_queued \<and> j_phase j' = Ph_implement \<and>
       j_claimedBy j' = None \<and> j_provision j' = j_provision j + 1)"
proof -
  let ?ans = "Some (rb_answers body)" and ?s = "canonical sub"
  let ?g = "resolve_set now True ?s ?ans g"
  obtain db1 where res: "resolve_gate now gid True ?s ?ans (ww_db w) = (db1, Some ?g)" "db_jobs db1 = db_jobs (ww_db w)"
    using resolve_hit[OF assms(4-6), of now True ?s ?ans] by metis
  then have d: "drive_reply env now ?g (rb_note body) False (w\<lparr>ww_db := db1\<rparr>) = (w', r)"
    using assms(1-3,5,8) by (simp add: resolve_route_def resolve_route_racing_def decide_gate_def)
  obtain w2 err where o: "onApproved env now ?g (rb_answers body) ?s (w\<lparr>ww_db := db1\<rparr>) = (w2, err)" by fastforce
  note j = approved_review_job[OF o]
  have "err = None \<and> (\<exists>j'. getJob (g_jobId g) (ww_db w2) = Some j' \<and> j_status j' = St_queued \<and>
      j_phase j' = Ph_implement \<and> j_claimedBy j' = None \<and> j_provision j' = j_provision j + 1)"
    using j[of j] assms(7,9-12) jobs_get[OF res(2)] jobs_ids[OF res(2)] by simp
  moreover have "driveSideEffect env now ?g (rb_note body) (w\<lparr>ww_db := db1\<rparr>) = (w2, err)"
    using o by (simp add: driveSideEffect_def) (simp add: resolve_set_def)
  ultimately show ?thesis using d by (auto simp: drive_reply_def)
qed


text \<open>Overdue gates are closed and exactly their jobs cancelled: an undisturbed deadline pass expires every
  waiting gate whose deadline has passed, cancels each job such a gate belongs to unless it was already
  finished, leaves every other job as it was, and nothing overdue remains.\<close>

theorem deadline_pass_exact:
  assumes "gateDeadlineTick env now (\<lambda>_. False) w = (w', n)" "gates_distinct (ww_db w)" "ids_distinct (ww_db w)"
  shows "n = length (listDue now (ww_db w)) \<and> listDue now (ww_db w') = [] \<and>
    (\<forall>i. getJob i (ww_db w') =
       (if i \<in> g_jobId ` set (listDue now (ww_db w)) then map_option (cancelled_row now) (getJob i (ww_db w))
        else getJob i (ww_db w)))"
proof -
  let ?due = "listDue now (ww_db w)"
  have d: "distinct (map g_id ?due)"
    using assms(2) by (simp add: gates_distinct_def listDue_def distinct_map_filter)
  have m: "g \<in> set (db_gates (ww_db w)) \<and> is_waiting g" if "g \<in> set ?due" for g
    using that by (simp add: listDue_def)
  note spec = expire_due_spec[OF assms(2,3) d m assms(1)[unfolded gateDeadlineTick_def]]
  have "listDue now (ww_db w') = []"
    using spec by (auto simp: listDue_def filter_empty_conv close_set_def is_waiting_def)
  then show ?thesis using spec by simp
qed

section \<open>Witnesses\<close>

definition example_gate_env :: gate_env where
  "example_gate_env = worker_env.extend WorkerSound.example_env
     \<lparr>ge_role_holders = (\<lambda>_. []), ge_iso = (\<lambda>_. ''2026-01-01T00:00:00.000Z'')\<rparr>"

definition gate_job :: dev_job where
  "gate_job = example_job\<lparr>j_status := St_waiting, j_phase := Ph_await_human, j_claimedBy := None,
     j_runnerHandle := None\<rparr>"

definition review_gate :: dev_job_gate where
  "review_gate = \<lparr>g_id = ''g1'', g_jobId = ''j1'', g_gateKind = Review_gate, g_planArtifactId = None,
     g_planSha256 = None, g_baseSha = None, g_questions = [\<lparr>q_id = ''q1'', q_text = ''which db?''\<rparr>],
     g_principalKind = Principal_user, g_principalRef = ''Alice@example.com'', g_status = Gate_waiting,
     g_answers = None, g_resolvedBy = None, g_resolvedAt = None, g_deadlineAt = Some 40, g_createdAt = 5\<rparr>"

definition gate_state :: worker_state where
  "gate_state = \<lparr>ww_db = example_db\<lparr>db_jobs := [gate_job], db_gates := [review_gate]\<rparr>, ww_writes = [],
     ww_effects = [], ww_applying = [], ww_leases = 0, ww_ticking = False\<rparr>"

definition yes_body :: resolve_body where
  "yes_body = \<lparr>rb_approved = Some True, rb_note = None, rb_answers = [\<lparr>ans_questionId = ''q1'', ans_text = ''pg''\<rparr>]\<rparr>"

lemma gate_facts:
  "gates_distinct (ww_db gate_state)" "get_gate ''g1'' (ww_db gate_state) = Some review_gate"
  "is_waiting review_gate" "g_gateKind review_gate = Review_gate" "g_jobId review_gate = ''j1''"
  "ids_distinct (ww_db gate_state)" "getJob ''j1'' (ww_db gate_state) = Some gate_job"
  "j_status gate_job = St_waiting" "j_phase gate_job = Ph_await_human" "rb_approved yes_body = Some True"
  "canonical '' alice@EXAMPLE.com'' \<in> set (holdersOf example_gate_env review_gate)" "'' alice@EXAMPLE.com'' \<noteq> []"
proof -
  show "canonical '' alice@EXAMPLE.com'' \<in> set (holdersOf example_gate_env review_gate)" by code_simp
qed (simp_all add: gates_distinct_def gate_state_def review_gate_def get_gate_def is_waiting_def ids_distinct_def
    gate_job_def getJob_def example_defs yes_body_def)

theorem approval_requeues_witness:
  "\<exists>w' j. resolve_route example_gate_env 50 '' alice@EXAMPLE.com'' ''g1'' yes_body gate_state =
       (w', Gate_ok ''j1'' Gate_resolved False) \<and>
     getJob ''j1'' (ww_db w') = Some j \<and> j_status j = St_queued \<and> j_phase j = Ph_implement"
proof -
  obtain w' r where "resolve_route example_gate_env 50 '' alice@EXAMPLE.com'' ''g1'' yes_body gate_state = (w', r)"
    by fastforce
  from approval_requeues[OF this gate_facts(10,12,1,2,3,4,11,6), of gate_job] this
  show ?thesis by (auto simp: gate_facts)
qed

lemma gate_state_moves:
  "map_option j_status (getJob ''j1'' (ww_db (fst
     (resolve_route example_gate_env 50 '' alice@EXAMPLE.com'' ''g1'' yes_body gate_state)))) = Some St_queued"
  by code_simp



theorem deadline_pass_witness:
  "\<exists>w'. gateDeadlineTick example_gate_env 50 (\<lambda>_. False) gate_state = (w', 1) \<and>
     map_option j_status (getJob ''j1'' (ww_db w')) = Some St_cancelled"
proof -
  obtain w' n where t: "gateDeadlineTick example_gate_env 50 (\<lambda>_. False) gate_state = (w', n)" by fastforce
  have due: "listDue 50 (ww_db gate_state) = [review_gate]"
    by (simp add: listDue_def gate_state_def review_gate_def is_waiting_def)
  show ?thesis
    using deadline_pass_exact[OF t gate_facts(1,6)] t
    by (simp add: due gate_facts cancelled_row_def non_terminal_def finish_set_def)
qed

end
