(* ===== verification/EventTail.thy ===== *)
theory EventTail
  imports EventInv DiffApply
begin

text \<open>
  The live tail of a job's events: the in-process bus (\<open>devJobEventBus.ts\<close>) and the reader of
  \<open>GET /jobs/:id/events\<close> (\<open>routes/devPlatform.ts\<close>).  A reader subscribes, replays the log in pages,
  flushes what the bus delivered meanwhile and then forwards the bus.  Commits, publications, page
  reads and the handling of a page are separate steps in any order; between two awaits the code runs
  alone, so the handling of one page is one step.  \<open>works\<close> tells for which events the socket
  accepts the write.  Retention is not a step: no event is deleted while a reader is attached.
\<close>

section \<open>The bus\<close>

text \<open>Listeners are numbered; an emitter is the list of its listeners in subscription order.\<close>

type_synonym event_bus = "string \<Rightarrow> nat list option"

definition subscribe :: "string \<Rightarrow> nat \<Rightarrow> event_bus \<Rightarrow> event_bus" where
  "subscribe jobId l b = b(jobId \<mapsto> (case b jobId of None \<Rightarrow> [] | Some ls \<Rightarrow> ls) @ [l])"

definition unsubscribe :: "string \<Rightarrow> nat \<Rightarrow> event_bus \<Rightarrow> event_bus" where
  "unsubscribe jobId l b =
     (case b jobId of None \<Rightarrow> b
      | Some ls \<Rightarrow> (let ls' = remove1 l ls in b(jobId := if ls' = [] then None else Some ls')))"

definition publish :: "(nat \<Rightarrow> 'e \<Rightarrow> 's \<Rightarrow> 's) \<Rightarrow> string \<Rightarrow> 'e \<Rightarrow> event_bus \<Rightarrow> 's \<Rightarrow> 's" where
  "publish run jobId ev b s = fold (\<lambda>l. run l ev) (case b jobId of None \<Rightarrow> [] | Some ls \<Rightarrow> ls) s"

definition listenerCount :: "string \<Rightarrow> event_bus \<Rightarrow> nat" where
  "listenerCount jobId b = (case b jobId of None \<Rightarrow> 0 | Some ls \<Rightarrow> length ls)"

lemma listenerCount_subscribe [simp]:
  "listenerCount j (subscribe k l b) = listenerCount j b + (if j = k then 1 else 0)"
  by (auto simp: listenerCount_def subscribe_def split: option.splits)

text \<open>No emitter outlives its last listener.\<close>

definition bus_ok :: "event_bus \<Rightarrow> bool" where
  "bus_ok b \<longleftrightarrow> (\<forall>j. b j \<noteq> Some [])"

lemma subscribe_ok: "bus_ok b \<Longrightarrow> bus_ok (subscribe j l b)"
  by (auto simp: bus_ok_def subscribe_def)

lemma unsubscribe_ok: "bus_ok b \<Longrightarrow> bus_ok (unsubscribe j l b)"
  by (auto simp: bus_ok_def unsubscribe_def Let_def split: option.splits)

lemma unsubscribe_subscribe:
  assumes "bus_ok b" "l \<notin> set (case b j of None \<Rightarrow> [] | Some ls \<Rightarrow> ls)"
  shows "unsubscribe j l (subscribe j l b) = b"
  using assms by (auto simp: bus_ok_def unsubscribe_def subscribe_def Let_def remove1_append split: option.splits)

section \<open>The reader\<close>

definition SSE_REPLAY_PAGE :: nat where "SSE_REPLAY_PAGE = 500"

definition isTerminalStatusEvent :: "dev_job_event \<Rightarrow> bool" where
  "isTerminalStatusEvent ev \<longleftrightarrow>
     (if e_type ev \<noteq> Ev_status then False
      else case json_field ''status'' (e_payload ev) of
        Some (JStr s) \<Rightarrow> (case dev_job_status_of s of None \<Rightarrow> False | Some st \<Rightarrow> isTerminalDevJobStatus st)
      | _ \<Rightarrow> False)"

definition readAfterId :: "string option \<Rightarrow> string option \<Rightarrow> nat option" where
  "readAfterId header q =
     (let raw = (case header of Some h \<Rightarrow> if h \<noteq> [] then h else (case q of Some s \<Rightarrow> s | None \<Rightarrow> [])
                 | None \<Rightarrow> (case q of Some s \<Rightarrow> s | None \<Rightarrow> []))
      in case parseInt raw of None \<Rightarrow> None | Some n \<Rightarrow> if n \<ge> 0 then Some (nat n) else None)"

record tail_reader =
  rd_closed :: bool
  rd_lastSentId :: "nat option"
  rd_replaying :: bool
  rd_pending :: "dev_job_event list"
  rd_out :: "dev_job_event list"

definition open_reader :: "nat option \<Rightarrow> tail_reader" where
  "open_reader afterId = \<lparr>rd_closed = False, rd_lastSentId = afterId, rd_replaying = True, rd_pending = [],
     rd_out = []\<rparr>"

definition close_reader :: "tail_reader \<Rightarrow> tail_reader" where
  "close_reader r = r\<lparr>rd_closed := True\<rparr>"

definition beyond :: "nat option \<Rightarrow> dev_job_event \<Rightarrow> bool" where
  "beyond sent ev \<longleftrightarrow> (case sent of None \<Rightarrow> True | Some l \<Rightarrow> l < e_id ev)"

definition writeEvent :: "(dev_job_event \<Rightarrow> bool) \<Rightarrow> dev_job_event \<Rightarrow> tail_reader \<Rightarrow> tail_reader" where
  "writeEvent works ev r =
     (if rd_closed r \<or> \<not> beyond (rd_lastSentId r) ev then r
      else if \<not> works ev then close_reader r
      else
        (let r1 = r\<lparr>rd_out := rd_out r @ [ev], rd_lastSentId := Some (e_id ev)\<rparr>
         in if isTerminalStatusEvent ev then close_reader r1 else r1))"

definition on_bus :: "(dev_job_event \<Rightarrow> bool) \<Rightarrow> dev_job_event \<Rightarrow> tail_reader \<Rightarrow> tail_reader" where
  "on_bus works ev r =
     (if rd_closed r then r
      else if rd_replaying r then r\<lparr>rd_pending := rd_pending r @ [ev]\<rparr>
      else writeEvent works ev r)"

definition flush_pending :: "(dev_job_event \<Rightarrow> bool) \<Rightarrow> tail_reader \<Rightarrow> tail_reader" where
  "flush_pending works r =
     fold (writeEvent works) (rd_pending r) (r\<lparr>rd_replaying := False, rd_pending := []\<rparr>)"

section \<open>One attached reader\<close>

text \<open>Where the route stands: about to query a page, with a page in hand, about to look whether the job
  has ended, or forwarding the bus.\<close>

datatype tail_pc = Tail_query | Tail_page "dev_job_event list" | Tail_final | Tail_live

record tail_state =
  tl_db :: dev_db
  tl_unpublished :: "dev_job_event list"
  tl_reader :: tail_reader
  tl_pc :: tail_pc

datatype tail_act =
    Commit dev_job_event
  | Other_write dev_db
  | Publish dev_job_event
  | Query_page
  | Handle_page
  | Final_check
  | Disconnect

definition job_log :: "string \<Rightarrow> dev_db \<Rightarrow> dev_job_event list" where
  "job_log jobId db = filter (\<lambda>e. e_jobId e = jobId) (db_events db)"

definition handle_page :: "(dev_job_event \<Rightarrow> bool) \<Rightarrow> dev_job_event list \<Rightarrow> tail_state \<Rightarrow> tail_state" where
  "handle_page works page s =
     (let r = fold (writeEvent works) page (tl_reader s) in
      if page \<noteq> [] \<and> rd_closed r then s\<lparr>tl_reader := r, tl_pc := Tail_live\<rparr>
      else if length page < SSE_REPLAY_PAGE then s\<lparr>tl_reader := flush_pending works r, tl_pc := Tail_final\<rparr>
      else s\<lparr>tl_reader := r, tl_pc := Tail_query\<rparr>)"

definition final_check :: "string \<Rightarrow> tail_state \<Rightarrow> tail_state" where
  "final_check jobId s =
     (let ended = (case getJob jobId (tl_db s) of None \<Rightarrow> False | Some j \<Rightarrow> isTerminalDevJobStatus (j_status j))
      in s\<lparr>tl_reader := if ended then close_reader (tl_reader s) else tl_reader s, tl_pc := Tail_live\<rparr>)"

text \<open>\<open>None\<close>: the action is not possible in that state.\<close>

fun tail_do :: "(dev_job_event \<Rightarrow> bool) \<Rightarrow> string \<Rightarrow> tail_act \<Rightarrow> tail_state \<Rightarrow> tail_state option" where
  "tail_do works jobId (Commit ev) s =
     (if e_jobId ev = jobId \<and> e_id ev \<notin> e_id ` set (db_events (tl_db s))
      then Some (s\<lparr>tl_db := (tl_db s)\<lparr>db_events := db_events (tl_db s) @ [ev]\<rparr>,
                   tl_unpublished := tl_unpublished s @ [ev]\<rparr>)
      else None)"
| "tail_do works jobId (Other_write db) s =
     (if job_log jobId db = job_log jobId (tl_db s) then Some (s\<lparr>tl_db := db\<rparr>) else None)"
| "tail_do works jobId (Publish ev) s =
     (if ev \<in> set (tl_unpublished s)
      then Some (s\<lparr>tl_unpublished := remove1 ev (tl_unpublished s), tl_reader := on_bus works ev (tl_reader s)\<rparr>)
      else None)"
| "tail_do works jobId Query_page s =
     (if tl_pc s = Tail_query
      then Some (s\<lparr>tl_pc := Tail_page (listEvents jobId (rd_lastSentId (tl_reader s)) (int SSE_REPLAY_PAGE) (tl_db s))\<rparr>)
      else None)"
| "tail_do works jobId Handle_page s =
     (case tl_pc s of Tail_page page \<Rightarrow> Some (handle_page works page s) | _ \<Rightarrow> None)"
| "tail_do works jobId Final_check s =
     (if tl_pc s = Tail_final then Some (final_check jobId s) else None)"
| "tail_do works jobId Disconnect s = Some (s\<lparr>tl_reader := close_reader (tl_reader s)\<rparr>)"

text \<open>An orderly history commits a job's events in the order of their ids and publishes them in the
  order of their commits; nothing in the store enforces either.\<close>

fun orderly :: "string \<Rightarrow> tail_act \<Rightarrow> tail_state \<Rightarrow> bool" where
  "orderly jobId (Commit ev) s = (\<forall>e\<in>set (job_log jobId (tl_db s)). e_id e < e_id ev)"
| "orderly jobId (Publish ev) s = (tl_unpublished s \<noteq> [] \<and> ev = hd (tl_unpublished s))"
| "orderly jobId _ s = True"

definition attach :: "nat option \<Rightarrow> dev_db \<Rightarrow> dev_job_event list \<Rightarrow> tail_state" where
  "attach afterId db unpub =
     \<lparr>tl_db = db, tl_unpublished = unpub, tl_reader = open_reader afterId, tl_pc = Tail_query\<rparr>"

inductive tail_reach :: "(dev_job_event \<Rightarrow> bool) \<Rightarrow> string \<Rightarrow> bool \<Rightarrow> tail_state \<Rightarrow> tail_state \<Rightarrow> bool"
  for works :: "dev_job_event \<Rightarrow> bool" and jobId :: string and ord :: bool and s0 :: tail_state where
  tail_start: "tail_reach works jobId ord s0 s0"
| tail_act: "\<lbrakk>tail_reach works jobId ord s0 s; ord \<longrightarrow> orderly jobId a s; tail_do works jobId a s = Some s'\<rbrakk>
    \<Longrightarrow> tail_reach works jobId ord s0 s'"

end
