(* ===== verification/TailSound.thy ===== *)
theory TailSound
  imports EventTail
begin

text \<open>
  What an attached reader receives.  Always: no event twice, none out of order, none it may not see.
  In an orderly history also everything: the output is a prefix of the log after the resume point, all
  of it once the reader is live and the bus has delivered.  Without order an event is lost for good,
  and the replay loop ends on any log.
\<close>

section \<open>Writing in the order of the log\<close>

definition id_sorted :: "dev_job_event list \<Rightarrow> bool" where
  "id_sorted es \<longleftrightarrow> sorted_wrt (<) (map e_id es)"

definition sent_ok :: "nat option \<Rightarrow> dev_job_event list \<Rightarrow> tail_reader \<Rightarrow> bool" where
  "sent_ok a0 L r \<longleftrightarrow>
     rd_out r = filter (\<lambda>e. \<not> beyond (rd_lastSentId r) e \<and> beyond a0 e) L \<and>
     (\<forall>e. beyond (rd_lastSentId r) e \<longrightarrow> beyond a0 e) \<and>
     (rd_lastSentId r = a0 \<or> (\<exists>e\<in>set L. rd_lastSentId r = Some (e_id e)))"

lemma id_sorted_simps [simp]:
  "id_sorted []" "id_sorted (e # es) \<longleftrightarrow> (\<forall>x\<in>set es. e_id e < e_id x) \<and> id_sorted es"
  by (auto simp: id_sorted_def)

lemma id_sorted_append [simp]:
  "id_sorted (xs @ ys) \<longleftrightarrow> id_sorted xs \<and> id_sorted ys \<and> (\<forall>x\<in>set xs. \<forall>y\<in>set ys. e_id x < e_id y)"
  by (auto simp: id_sorted_def sorted_wrt_append)

lemma id_sorted_inj: "\<lbrakk>id_sorted L; x \<in> set L; y \<in> set L; e_id x = e_id y\<rbrakk> \<Longrightarrow> x = y"
  by (induction L) auto

lemma id_sorted_filter: "id_sorted L \<Longrightarrow> id_sorted (filter p L)"
  by (induction L) auto

lemma id_sorted_sort: "id_sorted L \<Longrightarrow> sort_key e_id L = L"
  by (induction L) (simp_all add: insort_is_Cons less_imp_le)

lemma beyond_simps [simp]: "beyond (Some l) e \<longleftrightarrow> l < e_id e" "beyond None e"
  by (simp_all add: beyond_def)

lemma write_in_order:
  assumes L: "id_sorted L" and ok: "sent_ok a0 L r" and ev: "ev \<in> set L"
    and first: "\<forall>e\<in>set L. beyond (rd_lastSentId r) e \<longrightarrow> e_id ev \<le> e_id e"
  shows "sent_ok a0 L (writeEvent works ev r) \<and>
    (\<not> rd_closed (writeEvent works ev r) \<longrightarrow>
      (\<forall>e\<in>set L. beyond (rd_lastSentId (writeEvent works ev r)) e \<longleftrightarrow>
         beyond (rd_lastSentId r) e \<and> e \<noteq> ev))"
proof (cases "rd_closed r \<or> \<not> beyond (rd_lastSentId r) ev \<or> \<not> works ev")
  case True
  then show ?thesis using ok by (auto simp: writeEvent_def close_reader_def sent_ok_def)
next
  case False
  obtain L1 L2 where split: "L = L1 @ ev # L2" using ev by (meson split_list)
  have before: "\<forall>e\<in>set L1. e_id e < e_id ev" and after: "\<forall>e\<in>set L2. e_id ev < e_id e"
    using L unfolding split by auto
  have b1: "\<forall>e\<in>set L1. \<not> beyond (rd_lastSentId r) e"
    using first before unfolding split by (metis Un_iff not_less set_append)
  have b2: "\<forall>e\<in>set L2. beyond (rd_lastSentId r) e"
    using False after by (auto simp: beyond_def split: option.splits)
  have a: "beyond a0 ev" "\<forall>e. e_id ev < e_id e \<longrightarrow> beyond a0 e"
  proof -
    show "beyond a0 ev" using ok False by (auto simp: sent_ok_def)
    then show "\<forall>e. e_id ev < e_id e \<longrightarrow> beyond a0 e" by (auto simp: beyond_def split: option.splits)
  qed
  have out: "rd_out r @ [ev] = filter (\<lambda>e. \<not> beyond (Some (e_id ev)) e \<and> beyond a0 e) L"
  proof -
    have "rd_out r = filter (beyond a0) L1"
      using ok b1 b2 False unfolding split sent_ok_def by (auto intro!: filter_cong)
    moreover have "filter (\<lambda>e. \<not> beyond (Some (e_id ev)) e \<and> beyond a0 e) L1 = filter (beyond a0) L1"
      using before by (intro filter_cong) auto
    moreover have "filter (\<lambda>e. \<not> beyond (Some (e_id ev)) e \<and> beyond a0 e) L2 = []"
      using after by (auto simp: filter_empty_conv)
    ultimately show ?thesis using a unfolding split by simp
  qed
  let ?r = "writeEvent works ev r"
  have f: "rd_out ?r = rd_out r @ [ev]" "rd_lastSentId ?r = Some (e_id ev)"
    using False by (auto simp: writeEvent_def close_reader_def Let_def)
  have "sent_ok a0 L ?r" using out ev a by (auto simp: sent_ok_def f)
  moreover have "\<forall>e\<in>set L. e_id ev < e_id e \<longleftrightarrow> beyond (rd_lastSentId r) e \<and> e \<noteq> ev"
    using b1 b2 before after unfolding split by fastforce
  ultimately show ?thesis by (simp add: f)
qed

lemma fold_write_closed: "rd_closed r \<Longrightarrow> fold (writeEvent works) ps r = r"
  by (induction ps) (simp_all add: writeEvent_def)

lemma write_in_order_all:
  assumes "id_sorted L" "sent_ok a0 L r" "id_sorted ps" "set ps \<subseteq> set L"
    and "\<forall>e\<in>set L. beyond (rd_lastSentId r) e \<longrightarrow> e \<in> set ps \<or> (\<forall>p\<in>set ps. e_id p < e_id e)"
  shows "sent_ok a0 L (fold (writeEvent works) ps r) \<and>
    (\<not> rd_closed (fold (writeEvent works) ps r) \<longrightarrow>
      (\<forall>e\<in>set L. beyond (rd_lastSentId (fold (writeEvent works) ps r)) e \<longleftrightarrow>
         beyond (rd_lastSentId r) e \<and> e \<notin> set ps))"
  using assms(2-5)
proof (induction ps arbitrary: r)
  case (Cons p ps)
  have first: "\<forall>e\<in>set L. beyond (rd_lastSentId r) e \<longrightarrow> e_id p \<le> e_id e"
    using Cons.prems(2,4) by (auto intro: less_imp_le)
  have w: "sent_ok a0 L (writeEvent works p r)"
      "\<not> rd_closed (writeEvent works p r) \<longrightarrow>
        (\<forall>e\<in>set L. beyond (rd_lastSentId (writeEvent works p r)) e \<longleftrightarrow> beyond (rd_lastSentId r) e \<and> e \<noteq> p)"
    using write_in_order[OF assms(1) Cons.prems(1) _ first, of works] Cons.prems(3) by auto
  show ?case
  proof (cases "rd_closed (writeEvent works p r)")
    case True
    then show ?thesis using w(1) by (simp add: fold_write_closed)
  next
    case False
    have "\<forall>e\<in>set L. beyond (rd_lastSentId (writeEvent works p r)) e \<longrightarrow>
        e \<in> set ps \<or> (\<forall>q\<in>set ps. e_id q < e_id e)"
      using w(2) False Cons.prems(4) by auto
    with Cons.IH[OF w(1)] Cons.prems(2,3) w(2) False show ?thesis by auto
  qed
qed simp

section \<open>An orderly history\<close>

definition page_ok :: "tail_reader \<Rightarrow> dev_job_event list \<Rightarrow> dev_job_event list \<Rightarrow> dev_job_event list \<Rightarrow> bool" where
  "page_ok r us L pg \<longleftrightarrow>
     (\<exists>Q R. filter (beyond (rd_lastSentId r)) L = Q @ R \<and> pg = take SSE_REPLAY_PAGE Q \<and>
        set R \<subseteq> set (rd_pending r @ us))"

definition caught_up :: "dev_job_event list \<Rightarrow> tail_state \<Rightarrow> bool" where
  "caught_up L s \<longleftrightarrow>
     (let r = tl_reader s in
      (\<exists>k. rd_pending r @ tl_unpublished s = drop k L) \<and>
      (rd_replaying r \<longleftrightarrow> tl_pc s = Tail_query \<or> (\<exists>pg. tl_pc s = Tail_page pg)) \<and>
      (\<not> rd_replaying r \<longrightarrow> rd_pending r = [] \<and>
         (\<forall>e\<in>set L. beyond (rd_lastSentId r) e \<longrightarrow> e \<in> set (tl_unpublished s))) \<and>
      (\<forall>pg. tl_pc s = Tail_page pg \<longrightarrow> page_ok r (tl_unpublished s) L pg))"

definition tail_inv :: "string \<Rightarrow> nat option \<Rightarrow> tail_state \<Rightarrow> bool" where
  "tail_inv jobId a0 s \<longleftrightarrow>
     (let L = job_log jobId (tl_db s) in
      id_sorted L \<and> sent_ok a0 L (tl_reader s) \<and> (\<not> rd_closed (tl_reader s) \<longrightarrow> caught_up L s))"

lemma sent_ok_commit:
  assumes "sent_ok a0 L r" "\<forall>e\<in>set L. e_id e < e_id ev"
  shows "sent_ok a0 (L @ [ev]) r"
  using assms by (auto simp: sent_ok_def)

lemma list_page: "id_sorted (job_log i db) \<Longrightarrow>
    listEvents i sent (int SSE_REPLAY_PAGE) db = take SSE_REPLAY_PAGE (filter (beyond sent) (job_log i db))"
proof -
  assume s: "id_sorted (job_log i db)"
  have "filter (\<lambda>e. e_jobId e = i \<and> (case sent of None \<Rightarrow> True | Some a \<Rightarrow> a < e_id e)) (db_events db) =
      filter (beyond sent) (job_log i db)"
    by (simp add: job_log_def beyond_def conj_commute)
  then show ?thesis
    using id_sorted_sort[OF id_sorted_filter[OF s]]
    by (simp add: listEvents_def SSE_REPLAY_PAGE_def)
qed

lemma drop_Cons_eq: "drop k L = x # xs \<Longrightarrow> drop (Suc k) L = xs"
  by (metis drop_Suc list.sel(3) tl_drop)

lemma drop_snoc: "drop k L = xs \<Longrightarrow> \<exists>k'. xs @ [x] = drop k' (L @ [x])"
proof -
  assume "drop k L = xs"
  then have "drop (min k (length L)) (L @ [x]) = xs @ [x]" by (cases "k \<le> length L") auto
  then show ?thesis by metis
qed

lemma id_sorted_drop: "id_sorted L \<Longrightarrow> id_sorted (drop k L)"
  by (metis append_take_drop_id id_sorted_append)

lemma flush_ok:
  assumes L: "id_sorted L" and ok: "sent_ok a0 L r" and d: "rd_pending r @ us = drop k L"
    and b: "\<forall>e\<in>set L. beyond (rd_lastSentId r) e \<longrightarrow> e \<in> set (rd_pending r @ us)"
  shows "sent_ok a0 L (flush_pending works r) \<and>
    (\<not> rd_closed (flush_pending works r) \<longrightarrow> (\<forall>e\<in>set L. beyond (rd_lastSentId (flush_pending works r)) e \<longrightarrow> e \<in> set us))"
proof -
  let ?ps = "rd_pending r" and ?r = "r\<lparr>rd_replaying := False, rd_pending := []\<rparr>"
  have s: "id_sorted (?ps @ us)" "set (?ps @ us) \<subseteq> set L"
    using id_sorted_drop[OF L, of k] set_drop_subset[of k L] by (simp_all only: d)
  have "sent_ok a0 L ?r" using ok by (simp add: sent_ok_def)
  moreover have "\<forall>e\<in>set L. beyond (rd_lastSentId ?r) e \<longrightarrow> e \<in> set ?ps \<or> (\<forall>p\<in>set ?ps. e_id p < e_id e)"
    using s(1) b by auto
  ultimately show ?thesis
    using write_in_order_all[OF L, of a0 ?r ?ps works] s b by (auto simp: flush_pending_def)
qed

lemma writes_keep_mode [simp]:
  "rd_pending (writeEvent works e r) = rd_pending r" "rd_replaying (writeEvent works e r) = rd_replaying r"
  by (auto simp: writeEvent_def close_reader_def Let_def)

lemma fold_keeps_mode [simp]:
  "rd_pending (fold (writeEvent works) ps r) = rd_pending r"
  "rd_replaying (fold (writeEvent works) ps r) = rd_replaying r"
  by (induction ps arbitrary: r) simp_all

lemma flush_mode [simp]: "rd_pending (flush_pending works r) = []" "\<not> rd_replaying (flush_pending works r)"
  by (simp_all add: flush_pending_def)


lemma handle_page_ok:
  assumes inv: "tail_inv i a0 s" and pc: "tl_pc s = Tail_page pg"
  shows "tail_inv i a0 (handle_page works pg s)"
proof -
  let ?L = "job_log i (tl_db s)" and ?r = "tl_reader s"
  let ?r1 = "fold (writeEvent works) pg ?r"
  have L: "id_sorted ?L" and ok: "sent_ok a0 ?L ?r" using inv by (simp_all add: tail_inv_def Let_def)
  show ?thesis
  proof (cases "rd_closed ?r")
    case True
    then show ?thesis
      using L ok by (auto simp: tail_inv_def handle_page_def Let_def fold_write_closed flush_pending_def sent_ok_def)
  next
    case open_: False
    have "caught_up ?L s" using inv open_ by (simp add: tail_inv_def Let_def)
    note cu = this[unfolded caught_up_def Let_def]
    obtain k where "rd_pending ?r @ tl_unpublished s = drop k ?L" using cu by blast
    moreover have "rd_replaying ?r" using cu pc by blast
    moreover have "page_ok ?r (tl_unpublished s) ?L pg" using cu pc by blast
    then obtain Q R where "filter (beyond (rd_lastSentId ?r)) ?L = Q @ R" "pg = take SSE_REPLAY_PAGE Q"
        "set R \<subseteq> set (rd_pending ?r @ tl_unpublished s)" unfolding page_ok_def by blast
    ultimately obtain k Q R where q: "rd_pending ?r @ tl_unpublished s = drop k ?L" "rd_replaying ?r"
        "filter (beyond (rd_lastSentId ?r)) ?L = Q @ R" "pg = take SSE_REPLAY_PAGE Q"
        "set R \<subseteq> set (rd_pending ?r @ tl_unpublished s)"
      by blast
    have "tl_unpublished s = drop (length (rd_pending ?r)) (drop k ?L)"
      using q(1) by (metis append_eq_conv_conj)
    then have rest: "\<exists>k. tl_unpublished s = drop k ?L" by auto
    have sQ: "id_sorted (Q @ R)" "set (Q @ R) \<subseteq> set ?L" "set (Q @ R) = {e \<in> set ?L. beyond (rd_lastSentId ?r) e}"
      using id_sorted_filter[OF L] q(3) by (metis filter_is_subset set_filter)+
    have pgs: "Q = pg @ drop SSE_REPLAY_PAGE Q" by (simp add: q(4))
    have sp: "id_sorted pg" "set pg \<subseteq> set ?L"
      using sQ(1,2) pgs by (metis id_sorted_append, metis Un_iff append_take_drop_id q(4) set_append subset_iff)
    have "\<forall>e\<in>set ?L. beyond (rd_lastSentId ?r) e \<longrightarrow> e \<in> set pg \<or> (\<forall>p\<in>set pg. e_id p < e_id e)"
    proof (intro ballI impI)
      fix e assume e: "e \<in> set ?L" "beyond (rd_lastSentId ?r) e"
      then have "e \<in> set (pg @ (drop SSE_REPLAY_PAGE Q @ R))" using sQ(3) pgs by (metis (no_types, lifting) append_assoc mem_Collect_eq)
      moreover have "id_sorted (pg @ (drop SSE_REPLAY_PAGE Q @ R))" using sQ(1) pgs by (metis append_assoc)
      ultimately show "e \<in> set pg \<or> (\<forall>p\<in>set pg. e_id p < e_id e)" by auto
    qed
    from write_in_order_all[OF L ok sp this, of works]
    have w: "sent_ok a0 ?L ?r1" "\<not> rd_closed ?r1 \<Longrightarrow> \<forall>e\<in>set ?L. beyond (rd_lastSentId ?r1) e \<longleftrightarrow>
        beyond (rd_lastSentId ?r) e \<and> e \<notin> set pg" by auto
    consider "pg \<noteq> [] \<and> rd_closed ?r1" | "\<not> (pg \<noteq> [] \<and> rd_closed ?r1)" "length pg < SSE_REPLAY_PAGE"
      | "\<not> (pg \<noteq> [] \<and> rd_closed ?r1)" "\<not> length pg < SSE_REPLAY_PAGE" by blast
    then show ?thesis
    proof cases
      case 1
      then show ?thesis using L w(1) by (simp add: tail_inv_def handle_page_def Let_def)
    next
      case 2
      then have "pg = Q" using q(4) by simp
      moreover have "\<not> rd_closed ?r1" using 2 open_ by (cases "pg = []") auto
      ultimately have "\<forall>e\<in>set ?L. beyond (rd_lastSentId ?r1) e \<longrightarrow> e \<in> set (rd_pending ?r1 @ tl_unpublished s)"
        using w(2) sQ(3) q(5) by auto
      with flush_ok[OF L w(1), of "tl_unpublished s" k works] q(1) 2 show ?thesis
        using L rest by (auto simp: tail_inv_def handle_page_def Let_def caught_up_def)
    next
      case 3
      then show ?thesis using L w(1) q(1,2) by (auto simp: tail_inv_def handle_page_def Let_def caught_up_def)
    qed
  qed
qed

lemma on_bus_ok:
  assumes inv: "tail_inv i a0 s" and u: "tl_unpublished s = ev # us"
  shows "tail_inv i a0 (s\<lparr>tl_unpublished := us, tl_reader := on_bus works ev (tl_reader s)\<rparr>)"
proof -
  let ?L = "job_log i (tl_db s)" and ?r = "tl_reader s"
  have L: "id_sorted ?L" and ok: "sent_ok a0 ?L ?r" using inv by (simp_all add: tail_inv_def Let_def)
  consider "rd_closed ?r" | "\<not> rd_closed ?r" "rd_replaying ?r" | "\<not> rd_closed ?r" "\<not> rd_replaying ?r" by blast
  then show ?thesis
  proof cases
    case 1
    then show ?thesis using inv by (simp add: tail_inv_def on_bus_def Let_def)
  next
    case 2
    then have c: "caught_up ?L s" using inv by (simp add: tail_inv_def Let_def)
    then have "caught_up ?L (s\<lparr>tl_unpublished := us, tl_reader := on_bus works ev ?r\<rparr>)"
      using 2 u by (simp add: caught_up_def page_ok_def on_bus_def Let_def)
    then show ?thesis using 2 L ok by (simp add: tail_inv_def on_bus_def Let_def sent_ok_def)
  next
    case 3
    then have "caught_up ?L s" using inv by (simp add: tail_inv_def Let_def)
    note cu = this[unfolded caught_up_def Let_def u]
    obtain k where "rd_pending ?r @ ev # us = drop k ?L" using cu by blast
    moreover have p: "rd_pending ?r = []" using cu 3(2) by blast
    ultimately have c: "ev # us = drop k ?L" by simp
    have b: "\<forall>e\<in>set ?L. beyond (rd_lastSentId ?r) e \<longrightarrow> e \<in> set (ev # us)" using cu 3(2) by blast
    have pc: "\<nexists>pg. tl_pc s = Tail_page pg" "tl_pc s \<noteq> Tail_query" using cu 3(2) by blast+
    have ids: "id_sorted (ev # us)" "ev \<in> set ?L"
      using id_sorted_drop[OF L, of k] c set_drop_subset[of k ?L] by (simp_all del: id_sorted_simps) (metis list.set_intros(1) subsetD)
    have "\<forall>e\<in>set ?L. beyond (rd_lastSentId ?r) e \<longrightarrow> e_id ev \<le> e_id e"
      using b ids(1) by (auto intro: less_imp_le)
    note w = write_in_order[OF L ok ids(2) this, of works]
    have "us = drop (Suc k) ?L" using c drop_Cons_eq by metis
    then show ?thesis
      using w p b pc 3 L by (auto simp: tail_inv_def caught_up_def on_bus_def Let_def)
  qed
qed


lemma page_commit:
  assumes "page_ok r us L pg"
  shows "page_ok r (us @ [ev]) (L @ [ev]) pg"
proof -
  obtain Q R where q: "filter (beyond (rd_lastSentId r)) L = Q @ R" "pg = take SSE_REPLAY_PAGE Q"
      "set R \<subseteq> set (rd_pending r @ us)"
    using assms unfolding page_ok_def by blast
  have "filter (beyond (rd_lastSentId r)) (L @ [ev]) = Q @ (R @ filter (beyond (rd_lastSentId r)) [ev])"
    using q(1) by simp
  moreover have "set (R @ filter (beyond (rd_lastSentId r)) [ev]) \<subseteq> set (rd_pending r @ us @ [ev])"
    using q(3) by auto
  ultimately show ?thesis using q(2) unfolding page_ok_def by blast
qed

lemma commit_ok:
  assumes inv: "tail_inv i a0 s" and e: "e_jobId ev = i" "\<forall>e\<in>set (job_log i (tl_db s)). e_id e < e_id ev"
  shows "tail_inv i a0 (s\<lparr>tl_db := (tl_db s)\<lparr>db_events := db_events (tl_db s) @ [ev]\<rparr>,
                          tl_unpublished := tl_unpublished s @ [ev]\<rparr>)" (is "tail_inv i a0 ?s")
proof -
  let ?L = "job_log i (tl_db s)" and ?r = "tl_reader s"
  have L: "id_sorted ?L" and ok: "sent_ok a0 ?L ?r" using inv by (simp_all add: tail_inv_def Let_def)
  have log: "job_log i ((tl_db s)\<lparr>db_events := db_events (tl_db s) @ [ev]\<rparr>) = ?L @ [ev]"
    using e(1) by (simp add: job_log_def)
  have "caught_up (?L @ [ev]) ?s" if c: "caught_up ?L s"
  proof -
    note cu = c[unfolded caught_up_def Let_def]
    obtain k where "drop k ?L = rd_pending ?r @ tl_unpublished s" using cu by metis
    from drop_snoc[OF this, of ev] have "\<exists>k. rd_pending ?r @ tl_unpublished s @ [ev] = drop k (?L @ [ev])"
      by (simp only: append_assoc)
    moreover have "page_ok ?r (tl_unpublished s @ [ev]) (?L @ [ev]) pg" if "tl_pc s = Tail_page pg" for pg
      by (rule page_commit) (use cu that in blast)
    ultimately show ?thesis using cu by (simp add: caught_up_def Let_def)
  qed
  then show ?thesis
    using inv L e(2) sent_ok_commit[OF ok e(2)] by (simp add: tail_inv_def Let_def log)
qed

lemma tail_step_ok:
  assumes inv: "tail_inv i a0 s" and o: "orderly i a s" and s': "tail_do works i a s = Some s'"
  shows "tail_inv i a0 s'"
proof (cases a)
  case (Commit ev)
  then show ?thesis using s' o commit_ok[OF inv] by (auto split: if_splits)
next
  case (Other_write db)
  then show ?thesis using s' inv by (auto simp: tail_inv_def caught_up_def Let_def split: if_splits)
next
  case (Publish ev)
  then obtain us where "tl_unpublished s = ev # us" using o by (cases "tl_unpublished s") auto
  then show ?thesis using s' Publish on_bus_ok[OF inv, of ev us works] by simp
next
  case Query_page
  let ?L = "job_log i (tl_db s)"
  have pc: "tl_pc s = Tail_query" "s' = s\<lparr>tl_pc := Tail_page (take SSE_REPLAY_PAGE
      (filter (beyond (rd_lastSentId (tl_reader s))) ?L))\<rparr>"
    using s' inv Query_page by (auto simp: tail_inv_def Let_def list_page split: if_splits)
  let ?F = "filter (beyond (rd_lastSentId (tl_reader s))) ?L"
  have "page_ok (tl_reader s) us ?L (take SSE_REPLAY_PAGE ?F)" for us
    unfolding page_ok_def by (intro exI[of _ ?F] exI[of _ "[]"]) simp
  then have "caught_up ?L s'" if "caught_up ?L s"
    using that pc(1) unfolding caught_up_def Let_def pc(2) by simp
  then show ?thesis using inv by (simp add: tail_inv_def Let_def pc(2))
next
  case Handle_page
  then show ?thesis using s' handle_page_ok[OF inv] by (auto split: tail_pc.splits)
next
  case Final_check
  then show ?thesis
    using s' inv by (auto simp: tail_inv_def caught_up_def Let_def final_check_def close_reader_def sent_ok_def
        split: if_splits option.splits)
next
  case Disconnect
  then show ?thesis using s' inv by (auto simp: tail_inv_def Let_def close_reader_def sent_ok_def)
qed

lemma attach_ok: "id_sorted (job_log i db) \<Longrightarrow> us = drop k (job_log i db) \<Longrightarrow> tail_inv i a0 (attach a0 db us)"
  by (auto simp: tail_inv_def attach_def open_reader_def sent_ok_def caught_up_def Let_def)

lemma tail_reach_ok:
  assumes "tail_reach works i True s0 s" "tail_inv i a0 s0"
  shows "tail_inv i a0 s"
  using assms by (induction rule: tail_reach.induct) (auto intro: tail_step_ok)

text \<open>The part of a job's log a reader attached at \<open>a0\<close> is owed.\<close>

definition owed :: "string \<Rightarrow> nat option \<Rightarrow> dev_db \<Rightarrow> dev_job_event list" where
  "owed jobId a0 db = filter (beyond a0) (job_log jobId db)"

lemma sent_prefix:
  assumes "id_sorted L" "out = filter (\<lambda>e. \<not> beyond sent e \<and> beyond a0 e) L"
  shows "prefix out (filter (beyond a0) L)"
  using assms
proof (induction L arbitrary: out)
  case (Cons x L)
  show ?case
  proof (cases "beyond sent x")
    case True
    then have "\<forall>e\<in>set L. beyond sent e" using Cons.prems(1) by (auto simp: beyond_def split: option.splits)
    then have "out = []" using Cons.prems(2) True by (auto simp: filter_empty_conv)
    then show ?thesis by simp
  next
    case False
    then show ?thesis using Cons by auto
  qed
qed simp

text \<open>C29: the tail is lossless in an orderly history: when a job's events are committed in the order of their
  ids and published in the order of their commits, a reader attached at any point and after any
  interleaving has received exactly a prefix of the log after its resume point, and once it
  forwards the bus and nothing is left to publish it has received all of it.\<close>

theorem tail_lossless:
  assumes "id_sorted (job_log i db)" "us = drop k (job_log i db)"
    and "tail_reach works i True (attach a0 db us) s"
  shows "prefix (rd_out (tl_reader s)) (owed i a0 (tl_db s)) \<and>
    (tl_pc s \<in> {Tail_final, Tail_live} \<and> \<not> rd_closed (tl_reader s) \<and> tl_unpublished s = [] \<longrightarrow>
       rd_out (tl_reader s) = owed i a0 (tl_db s))"
proof -
  have inv: "tail_inv i a0 s" using tail_reach_ok[OF assms(3) attach_ok[OF assms(1,2)]] .
  let ?L = "job_log i (tl_db s)" and ?r = "tl_reader s"
  have out: "id_sorted ?L" "rd_out ?r = filter (\<lambda>e. \<not> beyond (rd_lastSentId ?r) e \<and> beyond a0 e) ?L"
    using inv by (simp_all add: tail_inv_def sent_ok_def Let_def)
  have "rd_out ?r = owed i a0 (tl_db s)"
    if "tl_pc s \<in> {Tail_final, Tail_live}" "\<not> rd_closed ?r" "tl_unpublished s = []"
  proof -
    have "caught_up ?L s" using inv that(2) by (simp add: tail_inv_def Let_def)
    then have "\<forall>e\<in>set ?L. \<not> beyond (rd_lastSentId ?r) e" using that by (auto simp: caught_up_def Let_def)
    then show ?thesis unfolding out(2) owed_def by (intro filter_cong) auto
  qed
  then show ?thesis using sent_prefix[OF out] by (auto simp: owed_def)
qed


section \<open>Any history\<close>

definition mono_inv :: "string \<Rightarrow> nat option \<Rightarrow> tail_state \<Rightarrow> bool" where
  "mono_inv jobId a0 s \<longleftrightarrow>
     (let L = set (job_log jobId (tl_db s)); r = tl_reader s in
      id_sorted (rd_out r) \<and> set (rd_out r) \<subseteq> L \<and> (\<forall>e\<in>set (rd_out r). \<not> beyond (rd_lastSentId r) e \<and> beyond a0 e) \<and>
      (\<forall>e. beyond (rd_lastSentId r) e \<longrightarrow> beyond a0 e) \<and>
      set (rd_pending r) \<subseteq> L \<and> set (tl_unpublished s) \<subseteq> L \<and> (\<forall>pg. tl_pc s = Tail_page pg \<longrightarrow> set pg \<subseteq> L))"

definition out_ok :: "dev_job_event set \<Rightarrow> nat option \<Rightarrow> tail_reader \<Rightarrow> bool" where
  "out_ok L a0 r \<longleftrightarrow>
     id_sorted (rd_out r) \<and> set (rd_out r) \<subseteq> L \<and> (\<forall>e\<in>set (rd_out r). \<not> beyond (rd_lastSentId r) e \<and> beyond a0 e) \<and>
     (\<forall>e. beyond (rd_lastSentId r) e \<longrightarrow> beyond a0 e)"

lemma beyond_trans: "\<lbrakk>beyond l e; \<not> beyond l d\<rbrakk> \<Longrightarrow> e_id d < e_id e"
  by (auto simp: beyond_def split: option.splits)

lemma beyond_up: "\<lbrakk>beyond l e; e_id e < e_id d\<rbrakk> \<Longrightarrow> beyond l d"
  by (auto simp: beyond_def split: option.splits)

lemma write_out_ok: "\<lbrakk>out_ok L a0 r; e \<in> L\<rbrakk> \<Longrightarrow> out_ok L a0 (writeEvent works e r)"
  using beyond_trans[of "rd_lastSentId r" e] beyond_up[of a0 e]
  by (auto simp: out_ok_def writeEvent_def close_reader_def Let_def) (meson less_asym)

lemma writes_out_ok: "\<lbrakk>out_ok L a0 r; set ps \<subseteq> L\<rbrakk> \<Longrightarrow> out_ok L a0 (fold (writeEvent works) ps r)"
  by (induction ps arbitrary: r) (auto intro: write_out_ok)

lemma flush_out_ok: "\<lbrakk>out_ok L a0 r; set (rd_pending r) \<subseteq> L\<rbrakk> \<Longrightarrow> out_ok L a0 (flush_pending works r)"
  unfolding flush_pending_def by (rule writes_out_ok) (simp_all add: out_ok_def)

lemma mono_inv_alt:
  "mono_inv i a0 s \<longleftrightarrow> (let L = set (job_log i (tl_db s)); r = tl_reader s in
     out_ok L a0 r \<and> set (rd_pending r) \<subseteq> L \<and> set (tl_unpublished s) \<subseteq> L \<and>
     (\<forall>pg. tl_pc s = Tail_page pg \<longrightarrow> set pg \<subseteq> L))"
  by (auto simp: mono_inv_def out_ok_def Let_def)

lemma close_out_ok [simp]: "out_ok L a0 (close_reader r) = out_ok L a0 r"
  "rd_pending (close_reader r) = rd_pending r"
  by (simp_all add: out_ok_def close_reader_def)

lemma out_ok_mono: "\<lbrakk>out_ok L a0 r; L \<subseteq> M\<rbrakk> \<Longrightarrow> out_ok M a0 r"
  by (auto simp: out_ok_def)

lemma list_page_sub: "set (listEvents i a n db) \<subseteq> set (job_log i db)"
  by (auto simp: listEvents_def job_log_def dest!: in_set_takeD)

lemma on_bus_out_ok:
  "\<lbrakk>out_ok L a0 r; e \<in> L; set (rd_pending r) \<subseteq> L\<rbrakk> \<Longrightarrow>
     out_ok L a0 (on_bus works e r) \<and> set (rd_pending (on_bus works e r)) \<subseteq> L"
  using write_out_ok[of L a0 r e works] by (auto simp: on_bus_def) (auto simp: out_ok_def)

lemma mono_step:
  assumes "mono_inv i a0 s" "tail_do works i a s = Some s'"
  shows "mono_inv i a0 s'"
proof (cases a)
  case (Handle_page)
  then obtain pg where pg: "tl_pc s = Tail_page pg" "s' = handle_page works pg s"
    using assms(2) by (auto split: tail_pc.splits)
  let ?L = "set (job_log i (tl_db s))"
  have "out_ok ?L a0 (fold (writeEvent works) pg (tl_reader s))" "set (rd_pending (tl_reader s)) \<subseteq> ?L"
    using assms(1) pg(1) by (auto simp: mono_inv_alt Let_def intro: writes_out_ok)
  with flush_out_ok[of ?L a0 "fold (writeEvent works) pg (tl_reader s)" works] show ?thesis
    using assms(1) pg(2) by (auto simp: mono_inv_alt handle_page_def Let_def)
next
  case (Commit ev)
  then show ?thesis
    using assms by (auto simp: mono_inv_alt job_log_def Let_def split: if_splits intro: out_ok_mono)
next
  case (Publish ev)
  let ?L = "set (job_log i (tl_db s))"
  have "out_ok ?L a0 (tl_reader s)" "ev \<in> ?L" "set (rd_pending (tl_reader s)) \<subseteq> ?L"
    using assms Publish by (auto simp: mono_inv_alt Let_def split: if_splits)
  note b = on_bus_out_ok[OF this, of works]
  show ?thesis
    using assms Publish b by (auto simp: mono_inv_alt Let_def split: if_splits dest!: subsetD[OF set_remove1_subset])
qed (use assms in \<open>auto simp: mono_inv_alt Let_def final_check_def split: if_splits dest!: subsetD[OF list_page_sub]\<close>)

text \<open>Whatever the order of commits and publications, a reader never receives an event twice, never one
  with a smaller id after a larger one, never one of another job and none at or before its resume point.\<close>

theorem tail_never_regresses:
  assumes "set us \<subseteq> set (job_log i db)" "tail_reach works i False (attach a0 db us) s"
  shows "sorted_wrt (<) (map e_id (rd_out (tl_reader s))) \<and> set (rd_out (tl_reader s)) \<subseteq> set (owed i a0 (tl_db s))"
proof -
  have "mono_inv i a0 s"
    using assms(2)
  proof induction
    case tail_start
    then show ?case using assms(1) by (simp add: mono_inv_def attach_def open_reader_def Let_def)
  qed (auto intro: mono_step)
  then show ?thesis by (auto simp: mono_inv_def Let_def id_sorted_def owed_def)
qed

definition missed :: "dev_job_event \<Rightarrow> tail_reader \<Rightarrow> bool" where
  "missed e r \<longleftrightarrow> e \<notin> set (rd_out r) \<and> \<not> beyond (rd_lastSentId r) e"

lemma write_missed: "missed e r \<Longrightarrow> missed e (writeEvent works d r)"
  using beyond_trans[of "rd_lastSentId r" d e] by (auto simp: missed_def writeEvent_def close_reader_def Let_def)

lemma writes_missed: "missed e r \<Longrightarrow> missed e (fold (writeEvent works) ps r)"
  by (induction ps arbitrary: r) (auto intro: write_missed)

lemma missed_simps [simp]:
  "missed e (close_reader r) = missed e r" "missed e (r\<lparr>rd_replaying := b\<rparr>) = missed e r"
  "missed e (r\<lparr>rd_pending := ps\<rparr>) = missed e r"
  by (simp_all add: missed_def close_reader_def)

lemma flush_missed: "missed e r \<Longrightarrow> missed e (flush_pending works r)"
  unfolding flush_pending_def by (rule writes_missed) simp

lemma missed_step: "\<lbrakk>missed e (tl_reader s); tail_do works i a s = Some s'\<rbrakk> \<Longrightarrow> missed e (tl_reader s')"
  by (cases a) (auto simp: handle_page_def final_check_def on_bus_def Let_def
      intro!: write_missed writes_missed flush_missed split: if_splits tail_pc.splits option.splits)

text \<open>A late event is lost: an event that was not sent when the reader's last sent id had already passed
  its id is never sent by that reader, whatever happens next, whether the event is committed or
  published late or is still in the log.\<close>

theorem late_event_lost:
  assumes "tail_reach works i ord s s'"
    and "e \<notin> set (rd_out (tl_reader s))" "rd_lastSentId (tl_reader s) = Some l" "e_id e \<le> l"
  shows "e \<notin> set (rd_out (tl_reader s'))"
proof -
  have "missed e (tl_reader s')"
    using assms(1)
  proof induction
    case tail_start
    then show ?case using assms(2-4) by (simp add: missed_def)
  qed (auto intro: missed_step)
  then show ?thesis by (simp add: missed_def)
qed


section \<open>The replay loop ends\<close>

definition replay_round :: "(dev_job_event \<Rightarrow> bool) \<Rightarrow> string \<Rightarrow> tail_state \<Rightarrow> tail_state" where
  "replay_round works jobId s =
     (case tail_do works jobId Query_page s of
        None \<Rightarrow> s
      | Some s1 \<Rightarrow> (case tail_do works jobId Handle_page s1 of None \<Rightarrow> s1 | Some s2 \<Rightarrow> s2))"

definition unsent :: "string \<Rightarrow> tail_state \<Rightarrow> dev_job_event list" where
  "unsent jobId s = filter (beyond (rd_lastSentId (tl_reader s))) (job_log jobId (tl_db s))"

lemma replay_round_query:
  assumes "tl_pc s = Tail_query" "id_sorted (job_log i (tl_db s))"
  shows "replay_round works i s =
    handle_page works (take SSE_REPLAY_PAGE (unsent i s)) (s\<lparr>tl_pc := Tail_page (take SSE_REPLAY_PAGE (unsent i s))\<rparr>)"
  using assms by (simp add: replay_round_def list_page unsent_def)

lemma filter_after:
  "\<forall>x\<in>set xs. \<forall>y\<in>set ys. e_id x < e_id y \<Longrightarrow> filter (\<lambda>e. e \<notin> set xs) (xs @ ys) = ys"
  by (auto simp: filter_empty_conv intro!: filter_True)

lemma round_shrinks:
  assumes inv: "tail_inv i a0 s" and pc: "tl_pc s = Tail_query"
    and again: "tl_pc (replay_round works i s) = Tail_query"
  shows "length (unsent i (replay_round works i s)) + SSE_REPLAY_PAGE \<le> length (unsent i s)"
proof -
  let ?L = "job_log i (tl_db s)" and ?r = "tl_reader s" and ?U = "unsent i s"
  let ?pg = "take SSE_REPLAY_PAGE ?U"
  let ?r1 = "fold (writeEvent works) ?pg ?r"
  have L: "id_sorted ?L" and ok: "sent_ok a0 ?L ?r" using inv by (simp_all add: tail_inv_def Let_def)
  have U: "id_sorted ?U" "set ?U = {e \<in> set ?L. beyond (rd_lastSentId ?r) e}"
    using id_sorted_filter[OF L] by (auto simp: unsent_def)
  have run: "replay_round works i s = s\<lparr>tl_reader := ?r1, tl_pc := Tail_query\<rparr>"
      and full: "SSE_REPLAY_PAGE \<le> length ?U" and open_: "?pg = [] \<or> \<not> rd_closed ?r1"
    using again unfolding replay_round_query[OF pc L]
    by (auto simp: handle_page_def Let_def min_def split: if_splits)
  have split: "?U = ?pg @ drop SSE_REPLAY_PAGE ?U" by simp
  then have sp: "id_sorted ?pg" "\<forall>x\<in>set ?pg. \<forall>y\<in>set (drop SSE_REPLAY_PAGE ?U). e_id x < e_id y"
    using U(1) by (metis id_sorted_append)+
  have "\<forall>e\<in>set ?L. beyond (rd_lastSentId ?r) e \<longrightarrow> e \<in> set ?pg \<or> (\<forall>p\<in>set ?pg. e_id p < e_id e)"
  proof (intro ballI impI)
    fix e assume "e \<in> set ?L" "beyond (rd_lastSentId ?r) e"
    then have "e \<in> set ?pg \<or> e \<in> set (drop SSE_REPLAY_PAGE ?U)" using U(2) split by (metis (lifting) Un_iff mem_Collect_eq set_append)
    then show "e \<in> set ?pg \<or> (\<forall>p\<in>set ?pg. e_id p < e_id e)" using sp(2) by blast
  qed
  moreover have "set ?pg \<subseteq> set ?L" using U(2) by (auto dest: in_set_takeD)
  moreover have "\<not> rd_closed ?r1"
    using open_ full U(2) by (auto simp: SSE_REPLAY_PAGE_def)
  ultimately have "\<forall>e\<in>set ?L. beyond (rd_lastSentId ?r1) e \<longleftrightarrow> beyond (rd_lastSentId ?r) e \<and> e \<notin> set ?pg"
    using write_in_order_all[OF L ok sp(1), of works] by auto
  then have "unsent i (replay_round works i s) = filter (\<lambda>e. e \<notin> set ?pg) ?U"
    unfolding run by (auto simp: unsent_def intro!: filter_cong)
  also have "\<dots> = drop SSE_REPLAY_PAGE ?U" using filter_after[OF sp(2)] by simp
  finally show ?thesis using full by simp
qed

lemma round_inv:
  assumes "tail_inv i a0 s"
  shows "tail_inv i a0 (replay_round works i s)"
  unfolding replay_round_def
  using assms tail_step_ok[OF assms, of Query_page works] tail_step_ok[where a = Handle_page]
  by (auto split: option.splits)

text \<open>C30: the replay loop ends: on a log that stands still, after more rounds than the owed events fill
  pages, the reader has left the loop, whichever writes the socket accepts.\<close>

theorem replay_terminates:
  assumes "id_sorted (job_log i db)" "us = drop k (job_log i db)"
    and "length (owed i a0 db) < n * SSE_REPLAY_PAGE"
  shows "tl_pc ((replay_round works i ^^ n) (attach a0 db us)) \<noteq> Tail_query"
proof -
  have "tl_pc ((replay_round works i ^^ n) s) \<noteq> Tail_query"
    if "tail_inv i a0 s" "length (unsent i s) < n * SSE_REPLAY_PAGE" for s n
    using that
  proof (induction n arbitrary: s)
    case (Suc n)
    let ?s = "replay_round works i s"
    have stay: "(replay_round works i ^^ m) t = t" if "tl_pc t \<noteq> Tail_query" for m t
      using that by (induction m) (simp_all add: replay_round_def)
    show ?case
    proof (cases "tl_pc ?s = Tail_query \<and> tl_pc s = Tail_query")
      case True
      then have "length (unsent i ?s) < n * SSE_REPLAY_PAGE"
        using round_shrinks[OF Suc.prems(1)] Suc.prems(2) by fastforce
      then show ?thesis using Suc.IH[OF round_inv[OF Suc.prems(1)]] by (simp add: funpow_swap1)
    next
      case False
      moreover have "?s = s" if "tl_pc s \<noteq> Tail_query" using that by (simp add: replay_round_def)
      ultimately have "tl_pc ?s \<noteq> Tail_query" by metis
      then show ?thesis using stay[of ?s n] by (simp add: funpow_swap1)
    qed
  qed simp
  from this[OF attach_ok[OF assms(1,2)]] assms(3) show ?thesis
    by (simp add: unsent_def owed_def attach_def open_reader_def)
qed


section \<open>Witnesses\<close>

definition log_event :: "nat \<Rightarrow> dev_job_event" where
  "log_event n = \<lparr>e_id = n, e_jobId = ''j1'', e_provision = 1, e_seq = n, e_type = Ev_log, e_ts = 0, e_payload = JNull\<rparr>"

definition tail_run :: "tail_act list \<Rightarrow> tail_state \<Rightarrow> tail_state" where
  "tail_run acts s = fold (\<lambda>a s. case tail_do (\<lambda>_. True) ''j1'' a s of None \<Rightarrow> s | Some s' \<Rightarrow> s') acts s"

lemma tail_run_reach: "tail_reach (\<lambda>_. True) ''j1'' False s (tail_run acts s)"
proof (induction acts rule: rev_induct)
  case (snoc a acts)
  then show ?case by (auto simp: tail_run_def intro: tail_act split: option.splits)
qed (simp add: tail_run_def tail_start)

definition orderly_run :: "tail_act list \<Rightarrow> tail_state \<Rightarrow> bool" where
  "orderly_run acts s \<longleftrightarrow>
     list_all (\<lambda>n. orderly ''j1'' (acts ! n) (tail_run (take n acts) s)) [0..<length acts]"

lemma orderly_run_reach: "orderly_run acts s \<Longrightarrow> tail_reach (\<lambda>_. True) ''j1'' True s (tail_run acts s)"
proof (induction acts rule: rev_induct)
  case (snoc a acts)
  have all: "orderly ''j1'' ((acts @ [a]) ! n) (tail_run (take n (acts @ [a])) s)" if "n \<le> length acts" for n
    using snoc.prems that by (simp add: orderly_run_def list_all_iff del: upt_Suc)
  have "orderly_run acts s"
    unfolding orderly_run_def list_all_iff
  proof
    fix n assume "n \<in> set [0..<length acts]"
    then show "orderly ''j1'' (acts ! n) (tail_run (take n acts) s)"
      using all[of n] by (simp add: nth_append)
  qed
  moreover have "orderly ''j1'' a (tail_run acts s)"
    using all[of "length acts"] by simp
  ultimately show ?case
    using snoc.IH by (auto simp: tail_run_def intro: tail_act split: option.splits)
qed (simp add: tail_run_def tail_start)

definition fresh_tail :: tail_state where
  "fresh_tail = attach None (empty_db\<lparr>db_events := [log_event 1]\<rparr>) [log_event 1]"

definition mid_replay :: "tail_act list" where
  "mid_replay = [Query_page, Commit (log_event 2), Publish (log_event 1), Handle_page, Publish (log_event 2),
     Final_check, Commit (log_event 3), Publish (log_event 3)]"

definition swapped_publish :: "tail_act list" where
  "swapped_publish = [Query_page, Handle_page, Final_check, Publish (log_event 1), Commit (log_event 2), Commit (log_event 3),
     Publish (log_event 3)]"

lemma mid_replay_facts:
  "orderly_run mid_replay fresh_tail"
  "tl_pc (tail_run mid_replay fresh_tail) = Tail_live" "\<not> rd_closed (tl_reader (tail_run mid_replay fresh_tail))"
  "tl_unpublished (tail_run mid_replay fresh_tail) = []"
  "owed ''j1'' None (tl_db (tail_run mid_replay fresh_tail)) = [log_event 1, log_event 2, log_event 3]"
  by code_simp+

lemma fresh_log: "id_sorted (job_log ''j1'' (empty_db\<lparr>db_events := [log_event 1]\<rparr>))"
  "[log_event 1] = drop 0 (job_log ''j1'' (empty_db\<lparr>db_events := [log_event 1]\<rparr>))"
  by (simp_all add: job_log_def empty_db_def log_event_def)

theorem tail_lossless_witness:
  "tail_reach (\<lambda>_. True) ''j1'' True fresh_tail (tail_run mid_replay fresh_tail) \<and>
   rd_out (tl_reader (tail_run mid_replay fresh_tail)) = [log_event 1, log_event 2, log_event 3]"
proof -
  have r: "tail_reach (\<lambda>_. True) ''j1'' True fresh_tail (tail_run mid_replay fresh_tail)"
    by (rule orderly_run_reach[OF mid_replay_facts(1)])
  from tail_lossless[OF fresh_log r[unfolded fresh_tail_def]] r show ?thesis
    using mid_replay_facts unfolding fresh_tail_def by simp
qed

theorem tail_never_regresses_witness:
  "set (rd_out (tl_reader (tail_run swapped_publish fresh_tail))) \<subseteq>
     set (owed ''j1'' None (tl_db (tail_run swapped_publish fresh_tail)))"
proof -
  have "set [log_event 1] \<subseteq> set (job_log ''j1'' (empty_db\<lparr>db_events := [log_event 1]\<rparr>))"
    by (simp add: job_log_def log_event_def)
  from tail_never_regresses[OF this tail_run_reach[of _ swapped_publish]]
  show ?thesis by (simp add: fresh_tail_def)
qed

theorem late_event_witness:
  "rd_out (tl_reader (tail_run swapped_publish fresh_tail)) = [log_event 1, log_event 3] \<and>
   log_event 2 \<in> set (tl_unpublished (tail_run swapped_publish fresh_tail)) \<and>
   (\<forall>acts. log_event 2 \<notin> set (rd_out (tl_reader (tail_run acts (tail_run swapped_publish fresh_tail)))))"
proof -
  have o: "rd_out (tl_reader (tail_run swapped_publish fresh_tail)) = [log_event 1, log_event 3]"
    "rd_lastSentId (tl_reader (tail_run swapped_publish fresh_tail)) = Some 3"
    "log_event 2 \<in> set (tl_unpublished (tail_run swapped_publish fresh_tail))"
    by code_simp+
  have "log_event 2 \<notin> set (rd_out (tl_reader (tail_run swapped_publish fresh_tail)))" "e_id (log_event 2) \<le> 3"
    unfolding o by (simp_all add: log_event_def)
  from late_event_lost[OF tail_run_reach this(1) o(2) this(2)] o show ?thesis by blast
qed

theorem replay_terminates_witness:
  "tl_pc ((replay_round (\<lambda>_. True) ''j1'' ^^ 1) fresh_tail) \<noteq> Tail_query"
proof -
  have "length (owed ''j1'' None (empty_db\<lparr>db_events := [log_event 1]\<rparr>)) < 1 * SSE_REPLAY_PAGE"
    by (simp add: owed_def job_log_def log_event_def SSE_REPLAY_PAGE_def)
  from replay_terminates[OF fresh_log this] show ?thesis by (simp add: fresh_tail_def)
qed

end
