(* ===== verification/RunnerSound.thy ===== *)
theory RunnerSound
  imports RunnerApi WorkerSound
begin

text \<open>
  What the phone-home router promises: a runner reaches no row but its own job's, a clone credential is
  issued once per provision however requests interleave, stored events are bounded; and two things it
  does not promise, that a result respects the phase of a gated job and that it is still wanted when it
  is written.
\<close>

section \<open>Writes confined to one row\<close>

definition confined :: "string \<Rightarrow> dev_db \<Rightarrow> dev_db \<Rightarrow> bool" where
  "confined i db db' \<longleftrightarrow> ids_distinct db' \<and> (\<forall>k. k \<noteq> i \<longrightarrow> getJob k db' = getJob k db)"

lemma confined_jobs: "\<lbrakk>ids_distinct db; db_jobs db' = db_jobs db\<rbrakk> \<Longrightarrow> confined i db db'"
  by (simp add: confined_def ids_distinct_def getJob_def)

lemma confined_trans: "\<lbrakk>confined i db db1; confined i db1 db2\<rbrakk> \<Longrightarrow> confined i db db2"
  by (simp add: confined_def)

lemma confined_update:
  assumes "ids_distinct db" "\<And>j. j_id (upd j) = j_id j"
  shows "confined i db (fst (update_job i guard upd db))"
  using assms by (simp add: confined_def ids_distinct_update getJob_update)

lemma confined_edge: "edge_step job db db' \<Longrightarrow> confined (j_id job) db db'"
  by (simp add: edge_step_def confined_def)

lemma confined_artifact:
  assumes "ids_distinct db" "addArtifact l now n u i k c m db = (db', r)"
  shows "confined i db db'"
  using assms by (intro confined_jobs) (auto simp: addArtifact_def Let_def split: option.splits if_splits prod.splits)

lemma confined_finish_append:
  assumes "ids_distinct db"
  shows "confined i db (fst (finish_append now i d st db))"
proof (cases "d = 0")
  case True
  then show ?thesis using confined_update[OF assms, of "beat_set now" i non_terminal]
    by (simp add: finish_append_def beat_def beat_set_def)
next
  case False
  obtain db1 m where r: "recordTruncationOnce now i d db = (db1, m)" by fastforce
  have c1: "confined i db db1" using recordTruncationOnce_jobs[of now i d db] r by (intro confined_jobs[OF assms]) simp
  then have "confined i db (beat now i db1)"
    using confined_trans[OF c1] confined_update[of db1 "beat_set now" i non_terminal]
    by (simp add: beat_def beat_set_def confined_def)
  then show ?thesis using False r c1 by (cases m) (simp_all add: finish_append_def)
qed

lemma confined_events:
  assumes "ids_distinct db" "appendEvents mx now i prov evs db = (db', r)"
  shows "confined i db db'"
proof -
  have same: "confined i db db" using assms(1) by (intro confined_jobs) simp_all
  have "confined i db (fst (finish_append now i d st db1))" if "insert_events i prov ts db = Inr (db1, x)" for d st db1 ts x
  proof -
    have c: "confined i db db1" using insert_events_jobs[OF that] by (rule confined_jobs[OF assms(1)])
    then show ?thesis
      using confined_trans[OF c confined_finish_append] by (simp add: confined_def)
  qed
  then show ?thesis
    using assms(2) same
    by (auto simp: appendEvents_def Let_def split: sum.splits if_splits) (metis fst_conv)+
qed

lemma confined_finalize:
  assumes "ids_distinct db" "wired_env env" "isTerminalDevJobStatus s"
    and "finalizeDevJob (ee_finalize env) i s ctx db = (db', effs, r)"
  shows "confined i db db'"
proof -
  obtain t rg th where w: "ee_finalize env = store_deps (ee_now env) t rg th"
    using assms(2) by (auto simp: wired_env_def)
  from finalize_db_cases[OF assms(1,3) assms(4)[unfolded w]] obtain db1 where
    d: "db1 = db \<or> db1 = fst (update_job i non_terminal (finish_set (ee_now env) s (patch_of ctx)) db)"
      "db_jobs db' = db_jobs db1" by blast
  have "confined i db db1"
    using d(1) confined_jobs[OF assms(1)] confined_update[OF assms(1), of "finish_set (ee_now env) s (patch_of ctx)"]
    by (auto simp: finish_set_def)
  then show ?thesis using d(2) by (simp add: confined_def ids_distinct_def getJob_def)
qed

section \<open>The handlers\<close>

definition wired_runner :: "runner_env \<Rightarrow> bool" where
  "wired_runner env \<longleftrightarrow> wired_env (engine_env.truncate env)"

lemma truncate_finalize [simp]: "ee_finalize (engine_env.truncate env) = ee_finalize env"
  by (simp add: engine_env.truncate_def)

text \<open>Every handler either leaves the state alone, or the snapshot's job was live and the writes stay on its
  row.\<close>

definition tame :: "dev_job \<Rightarrow> runner_state \<Rightarrow> runner_state \<Rightarrow> bool" where
  "tame job st st' \<longleftrightarrow>
     st' = st \<or> (non_terminal job \<and> confined (j_id job) (rs_db st) (rs_db st'))"

lemma tame_same [simp]: "tame job st st"
  by (simp add: tame_def)

lemma tame_gated:
  "(\<And>st' r'. \<lbrakk>non_terminal job; x = (st', r')\<rbrakk> \<Longrightarrow> tame job st st') \<Longrightarrow> gated_by job allowed st x = (st', r) \<Longrightarrow>
     tame job st st'"
  by (auto simp: gated_by_def statusGate_def non_terminal_def split: if_splits)

lemma tame_confined:
  "\<lbrakk>non_terminal job; confined (j_id job) (rs_db st) (rs_db st')\<rbrakk> \<Longrightarrow> tame job st st'"
  by (simp add: tame_def)

lemma tame_spec:
  assumes "ids_distinct (rs_db st)" "getSpec env job st = (st', r)"
  shows "tame job st st'"
proof -
  have "confined (j_id job) (rs_db st) (fst (markRunning now (j_id job) (rs_db st)))" for now
    using confined_update[OF assms(1), of "running_set now"] by (simp add: store_db running_set_def)
  then show ?thesis
    using assms confined_jobs[OF assms(1)] unfolding getSpec_def
    by (elim tame_gated[rotated]) (auto simp: tame_def Let_def split: option.splits)
qed

lemma tame_scm: "\<lbrakk>ids_distinct (rs_db st); getScmToken env job st = (st', r)\<rbrakk> \<Longrightarrow> tame job st st'"
  using confined_jobs[of "rs_db st" "rs_db st"] unfolding getScmToken_def
  by (elim tame_gated[rotated]) (auto simp: tame_def Let_def split: if_splits scm_answer.splits)

lemma tame_events:
  assumes "ids_distinct (rs_db st)" "postEvents env job body st = (st', r)"
  shows "tame job st st'"
proof -
  have "tame job st st1" if "store_events env job vs st = (st1, r1)" "non_terminal job" for vs st1 r1
    using that confined_events[OF assms(1)]
    by (auto simp: store_events_def tame_def split: if_splits prod.splits sum.splits)
  then show ?thesis
    using assms(2) unfolding postEvents_def
    by (elim tame_gated[rotated]) (auto split: if_splits option.splits json.splits sum.splits)
qed

lemma tame_heartbeat:
  assumes "ids_distinct (rs_db st)" "postHeartbeat env job st = (st', r)"
  shows "tame job st st'"
  using assms confined_update[OF assms(1), of "beat_set (ee_now env)"]
  by (auto simp: postHeartbeat_def tame_def store_db beat_set_def non_terminal_def split: if_splits)

lemma tame_diff:
  assumes "ids_distinct (rs_db st)" "postDiff env job body st = (st', r)"
  shows "tame job st st'"
  using assms(2) confined_artifact[OF assms(1)] unfolding postDiff_def
  by (elim tame_gated[rotated]) (auto simp: tame_def split: if_splits option.splits prod.splits sum.splits)

lemma tame_result:
  assumes "ids_distinct (rs_db st)" "wired_runner env" "postResult env job body st = (st', r)"
  shows "tame job st st'"
proof -
  have rec: "confined (j_id job) (rs_db st) (recordResult now (j_id job) res (rs_db st))" for now res
    using confined_update[OF assms(1), of "result_set now res"] by (simp add: store_db result_set_fields)
  have "confined (j_id job) (rs_db st) (rs_db st1)"
    if "finish_result env job res (st\<lparr>rs_db := recordResult now (j_id job) res (rs_db st)\<rparr>) = (st1, r1)" for res now st1 r1
  proof -
    have i: "ids_distinct (recordResult now (j_id job) res (rs_db st))" using rec by (simp add: confined_def)
    note fin = confined_finalize[OF i assms(2)[unfolded wired_runner_def], simplified]
    show ?thesis
      using that rec[of now res]
      by (auto simp: finish_result_def split: if_splits prod.splits sum.splits
          dest!: fin[of St_failed, simplified] fin[of St_done, simplified] intro: confined_trans)
  qed
  then show ?thesis
    using assms(3) unfolding postResult_def
    by (elim tame_gated[rotated]) (auto simp: tame_def split: if_splits prod.splits sum.splits)
qed

lemma tame_phase_result:
  assumes "ids_distinct (rs_db st)" "wired_runner env" "postPhaseResult env job body st = (st', r)"
  shows "tame job st st'"
  using assms(3) confined_edge[OF handlePhaseResult_step[OF assms(1) assms(2)[unfolded wired_runner_def]]]
  unfolding postPhaseResult_def
  by (elim tame_gated[rotated]) (auto simp: tame_def split: option.splits json.splits prod.splits)

lemma handle_tame:
  assumes "ids_distinct (rs_db st)" "wired_runner env" "handle env job req st = (st', r)"
  shows "tame job st st'"
proof -
  have body: "tame job st st1" if "with_body b h st = (st1, r1)" "\<And>v st2 r2. h v = (st2, r2) \<Longrightarrow> tame job st st2"
    for b :: "'b parsed_body" and h st1 r1
    using that by (cases b) (auto simp: with_body_def)
  show ?thesis
    using assms tame_spec tame_scm tame_events tame_heartbeat tame_diff tame_result tame_phase_result
    by (cases req) (auto simp: handle_def elim!: body)
qed

section \<open>Stored events\<close>

lemma insert_events_fields:
  "\<lbrakk>insert_events i prov us db = Inr (db', st); e \<in> set st\<rbrakk> \<Longrightarrow>
     e_jobId e = i \<and> e_provision e = prov \<and> (e_seq e, e_type e, e_ts e, e_payload e) \<in> set us"
proof (induction us arbitrary: db st)
  case (Cons u us)
  obtain sq ty ts pl where u: "u = (sq, ty, ts, pl)" by (cases u)
  from insert_events_step[OF Cons.prems(1)[unfolded u]] obtain db1 r st1 where
    s: "insert_event i prov sq ty ts pl db = Inr (db1, r)" "insert_events i prov us db1 = Inr (db', st1)"
      "st = (case r of None \<Rightarrow> st1 | Some e \<Rightarrow> e # st1)" by metis
  from s(1) show ?case
    by (cases rule: insert_event_cases) (use Cons.IH[OF s(2)] s(3) Cons.prems(2) u in auto)
qed simp

lemma finish_append_marker:
  assumes "finish_append now i d st db = (db', Inr (n, st'))" "e \<in> set (db_events db')"
  shows "e \<in> set (db_events db) \<or> is_truncation_marker e"
proof (cases "d = 0")
  case True
  then show ?thesis using assms by (auto simp: finish_append_def beat_def)
next
  case False
  obtain db1 x where r: "recordTruncationOnce now i d db = (db1, x)"
    by (cases "recordTruncationOnce now i d db")
  then obtain m where x: "x = Inr m" using assms False by (cases x) (auto simp: finish_append_def)
  from recordTruncationOnce_spec[OF r[unfolded x]] show ?thesis
    using assms False r x
    by (auto simp: finish_append_def beat_def is_truncation_marker_def truncation_payload_def split: if_splits)
qed

definition event_cap :: "runner_env \<Rightarrow> int" where
  "event_cap env = defaulted (rn_maxEventPayloadBytes env) DEFAULT_MAX_EVENT_PAYLOAD_BYTES"

definition payload_bytes :: "runner_env \<Rightarrow> json \<Rightarrow> int" where
  "payload_bytes env v = int (length (json_stringify (rn_num_text env) v))"

lemma vet_events_bounded:
  "\<lbrakk>vet_events env es = Inr vs; (sq, ty, ts, pl) \<in> set vs\<rbrakk> \<Longrightarrow>
     0 \<le> sq \<and> sq \<le> MAX_SEQ \<and> payload_bytes env pl \<le> event_cap env"
proof (induction es arbitrary: vs)
  case (Cons e es)
  then obtain v vs' where v: "vet_event env e = Inr v" "vet_events env es = Inr vs'" "vs = v # vs'"
    by (auto split: sum.splits)
  have "0 \<le> sq \<and> sq \<le> MAX_SEQ \<and> payload_bytes env pl \<le> event_cap env" if "v = (sq, ty, ts, pl)"
    using v(1) that by (auto simp: vet_event_def payload_bytes_def event_cap_def split: option.splits if_splits)
  then show ?case using Cons.IH[OF v(2)] Cons.prems(2) v(3) by auto
qed simp

lemma vet_events_refused: "vet_events env es \<noteq> Inl (Accepted_reply n)"
proof (induction es)
  case (Cons e es)
  have "vet_event env e \<noteq> Inl (Accepted_reply n)" by (auto simp: vet_event_def split: option.splits)
  then show ?case using Cons by (auto split: sum.splits)
qed simp

lemma store_events_bounded:
  assumes "vet_events env es = Inr vs" "store_events env job vs st = (st', Accepted_reply n)"
    and "e \<in> set (db_events (rs_db st'))" "e \<notin> set (db_events (rs_db st))" "\<not> is_truncation_marker e"
  shows "e_jobId e = j_id job \<and> e_provision e = j_provision job \<and> e_seq e \<le> 2147483647 \<and>
    payload_bytes env (e_payload e) \<le> event_cap env"
proof -
  let ?evs = "map (event_input env) vs"
  obtain db' st2 where ap: "appendEvents (rn_maxEvents env) (ee_now env) (j_id job) (j_provision job) ?evs (rs_db st) =
      (db', Inr (n, st2))" "rs_db st' = db'"
    using assms(2) by (auto simp: store_events_def internal_error_def split: if_splits prod.splits sum.splits)
  then have ne: "?evs \<noteq> []" using assms(3,4) by (auto simp: appendEvents_def)
  from appendEvents_cases[OF ap(1) ne] obtain ws kept db1 st1 where
    c: "validate_events ?evs = Inr ws"
      "kept = (if capped (rn_maxEvents env) (j_id job) (rs_db st) then filter (\<lambda>v. \<not> isLowValueEventType (snd v)) ws else ws)"
      "insert_events (j_id job) (j_provision job) (List.map (event_tuple_of (ee_now env)) kept) (rs_db st) = Inr (db1, st1)"
      "finish_append (ee_now env) (j_id job) (length ws - length kept) st1 db1 = (db', Inr (n, st2))" .
  have "e \<in> set st1"
    using finish_append_marker[OF c(4)] insert_events_stored[OF c(3)] assms(3-5) ap(2) by auto
  note f = insert_events_fields[OF c(3) this]
  then obtain w where w: "w \<in> set kept" "(e_seq e, e_type e, e_ts e, e_payload e) = event_tuple_of (ee_now env) w"
    by auto
  have "fst w \<in> set ?evs" using w(1) c(2) validate_events_spec[OF c(1)] by (metis (no_types, lifting) filter_is_subset image_eqI list.set_map subsetD)
  then obtain sq ty ts pl where v: "(sq, ty, ts, pl) \<in> set vs" "fst w = event_input env (sq, ty, ts, pl)"
    by auto
  have "e_seq e = nat \<lfloor>sq\<rfloor> \<and> e_payload e = pl"
    using w(2) v(2) by (cases w) (auto simp: event_tuple_of_def event_input_def)
  moreover have b: "0 \<le> sq" "sq \<le> MAX_SEQ" "payload_bytes env pl \<le> event_cap env"
    using vet_events_bounded[OF assms(1) v(1)] by auto
  have "\<lfloor>sq\<rfloor> \<le> \<lfloor>MAX_SEQ\<rfloor>" using b(2) by (rule floor_mono)
  then have "nat \<lfloor>sq\<rfloor> \<le> 2147483647" by (subst nat_le_iff) (simp add: MAX_SEQ_def)
  ultimately show ?thesis using f b by auto
qed

section \<open>Clone credentials under interleaving\<close>

definition scm_holds :: "scm_run \<Rightarrow> nat \<Rightarrow> bool" where
  "scm_holds w r \<longleftrightarrow> sr_pc w r = Scm_awaiting \<or> sr_pc w r = Scm_sent"

definition scm_inv :: "(nat \<Rightarrow> string \<times> nat) \<Rightarrow> scm_run \<Rightarrow> bool" where
  "scm_inv key w \<longleftrightarrow>
     (\<forall>a. scm_holds w a \<longrightarrow> key a \<in> sr_issued w) \<and>
     (\<forall>a b. scm_holds w a \<and> scm_holds w b \<and> key a = key b \<longrightarrow> a = b)"

lemma scm_reach_inv: "scm_reach key w \<Longrightarrow> scm_inv key w"
proof (induction rule: scm_reach.induct)
  case start
  then show ?case by (simp add: scm_inv_def scm_holds_def)
next
  case (step w w')
  from step.hyps(2) step.IH show ?case
    by cases (auto simp: scm_inv_def scm_holds_def split: if_splits)
qed

section \<open>Results\<close>

definition ready_body :: "string \<Rightarrow> json" where
  "ready_body a = JObj [(''outcome'', JStr ''diff_ready''), (''diffArtifactId'', JStr a)]"

definition ready_record :: "string \<Rightarrow> dev_job_result" where
  "ready_record a = \<lparr>r_outcome = Out_diff_ready, r_diffArtifactId = Some a, r_summary = None, r_error = None,
     r_usage = None\<rparr>"

lemma ready_row [simp]:
  "r_outcome (ready_record a) = Out_diff_ready" "j_phase (result_set now res j) = j_phase j"
  by (simp_all add: ready_record_def result_set_def Let_def)

lemma owned_artifact_named: "artifactBelongsToJob i a db \<Longrightarrow> a \<noteq> []"
  by (auto simp: artifactBelongsToJob_def UUID_RE_def)

lemma vet_ready:
  assumes "artifactBelongsToJob (j_id job) a db"
  shows "vet_result job (ready_body a) db = Inr (ready_record a, True)"
proof -
  show ?thesis using assms owned_artifact_named[OF assms]
    by (simp add: vet_result_def ready_body_def ready_record_def json_str_def json_num_def outcome_of_def
        sanitizeUsage_def storable_usage_def)
qed

text \<open>What a \<open>diff_ready\<close> result does to the row at the time it is written.\<close>

lemma ready_result:
  assumes "ids_distinct (rs_db st)" "getJob i (rs_db st) = Some j" "non_terminal j"
    and "j_id snap = i" "j_status snap = St_running" "artifactBelongsToJob i a (rs_db st)"
    and "handle env snap (Post_result (Parsed (ready_body a))) st = (st', r)"
  shows "r = Ok_reply \<and> db_gates (rs_db st') = db_gates (rs_db st) \<and>
    getJob i (rs_db st') = Some (result_set (ee_now env) (ready_record a) j)"
proof -
  have "st' = st\<lparr>rs_db := recordResult (ee_now env) i (ready_record a) (rs_db st)\<rparr> \<and> r = Ok_reply"
    using assms(7) vet_ready[of snap a "rs_db st"] assms(4-6)
    by (simp add: handle_def with_body_def postResult_def gated_by_def statusGate_def finish_result_def ready_record_def)
  then show ?thesis
    using assms(1-3) by (simp add: recordResult_def getJob_update result_set_fields)
qed

text \<open>A result without usage, or with the runner's own figures, replaces what the proxy has metered.\<close>

lemma result_erases_metered_usage:
  "j_tokensIn (result_set now (ready_record a) j) = 0" "j_costUsd (result_set now (ready_record a) j) = 0"
  by (simp_all add: result_set_def ready_record_def numeric4_def floor_eq_iff)

lemma diff_of_ready [simp]: "a \<noteq> [] \<Longrightarrow> diff_artifact_of (result_set now (ready_record a) j) = Some a"
  by (simp add: diff_artifact_of_def result_set_def ready_record_def Let_def)

section \<open>Properties\<close>

text \<open>C10: a runner reaches nothing but its own live job: a request that changes anything carried a bearer
  token whose hash is the stored hash of the job it names, that job was not finished, and no other
  job's row was touched.\<close>

theorem runner_confined:
  assumes "serve env header i req st = (st', r)" "st' \<noteq> st" "ids_distinct (rs_db st)" "wired_runner env"
  shows "\<exists>t j. bearerToken header = Some t \<and> verifyRunnerToken (ee_sha256 env) i t (rs_db st) \<and>
    getJob i (rs_db st) = Some j \<and> non_terminal j \<and>
    (\<forall>k. k \<noteq> i \<longrightarrow> getJob k (rs_db st') = getJob k (rs_db st))"
proof -
  from assms(1,2) obtain t j where t: "bearerToken header = Some t"
    "verifyRunnerToken (ee_sha256 env) i t (rs_db st)" "getJob i (rs_db st) = Some j"
    "handle env j req st = (st', r)"
    by (auto simp: serve_def authMw_def split: option.splits if_splits)
  have "j_id j = i" using getJob_SomeD[OF t(3)] by simp
  then show ?thesis
    using handle_tame[OF assms(3,4) t(4)] t(1-3) assms(2) by (auto simp: tame_def confined_def)
qed

text \<open>C12: a clone credential is issued once per job and provision: however many requests for it overlap, no
  two of them are answered with a credential for the same job and provision.\<close>

theorem scm_token_once:
  assumes "scm_reach key w" "sr_pc w a = Scm_sent" "sr_pc w b = Scm_sent" "key a = key b"
  shows "a = b"
  using scm_reach_inv[OF assms(1)] assms(2-4) by (auto simp: scm_inv_def scm_holds_def)

text \<open>Stored runner events are bounded: every event an accepted batch adds, other than the truncation
  marker, belongs to the authenticated job and its current provision, has a sequence number that fits
  the column, and a payload within the cap.\<close>

theorem stored_events_bounded:
  assumes "postEvents env job body st = (st', Accepted_reply n)"
    and "e \<in> set (db_events (rs_db st'))" "e \<notin> set (db_events (rs_db st))" "\<not> is_truncation_marker e"
  shows "e_jobId e = j_id job \<and> e_provision e = j_provision job \<and> e_seq e \<le> 2147483647 \<and>
    payload_bytes env (e_payload e) \<le> event_cap env"
proof -
  from assms(1) obtain es vs where "vet_events env es = Inr vs" "store_events env job vs st = (st', Accepted_reply n)"
    unfolding postEvents_def gated_by_def statusGate_def
    by (auto simp: vet_events_refused split: if_splits option.splits json.splits sum.splits)
  then show ?thesis using store_events_bounded assms(2-4) by blast
qed

text \<open>C11: a result is accepted in any phase: a running job's \<open>diff_ready\<close> with a diff artifact of its own
  moves the job straight to the host-side apply, whatever phase its pipeline is in and without any
  gate having been opened; the phase stays where it was.\<close>

theorem result_skips_review_gate:
  assumes "ids_distinct (rs_db st)" "authMw env header i (rs_db st) = Inr job" "j_status job = St_running"
    and "artifactBelongsToJob i a (rs_db st)"
    and "serve env header i (Post_result (Parsed (ready_body a))) st = (st', r)"
  shows "r = Ok_reply \<and> db_gates (rs_db st') = db_gates (rs_db st) \<and>
    (\<exists>j. getJob i (rs_db st') = Some j \<and> j_status j = St_applying \<and> j_phase j = j_phase job \<and>
       diff_artifact_of j = Some a)"
proof -
  have job: "getJob i (rs_db st) = Some job" using assms(2) by (auto simp: authMw_def split: option.splits if_splits)
  have h: "handle env job (Post_result (Parsed (ready_body a))) st = (st', r)"
    using assms(2,5) by (simp add: serve_def)
  show ?thesis
    using ready_result[OF assms(1) job _ _ assms(3) assms(4) h] getJob_SomeD[OF job] assms(3) owned_artifact_named[OF assms(4)]
    by (auto simp: non_terminal_def)
qed

text \<open>A result can outlive its moment: a result request authenticated while the job was running, whose
  body arrives after the job was parked at a gate, takes the job off the gate and makes another
  diff the one to apply, while the gate stays open for the approval of the first.\<close>

theorem late_result_swaps_gated_diff:
  assumes "ids_distinct (rs_db st)" "getJob i (rs_db st) = Some j" "j_status j = St_waiting"
    and "waiting_gate_of i (rs_db st) = Some g" "diff_artifact_of j = Some old" "old \<noteq> a"
    and "j_id snap = i" "j_status snap = St_running" "artifactBelongsToJob i a (rs_db st)"
    and "handle env snap (Post_result (Parsed (ready_body a))) st = (st', r)"
  shows "r = Ok_reply \<and> waiting_gate_of i (rs_db st') = Some g \<and>
    (\<exists>j'. getJob i (rs_db st') = Some j' \<and> j_status j' = St_applying \<and> diff_artifact_of j' = Some a)"
  using ready_result[OF assms(1,2) _ assms(7,8,9,10)] assms(3,4) owned_artifact_named[OF assms(9)]
  by (auto simp: non_terminal_def waiting_gate_of_def)

section \<open>Witnesses\<close>

definition example_runner_env :: runner_env where
  "example_runner_env = engine_env.extend PhaseEngine.example_env
     \<lparr>rn_num_text = (\<lambda>_. ''0''), rn_parse_json = (\<lambda>_. None), rn_parse_ts = (\<lambda>_. None),
      rn_resolve = (\<lambda>_ _ _. Scm_token ''ghs''), rn_maxEvents = 100, rn_wallClockMs = None,
      rn_scmTokenTtlMs = None, rn_maxDiffBytes = None, rn_maxEventsPerBatch = None,
      rn_maxEventPayloadBytes = None, rn_agentModel = None, rn_maxTurns = None, rn_daemonToken = None,
      rn_jobPolicyConfig = None, rn_parse_url = (\<lambda>_. None), rn_minted = ''djr_new''\<rparr>
     \<lparr>ee_sha256 := (\<lambda>s. if s = ''djr_tok'' then ''ab12'' else ''00'')\<rparr>"

definition running_job :: dev_job where
  "running_job = example_job\<lparr>j_runnerTokenHash := Some ''ab12'', j_result := None\<rparr>"

definition own_diff :: dev_job_artifact where
  "own_diff = \<lparr>a_id = lease_uuid, a_jobId = ''j1'', a_kind = Art_diff, a_content = ''d'', a_meta = JObj [],
     a_createdAt = 3\<rparr>"

definition running_state :: runner_state where
  "running_state = \<lparr>rs_db = example_db\<lparr>db_jobs := [running_job], db_artifacts := [own_diff]\<rparr>,
     rs_issued = [], rs_effects = []\<rparr>"

lemmas running_defs = running_state_def running_job_def own_diff_def example_defs

lemma running_facts:
  "ids_distinct (rs_db running_state)" "getJob ''j1'' (rs_db running_state) = Some running_job"
  "artifactBelongsToJob ''j1'' lease_uuid (rs_db running_state)" "j_status running_job = St_running"
  "j_id running_job = ''j1''" "j_phase running_job = Ph_analyze" "j_pipelineMode running_job = JobTypes.Gated"
  "authMw example_runner_env (Some ''Bearer djr_tok'') ''j1'' (rs_db running_state) = Inr running_job"
  "wired_runner example_runner_env"
proof -
  show b: "artifactBelongsToJob ''j1'' lease_uuid (rs_db running_state)" by code_simp
  have v: "verifyRunnerToken (ee_sha256 example_runner_env) ''j1'' ''djr_tok'' (rs_db running_state)" by code_simp
  have t: "bearerToken (Some ''Bearer djr_tok'') = Some ''djr_tok''" by code_simp
  show g: "getJob ''j1'' (rs_db running_state) = Some running_job" by (simp add: running_defs getJob_def)
  show "authMw example_runner_env (Some ''Bearer djr_tok'') ''j1'' (rs_db running_state) = Inr running_job"
    by (simp add: authMw_def t v g)
  show "wired_runner example_runner_env"
    by (auto simp: wired_runner_def wired_env_def example_runner_env_def engine_env.truncate_def engine_env.extend_def
        PhaseEngine.example_env_def)
qed (simp_all add: ids_distinct_def running_defs)

lemma running_serve:
  obtains st' r where
    "serve example_runner_env (Some ''Bearer djr_tok'') ''j1'' (Post_result (Parsed (ready_body lease_uuid)))
       running_state = (st', r)"
  by fastforce

theorem result_skips_review_gate_witness:
  "\<exists>st' j. serve example_runner_env (Some ''Bearer djr_tok'') ''j1'' (Post_result (Parsed (ready_body lease_uuid)))
       running_state = (st', Ok_reply) \<and> getJob ''j1'' (rs_db st') = Some j \<and> j_status j = St_applying \<and>
     j_phase j = Ph_analyze \<and> j_pipelineMode running_job = JobTypes.Gated \<and> db_gates (rs_db st') = []"
proof -
  obtain st' r where s: "serve example_runner_env (Some ''Bearer djr_tok'') ''j1''
      (Post_result (Parsed (ready_body lease_uuid))) running_state = (st', r)" by (rule running_serve)
  have "db_gates (rs_db running_state) = []" by (simp add: running_defs)
  then show ?thesis
    using result_skips_review_gate[OF running_facts(1,8,4,3) s] s running_facts(6,7) by auto
qed

theorem runner_confined_witness:
  "\<exists>st' r. serve example_runner_env (Some ''Bearer djr_tok'') ''j1'' (Post_result (Parsed (ready_body lease_uuid)))
       running_state = (st', r) \<and> st' \<noteq> running_state \<and>
     (\<exists>t j. bearerToken (Some ''Bearer djr_tok'') = Some t \<and>
        verifyRunnerToken (ee_sha256 example_runner_env) ''j1'' t (rs_db running_state) \<and>
        getJob ''j1'' (rs_db running_state) = Some j \<and> non_terminal j)"
proof -
  obtain st' r where s: "serve example_runner_env (Some ''Bearer djr_tok'') ''j1''
      (Post_result (Parsed (ready_body lease_uuid))) running_state = (st', r)" by (rule running_serve)
  then have h: "handle example_runner_env running_job (Post_result (Parsed (ready_body lease_uuid))) running_state = (st', r)"
    by (simp add: serve_def running_facts)
  have "getJob ''j1'' (rs_db st') \<noteq> getJob ''j1'' (rs_db running_state)"
    using ready_result[OF running_facts(1,2) _ running_facts(5,4,3) h] running_facts(2,4)
    by (auto simp: non_terminal_def dest: arg_cong[where f = j_status])
  then have n: "st' \<noteq> running_state" by auto
  show ?thesis using runner_confined[OF s n running_facts(1,9)] s n by blast
qed

definition parked_job :: dev_job where
  "parked_job = running_job\<lparr>j_status := St_waiting, j_phase := Ph_review, j_result := Some (ready_record ''d1'')\<rparr>"

definition policy_gate :: dev_job_gate where
  "policy_gate = \<lparr>g_id = ''g1'', g_jobId = ''j1'', g_gateKind = Diff_policy_gate, g_planArtifactId = None,
     g_planSha256 = None, g_baseSha = None, g_questions = [], g_principalKind = Principal_user,
     g_principalRef = ''admin'', g_status = Gate_waiting, g_answers = None, g_resolvedBy = None,
     g_resolvedAt = None, g_deadlineAt = None, g_createdAt = 5\<rparr>"

definition parked_state :: runner_state where
  "parked_state = running_state\<lparr>rs_db := (rs_db running_state)\<lparr>db_jobs := [parked_job], db_gates := [policy_gate]\<rparr>\<rparr>"

theorem late_result_witness:
  "\<exists>st'. handle example_runner_env running_job (Post_result (Parsed (ready_body lease_uuid))) parked_state =
       (st', Ok_reply) \<and> waiting_gate_of ''j1'' (rs_db st') = Some policy_gate \<and>
     (\<exists>j'. getJob ''j1'' (rs_db st') = Some j' \<and> j_status j' = St_applying \<and>
        diff_artifact_of j' = Some lease_uuid)"
proof -
  obtain st' r where h: "handle example_runner_env running_job (Post_result (Parsed (ready_body lease_uuid)))
      parked_state = (st', r)" by fastforce
  have f: "ids_distinct (rs_db parked_state)" "getJob ''j1'' (rs_db parked_state) = Some parked_job"
    "j_status parked_job = St_waiting" "waiting_gate_of ''j1'' (rs_db parked_state) = Some policy_gate"
    "diff_artifact_of parked_job = Some ''d1''"
    by (simp_all add: ids_distinct_def getJob_def parked_state_def parked_job_def policy_gate_def running_defs
        waiting_gate_of_def is_waiting_def diff_artifact_of_def ready_record_def)
  have n: "''d1'' \<noteq> lease_uuid" by (simp add: lease_uuid_def)
  have b: "artifactBelongsToJob ''j1'' lease_uuid (rs_db parked_state)" by code_simp
  show ?thesis
    using late_result_swaps_gated_diff[OF f n running_facts(5,4) b h] h by auto
qed

theorem scm_token_once_witness:
  "\<exists>w. scm_reach (\<lambda>_. (''j1'', 1)) w \<and> sr_pc w 1 = Scm_over \<and> (\<exists>!a. sr_pc w a = Scm_sent)"
proof -
  let ?k = "\<lambda>_ :: nat. (''j1'', 1 :: nat)"
  obtain w1 where w1: "scm_reach ?k w1" "sr_issued w1 = {(''j1'', 1)}" "sr_pc w1 = (\<lambda>_. Scm_start)(0 := Scm_awaiting)"
    using scm_reach.step[OF scm_reach.start scm_step.reserve, of 0 ?k] by auto
  obtain w2 where w2: "scm_reach ?k w2" "sr_pc w2 = (sr_pc w1)(1 := Scm_over)"
    using scm_reach.step[OF w1(1) scm_step.refuse, of 1] w1(2,3) by auto
  obtain w where w: "scm_reach ?k w" "sr_pc w = (sr_pc w2)(0 := Scm_sent)"
    using scm_reach.step[OF w2(1) scm_step.send, of 0] w2(2) w1(3) by auto
  have "\<exists>!a. sr_pc w a = Scm_sent"
  proof (rule ex1I[of _ 0])
    show s: "sr_pc w 0 = Scm_sent" using w(2) by simp
    show "a = 0" if "sr_pc w a = Scm_sent" for a by (rule scm_token_once[OF w(1) that s refl])
  qed
  then show ?thesis using w w2(2) by (intro exI[of _ w]) simp
qed

definition example_events :: json where
  "example_events = JObj [(''provision'', JNum 1), (''events'', JArr [
     JObj [(''seq'', JNum 7), (''type'', JStr ''log''), (''payload'', JObj [(''line'', JStr ''hi'')])]])]"

lemma example_events_posted:
  "snd (postEvents example_runner_env running_job example_events running_state) = Accepted_reply 1"
  "map (\<lambda>e. (e_seq e, is_truncation_marker e))
     (db_events (rs_db (fst (postEvents example_runner_env running_job example_events running_state)))) = [(7, False)]"
  "db_events (rs_db running_state) = []"
  by code_simp+

theorem stored_events_bounded_witness:
  "\<exists>st' e. postEvents example_runner_env running_job example_events running_state = (st', Accepted_reply 1) \<and>
     e \<in> set (db_events (rs_db st')) \<and> e_jobId e = ''j1'' \<and> e_provision e = 1 \<and> e_seq e \<le> 2147483647 \<and>
     payload_bytes example_runner_env (e_payload e) \<le> 65536"
proof -
  obtain st' where p: "postEvents example_runner_env running_job example_events running_state = (st', Accepted_reply 1)"
    using example_events_posted(1) by (metis prod.collapse)
  obtain e where e: "db_events (rs_db st') = [e]" "\<not> is_truncation_marker e"
    using example_events_posted(2) p by auto
  have c: "event_cap example_runner_env = 65536" "j_provision running_job = 1" by code_simp+
  show ?thesis
    using stored_events_bounded[OF p, of e] e example_events_posted(3) p running_facts(5) c by auto
qed

end
