(* ===== verification/Spec2Isabelle.thy ===== *)
theory Spec2Isabelle
  imports JobContainers ProxySound LlmSound WebhookSound PollerSound AdminSound BriefSound GateSound TailSound WorkerSound RunnerSound DiffSound EventInv ReviewLoop PathGlobs EgressPolicy
begin

text \<open>
  The omadia dev platform runs coding agents on registered repositories: a job is launched by an operator, a chat tool
  or an inbound ticket, executed by an untrusted agent in a container, and its diff is applied to the forge by the
  host.  This development models the code that decides (\<open>src/packages/plugin/src\<close>, the plugin in the middleware
  process, and \<open>src/sidecars/dev-runner-daemon/src\<close>, the daemon that owns the containers) and proves what makes each
  part correct and what the parts guarantee together.

  \<^bold>\<open>The parts and how they interact.\<close>  Every trigger inserts a row of \<open>dev_jobs\<close>.  The worker claims queued rows
  under a lease, asks a backend (in production the daemon) for a container and applies the diff of a finished
  job.  The container reports over the phone-home API with a token of its own; phase results go through the phase
  engine, which advances the job, parks it at a human gate or ends it.  Gates are decided over the admin routes or by
  their deadline.  Every way a job ends passes the finalize choke point.  Events are appended throughout and read
  by a live tail.  The container's model calls pass the LLM proxy, which meters them; all its other traffic passes
  the daemon's egress proxy, under an allowlist the plugin derives and the daemon vets again.

  \<^bold>\<open>Theories and sources.\<close>
  \<^item> \<open>DevPrelude\<close>: byte strings, JSON, tables and their conditional UPDATE, with the locales \<open>guarded_update\<close>,
    \<open>row_invariant\<close> and \<open>cas_update\<close>, interpreted where a store method satisfies them.  \<open>JobTypes\<close> (\<open>types.ts\<close>,
    \<open>pgMappers.ts\<close>), \<open>JsonText\<close> (\<open>JSON.stringify\<close>), \<open>ExampleData\<close> (rows for the witnesses).
  \<^item> The store: \<open>JobStore\<close> (\<open>devJobStore.ts\<close>), \<open>EventLog\<close> (events, artifacts, \<open>retention.ts\<close>), \<open>GateStore\<close>
    (\<open>pipeline/gateStore.ts\<close>), \<open>FinalizeJob\<close> (\<open>finalizeDevJob.ts\<close>, over the locale \<open>finalize_store\<close>).  \<open>EventInv\<close> and
    \<open>Lifecycle\<close> make the methods one transition system: the invariants of all reachable databases, the status graph
    every write refines, leases, oldest-first claims.
  \<^item> The pipeline: \<open>Transitions\<close> (\<open>pipeline/transitions.ts\<close>), \<open>ReviewLoop\<close>, \<open>PhaseEngine\<close> with the wiring of
    \<open>wireDevPlatform.ts\<close>, \<open>GateFlow\<close> and \<open>GateSound\<close> (\<open>routes/devPlatformGates.ts\<close>, the deadline worker).
  \<^item> Diffs: \<open>UnifiedDiff\<close> (\<open>policy/parseUnifiedDiff.ts\<close>) with \<open>DiffSound\<close>, which states what a hunk means and proves the
    applier equal to it; \<open>PathGlobs\<close>, \<open>SecretScan\<close>, \<open>DiffPolicy\<close> (the rest of \<open>policy/\<close>); \<open>DiffApply\<close>
    (\<open>diffApplyService.ts\<close>, the commit path of \<open>githubForgeClient.ts\<close>).
  \<^item> Execution: \<open>JobWorker\<close> and \<open>WorkerSound\<close> (\<open>devJobWorker.ts\<close>), \<open>RunnerApi\<close> and \<open>RunnerSound\<close>
    (\<open>routes/devRunnerApi.ts\<close>, \<open>routes/devRunnerJobPolicyRoute.ts\<close>), \<open>EgressPolicy\<close> (\<open>deriveJobPolicy.ts\<close>,
    \<open>host/ssrfGuard.ts\<close>), \<open>LlmBudget\<close>, \<open>LlmProxy\<close> and \<open>LlmSound\<close> (\<open>llmProxy.ts\<close>, \<open>llmProxyAccounting.ts\<close>).
  \<^item> Reading and administration: \<open>EventTail\<close> and \<open>TailSound\<close> (\<open>devJobEventBus.ts\<close>, the event stream of
    \<open>routes/devPlatform.ts\<close>), \<open>AdminShared\<close>, \<open>AdminJobs\<close>, \<open>AdminRepos\<close>, \<open>AdminSound\<close>, \<open>BriefSound\<close> (the job and
    repository routes, \<open>briefComposer.ts\<close>, \<open>devRepoStore.ts\<close>).
  \<^item> Triggers: \<open>Triggers\<close>, \<open>Webhooks\<close>, \<open>WebhookSound\<close>, \<open>PollerSound\<close> (\<open>triggers/\<close>, \<open>routes/devWebhooks.ts\<close>).
  \<^item> The daemon: \<open>DaemonPolicy\<close> and \<open>DaemonSound\<close> (\<open>policyClient.mjs\<close>, \<open>netClassify.mjs\<close>, and their agreement with the
    plugin's side), \<open>EgressProxy\<close> and \<open>ProxySound\<close> (\<open>egressPolicy.mjs\<close>, \<open>proxy.mjs\<close>, \<open>auth.mjs\<close>), \<open>ContainerClamp\<close> and
    \<open>ContainerSound\<close> (\<open>clamp.mjs\<close>), \<open>JobManager\<close> (the registry of \<open>jobs.mjs\<close> and \<open>reaper.mjs\<close>), \<open>JobRegistry\<close> and
    \<open>JobHandles\<close> (its invariants), \<open>JobSound\<close> and \<open>JobContainers\<close> (what they give: confinement, handles, bounds, grants).

  \<^bold>\<open>How state and operations correspond.\<close>  A table is a list of rows in \<open>dev_db\<close>; a SQL statement is one atomic function of
  the database and of the clock value it writes.  A class with fields is a record, a method a function returning
  the updated record, a throw the left side of a sum.  Code that other code can interleave with is cut at its awaits:
  \<open>fin_step\<close> (finalizers), \<open>scm_step\<close> (the one-shot credential), \<open>tail_do\<close> (event readers), \<open>hook_step\<close> and \<open>hook_trans\<close>
  (webhook deliveries), \<open>proxy_step\<close> (proxied connections), \<open>job_step\<close> (the daemon's registry); the theorems about
  these hold for every interleaving.  \<open>authMw\<close> and the handlers of the phone-home API run at two moments, so a handler may
  act on a stale snapshot.

  \<^bold>\<open>What the groups of lemmas show.\<close>  Invariants: of all reachable databases, of a batch of events, of the proxy's
  tunnels, of the daemon's containers and their handles.  Refinement: stored phases move along the phase graph, status
  writes along the status graph, the hunk applier implements the meaning of a hunk.  Equivalence: the chunked redactor and
  the redaction of the whole stream, the daemon's address classifier and the plugin's on the entries they share, the
  plugin's policy and the daemon's acceptance.  Safety: gates cannot be bypassed, no diff reaches the forge unvetted, a
  runner reaches its own job only, the provider key is not delivered, only vetted addresses are dialled, containers
  are confined and share nothing.  Liveness and bounds: healing after a crash between two writes, lossless
  tails, rate limits, caps on containers, lifetimes.  Error theorems state where the code does not do what it means to.

  \<^bold>\<open>Parameters, bounds and fuel.\<close>  Strings are UTF-8 byte strings, so lengths are in bytes.  Floating point numbers are exact
  rationals, entropies exact reals; \<open>entropy_reaches\<close> decides the thresholds in integers.  Identifiers are taken to be well
  formed where a column type enforces it.  Functions of the environment are parameters: hashes, HMAC, \<open>JSON.parse\<close>, base64,
  Node's URL parser, number printing, the forge, trackers, backends, name servers, the LLM upstream, the container
  engine; what a theorem needs of one is a hypothesis of it, with a witness.  Loops are structural or have measures; the
  undisturbed webhook run takes nine steps as fuel, more than the segments of one delivery, and the replay of the
  tail is shown to end on every log.  The step relations need no fuel.

  \<^bold>\<open>Not modelled.\<close>  The runner backends (\<open>dockerBackend.ts\<close>, \<open>flyMachinesBackend.ts\<close>, \<open>localProcessBackend.ts\<close>) and the Docker
  calls of \<open>jobs.mjs\<close>: control of runtimes that are not in the repository; the models take their outcomes.  The HTTP
  clients of forges and trackers, GitHub App onboarding and token minting, the purge of the schema: requests to
  services, with no decision the other parts rely on.  Chat tools and prompts, the operator interface, the host's session,
  vault and JWT adapters, the runner shim inside the container, \<open>tracker/commentBack.ts\<close> (which nothing calls): text, views and
  process control.  Of \<open>wireDevPlatform.ts\<close> and \<open>plugin.ts\<close> the closures that decide are modelled with the component
  they feed; the construction of routers and timers is not.  Of the daemon's HTTP server, image warming and image
  verification nothing is modelled; a request is a step of the registry.
\<close>

end
